(* ===== verification/Prelude.thy ===== *)
theory Prelude
  imports Main
begin

text \<open>
  Shared vocabulary of the development: the outcome of a Go call (a value, an error
  value, or a panic), the strings and maps of Go as the components use them, and the
  generic lemmas on them. Nothing here models a function of the repository; what is
  modelled of the language and its standard library is: \<open>error\<close> values built by
  \<open>errors.Errorf\<close> and \<open>errors.Wrapf\<close>, \<open>panic\<close>, \<open>map[string]string\<close>,
  \<open>strings.TrimSpace\<close>, \<open>strings.Split\<close>, \<open>strings.Join\<close>, \<open>strings.HasPrefix\<close>
  \<open>strings.Index\<close>, \<open>strings.Contains\<close>, \<open>strings.TrimSuffix\<close>
  and \<open>strconv.Atoi\<close>.
\<close>

section \<open>Collections of simplification rules\<close>

named_theorems res_simps \<open>evaluation of the outcome combinators\<close>
named_theorems go_defs \<open>definitions of Go library functions\<close>

section \<open>Go maps and error values\<close>

text \<open>
  A Go map from strings is represented by the list of its entries in key order, each key
  once, so that two equal maps are represented by the same list (\<open>reflect.DeepEqual\<close>
  is equality). Reading an absent key gives the zero value of the value type. The order in
  which \<open>range\<close> visits the entries is never taken from the list: where a result may
  depend on it, the order is a parameter of the definition.
\<close>

type_synonym gomap = "(string \<times> string) list"

definition mget :: "gomap \<Rightarrow> string \<Rightarrow> string" where
  "mget m k = (case map_of m k of None \<Rightarrow> '''' | Some v \<Rightarrow> v)"

definition mhas :: "gomap \<Rightarrow> string \<Rightarrow> bool" where
  "mhas m k = (map_of m k \<noteq> None)"

text \<open>
  A write replaces the entry of the key or adds one at the end; the maps the code writes to are
  only read by key afterwards.
\<close>

definition mput :: "string \<Rightarrow> 'v \<Rightarrow> (string \<times> 'v) list \<Rightarrow> (string \<times> 'v) list" where
  "mput k v m = (if k \<in> fst ` set m then map (\<lambda>(k', v'). if k' = k then (k, v) else (k', v')) m else m @ [(k, v)])"

definition mdel :: "string \<Rightarrow> (string \<times> 'v) list \<Rightarrow> (string \<times> 'v) list" where
  "mdel k m = filter (\<lambda>e. fst e \<noteq> k) m"

lemma mhas_mput [simp]: "mhas (mput k v m) k"
  by (induction m) (auto simp: mput_def mhas_def map_of_eq_None_iff image_iff split: if_splits)

text \<open>
  An error is the value the code builds: what the API server returned, or a format string
  with its arguments, possibly wrapped around another error. The text that \<open>Error()\<close>
  renders from it is not modelled: no branch of the code looks at it.
\<close>

datatype goerr =
    NotFound string
  | AlreadyExists string
  | ApiError string
  | Errorf string "goarg list"
  | Wrapf goerr string "goarg list"
and goarg =
    AS string
  | AI int
  | AL "string list"
  | AM gomap
  | AE goerr
  | AEs "goerr list"

definition IsNotFound :: "goerr \<Rightarrow> bool" where
  "IsNotFound e = (case e of NotFound _ \<Rightarrow> True | _ \<Rightarrow> False)"

definition IsAlreadyExists :: "goerr \<Rightarrow> bool" where
  "IsAlreadyExists e = (case e of AlreadyExists _ \<Rightarrow> True | _ \<Rightarrow> False)"

lemma IsNotFound_simps [simp]:
  "IsNotFound (NotFound n)" "\<not> IsNotFound (AlreadyExists n)" "\<not> IsNotFound (ApiError n)"
  "\<not> IsNotFound (Errorf f a)" "\<not> IsNotFound (Wrapf e f a)"
  by (simp_all add: IsNotFound_def)

lemma IsAlreadyExists_simps [simp]:
  "\<not> IsAlreadyExists (NotFound n)" "IsAlreadyExists (AlreadyExists n)" "\<not> IsAlreadyExists (ApiError n)"
  "\<not> IsAlreadyExists (Errorf f a)" "\<not> IsAlreadyExists (Wrapf e f a)"
  by (simp_all add: IsAlreadyExists_def)

section \<open>Outcomes\<close>

text \<open>
  What a call gives: a value (\<open>err == nil\<close>, or \<open>true, ""\<close> of a validation), an error
  (or \<open>false, msg\<close>), or a run-time panic (an index or slice bound out of range, a nil
  dereference), which no caller in the repository recovers from.
\<close>

datatype 'a res = Ok 'a | Err goerr | Panic string

type_synonym verdict = "unit res"

fun bindR :: "'a res \<Rightarrow> ('a \<Rightarrow> 'b res) \<Rightarrow> 'b res" where
  "bindR (Ok x) k = k x"
| "bindR (Err e) k = Err e"
| "bindR (Panic m) k = Panic m"

text \<open>\<open>errors.Wrapf\<close> on the error of a call.\<close>

fun wrapR :: "'a res \<Rightarrow> string \<Rightarrow> goarg list \<Rightarrow> 'a res" where
  "wrapR (Err e) f a = Err (Wrapf e f a)"
| "wrapR (Ok x) f a = Ok x"
| "wrapR (Panic m) f a = Panic m"

text \<open>\<open>errors.Errorf("... %v", err)\<close>: the error is replaced by a message quoting it.\<close>

fun quoteR :: "'a res \<Rightarrow> string \<Rightarrow> goarg list \<Rightarrow> 'a res" where
  "quoteR (Err e) f a = Err (Errorf f (a @ [AE e]))"
| "quoteR (Ok x) f a = Ok x"
| "quoteR (Panic m) f a = Panic m"

text \<open>A guard: the message is the outcome when the condition holds.\<close>

definition failIf :: "bool \<Rightarrow> goerr \<Rightarrow> verdict" where
  "failIf b e = (if b then Err e else Ok ())"

definition isOk :: "'a res \<Rightarrow> bool" where
  "isOk r = (case r of Ok _ \<Rightarrow> True | _ \<Rightarrow> False)"

text \<open>\<open>for _, x := range xs { if err := f(x); err != nil { return err } }\<close>\<close>

fun checkAll :: "('a \<Rightarrow> verdict) \<Rightarrow> 'a list \<Rightarrow> verdict" where
  "checkAll f [] = Ok ()"
| "checkAll f (x # xs) = bindR (f x) (\<lambda>_. checkAll f xs)"

text \<open>The same loop, threading the state of the API server.\<close>

fun checkAllS :: "('a \<Rightarrow> 's \<Rightarrow> verdict \<times> 's) \<Rightarrow> 'a list \<Rightarrow> 's \<Rightarrow> verdict \<times> 's" where
  "checkAllS f [] s = (Ok (), s)"
| "checkAllS f (x # xs) s =
     (case f x s of (Ok _, s') \<Rightarrow> checkAllS f xs s' | (Err e, s') \<Rightarrow> (Err e, s') | (Panic m, s') \<Rightarrow> (Panic m, s'))"

text \<open>A loop that collects one result per element and stops at the first error.\<close>

fun collect :: "('a \<Rightarrow> 'b res) \<Rightarrow> 'a list \<Rightarrow> 'b list res" where
  "collect f [] = Ok []"
| "collect f (x # xs) = bindR (f x) (\<lambda>y. bindR (collect f xs) (\<lambda>ys. Ok (y # ys)))"

lemma bindR_Ok_iff [res_simps]: "(bindR r k = Ok y) \<longleftrightarrow> (\<exists>x. r = Ok x \<and> k x = Ok y)"
  by (cases r) auto

lemma wrapR_Ok_iff [res_simps, simp]: "(wrapR r f a = Ok y) \<longleftrightarrow> r = Ok y"
  by (cases r) auto

lemma quoteR_Ok_iff [res_simps, simp]: "(quoteR r f a = Ok y) \<longleftrightarrow> r = Ok y"
  by (cases r) auto

lemma failIf_Ok_iff [res_simps, simp]: "(failIf b e = Ok u) \<longleftrightarrow> \<not> b"
  by (simp add: failIf_def)

lemma failIf_simps [simp]: "failIf True e = Err e" "failIf False e = Ok ()"
  by (simp_all add: failIf_def)

lemma failIf_no_Panic [simp]: "failIf b e \<noteq> Panic m"
  by (simp add: failIf_def)

lemma isOk_iff [simp]: "isOk (r :: verdict) \<longleftrightarrow> r = Ok ()"
  by (cases r) (auto simp: isOk_def)

lemma bindR_Panic_iff: "(bindR r k = Panic m) \<longleftrightarrow> (r = Panic m \<or> (\<exists>x. r = Ok x \<and> k x = Panic m))"
  by (cases r) auto

lemma bindR_assoc: "bindR (bindR r f) g = bindR r (\<lambda>x. bindR (f x) g)"
  by (cases r) auto

lemma checkAll_Ok_iff [res_simps]: "(checkAll f xs = Ok u) \<longleftrightarrow> (\<forall>x \<in> set xs. f x = Ok ())"
  by (induction xs) (auto simp: bindR_Ok_iff)

lemma checkAll_append: "checkAll f (xs @ ys) = bindR (checkAll f xs) (\<lambda>_. checkAll f ys)"
  by (induction xs) (auto simp: bindR_assoc)

lemma checkAll_Err:
  "checkAll f xs = Err e \<Longrightarrow> \<exists>ys x zs. xs = ys @ x # zs \<and> (\<forall>y \<in> set ys. f y = Ok ()) \<and> f x = Err e"
proof (induction xs)
  case Nil
  then show ?case by simp
next
  case (Cons x xs)
  show ?case
  proof (cases "f x")
    case (Ok u)
    with Cons obtain ys y zs where
      "xs = ys @ y # zs" "\<forall>z \<in> set ys. f z = Ok ()" "f y = Err e" by auto
    with Ok have "x # xs = (x # ys) @ y # zs \<and> (\<forall>z \<in> set (x # ys). f z = Ok ()) \<and> f y = Err e"
      by simp
    then show ?thesis by blast
  next
    case (Err e')
    with Cons.prems have "x # xs = [] @ x # xs \<and> (\<forall>z \<in> set []. f z = Ok ()) \<and> f x = Err e" by simp
    then show ?thesis by blast
  next
    case (Panic m)
    with Cons.prems show ?thesis by simp
  qed
qed

lemma collect_Ok_iff:
  "(collect f xs = Ok ys) \<longleftrightarrow> list_all2 (\<lambda>x y. f x = Ok y) xs ys"
  by (induction xs arbitrary: ys) (auto simp: bindR_Ok_iff list_all2_Cons1)

section \<open>Go strings\<close>

text \<open>
  A string is the list of its bytes. White space is the ASCII white space of
  \<open>unicode.IsSpace\<close>; label and annotation values, the strings the code trims, are ASCII.
\<close>

definition isSpace :: "char \<Rightarrow> bool" where
  "isSpace c = (c \<in> {CHR 0x09, CHR 0x0A, CHR 0x0B, CHR 0x0C, CHR 0x0D, CHR '' ''})"

definition TrimSpace :: "string \<Rightarrow> string" where
  "TrimSpace s = rev (dropWhile isSpace (rev (dropWhile isSpace s)))"

text \<open>\<open>strings.Split\<close> by a separator of one byte, which never returns an empty slice.\<close>

fun Split :: "char \<Rightarrow> string \<Rightarrow> string list" where
  "Split c [] = [[]]"
| "Split c (x # xs) =
     (if x = c then [] # Split c xs
      else (case Split c xs of [] \<Rightarrow> [[x]] | y # ys \<Rightarrow> (x # y) # ys))"

fun Join :: "string list \<Rightarrow> string \<Rightarrow> string" where
  "Join [] sep = ''''"
| "Join [x] sep = x"
| "Join (x # y # ys) sep = x @ sep @ Join (y # ys) sep"

definition HasPrefix :: "string \<Rightarrow> string \<Rightarrow> bool" where
  "HasPrefix s p = (take (length p) s = p)"

definition HasSuffix :: "string \<Rightarrow> string \<Rightarrow> bool" where
  "HasSuffix s p = (length p \<le> length s \<and> drop (length s - length p) s = p)"

definition TrimSuffix :: "string \<Rightarrow> string \<Rightarrow> string" where
  "TrimSuffix s p = (if HasSuffix s p then take (length s - length p) s else s)"

text \<open>\<open>strings.Index\<close>, \<open>strings.Contains\<close>, and the index of the last occurrence of a byte.\<close>

fun Index :: "string \<Rightarrow> string \<Rightarrow> nat option" where
  "Index [] sub = (if sub = [] then Some 0 else None)"
| "Index (c # s) sub = (if HasPrefix (c # s) sub then Some 0 else map_option Suc (Index s sub))"

definition Contains :: "string \<Rightarrow> string \<Rightarrow> bool" where
  "Contains s sub = (Index s sub \<noteq> None)"

fun LastIndexByte :: "string \<Rightarrow> char \<Rightarrow> nat option" where
  "LastIndexByte [] b = None"
| "LastIndexByte (c # s) b =
     (case LastIndexByte s b of Some i \<Rightarrow> Some (Suc i) | None \<Rightarrow> if c = b then Some 0 else None)"

lemma HasPrefix_append: "HasPrefix s p \<longleftrightarrow> (\<exists>r. s = p @ r)"
  by (metis HasPrefix_def append_eq_conv_conj append_take_drop_id)

lemma HasPrefix_trans: "HasPrefix s p \<Longrightarrow> HasPrefix p q \<Longrightarrow> HasPrefix s q"
  by (auto simp: HasPrefix_append)

lemma TrimSpace_Nil [simp]: "TrimSpace [] = []"
  by (simp add: TrimSpace_def)

lemma Split_ne_Nil [simp]: "Split c s \<noteq> []"
  by (induction s) (auto split: list.splits)

lemma Split_no_sep: "x \<in> set (Split c s) \<Longrightarrow> c \<notin> set x"
  by (induction s arbitrary: x) (auto split: list.splits if_splits)

lemma Join_Cons: "xs \<noteq> [] \<Longrightarrow> Join (x # xs) sep = x @ sep @ Join xs sep"
  by (cases xs) auto

lemma Join_prepend_hd: "xs \<noteq> [] \<Longrightarrow> Join ((y # hd xs) # tl xs) sep = y # Join xs sep"
  by (cases xs; cases "tl xs") auto

text \<open>\<open>strings.Join\<close> undoes \<open>strings.Split\<close>.\<close>

lemma Join_Split [simp]: "Join (Split c s) [c] = s"
proof (induction s)
  case Nil
  then show ?case by simp
next
  case (Cons x s)
  show ?case
  proof (cases "x = c")
    case True
    with Cons show ?thesis by (simp add: Join_Cons)
  next
    case False
    obtain y ys where "Split c s = y # ys" by (cases "Split c s") auto
    with Cons False Join_prepend_hd [of "y # ys" x "[c]"] show ?thesis by simp
  qed
qed

lemma Split_no_occ: "c \<notin> set s \<Longrightarrow> Split c s = [s]"
  by (induction s) auto

lemma Split_append: "c \<notin> set t \<Longrightarrow> Split c (u @ c # t) = Split c u @ [t]"
proof (induction u)
  case Nil
  then show ?case by (simp add: Split_no_occ)
next
  case (Cons x u)
  obtain y ys where "Split c u = y # ys" by (cases "Split c u") auto
  with Cons show ?case by simp
qed

text \<open>
  \<open>strconv.Atoi\<close> with its error ignored: 0 for what is not a decimal integer, and the
  nearest 64-bit value for a decimal integer that does not fit (\<open>strconv\<close> returns both
  beside the error).
\<close>

definition isDigit :: "char \<Rightarrow> bool" where
  "isDigit c = (of_char c \<ge> (48 :: nat) \<and> of_char c \<le> (57 :: nat))"

fun digitsVal :: "nat \<Rightarrow> string \<Rightarrow> nat" where
  "digitsVal acc [] = acc"
| "digitsVal acc (c # cs) = digitsVal (10 * acc + (of_char c - 48)) cs"

definition maxInt64 :: int where "maxInt64 = 9223372036854775807"
definition maxUint64 :: int where "maxUint64 = 18446744073709551615"
definition minInt64 :: int where "minInt64 = -9223372036854775808"

definition Atoi :: "string \<Rightarrow> int" where
  "Atoi s =
     (let neg = (case s of [] \<Rightarrow> False | c # _ \<Rightarrow> c = CHR ''-'');
          signed = (case s of [] \<Rightarrow> False | c # _ \<Rightarrow> c = CHR ''-'' \<or> c = CHR ''+'');
          ds = (if signed then tl s else s)
      in if ds = [] \<or> \<not> list_all isDigit ds then 0
         else let v = int (digitsVal 0 ds)
              in if neg then max minInt64 (- v) else min maxInt64 v)"

text \<open>\<open>strconv.ParseUint(s, 10, 64)\<close>, and \<open>strings.ToUpper\<close> and \<open>strings.EqualFold\<close> on ASCII strings.\<close>

definition ParseUint64 :: "string \<Rightarrow> nat res" where
  "ParseUint64 s =
     (if s = [] \<or> \<not> list_all isDigit s then Err (Errorf ''invalid syntax'' [AS s])
      else if int (digitsVal 0 s) > maxUint64 then Err (Errorf ''value out of range'' [AS s])
      else Ok (digitsVal 0 s))"

definition upperChar :: "char \<Rightarrow> char" where
  "upperChar c = (let n = of_char c :: nat in if 97 \<le> n \<and> n \<le> 122 then char_of (n - 32) else c)"

definition ToUpper :: "string \<Rightarrow> string" where
  "ToUpper s = map upperChar s"

definition EqualFold :: "string \<Rightarrow> string \<Rightarrow> bool" where
  "EqualFold s t = (ToUpper s = ToUpper t)"

section \<open>Lists\<close>

definition optElem :: "'a list \<Rightarrow> nat \<Rightarrow> 'a option" where
  "optElem xs i = (if i < length xs then Some (xs ! i) else None)"

lemma concat_map_filter: "concat (map f (filter P xs)) = concat (map (\<lambda>x. if P x then f x else []) xs)"
  by (induction xs) auto

lemma length_filter_eq_0: "length (filter P xs) = 0 \<longleftrightarrow> (\<forall>x \<in> set xs. \<not> P x)"
  by (simp add: filter_empty_conv)

section \<open>Decimal rendering\<close>

text \<open>\<open>fmt.Sprintf("%d", n)\<close> of an unsigned integer.\<close>

definition digitChar :: "nat \<Rightarrow> char" where
  "digitChar d = char_of (48 + d)"

fun showNat :: "nat \<Rightarrow> string" where
  "showNat n = (if n < 10 then [digitChar n] else showNat (n div 10) @ [digitChar (n mod 10)])"

declare showNat.simps [simp del]

lemma digitsVal_append: "digitsVal acc (xs @ ys) = digitsVal (digitsVal acc xs) ys"
  by (induction xs arbitrary: acc) auto

lemma of_char_digitChar: "d < 10 \<Longrightarrow> (of_char (digitChar d) :: nat) = 48 + d"
  by (simp add: digitChar_def)

lemma isDigit_digitChar: "d < 10 \<Longrightarrow> isDigit (digitChar d)"
  by (simp add: isDigit_def of_char_digitChar)

lemma showNat_digits: "list_all isDigit (showNat n)"
proof (induction n rule: showNat.induct)
  case (1 n)
  then show ?case by (cases "n < 10") (auto simp: showNat.simps [of n] isDigit_digitChar)
qed

lemma showNat_ne_Nil: "showNat n \<noteq> []"
  by (subst showNat.simps) simp

text \<open>Reading back what was rendered.\<close>

lemma digitsVal_showNat: "digitsVal 0 (showNat n) = n"
proof (induction n rule: showNat.induct)
  case (1 n)
  then show ?case
    by (cases "n < 10") (auto simp: showNat.simps [of n] digitsVal_append of_char_digitChar)
qed

lemma isDigit_not_sign: "isDigit c \<Longrightarrow> c \<noteq> CHR ''-'' \<and> c \<noteq> CHR ''+'' \<and> c \<noteq> CHR ''.''"
  by (auto simp: isDigit_def)

lemma Atoi_showNat: "int n \<le> maxInt64 \<Longrightarrow> Atoi (showNat n) = int n"
proof -
  assume le: "int n \<le> maxInt64"
  obtain c cs where s: "showNat n = c # cs" using showNat_ne_Nil [of n] by (cases "showNat n") auto
  with showNat_digits [of n] have "isDigit c" by simp
  with s le showNat_digits [of n] digitsVal_showNat [of n] isDigit_not_sign [of c] show ?thesis
    by (simp add: Atoi_def Let_def)
qed

section \<open>Actions on the API server\<close>

text \<open>
  An action takes the state of the API server and gives an outcome with the next state.
  \<open>bindS\<close> sequences actions; \<open>attemptS\<close> is a call whose error the caller looks at or
  drops, so that the error becomes a value while a panic still ends the run; \<open>readS\<close> is a
  call that only reads. \<open>foldS\<close> and \<open>foldR\<close> are loops that update a variable.
\<close>

type_synonym ('s, 'a) act = "'s \<Rightarrow> 'a res \<times> 's"

definition bindS :: "('s, 'a) act \<Rightarrow> ('a \<Rightarrow> ('s, 'b) act) \<Rightarrow> ('s, 'b) act" where
  "bindS m k s =
     (case m s of (Ok x, s') \<Rightarrow> k x s' | (Err e, s') \<Rightarrow> (Err e, s') | (Panic p, s') \<Rightarrow> (Panic p, s'))"

definition attemptS :: "('s, 'a) act \<Rightarrow> ('s, 'a res) act" where
  "attemptS m s = (case m s of (Panic p, s') \<Rightarrow> (Panic p, s') | (r, s') \<Rightarrow> (Ok r, s'))"

definition readS :: "('s \<Rightarrow> 'a res) \<Rightarrow> ('s, 'a) act" where
  "readS f s = (f s, s)"

definition returnS :: "'a \<Rightarrow> ('s, 'a) act" where
  "returnS x s = (Ok x, s)"

definition failS :: "goerr \<Rightarrow> ('s, 'a) act" where
  "failS e s = (Err e, s)"

definition panicS :: "string \<Rightarrow> ('s, 'a) act" where
  "panicS m s = (Panic m, s)"

definition wrapS :: "('s, 'a) act \<Rightarrow> string \<Rightarrow> goarg list \<Rightarrow> ('s, 'a) act" where
  "wrapS m f a s = (case m s of (r, s') \<Rightarrow> (wrapR r f a, s'))"

definition whenS :: "bool \<Rightarrow> ('s, unit) act \<Rightarrow> ('s, unit) act" where
  "whenS b m = (if b then m else returnS ())"

text \<open>A call whose error is only logged.\<close>

definition ignoreS :: "('s, 'a) act \<Rightarrow> ('s, unit) act" where
  "ignoreS m = bindS (attemptS m) (\<lambda>_. returnS ())"

fun foldS :: "('x \<Rightarrow> 'b \<Rightarrow> ('s, 'b) act) \<Rightarrow> 'x list \<Rightarrow> 'b \<Rightarrow> ('s, 'b) act" where
  "foldS f [] b = returnS b"
| "foldS f (x # xs) b = bindS (f x b) (foldS f xs)"

fun foldR :: "('x \<Rightarrow> 'b \<Rightarrow> 'b res) \<Rightarrow> 'x list \<Rightarrow> 'b \<Rightarrow> 'b res" where
  "foldR f [] b = Ok b"
| "foldR f (x # xs) b = bindR (f x b) (foldR f xs)"

lemma returnS_simp [simp]: "returnS x s = (Ok x, s)"
  by (simp add: returnS_def)

lemma failS_simp [simp]: "failS e s = (Err e, s)"
  by (simp add: failS_def)

lemma panicS_simp [simp]: "panicS m s = (Panic m, s)"
  by (simp add: panicS_def)

lemma readS_simp [simp]: "readS f s = (f s, s)"
  by (simp add: readS_def)

lemma bindS_returnS [simp]: "bindS (returnS x) k = k x"
  by (rule ext) (simp add: bindS_def)

lemma bindS_Ok_iff [res_simps]:
  "(bindS m k s = (Ok y, s')) \<longleftrightarrow> (\<exists>x t. m s = (Ok x, t) \<and> k x t = (Ok y, s'))"
  by (auto simp: bindS_def split: res.splits prod.splits)

lemma attemptS_Ok_iff [res_simps]:
  "(attemptS m s = (Ok r, s')) \<longleftrightarrow> m s = (r, s') \<and> (\<forall>p. r \<noteq> Panic p)"
  by (auto simp: attemptS_def split: res.splits prod.splits)

lemma wrapS_Ok_iff [res_simps]: "(wrapS m f a s = (Ok y, s')) \<longleftrightarrow> m s = (Ok y, s')"
  by (auto simp: wrapS_def split: prod.splits)

lemma bindS_attemptS_Ok_iff [res_simps]:
  "(bindS (attemptS m) (\<lambda>r. case r of Ok x \<Rightarrow> f x | Err e \<Rightarrow> g e | Panic q \<Rightarrow> h q) s = (Ok y, s')) \<longleftrightarrow>
     (\<exists>x t. m s = (Ok x, t) \<and> f x t = (Ok y, s')) \<or> (\<exists>e t. m s = (Err e, t) \<and> g e t = (Ok y, s'))"
  by (auto simp: bindS_def attemptS_def split: res.splits prod.splits)

lemma fst_pair: "fst r = x \<Longrightarrow> r = (x, snd r)"
  by auto

text \<open>
  Invariants of the server: an action keeps a predicate on states when no run of it, whatever
  its outcome, breaks the predicate. The rules below lift the writes of the client to whole
  handlers.
\<close>

definition keeps :: "('s \<Rightarrow> bool) \<Rightarrow> ('s, 'a) act \<Rightarrow> bool" where
  "keeps I m \<longleftrightarrow> (\<forall>s. I s \<longrightarrow> I (snd (m s)))"

named_theorems keeps_intros \<open>preservation rules of the action combinators\<close>

lemma keepsI: "(\<And>s. I s \<Longrightarrow> I (snd (m s))) \<Longrightarrow> keeps I m"
  by (simp add: keeps_def)

lemma keepsD: "keeps I m \<Longrightarrow> I s \<Longrightarrow> I (snd (m s))"
  by (simp add: keeps_def)

lemma keeps_returnS [keeps_intros]: "keeps I (returnS x)"
  by (simp add: keeps_def)

lemma keeps_failS [keeps_intros]: "keeps I (failS e)"
  by (simp add: keeps_def)

lemma keeps_panicS [keeps_intros]: "keeps I (panicS m)"
  by (simp add: keeps_def)

lemma keeps_readS [keeps_intros]: "keeps I (readS f)"
  by (simp add: keeps_def)

lemma keeps_bindS [keeps_intros]: "keeps I m \<Longrightarrow> (\<And>x. keeps I (k x)) \<Longrightarrow> keeps I (bindS m k)"
proof (rule keepsI)
  fix s
  assume m: "keeps I m" and k: "\<And>x. keeps I (k x)" and "I s"
  from m \<open>I s\<close> have mid: "I (snd (m s))" by (rule keepsD)
  obtain r t where rt: "m s = (r, t)" by (cases "m s")
  show "I (snd (bindS m k s))"
  proof (cases r)
    case (Ok x)
    with mid rt have "I (snd (k x t))" by (auto intro: keepsD [OF k])
    with Ok rt show ?thesis by (simp add: bindS_def)
  qed (use mid rt in \<open>simp_all add: bindS_def\<close>)
qed

lemma keeps_attemptS [keeps_intros]: "keeps I m \<Longrightarrow> keeps I (attemptS m)"
  by (fastforce simp: keeps_def attemptS_def split: res.splits prod.splits)

lemma keeps_wrapS [keeps_intros]: "keeps I m \<Longrightarrow> keeps I (wrapS m f a)"
  by (fastforce simp: keeps_def wrapS_def split: prod.splits)

lemma keeps_whenS [keeps_intros]: "keeps I m \<Longrightarrow> keeps I (whenS b m)"
  by (simp add: whenS_def keeps_returnS)

lemma keeps_ignoreS [keeps_intros]: "keeps I m \<Longrightarrow> keeps I (ignoreS m)"
  unfolding ignoreS_def by (intro keeps_intros)

lemma keeps_foldS [keeps_intros]: "(\<And>x b. keeps I (f x b)) \<Longrightarrow> keeps I (foldS f xs b)"
  by (induction xs arbitrary: b) (auto intro: keeps_intros)

lemma keeps_if [keeps_intros]: "keeps I m \<Longrightarrow> keeps I m' \<Longrightarrow> keeps I (if b then m else m')"
  by simp

lemma keeps_case_res [keeps_intros]:
  "(\<And>x. keeps I (f x)) \<Longrightarrow> (\<And>e. keeps I (g e)) \<Longrightarrow> (\<And>m. keeps I (h m)) \<Longrightarrow>
   keeps I (case r of Ok x \<Rightarrow> f x | Err e \<Rightarrow> g e | Panic m \<Rightarrow> h m)"
  by (cases r) simp_all

lemma keeps_case_option [keeps_intros]:
  "keeps I m \<Longrightarrow> (\<And>x. keeps I (f x)) \<Longrightarrow> keeps I (case r of None \<Rightarrow> m | Some x \<Rightarrow> f x)"
  by (cases r) simp_all

lemma keeps_case_list [keeps_intros]:
  "keeps I m \<Longrightarrow> (\<And>x xs. keeps I (f x xs)) \<Longrightarrow> keeps I (case r of [] \<Rightarrow> m | x # xs \<Rightarrow> f x xs)"
  by (cases r) simp_all

lemma keeps_case_prod [keeps_intros]: "(\<And>a b. keeps I (f a b)) \<Longrightarrow> keeps I (case r of (a, b) \<Rightarrow> f a b)"
  by (cases r) simp

lemma keeps_Let [keeps_intros]: "(\<And>x. keeps I (f x)) \<Longrightarrow> keeps I (let x = e in f x)"
  by (simp add: Let_def)

lemma foldR_append: "foldR f (xs @ ys) b = bindR (foldR f xs b) (foldR f ys)"
proof (induction xs arbitrary: b)
  case (Cons x xs)
  then have "foldR f (xs @ ys) = (\<lambda>b. bindR (foldR f xs b) (foldR f ys))" by (intro ext)
  then show ?case by (simp add: bindR_assoc)
qed simp

section \<open>Panics\<close>

lemma quoteR_Panic [simp]: "(quoteR r f a = Panic m) \<longleftrightarrow> r = Panic m"
  by (cases r) auto

lemma wrapR_Panic [simp]: "(wrapR r f a = Panic m) \<longleftrightarrow> r = Panic m"
  by (cases r) auto

lemma checkAll_PanicD: "checkAll f xs = Panic m \<Longrightarrow> \<exists>x \<in> set xs. f x = Panic m"
  by (induction xs) (auto simp: bindR_Panic_iff)

lemma list_case_Ok:
  "((case xs of [] \<Rightarrow> Panic m | x # r \<Rightarrow> f x r) = Ok y) \<longleftrightarrow> (\<exists>x r. xs = x # r \<and> f x r = Ok y)"
  by (cases xs) auto

section \<open>Loops of actions\<close>

lemma find_mem: "find P xs = Some x \<Longrightarrow> x \<in> set xs"
  by (auto simp: find_Some_iff)

lemma checkAllS_Ok_each:
  "checkAllS f xs s = (Ok u, s') \<Longrightarrow> x \<in> set xs \<Longrightarrow> \<exists>t t'. f x t = (Ok (), t')"
  by (induction xs arbitrary: s) (auto split: res.splits prod.splits)

lemma keeps_checkAllS [keeps_intros]: "(\<And>x. keeps I (f x)) \<Longrightarrow> keeps I (checkAllS f xs)"
proof (induction xs)
  case Nil
  then show ?case by (simp add: keeps_def)
next
  case (Cons x xs)
  have "checkAllS f (x # xs) = bindS (f x) (\<lambda>_. checkAllS f xs)" by (rule ext) (simp add: bindS_def)
  with Cons show ?case by (simp add: keeps_bindS)
qed

lemma keeps_foldS_mem:
  "(\<And>x b. x \<in> set xs \<Longrightarrow> keeps I (f x b)) \<Longrightarrow> keeps I (foldS f xs b)"
  by (induction xs arbitrary: b) (auto intro: keeps_intros)

lemma collect_mem: "collect f xs = Ok ys \<Longrightarrow> x \<in> set xs \<Longrightarrow> f x = Ok y \<Longrightarrow> y \<in> set ys"
  by (induction xs arbitrary: ys) (auto simp: bindR_Ok_iff)

lemma attemptS_returnS [simp]: "attemptS (returnS x) = returnS (Ok x)"
  by (rule ext) (simp add: attemptS_def)

section \<open>Maps that are written\<close>

lemma mput_new: "k \<notin> fst ` set m \<Longrightarrow> mput k v m = m @ [(k, v)]"
  by (simp add: mput_def)

lemma map_of_replace:
  "map_of (map (\<lambda>(k', v'). if k' = k then (k, v) else (k', v')) m) x =
     (if x = k then (if k \<in> fst ` set m then Some v else None) else map_of m x)"
  by (cases "x = k"; induction m) (simp_all add: split_def)

lemma map_of_mput: "map_of (mput k v m) = (map_of m)(k \<mapsto> v)"
proof
  fix x
  show "map_of (mput k v m) x = ((map_of m)(k \<mapsto> v)) x"
    using map_of_eq_None_iff [of m k]
    by (auto simp: mput_def map_of_replace map_add_def split: option.split)
qed

lemma mput_same:
  assumes "\<forall>v'. (k, v') \<in> set m \<longrightarrow> v' = v" and "k \<in> fst ` set m"
  shows "mput k v m = m"
proof -
  have "map (\<lambda>(k', v'). if k' = k then (k, v) else (k', v')) m = m"
    using assms(1) by (intro map_idI) auto
  with assms(2) show ?thesis by (simp add: mput_def)
qed

lemma mput_idem: "mput k v (mput k v m) = mput k v m"
proof (rule mput_same)
  show "\<forall>v'. (k, v') \<in> set (mput k v m) \<longrightarrow> v' = v" by (auto simp: mput_def image_iff split: if_splits)
  have "map_of (mput k v m) k \<noteq> None" by (simp add: map_of_mput)
  then show "k \<in> fst ` set (mput k v m)" by (simp only: map_of_eq_None_iff not_not)
qed

lemma distinct_mput: "distinct (map fst m) \<Longrightarrow> distinct (map fst (mput k v m))"
  by (auto simp: mput_def case_prod_beta' comp_def if_distrib cong: if_cong)

section \<open>Results of actions\<close>

text \<open>Every result of a run that ends without error has the property.\<close>

definition gives :: "('a \<Rightarrow> bool) \<Rightarrow> ('s, 'a) act \<Rightarrow> bool" where
  "gives Q m \<longleftrightarrow> (\<forall>s x s'. m s = (Ok x, s') \<longrightarrow> Q x)"

named_theorems gives_intros \<open>rules for the results of the action combinators\<close>

lemma givesI: "(\<And>s x s'. m s = (Ok x, s') \<Longrightarrow> Q x) \<Longrightarrow> gives Q m"
  by (simp add: gives_def)

lemma givesD: "gives Q m \<Longrightarrow> m s = (Ok x, s') \<Longrightarrow> Q x"
  unfolding gives_def by blast

lemma gives_bindS: "gives R m \<Longrightarrow> (\<And>x. R x \<Longrightarrow> gives Q (k x)) \<Longrightarrow> gives Q (bindS m k)"
  by (rule givesI) (auto simp: bindS_Ok_iff dest: givesD)

lemma gives_bindS_any [gives_intros]: "(\<And>x. gives Q (k x)) \<Longrightarrow> gives Q (bindS m k)"
  by (rule givesI) (auto simp: bindS_Ok_iff dest: givesD)

lemma gives_returnS [gives_intros]: "Q x \<Longrightarrow> gives Q (returnS x)"
  by (simp add: gives_def)

lemma gives_failS [gives_intros]: "gives Q (failS e)"
  by (simp add: gives_def)

lemma gives_panicS [gives_intros]: "gives Q (panicS m)"
  by (simp add: gives_def)

lemma gives_attemptS: "gives Q m \<Longrightarrow> gives (\<lambda>r. \<forall>x. r = Ok x \<longrightarrow> Q x) (attemptS m)"
  by (rule givesI) (auto simp: attemptS_Ok_iff dest: givesD)

lemma gives_if [gives_intros]: "(b \<Longrightarrow> gives Q m) \<Longrightarrow> (\<not> b \<Longrightarrow> gives Q m') \<Longrightarrow> gives Q (if b then m else m')"
  by simp

lemma gives_case_res [gives_intros]:
  "(\<And>x. r = Ok x \<Longrightarrow> gives Q (f x)) \<Longrightarrow> (\<And>e. r = Err e \<Longrightarrow> gives Q (g e)) \<Longrightarrow> (\<And>m. r = Panic m \<Longrightarrow> gives Q (h m)) \<Longrightarrow>
   gives Q (case r of Ok x \<Rightarrow> f x | Err e \<Rightarrow> g e | Panic m \<Rightarrow> h m)"
  by (cases r) simp_all

lemma gives_case_option [gives_intros]:
  "(r = None \<Longrightarrow> gives Q m) \<Longrightarrow> (\<And>x. r = Some x \<Longrightarrow> gives Q (f x)) \<Longrightarrow> gives Q (case r of None \<Rightarrow> m | Some x \<Rightarrow> f x)"
  by (cases r) simp_all

lemma gives_case_prod [gives_intros]: "(\<And>a b. r = (a, b) \<Longrightarrow> gives Q (f a b)) \<Longrightarrow> gives Q (case r of (a, b) \<Rightarrow> f a b)"
  by (cases r) simp

lemma keeps_bindS_gives:
  assumes m: "keeps I m" and g: "gives R m" and k: "\<And>x. R x \<Longrightarrow> keeps I (k x)"
  shows "keeps I (bindS m k)"
proof (rule keepsI)
  fix s
  assume "I s"
  with m have mid: "I (snd (m s))" by (rule keepsD)
  obtain r t where rt: "m s = (r, t)" by (cases "m s")
  show "I (snd (bindS m k s))"
  proof (cases r)
    case (Ok y)
    with g rt have "R y" by (auto dest: givesD)
    with mid rt Ok k have "I (snd (k y t))" by (auto dest: keepsD)
    with Ok rt show ?thesis by (simp add: bindS_def)
  qed (use mid rt in \<open>simp_all add: bindS_def\<close>)
qed

end
