(* ===== verification/ApiTypes.thy ===== *)
theory ApiTypes
  imports Prelude "HOL-Library.Word"
begin

text \<open>
  The data the operators exchange through the Kubernetes API server, and the API server
  itself as a parameter. The records carry the fields of the custom resources that the
  modelled code reads or writes (\<open>docs/api-references/apis.md\<close> documents them); a record
  that embeds \<open>ObjectMeta\<close> extends it. The client libraries (\<open>client-go\<close>,
  \<open>github.com/openebs/api\<close>) are not part of the repository: their calls are the fields of
  the record \<open>env\<close>, over an abstract type \<open>'s\<close> of API server states.
\<close>

section \<open>Names shared by all resources\<close>

text \<open>Label and annotation keys, as the documentation and the tests spell them.\<close>

definition HostNameLabelKey :: string where
  "HostNameLabelKey = ''kubernetes.io/hostname''"
definition CStorPoolClusterLabelKey :: string where
  "CStorPoolClusterLabelKey = ''openebs.io/cstor-pool-cluster''"
definition CStorPoolInstanceLabelKey :: string where
  "CStorPoolInstanceLabelKey = ''openebs.io/cstor-pool-instance''"
definition BlockDeviceTagLabelKey :: string where
  "BlockDeviceTagLabelKey = ''openebs.io/block-device-tag''"
definition OpenEBSAllowedBDTagKey :: string where
  "OpenEBSAllowedBDTagKey = ''openebs.io/allowed-bd-tags''"
definition PredecessorBDLabelKey :: string where
  "PredecessorBDLabelKey = ''openebs.io/bd-predecessor''"
definition OpenEBSVersionLabelKey :: string where
  "OpenEBSVersionLabelKey = ''openebs.io/version''"
definition CASTypeLabelKey :: string where
  "CASTypeLabelKey = ''openebs.io/cas-type''"
definition PoolProtectionFinalizer :: string where
  "PoolProtectionFinalizer = ''openebs.io/pool-protection''"
definition PoolStriped :: string where "PoolStriped = ''stripe''"
definition PoolMirrored :: string where "PoolMirrored = ''mirror''"
definition PoolRaidz :: string where "PoolRaidz = ''raidz''"
definition PoolRaidz2 :: string where "PoolRaidz2 = ''raidz2''"
definition BlockDeviceClaimed :: string where "BlockDeviceClaimed = ''Claimed''"

lemmas key_defs =
  HostNameLabelKey_def CStorPoolClusterLabelKey_def CStorPoolInstanceLabelKey_def
  BlockDeviceTagLabelKey_def OpenEBSAllowedBDTagKey_def PredecessorBDLabelKey_def
  OpenEBSVersionLabelKey_def CASTypeLabelKey_def PoolProtectionFinalizer_def PoolStriped_def PoolMirrored_def
  PoolRaidz_def PoolRaidz2_def BlockDeviceClaimed_def

record OwnerReference =
  or_Kind :: string
  or_Name :: string
  or_UID :: string

record ObjectMeta =
  Name :: string
  Namespace :: string
  UID :: string
  Labels :: gomap
  Annotations :: gomap
  Finalizers :: "string list"
  OwnerReferences :: "OwnerReference list"
  DeletionTimestamp :: "string option"

type_synonym Node = ObjectMeta

section \<open>Block devices and their claims\<close>

text \<open>A \<open>resource.Quantity\<close> is represented by its value in the smallest unit it keeps.\<close>

type_synonym Quantity = int

record BlockDevice = ObjectMeta +
  bd_State :: string
  bd_ClaimState :: string
  bd_FileSystemType :: string
  bd_ClaimRef :: "string option"
  bd_CapacityStorage :: "64 word"
  bd_DevLinks :: "string list list"
  bd_Path :: string

record BlockDeviceClaim = ObjectMeta +
  bdc_BlockDeviceName :: string
  bdc_HostName :: string
  bdc_Capacity :: Quantity
  bdc_Selector :: "gomap option"

section \<open>Pool clusters and pool instances\<close>

record CStorPoolInstanceBlockDevice =
  BlockDeviceName :: string
  cbd_Capacity :: "64 word"
  cbd_DevLink :: string

record RaidGroup =
  CStorPoolInstanceBlockDevices :: "CStorPoolInstanceBlockDevice list"

text \<open>A nil pointer or nil slice is \<open>None\<close>; what the code only copies is opaque text.\<close>

record PoolConfig =
  DataRaidGroupType :: string
  WriteCacheGroupType :: string
  Compression :: string
  Resources :: "string option"
  AuxResources :: "string option"
  Tolerations :: "string list option"
  PriorityClassName :: "string option"
  ROThresholdLimit :: "int option"

record PoolSpec =
  NodeSelector :: gomap
  DataRaidGroups :: "RaidGroup list"
  WriteCacheRaidGroups :: "RaidGroup list"
  poolConfig :: PoolConfig

record CStorPoolClusterSpec =
  Pools :: "PoolSpec list"
  DefaultResources :: "string option"
  DefaultAuxResources :: "string option"
  DefaultTolerations :: "string list option"
  DefaultPriorityClassName :: string

record VersionDetails =
  vd_Current :: string
  vd_Desired :: string
  vd_State :: string
  vd_DependentsUpgraded :: bool
  vd_Message :: string

record Condition =
  cond_Type :: string
  cond_Status :: string
  cond_LastUpdateTime :: int
  cond_LastTransitionTime :: int
  cond_Reason :: string
  cond_Message :: string

record CStorPoolClusterStatus =
  ProvisionedInstances :: "32 word"
  DesiredInstances :: "32 word"
  HealthyInstances :: "32 word"
  cspc_Conditions :: "Condition list"

record CStorPoolCluster = ObjectMeta +
  cspc_Spec :: CStorPoolClusterSpec
  cspc_Status :: CStorPoolClusterStatus
  cspc_Version :: VersionDetails

record CStorPoolInstanceSpec = PoolSpec +
  HostName :: string

record CStorPoolInstanceCapacity =
  cap_Used :: Quantity
  cap_Free :: Quantity
  cap_Total :: Quantity
  cap_LogicalUsed :: Quantity

record CStorPoolInstanceStatus =
  cspi_Conditions :: "Condition list"
  cspi_Phase :: string
  cspi_ReadOnly :: bool
  cspi_Capacity :: CStorPoolInstanceCapacity
  cspi_ProvisionedReplicas :: "32 word"
  cspi_HealthyReplicas :: "32 word"

record CStorPoolInstance = ObjectMeta +
  cspi_Spec :: CStorPoolInstanceSpec
  cspi_Status :: CStorPoolInstanceStatus
  cspi_Version :: VersionDetails

definition emptyCSPICapacity :: CStorPoolInstanceCapacity where
  "emptyCSPICapacity = \<lparr>cap_Used = 0, cap_Free = 0, cap_Total = 0, cap_LogicalUsed = 0\<rparr>"

definition emptyCSPIStatus :: CStorPoolInstanceStatus where
  "emptyCSPIStatus =
     \<lparr>cspi_Conditions = [], cspi_Phase = [], cspi_ReadOnly = False, cspi_Capacity = emptyCSPICapacity,
      cspi_ProvisionedReplicas = 0, cspi_HealthyReplicas = 0\<rparr>"

section \<open>The topology of a zpool\<close>

text \<open>
  What \<open>zpool dump\<close> reports: trees of virtual devices, each with its path, whether a whole disk was
  given to the pool, its counters and its scan counters.
\<close>

datatype Vdev =
  Vdev (vdev_Path: string) (IsWholeDisk: int) (VdevStats: "64 word list") (ScanStats: "64 word list")
    (vdev_Children: "Vdev list")

record Topology =
  Topvdev :: "Vdev list"
  Spares :: "Vdev list"
  Readcache :: "Vdev list"

section \<open>Pool manager deployments\<close>

record VolumeMount =
  vm_Name :: string
  vm_MountPath :: string

record EnvVar =
  ev_Name :: string
  ev_Value :: string
  ev_FieldPath :: "string option"

record ContainerPort =
  cp_ContainerPort :: "32 word"
  cp_Protocol :: string

record Probe =
  pb_Command :: "string list"
  pb_FailureThreshold :: "32 word"
  pb_InitialDelaySeconds :: "32 word"
  pb_PeriodSeconds :: "32 word"
  pb_TimeoutSeconds :: "32 word"

record Container =
  ct_Image :: string
  ct_Name :: string
  ct_ImagePullPolicy :: string
  ct_Privileged :: bool
  ct_Env :: "EnvVar list"
  ct_Resources :: string
  ct_Ports :: "ContainerPort list"
  ct_LivenessProbe :: "Probe option"
  ct_PostStart :: "string list option"
  ct_Command :: "string list"
  ct_Args :: "string list"
  ct_VolumeMounts :: "VolumeMount list"

datatype VolumeSource = HostPath string string | EmptyDir

record Volume =
  vol_Name :: string
  vol_Source :: VolumeSource

record PodTemplateSpec =
  pt_Labels :: gomap
  pt_PriorityClassName :: string
  pt_NodeSelector :: gomap
  pt_Annotations :: gomap
  pt_ServiceAccountName :: string
  pt_Affinity :: "string option"
  pt_Tolerations :: "string list"
  pt_ImagePullSecrets :: "string list"
  pt_Containers :: "Container list"
  pt_Volumes :: "Volume list"

record Deployment = ObjectMeta +
  dep_Replicas :: "32 word"
  dep_StrategyType :: string
  dep_Selector :: gomap
  dep_Template :: PodTemplateSpec
  dep_ReadyReplicas :: "32 word"

section \<open>Volumes\<close>

text \<open>The spec of a volume policy: provisioning, the target pod, the replicas and their pools.\<close>

record CStorVolumePolicySpec =
  pol_ReplicaAffinity :: bool
  pol_Resources :: "string option"
  pol_AuxResources :: "string option"
  pol_IOWorkers :: int
  pol_QueueDepth :: string
  pol_PodAffinity :: "string option"
  pol_NodeSelector :: gomap
  pol_Tolerations :: "string list"
  pol_PriorityClassName :: string
  pol_ReplicaIOWorkers :: string
  pol_ReplicaPoolInfo :: "string list"

text \<open>A capacity is a map from resource names; the code only uses its storage entry.\<close>

record CStorVolumeConfig = ObjectMeta +
  cvc_ReplicaCount :: int
  cvc_ProvisionCapacity :: Quantity
  cvc_Capacity :: Quantity
  cvc_VolumeSource :: string
  cvc_VolumeRef :: "string option"
  cvc_Policy :: CStorVolumePolicySpec
  cvc_NodeID :: string
  cvc_Phase :: string
  cvc_PoolInfo :: "string list"
  cvc_StatusCapacity :: Quantity
  cvc_Conditions :: "Condition list"
  cvc_Version :: VersionDetails

abbreviation cvc_ReplicaPoolInfo :: "CStorVolumeConfig \<Rightarrow> string list" where
  "cvc_ReplicaPoolInfo c \<equiv> pol_ReplicaPoolInfo (cvc_Policy c)"

text \<open>The status istgt reports of one replica of a volume.\<close>

record ReplicaStatus =
  rs_ID :: string
  rs_Mode :: string

record CStorVolume = ObjectMeta +
  cv_Capacity :: Quantity
  cv_TargetIP :: string
  cv_TargetPort :: string
  cv_Iqn :: string
  cv_TargetPortal :: string
  cv_ReplicationFactor :: int
  cv_DesiredReplicationFactor :: int
  cv_ConsistencyFactor :: int
  cv_KnownReplicas :: gomap
  cv_Phase :: string
  cv_ReplicaStatuses :: "ReplicaStatus list"
  cv_StatusCapacity :: Quantity
  cv_LastUpdateTime :: int
  cv_LastTransitionTime :: int
  cv_Conditions :: "Condition list"
  cv_StatusKnownReplicas :: gomap
  cv_Version :: VersionDetails

record ServicePort =
  sp_Name :: string
  sp_Port :: "32 word"
  sp_Protocol :: string
  sp_TargetPort :: "32 word"

record Service = ObjectMeta +
  svc_ClusterIP :: string
  svc_Selector :: gomap
  svc_Ports :: "ServicePort list"

record LabelSelectorRequirement =
  lsr_Key :: string
  lsr_Operator :: string
  lsr_Values :: "string list"

record PodDisruptionBudget = ObjectMeta +
  pdb_GenerateName :: string
  pdb_MaxUnavailable :: int
  pdb_MatchLabels :: gomap
  pdb_MatchExpressions :: "LabelSelectorRequirement list"

text \<open>
  Backups and restores. The two versions of the API have the same fields; a completed backup of version \<open>v1alpha1\<close>
  keeps the last snapshot in \<open>PrevSnapName\<close> and the one before in \<open>SnapName\<close>.
\<close>

record CStorBackup = ObjectMeta +
  bkp_BackupName :: string
  bkp_VolumeName :: string
  bkp_SnapName :: string
  bkp_PrevSnapName :: string
  bkp_BackupDest :: string
  bkp_LocalSnap :: bool
  bkp_Status :: string

record CStorCompletedBackup = ObjectMeta +
  ccb_BackupName :: string
  ccb_VolumeName :: string
  ccb_SecondLastSnapName :: string
  ccb_LastSnapName :: string

record V1Alpha1CompletedBackup = ObjectMeta +
  acb_BackupName :: string
  acb_VolumeName :: string
  acb_SnapName :: string
  acb_PrevSnapName :: string

record CStorRestore = ObjectMeta +
  rst_RestoreName :: string
  rst_VolumeName :: string
  rst_RestoreSrc :: string
  rst_MaxRetryCount :: int
  rst_RetryCount :: int
  rst_StorageClass :: string
  rst_Size :: Quantity
  rst_Local :: bool
  rst_Status :: string

text \<open>
  A snapshot of a replica is described by its referenced size; the maps of snapshots are association
  lists. A nil map is the empty one.
\<close>

record CStorVolumeReplica = ObjectMeta +
  cvr_TargetIP :: string
  cvr_Capacity :: string
  cvr_ZvolWorkers :: string
  cvr_ReplicaID :: string
  cvr_Phase :: string
  cvr_TotalAllocated :: string
  cvr_Used :: string
  cvr_Snapshots :: "(string \<times> 64 word) list"
  cvr_PendingSnapshots :: "(string \<times> 64 word) list"
  cvr_LastUpdateTime :: int
  cvr_LastTransitionTime :: int
  cvr_Version :: VersionDetails

record PersistentVolumeClaim = ObjectMeta +
  pvc_VolumeName :: string

section \<open>Empty objects\<close>

definition emptyBlockDevice :: BlockDevice where
  "emptyBlockDevice =
     \<lparr>Name = [], Namespace = [], UID = [], Labels = [], Annotations = [], Finalizers = [],
      OwnerReferences = [], DeletionTimestamp = None,
      bd_State = [], bd_ClaimState = [], bd_FileSystemType = [], bd_ClaimRef = None, bd_CapacityStorage = 0,
      bd_DevLinks = [], bd_Path = []\<rparr>"

definition emptyVersionDetails :: VersionDetails where
  "emptyVersionDetails =
     \<lparr>vd_Current = [], vd_Desired = [], vd_State = [], vd_DependentsUpgraded = False, vd_Message = []\<rparr>"

definition emptyCStorPoolCluster :: CStorPoolCluster where
  "emptyCStorPoolCluster =
     \<lparr>Name = [], Namespace = [], UID = [], Labels = [], Annotations = [], Finalizers = [],
      OwnerReferences = [], DeletionTimestamp = None,
      cspc_Spec = \<lparr>Pools = [], DefaultResources = None, DefaultAuxResources = None,
                    DefaultTolerations = None, DefaultPriorityClassName = []\<rparr>,
      cspc_Status = \<lparr>ProvisionedInstances = 0, DesiredInstances = 0, HealthyInstances = 0, cspc_Conditions = []\<rparr>,
      cspc_Version = emptyVersionDetails\<rparr>"

definition emptyMeta :: ObjectMeta where
  "emptyMeta =
     \<lparr>Name = [], Namespace = [], UID = [], Labels = [], Annotations = [], Finalizers = [], OwnerReferences = [],
      DeletionTimestamp = None\<rparr>"

definition emptyCVR :: CStorVolumeReplica where
  "emptyCVR =
     ObjectMeta.extend emptyMeta
       \<lparr>cvr_TargetIP = [], cvr_Capacity = [], cvr_ZvolWorkers = [], cvr_ReplicaID = [], cvr_Phase = [],
        cvr_TotalAllocated = [], cvr_Used = [], cvr_Snapshots = [], cvr_PendingSnapshots = [], cvr_LastUpdateTime = 0,
        cvr_LastTransitionTime = 0, cvr_Version = emptyVersionDetails\<rparr>"

definition emptyCV :: CStorVolume where
  "emptyCV =
     ObjectMeta.extend emptyMeta
       \<lparr>cv_Capacity = 0, cv_TargetIP = [], cv_TargetPort = [], cv_Iqn = [], cv_TargetPortal = [], cv_ReplicationFactor = 0,
        cv_DesiredReplicationFactor = 0, cv_ConsistencyFactor = 0, cv_KnownReplicas = [], cv_Phase = [],
        cv_ReplicaStatuses = [], cv_StatusCapacity = 0, cv_LastUpdateTime = 0, cv_LastTransitionTime = 0,
        cv_Conditions = [], cv_StatusKnownReplicas = [], cv_Version = emptyVersionDetails\<rparr>"

definition emptyPolicySpec :: CStorVolumePolicySpec where
  "emptyPolicySpec =
     \<lparr>pol_ReplicaAffinity = False, pol_Resources = None, pol_AuxResources = None, pol_IOWorkers = 0, pol_QueueDepth = [],
      pol_PodAffinity = None, pol_NodeSelector = [], pol_Tolerations = [], pol_PriorityClassName = [],
      pol_ReplicaIOWorkers = [], pol_ReplicaPoolInfo = []\<rparr>"

section \<open>The code outside the repository\<close>

text \<open>
  The calls the modelled code makes into libraries it does not contain. A read takes the
  state of the API server and gives an outcome; a write also gives the next state. A list
  call takes a namespace (empty for all) and a label selector (empty for none). Further
  fields: \<open>resource.ParseQuantity\<close>, the constants and the string-list helpers of
  \<open>github.com/openebs/api\<close>, the environment of the process, and the orders in which the
  run's \<open>range\<close> loops visit the entries of a map (\<open>mapOrder\<close> for a map of strings,
  \<open>rangeCheck\<close> and \<open>rangeExpand\<close> for the two loops over the map of common raid groups,
  \<open>setOrder\<close> for a map used as a set of names). A typed client that fails to get or list
  returns an empty object beside the error; the few places that ignore the error use it.
\<close>

record 's env =
  node_list :: "'s \<Rightarrow> string \<Rightarrow> Node list res"
  bd_get :: "'s \<Rightarrow> string \<Rightarrow> string \<Rightarrow> BlockDevice res"
  bdc_get :: "'s \<Rightarrow> string \<Rightarrow> string \<Rightarrow> BlockDeviceClaim res"
  bdc_list :: "'s \<Rightarrow> string \<Rightarrow> string \<Rightarrow> BlockDeviceClaim list res"
  bdc_create :: "'s \<Rightarrow> string \<Rightarrow> BlockDeviceClaim \<Rightarrow> verdict \<times> 's"
  bdc_update :: "'s \<Rightarrow> string \<Rightarrow> BlockDeviceClaim \<Rightarrow> verdict \<times> 's"
  bdc_delete :: "'s \<Rightarrow> string \<Rightarrow> string \<Rightarrow> verdict \<times> 's"
  cspc_get :: "'s \<Rightarrow> string \<Rightarrow> string \<Rightarrow> CStorPoolCluster res"
  cspc_update :: "'s \<Rightarrow> string \<Rightarrow> CStorPoolCluster \<Rightarrow> CStorPoolCluster res \<times> 's"
  cspi_list :: "'s \<Rightarrow> string \<Rightarrow> string \<Rightarrow> CStorPoolInstance list res"
  cspi_create :: "'s \<Rightarrow> string \<Rightarrow> CStorPoolInstance \<Rightarrow> CStorPoolInstance res \<times> 's"
  cspi_update :: "'s \<Rightarrow> string \<Rightarrow> CStorPoolInstance \<Rightarrow> CStorPoolInstance res \<times> 's"
  cspi_delete :: "'s \<Rightarrow> string \<Rightarrow> string \<Rightarrow> verdict \<times> 's"
  cspi_delete_collection :: "'s \<Rightarrow> string \<Rightarrow> string \<Rightarrow> verdict \<times> 's"
  cvr_list :: "'s \<Rightarrow> string \<Rightarrow> string \<Rightarrow> CStorVolumeReplica list res"
  cvc_get :: "'s \<Rightarrow> string \<Rightarrow> string \<Rightarrow> CStorVolumeConfig res"
  cvc_list :: "'s \<Rightarrow> string \<Rightarrow> string \<Rightarrow> CStorVolumeConfig list res"
  cv_count :: "'s \<Rightarrow> string \<Rightarrow> string \<Rightarrow> nat res"
  pvc_get :: "'s \<Rightarrow> string \<Rightarrow> string \<Rightarrow> PersistentVolumeClaim res"
  webhook_config_delete :: "'s \<Rightarrow> string \<Rightarrow> verdict \<times> 's"
  deploy_get :: "'s \<Rightarrow> string \<Rightarrow> string \<Rightarrow> Deployment res"
  deploy_list :: "'s \<Rightarrow> string \<Rightarrow> string \<Rightarrow> Deployment list res"
  deploy_create :: "'s \<Rightarrow> string \<Rightarrow> Deployment \<Rightarrow> verdict \<times> 's"
  deploy_patch :: "'s \<Rightarrow> string \<Rightarrow> string \<Rightarrow> string \<Rightarrow> verdict \<times> 's"
  marshalDeployment :: "Deployment \<Rightarrow> string res"
  CreateTwoWayMergePatch :: "string \<Rightarrow> string \<Rightarrow> string res"
  StrategicMergePatch :: "string \<Rightarrow> string \<Rightarrow> string res"
  SplitMetaNamespaceKey :: "string \<Rightarrow> (string \<times> string) res"
  cspc_cached :: "'s \<Rightarrow> string \<Rightarrow> string \<Rightarrow> CStorPoolCluster res"
  HasFinalizer :: "string list \<Rightarrow> string \<Rightarrow> bool"
  WithFinalizer :: "string list \<Rightarrow> string \<Rightarrow> string list"
  RemoveFinalizer :: "string list \<Rightarrow> string \<Rightarrow> string list"
  LookupEnv :: "string \<Rightarrow> string option"
  GetServiceAccountName :: string
  ImagePullSecrets :: "string list"
  OpenebsBaseDirPath :: string
  ParseQuantity :: "string \<Rightarrow> Quantity res"
  ListDiff :: "string list \<Rightarrow> string list \<Rightarrow> string list"
  GetDesiredReplicaPoolNames :: "CStorVolumeConfig \<Rightarrow> string list"
  CSPCFinalizer :: string
  CStorPoolInstanceNameLabelKey :: string
  OpenEBSNamespace :: string
  OpenEBSNamespaceEnv :: string
  CStorVolumeConfigPhaseBound :: string
  mapOrder :: "gomap \<Rightarrow> gomap"
  rangeCheck :: "string list"
  rangeExpand :: "string list"
  labelSetString :: "gomap \<Rightarrow> string"
  setOrder :: "string list \<Rightarrow> string list"
  HasNodeName :: "string \<Rightarrow> CStorPoolInstance \<Rightarrow> bool"
  ContainsString :: "string list \<Rightarrow> string \<Rightarrow> bool"
  RemoveString :: "string list \<Rightarrow> string \<Rightarrow> string list"
  OpenEBSDisableDependantsReconcileKey :: string
  OpenEBSDisableReconcileLabelKey :: string
  CasTypeCStor :: string
  newVersionDetails :: "string \<Rightarrow> VersionDetails"
  ReconcileInProgress :: string
  setInProgressStatus :: "VersionDetails \<Rightarrow> VersionDetails"
  setSuccessStatus :: "VersionDetails \<Rightarrow> VersionDetails"
  setErrorStatus :: "string \<Rightarrow> goerr \<Rightarrow> VersionDetails \<Rightarrow> VersionDetails"
  randSuffix :: "'s \<Rightarrow> string"
  now :: "'s \<Rightarrow> int"
  binaryVersion :: string

end
