(* ===== verification/SampleServer.thy ===== *)
theory SampleServer
  imports ApiTypes
begin

text \<open>
  A concrete API server over lists of objects, and concrete library functions: an instance of
  the parameter \<open>env\<close> on which the witnesses of the development are evaluated. It stores what
  is created, finds what is stored, filters by equality selectors \<open>k=v,\<dots>\<close>, reports a missing
  object as not found and a second creation as already existing. Two further fields hold the
  pools of a storage node and the commands run there. It is an example and models no code of the
  repository.
\<close>

record store =
  st_nodes :: "Node list"
  st_bds :: "BlockDevice list"
  st_bdcs :: "BlockDeviceClaim list"
  st_cspcs :: "CStorPoolCluster list"
  st_cspis :: "CStorPoolInstance list"
  st_cvrs :: "CStorVolumeReplica list"
  st_cvcs :: "CStorVolumeConfig list"
  st_cvs :: "CStorVolume list"
  st_services :: "Service list"
  st_pdbs :: "PodDisruptionBudget list"
  st_pvcs :: "PersistentVolumeClaim list"
  st_backups :: "CStorBackup list"
  st_completed :: "CStorCompletedBackup list"
  st_restores :: "CStorRestore list"
  st_deploys :: "Deployment list"
  st_zpools :: "string list"
  st_commands :: "string list"

definition matchesSelector :: "string \<Rightarrow> gomap \<Rightarrow> bool" where
  "matchesSelector sel labels =
     (sel = '''' \<or>
      list_all (\<lambda>kv. case Split (CHR ''='') kv of [k, v] \<Rightarrow> mhas labels k \<and> mget labels k = v | _ \<Rightarrow> False)
        (Split (CHR '','') sel))"

definition inNamespace :: "string \<Rightarrow> string \<Rightarrow> bool" where
  "inNamespace ns ns' = (ns = '''' \<or> ns = ns')"

definition lookupObj :: "('a \<Rightarrow> string) \<Rightarrow> string \<Rightarrow> 'a list \<Rightarrow> 'a res" where
  "lookupObj nm n xs = (case find (\<lambda>x. nm x = n) xs of None \<Rightarrow> Err (NotFound n) | Some x \<Rightarrow> Ok x)"

definition insertObj :: "('a \<Rightarrow> string) \<Rightarrow> 'a \<Rightarrow> 'a list \<Rightarrow> 'a list res" where
  "insertObj nm x xs = (if nm x \<in> nm ` set xs then Err (AlreadyExists (nm x)) else Ok (xs @ [x]))"

definition replaceObj :: "('a \<Rightarrow> string) \<Rightarrow> 'a \<Rightarrow> 'a list \<Rightarrow> 'a list res" where
  "replaceObj nm x xs =
     (if nm x \<in> nm ` set xs then Ok (map (\<lambda>y. if nm y = nm x then x else y) xs) else Err (NotFound (nm x)))"

definition removeObj :: "('a \<Rightarrow> string) \<Rightarrow> string \<Rightarrow> 'a list \<Rightarrow> 'a list res" where
  "removeObj nm n xs = (if n \<in> nm ` set xs then Ok (filter (\<lambda>y. nm y \<noteq> n) xs) else Err (NotFound n))"

definition storeWith :: "('a list \<Rightarrow> store \<Rightarrow> store) \<Rightarrow> 'a list res \<Rightarrow> 'b \<Rightarrow> store \<Rightarrow> 'b res \<times> store" where
  "storeWith upd r x s =
     (case r of Ok xs \<Rightarrow> (Ok x, upd xs s) | Err e \<Rightarrow> (Err e, s) | Panic m \<Rightarrow> (Panic m, s))"

text \<open>A quantity is a number with an optional binary unit.\<close>

definition parseUnit :: "string \<Rightarrow> int res" where
  "parseUnit u =
     (if u = '''' \<or> u = ''B'' then Ok 1 else if u = ''K'' then Ok (2 ^ 10) else if u = ''M'' then Ok (2 ^ 20)
      else if u = ''G'' then Ok (2 ^ 30) else if u = ''T'' then Ok (2 ^ 40) else Err (ApiError u))"

definition sampleParseQuantity :: "string \<Rightarrow> Quantity res" where
  "sampleParseQuantity str =
     (let ds = takeWhile isDigit str in
      if ds = '''' then Err (ApiError str)
      else bindR (parseUnit (dropWhile isDigit str)) (\<lambda>u. Ok (Atoi ds * u)))"

definition sampleEnv :: "store env" where
  "sampleEnv =
    \<lparr>node_list = (\<lambda>s sel. Ok (filter (\<lambda>n. matchesSelector sel (Labels n)) (st_nodes s))),
     bd_get = (\<lambda>s ns n. lookupObj Name n (st_bds s)),
     bdc_get = (\<lambda>s ns n. lookupObj Name n (st_bdcs s)),
     bdc_list = (\<lambda>s ns sel. Ok (filter (\<lambda>c. inNamespace ns (Namespace c) \<and> matchesSelector sel (Labels c)) (st_bdcs s))),
     bdc_create = (\<lambda>s ns c. storeWith (\<lambda>xs s. s\<lparr>st_bdcs := xs\<rparr>) (insertObj Name c (st_bdcs s)) () s),
     bdc_update = (\<lambda>s ns c. storeWith (\<lambda>xs s. s\<lparr>st_bdcs := xs\<rparr>) (replaceObj Name c (st_bdcs s)) () s),
     bdc_delete = (\<lambda>s ns n. storeWith (\<lambda>xs s. s\<lparr>st_bdcs := xs\<rparr>) (removeObj Name n (st_bdcs s)) () s),
     cspc_get = (\<lambda>s ns n. lookupObj Name n (st_cspcs s)),
     cspc_update = (\<lambda>s ns c. storeWith (\<lambda>xs s. s\<lparr>st_cspcs := xs\<rparr>) (replaceObj Name c (st_cspcs s)) c s),
     cspi_list = (\<lambda>s ns sel. Ok (filter (\<lambda>c. inNamespace ns (Namespace c) \<and> matchesSelector sel (Labels c)) (st_cspis s))),
     cspi_create = (\<lambda>s ns c. storeWith (\<lambda>xs s. s\<lparr>st_cspis := xs\<rparr>) (insertObj Name c (st_cspis s)) c s),
     cspi_update = (\<lambda>s ns c. storeWith (\<lambda>xs s. s\<lparr>st_cspis := xs\<rparr>) (replaceObj Name c (st_cspis s)) c s),
     cspi_delete = (\<lambda>s ns n. storeWith (\<lambda>xs s. s\<lparr>st_cspis := xs\<rparr>) (removeObj Name n (st_cspis s)) () s),
     cspi_delete_collection = (\<lambda>s ns sel. (Ok (), s\<lparr>st_cspis :=
        map (\<lambda>c. if inNamespace ns (Namespace c) \<and> matchesSelector sel (Labels c)
                 then c\<lparr>DeletionTimestamp := Some ''now''\<rparr> else c) (st_cspis s)\<rparr>)),
     cvr_list = (\<lambda>s ns sel. Ok (filter (\<lambda>c. inNamespace ns (Namespace c) \<and> matchesSelector sel (Labels c)) (st_cvrs s))),
     cvc_get = (\<lambda>s ns n. lookupObj Name n (st_cvcs s)),
     cvc_list = (\<lambda>s ns sel. Ok (filter (\<lambda>c. inNamespace ns (Namespace c) \<and> matchesSelector sel (Labels c)) (st_cvcs s))),
     cv_count = (\<lambda>s ns sel. Ok 0),
     pvc_get = (\<lambda>s ns n. lookupObj Name n (st_pvcs s)),
     webhook_config_delete = (\<lambda>s n. (Ok (), s)),
     deploy_get = (\<lambda>s ns n. lookupObj Name n (st_deploys s)),
     deploy_list = (\<lambda>s ns sel. Ok (filter (\<lambda>c. inNamespace ns (Namespace c) \<and> matchesSelector sel (Labels c)) (st_deploys s))),
     deploy_create = (\<lambda>s ns d. storeWith (\<lambda>xs s. s\<lparr>st_deploys := xs\<rparr>) (insertObj Name d (st_deploys s)) () s),
     deploy_patch = (\<lambda>s ns n p. (Ok (), s)),
     marshalDeployment = (\<lambda>d. Ok (Name d)),
     CreateTwoWayMergePatch = (\<lambda>a b. Ok b),
     StrategicMergePatch = (\<lambda>a b. Ok b),
     SplitMetaNamespaceKey = (\<lambda>k. case Split (CHR ''/'') k of [ns, n] \<Rightarrow> Ok (ns, n) | _ \<Rightarrow> Err (ApiError k)),
     cspc_cached = (\<lambda>s ns n. lookupObj Name n (st_cspcs s)),
     HasFinalizer = (\<lambda>fs f. List.member fs f),
     WithFinalizer = (\<lambda>fs f. fs @ [f]),
     RemoveFinalizer = (\<lambda>fs f. filter (\<lambda>g. g \<noteq> f) fs),
     LookupEnv = (\<lambda>k. None),
     GetServiceAccountName = ''openebs-cstor-operator'',
     ImagePullSecrets = [],
     OpenebsBaseDirPath = ''/var/openebs'',
     ParseQuantity = sampleParseQuantity,
     ListDiff = (\<lambda>xs ys. filter (\<lambda>x. x \<notin> set ys) xs),
     GetDesiredReplicaPoolNames = (\<lambda>c. cvc_ReplicaPoolInfo c),
     CSPCFinalizer = ''cstorpoolcluster.openebs.io/finalizer'',
     CStorPoolInstanceNameLabelKey = ''cstorpoolinstance.openebs.io/name'',
     OpenEBSNamespace = ''openebs'',
     OpenEBSNamespaceEnv = ''OPENEBS_NAMESPACE'',
     CStorVolumeConfigPhaseBound = ''Bound'',
     mapOrder = (\<lambda>m. m),
     rangeCheck = [''data'', ''writeCache''],
     rangeExpand = [''data'', ''writeCache''],
     labelSetString = (\<lambda>m. Join (map (\<lambda>(k, v). k @ ''='' @ v) m) '',''),
     setOrder = remdups,
     HasNodeName = (\<lambda>n cspi. HostName (cspi_Spec cspi) = n),
     ContainsString = (\<lambda>fs f. List.member fs f),
     RemoveString = (\<lambda>fs f. filter (\<lambda>g. g \<noteq> f) fs),
     OpenEBSDisableDependantsReconcileKey = ''openebs.io/disable-dependants-reconcile'',
     OpenEBSDisableReconcileLabelKey = ''reconcile.openebs.io/disable'',
     CasTypeCStor = ''cstor'',
     newVersionDetails = (\<lambda>v. emptyVersionDetails\<lparr>vd_Current := v, vd_Desired := v\<rparr>),
     ReconcileInProgress = ''ReconcileInProgress'',
     setInProgressStatus = (\<lambda>v. v\<lparr>vd_State := ''ReconcileInProgress''\<rparr>),
     setSuccessStatus = (\<lambda>v. v\<lparr>vd_Current := vd_Desired v, vd_State := ''Reconciled''\<rparr>),
     setErrorStatus = (\<lambda>m e v. v\<lparr>vd_Message := m\<rparr>),
     randSuffix = (\<lambda>s. showNat (length (st_cspis s))),
     now = (\<lambda>s. 0),
     binaryVersion = ''2.12.0''\<rparr>"

section \<open>Sample objects\<close>

definition sampleMeta :: "string \<Rightarrow> gomap \<Rightarrow> ObjectMeta" where
  "sampleMeta n ls =
     \<lparr>Name = n, Namespace = ''openebs'', UID = ''uid-'' @ n, Labels = ls, Annotations = [], Finalizers = [],
      OwnerReferences = [], DeletionTimestamp = None\<rparr>"

definition sampleNode :: "string \<Rightarrow> Node" where
  "sampleNode n = sampleMeta n [(HostNameLabelKey, n)]"

definition sampleBD :: "string \<Rightarrow> string \<Rightarrow> string option \<Rightarrow> 64 word \<Rightarrow> BlockDevice" where
  "sampleBD n host ref cap =
     ObjectMeta.extend (sampleMeta n [(HostNameLabelKey, host)])
       \<lparr>bd_State = ''Active'', bd_ClaimState = (if ref = None then ''Unclaimed'' else ''Claimed''),
        bd_FileSystemType = '''', bd_ClaimRef = ref, bd_CapacityStorage = cap,
        bd_DevLinks = [], bd_Path = ''/dev/'' @ n\<rparr>"

definition sampleBDC :: "string \<Rightarrow> string \<Rightarrow> string \<Rightarrow> BlockDeviceClaim" where
  "sampleBDC n bd cluster =
     ObjectMeta.extend (sampleMeta n [(CStorPoolClusterLabelKey, cluster)])
       \<lparr>bdc_BlockDeviceName = bd, bdc_HostName = '''', bdc_Capacity = 0, bdc_Selector = None\<rparr>"

definition sampleGroup :: "string list \<Rightarrow> RaidGroup" where
  "sampleGroup ns =
     \<lparr>CStorPoolInstanceBlockDevices = map (\<lambda>n. \<lparr>BlockDeviceName = n, cbd_Capacity = 0, cbd_DevLink = ''''\<rparr>) ns\<rparr>"

definition samplePool :: "string \<Rightarrow> string \<Rightarrow> string list list \<Rightarrow> PoolSpec" where
  "samplePool node t gs =
     \<lparr>NodeSelector = [(HostNameLabelKey, node)], DataRaidGroups = map sampleGroup gs, WriteCacheRaidGroups = [],
      poolConfig = \<lparr>DataRaidGroupType = t, WriteCacheGroupType = '''', Compression = ''lz4'', Resources = None,
        AuxResources = None, Tolerations = None, PriorityClassName = None, ROThresholdLimit = None\<rparr>\<rparr>"

definition sampleCSPC :: "string \<Rightarrow> PoolSpec list \<Rightarrow> CStorPoolCluster" where
  "sampleCSPC n pools =
     ObjectMeta.extend (sampleMeta n [])
       \<lparr>cspc_Spec = (cspc_Spec emptyCStorPoolCluster)\<lparr>Pools := pools\<rparr>,
        cspc_Status = cspc_Status emptyCStorPoolCluster, cspc_Version = emptyVersionDetails\<rparr>"

definition sampleCSPI :: "string \<Rightarrow> string \<Rightarrow> string \<Rightarrow> PoolSpec \<Rightarrow> CStorPoolInstance" where
  "sampleCSPI n cluster host p =
     ObjectMeta.extend (sampleMeta n [(HostNameLabelKey, host), (CStorPoolClusterLabelKey, cluster)])
       \<lparr>cspi_Spec = PoolSpec.extend p \<lparr>HostName = host\<rparr>,
        cspi_Status = emptyCSPIStatus\<lparr>cspi_Phase := ''ONLINE''\<rparr>,
        cspi_Version = emptyVersionDetails\<rparr>"

definition emptyStore :: store where
  "emptyStore =
     \<lparr>st_nodes = [], st_bds = [], st_bdcs = [], st_cspcs = [], st_cspis = [], st_cvrs = [], st_cvcs = [],
      st_cvs = [], st_services = [], st_pdbs = [], st_pvcs = [], st_backups = [], st_completed = [], st_restores = [], st_deploys = [], st_zpools = [], st_commands = []\<rparr>"

text \<open>
  Two nodes; cluster \<open>c1\<close> has a mirror of \<open>a1\<close> and \<open>a2\<close> on node \<open>n1\<close>, both claimed; \<open>a3\<close>
  and \<open>a4\<close> on the same node are free, as are \<open>b1\<close> and \<open>b2\<close> on node \<open>n2\<close>.
\<close>

definition sampleStore :: store where
  "sampleStore =
     (let pool = samplePool ''n1'' ''mirror'' [[''a1'', ''a2'']] in
      emptyStore\<lparr>
        st_nodes := [sampleNode ''n1'', sampleNode ''n2''],
        st_bds := [sampleBD ''a1'' ''n1'' (Some ''bdc-a1'') 1073741824, sampleBD ''a2'' ''n1'' (Some ''bdc-a2'') 1073741824,
                   sampleBD ''a3'' ''n1'' None 2147483648, sampleBD ''a4'' ''n1'' None 1048576,
                   sampleBD ''b1'' ''n2'' None 1073741824, sampleBD ''b2'' ''n2'' None 1073741824],
        st_bdcs := [sampleBDC ''bdc-a1'' ''a1'' ''c1'', sampleBDC ''bdc-a2'' ''a2'' ''c1''],
        st_cspcs := [sampleCSPC ''c1'' [pool]],
        st_cspis := [sampleCSPI ''c1-x'' ''c1'' ''n1'' pool]\<rparr>)"

end
