(* ===== verification/CspcWebhook.thy ===== *)
theory CspcWebhook
  imports SampleServer "HOL-Library.Log_Nat"
begin

text \<open>
  The admission webhook for CStorPoolClusters: \<open>src/pkg/webhook/cspc.go\<close> up to the
  update request (which needs \<open>CspcPoolOps\<close>), and \<open>admission_response.go\<close>. A validation
  that returns \<open>(bool, string)\<close> is a \<open>verdict\<close>: \<open>Ok ()\<close> for \<open>true\<close>, \<open>Err msg\<close> for
  \<open>false, msg\<close>. The main lemma, \<open>cspcValidation_iff\<close>, says exactly which clusters
  are accepted.
\<close>

section \<open>Admission requests and responses\<close>

datatype Operation = Create | Update | Delete | Connect

text \<open>
  The raw object of a request enters through the outcome of \<open>json.Unmarshal\<close> into the
  type the handler wants.
\<close>

record AdmissionRequest =
  req_Kind :: string
  req_Operation :: Operation
  req_Name :: string
  req_Namespace :: string
  req_CSPC :: "CStorPoolCluster res"
  req_CVC :: "CStorVolumeConfig res"

record AdmissionResponse =
  Allowed :: bool
  Result :: "(string \<times> int \<times> goerr option) option"

definition StatusAccepted :: int where "StatusAccepted = 202"
definition StatusBadRequest :: int where "StatusBadRequest = 400"
definition StatusForbidden :: int where "StatusForbidden = 403"
definition StatusUnprocessableEntity :: int where "StatusUnprocessableEntity = 422"
definition StatusInternalServerError :: int where "StatusInternalServerError = 500"

definition NewAdmissionResponse :: AdmissionResponse where
  "NewAdmissionResponse = \<lparr>Allowed = False, Result = None\<rparr>"

definition WithResultAsFailure :: "AdmissionResponse \<Rightarrow> goerr \<Rightarrow> int \<Rightarrow> AdmissionResponse" where
  "WithResultAsFailure ar err code = ar\<lparr>Result := Some (''Failure'', code, Some err)\<rparr>"

definition WithResultAsSuccess :: "AdmissionResponse \<Rightarrow> int \<Rightarrow> AdmissionResponse" where
  "WithResultAsSuccess ar code = ar\<lparr>Result := Some (''Success'', code, None)\<rparr>"

definition SetAllowed :: "AdmissionResponse \<Rightarrow> AdmissionResponse" where
  "SetAllowed ar = ar\<lparr>Allowed := True\<rparr>"

definition UnSetAllowed :: "AdmissionResponse \<Rightarrow> AdmissionResponse" where
  "UnSetAllowed ar = ar\<lparr>Allowed := False\<rparr>"

lemmas response_defs =
  NewAdmissionResponse_def WithResultAsFailure_def WithResultAsSuccess_def SetAllowed_def UnSetAllowed_def

abbreviation accepted :: AdmissionResponse where
  "accepted \<equiv> WithResultAsSuccess (SetAllowed NewAdmissionResponse) StatusAccepted"

abbreviation rejected :: "goerr \<Rightarrow> int \<Rightarrow> AdmissionResponse" where
  "rejected err code \<equiv> WithResultAsFailure (UnSetAllowed accepted) err code"

lemma accepted_Allowed [simp]: "Allowed accepted"
  by (simp add: response_defs)

lemma rejected_not_Allowed [simp]: "\<not> Allowed (rejected e c)"
  by (simp add: response_defs)

section \<open>Nodes named by a node selector\<close>

text \<open>
  \<open>for key, value := range selector\<close> in the iteration order of the run, then the slice
  expression that drops the last comma, which panics on the empty string.
\<close>

definition getLabelSelectorString :: "gomap \<Rightarrow> string res" where
  "getLabelSelectorString selector =
     (let s = concat (map (\<lambda>(key, value). key @ ''='' @ value @ '','') selector)
      in if s = [] then Panic ''slice bounds out of range'' else Ok (butlast s))"

definition GetHostNameFromLabelSelector :: "'s env \<Rightarrow> 's \<Rightarrow> gomap \<Rightarrow> string res" where
  "GetHostNameFromLabelSelector E s labels =
     bindR (getLabelSelectorString (mapOrder E labels)) (\<lambda>sel.
     bindR (wrapR (node_list E s sel) ''failed to get node list from the node selector'' []) (\<lambda>nodes.
       if length nodes \<noteq> 1
       then Err (Errorf ''invalid no.of nodes %d from the given node selectors'' [AI (int (length nodes))])
       else Ok (mget (Labels (hd nodes)) HostNameLabelKey)))"

section \<open>Block devices of a pool spec\<close>

definition rgBDNames :: "RaidGroup \<Rightarrow> string list" where
  "rgBDNames rg = map BlockDeviceName (CStorPoolInstanceBlockDevices rg)"

definition allRaidGroups :: "'a PoolSpec_scheme \<Rightarrow> RaidGroup list" where
  "allRaidGroups p = DataRaidGroups p @ WriteCacheRaidGroups p"

definition poolBDNames :: "'a PoolSpec_scheme \<Rightarrow> string list" where
  "poolBDNames p = concat (map rgBDNames (allRaidGroups p))"

definition cspcBDNames :: "CStorPoolCluster \<Rightarrow> string list" where
  "cspcBDNames cspc = concat (map poolBDNames (Pools (cspc_Spec cspc)))"

text \<open>The loop of \<open>getDuplicateBlockDeviceList\<close> with its two maps and its result.\<close>

fun dupLoop :: "string list \<Rightarrow> string list \<Rightarrow> string list \<Rightarrow> string list \<Rightarrow> string list" where
  "dupLoop blockDeviceMap addedBlockDevices duplicates [] = duplicates"
| "dupLoop blockDeviceMap addedBlockDevices duplicates (bd # bds) =
     (if bd \<in> set blockDeviceMap \<and> bd \<notin> set addedBlockDevices
      then dupLoop blockDeviceMap (bd # addedBlockDevices) (duplicates @ [bd]) bds
      else if bd \<notin> set blockDeviceMap
      then dupLoop (bd # blockDeviceMap) addedBlockDevices duplicates bds
      else dupLoop blockDeviceMap addedBlockDevices duplicates bds)"

definition getDuplicateBlockDeviceList :: "CStorPoolCluster \<Rightarrow> string list" where
  "getDuplicateBlockDeviceList cspc = dupLoop [] [] [] (cspcBDNames cspc)"

section \<open>Raid group sizes\<close>

text \<open>
  \<open>math.Ceil(math.Log2(float64(n)))\<close> and \<open>math.Floor\<close> of the same: not a number for a
  negative \<open>n\<close>, minus infinity for 0, an integer otherwise. \<open>math.Log2\<close> is exact on
  powers of two and, on the sizes a raid group can have, stays strictly between two integers
  elsewhere.
\<close>

datatype rounded = NaN | NegInf | Num int

definition ceilLog2 :: "int \<Rightarrow> rounded" where
  "ceilLog2 n = (if n < 0 then NaN else if n = 0 then NegInf else Num (int (ceillog2 (nat n))))"

definition floorLog2 :: "int \<Rightarrow> rounded" where
  "floorLog2 n = (if n < 0 then NaN else if n = 0 then NegInf else Num (int (floorlog 2 (nat n)) - 1))"

text \<open>Comparison of floats: a NaN differs from everything, itself included, and is not less.\<close>

fun flt_neq :: "rounded \<Rightarrow> rounded \<Rightarrow> bool" where
  "flt_neq NaN y = True"
| "flt_neq x NaN = True"
| "flt_neq x y = (x \<noteq> y)"

fun flt_less :: "rounded \<Rightarrow> int \<Rightarrow> bool" where
  "flt_less NaN k = False"
| "flt_less NegInf k = True"
| "flt_less (Num i) k = (i < k)"

definition isStripedBDCountValid :: "int \<Rightarrow> verdict" where
  "isStripedBDCountValid count =
     (if count < 1 then Err (Errorf ''stripe raid group should have atleast one disk'' []) else Ok ())"

definition isMirroredBDCountValid :: "int \<Rightarrow> verdict" where
  "isMirroredBDCountValid count =
     (if count mod 2 \<noteq> 0 then Err (Errorf ''mirror raid group should have disks in multiple of 2'' []) else Ok ())"

definition isRaidzBDCountValid :: "int \<Rightarrow> verdict" where
  "isRaidzBDCountValid count =
     (let n = count - 1; x = ceilLog2 n; y = floorLog2 n
      in if flt_neq x y \<or> flt_less x 1
         then Err (Errorf ''raidz raid group should have disks of the order 2^n+1, where n>0'' []) else Ok ())"

definition isRaidz2BDCountValid :: "int \<Rightarrow> verdict" where
  "isRaidz2BDCountValid count =
     (let n = count - 2; x = ceilLog2 n; y = floorLog2 n
      in if flt_neq x y \<or> flt_less x 2
         then Err (Errorf ''raidz raid group should have disks of the order 2^n+2, where n>1'' []) else Ok ())"

definition SupportedPRaidType :: "string \<Rightarrow> (int \<Rightarrow> verdict) option" where
  "SupportedPRaidType t =
     (if t = PoolStriped then Some isStripedBDCountValid
      else if t = PoolMirrored then Some isMirroredBDCountValid
      else if t = PoolRaidz then Some isRaidzBDCountValid
      else if t = PoolRaidz2 then Some isRaidz2BDCountValid
      else None)"

definition SupportedCompression :: "string \<Rightarrow> bool" where
  "SupportedCompression c = (c \<in> {''on'', ''off'', ''lzjb'', ''gzip'', ''zle'', '''', ''lz4''})"

section \<open>Validation of one pool spec\<close>

record PoolValidator =
  poolSpec :: PoolSpec
  pv_namespace :: string
  pv_hostName :: string
  pv_cspcName :: string

definition poolConfigValidation :: "PoolValidator \<Rightarrow> PoolConfig \<Rightarrow> verdict" where
  "poolConfigValidation pv pc =
     (if DataRaidGroupType pc = '''' then Err (Errorf ''missing dataRaidGroupType'' [])
      else if SupportedPRaidType (DataRaidGroupType pc) = None
      then Err (Errorf ''unsupported dataRaidGroupType '%s' specified'' [AS (DataRaidGroupType pc)])
      else if \<not> SupportedCompression (Compression pc)
      then Err (Errorf ''unsupported compression '%s' specified'' [AS (Compression pc)])
      else if length (WriteCacheRaidGroups (poolSpec pv)) \<noteq> 0
      then (if WriteCacheGroupType pc = '''' then Err (Errorf ''missing writeCacheGroupType'' [])
            else if SupportedPRaidType (WriteCacheGroupType pc) = None
            then Err (Errorf ''unsupported writeCacheGroupType '%s' specified'' [AS (WriteCacheGroupType pc)])
            else Ok ())
      else Ok ())"

definition validateBlockDevice :: "BlockDevice \<Rightarrow> string \<Rightarrow> verdict" where
  "validateBlockDevice bd hostName =
     (if bd_State bd \<noteq> ''Active''
      then Err (Errorf ''block device %q is in not in active state'' [AS (Name bd)])
      else if bd_FileSystemType bd \<noteq> '''' \<and> bd_FileSystemType bd \<noteq> ''zfs_member''
      then Err (Errorf ''block device has file system {%s}'' [AS (bd_FileSystemType bd)])
      else if mget (Labels bd) HostNameLabelKey \<noteq> hostName
      then Err (Errorf ''block device %s doesn't belongs to node %s''
                  [AS (Name bd), AS (mget (Labels bd) HostNameLabelKey)])
      else if mhas (Labels bd) BlockDeviceTagLabelKey \<and>
              TrimSpace (mget (Labels bd) BlockDeviceTagLabelKey) = ''''
      then Err (Errorf ''block device %s is tagged with a value %s and cannot be used''
                  [AS (Name bd), AS (mget (Labels bd) BlockDeviceTagLabelKey)])
      else Ok ())"

definition blockDeviceClaimValidation ::
    "'s env \<Rightarrow> 's \<Rightarrow> PoolValidator \<Rightarrow> string \<Rightarrow> string \<Rightarrow> verdict" where
  "blockDeviceClaimValidation E s pv bdcName bdName =
     bindR (wrapR (bdc_get E s (pv_namespace pv) bdcName)
              ''could not get block device claim for block device {%s}'' [AS bdName]) (\<lambda>bdc.
       if mget (Labels bdc) CStorPoolClusterLabelKey \<noteq> pv_cspcName pv
       then Err (Errorf ''can't use claimed blockdevice %s'' [AS bdName]) else Ok ())"

definition blockDeviceValidation ::
    "'s env \<Rightarrow> 's \<Rightarrow> PoolValidator \<Rightarrow> CStorPoolInstanceBlockDevice \<Rightarrow> verdict" where
  "blockDeviceValidation E s pv bd =
     (if BlockDeviceName bd = '''' then Err (Errorf ''block device name cannot be empty'' [])
      else
        bindR (quoteR (bd_get E s (pv_namespace pv) (BlockDeviceName bd))
                 ''failed to get block device: {%s} details error: %v'' [AS (BlockDeviceName bd)]) (\<lambda>bdObj.
        bindR (quoteR (validateBlockDevice bdObj (pv_hostName pv)) ''%v'' []) (\<lambda>_.
          if bd_ClaimState bdObj = BlockDeviceClaimed
          then (case bd_ClaimRef bdObj of
                  None \<Rightarrow> Ok ()
                | Some bdcName \<Rightarrow>
                    quoteR (blockDeviceClaimValidation E s pv bdcName (Name bdObj)) ''error: %v'' [])
          else Ok ())))"

definition raidGroupValidation ::
    "'s env \<Rightarrow> 's \<Rightarrow> PoolValidator \<Rightarrow> RaidGroup \<Rightarrow> string \<Rightarrow> verdict" where
  "raidGroupValidation E s pv rg rgType =
     (if length (CStorPoolInstanceBlockDevices rg) = 0
      then Err (Errorf ''empty raid group: number of block devices honouring raid type should be specified'' [])
      else (case SupportedPRaidType rgType of
              None \<Rightarrow> Panic ''invalid memory address or nil pointer dereference''
            | Some valid \<Rightarrow>
                bindR (valid (int (length (CStorPoolInstanceBlockDevices rg)))) (\<lambda>_.
                checkAll (blockDeviceValidation E s pv) (CStorPoolInstanceBlockDevices rg))))"

definition poolSpecValidation :: "'s env \<Rightarrow> 's \<Rightarrow> PoolValidator \<Rightarrow> verdict" where
  "poolSpecValidation E s pv =
     (let spec = poolSpec pv; pc = poolConfig spec in
      bindR (poolConfigValidation pv pc) (\<lambda>_.
        if length (DataRaidGroups spec) = 0
        then Err (Errorf ''at least one raid group should be present on dataRaidGroups'' [])
        else if DataRaidGroupType pc = PoolStriped \<and> length (DataRaidGroups spec) \<noteq> 1
        then Err (Errorf ''stripe dataRaidGroups should have exactly one raidGroup'' [])
        else
          bindR (checkAll (\<lambda>rg. raidGroupValidation E s pv rg (DataRaidGroupType pc)) (DataRaidGroups spec)) (\<lambda>_.
          if length (WriteCacheRaidGroups spec) \<noteq> 0
          then (if WriteCacheGroupType pc = PoolStriped \<and> length (WriteCacheRaidGroups spec) \<noteq> 1
                then Err (Errorf ''stripe writeCacheRaidGroups should have exactly one raidGroup'' [])
                else checkAll (\<lambda>rg. raidGroupValidation E s pv rg (WriteCacheGroupType pc)) (WriteCacheRaidGroups spec))
          else Ok ())))"

section \<open>Validation of the cluster, and the create and delete requests\<close>

fun cspcPoolsLoop :: "'s env \<Rightarrow> 's \<Rightarrow> string \<Rightarrow> string list \<Rightarrow> PoolSpec list \<Rightarrow> verdict" where
  "cspcPoolsLoop E s cspcName usedNodes [] = Ok ()"
| "cspcPoolsLoop E s cspcName usedNodes (pool # pools) =
     bindR (quoteR (GetHostNameFromLabelSelector E s (NodeSelector pool))
              ''failed to get node from pool nodeSelector: {%v} error: {%v}'' [AM (NodeSelector pool)]) (\<lambda>nodeName.
     if nodeName \<in> set usedNodes
     then Err (Errorf ''invalid cspc: duplicate node %s entry'' [AS nodeName])
     else
       bindR (quoteR (poolSpecValidation E s
                        \<lparr>poolSpec = pool, pv_namespace = OpenEBSNamespace E,
                         pv_hostName = nodeName, pv_cspcName = cspcName\<rparr>)
                ''invalid pool spec: %s'' []) (\<lambda>_.
       cspcPoolsLoop E s cspcName (nodeName # usedNodes) pools))"

definition cspcValidation :: "'s env \<Rightarrow> 's \<Rightarrow> CStorPoolCluster \<Rightarrow> verdict" where
  "cspcValidation E s cspc =
     (if length (Pools (cspc_Spec cspc)) = 0
      then Err (Errorf ''pools in cspc should have at least one item'' [])
      else let repeatedBlockDevices = getDuplicateBlockDeviceList cspc in
        if length repeatedBlockDevices > 0
        then Err (Errorf ''invalid cspc: cspc {%s} has duplicate blockdevices entries %v''
                    [AS (Name cspc), AL repeatedBlockDevices])
        else cspcPoolsLoop E s (Name cspc) [] (Pools (cspc_Spec cspc)))"

definition validateCSPCCreateRequest :: "'s env \<Rightarrow> 's \<Rightarrow> AdmissionRequest \<Rightarrow> AdmissionResponse res" where
  "validateCSPCCreateRequest E s req =
     (case req_CSPC req of
        Panic m \<Rightarrow> Panic m
      | Err e \<Rightarrow> Ok (rejected e StatusBadRequest)
      | Ok cspc \<Rightarrow>
          (case cspcValidation E s cspc of
             Panic m \<Rightarrow> Panic m
           | Err msg \<Rightarrow> Ok (rejected (Errorf ''invalid cspc specification: %s'' [AE msg]) StatusUnprocessableEntity)
           | Ok _ \<Rightarrow> Ok accepted))"

fun cspiDeleteLoop :: "'s env \<Rightarrow> 's \<Rightarrow> AdmissionRequest \<Rightarrow> CStorPoolInstance list \<Rightarrow> AdmissionResponse res" where
  "cspiDeleteLoop E s req [] = Ok accepted"
| "cspiDeleteLoop E s req (cspi # cspis) =
     (case cvr_list E s '''' (''cstorpoolinstance.openebs.io/name='' @ Name cspi) of
        Panic m \<Rightarrow> Panic m
      | Err e \<Rightarrow> Ok (rejected e StatusBadRequest)
      | Ok cvrs \<Rightarrow>
          if length cvrs \<noteq> 0
          then Ok (rejected (Errorf ''invalid cspc %s deletion: volume still exists on pool %s''
                               [AS (req_Name req), AS (Name cspi)]) StatusUnprocessableEntity)
          else cspiDeleteLoop E s req cspis)"

definition validateCSPCDeleteRequest :: "'s env \<Rightarrow> 's \<Rightarrow> AdmissionRequest \<Rightarrow> AdmissionResponse res" where
  "validateCSPCDeleteRequest E s req =
     (case cspi_list E s (req_Namespace req) (CStorPoolClusterLabelKey @ ''='' @ req_Name req) of
        Panic m \<Rightarrow> Panic m
      | Err e \<Rightarrow> Ok (rejected e StatusBadRequest)
      | Ok cspis \<Rightarrow> cspiDeleteLoop E s req cspis)"


section \<open>Raid group sizes: the four checks against their arithmetic meaning\<close>

text \<open>
  The contract between \<open>raidGroupValidation\<close> and the entries of \<open>SupportedPRaidType\<close>: a
  check accepts the number of devices of a non-empty group exactly when a predicate on sizes
  holds, and never panics.
\<close>

locale count_policy =
  fixes check :: "int \<Rightarrow> verdict"
    and size_ok :: "nat \<Rightarrow> bool"
  assumes check_iff: "0 < n \<Longrightarrow> (check (int n) = Ok ()) = size_ok n"
    and check_total: "check c \<noteq> Panic m"
begin

lemma group_accepted:
  assumes "xs \<noteq> []"
  shows "(bindR (check (int (length xs))) (\<lambda>_. checkAll f xs) = Ok ())
     \<longleftrightarrow> size_ok (length xs) \<and> (\<forall>x \<in> set xs. f x = Ok ())"
  using assms check_iff [of "length xs"] by (auto simp: bindR_Ok_iff checkAll_Ok_iff)

lemma group_no_panic:
  assumes "bindR (check c) (\<lambda>_. checkAll f xs) = Panic m"
  shows "checkAll f xs = Panic m"
  using assms check_total by (auto simp: bindR_Panic_iff)

end

lemma ceilLog2_eq_floorLog2:
  assumes "0 < n"
  shows "\<not> flt_neq (ceilLog2 n) (floorLog2 n) \<longleftrightarrow> (\<exists>k. nat n = 2 ^ k)"
proof
  let ?n = "nat n"
  from assms have pos: "0 < ?n" by simp
  assume "\<not> flt_neq (ceilLog2 n) (floorLog2 n)"
  with assms have eq: "int (ceillog2 ?n) = int (floorlog 2 ?n) - 1"
    by (simp add: ceilLog2_def floorLog2_def)
  from pos have "2 ^ (floorlog 2 ?n - 1) \<le> ?n" using floorlog_bounds [of ?n 2] by simp
  moreover from eq have "ceillog2 ?n = floorlog 2 ?n - 1" by linarith
  ultimately have "?n = 2 ^ ceillog2 ?n" using le_two_power_ceillog2 [of ?n] by simp
  then show "\<exists>k. ?n = 2 ^ k" by blast
next
  assume "\<exists>k. nat n = 2 ^ k"
  then obtain k where "nat n = 2 ^ k" by blast
  with assms have "ceilLog2 n = Num (int k)" and "floorLog2 n = Num (int k)"
    using floorlog_power [of 1 2 k] unfolding ceilLog2_def floorLog2_def
    by (simp_all add: nat_power_eq floorlog_def)
  then show "\<not> flt_neq (ceilLog2 n) (floorLog2 n)" by simp
qed

lemma ceilLog2_power: "0 < n \<Longrightarrow> nat n = 2 ^ k \<Longrightarrow> flt_less (ceilLog2 n) j \<longleftrightarrow> int k < j"
  unfolding ceilLog2_def by (simp add: nat_power_eq)

text \<open>A count minus an offset passes the rounding test exactly when it is a large enough power of two.\<close>

lemma power_test:
  "(\<not> flt_neq (ceilLog2 n) (floorLog2 n) \<and> \<not> flt_less (ceilLog2 n) (int j)) \<longleftrightarrow>
   (\<exists>k \<ge> j. n = 2 ^ k)"
proof (cases "0 < n")
  case True
  show ?thesis
  proof
    assume A: "\<not> flt_neq (ceilLog2 n) (floorLog2 n) \<and> \<not> flt_less (ceilLog2 n) (int j)"
    with True obtain k where k: "nat n = 2 ^ k" using ceilLog2_eq_floorLog2 by blast
    with A True have "j \<le> k" using ceilLog2_power [OF True k, of "int j"] by linarith
    moreover from k True have "n = 2 ^ k" by (metis int_nat_eq less_le of_nat_numeral of_nat_power)
    ultimately show "\<exists>k \<ge> j. n = 2 ^ k" by blast
  next
    assume "\<exists>k \<ge> j. n = 2 ^ k"
    then obtain k where "j \<le> k" and "n = 2 ^ k" by blast
    moreover from this have "nat n = 2 ^ k" by (simp add: nat_power_eq)
    ultimately show "\<not> flt_neq (ceilLog2 n) (floorLog2 n) \<and> \<not> flt_less (ceilLog2 n) (int j)"
      using True ceilLog2_eq_floorLog2 [OF True] ceilLog2_power [OF True, of k "int j"] by auto
  qed
next
  case False
  then have "n \<noteq> 2 ^ k" for k by (metis zero_less_numeral zero_less_power)
  with False show ?thesis by (auto simp: ceilLog2_def floorLog2_def)
qed

lemma isStriped_iff: "0 < n \<Longrightarrow> (isStripedBDCountValid (int n) = Ok ()) = True"
  by (simp add: isStripedBDCountValid_def)

lemma isMirrored_iff: "(isMirroredBDCountValid (int n) = Ok ()) = even n"
  by (simp add: isMirroredBDCountValid_def) presburger

lemma isRaidz_iff: "(isRaidzBDCountValid (int n) = Ok ()) = (\<exists>k \<ge> 1. n = 2 ^ k + 1)"
proof -
  have "(isRaidzBDCountValid (int n) = Ok ()) = (\<exists>k \<ge> 1. int n - 1 = 2 ^ k)"
    using power_test [of "int n - 1" 1] by (auto simp: isRaidzBDCountValid_def Let_def)
  also have "\<dots> = (\<exists>k \<ge> 1. int n = int (2 ^ k + 1))" by (simp add: algebra_simps)
  finally show ?thesis by (simp only: of_nat_eq_iff)
qed

lemma isRaidz2_iff: "(isRaidz2BDCountValid (int n) = Ok ()) = (\<exists>k \<ge> 2. n = 2 ^ k + 2)"
proof -
  have "(isRaidz2BDCountValid (int n) = Ok ()) = (\<exists>k \<ge> 2. int n - 2 = 2 ^ k)"
    using power_test [of "int n - 2" 2] by (auto simp: isRaidz2BDCountValid_def Let_def)
  also have "\<dots> = (\<exists>k \<ge> 2. int n = int (2 ^ k + 2))" by (simp add: algebra_simps)
  finally show ?thesis by (simp only: of_nat_eq_iff)
qed

interpretation striped: count_policy isStripedBDCountValid "\<lambda>_. True"
  by unfold_locales (auto simp: isStripedBDCountValid_def)

interpretation mirrored: count_policy isMirroredBDCountValid even
  by unfold_locales (auto simp: isMirrored_iff, simp add: isMirroredBDCountValid_def split: if_splits)

interpretation raidz: count_policy isRaidzBDCountValid "\<lambda>n. \<exists>k \<ge> 1. n = 2 ^ k + 1"
  by unfold_locales (simp add: isRaidz_iff, simp add: isRaidzBDCountValid_def Let_def split: if_splits)

interpretation raidz2: count_policy isRaidz2BDCountValid "\<lambda>n. \<exists>k \<ge> 2. n = 2 ^ k + 2"
  by unfold_locales (simp add: isRaidz2_iff, simp add: isRaidz2BDCountValid_def Let_def split: if_splits)

section \<open>Duplicate block devices\<close>

lemma dupLoop_set:
  assumes "set added = set dups"
  shows "set (dupLoop seen added dups bds) =
     set dups \<union> {b \<in> set bds. b \<in> set seen \<or> 2 \<le> count_list bds b}"
  using assms
proof (induction seen added dups bds rule: dupLoop.induct)
  case (1 seen added dups)
  then show ?case by simp
next
  case (2 seen added dups bd bds)
  have cnt: "1 \<le> count_list bds bd" if "bd \<in> set bds"
    using that by (metis One_nat_def count_list_0_iff le_SucE le_zero_eq not_less_eq_eq)
  consider "bd \<in> set seen \<and> bd \<notin> set added" | "bd \<notin> set seen" | "bd \<in> set seen \<and> bd \<in> set added"
    by blast
  then show ?case
  proof cases
    case 1
    with "2.IH"(1) "2.prems" show ?thesis by auto
  next
    case 2
    with "2.IH"(2) "2.prems" cnt show ?thesis by (auto simp: not_le)
  next
    case 3
    with "2.IH"(3) "2.prems" show ?thesis by auto
  qed
qed

lemma dupLoop_distinct:
  "set added = set dups \<Longrightarrow> distinct dups \<Longrightarrow> distinct (dupLoop seen added dups bds)"
  by (induction seen added dups bds rule: dupLoop.induct) auto

lemma count_list_distinct: "distinct xs \<longleftrightarrow> (\<forall>x \<in> set xs. \<not> 2 \<le> count_list xs x)"
proof (induction xs)
  case Nil
  then show ?case by simp
next
  case (Cons a xs)
  have "(2 \<le> Suc (count_list xs a)) = (a \<in> set xs)"
    by (cases "a \<in> set xs") (auto simp: count_list_0_iff Suc_le_eq intro: Suc_leI simp flip: neq0_conv)
  with Cons show ?case by auto
qed

lemma getDuplicateBlockDeviceList_set:
  "set (getDuplicateBlockDeviceList cspc) = {b. 2 \<le> count_list (cspcBDNames cspc) b}"
proof -
  have "b \<in> set xs" if "2 \<le> count_list xs b" for b and xs :: "string list"
    using that by (metis count_notin not_numeral_le_zero)
  then show ?thesis by (auto simp: getDuplicateBlockDeviceList_def dupLoop_set)
qed

lemma getDuplicateBlockDeviceList_Nil:
  "getDuplicateBlockDeviceList cspc = [] \<longleftrightarrow> distinct (cspcBDNames cspc)"
proof -
  have "getDuplicateBlockDeviceList cspc = [] \<longleftrightarrow> (\<forall>b. \<not> 2 \<le> count_list (cspcBDNames cspc) b)"
    using getDuplicateBlockDeviceList_set [of cspc] by auto
  also have "\<dots> \<longleftrightarrow> distinct (cspcBDNames cspc)"
    by (metis count_list_distinct count_notin not_numeral_le_zero)
  finally show ?thesis .
qed

section \<open>What the webhook admits\<close>

text \<open>The specification of an admissible cluster, in terms of the cluster's own data.\<close>

definition sizeAdmissible :: "string \<Rightarrow> nat \<Rightarrow> bool" where
  "sizeAdmissible t n \<longleftrightarrow>
     (t = PoolStriped \<and> 1 \<le> n) \<or> (t = PoolMirrored \<and> even n \<and> 1 \<le> n)
     \<or> (t = PoolRaidz \<and> (\<exists>k \<ge> 1. n = 2 ^ k + 1)) \<or> (t = PoolRaidz2 \<and> (\<exists>k \<ge> 2. n = 2 ^ k + 2))"

definition deviceAdmissible :: "'s env \<Rightarrow> 's \<Rightarrow> string \<Rightarrow> string \<Rightarrow> string \<Rightarrow> string \<Rightarrow> bool" where
  "deviceAdmissible E s ns host cspcName b \<longleftrightarrow> b \<noteq> '''' \<and>
     (\<exists>bd. bd_get E s ns b = Ok bd \<and> bd_State bd = ''Active''
        \<and> (bd_FileSystemType bd = '''' \<or> bd_FileSystemType bd = ''zfs_member'')
        \<and> mget (Labels bd) HostNameLabelKey = host
        \<and> (mhas (Labels bd) BlockDeviceTagLabelKey \<longrightarrow> TrimSpace (mget (Labels bd) BlockDeviceTagLabelKey) \<noteq> '''')
        \<and> (\<forall>c. bd_ClaimState bd = BlockDeviceClaimed \<and> bd_ClaimRef bd = Some c \<longrightarrow>
              (\<exists>bdc. bdc_get E s ns c = Ok bdc \<and> mget (Labels bdc) CStorPoolClusterLabelKey = cspcName)))"

definition groupsAdmissible ::
    "'s env \<Rightarrow> 's \<Rightarrow> string \<Rightarrow> string \<Rightarrow> string \<Rightarrow> string \<Rightarrow> RaidGroup list \<Rightarrow> bool" where
  "groupsAdmissible E s ns host cspcName t rgs \<longleftrightarrow>
     (t = PoolStriped \<longrightarrow> length rgs = 1) \<and>
     (\<forall>rg \<in> set rgs. sizeAdmissible t (length (rgBDNames rg)) \<and>
        (\<forall>b \<in> set (rgBDNames rg). deviceAdmissible E s ns host cspcName b))"

definition poolAdmissible :: "'s env \<Rightarrow> 's \<Rightarrow> string \<Rightarrow> string \<Rightarrow> string \<Rightarrow> PoolSpec \<Rightarrow> bool" where
  "poolAdmissible E s ns host cspcName p \<longleftrightarrow>
     DataRaidGroups p \<noteq> [] \<and> SupportedCompression (Compression (poolConfig p)) \<and>
     groupsAdmissible E s ns host cspcName (DataRaidGroupType (poolConfig p)) (DataRaidGroups p) \<and>
     (WriteCacheRaidGroups p \<noteq> [] \<longrightarrow>
        groupsAdmissible E s ns host cspcName (WriteCacheGroupType (poolConfig p)) (WriteCacheRaidGroups p))"

definition cspcAdmissible :: "'s env \<Rightarrow> 's \<Rightarrow> CStorPoolCluster \<Rightarrow> bool" where
  "cspcAdmissible E s cspc \<longleftrightarrow>
     Pools (cspc_Spec cspc) \<noteq> [] \<and> distinct (cspcBDNames cspc) \<and>
     (\<exists>hosts. distinct hosts \<and>
        list_all2 (\<lambda>p h. GetHostNameFromLabelSelector E s (NodeSelector p) = Ok h \<and>
                         poolAdmissible E s (OpenEBSNamespace E) h (Name cspc) p)
          (Pools (cspc_Spec cspc)) hosts)"

lemma length_rgBDNames [simp]: "length (rgBDNames rg) = length (CStorPoolInstanceBlockDevices rg)"
  by (simp add: rgBDNames_def)

lemma blockDeviceValidation_iff:
  "(blockDeviceValidation E s pv bd = Ok ()) =
   deviceAdmissible E s (pv_namespace pv) (pv_hostName pv) (pv_cspcName pv) (BlockDeviceName bd)"
proof -
  have dev: "(validateBlockDevice d h = Ok ()) \<longleftrightarrow>
      bd_State d = ''Active'' \<and> (bd_FileSystemType d = '''' \<or> bd_FileSystemType d = ''zfs_member'')
      \<and> mget (Labels d) HostNameLabelKey = h
      \<and> (mhas (Labels d) BlockDeviceTagLabelKey \<longrightarrow> TrimSpace (mget (Labels d) BlockDeviceTagLabelKey) \<noteq> '''')"
    for d h by (auto simp: validateBlockDevice_def)
  have claim: "(blockDeviceClaimValidation E s pv c n = Ok ()) \<longleftrightarrow>
      (\<exists>bdc. bdc_get E s (pv_namespace pv) c = Ok bdc \<and>
             mget (Labels bdc) CStorPoolClusterLabelKey = pv_cspcName pv)" for c n
    by (auto simp: blockDeviceClaimValidation_def bindR_Ok_iff)
  show ?thesis
    unfolding blockDeviceValidation_def deviceAdmissible_def
    by (auto simp: bindR_Ok_iff dev claim split: option.splits)
qed

lemma raidGroupValidation_iff:
  assumes "SupportedPRaidType t \<noteq> None"
  shows "(raidGroupValidation E s pv rg t = Ok ()) \<longleftrightarrow>
     sizeAdmissible t (length (rgBDNames rg)) \<and>
     (\<forall>b \<in> set (rgBDNames rg). deviceAdmissible E s (pv_namespace pv) (pv_hostName pv) (pv_cspcName pv) b)"
proof (cases "CStorPoolInstanceBlockDevices rg = []")
  case True
  then show ?thesis by (auto simp: raidGroupValidation_def sizeAdmissible_def rgBDNames_def)
next
  case False
  have devs: "(\<forall>d \<in> set (CStorPoolInstanceBlockDevices rg). blockDeviceValidation E s pv d = Ok ()) \<longleftrightarrow>
    (\<forall>b \<in> set (rgBDNames rg). deviceAdmissible E s (pv_namespace pv) (pv_hostName pv) (pv_cspcName pv) b)"
    by (simp add: rgBDNames_def blockDeviceValidation_iff)
  from assms consider "t = PoolStriped" | "t = PoolMirrored" | "t = PoolRaidz" | "t = PoolRaidz2"
    by (auto simp: SupportedPRaidType_def split: if_splits)
  then show ?thesis
    using striped.group_accepted [OF False, of "blockDeviceValidation E s pv"]
      mirrored.group_accepted [OF False, of "blockDeviceValidation E s pv"]
      raidz.group_accepted [OF False, of "blockDeviceValidation E s pv"]
      raidz2.group_accepted [OF False, of "blockDeviceValidation E s pv"] False devs
    by cases (auto simp: raidGroupValidation_def SupportedPRaidType_def sizeAdmissible_def key_defs Suc_le_eq)
qed

lemma sizeAdmissible_supported: "sizeAdmissible t n \<Longrightarrow> SupportedPRaidType t \<noteq> None \<and> t \<noteq> ''''"
  by (auto simp: sizeAdmissible_def SupportedPRaidType_def key_defs)

lemma groupsAdmissible_supported:
  "groupsAdmissible E s ns h c t rgs \<Longrightarrow> rgs \<noteq> [] \<Longrightarrow> SupportedPRaidType t \<noteq> None \<and> t \<noteq> ''''"
  by (cases rgs) (auto simp: groupsAdmissible_def dest: sizeAdmissible_supported)

lemma poolSpecValidation_iff:
  "(poolSpecValidation E s pv = Ok ()) =
   poolAdmissible E s (pv_namespace pv) (pv_hostName pv) (pv_cspcName pv) (poolSpec pv)"
proof -
  let ?p = "poolSpec pv" and ?A = "groupsAdmissible E s (pv_namespace pv) (pv_hostName pv) (pv_cspcName pv)"
  let ?dt = "DataRaidGroupType (poolConfig ?p)" and ?wt = "WriteCacheGroupType (poolConfig ?p)"
  have groups: "(t = PoolStriped \<longrightarrow> length rgs = 1) \<and>
      (\<forall>rg \<in> set rgs. raidGroupValidation E s pv rg t = Ok ()) \<longleftrightarrow> ?A t rgs"
    if "SupportedPRaidType t \<noteq> None" for t rgs
    by (simp add: groupsAdmissible_def raidGroupValidation_iff [OF that])
  have "(poolSpecValidation E s pv = Ok ()) \<longleftrightarrow>
      (?dt \<noteq> '''' \<and> SupportedPRaidType ?dt \<noteq> None \<and> SupportedCompression (Compression (poolConfig ?p))
       \<and> (WriteCacheRaidGroups ?p \<noteq> [] \<longrightarrow> ?wt \<noteq> '''' \<and> SupportedPRaidType ?wt \<noteq> None)
       \<and> DataRaidGroups ?p \<noteq> [] \<and> ?A ?dt (DataRaidGroups ?p)
       \<and> (WriteCacheRaidGroups ?p \<noteq> [] \<longrightarrow> ?A ?wt (WriteCacheRaidGroups ?p)))"
    using groups [of ?dt "DataRaidGroups ?p"] groups [of ?wt "WriteCacheRaidGroups ?p"]
    by (auto simp: poolSpecValidation_def poolConfigValidation_def Let_def bindR_Ok_iff checkAll_Ok_iff)
  also have "\<dots> \<longleftrightarrow> poolAdmissible E s (pv_namespace pv) (pv_hostName pv) (pv_cspcName pv) ?p"
    by (auto simp: poolAdmissible_def dest: groupsAdmissible_supported)
  finally show ?thesis .
qed

lemma cspcPoolsLoop_iff:
  "(cspcPoolsLoop E s c used pools = Ok ()) \<longleftrightarrow>
   (\<exists>hosts. distinct hosts \<and> set hosts \<inter> set used = {} \<and>
      list_all2 (\<lambda>p h. GetHostNameFromLabelSelector E s (NodeSelector p) = Ok h \<and>
                       poolAdmissible E s (OpenEBSNamespace E) h c p) pools hosts)"
proof (induction pools arbitrary: used)
  case Nil
  show ?case by (auto intro: exI [of _ "[]"])
next
  case (Cons p pools)
  let ?R = "\<lambda>p h. GetHostNameFromLabelSelector E s (NodeSelector p) = Ok h \<and>
                       poolAdmissible E s (OpenEBSNamespace E) h c p"
  have "(cspcPoolsLoop E s c used (p # pools) = Ok ()) \<longleftrightarrow>
      (\<exists>h. ?R p h \<and> h \<notin> set used \<and> cspcPoolsLoop E s c (h # used) pools = Ok ())"
    by (auto simp: bindR_Ok_iff poolSpecValidation_iff)
  also have "\<dots> \<longleftrightarrow> (\<exists>h hs. ?R p h \<and> distinct (h # hs) \<and> set (h # hs) \<inter> set used = {} \<and> list_all2 ?R pools hs)"
    by (auto simp: Cons.IH)
  also have "\<dots> \<longleftrightarrow> (\<exists>hosts. distinct hosts \<and> set hosts \<inter> set used = {} \<and> list_all2 ?R (p # pools) hosts)"
    unfolding list_all2_Cons1 by blast
  finally show ?case .
qed

lemma cspcValidation_iff: "(cspcValidation E s cspc = Ok ()) = cspcAdmissible E s cspc"
  by (auto simp: cspcValidation_def cspcAdmissible_def Let_def getDuplicateBlockDeviceList_Nil cspcPoolsLoop_iff)

section \<open>Absence of panics\<close>

text \<open>The reads of the API server return an object or an error; none of them panics.\<close>

definition apiTotal :: "'s env \<Rightarrow> 's \<Rightarrow> bool" where
  "apiTotal E s \<longleftrightarrow>
     (\<forall>m sel. node_list E s sel \<noteq> Panic m) \<and> (\<forall>m ns n. bd_get E s ns n \<noteq> Panic m) \<and> (\<forall>m ns n. bdc_get E s ns n \<noteq> Panic m)
     \<and> (\<forall>m ns sel. bdc_list E s ns sel \<noteq> Panic m) \<and> (\<forall>m ns n. cspc_get E s ns n \<noteq> Panic m)
     \<and> (\<forall>m ns sel. cspi_list E s ns sel \<noteq> Panic m) \<and> (\<forall>m ns sel. cvr_list E s ns sel \<noteq> Panic m)"

lemma selector_no_panic: "m \<noteq> [] \<Longrightarrow> getLabelSelectorString m \<noteq> Panic p"
  by (cases m) (auto simp: getLabelSelectorString_def Let_def)

lemma hostName_no_panic:
  "apiTotal E s \<Longrightarrow> mapOrder E labels \<noteq> [] \<Longrightarrow> GetHostNameFromLabelSelector E s labels \<noteq> Panic m"
  by (auto simp: GetHostNameFromLabelSelector_def bindR_Panic_iff selector_no_panic apiTotal_def)

lemma blockDeviceValidation_no_panic: "apiTotal E s \<Longrightarrow> blockDeviceValidation E s pv bd \<noteq> Panic m"
  by (auto simp: blockDeviceValidation_def blockDeviceClaimValidation_def validateBlockDevice_def bindR_Panic_iff
      apiTotal_def split: option.splits if_splits)

lemma supported_no_panic: "SupportedPRaidType t = Some check \<Longrightarrow> check c \<noteq> Panic m"
  by (auto simp: SupportedPRaidType_def striped.check_total mirrored.check_total raidz.check_total raidz2.check_total
      split: if_splits)

lemma raidGroupValidation_no_panic:
  "apiTotal E s \<Longrightarrow> SupportedPRaidType t \<noteq> None \<Longrightarrow> raidGroupValidation E s pv rg t \<noteq> Panic m"
  by (auto simp: raidGroupValidation_def bindR_Panic_iff supported_no_panic blockDeviceValidation_no_panic
      dest!: checkAll_PanicD split: option.splits)

lemma poolSpecValidation_no_panic: "apiTotal E s \<Longrightarrow> poolSpecValidation E s pv \<noteq> Panic m"
proof
  assume A: "apiTotal E s" and "poolSpecValidation E s pv = Panic m"
  then obtain rg t where "raidGroupValidation E s pv rg t = Panic m" and "SupportedPRaidType t \<noteq> None"
    by (auto simp: poolSpecValidation_def poolConfigValidation_def Let_def bindR_Panic_iff dest!: checkAll_PanicD
        split: if_splits)
  with raidGroupValidation_no_panic [OF A] show False by blast
qed

lemma cspcPoolsLoop_no_panic:
  "apiTotal E s \<Longrightarrow> \<forall>p \<in> set pools. mapOrder E (NodeSelector p) \<noteq> [] \<Longrightarrow> cspcPoolsLoop E s c used pools \<noteq> Panic m"
  by (induction pools arbitrary: used) (auto simp: bindR_Panic_iff hostName_no_panic poolSpecValidation_no_panic)

lemma cspiDeleteLoop_accepted:
  "(\<exists>r. cspiDeleteLoop E s req cspis = Ok r \<and> Allowed r) \<longleftrightarrow>
   (\<forall>c \<in> set cspis. cvr_list E s '''' (''cstorpoolinstance.openebs.io/name='' @ Name c) = Ok [])"
  by (induction cspis) (auto split: res.splits)

text \<open>A request carrying a cluster, for the witnesses.\<close>

definition sampleRequest :: "Operation \<Rightarrow> CStorPoolCluster \<Rightarrow> AdmissionRequest" where
  "sampleRequest op c =
     \<lparr>req_Kind = ''CStorPoolCluster'', req_Operation = op, req_Name = Name c, req_Namespace = Namespace c,
      req_CSPC = Ok c, req_CVC = Err (ApiError [])\<rparr>"

section \<open>The create and delete requests\<close>

text \<open>
  C3. A create request is allowed exactly when the cluster is admissible: at least one pool, no
  block device named twice, every pool on a node of its own that its selector resolves to, raid
  groups of a supported type and size, and every device present, active, on that node, without a
  foreign file system, not blocked by an empty tag, and not claimed by another cluster.
\<close>

theorem create_admits_exactly:
  "(\<exists>r. validateCSPCCreateRequest E s (req\<lparr>req_CSPC := Ok cspc\<rparr>) = Ok r \<and> Allowed r) \<longleftrightarrow> cspcAdmissible E s cspc"
  unfolding cspcValidation_iff [symmetric]
  by (cases "cspcValidation E s cspc") (simp_all add: validateCSPCCreateRequest_def)

text \<open>
  The size checks, which compare rounded logarithms of the number of devices, accept exactly
  the sizes their messages state: a stripe any positive number, a mirror an even number, raidz
  \<open>2^k + 1\<close> with \<open>k > 0\<close>, raidz2 \<open>2^k + 2\<close> with \<open>k > 1\<close>; no other type is supported.
\<close>

theorem raid_group_sizes:
  "(case SupportedPRaidType t of None \<Rightarrow> False | Some check \<Rightarrow> 0 < n \<and> check (int n) = Ok ()) \<longleftrightarrow> sizeAdmissible t n"
  by (auto simp: SupportedPRaidType_def sizeAdmissible_def isStripedBDCountValid_def isMirrored_iff isRaidz_iff
      isRaidz2_iff key_defs)

text \<open>
  The list of repeated block devices holds every device that the pools of the cluster name
  more than once, across raid groups and pools, each exactly once.
\<close>

theorem duplicates_exact:
  "set (getDuplicateBlockDeviceList cspc) = {b. 2 \<le> count_list (cspcBDNames cspc) b}
   \<and> distinct (getDuplicateBlockDeviceList cspc)"
  by (simp add: getDuplicateBlockDeviceList_set) (simp add: getDuplicateBlockDeviceList_def dupLoop_distinct)

text \<open>
  A delete request is allowed exactly when the instances of the cluster can be listed and the
  list of volume replicas of each of them comes back empty.
\<close>

theorem delete_admits_exactly:
  "(\<exists>r. validateCSPCDeleteRequest E s req = Ok r \<and> Allowed r) \<longleftrightarrow>
   (\<exists>cspis. cspi_list E s (req_Namespace req) (CStorPoolClusterLabelKey @ ''='' @ req_Name req) = Ok cspis
      \<and> list_all (\<lambda>c. cvr_list E s '''' (''cstorpoolinstance.openebs.io/name='' @ Name c) = Ok []) cspis)"
  by (auto simp: validateCSPCDeleteRequest_def list_all_iff cspiDeleteLoop_accepted split: res.splits)

text \<open>
  With clients that do not panic and a non-empty node selector on every pool, the create
  handler always answers: in particular the table of size checks is never read at an unsupported
  type.
\<close>

theorem create_answers:
  assumes "apiTotal E s" and "\<forall>p \<in> set (Pools (cspc_Spec cspc)). mapOrder E (NodeSelector p) \<noteq> []"
  shows "\<exists>r. validateCSPCCreateRequest E s (req\<lparr>req_CSPC := Ok cspc\<rparr>) = Ok r"
proof -
  have "cspcValidation E s cspc \<noteq> Panic m" for m
    using cspcPoolsLoop_no_panic [OF assms] by (simp add: cspcValidation_def Let_def)
  then show ?thesis unfolding validateCSPCCreateRequest_def by (auto split: res.splits)
qed

theorem create_answers_witness:
  "\<exists>r. validateCSPCCreateRequest sampleEnv sampleStore
     ((sampleRequest Create (sampleCSPC ''c2'' []))\<lparr>req_CSPC := Ok (sampleCSPC ''c2'' [samplePool ''n2'' ''mirror'' [[''b1'', ''b2'']]])\<rparr>) = Ok r"
proof (rule create_answers)
  show "apiTotal sampleEnv sampleStore"
    by (simp add: apiTotal_def sampleEnv_def lookupObj_def split: option.splits)
  show "\<forall>p \<in> set (Pools (cspc_Spec (sampleCSPC ''c2'' [samplePool ''n2'' ''mirror'' [[''b1'', ''b2'']]]))).
      mapOrder sampleEnv (NodeSelector p) \<noteq> []"
    by code_simp
qed

text \<open>
  A pool without a node selector makes the handler panic instead of answering: the selector
  string is built empty and its last byte is cut off.
\<close>

theorem create_panics_on_empty_selector:
  assumes "mapOrder E [] = []" and "Pools (cspc_Spec cspc) = p # ps" and "NodeSelector p = []"
    and "distinct (cspcBDNames cspc)"
  shows "\<exists>m. validateCSPCCreateRequest E s (req\<lparr>req_CSPC := Ok cspc\<rparr>) = Panic m"
proof -
  have "cspcValidation E s cspc = Panic ''slice bounds out of range''"
    using assms by (simp add: cspcValidation_def Let_def getDuplicateBlockDeviceList_Nil GetHostNameFromLabelSelector_def
        getLabelSelectorString_def)
  then show ?thesis by (simp add: validateCSPCCreateRequest_def)
qed

theorem create_panics_on_empty_selector_witness:
  "\<exists>m. validateCSPCCreateRequest sampleEnv sampleStore
     ((sampleRequest Create (sampleCSPC ''c2'' []))\<lparr>req_CSPC := Ok (sampleCSPC ''c2''
        [(samplePool ''n2'' ''mirror'' [[''b1'', ''b2'']])\<lparr>NodeSelector := []\<rparr>])\<rparr>) = Panic m"
  by (rule create_panics_on_empty_selector
      [where p = "(samplePool ''n2'' ''mirror'' [[''b1'', ''b2'']])\<lparr>NodeSelector := []\<rparr>" and ps = "[]"]; code_simp)

end
