(* ===== verification/Versions.thy ===== *)
theory Versions
  imports Prelude "HOL-Library.Word"
begin

text \<open>
  Version comparison (\<open>src/pkg/version/util.go\<close>, \<open>src/pkg/webhook/util.go\<close>) and the
  rendering of a capacity in units (\<open>ByteCount\<close> of \<open>src/pkg/webhook/util.go\<close>, of which
  \<open>src/pkg/cspc/algorithm/select_node.go\<close> has a copy). The lemmas relate the first to the
  lexicographic order on numeric components, and show that the second never indexes its unit
  table out of range, never overflows and rounds down to the largest fitting unit.
\<close>

section \<open>Comparing versions\<close>

text \<open>\<open>strings.Split(v, "-")[0]\<close>, then the components between the dots.\<close>

definition baseVersion :: "string \<Rightarrow> string" where
  "baseVersion v = hd (Split (CHR ''-'') v)"

definition versionParts :: "string \<Rightarrow> string list" where
  "versionParts v = Split (CHR ''.'') (baseVersion v)"

text \<open>
  The loop over \<open>oldVersions\<close>; \<open>newVersions[i]\<close> panics when the new version has fewer
  components. The last argument is what is returned when all components are equal.
\<close>

fun versionLoop :: "bool \<Rightarrow> string list \<Rightarrow> string list \<Rightarrow> bool res" where
  "versionLoop dflt [] newVersions = Ok dflt"
| "versionLoop dflt (o1 # os) [] = Panic ''index out of range''"
| "versionLoop dflt (o1 # os) (n1 # ns) =
     (let oldVersion = Atoi o1; newVersion = Atoi n1
      in if oldVersion = newVersion then versionLoop dflt os ns else Ok (oldVersion < newVersion))"

definition exceptions :: "string list" where
  "exceptions = [''master'', ''develop'']"

definition IsOldLessThanOrEqualNewVersion :: "string \<Rightarrow> string \<Rightarrow> bool res" where
  "IsOldLessThanOrEqualNewVersion old new =
     (let oldVersions = versionParts old; newVersions = versionParts new
      in if hd newVersions \<in> set exceptions then Ok True
         else versionLoop True oldVersions newVersions)"

definition minCurrentVersion :: string where
  "minCurrentVersion = ''1.10.0''"

text \<open>\<open>validDesiredVersion\<close> is the base version of the running binary, a parameter.\<close>

definition CanCurrentVersionBeUpgraded :: "string \<Rightarrow> string \<Rightarrow> bool res" where
  "CanCurrentVersionBeUpgraded validDesiredVersion version =
     bindR (IsOldLessThanOrEqualNewVersion minCurrentVersion version) (\<lambda>ok.
       if ok then IsOldLessThanOrEqualNewVersion version validDesiredVersion else Ok False)"

definition IsCurrentVersionValid :: "string \<Rightarrow> string \<Rightarrow> bool res" where
  "IsCurrentVersionValid validDesiredVersion v =
     CanCurrentVersionBeUpgraded validDesiredVersion (baseVersion v)"

definition IsDesiredVersionValid :: "string \<Rightarrow> string \<Rightarrow> bool" where
  "IsDesiredVersionValid validDesiredVersion v = (validDesiredVersion = baseVersion v)"

definition IsCurrentLessThanNewVersion :: "string \<Rightarrow> string \<Rightarrow> bool res" where
  "IsCurrentLessThanNewVersion old new = versionLoop False (versionParts old) (versionParts new)"

section \<open>Capacities in units\<close>

definition unitTable :: string where
  "unitTable = ''KMGTPE''"

text \<open>\<open>for val := b / unit; val >= unit; val /= unit { div *= unit; index++ }\<close>\<close>

function byteCountLoop :: "64 word \<Rightarrow> 64 word \<Rightarrow> nat \<Rightarrow> 64 word \<times> nat" where
  "byteCountLoop val dv index =
     (if 1024 \<le> val then byteCountLoop (val div 1024) (dv * 1024) (index + 1) else (dv, index))"
  by pat_completeness auto
termination
proof (relation "measure (\<lambda>(val, dv, index). unat val)")
  fix val dv :: "64 word" and index :: nat
  assume "1024 \<le> val"
  then have "1024 \<le> unat val" by (simp add: word_le_nat_alt)
  then show "((val div 1024, dv * 1024, index + 1), val, dv, index) \<in> measure (\<lambda>(val, dv, index). unat val)"
    by (simp add: unat_div)
qed simp

declare byteCountLoop.simps [simp del]

definition ByteCount :: "64 word \<Rightarrow> string res" where
  "ByteCount b =
     (if b < 1024 then Ok (showNat (unat b) @ ''B'')
      else let (dv, index) = byteCountLoop (b div 1024) 1024 0
           in if index < length unitTable
              then Ok (showNat (unat (b div dv)) @ [unitTable ! index])
              else Panic ''index out of range'')"

section \<open>The version order\<close>

text \<open>The numeric key of a version, and the lexicographic order on keys of equal length.\<close>

definition versionKey :: "string \<Rightarrow> int list" where
  "versionKey v = map Atoi (versionParts v)"

fun lexLess :: "int list \<Rightarrow> int list \<Rightarrow> bool" where
  "lexLess (a # as) (b # bs) = (a < b \<or> (a = b \<and> lexLess as bs))"
| "lexLess _ _ = False"

lemma versionLoop_lex:
  "length os = length ns \<Longrightarrow>
   versionLoop d os ns = Ok (lexLess (map Atoi os) (map Atoi ns) \<or> (d \<and> map Atoi os = map Atoi ns))"
  by (induction d os ns rule: versionLoop.induct) (auto simp: Let_def)

lemma lexLess_irrefl [simp]: "\<not> lexLess xs xs"
  by (induction xs) auto

lemma lexLess_trans: "lexLess xs ys \<Longrightarrow> lexLess ys zs \<Longrightarrow> lexLess xs zs"
proof (induction xs ys arbitrary: zs rule: lexLess.induct)
  case (1 a as b bs)
  then show ?case by (cases zs) auto
qed auto

lemma lexLess_total: "length xs = length ys \<Longrightarrow> lexLess xs ys \<or> xs = ys \<or> lexLess ys xs"
  by (induction xs ys rule: list_induct2) auto

lemma length_versionKey [simp]: "length (versionKey v) = length (versionParts v)"
  by (simp add: versionKey_def)

lemma baseVersion_idem [simp]: "baseVersion (baseVersion v) = baseVersion v"
proof -
  have "hd (Split (CHR ''-'') v) \<in> set (Split (CHR ''-'') v)" by simp
  then have "CHR ''-'' \<notin> set (baseVersion v)" unfolding baseVersion_def by (rule Split_no_sep)
  then show ?thesis by (simp add: baseVersion_def Split_no_occ)
qed

lemma versionParts_base [simp]: "versionParts (baseVersion v) = versionParts v"
  by (simp add: versionParts_def)

lemma versionKey_base [simp]: "versionKey (baseVersion v) = versionKey v"
  by (simp add: versionKey_def)

text \<open>A release: no component of the branch names that are accepted without comparison.\<close>

definition isRelease :: "string \<Rightarrow> bool" where
  "isRelease v = (hd (versionParts v) \<notin> set exceptions)"

lemma IsOldLessThanOrEqualNewVersion_lex:
  assumes "length (versionParts old) = length (versionParts new)" and "isRelease new"
  shows "IsOldLessThanOrEqualNewVersion old new =
     Ok (lexLess (versionKey old) (versionKey new) \<or> versionKey old = versionKey new)"
  using assms by (simp add: IsOldLessThanOrEqualNewVersion_def isRelease_def Let_def versionLoop_lex versionKey_def)

section \<open>The unit loop\<close>

lemma byteCountLoop_spec:
  assumes "unat val = n div 1024 ^ (index + 1)" and "unat dv = 1024 ^ (index + 1)"
    and "n < 2 ^ 64" and "1024 ^ (index + 1) \<le> n"
    and "byteCountLoop val dv index = (dv', index')"
  shows "unat dv' = 1024 ^ (index' + 1) \<and> 1024 ^ (index' + 1) \<le> n \<and> n < 1024 ^ (index' + 2)"
  using assms
proof (induction val dv index arbitrary: dv' index' rule: byteCountLoop.induct)
  case (1 val dv index)
  show ?case
  proof (cases "1024 \<le> val")
    case True
    then have "1024 \<le> n div 1024 ^ (index + 1)" using "1.prems"(1) by (simp add: word_le_nat_alt)
    then have "1024 * 1024 ^ (index + 1) \<le> n" by (subst (asm) less_eq_div_iff_mult_less_eq) simp_all
    then have le: "1024 ^ (index + 2) \<le> n" by simp
    with "1.prems"(3) have small: "1024 ^ (index + 2) < (2 :: nat) ^ 64" by linarith
    have "unat (dv * 1024) = (1024 ^ (index + 1) * 1024) mod 2 ^ 64"
      using "1.prems"(2) by (simp add: unat_word_ariths)
    also have "1024 ^ (index + 1) * 1024 = (1024 :: nat) ^ (index + 2)" by simp
    finally have dv: "unat (dv * 1024) = 1024 ^ (index + 2)" using small by simp
    have val: "unat (val div 1024) = n div 1024 ^ (index + 2)"
      using "1.prems"(1) by (simp add: unat_div div_mult2_eq [symmetric] mult.commute)
    from True "1.prems"(5) have "byteCountLoop (val div 1024) (dv * 1024) (index + 1) = (dv', index')"
      by (simp add: byteCountLoop.simps [of val dv index])
    with "1.IH" [OF True] val dv "1.prems"(3) le show ?thesis by simp
  next
    case False
    then have "n div 1024 ^ (index + 1) < 1024" using "1.prems"(1) by (simp add: word_le_nat_alt)
    then have "n < 1024 * 1024 ^ (index + 1)" by (subst (asm) div_less_iff_less_mult) simp_all
    then have "n < 1024 ^ (index + 2)" by simp
    with False "1.prems" show ?thesis by (simp add: byteCountLoop.simps [of val dv index])
  qed
qed

lemma unit_index_bound: "1024 ^ (i + 1) \<le> n \<Longrightarrow> n < 2 ^ 64 \<Longrightarrow> i < 6" for n i :: nat
proof (rule ccontr)
  assume "1024 ^ (i + 1) \<le> n" and n: "n < 2 ^ 64" and "\<not> i < 6"
  then have "(1024 :: nat) ^ 7 \<le> 1024 ^ (i + 1)" by (intro power_increasing) auto
  with \<open>1024 ^ (i + 1) \<le> n\<close> n show False by simp
qed

section \<open>Properties\<close>

lemma IsOldLess_not_greater:
  assumes "length (versionParts old) = length (versionParts new)" and "isRelease new"
  shows "IsOldLessThanOrEqualNewVersion old new = Ok (\<not> lexLess (versionKey new) (versionKey old))"
proof -
  have "lexLess a b \<or> a = b \<longleftrightarrow> \<not> lexLess b a" if "length a = length b" for a b :: "int list"
    using lexLess_total [OF that] lexLess_trans [of a b a] lexLess_trans [of b a b] lexLess_irrefl by blast
  with assms show ?thesis by (simp add: IsOldLessThanOrEqualNewVersion_lex)
qed

lemma versionLoop_prefix:
  "length ns < length os \<Longrightarrow> map Atoi ns = map Atoi (take (length ns) os) \<Longrightarrow> versionLoop d os ns = Panic ''index out of range''"
  by (induction d os ns rule: versionLoop.induct) (auto simp: Let_def)

text \<open>
  On versions with the same number of components, the comparison used before an upgrade is the
  total lexicographic order on the numeric components, with what follows the first dash ignored.
\<close>

theorem version_order:
  assumes "length (versionParts old) = length (versionParts new)" and "isRelease new"
  shows "IsOldLessThanOrEqualNewVersion old new = Ok (\<not> lexLess (versionKey new) (versionKey old))"
  using assms by (rule IsOldLess_not_greater)

theorem version_order_witness:
  "IsOldLessThanOrEqualNewVersion ''1.12.0-RC1'' ''2.0.0'' =
     Ok (\<not> lexLess (versionKey ''2.0.0'') (versionKey ''1.12.0-RC1''))"
  by (rule version_order) code_simp+

text \<open>
  A release can be upgraded from exactly when it lies between 1.10.0 and the version of the
  operator, both included.
\<close>

theorem upgrade_window:
  assumes "length (versionParts v) = 3" and "length (versionParts validDesired) = 3"
    and "isRelease v" and "isRelease validDesired"
  shows "IsCurrentVersionValid validDesired v =
     Ok (\<not> lexLess (versionKey v) [1, 10, 0] \<and> \<not> lexLess (versionKey validDesired) (versionKey v))"
proof -
  have min: "length (versionParts minCurrentVersion) = 3" "versionKey minCurrentVersion = [1, 10, 0]" by code_simp+
  have rel: "isRelease (baseVersion v)" using assms(3) by (simp add: isRelease_def)
  have 1: "IsOldLessThanOrEqualNewVersion minCurrentVersion (baseVersion v) = Ok (\<not> lexLess (versionKey v) [1, 10, 0])"
    using IsOldLess_not_greater [of minCurrentVersion "baseVersion v"] min assms(1) rel by simp
  have 2: "IsOldLessThanOrEqualNewVersion (baseVersion v) validDesired = Ok (\<not> lexLess (versionKey validDesired) (versionKey v))"
    using IsOldLess_not_greater [of "baseVersion v" validDesired] assms by simp
  show ?thesis by (simp add: IsCurrentVersionValid_def CanCurrentVersionBeUpgraded_def 1 2)
qed

theorem upgrade_window_witness:
  "IsCurrentVersionValid ''2.12.0'' ''1.12.0-RC2'' =
     Ok (\<not> lexLess (versionKey ''1.12.0-RC2'') [1, 10, 0] \<and> \<not> lexLess (versionKey ''2.12.0'') (versionKey ''1.12.0-RC2''))"
  by (rule upgrade_window) code_simp+

text \<open>
  A version that is a proper prefix of the other makes the comparison panic: the loop runs over
  the components of the old version and indexes those of the new one.
\<close>

theorem version_panics_on_shorter:
  assumes "length (versionParts new) < length (versionParts old)" and "isRelease new"
    and "versionKey new = take (length (versionParts new)) (versionKey old)"
  shows "IsOldLessThanOrEqualNewVersion old new = Panic ''index out of range''"
  using assms versionLoop_prefix by (simp add: IsOldLessThanOrEqualNewVersion_def isRelease_def Let_def versionKey_def take_map)

theorem version_panics_on_shorter_witness:
  "IsOldLessThanOrEqualNewVersion ''2.12.0'' ''2.12'' = Panic ''index out of range''"
  by (rule version_panics_on_shorter) code_simp+

text \<open>
  The comparison of the webhook is strict: it is false on equal versions, where its comment
  promises true for less than or equal.
\<close>

theorem current_less_strict:
  assumes "length (versionParts old) = length (versionParts new)"
  shows "IsCurrentLessThanNewVersion old new = Ok (lexLess (versionKey old) (versionKey new))"
  using assms by (simp add: IsCurrentLessThanNewVersion_def versionLoop_lex versionKey_def)

theorem current_less_strict_witness:
  "IsCurrentLessThanNewVersion ''2.12.0'' ''2.12.0'' = Ok (lexLess (versionKey ''2.12.0'') (versionKey ''2.12.0''))"
  by (rule current_less_strict) code_simp

text \<open>
  Rendering a 64-bit capacity never panics and never wraps: it gives the capacity rounded down
  to the largest unit that fits, a number below 1024 followed by one letter of the unit table, and
  the number reads back.
\<close>

theorem byte_count_units:
  "\<exists>v k. ByteCount b = Ok (showNat v @ [(if k = 0 then CHR ''B'' else unitTable ! (k - 1))])
     \<and> k \<le> 6 \<and> v * 1024 ^ k \<le> unat b \<and> unat b < (v + 1) * 1024 ^ k \<and> v < 1024
     \<and> (k = 0 \<or> 1 \<le> v) \<and> Atoi (showNat v) = int v"
proof -
  define n where "n = unat b"
  have at: "Atoi (showNat v) = int v" if "v < 1024" for v
    using that by (intro Atoi_showNat) (simp add: maxInt64_def)
  show ?thesis
  proof (cases "b < 1024")
    case True
    then have "n < 1024" by (simp add: n_def word_less_nat_alt)
    with True at [of n] show ?thesis
      by (intro exI [of _ n] exI [of _ 0]) (simp add: ByteCount_def n_def)
  next
    case False
    then have n: "1024 \<le> n" by (simp add: n_def word_less_nat_alt not_less)
    obtain dv i where loop: "byteCountLoop (b div 1024) 1024 0 = (dv, i)" by (cases "byteCountLoop (b div 1024) 1024 0")
    have lim: "n < 2 ^ 64" unfolding n_def using unsigned_less [of b] by simp
    have spec: "unat dv = 1024 ^ (i + 1) \<and> 1024 ^ (i + 1) \<le> n \<and> n < 1024 ^ (i + 2)"
      by (rule byteCountLoop_spec [OF _ _ lim _ loop]) (use n in \<open>simp_all add: n_def unat_div\<close>)
    then have i: "i < 6" using unit_index_bound lim by blast
    define v where "v = n div 1024 ^ (i + 1)"
    have v: "v * 1024 ^ (i + 1) \<le> n" "n < (v + 1) * 1024 ^ (i + 1)"
      unfolding v_def by (simp_all add: div_times_less_eq_dividend dividend_less_div_times)
    have "1 \<le> v" unfolding v_def using spec by (simp add: Suc_le_eq div_greater_zero_iff)
    moreover have "v < 1024" unfolding v_def using spec by (simp add: div_less_iff_less_mult)
    moreover have "ByteCount b = Ok (showNat v @ [unitTable ! i])"
      using False loop i spec by (simp add: ByteCount_def unitTable_def v_def n_def unat_div)
    ultimately show ?thesis using v i at [of v] by (intro exI [of _ v] exI [of _ "i + 1"]) (simp add: n_def)
  qed
qed

end
