(* ===== verification/CspcPoolOps.thy ===== *)
theory CspcPoolOps
  imports CspcWebhook Versions
begin

text \<open>
  Validation of a change to a CStorPoolCluster: \<open>src/pkg/webhook/cspc_operations.go\<close> and the
  update request of \<open>src/pkg/webhook/cspc.go\<close>. Validation reads the API server in one
  state; only \<open>ClaimBD\<close>, the last step for each pool with replaced devices, writes to it,
  so the state is threaded from \<open>createBDC\<close> up.
\<close>

section \<open>Common pool specs\<close>

record PoolOperations =
  OldCSPC :: CStorPoolCluster
  NewCSPC :: CStorPoolCluster

definition dataBDNames :: "'a PoolSpec_scheme \<Rightarrow> string list" where
  "dataBDNames p = concat (map rgBDNames (DataRaidGroups p))"

definition hasCommonDataBlockDevicce :: "PoolSpec \<Rightarrow> PoolSpec \<Rightarrow> bool" where
  "hasCommonDataBlockDevicce oldPoolSpec newPoolSpec =
     list_ex (\<lambda>b. b \<in> set (dataBDNames oldPoolSpec)) (dataBDNames newPoolSpec)"

text \<open>The inner loop when a node exists: the first new spec whose host name equals the old node's name.\<close>

fun commonByNode :: "'s env \<Rightarrow> 's \<Rightarrow> string \<Rightarrow> PoolSpec list \<Rightarrow> PoolSpec option res" where
  "commonByNode E s oldNodeName [] = Ok None"
| "commonByNode E s oldNodeName (newPoolSpec # rest) =
     bindR (GetHostNameFromLabelSelector E s (NodeSelector newPoolSpec)) (\<lambda>newNodeName.
       if oldNodeName = newNodeName then Ok (Some newPoolSpec) else commonByNode E s oldNodeName rest)"

text \<open>The pairs (\<open>oldSpec[i]\<close>, \<open>newSpec[i]\<close>) of \<open>poolspecs\<close>.\<close>

fun commonPoolLoop :: "'s env \<Rightarrow> 's \<Rightarrow> PoolSpec list \<Rightarrow> PoolSpec list \<Rightarrow> (PoolSpec \<times> PoolSpec) list res" where
  "commonPoolLoop E s newPools [] = Ok []"
| "commonPoolLoop E s newPools (oldPoolSpec # rest) =
     bindR (getLabelSelectorString (mapOrder E (NodeSelector oldPoolSpec))) (\<lambda>sel.
     bindR (wrapR (node_list E s sel) ''failed to get node list from the node selector'' []) (\<lambda>nodes.
       if length nodes > 1
       then Err (Errorf ''invalid no.of nodes %d from the given node selectors: %v''
                   [AI (int (length nodes)), AM (NodeSelector oldPoolSpec)])
       else
         bindR (if length nodes = 0
                then Ok (find (hasCommonDataBlockDevicce oldPoolSpec) newPools)
                else commonByNode E s (Name (hd nodes)) newPools) (\<lambda>match.
         bindR (commonPoolLoop E s newPools rest) (\<lambda>pairs.
           Ok (case match of None \<Rightarrow> pairs | Some newPoolSpec \<Rightarrow> (oldPoolSpec, newPoolSpec) # pairs)))))"

definition getCommonPoolSpecs ::
    "'s env \<Rightarrow> 's \<Rightarrow> CStorPoolCluster \<Rightarrow> CStorPoolCluster \<Rightarrow> (PoolSpec \<times> PoolSpec) list res" where
  "getCommonPoolSpecs E s cspcNew cspcOld =
     commonPoolLoop E s (Pools (cspc_Spec cspcNew)) (Pools (cspc_Spec cspcOld))"

section \<open>Changes inside a raid group\<close>

definition validateRaidGroupChanges :: "RaidGroup \<Rightarrow> RaidGroup \<Rightarrow> string \<Rightarrow> verdict" where
  "validateRaidGroupChanges oldRg newRg oldRgType =
     (if length (CStorPoolInstanceBlockDevices newRg) < length (CStorPoolInstanceBlockDevices oldRg)
      then Err (Errorf ''removing block device from %s raid group is not valid operation'' [AS oldRgType])
      else if oldRgType \<noteq> PoolStriped \<and>
              length (CStorPoolInstanceBlockDevices newRg) > length (CStorPoolInstanceBlockDevices oldRg)
      then Err (Errorf ''adding block devices to existing %s raid group is not valid operation'' [AS oldRgType])
      else Ok ())"

definition IsRaidGroupCommon :: "RaidGroup \<Rightarrow> RaidGroup \<Rightarrow> bool" where
  "IsRaidGroupCommon rgOld rgNew = list_ex (\<lambda>b. b \<in> set (rgBDNames rgOld)) (rgBDNames rgNew)"

definition GetNumberOfDiskReplaced :: "RaidGroup \<Rightarrow> RaidGroup \<Rightarrow> nat" where
  "GetNumberOfDiskReplaced newRG oldRG =
     length (filter (\<lambda>b. b \<notin> set (rgBDNames oldRG)) (rgBDNames newRG))"

definition IsBlockDeviceReplacementCase :: "RaidGroup \<Rightarrow> RaidGroup \<Rightarrow> bool" where
  "IsBlockDeviceReplacementCase newRaidGroup oldRaidGroup =
     (GetNumberOfDiskReplaced newRaidGroup oldRaidGroup \<ge> 1)"

definition IsMoreThanOneDiskReplaced :: "RaidGroup \<Rightarrow> RaidGroup \<Rightarrow> bool" where
  "IsMoreThanOneDiskReplaced newRG oldRG = (GetNumberOfDiskReplaced newRG oldRG > 1)"

text \<open>The first name of the one list that is not in the other, empty when there is none.\<close>

definition firstNotIn :: "string list \<Rightarrow> string list \<Rightarrow> string" where
  "firstNotIn xs ys = (case find (\<lambda>x. x \<notin> set ys) xs of None \<Rightarrow> '''' | Some x \<Rightarrow> x)"

text \<open>The map \<open>newToOldBlockDeviceMap\<close> always has exactly one entry.\<close>

definition GetNewBDFromRaidGroups :: "RaidGroup \<Rightarrow> RaidGroup \<Rightarrow> string \<times> string" where
  "GetNewBDFromRaidGroups newRG oldRG =
     (firstNotIn (rgBDNames newRG) (rgBDNames oldRG), firstNotIn (rgBDNames oldRG) (rgBDNames newRG))"

definition IsNewBDPresentOnCurrentCSPC :: "PoolOperations \<Rightarrow> RaidGroup \<Rightarrow> RaidGroup \<Rightarrow> bool" where
  "IsNewBDPresentOnCurrentCSPC pOps newRG oldRG =
     list_ex (\<lambda>b. b = fst (GetNewBDFromRaidGroups newRG oldRG)) (cspcBDNames (OldCSPC pOps))"

section \<open>Claims of block devices\<close>

definition GetBDCOfBD :: "'s env \<Rightarrow> 's \<Rightarrow> PoolOperations \<Rightarrow> string \<Rightarrow> BlockDeviceClaim option res" where
  "GetBDCOfBD E s pOps bdName =
     bindR (quoteR (bdc_list E s (Namespace (OldCSPC pOps)) '''') ''failed to list bdc: %s'' []) (\<lambda>bdcList.
       let claims = filter (\<lambda>bdc. bdc_BlockDeviceName bdc = bdName) bdcList
       in if length claims = 0 then Ok None
          else if length claims \<noteq> 1
          then Err (Errorf ''did not get exact one bdc for the bd %s'' [AS bdName])
          else Ok (Some (hd claims)))"

text \<open>\<open>(true, err)\<close> is \<open>Err err\<close>, \<open>(false, nil)\<close> is \<open>Ok ()\<close>.\<close>

definition IsExistingReplacmentInProgress :: "'s env \<Rightarrow> 's \<Rightarrow> PoolOperations \<Rightarrow> RaidGroup \<Rightarrow> verdict" where
  "IsExistingReplacmentInProgress E s pOps oldRG =
     checkAll (\<lambda>b.
       bindR (quoteR (GetBDCOfBD E s pOps b)
                ''failed to query for any existing replacement in the raid group : %s'' []) (\<lambda>bdc.
         case bdc of
           None \<Rightarrow> Ok ()
         | Some c \<Rightarrow> if mhas (Annotations c) PredecessorBDLabelKey
                      then Err (Errorf ''replacement is still in progress for bd %s'' [AS b]) else Ok ()))
       (rgBDNames oldRG)"

text \<open>The keys of the predecessor map: the annotation of every claim, empty when it has none.\<close>

fun predecessorLoop :: "'s env \<Rightarrow> 's \<Rightarrow> PoolOperations \<Rightarrow> string list \<Rightarrow> string list res" where
  "predecessorLoop E s pOps [] = Ok []"
| "predecessorLoop E s pOps (b # bs) =
     bindR (GetBDCOfBD E s pOps b) (\<lambda>bdc.
     bindR (predecessorLoop E s pOps bs) (\<lambda>rest.
       Ok (case bdc of None \<Rightarrow> rest | Some c \<Rightarrow> mget (Annotations c) PredecessorBDLabelKey # rest)))"

definition GetPredecessorBDIfAny :: "'s env \<Rightarrow> 's \<Rightarrow> PoolOperations \<Rightarrow> CStorPoolCluster \<Rightarrow> string list res" where
  "GetPredecessorBDIfAny E s pOps cspcOld = predecessorLoop E s pOps (cspcBDNames cspcOld)"

definition IsBDValid ::
    "'s env \<Rightarrow> 's \<Rightarrow> PoolOperations \<Rightarrow> string \<Rightarrow> BlockDeviceClaim option \<Rightarrow> CStorPoolCluster \<Rightarrow> bool res" where
  "IsBDValid E s pOps bd bdc oldcspc =
     (if (case bdc of None \<Rightarrow> False
          | Some c \<Rightarrow> mget (Labels c) CStorPoolClusterLabelKey \<noteq> Name oldcspc)
      then Ok False
      else (case GetPredecessorBDIfAny E s pOps oldcspc of
              Panic m \<Rightarrow> Panic m
            | Err e \<Rightarrow> Ok False
            | Ok predecessorMap \<Rightarrow> Ok (bd \<notin> set predecessorMap)))"

definition AreNewBDsValid ::
    "'s env \<Rightarrow> 's \<Rightarrow> PoolOperations \<Rightarrow> RaidGroup \<Rightarrow> RaidGroup \<Rightarrow> CStorPoolCluster \<Rightarrow> bool res" where
  "AreNewBDsValid E s pOps newRG oldRG oldcspc =
     (let bd = fst (GetNewBDFromRaidGroups newRG oldRG)
      in case GetBDCOfBD E s pOps bd of
           Panic m \<Rightarrow> Panic m
         | Err e \<Rightarrow> Ok False
         | Ok bdc \<Rightarrow> IsBDValid E s pOps bd bdc oldcspc)"

definition validateNewBDCapacity :: "'s env \<Rightarrow> 's \<Rightarrow> PoolOperations \<Rightarrow> RaidGroup \<Rightarrow> RaidGroup \<Rightarrow> verdict" where
  "validateNewBDCapacity E s pOps newRG oldRG =
     (let (newBDName, oldBDName) = GetNewBDFromRaidGroups newRG oldRG; ns = Namespace (OldCSPC pOps) in
      bindR (wrapR (bd_get E s ns newBDName)
               ''failed to get capacity of replaced block device: %s'' [AS newBDName]) (\<lambda>newBDObj.
      bindR (wrapR (bd_get E s ns oldBDName)
               ''failed to get capacity of existing block device: %s'' [AS oldBDName]) (\<lambda>oldBDObj.
        if bd_CapacityStorage newBDObj < bd_CapacityStorage oldBDObj
        then Err (Errorf ''capacity of replacing block device {%s:%d} should be greater than or equal to existing block device {%s:%d}''
                    [AS newBDName, AI (uint (bd_CapacityStorage newBDObj)),
                     AS oldBDName, AI (uint (bd_CapacityStorage oldBDObj))])
        else Ok ())))"

definition IsBDReplacementValid ::
    "'s env \<Rightarrow> 's \<Rightarrow> PoolOperations \<Rightarrow> RaidGroup \<Rightarrow> RaidGroup \<Rightarrow> string \<Rightarrow> verdict" where
  "IsBDReplacementValid E s pOps newRG oldRG oldRgType =
     (if oldRgType = PoolStriped
      then Err (Errorf ''cannot replace  blockdevice in stripe raid group'' [])
      else if IsMoreThanOneDiskReplaced newRG oldRG
      then Err (Errorf ''cannot replace more than one blockdevice in a raid group'' [])
      else if IsNewBDPresentOnCurrentCSPC pOps newRG oldRG
      then Err (Errorf ''the new blockdevice intended to use for replacement is already a part of the current cspc'' [])
      else
        bindR (quoteR (IsExistingReplacmentInProgress E s pOps oldRG)
                 ''cannot replace blockdevice as a background replacement may be in progress in the raid group: %s'' []) (\<lambda>_.
        bindR (AreNewBDsValid E s pOps newRG oldRG (OldCSPC pOps)) (\<lambda>valid.
          if \<not> valid
          then Err (Errorf ''the new blockdevice intended to use for replacement in invalid'' [])
          else quoteR (validateNewBDCapacity E s pOps newRG oldRG) ''error: %v'' [])))"

section \<open>Claiming the new device of a replacement\<close>

definition getAllowedTagMap :: "gomap \<Rightarrow> string list" where
  "getAllowedTagMap cspcAnnotation =
     (let allowedTags = mget cspcAnnotation OpenEBSAllowedBDTagKey
      in if TrimSpace allowedTags = '''' then []
         else filter (\<lambda>v. TrimSpace v \<noteq> '''') (Split (CHR '','') allowedTags))"

definition getBDOwnerReference :: "CStorPoolCluster \<Rightarrow> OwnerReference" where
  "getBDOwnerReference cspc =
     \<lparr>or_Kind = ''CStorPoolCluster'', or_Name = Name cspc, or_UID = UID cspc\<rparr>"

text \<open>\<open>resource.MustParse\<close> panics where \<open>resource.ParseQuantity\<close> returns an error.\<close>

definition MustParse :: "'s env \<Rightarrow> string \<Rightarrow> Quantity res" where
  "MustParse E str = (case ParseQuantity E str of Ok q \<Rightarrow> Ok q | Err e \<Rightarrow> Panic ''cannot parse'' | Panic m \<Rightarrow> Panic m)"

definition newReplacementBDC :: "PoolOperations \<Rightarrow> BlockDevice \<Rightarrow> string \<Rightarrow> Quantity \<Rightarrow> BlockDeviceClaim" where
  "newReplacementBDC pOps newBdObj oldBD capacity =
     \<lparr>Name = ''bdc-cstor-'' @ UID newBdObj, Namespace = Namespace newBdObj, UID = '''',
      Labels = [(CStorPoolClusterLabelKey, Name (OldCSPC pOps))],
      Annotations = [(PredecessorBDLabelKey, oldBD)],
      Finalizers = [], OwnerReferences = [getBDOwnerReference (OldCSPC pOps)], DeletionTimestamp = None,
      bdc_BlockDeviceName = Name newBdObj,
      bdc_HostName = mget (Labels newBdObj) HostNameLabelKey,
      bdc_Capacity = capacity,
      bdc_Selector =
        (if mhas (Labels newBdObj) BlockDeviceTagLabelKey
         then Some [(BlockDeviceTagLabelKey, mget (Labels newBdObj) BlockDeviceTagLabelKey)] else None)\<rparr>"

text \<open>The tag check of a device against the tags the new cluster allows.\<close>

definition tagCheck :: "gomap \<Rightarrow> BlockDevice \<Rightarrow> verdict" where
  "tagCheck annotations bd =
     (let value = mget (Labels bd) BlockDeviceTagLabelKey
      in if mhas (Labels bd) BlockDeviceTagLabelKey
         then (if TrimSpace value = ''''
               then Err (Errorf ''failed to create block device claim for bd {%s} as it has empty value for bd tag'' [AS (Name bd)])
               else if TrimSpace value \<notin> set (getAllowedTagMap annotations)
               then Err (Errorf ''cannot use bd {%s} as it has tag %s but cspc has allowed bd tags as %s''
                           [AS (Name bd), AS value, AS (mget annotations OpenEBSAllowedBDTagKey)])
               else Ok ())
         else Ok ())"

definition ClaimBD :: "'s env \<Rightarrow> PoolOperations \<Rightarrow> BlockDevice \<Rightarrow> string \<Rightarrow> 's \<Rightarrow> verdict \<times> 's" where
  "ClaimBD E pOps newBdObj oldBD s =
     (case bindR (tagCheck (Annotations (NewCSPC pOps)) newBdObj) (\<lambda>_.
           bindR (ByteCount (bd_CapacityStorage newBdObj)) (MustParse E)) of
        Panic m \<Rightarrow> (Panic m, s)
      | Err e \<Rightarrow> (Err e, s)
      | Ok capacity \<Rightarrow>
          let newBDCObj = (newReplacementBDC pOps newBdObj oldBD capacity)\<lparr>Finalizers := [CSPCFinalizer E]\<rparr>;
              ns = Namespace newBdObj
          in (case bdc_get E s ns (Name newBDCObj) of
                Panic m \<Rightarrow> (Panic m, s)
              | Err e \<Rightarrow>
                  if IsNotFound e
                  then (case bdc_create E s ns newBDCObj of
                          (r, s') \<Rightarrow> (wrapR r ''failed to create block device claim for bd {%s}'' [AS (Name newBdObj)], s'))
                  else (Err (Wrapf e ''failed to get block device claim for bd {%s}'' [AS (Name newBdObj)]), s)
              | Ok bdcObj \<Rightarrow>
                  bdc_update E s ns (bdcObj\<lparr>Annotations := mput PredecessorBDLabelKey oldBD (Annotations bdcObj)\<rparr>)))"

definition createBDC :: "'s env \<Rightarrow> PoolOperations \<Rightarrow> string \<Rightarrow> string \<Rightarrow> 's \<Rightarrow> verdict \<times> 's" where
  "createBDC E pOps newBD oldBD s =
     (case bd_get E s (Namespace (OldCSPC pOps)) newBD of
        Panic m \<Rightarrow> (Panic m, s)
      | Err e \<Rightarrow> (Err e, s)
      | Ok bdObj \<Rightarrow> ClaimBD E pOps bdObj oldBD s)"

section \<open>Common raid groups and pool expansion\<close>

definition dataRG :: string where "dataRG = ''data''"
definition writeCacheRG :: string where "writeCacheRG = ''writeCache''"

text \<open>The index-aligned lists \<open>oldRaidGroups\<close> and \<open>newRaidGroups\<close> as pairs, with their type.\<close>

record raidGroups =
  rgPairs :: "(RaidGroup \<times> RaidGroup) list"
  rgType :: string

definition getNewBDsFromStripeSpec :: "RaidGroup \<Rightarrow> RaidGroup \<Rightarrow> string list" where
  "getNewBDsFromStripeSpec oldRg newRg = filter (\<lambda>b. b \<notin> set (rgBDNames oldRg)) (rgBDNames newRg)"

definition getBDsFromRaidGroups :: "RaidGroup list \<Rightarrow> string list" where
  "getBDsFromRaidGroups rgs = concat (map rgBDNames rgs)"

definition getExpandedRaidGroups :: "RaidGroup list \<Rightarrow> RaidGroup list \<Rightarrow> RaidGroup list" where
  "getExpandedRaidGroups newRgs oldRgs =
     filter (\<lambda>newRg. \<not> list_ex (\<lambda>oldRg. IsRaidGroupCommon oldRg newRg) oldRgs) newRgs"

fun matchRaidGroups :: "RaidGroup list \<Rightarrow> RaidGroup list \<Rightarrow> (RaidGroup \<times> RaidGroup) list res" where
  "matchRaidGroups newRgs [] = Ok []"
| "matchRaidGroups newRgs (oldRg # rest) =
     (case find (IsRaidGroupCommon oldRg) newRgs of
        None \<Rightarrow> Err (Errorf ''removing raid group from pool spec is invalid operation'' [])
      | Some newRg \<Rightarrow> bindR (matchRaidGroups newRgs rest) (\<lambda>pairs. Ok ((oldRg, newRg) # pairs)))"

text \<open>The map from \<open>dataRG\<close> and \<open>writeCacheRG\<close> to the common groups of each kind.\<close>

definition commonMap ::
    "PoolSpec \<Rightarrow> (RaidGroup \<times> RaidGroup) list \<Rightarrow> (RaidGroup \<times> RaidGroup) list \<Rightarrow> string \<Rightarrow> raidGroups" where
  "commonMap oldPoolSpec dataPairs cachePairs k =
     (if k = dataRG
      then \<lparr>rgPairs = dataPairs, rgType = DataRaidGroupType (poolConfig oldPoolSpec)\<rparr>
      else \<lparr>rgPairs = cachePairs, rgType = WriteCacheGroupType (poolConfig oldPoolSpec)\<rparr>)"

definition getIndexedCommonRaidGroups :: "PoolSpec \<Rightarrow> PoolSpec \<Rightarrow> (string \<Rightarrow> raidGroups) res" where
  "getIndexedCommonRaidGroups oldPoolSpec newPoolSpec =
     bindR (matchRaidGroups (DataRaidGroups newPoolSpec) (DataRaidGroups oldPoolSpec)) (\<lambda>dataPairs.
     bindR (matchRaidGroups (WriteCacheRaidGroups newPoolSpec) (WriteCacheRaidGroups oldPoolSpec)) (\<lambda>cachePairs.
       Ok (commonMap oldPoolSpec dataPairs cachePairs)))"

definition validateNewBDs :: "'s env \<Rightarrow> 's \<Rightarrow> PoolOperations \<Rightarrow> string list \<Rightarrow> CStorPoolCluster \<Rightarrow> verdict" where
  "validateNewBDs E s pOps newBDs cspc =
     checkAll (\<lambda>bd.
       bindR (wrapR (GetBDCOfBD E s pOps bd) ''failed to get claim of block device %s'' [AS bd]) (\<lambda>bdc.
       bindR (IsBDValid E s pOps bd bdc cspc) (\<lambda>valid.
         failIf (\<not> valid) (Errorf ''can not use blockdevice %s validation failed'' [AS bd])))) newBDs"

text \<open>
  The loop over the map of common raid groups in the run's order. In the branches for groups
  other than stripe the source assigns \<open>bds\<close> where the stripe branch appends to it.
\<close>

fun expansionLoop :: "PoolSpec \<Rightarrow> (string \<Rightarrow> raidGroups) \<Rightarrow> string list \<Rightarrow> string list \<Rightarrow> string list res" where
  "expansionLoop newPoolSpec common bds [] = Ok bds"
| "expansionLoop newPoolSpec common bds (k # ks) =
     (let rgs = common k in
      if rgType rgs = PoolStriped
      then (case rgPairs rgs of
              [] \<Rightarrow> Panic ''index out of range''
            | (oldRg, newRg) # _ \<Rightarrow>
                expansionLoop newPoolSpec common (bds @ getNewBDsFromStripeSpec oldRg newRg) ks)
      else if k = dataRG
      then expansionLoop newPoolSpec common
             (getBDsFromRaidGroups (getExpandedRaidGroups (DataRaidGroups newPoolSpec) (map fst (rgPairs rgs)))) ks
      else if k = writeCacheRG
      then expansionLoop newPoolSpec common
             (getBDsFromRaidGroups (getExpandedRaidGroups (WriteCacheRaidGroups newPoolSpec) (map fst (rgPairs rgs)))) ks
      else expansionLoop newPoolSpec common bds ks)"

definition validatePoolExpansion ::
    "'s env \<Rightarrow> 's \<Rightarrow> PoolOperations \<Rightarrow> PoolSpec \<Rightarrow> (string \<Rightarrow> raidGroups) \<Rightarrow> verdict" where
  "validatePoolExpansion E s pOps newPoolSpec common =
     bindR (expansionLoop newPoolSpec common [] (rangeExpand E)) (\<lambda>bds.
       validateNewBDs E s pOps bds (OldCSPC pOps))"

section \<open>Changes of one pool spec\<close>

text \<open>
  The loop over the index-aligned groups of one kind, with the map \<open>newToOldBd\<close> it fills.
  \<open>IsBlockDeviceReplacementCase\<close> is called with the old group as its first argument.
\<close>

fun groupChangesLoop ::
    "'s env \<Rightarrow> 's \<Rightarrow> PoolOperations \<Rightarrow> string \<Rightarrow> gomap \<Rightarrow> (RaidGroup \<times> RaidGroup) list \<Rightarrow> gomap res" where
  "groupChangesLoop E s pOps t newToOldBd [] = Ok newToOldBd"
| "groupChangesLoop E s pOps t newToOldBd ((oldRg, newRg) # rest) =
     bindR (quoteR (validateRaidGroupChanges oldRg newRg t) ''raid group validation failed: %v'' []) (\<lambda>_.
       if IsBlockDeviceReplacementCase oldRg newRg
       then bindR (IsBDReplacementValid E s pOps newRg oldRg t) (\<lambda>_.
              groupChangesLoop E s pOps t
                (mput (fst (GetNewBDFromRaidGroups newRg oldRg)) (snd (GetNewBDFromRaidGroups newRg oldRg)) newToOldBd) rest)
       else groupChangesLoop E s pOps t newToOldBd rest)"

fun kindsLoop ::
    "'s env \<Rightarrow> 's \<Rightarrow> PoolOperations \<Rightarrow> (string \<Rightarrow> raidGroups) \<Rightarrow> gomap \<Rightarrow> string list \<Rightarrow> gomap res" where
  "kindsLoop E s pOps common newToOldBd [] = Ok newToOldBd"
| "kindsLoop E s pOps common newToOldBd (k # ks) =
     bindR (groupChangesLoop E s pOps (rgType (common k)) newToOldBd (rgPairs (common k))) (\<lambda>m.
       kindsLoop E s pOps common m ks)"

definition ArePoolSpecChangesValid ::
    "'s env \<Rightarrow> PoolOperations \<Rightarrow> PoolSpec \<Rightarrow> PoolSpec \<Rightarrow> 's \<Rightarrow> verdict \<times> 's" where
  "ArePoolSpecChangesValid E pOps oldPoolSpec newPoolSpec s =
     (let oc = poolConfig oldPoolSpec; nc = poolConfig newPoolSpec in
      if DataRaidGroupType oc \<noteq> DataRaidGroupType nc \<or>
         (WriteCacheGroupType oc \<noteq> '''' \<and> WriteCacheGroupType oc \<noteq> WriteCacheGroupType nc)
      then (Err (Errorf ''raidgroup can't be modified'' []), s)
      else
        (case bindR (quoteR (getIndexedCommonRaidGroups oldPoolSpec newPoolSpec)
                       ''raid group validation failed: %v'' []) (\<lambda>common.
              bindR (kindsLoop E s pOps common [] (rangeCheck E)) (\<lambda>newToOldBd.
              bindR (quoteR (validatePoolExpansion E s pOps newPoolSpec common)
                       ''pool expansion validation failed: %v'' []) (\<lambda>_.
                Ok newToOldBd))) of
           Panic m \<Rightarrow> (Panic m, s)
         | Err e \<Rightarrow> (Err e, s)
         | Ok newToOldBd \<Rightarrow>
             checkAllS (\<lambda>(newBD, oldBD). createBDC E pOps newBD oldBD) (mapOrder E newToOldBd) s))"

definition ValidateSpecChanges ::
    "'s env \<Rightarrow> PoolOperations \<Rightarrow> (PoolSpec \<times> PoolSpec) list \<Rightarrow> 's \<Rightarrow> verdict \<times> 's" where
  "ValidateSpecChanges E pOps commonPoolSpecs =
     checkAllS (\<lambda>(oldPoolSpec, newPoolSpec) s.
       if oldPoolSpec = newPoolSpec then (Ok (), s)
       else ArePoolSpecChangesValid E pOps oldPoolSpec newPoolSpec s) commonPoolSpecs"

section \<open>Scale down, and the update request\<close>

definition IsScaledownCase :: "PoolOperations \<Rightarrow> PoolSpec \<Rightarrow> bool" where
  "IsScaledownCase pOps oldPool =
     (\<not> list_ex (\<lambda>b. b \<in> set (cspcBDNames (NewCSPC pOps))) (poolBDNames oldPool))"

fun removedPoolsLoop :: "'s env \<Rightarrow> 's \<Rightarrow> PoolOperations \<Rightarrow> PoolSpec list \<Rightarrow> string list res" where
  "removedPoolsLoop E s pOps [] = Ok []"
| "removedPoolsLoop E s pOps (oldPool # rest) =
     (let found = list_ex (\<lambda>newPool. NodeSelector oldPool = NodeSelector newPool) (Pools (cspc_Spec (NewCSPC pOps)))
      in if \<not> found \<and> IsScaledownCase pOps oldPool
         then
           bindR (if mhas (NodeSelector oldPool) HostNameLabelKey
                  then Ok (mget (NodeSelector oldPool) HostNameLabelKey)
                  else (case GetHostNameFromLabelSelector E s (NodeSelector oldPool) of
                          Ok h \<Rightarrow> Ok h
                        | Err e \<Rightarrow> Err (Errorf ''Could not list node for node selectors {%v}'' [AM (NodeSelector oldPool)])
                        | Panic m \<Rightarrow> Panic m)) (\<lambda>nodeName.
           bindR (quoteR (cspi_list E s (Namespace (OldCSPC pOps))
                           (labelSetString E [(CStorPoolClusterLabelKey, Name (OldCSPC pOps)), (HostNameLabelKey, nodeName)]))
                    ''Could not list cspi for cspc %s: %s'' [AS (Name (OldCSPC pOps))]) (\<lambda>cspis.
             case cspis of
               [] \<Rightarrow> Panic ''index out of range''
             | cspi # _ \<Rightarrow> bindR (removedPoolsLoop E s pOps rest) (\<lambda>names. Ok (Name cspi # names))))
         else removedPoolsLoop E s pOps rest)"

definition ValidateScaledown :: "'s env \<Rightarrow> 's \<Rightarrow> PoolOperations \<Rightarrow> verdict" where
  "ValidateScaledown E s pOps =
     bindR (removedPoolsLoop E s pOps (Pools (cspc_Spec (OldCSPC pOps)))) (\<lambda>removedPools.
     checkAll (\<lambda>cspiName.
       bindR (quoteR (cvr_list E s (Namespace (OldCSPC pOps)) (CStorPoolInstanceNameLabelKey E @ ''='' @ cspiName))
                ''Could not list cvr for cspi %s: %s'' [AS cspiName]) (\<lambda>cvrs.
         failIf (length cvrs \<noteq> 0) (Errorf ''volume still exists on pool %s'' [AS cspiName]))) removedPools)"

definition validateCSPCUpdateRequest :: "'s env \<Rightarrow> AdmissionRequest \<Rightarrow> 's \<Rightarrow> AdmissionResponse res \<times> 's" where
  "validateCSPCUpdateRequest E req s =
     (case req_CSPC req of
        Panic m \<Rightarrow> (Panic m, s)
      | Err e \<Rightarrow> (Ok (rejected e StatusBadRequest), s)
      | Ok cspcNew \<Rightarrow>
     (case cspc_get E s (Namespace cspcNew) (Name cspcNew) of
        Panic m \<Rightarrow> (Panic m, s)
      | Err e \<Rightarrow> (Ok (rejected (Errorf ''could not fetch existing cspc for validation: %s'' [AE e]) StatusInternalServerError), s)
      | Ok cspcOld \<Rightarrow>
     if cspc_Spec cspcNew = cspc_Spec cspcOld then (Ok accepted, s) else
     (case cspcValidation E s cspcNew of
        Panic m \<Rightarrow> (Panic m, s)
      | Err msg \<Rightarrow> (Ok (rejected (Errorf ''invalid cspc specification: %s'' [AE msg]) StatusUnprocessableEntity), s)
      | Ok _ \<Rightarrow>
     let pOps = \<lparr>OldCSPC = cspcOld, NewCSPC = cspcNew\<rparr> in
     (case ValidateScaledown E s pOps of
        Panic m \<Rightarrow> (Panic m, s)
      | Err msg \<Rightarrow> (Ok (rejected (Errorf ''invalid cspc specification: %s'' [AE msg]) StatusUnprocessableEntity), s)
      | Ok _ \<Rightarrow>
     (case getCommonPoolSpecs E s cspcNew cspcOld of
        Panic m \<Rightarrow> (Panic m, s)
      | Err e \<Rightarrow> (Ok (rejected (Errorf ''could not find common pool specs for validation: %s'' [AE e]) StatusInternalServerError), s)
      | Ok commonPoolSpec \<Rightarrow>
     (case ValidateSpecChanges E pOps commonPoolSpec s of
        (Panic m, s') \<Rightarrow> (Panic m, s')
      | (Err msg, s') \<Rightarrow> (Ok (rejected (Errorf ''invalid cspc specification: %s'' [AE msg]) StatusUnprocessableEntity), s')
      | (Ok _, s') \<Rightarrow> (Ok accepted, s')))))))"

definition validateCSPC :: "'s env \<Rightarrow> AdmissionRequest \<Rightarrow> 's \<Rightarrow> AdmissionResponse res \<times> 's" where
  "validateCSPC E req s =
     (case req_Operation req of
        Update \<Rightarrow> validateCSPCUpdateRequest E req s
      | Create \<Rightarrow> (validateCSPCCreateRequest E s req, s)
      | Delete \<Rightarrow> (validateCSPCDeleteRequest E s req, s)
      | Connect \<Rightarrow> (Ok NewAdmissionResponse, s))"

section \<open>What an accepted change of a raid group is\<close>

text \<open>
  The contract of an accepted change: a stripe group only grows; any other group keeps its
  size and has at most one device exchanged.
\<close>

definition groupChangeOk :: "string \<Rightarrow> RaidGroup \<Rightarrow> RaidGroup \<Rightarrow> bool" where
  "groupChangeOk t oldRg newRg \<longleftrightarrow>
     (if t = PoolStriped
      then set (rgBDNames oldRg) \<subseteq> set (rgBDNames newRg)
      else length (rgBDNames newRg) = length (rgBDNames oldRg)
           \<and> card (set (rgBDNames oldRg) - set (rgBDNames newRg)) \<le> 1
           \<and> card (set (rgBDNames newRg) - set (rgBDNames oldRg)) \<le> 1)"

lemma length_filter_notin_card:
  "distinct xs \<Longrightarrow> length (filter (\<lambda>x. x \<notin> set ys) xs) = card (set xs - set ys)"
  by (metis distinct_card distinct_filter set_diff_eq set_filter)

lemma card_diff_swap:
  assumes "distinct xs" and "distinct ys" and "length xs = length ys"
  shows "card (set xs - set ys) = card (set ys - set xs)"
proof -
  have "card (set xs - set ys) = card (set xs) - card (set xs \<inter> set ys)"
    by (simp add: card_Diff_subset_Int)
  also have "\<dots> = card (set ys) - card (set ys \<inter> set xs)"
    using assms by (simp add: distinct_card Int_commute)
  also have "\<dots> = card (set ys - set xs)" by (simp add: card_Diff_subset_Int)
  finally show ?thesis .
qed

lemma GetNumberOfDiskReplaced_card:
  "distinct (rgBDNames newRG) \<Longrightarrow>
   GetNumberOfDiskReplaced newRG oldRG = card (set (rgBDNames newRG) - set (rgBDNames oldRG))"
  by (simp add: GetNumberOfDiskReplaced_def length_filter_notin_card)

lemma not_replacement_subset:
  "\<not> IsBlockDeviceReplacementCase oldRg newRg \<longleftrightarrow> set (rgBDNames oldRg) \<subseteq> set (rgBDNames newRg)"
  by (auto simp: IsBlockDeviceReplacementCase_def GetNumberOfDiskReplaced_def filter_empty_conv Suc_le_eq)

lemma validateRaidGroupChanges_size:
  "validateRaidGroupChanges oldRg newRg t = Ok () \<Longrightarrow> t \<noteq> PoolStriped \<Longrightarrow>
   length (rgBDNames oldRg) = length (rgBDNames newRg)"
  by (simp add: validateRaidGroupChanges_def split: if_splits)

lemma checked_pair_ok:
  assumes sz: "validateRaidGroupChanges oldRg newRg t = Ok ()"
    and repl: "IsBlockDeviceReplacementCase oldRg newRg \<Longrightarrow> IsBDReplacementValid E s pOps newRg oldRg t = Ok ()"
    and dist: "distinct (rgBDNames oldRg)" "distinct (rgBDNames newRg)"
  shows "groupChangeOk t oldRg newRg"
proof (cases "t = PoolStriped")
  case True
  with repl have "\<not> IsBlockDeviceReplacementCase oldRg newRg" by (auto simp: IsBDReplacementValid_def)
  with True show ?thesis by (simp add: groupChangeOk_def not_replacement_subset)
next
  case False
  with sz have len: "length (rgBDNames oldRg) = length (rgBDNames newRg)" by (rule validateRaidGroupChanges_size)
  have swap: "card (set (rgBDNames oldRg) - set (rgBDNames newRg)) = card (set (rgBDNames newRg) - set (rgBDNames oldRg))"
    by (rule card_diff_swap [OF dist len])
  have "card (set (rgBDNames newRg) - set (rgBDNames oldRg)) \<le> 1"
  proof (cases "IsBlockDeviceReplacementCase oldRg newRg")
    case True
    from repl [OF True] dist(2) show ?thesis
      by (auto simp: IsBDReplacementValid_def IsMoreThanOneDiskReplaced_def GetNumberOfDiskReplaced_card split: if_splits)
  next
    case False
    then have "card (set (rgBDNames oldRg) - set (rgBDNames newRg)) = 0"
      by (metis Diff_eq_empty_iff card.empty not_replacement_subset)
    with swap show ?thesis by simp
  qed
  with False len swap show ?thesis unfolding groupChangeOk_def by (metis (no_types))
qed

lemma groupChangesLoop_pairs:
  assumes "groupChangesLoop E s pOps t m pairs = Ok m'" and "(oldRg, newRg) \<in> set pairs"
    and "distinct (rgBDNames oldRg)" and "distinct (rgBDNames newRg)"
  shows "groupChangeOk t oldRg newRg"
  using assms(1,2)
proof (induction pairs arbitrary: m)
  case Nil
  then show ?case by simp
next
  case (Cons p pairs)
  obtain o1 n1 where p: "p = (o1, n1)" by (cases p)
  from Cons.prems(1) p obtain m1 where rest: "groupChangesLoop E s pOps t m1 pairs = Ok m'"
    and "validateRaidGroupChanges o1 n1 t = Ok ()"
    and "IsBlockDeviceReplacementCase o1 n1 \<Longrightarrow> IsBDReplacementValid E s pOps n1 o1 t = Ok ()"
    by (auto simp: bindR_Ok_iff split: if_splits)
  with Cons.IH [OF rest] Cons.prems(2) p assms(3,4) show ?case by (auto intro: checked_pair_ok)
qed

lemma kindsLoop_kind:
  assumes "kindsLoop E s pOps common m ks = Ok m'" and "k \<in> set ks"
  shows "\<exists>m1 m2. groupChangesLoop E s pOps (rgType (common k)) m1 (rgPairs (common k)) = Ok m2"
  using assms by (induction ks arbitrary: m) (auto simp: bindR_Ok_iff)

lemma matchRaidGroups_Ok:
  "matchRaidGroups newRgs oldRgs = Ok pairs \<Longrightarrow>
   map fst pairs = oldRgs \<and> (\<forall>(oldRg, newRg) \<in> set pairs. newRg \<in> set newRgs \<and> IsRaidGroupCommon oldRg newRg)"
proof (induction oldRgs arbitrary: pairs)
  case Nil
  then show ?case by simp
next
  case (Cons oldRg oldRgs)
  then obtain newRg ps where f: "find (IsRaidGroupCommon oldRg) newRgs = Some newRg"
    and "matchRaidGroups newRgs oldRgs = Ok ps" and "pairs = (oldRg, newRg) # ps"
    by (auto simp: bindR_Ok_iff split: option.splits)
  moreover from f have "newRg \<in> set newRgs \<and> IsRaidGroupCommon oldRg newRg"
    by (auto simp: find_Some_iff)
  ultimately show ?case using Cons.IH by auto
qed

lemma dataRG_neq_writeCacheRG [simp]: "dataRG \<noteq> writeCacheRG" "writeCacheRG \<noteq> dataRG"
  by (simp_all add: dataRG_def writeCacheRG_def)

text \<open>All that an accepted change of a pool spec went through before a claim was written.\<close>

lemma ArePoolSpecChangesValid_OkD:
  assumes "ArePoolSpecChangesValid E pOps oldP newP s = (Ok (), s')"
  shows "\<exists>dataPairs cachePairs common newToOldBd.
     DataRaidGroupType (poolConfig oldP) = DataRaidGroupType (poolConfig newP)
     \<and> (WriteCacheGroupType (poolConfig oldP) \<noteq> '''' \<longrightarrow>
          WriteCacheGroupType (poolConfig oldP) = WriteCacheGroupType (poolConfig newP))
     \<and> matchRaidGroups (DataRaidGroups newP) (DataRaidGroups oldP) = Ok dataPairs
     \<and> matchRaidGroups (WriteCacheRaidGroups newP) (WriteCacheRaidGroups oldP) = Ok cachePairs
     \<and> common = commonMap oldP dataPairs cachePairs
     \<and> kindsLoop E s pOps common [] (rangeCheck E) = Ok newToOldBd
     \<and> validatePoolExpansion E s pOps newP common = Ok ()
     \<and> checkAllS (\<lambda>(newBD, oldBD). createBDC E pOps newBD oldBD) (mapOrder E newToOldBd) s = (Ok (), s')"
  using assms
  by (auto simp: ArePoolSpecChangesValid_def getIndexedCommonRaidGroups_def Let_def bindR_Ok_iff
      split: if_splits res.splits)

lemma accepted_groups:
  assumes "matchRaidGroups newRgs oldRgs = Ok pairs"
    and "groupChangesLoop E s pOps t m1 pairs = Ok m2"
    and "\<forall>rg \<in> set oldRgs \<union> set newRgs. distinct (rgBDNames rg)"
    and "oldRg \<in> set oldRgs"
  shows "\<exists>newRg \<in> set newRgs. IsRaidGroupCommon oldRg newRg \<and> groupChangeOk t oldRg newRg"
proof -
  from assms(1) have m: "map fst pairs = oldRgs"
    and new: "\<forall>(oldRg, newRg) \<in> set pairs. newRg \<in> set newRgs \<and> IsRaidGroupCommon oldRg newRg"
    by (auto dest: matchRaidGroups_Ok)
  from m assms(4) obtain newRg where "(oldRg, newRg) \<in> set pairs" by force
  with new assms(2-4) show ?thesis by (blast intro: groupChangesLoop_pairs)
qed

lemma distinct_pool_groups:
  "distinct (poolBDNames p) \<Longrightarrow> rg \<in> set (DataRaidGroups p) \<union> set (WriteCacheRaidGroups p) \<Longrightarrow> distinct (rgBDNames rg)"
  by (auto simp: poolBDNames_def allRaidGroups_def distinct_concat_iff)

section \<open>What an accepted replacement is\<close>

lemma GetBDCOfBD_None:
  "GetBDCOfBD E s pOps b = Ok None \<longleftrightarrow>
   (\<exists>l. bdc_list E s (Namespace (OldCSPC pOps)) '''' = Ok l \<and> (\<forall>c \<in> set l. bdc_BlockDeviceName c \<noteq> b))"
  by (auto simp: GetBDCOfBD_def bindR_Ok_iff Let_def filter_empty_conv split: if_splits)

lemma IsExistingReplacment_iff:
  "IsExistingReplacmentInProgress E s pOps rg = Ok () \<longleftrightarrow>
   (\<forall>b \<in> set (rgBDNames rg). \<exists>bdc. GetBDCOfBD E s pOps b = Ok bdc \<and>
      (\<forall>c. bdc = Some c \<longrightarrow> \<not> mhas (Annotations c) PredecessorBDLabelKey))"
proof -
  let ?f = "\<lambda>b. bindR (quoteR (GetBDCOfBD E s pOps b)
                ''failed to query for any existing replacement in the raid group : %s'' []) (\<lambda>bdc.
         case bdc of
           None \<Rightarrow> Ok ()
         | Some c \<Rightarrow> if mhas (Annotations c) PredecessorBDLabelKey
                      then Err (Errorf ''replacement is still in progress for bd %s'' [AS b]) else Ok ())"
  have "?f b = Ok () \<longleftrightarrow> (\<exists>bdc. GetBDCOfBD E s pOps b = Ok bdc \<and>
      (\<forall>c. bdc = Some c \<longrightarrow> \<not> mhas (Annotations c) PredecessorBDLabelKey))" for b
    by (cases "GetBDCOfBD E s pOps b") (auto split: option.splits)
  then show ?thesis by (simp add: IsExistingReplacmentInProgress_def checkAll_Ok_iff)
qed

lemma IsBDReplacementValid_iff:
  "IsBDReplacementValid E s pOps newRG oldRG t = Ok () \<longleftrightarrow>
     (let (newBD, oldBD) = GetNewBDFromRaidGroups newRG oldRG; ns = Namespace (OldCSPC pOps) in
      t \<noteq> PoolStriped \<and> GetNumberOfDiskReplaced newRG oldRG \<le> 1
      \<and> newBD \<notin> set (cspcBDNames (OldCSPC pOps))
      \<and> IsExistingReplacmentInProgress E s pOps oldRG = Ok ()
      \<and> (\<exists>bdc. GetBDCOfBD E s pOps newBD = Ok bdc \<and> IsBDValid E s pOps newBD bdc (OldCSPC pOps) = Ok True)
      \<and> (\<exists>nb ob. bd_get E s ns newBD = Ok nb \<and> bd_get E s ns oldBD = Ok ob
            \<and> bd_CapacityStorage ob \<le> bd_CapacityStorage nb))"
  by (auto simp: IsBDReplacementValid_def Let_def bindR_Ok_iff AreNewBDsValid_def validateNewBDCapacity_def
      IsMoreThanOneDiskReplaced_def IsNewBDPresentOnCurrentCSPC_def list_ex_iff not_less
      split: if_splits res.splits prod.splits)

section \<open>Expansion: which new devices are validated\<close>

lemma expansion_data_then_cache:
  assumes "rgType (common writeCacheRG) \<noteq> PoolStriped" and "rgType (common dataRG) \<noteq> PoolStriped \<or> rgPairs (common dataRG) \<noteq> []"
  shows "expansionLoop newP common bds [dataRG, writeCacheRG] =
     Ok (getBDsFromRaidGroups (getExpandedRaidGroups (WriteCacheRaidGroups newP) (map fst (rgPairs (common writeCacheRG)))))"
  using assms by (auto simp: Let_def split: list.splits)

lemma expansion_cache_then_stripe:
  assumes "rgType (common writeCacheRG) \<noteq> PoolStriped" and "rgType (common dataRG) = PoolStriped"
    and "rgPairs (common dataRG) = (oldRg, newRg) # rest"
  shows "expansionLoop newP common bds [writeCacheRG, dataRG] =
     Ok (getBDsFromRaidGroups (getExpandedRaidGroups (WriteCacheRaidGroups newP) (map fst (rgPairs (common writeCacheRG))))
         @ getNewBDsFromStripeSpec oldRg newRg)"
  using assms by (auto simp: Let_def)

lemma commonMap_simps [simp]:
  "rgPairs (commonMap p d c dataRG) = d" "rgType (commonMap p d c dataRG) = DataRaidGroupType (poolConfig p)"
  "rgPairs (commonMap p d c writeCacheRG) = c" "rgType (commonMap p d c writeCacheRG) = WriteCacheGroupType (poolConfig p)"
  by (simp_all add: commonMap_def)

section \<open>What an accepted update is\<close>

text \<open>
  The contract of an accepted change of one pool: the raid type stays, and every old group,
  data or write cache, has a counterpart that shares a device with it and is an allowed change
  of it. A pool is removed when no new pool has its node selector and none of its devices is in
  the new cluster; that is allowed when its instance holds no volume replica.
\<close>

definition poolChangeOk :: "PoolSpec \<Rightarrow> PoolSpec \<Rightarrow> bool" where
  "poolChangeOk oldP newP \<longleftrightarrow>
     DataRaidGroupType (poolConfig newP) = DataRaidGroupType (poolConfig oldP)
     \<and> (\<forall>oldRg \<in> set (DataRaidGroups oldP). \<exists>newRg \<in> set (DataRaidGroups newP).
          IsRaidGroupCommon oldRg newRg \<and> groupChangeOk (DataRaidGroupType (poolConfig oldP)) oldRg newRg)
     \<and> (\<forall>oldRg \<in> set (WriteCacheRaidGroups oldP). \<exists>newRg \<in> set (WriteCacheRaidGroups newP).
          IsRaidGroupCommon oldRg newRg \<and> groupChangeOk (WriteCacheGroupType (poolConfig oldP)) oldRg newRg)"

definition poolRemovalOk :: "'s env \<Rightarrow> 's \<Rightarrow> PoolOperations \<Rightarrow> PoolSpec \<Rightarrow> bool" where
  "poolRemovalOk E s pOps p \<longleftrightarrow>
     (\<exists>host cspi rest.
        (if mhas (NodeSelector p) HostNameLabelKey then host = mget (NodeSelector p) HostNameLabelKey
         else GetHostNameFromLabelSelector E s (NodeSelector p) = Ok host)
        \<and> cspi_list E s (Namespace (OldCSPC pOps))
             (labelSetString E [(CStorPoolClusterLabelKey, Name (OldCSPC pOps)), (HostNameLabelKey, host)]) = Ok (cspi # rest)
        \<and> cvr_list E s (Namespace (OldCSPC pOps)) (CStorPoolInstanceNameLabelKey E @ ''='' @ Name cspi) = Ok [])"

definition poolRemoved :: "PoolOperations \<Rightarrow> PoolSpec \<Rightarrow> bool" where
  "poolRemoved pOps p \<longleftrightarrow> p \<in> set (Pools (cspc_Spec (OldCSPC pOps)))
     \<and> NodeSelector p \<notin> NodeSelector ` set (Pools (cspc_Spec (NewCSPC pOps))) \<and> IsScaledownCase pOps p"

lemma ArePoolSpecChangesValid_safe:
  assumes "ArePoolSpecChangesValid E pOps oldP newP s = (Ok (), s')"
    and "set (rangeCheck E) = {dataRG, writeCacheRG}"
    and "distinct (poolBDNames oldP)" and "distinct (poolBDNames newP)"
  shows "poolChangeOk oldP newP"
proof -
  from ArePoolSpecChangesValid_OkD [OF assms(1)] obtain dataPairs cachePairs m where
    ty: "DataRaidGroupType (poolConfig oldP) = DataRaidGroupType (poolConfig newP)"
    and d: "matchRaidGroups (DataRaidGroups newP) (DataRaidGroups oldP) = Ok dataPairs"
    and c: "matchRaidGroups (WriteCacheRaidGroups newP) (WriteCacheRaidGroups oldP) = Ok cachePairs"
    and k: "kindsLoop E s pOps (commonMap oldP dataPairs cachePairs) [] (rangeCheck E) = Ok m"
    by blast
  have dist: "\<forall>rg \<in> set (DataRaidGroups oldP) \<union> set (DataRaidGroups newP). distinct (rgBDNames rg)"
      "\<forall>rg \<in> set (WriteCacheRaidGroups oldP) \<union> set (WriteCacheRaidGroups newP). distinct (rgBDNames rg)"
    using assms(3,4) distinct_pool_groups by (metis Un_iff)+
  from kindsLoop_kind [OF k, of dataRG] assms(2) obtain m1 m2 where
    gd: "groupChangesLoop E s pOps (DataRaidGroupType (poolConfig oldP)) m1 dataPairs = Ok m2" by auto
  from kindsLoop_kind [OF k, of writeCacheRG] assms(2) obtain m3 m4 where
    gc: "groupChangesLoop E s pOps (WriteCacheGroupType (poolConfig oldP)) m3 cachePairs = Ok m4" by auto
  show ?thesis
    unfolding poolChangeOk_def
    using ty [symmetric] accepted_groups [OF d gd dist(1)] accepted_groups [OF c gc dist(2)] by blast
qed

lemma commonByNode_mem: "commonByNode E s n pools = Ok (Some p) \<Longrightarrow> p \<in> set pools"
  by (induction pools) (auto simp: bindR_Ok_iff split: if_splits)

lemma commonPoolLoop_mem:
  "commonPoolLoop E s new old = Ok pairs \<Longrightarrow> (op, np) \<in> set pairs \<Longrightarrow> op \<in> set old \<and> np \<in> set new"
  by (induction old arbitrary: pairs)
    (auto simp: bindR_Ok_iff dest: commonByNode_mem find_mem split: if_splits option.splits)

lemma pool_distinct: "distinct (cspcBDNames c) \<Longrightarrow> p \<in> set (Pools (cspc_Spec c)) \<Longrightarrow> distinct (poolBDNames p)"
  by (auto simp: cspcBDNames_def distinct_concat_iff)

lemma ValidateSpecChanges_safe:
  assumes "ValidateSpecChanges E pOps pairs s = (Ok u, s')" and "(op, np) \<in> set pairs" and "op \<noteq> np"
    and "set (rangeCheck E) = {dataRG, writeCacheRG}"
    and "distinct (poolBDNames op)" and "distinct (poolBDNames np)"
  shows "poolChangeOk op np"
proof -
  from checkAllS_Ok_each [OF assms(1) [unfolded ValidateSpecChanges_def] assms(2)] assms(3)
  obtain t t' where "ArePoolSpecChangesValid E pOps op np t = (Ok (), t')" by auto
  with assms(4-6) show ?thesis by (blast intro: ArePoolSpecChangesValid_safe)
qed

lemma removedPoolsLoop_mem:
  assumes "removedPoolsLoop E s pOps pools = Ok names" and "p \<in> set pools"
    and "NodeSelector p \<notin> NodeSelector ` set (Pools (cspc_Spec (NewCSPC pOps)))" and "IsScaledownCase pOps p"
  shows "\<exists>host cspi rest. (if mhas (NodeSelector p) HostNameLabelKey then host = mget (NodeSelector p) HostNameLabelKey
         else GetHostNameFromLabelSelector E s (NodeSelector p) = Ok host)
     \<and> cspi_list E s (Namespace (OldCSPC pOps))
             (labelSetString E [(CStorPoolClusterLabelKey, Name (OldCSPC pOps)), (HostNameLabelKey, host)]) = Ok (cspi # rest)
     \<and> Name cspi \<in> set names"
  using assms(1,2)
proof (induction pools arbitrary: names)
  case Nil
  then show ?case by simp
next
  case (Cons q pools)
  show ?case
  proof (cases "p = q")
    case True
    with Cons.prems(1) assms(3,4) show ?thesis
      by (auto simp: Let_def bindR_Ok_iff list_ex_iff image_iff list_case_Ok split: res.splits if_splits)
  next
    case False
    with Cons.prems obtain names' where "removedPoolsLoop E s pOps pools = Ok names'" and "\<forall>n \<in> set names'. n \<in> set names"
      by (auto simp: Let_def bindR_Ok_iff list_case_Ok split: if_splits)
    with Cons.IH False Cons.prems(2) show ?thesis by fastforce
  qed
qed

lemma ValidateScaledown_safe:
  assumes "ValidateScaledown E s pOps = Ok u" and "poolRemoved pOps p"
  shows "poolRemovalOk E s pOps p"
proof -
  from assms(1) obtain names where r: "removedPoolsLoop E s pOps (Pools (cspc_Spec (OldCSPC pOps))) = Ok names"
    and cvr: "\<forall>n \<in> set names. cvr_list E s (Namespace (OldCSPC pOps)) (CStorPoolInstanceNameLabelKey E @ ''='' @ n) = Ok []"
    by (auto simp: ValidateScaledown_def bindR_Ok_iff checkAll_Ok_iff) 
  from assms(2) removedPoolsLoop_mem [OF r] cvr show ?thesis
    unfolding poolRemovalOk_def poolRemoved_def by metis
qed

section \<open>The claims a replacement looks at\<close>

text \<open>
  The conditions of an accepted replacement, on the devices and claims themselves.
\<close>

definition claimsOf :: "BlockDeviceClaim list \<Rightarrow> string \<Rightarrow> BlockDeviceClaim list" where
  "claimsOf claims b = filter (\<lambda>c. bdc_BlockDeviceName c = b) claims"

definition replacementAdmissible ::
    "'s env \<Rightarrow> 's \<Rightarrow> CStorPoolCluster \<Rightarrow> RaidGroup \<Rightarrow> RaidGroup \<Rightarrow> string \<Rightarrow> bool" where
  "replacementAdmissible E s old newRG oldRG t \<longleftrightarrow>
     (\<exists>claims nb ob.
        let newBD = fst (GetNewBDFromRaidGroups newRG oldRG); oldBD = snd (GetNewBDFromRaidGroups newRG oldRG) in
        bdc_list E s (Namespace old) '''' = Ok claims
        \<and> t \<noteq> PoolStriped \<and> length (filter (\<lambda>b. b \<notin> set (rgBDNames oldRG)) (rgBDNames newRG)) \<le> 1
        \<and> newBD \<notin> set (cspcBDNames old)
        \<and> (\<forall>b \<in> set (newBD # rgBDNames oldRG @ cspcBDNames old). length (claimsOf claims b) \<le> 1)
        \<and> (\<forall>b \<in> set (rgBDNames oldRG). \<forall>c \<in> set (claimsOf claims b). \<not> mhas (Annotations c) PredecessorBDLabelKey)
        \<and> (\<forall>c \<in> set (claimsOf claims newBD). mget (Labels c) CStorPoolClusterLabelKey = Name old)
        \<and> (\<forall>b \<in> set (cspcBDNames old). \<forall>c \<in> set (claimsOf claims b). mget (Annotations c) PredecessorBDLabelKey \<noteq> newBD)
        \<and> bd_get E s (Namespace old) newBD = Ok nb \<and> bd_get E s (Namespace old) oldBD = Ok ob
        \<and> bd_CapacityStorage ob \<le> bd_CapacityStorage nb)"

lemma GetBDCOfBD_Ok:
  "GetBDCOfBD E s pOps b = Ok r \<longleftrightarrow>
   (\<exists>claims. bdc_list E s (Namespace (OldCSPC pOps)) '''' = Ok claims \<and> length (claimsOf claims b) \<le> 1
      \<and> set_option r = set (claimsOf claims b))"
proof -
  have "(let cs = claimsOf claims b in if length cs = 0 then Ok None else if length cs \<noteq> 1 then Err e else Ok (Some (hd cs))) = Ok r
     \<longleftrightarrow> length (claimsOf claims b) \<le> 1 \<and> set_option r = set (claimsOf claims b)" for claims e
    by (cases "claimsOf claims b"; cases r) (auto simp: Let_def)
  then show ?thesis by (auto simp: GetBDCOfBD_def bindR_Ok_iff claimsOf_def Let_def)
qed

lemma predecessorLoop_Ok:
  "predecessorLoop E s pOps bs = Ok keys \<Longrightarrow> bdc_list E s (Namespace (OldCSPC pOps)) '''' = Ok claims \<Longrightarrow>
   (\<forall>b \<in> set bs. length (claimsOf claims b) \<le> 1)
   \<and> set keys = (\<Union>b \<in> set bs. (\<lambda>c. mget (Annotations c) PredecessorBDLabelKey) ` set (claimsOf claims b))"
proof (induction bs arbitrary: keys)
  case Nil
  then show ?case by simp
next
  case (Cons b bs)
  from Cons.prems(1) obtain r rest where r: "GetBDCOfBD E s pOps b = Ok r" and rest: "predecessorLoop E s pOps bs = Ok rest"
    and k: "keys = (case r of None \<Rightarrow> rest | Some c \<Rightarrow> mget (Annotations c) PredecessorBDLabelKey # rest)"
    by (auto simp: bindR_Ok_iff)
  from r Cons.prems(2) have "length (claimsOf claims b) \<le> 1" and "set (claimsOf claims b) = set_option r"
    by (auto simp: GetBDCOfBD_Ok)
  with Cons.IH [OF rest Cons.prems(2)] k show ?case by (cases r) auto
qed

lemma predecessorLoop_total:
  "bdc_list E s (Namespace (OldCSPC pOps)) '''' = Ok claims \<Longrightarrow> \<forall>b \<in> set bs. length (claimsOf claims b) \<le> 1 \<Longrightarrow>
   \<exists>keys. predecessorLoop E s pOps bs = Ok keys"
proof (induction bs)
  case Nil
  then show ?case by simp
next
  case (Cons b bs)
  have "\<exists>r. set_option r = set (claimsOf claims b)"
    using Cons.prems(2) by (cases "claimsOf claims b") (auto intro: exI [of _ None] exI [of _ "Some _"])
  with Cons.prems have "\<exists>r. GetBDCOfBD E s pOps b = Ok r" by (auto simp: GetBDCOfBD_Ok)
  with Cons show ?case by auto
qed

lemma IsBDValid_Ok:
  assumes cl: "bdc_list E s (Namespace (OldCSPC pOps)) '''' = Ok claims"
  shows "IsBDValid E s pOps b r old = Ok True \<longleftrightarrow>
     (\<forall>c. r = Some c \<longrightarrow> mget (Labels c) CStorPoolClusterLabelKey = Name old)
     \<and> (\<forall>d \<in> set (cspcBDNames old). length (claimsOf claims d) \<le> 1)
     \<and> (\<forall>d \<in> set (cspcBDNames old). \<forall>c \<in> set (claimsOf claims d). mget (Annotations c) PredecessorBDLabelKey \<noteq> b)"
proof -
  have "IsBDValid E s pOps b r old = Ok True \<longleftrightarrow>
      (\<forall>c. r = Some c \<longrightarrow> mget (Labels c) CStorPoolClusterLabelKey = Name old)
      \<and> (\<exists>keys. predecessorLoop E s pOps (cspcBDNames old) = Ok keys \<and> b \<notin> set keys)"
    by (auto simp: IsBDValid_def GetPredecessorBDIfAny_def split: option.splits res.splits)
  also have "(\<exists>keys. predecessorLoop E s pOps (cspcBDNames old) = Ok keys \<and> b \<notin> set keys) \<longleftrightarrow>
      (\<forall>d \<in> set (cspcBDNames old). length (claimsOf claims d) \<le> 1)
      \<and> (\<forall>d \<in> set (cspcBDNames old). \<forall>c \<in> set (claimsOf claims d). mget (Annotations c) PredecessorBDLabelKey \<noteq> b)"
    using predecessorLoop_Ok [OF _ cl] predecessorLoop_total [OF cl] by (fastforce simp: image_iff)
  finally show ?thesis .
qed

lemma IsExisting_Ok:
  assumes "bdc_list E s (Namespace (OldCSPC pOps)) '''' = Ok claims"
  shows "IsExistingReplacmentInProgress E s pOps rg = Ok () \<longleftrightarrow>
     (\<forall>b \<in> set (rgBDNames rg). length (claimsOf claims b) \<le> 1
        \<and> (\<forall>c \<in> set (claimsOf claims b). \<not> mhas (Annotations c) PredecessorBDLabelKey))"
proof -
  have "(\<exists>r. GetBDCOfBD E s pOps b = Ok r \<and> (\<forall>c. r = Some c \<longrightarrow> P c)) \<longleftrightarrow>
      length (claimsOf claims b) \<le> 1 \<and> (\<forall>c \<in> set (claimsOf claims b). P c)" for b P
  proof -
    have "(\<exists>r. set_option r = set cs \<and> (\<forall>c. r = Some c \<longrightarrow> P c)) \<longleftrightarrow> (\<forall>c \<in> set cs. P c)"
      if "length cs \<le> 1" for cs :: "BlockDeviceClaim list"
      using that by (cases cs) (auto intro: exI [of _ None] exI [of _ "Some _"])
    with assms show ?thesis by (auto simp: GetBDCOfBD_Ok)
  qed
  then show ?thesis by (simp add: IsExistingReplacment_iff)
qed

section \<open>What the webhook writes\<close>

lemma ClaimBD_keeps:
  assumes create: "\<And>s ns c. I s \<Longrightarrow> mhas (Annotations c) PredecessorBDLabelKey \<Longrightarrow> I (snd (bdc_create E s ns c))"
    and update: "\<And>s ns c. I s \<Longrightarrow> mhas (Annotations c) PredecessorBDLabelKey \<Longrightarrow> I (snd (bdc_update E s ns c))"
  shows "keeps I (ClaimBD E pOps bd oldBD)"
proof (rule keepsI)
  fix s
  assume "I s"
  have new: "mhas (Annotations ((newReplacementBDC pOps bd oldBD cap)\<lparr>Finalizers := fs\<rparr>)) PredecessorBDLabelKey" for cap fs
    by (simp add: newReplacementBDC_def mhas_def)
  show "I (snd (ClaimBD E pOps bd oldBD s))"
    using \<open>I s\<close> create [OF _ new] update
    by (auto simp: ClaimBD_def Let_def split: res.splits prod.splits) (metis snd_conv)
qed

lemma validateCSPC_keeps:
  assumes create: "\<And>s ns c. I s \<Longrightarrow> mhas (Annotations c) PredecessorBDLabelKey \<Longrightarrow> I (snd (bdc_create E s ns c))"
    and update: "\<And>s ns c. I s \<Longrightarrow> mhas (Annotations c) PredecessorBDLabelKey \<Longrightarrow> I (snd (bdc_update E s ns c))"
  shows "keeps I (validateCSPC E req)"
proof -
  have claim: "keeps I (createBDC E pOps newBD oldBD)" for pOps newBD oldBD
  proof -
    have "createBDC E pOps newBD oldBD =
        bindS (readS (\<lambda>s. bd_get E s (Namespace (OldCSPC pOps)) newBD)) (\<lambda>bd. ClaimBD E pOps bd oldBD)"
      by (rule ext) (simp add: createBDC_def bindS_def)
    with ClaimBD_keeps [OF create update] show ?thesis by (simp add: keeps_intros)
  qed
  have pool: "keeps I (ArePoolSpecChangesValid E pOps p q)" for pOps p q
  proof (rule keepsI)
    fix s assume "I s"
    moreover have "keeps I (checkAllS (\<lambda>(n, b). createBDC E pOps n b) xs)" for xs
      using claim by (intro keeps_checkAllS) (auto split: prod.splits)
    ultimately show "I (snd (ArePoolSpecChangesValid E pOps p q s))"
      by (auto simp: ArePoolSpecChangesValid_def Let_def keepsD split: res.splits)
  qed
  have pools: "keeps I (ValidateSpecChanges E pOps ps)" for pOps ps
    unfolding ValidateSpecChanges_def
  proof (intro keeps_checkAllS)
    fix pq :: "PoolSpec \<times> PoolSpec"
    show "keeps I (case pq of (p, q) \<Rightarrow> \<lambda>s. if p = q then (Ok (), s) else ArePoolSpecChangesValid E pOps p q s)"
      using pool by (cases pq) (simp add: keeps_def)
  qed
  show ?thesis
  proof (rule keepsI)
    fix s
    assume "I s"
    then have "I (snd (ValidateSpecChanges E pOps ps s))" for pOps ps by (rule keepsD [OF pools])
    then have "ValidateSpecChanges E pOps ps s = (r, s') \<Longrightarrow> I s'" for pOps ps r s' by (metis snd_conv)
    with \<open>I s\<close> show "I (snd (validateCSPC E req s))"
      by (auto simp: validateCSPC_def validateCSPCUpdateRequest_def Let_def split: Operation.splits res.splits prod.splits)
  qed
qed

section \<open>Properties of the update request\<close>

text \<open>
  C1. An allowed update that changes the spec leaves a cluster that a create request would admit,
  removes only pools whose instance is listed and holds no volume replica, and changes a common
  pool only within the contract: same raid type, no group dropped, stripes only grow, any other
  group keeps its size with at most one device exchanged. The old cluster is assumed to name no
  device twice, as every admitted cluster does, and the loop over the map of raid groups to visit
  both of its keys.
\<close>

theorem update_admits_only_safe_changes:
  assumes "validateCSPC E req s = (Ok r, s')" and "Allowed r" and "req_Operation req = Update"
    and "req_CSPC req = Ok new" and "cspc_get E s (Namespace new) (Name new) = Ok old"
    and "cspc_Spec new \<noteq> cspc_Spec old" and "distinct (cspcBDNames old)"
    and "set (rangeCheck E) = {dataRG, writeCacheRG}"
  shows "cspcAdmissible E s new
     \<and> (\<forall>p. poolRemoved \<lparr>OldCSPC = old, NewCSPC = new\<rparr> p \<longrightarrow> poolRemovalOk E s \<lparr>OldCSPC = old, NewCSPC = new\<rparr> p)
     \<and> (\<exists>pairs. getCommonPoolSpecs E s new old = Ok pairs
          \<and> (\<forall>(oldP, newP) \<in> set pairs. oldP = newP \<or> poolChangeOk oldP newP))"
proof -
  let ?o = "\<lparr>OldCSPC = old, NewCSPC = new\<rparr>"
  from assms(1-6) obtain pairs where v: "cspcValidation E s new = Ok ()" and sd: "ValidateScaledown E s ?o = Ok ()"
    and c: "getCommonPoolSpecs E s new old = Ok pairs" and ch: "ValidateSpecChanges E ?o pairs s = (Ok (), s')"
    by (auto simp: validateCSPC_def validateCSPCUpdateRequest_def Let_def split: res.splits prod.splits if_splits)
  from v have adm: "cspcAdmissible E s new" by (simp add: cspcValidation_iff)
  then have dn: "distinct (cspcBDNames new)" by (simp add: cspcAdmissible_def)
  have "oldP = newP \<or> poolChangeOk oldP newP" if m: "(oldP, newP) \<in> set pairs" for oldP newP
  proof -
    from commonPoolLoop_mem [OF c [unfolded getCommonPoolSpecs_def] m] assms(7) dn
    have "distinct (poolBDNames oldP)" and "distinct (poolBDNames newP)" by (auto intro: pool_distinct)
    with ValidateSpecChanges_safe [OF ch m] assms(8) show ?thesis by blast
  qed
  with adm c ValidateScaledown_safe [OF sd] show ?thesis by blast
qed

definition sampleNew :: CStorPoolCluster where
  "sampleNew = sampleCSPC ''c1'' [samplePool ''n1'' ''mirror'' [[''a1'', ''a3'']]]"

definition sampleOld :: CStorPoolCluster where
  "sampleOld = sampleCSPC ''c1'' [samplePool ''n1'' ''mirror'' [[''a1'', ''a2'']]]"

theorem update_admits_only_safe_changes_witness:
  "cspcAdmissible sampleEnv sampleStore sampleNew
   \<and> (\<exists>pairs. getCommonPoolSpecs sampleEnv sampleStore sampleNew sampleOld = Ok pairs
        \<and> list_all (\<lambda>(oldP, newP). oldP = newP \<or> poolChangeOk oldP newP) pairs)"
proof -
  let ?v = "validateCSPC sampleEnv (sampleRequest Update sampleNew) sampleStore"
  have v: "fst ?v = Ok accepted" by code_simp
  have r: "req_Operation (sampleRequest Update sampleNew) = Update" "req_CSPC (sampleRequest Update sampleNew) = Ok sampleNew"
    by (simp_all add: sampleRequest_def)
  have g: "cspc_get sampleEnv sampleStore (Namespace sampleNew) (Name sampleNew) = Ok sampleOld" by code_simp
  have d: "cspc_Spec sampleNew \<noteq> cspc_Spec sampleOld" "distinct (cspcBDNames sampleOld)" by code_simp+
  have k: "set (rangeCheck sampleEnv) = {dataRG, writeCacheRG}" by (simp add: sampleEnv_def dataRG_def writeCacheRG_def)
  from v have e: "?v = (Ok accepted, snd ?v)" by (metis prod.collapse)
  from update_admits_only_safe_changes [OF e accepted_Allowed r g d k] show ?thesis
    unfolding list_all_iff by blast
qed

text \<open>
  C8. A replacement in a raid group is accepted exactly when the group is not a stripe, at most
  one device is new, the new device is in no pool of the cluster, every device concerned has at
  most one claim, no replacement is running in the group, the new device's claim, if any, belongs
  to the cluster, the new device is not the predecessor in a running replacement, and its
  capacity, compared as 64-bit words, is at least that of the old device.
\<close>

theorem replacement_admits_exactly:
  "IsBDReplacementValid E s \<lparr>OldCSPC = old, NewCSPC = new\<rparr> newRG oldRG t = Ok () \<longleftrightarrow>
   replacementAdmissible E s old newRG oldRG t"
proof (cases "bdc_list E s (Namespace old) ''''")
  case (Ok claims)
  let ?o = "\<lparr>OldCSPC = old, NewCSPC = new\<rparr>"
  obtain newBD oldBD where g: "GetNewBDFromRaidGroups newRG oldRG = (newBD, oldBD)" by (cases "GetNewBDFromRaidGroups newRG oldRG")
  from Ok have cl: "bdc_list E s (Namespace (OldCSPC ?o)) '''' = Ok claims" by simp
  have new: "(\<exists>r. GetBDCOfBD E s ?o newBD = Ok r \<and> IsBDValid E s ?o newBD r old = Ok True) \<longleftrightarrow>
     length (claimsOf claims newBD) \<le> 1
     \<and> (\<forall>c \<in> set (claimsOf claims newBD). mget (Labels c) CStorPoolClusterLabelKey = Name old)
     \<and> (\<forall>d \<in> set (cspcBDNames old). length (claimsOf claims d) \<le> 1)
     \<and> (\<forall>d \<in> set (cspcBDNames old). \<forall>c \<in> set (claimsOf claims d). mget (Annotations c) PredecessorBDLabelKey \<noteq> newBD)"
    unfolding GetBDCOfBD_Ok IsBDValid_Ok [OF cl] using Ok
    by (cases "claimsOf claims newBD") (auto intro: exI [of _ None] exI [of _ "Some _"])
  show ?thesis
    unfolding IsBDReplacementValid_iff replacementAdmissible_def g IsExisting_Ok [OF cl]
    using new Ok by (auto simp: Let_def GetNumberOfDiskReplaced_def)
next
  case (Err e)
  then show ?thesis
    by (auto simp: IsBDReplacementValid_iff replacementAdmissible_def GetBDCOfBD_Ok Let_def split: prod.splits)
next
  case (Panic m)
  then show ?thesis
    by (auto simp: IsBDReplacementValid_iff replacementAdmissible_def GetBDCOfBD_Ok Let_def split: prod.splits)
qed

text \<open>
  C33. Whatever a request to validate a cluster is answered, the only writes it makes are
  creations and updates of block device claims that carry the predecessor annotation: an
  invariant that those keep is kept by the whole handler.
\<close>

theorem webhook_writes_only_replacement_claims:
  assumes "\<And>s ns c. I s \<Longrightarrow> mhas (Annotations c) PredecessorBDLabelKey \<Longrightarrow> I (snd (bdc_create E s ns c))"
    and "\<And>s ns c. I s \<Longrightarrow> mhas (Annotations c) PredecessorBDLabelKey \<Longrightarrow> I (snd (bdc_update E s ns c))"
    and "I s"
  shows "I (snd (validateCSPC E req s))"
  using validateCSPC_keeps [of I E req] assms by (blast intro: keepsD)

text \<open>The writes of the sample server to claims change nothing else.\<close>

lemma sample_claim_writes:
  "P (st_cspis s) \<Longrightarrow> P (st_cspis (snd (bdc_create sampleEnv s ns c)))"
  "P (st_cspis s) \<Longrightarrow> P (st_cspis (snd (bdc_update sampleEnv s ns c)))"
  by (auto simp: sampleEnv_def storeWith_def split: res.splits)

theorem webhook_writes_only_replacement_claims_witness:
  "st_cspis (snd (validateCSPC sampleEnv (sampleRequest Update sampleNew) sampleStore)) = st_cspis sampleStore"
  by (rule webhook_writes_only_replacement_claims [where I = "\<lambda>s. st_cspis s = st_cspis sampleStore"])
    (auto intro: sample_claim_writes)

text \<open>
  When the loop over the raid groups visits the data groups before the write cache groups, and
  the pool is no stripe, the new devices of added data groups are not validated at all: the list
  is overwritten with the devices of added write cache groups, which is all that decides.
\<close>

theorem expansion_forgets_data_groups:
  assumes "rangeExpand E = [dataRG, writeCacheRG]"
    and "rgType (common dataRG) \<noteq> PoolStriped" and "rgType (common writeCacheRG) \<noteq> PoolStriped"
  shows "validatePoolExpansion E s pOps newP common =
     validateNewBDs E s pOps (getBDsFromRaidGroups
       (getExpandedRaidGroups (WriteCacheRaidGroups newP) (map fst (rgPairs (common writeCacheRG))))) (OldCSPC pOps)"
  using assms by (simp add: validatePoolExpansion_def expansion_data_then_cache)

theorem expansion_forgets_data_groups_witness:
  "validatePoolExpansion sampleEnv sampleStore \<lparr>OldCSPC = sampleOld, NewCSPC = sampleNew\<rparr>
     (samplePool ''n1'' ''mirror'' [[''a1'', ''a2''], [''x'', ''x'']])
     (commonMap (hd (Pools (cspc_Spec sampleOld))) [(sampleGroup [''a1'', ''a2''], sampleGroup [''a1'', ''a2''])] []) = Ok ()"
proof -
  let ?c = "commonMap (hd (Pools (cspc_Spec sampleOld))) [(sampleGroup [''a1'', ''a2''], sampleGroup [''a1'', ''a2''])] []"
  have "rangeExpand sampleEnv = [dataRG, writeCacheRG]" "rgType (?c dataRG) \<noteq> PoolStriped"
    "rgType (?c writeCacheRG) \<noteq> PoolStriped" by code_simp+
  then show ?thesis
    by (subst expansion_forgets_data_groups) (simp_all add: samplePool_def getExpandedRaidGroups_def
        getBDsFromRaidGroups_def validateNewBDs_def)
qed

lemma commonByNode_mismatch:
  "\<forall>p \<in> set pools. \<exists>h. GetHostNameFromLabelSelector E s (NodeSelector p) = Ok h \<and> h \<noteq> n \<Longrightarrow>
   commonByNode E s n pools = Ok None"
  by (induction pools) auto

text \<open>
  Matching of pools compares the metadata name of the old pool's node with the host name
  label of the new pool's node: when they differ for every new pool, the old pool has no
  counterpart and its changes are not validated.
\<close>

theorem host_name_mismatch_skips_validation:
  assumes "getLabelSelectorString (mapOrder E (NodeSelector oldP)) = Ok sel" and "node_list E s sel = Ok [node]"
    and "\<forall>p \<in> set newPools. \<exists>h. GetHostNameFromLabelSelector E s (NodeSelector p) = Ok h \<and> h \<noteq> Name node"
  shows "commonPoolLoop E s newPools (oldP # rest) = commonPoolLoop E s newPools rest"
  using assms commonByNode_mismatch [of newPools E s "Name node"]
  by (cases "commonPoolLoop E s newPools rest") auto

text \<open>Node \<open>ip-1\<close> has the host name \<open>n1\<close>; an update that exchanges both devices of a mirror passes.\<close>

definition renamedStore :: store where
  "renamedStore = sampleStore\<lparr>st_nodes := [sampleMeta ''ip-1'' [(HostNameLabelKey, ''n1'')]]\<rparr>"

definition swappedCSPC :: CStorPoolCluster where
  "swappedCSPC = sampleCSPC ''c1'' [samplePool ''n1'' ''mirror'' [[''a3'', ''a4'']]]"

theorem host_name_mismatch_skips_validation_witness:
  "fst (validateCSPC sampleEnv (sampleRequest Update swappedCSPC) renamedStore) = Ok accepted
   \<and> commonPoolLoop sampleEnv renamedStore (Pools (cspc_Spec swappedCSPC)) (Pools (cspc_Spec sampleOld)) = Ok []"
proof
  show "fst (validateCSPC sampleEnv (sampleRequest Update swappedCSPC) renamedStore) = Ok accepted" by code_simp
  have s: "getLabelSelectorString (mapOrder sampleEnv (NodeSelector (hd (Pools (cspc_Spec sampleOld))))) =
      Ok ''kubernetes.io/hostname=n1''" by code_simp
  have n: "node_list sampleEnv renamedStore ''kubernetes.io/hostname=n1'' = Ok [sampleMeta ''ip-1'' [(HostNameLabelKey, ''n1'')]]"
    by code_simp
  have pools: "Pools (cspc_Spec swappedCSPC) = [samplePool ''n1'' ''mirror'' [[''a3'', ''a4'']]]" by code_simp
  have new: "GetHostNameFromLabelSelector sampleEnv renamedStore (NodeSelector (samplePool ''n1'' ''mirror'' [[''a3'', ''a4'']])) = Ok ''n1''"
    by code_simp
  have ne: "''n1'' \<noteq> Name (sampleMeta ''ip-1'' [(HostNameLabelKey, ''n1'')])" by code_simp
  have h: "\<forall>p \<in> set (Pools (cspc_Spec swappedCSPC)).
      \<exists>h. GetHostNameFromLabelSelector sampleEnv renamedStore (NodeSelector p) = Ok h
        \<and> h \<noteq> Name (sampleMeta ''ip-1'' [(HostNameLabelKey, ''n1'')])"
    unfolding pools using new ne by simp
  have p: "Pools (cspc_Spec sampleOld) = [hd (Pools (cspc_Spec sampleOld))]" by code_simp
  show "commonPoolLoop sampleEnv renamedStore (Pools (cspc_Spec swappedCSPC)) (Pools (cspc_Spec sampleOld)) = Ok []"
    by (subst p, subst host_name_mismatch_skips_validation [OF s n h]) simp
qed

text \<open>
  Removing a pool for which no instance is listed makes the webhook panic: the first element
  of the empty list is read.
\<close>

theorem scaledown_panics_without_instance:
  assumes "Pools (cspc_Spec (OldCSPC pOps)) = p # ps" and "poolRemoved pOps p"
    and "mhas (NodeSelector p) HostNameLabelKey"
    and "cspi_list E s (Namespace (OldCSPC pOps)) (labelSetString E
           [(CStorPoolClusterLabelKey, Name (OldCSPC pOps)),
            (HostNameLabelKey, mget (NodeSelector p) HostNameLabelKey)]) = Ok []"
  shows "ValidateScaledown E s pOps = Panic ''index out of range''"
  using assms by (auto simp: ValidateScaledown_def poolRemoved_def list_ex_iff image_iff Let_def)

theorem scaledown_panics_without_instance_witness:
  "ValidateScaledown sampleEnv (sampleStore\<lparr>st_cspis := []\<rparr>)
     \<lparr>OldCSPC = sampleOld, NewCSPC = sampleCSPC ''c1'' [samplePool ''n2'' ''mirror'' [[''b1'', ''b2'']]]\<rparr>
   = Panic ''index out of range''"
proof (rule scaledown_panics_without_instance)
  let ?o = "\<lparr>OldCSPC = sampleOld, NewCSPC = sampleCSPC ''c1'' [samplePool ''n2'' ''mirror'' [[''b1'', ''b2'']]]\<rparr>"
  let ?p = "samplePool ''n1'' ''mirror'' [[''a1'', ''a2'']]"
  show "Pools (cspc_Spec (OldCSPC ?o)) = ?p # []" by code_simp
  show "poolRemoved ?o ?p" unfolding poolRemoved_def by (intro conjI) code_simp+
  show "mhas (NodeSelector ?p) HostNameLabelKey" by code_simp
  show "cspi_list sampleEnv (sampleStore\<lparr>st_cspis := []\<rparr>) (Namespace (OldCSPC ?o)) (labelSetString sampleEnv
           [(CStorPoolClusterLabelKey, Name (OldCSPC ?o)),
            (HostNameLabelKey, mget (NodeSelector ?p) HostNameLabelKey)]) = Ok []" by code_simp
qed

end
