(* ===== verification/PoolAlgorithm.thy ===== *)
theory PoolAlgorithm
  imports CspcPoolOps
begin

text \<open>
  Choosing a node for a new pool and claiming its block devices:
  \<open>src/pkg/cspc/algorithm/config.go\<close>, \<open>select_node.go\<close> and \<open>build_csp.go\<close>. The config
  object is passed and returned where a call changes its \<open>VisitedNodes\<close>.
\<close>

section \<open>The config object and its builder\<close>

record Config =
  ac_CSPC :: CStorPoolCluster
  ac_Namespace :: string
  VisitedNodes :: "string list"

record ConfigBuilder =
  ConfigObj :: Config
  cb_errs :: "goerr list"

definition cb_WithNameSpace :: "string \<Rightarrow> ConfigBuilder \<Rightarrow> ConfigBuilder" where
  "cb_WithNameSpace ns b =
     (if length ns = 0
      then b\<lparr>cb_errs := cb_errs b @ [Errorf ''failed to build algorithm config object: missing namespace'' []]\<rparr>
      else b\<lparr>ConfigObj := (ConfigObj b)\<lparr>ac_Namespace := ns\<rparr>\<rparr>)"

definition cb_WithCSPC :: "CStorPoolCluster option \<Rightarrow> ConfigBuilder \<Rightarrow> ConfigBuilder" where
  "cb_WithCSPC cspc b =
     (case cspc of
        None \<Rightarrow> b\<lparr>cb_errs := cb_errs b @ [Errorf ''failed to build algorithm config object: nil cspc object'' []]\<rparr>
      | Some c \<Rightarrow> b\<lparr>ConfigObj := (ConfigObj b)\<lparr>ac_CSPC := c\<rparr>\<rparr>)"

definition cb_Build :: "ConfigBuilder \<Rightarrow> Config res" where
  "cb_Build b = (if length (cb_errs b) > 0 then Err (Errorf ''%+v'' [AEs (cb_errs b)]) else Ok (ConfigObj b))"

section \<open>Selecting a node\<close>

definition ac_getLabelSelectorString :: "gomap \<Rightarrow> string res" where
  "ac_getLabelSelectorString selector =
     (let s = concat (map (\<lambda>(key, value). key @ ''='' @ value @ '','') selector)
      in if s = [] then Panic ''slice bounds out of range'' else Ok (butlast s))"

definition GetNodeFromLabelSelector :: "'s env \<Rightarrow> 's \<Rightarrow> gomap \<Rightarrow> string res" where
  "GetNodeFromLabelSelector E s labels =
     bindR (ac_getLabelSelectorString (mapOrder E labels)) (\<lambda>sel.
     bindR (wrapR (node_list E s sel) ''failed to get node list from the node selector'' []) (\<lambda>nodes.
       if length nodes \<noteq> 1
       then Err (Errorf ''invalid no.of nodes %d from the given node selectors'' [AI (int (length nodes))])
       else Ok (mget (Labels (hd nodes)) HostNameLabelKey)))"

definition clusterSelector :: "string \<Rightarrow> string" where
  "clusterSelector cspcName = CStorPoolClusterLabelKey @ ''='' @ cspcName"

definition GetUsedNodes :: "'s env \<Rightarrow> 's \<Rightarrow> Config \<Rightarrow> string list res" where
  "GetUsedNodes E s ac =
     bindR (wrapR (cspi_list E s (ac_Namespace ac) (clusterSelector (Name (ac_CSPC ac))))
              ''could not list already created cspi(s)'' []) (\<lambda>cspis.
       Ok (map (\<lambda>cspi. mget (Labels cspi) HostNameLabelKey) cspis))"

definition GetUsedBlockDevices :: "'s env \<Rightarrow> 's \<Rightarrow> Config \<Rightarrow> string list res" where
  "GetUsedBlockDevices E s ac =
     bindR (wrapR (cspi_list E s (ac_Namespace ac) (clusterSelector (Name (ac_CSPC ac))))
              ''could not list already provisioned cspi(s)'' []) (\<lambda>cspis.
       Ok (concat (map (\<lambda>cspi. poolBDNames (cspi_Spec cspi)) cspis)))"

definition GetBDListForNode :: "PoolSpec \<Rightarrow> string list" where
  "GetBDListForNode pool = concat (map rgBDNames (DataRaidGroups pool @ WriteCacheRaidGroups pool))"

text \<open>
  The loop over the pools of the cluster, with the visited nodes. When the node's host name
  label is empty the source logs \<open>err.Error()\<close> of a nil error.
\<close>

fun selectLoop ::
    "'s env \<Rightarrow> 's \<Rightarrow> string list \<Rightarrow> string list \<Rightarrow> string list \<Rightarrow> PoolSpec list \<Rightarrow> (PoolSpec \<times> string) res \<times> string list" where
  "selectLoop E s usedNodes usedBlockDevices visited [] =
     (Err (Errorf ''no node qualified for pool creation'' []), visited)"
| "selectLoop E s usedNodes usedBlockDevices visited (pool # pools) =
     (case GetNodeFromLabelSelector E s (NodeSelector pool) of
        Panic m \<Rightarrow> (Panic m, visited)
      | Err e \<Rightarrow> selectLoop E s usedNodes usedBlockDevices visited pools
      | Ok nodeName \<Rightarrow>
          if nodeName = '''' then (Panic ''invalid memory address or nil pointer dereference'', visited)
          else if nodeName \<in> set visited then selectLoop E s usedNodes usedBlockDevices visited pools
          else if list_ex (\<lambda>bd. bd \<in> set usedBlockDevices) (GetBDListForNode pool)
          then selectLoop E s usedNodes usedBlockDevices (nodeName # visited) pools
          else if nodeName \<notin> set usedNodes then (Ok (pool, nodeName), nodeName # visited)
          else selectLoop E s usedNodes usedBlockDevices (nodeName # visited) pools)"

definition SelectNode :: "'s env \<Rightarrow> 's \<Rightarrow> Config \<Rightarrow> (PoolSpec \<times> string) res \<times> Config" where
  "SelectNode E s ac =
     (case bindR (wrapR (GetUsedNodes E s ac) ''could not get used nodes list for pool creation'' []) (\<lambda>usedNodes.
           bindR (wrapR (GetUsedBlockDevices E s ac) ''could not get used blockdevice list for pool creation'' []) (\<lambda>usedBDs.
             Ok (usedNodes, usedBDs))) of
        Panic m \<Rightarrow> (Panic m, ac)
      | Err e \<Rightarrow> (Err e, ac)
      | Ok (usedNodes, usedBDs) \<Rightarrow>
          (case selectLoop E s usedNodes usedBDs (VisitedNodes ac) (Pools (cspc_Spec (ac_CSPC ac))) of
             (r, visited) \<Rightarrow> (r, ac\<lparr>VisitedNodes := visited\<rparr>)))"

section \<open>Claiming block devices\<close>

definition IsBlockDeviceClaimed :: "BlockDevice \<Rightarrow> bool" where
  "IsBlockDeviceClaimed bd = (bd_ClaimState bd = BlockDeviceClaimed)"

definition BDCHasLabel :: "string \<Rightarrow> string \<Rightarrow> BlockDeviceClaim \<Rightarrow> bool" where
  "BDCHasLabel labelKey labelValue bdc =
     (mhas (Labels bdc) labelKey \<and> mget (Labels bdc) labelKey = labelValue)"

definition IsClaimedBDUsable :: "'s env \<Rightarrow> 's \<Rightarrow> Config \<Rightarrow> BlockDevice \<Rightarrow> bool res" where
  "IsClaimedBDUsable E s ac bd =
     (if IsBlockDeviceClaimed bd
      then (case bd_ClaimRef bd of
              None \<Rightarrow> Err (Errorf ''nil claim reference found in bd'' [])
            | Some bdcName \<Rightarrow>
                bindR (wrapR (bdc_get E s (ac_Namespace ac) bdcName)
                         ''could not get block device claim for block device {%s}'' [AS (Name bd)]) (\<lambda>bdc.
                  Ok (BDCHasLabel CStorPoolClusterLabelKey (Name (ac_CSPC ac)) bdc)))
      else Err (Errorf ''block device {%s} is not claimed'' [AS (Name bd)]))"

definition GetCapacity :: "'s env \<Rightarrow> string \<Rightarrow> Quantity res" where
  "GetCapacity E capacity = quoteR (ParseQuantity E capacity) ''Failed to parse capacity:{%s}'' []"

definition ac_getAllowedTagMap :: "gomap \<Rightarrow> string list" where
  "ac_getAllowedTagMap cspcAnnotation =
     (let allowedTags = mget cspcAnnotation OpenEBSAllowedBDTagKey
      in if TrimSpace allowedTags = '''' then []
         else filter (\<lambda>v. TrimSpace v \<noteq> '''') (Split (CHR '','') allowedTags))"

definition GetCSPCOwnerReference :: "CStorPoolCluster \<Rightarrow> OwnerReference" where
  "GetCSPCOwnerReference cspc = \<lparr>or_Kind = ''CStorPoolCluster'', or_Name = Name cspc, or_UID = UID cspc\<rparr>"

definition newClaim :: "'s env \<Rightarrow> Config \<Rightarrow> BlockDevice \<Rightarrow> Quantity \<Rightarrow> BlockDeviceClaim" where
  "newClaim E ac bdObj capacity =
     \<lparr>Name = ''bdc-cstor-'' @ UID bdObj, Namespace = ac_Namespace ac, UID = '''',
      Labels = [(CStorPoolClusterLabelKey, Name (ac_CSPC ac))], Annotations = [],
      Finalizers = [CSPCFinalizer E], OwnerReferences = [GetCSPCOwnerReference (ac_CSPC ac)], DeletionTimestamp = None,
      bdc_BlockDeviceName = Name bdObj,
      bdc_HostName = mget (Labels bdObj) HostNameLabelKey,
      bdc_Capacity = capacity,
      bdc_Selector =
        (if mhas (Labels bdObj) BlockDeviceTagLabelKey
         then Some [(BlockDeviceTagLabelKey, mget (Labels bdObj) BlockDeviceTagLabelKey)] else None)\<rparr>"

definition ac_ClaimBD :: "'s env \<Rightarrow> Config \<Rightarrow> BlockDevice \<Rightarrow> 's \<Rightarrow> verdict \<times> 's" where
  "ac_ClaimBD E ac bdObj s =
     (let value = mget (Labels bdObj) BlockDeviceTagLabelKey;
          annotations = Annotations (ac_CSPC ac)
      in case bindR (ByteCount (bd_CapacityStorage bdObj)) (\<lambda>str.
              bindR (quoteR (GetCapacity E str) ''failed to get capacity from block device %s:%s'' [AS (Name bdObj)]) (\<lambda>resourceList.
                if mhas (Labels bdObj) BlockDeviceTagLabelKey \<and> TrimSpace value = ''''
                then Err (Errorf ''failed to create block device claim for bd {%s} as it has empty value for bd tag'' [AS (Name bdObj)])
                else if mhas (Labels bdObj) BlockDeviceTagLabelKey \<and> TrimSpace value \<notin> set (ac_getAllowedTagMap annotations)
                then Err (Errorf ''cannot use bd {%s} as it has tag %s but cspc has allowed bd tags as %s''
                            [AS (Name bdObj), AS value, AS (mget annotations OpenEBSAllowedBDTagKey)])
                else Ok resourceList)) of
           Panic m \<Rightarrow> (Panic m, s)
         | Err e \<Rightarrow> (Err e, s)
         | Ok resourceList \<Rightarrow>
             (case bdc_create E s (ac_Namespace ac) (newClaim E ac bdObj resourceList) of
                (Ok _, s') \<Rightarrow> (Ok (), s')
              | (Panic m, s') \<Rightarrow> (Panic m, s')
              | (Err e, s') \<Rightarrow>
                  if IsAlreadyExists e then (Ok (), s')
                  else (Err (Wrapf e ''failed to create block device claim for bd {%s}'' [AS (Name bdObj)]), s')))"

text \<open>The loop of \<open>ClaimBDsForNode\<close>, with the names of the devices whose claim is pending.\<close>

fun claimLoop :: "'s env \<Rightarrow> Config \<Rightarrow> string list \<Rightarrow> string list \<Rightarrow> 's \<Rightarrow> string list res \<times> 's" where
  "claimLoop E ac pending [] s = (Ok pending, s)"
| "claimLoop E ac pending (bdName # bds) s =
     (case wrapR (bd_get E s (ac_Namespace ac) bdName)
             ''error in getting details for BD {%s} whether it is claimed'' [AS bdName] of
        Panic m \<Rightarrow> (Panic m, s)
      | Err e \<Rightarrow> (Err e, s)
      | Ok bdAPIObj \<Rightarrow>
          if IsBlockDeviceClaimed bdAPIObj
          then (case wrapR (IsClaimedBDUsable E s ac bdAPIObj)
                       ''error in getting details for BD {%s} for usability'' [AS bdName] of
                  Panic m \<Rightarrow> (Panic m, s)
                | Err e \<Rightarrow> (Err e, s)
                | Ok usable \<Rightarrow>
                    if \<not> usable then (Err (Errorf ''BD {%s} already in use'' [AS bdName]), s)
                    else claimLoop E ac pending bds s)
          else (case ac_ClaimBD E ac bdAPIObj s of
                  (Panic m, s') \<Rightarrow> (Panic m, s')
                | (Err e, s') \<Rightarrow> (Err (Wrapf e ''Failed to claim BD {%s}'' [AS bdName]), s')
                | (Ok _, s') \<Rightarrow> claimLoop E ac (pending @ [Name bdAPIObj]) bds s'))"

definition ClaimBDsForNode :: "'s env \<Rightarrow> Config \<Rightarrow> string list \<Rightarrow> 's \<Rightarrow> verdict \<times> 's" where
  "ClaimBDsForNode E ac bds s =
     (case claimLoop E ac [] bds s of
        (Panic m, s') \<Rightarrow> (Panic m, s')
      | (Err e, s') \<Rightarrow> (Err e, s')
      | (Ok pending, s') \<Rightarrow>
          (if length pending > 0
           then Err (Errorf ''%d block device claims are pending, BDs that are pending for claim are::%v''
                       [AI (int (length pending)), AL (remdups pending)])
           else Ok (), s'))"

section \<open>The pool instance of a selected node\<close>

definition ac_defaults :: "CStorPoolClusterSpec \<Rightarrow> PoolConfig \<Rightarrow> PoolConfig" where
  "ac_defaults spec pc =
     (let pc1 = (if Resources pc = None then pc\<lparr>Resources := DefaultResources spec\<rparr> else pc);
          pc2 = (if AuxResources pc1 = None then pc1\<lparr>AuxResources := DefaultAuxResources spec\<rparr> else pc1);
          pc3 = (if Tolerations pc2 = None \<or> Tolerations pc2 = Some []
                 then pc2\<lparr>Tolerations := DefaultTolerations spec\<rparr> else pc2);
          pc4 = (if PriorityClassName pc3 = None
                 then pc3\<lparr>PriorityClassName := Some (DefaultPriorityClassName spec)\<rparr> else pc3)
      in if ROThresholdLimit pc4 = None then pc4\<lparr>ROThresholdLimit := Some 85\<rparr> else pc4)"

definition buildLabelsForCSPI :: "'s env \<Rightarrow> Config \<Rightarrow> string \<Rightarrow> gomap" where
  "buildLabelsForCSPI E ac nodeName =
     [(HostNameLabelKey, nodeName), (CASTypeLabelKey, CasTypeCStor E),
      (CStorPoolClusterLabelKey, Name (ac_CSPC ac)), (OpenEBSVersionLabelKey, binaryVersion E)]"

definition newCSPI :: "'s env \<Rightarrow> 's \<Rightarrow> Config \<Rightarrow> PoolSpec \<Rightarrow> string \<Rightarrow> CStorPoolInstance" where
  "newCSPI E s ac pool nodeName =
     \<lparr>Name = Name (ac_CSPC ac) @ ''-'' @ randSuffix E s, Namespace = ac_Namespace ac, UID = '''',
      Labels = buildLabelsForCSPI E ac nodeName,
      Annotations =
        (if mget (Annotations (ac_CSPC ac)) (OpenEBSDisableDependantsReconcileKey E) = ''true''
         then [(OpenEBSDisableReconcileLabelKey E, ''true'')] else []),
      Finalizers = [CSPCFinalizer E], OwnerReferences = [GetCSPCOwnerReference (ac_CSPC ac)], DeletionTimestamp = None,
      cspi_Spec =
        \<lparr>NodeSelector = NodeSelector pool, DataRaidGroups = DataRaidGroups pool,
         WriteCacheRaidGroups = WriteCacheRaidGroups pool, poolConfig = poolConfig pool, HostName = nodeName\<rparr>,
      cspi_Status = emptyCSPIStatus,
      cspi_Version = (newVersionDetails E (binaryVersion E))\<lparr>vd_DependentsUpgraded := True\<rparr>\<rparr>"

definition GetCSPISpec :: "'s env \<Rightarrow> Config \<Rightarrow> 's \<Rightarrow> CStorPoolInstance res \<times> Config \<times> 's" where
  "GetCSPISpec E ac s =
     (case SelectNode E s ac of
        (Panic m, ac') \<Rightarrow> (Panic m, ac', s)
      | (Err e, ac') \<Rightarrow> (Err (Wrapf e ''failed to select a node'' []), ac', s)
      | (Ok (pool, nodeName), ac') \<Rightarrow>
          if nodeName = ''''
          then (Err (Errorf ''failed to select a node as empty node name received from SelectNode'' []), ac', s)
          else
            let pool' = pool\<lparr>poolConfig := ac_defaults (cspc_Spec (ac_CSPC ac)) (poolConfig pool)\<rparr>;
                cspiObj = newCSPI E s ac' pool' nodeName
            in (case ClaimBDsForNode E ac' (GetBDListForNode pool') s of
                  (Panic m, s') \<Rightarrow> (Panic m, ac', s')
                | (Err e, s') \<Rightarrow> (Err (Wrapf e ''failed to claim block devices for node {%s}'' [AS nodeName]), ac', s')
                | (Ok _, s') \<Rightarrow> (Ok cspiObj, ac', s')))"

section \<open>What a selection and a claim give\<close>

lemma selectLoop_sound:
  "selectLoop E s used bds visited pools = (Ok (pool, node), visited') \<Longrightarrow>
   pool \<in> set pools \<and> GetNodeFromLabelSelector E s (NodeSelector pool) = Ok node \<and> node \<noteq> ''''
   \<and> node \<notin> set visited \<and> node \<in> set visited' \<and> set visited \<subseteq> set visited'
   \<and> node \<notin> set used \<and> set (GetBDListForNode pool) \<inter> set bds = {}"
  by (induction E s used bds visited pools rule: selectLoop.induct)
    (auto simp: list_ex_iff split: res.splits if_splits)

lemma selectLoop_visited: "set visited \<subseteq> set (snd (selectLoop E s used bds visited pools))"
  by (induction E s used bds visited pools rule: selectLoop.induct) (fastforce split: res.splits)+

definition poolQualified :: "'s env \<Rightarrow> 's \<Rightarrow> string list \<Rightarrow> string list \<Rightarrow> PoolSpec \<Rightarrow> string \<Rightarrow> bool" where
  "poolQualified E s usedNodes usedBDs pool node \<longleftrightarrow>
     GetNodeFromLabelSelector E s (NodeSelector pool) = Ok node
     \<and> node \<notin> set usedNodes \<and> set (GetBDListForNode pool) \<inter> set usedBDs = {}"

lemma selectLoop_complete:
  "selectLoop E s used bds visited pools = (Err e, visited') \<Longrightarrow> pool \<in> set pools \<Longrightarrow>
   poolQualified E s used bds pool node \<Longrightarrow>
   node \<in> set visited \<or> (\<exists>other \<in> set pools. other \<noteq> pool \<and> GetNodeFromLabelSelector E s (NodeSelector other) = Ok node)"
proof (induction E s used bds visited pools rule: selectLoop.induct)
  case (1 E s used bds visited)
  then show ?case by simp
next
  case (2 E s used bds visited p pools)
  show ?case
  proof (cases "GetNodeFromLabelSelector E s (NodeSelector p)")
    case (Ok n)
    with 2 show ?thesis by (auto simp: poolQualified_def list_ex_iff split: if_splits)
  qed (use 2 in \<open>auto simp: poolQualified_def\<close>)
qed

definition claimedByCluster :: "'s env \<Rightarrow> 's \<Rightarrow> string \<Rightarrow> string \<Rightarrow> string \<Rightarrow> bool" where
  "claimedByCluster E s ns cluster b \<longleftrightarrow>
     (\<exists>bd c bdc. bd_get E s ns b = Ok bd \<and> bd_ClaimState bd = BlockDeviceClaimed \<and> bd_ClaimRef bd = Some c
        \<and> bdc_get E s ns c = Ok bdc \<and> mhas (Labels bdc) CStorPoolClusterLabelKey
        \<and> mget (Labels bdc) CStorPoolClusterLabelKey = cluster)"

lemma IsClaimedBDUsable_iff:
  "IsClaimedBDUsable E s ac bd = Ok True \<longleftrightarrow>
   bd_ClaimState bd = BlockDeviceClaimed
   \<and> (\<exists>c bdc. bd_ClaimRef bd = Some c \<and> bdc_get E s (ac_Namespace ac) c = Ok bdc
        \<and> mhas (Labels bdc) CStorPoolClusterLabelKey \<and> mget (Labels bdc) CStorPoolClusterLabelKey = Name (ac_CSPC ac))"
  by (auto simp: IsClaimedBDUsable_def IsBlockDeviceClaimed_def BDCHasLabel_def bindR_Ok_iff split: option.splits)

lemma claimLoop_pending:
  "claimLoop E ac pending bds s = (Ok p, s') \<Longrightarrow> length pending \<le> length p"
  by (induction E ac pending bds s rule: claimLoop.induct) (fastforce split: res.splits prod.splits if_splits)+

lemma claimLoop_none_pending:
  "claimLoop E ac pending bds s = (Ok p, s') \<Longrightarrow> length p = length pending \<Longrightarrow>
   s' = s \<and> (\<forall>b \<in> set bds. claimedByCluster E s (ac_Namespace ac) (Name (ac_CSPC ac)) b)"
proof (induction E ac pending bds s rule: claimLoop.induct)
  case (1 E ac pending s)
  then show ?case by simp
next
  case (2 E ac pending b bds s)
  from "2.prems"(1) obtain bd where bd: "bd_get E s (ac_Namespace ac) b = Ok bd"
    by (auto split: res.splits)
  show ?case
  proof (cases "IsBlockDeviceClaimed bd")
    case True
    with "2.prems"(1) bd have u: "IsClaimedBDUsable E s ac bd = Ok True" and l: "claimLoop E ac pending bds s = (Ok p, s')"
      by (auto split: res.splits if_splits)
    from "2.IH"(1) [OF _ True] bd u l "2.prems"(2)
    have "s' = s \<and> (\<forall>b \<in> set bds. claimedByCluster E s (ac_Namespace ac) (Name (ac_CSPC ac)) b)" by simp
    moreover from bd u have "claimedByCluster E s (ac_Namespace ac) (Name (ac_CSPC ac)) b"
      unfolding claimedByCluster_def IsClaimedBDUsable_iff by blast
    ultimately show ?thesis by simp
  next
    case False
    with "2.prems"(1) bd obtain s1 where "claimLoop E ac (pending @ [Name bd]) bds s1 = (Ok p, s')"
      by (auto split: res.splits prod.splits)
    then have "length pending + 1 \<le> length p" using claimLoop_pending by fastforce
    with "2.prems"(2) show ?thesis by simp
  qed
qed

lemma ClaimBDsForNode_Ok:
  "ClaimBDsForNode E ac bds s = (Ok u, s') \<Longrightarrow>
   s' = s \<and> (\<forall>b \<in> set bds. claimedByCluster E s (ac_Namespace ac) (Name (ac_CSPC ac)) b)"
  using claimLoop_none_pending [of E ac "[]" bds s]
  by (auto simp: ClaimBDsForNode_def split: res.splits prod.splits if_splits)

lemma GetBDListForNode_poolBDNames: "GetBDListForNode p = poolBDNames p"
  by (simp add: GetBDListForNode_def poolBDNames_def allRaidGroups_def)

lemma SelectNode_Ok:
  assumes "SelectNode E s ac = (Ok (pool, node), ac')"
  shows "\<exists>cspis. cspi_list E s (ac_Namespace ac) (clusterSelector (Name (ac_CSPC ac))) = Ok cspis
     \<and> pool \<in> set (Pools (cspc_Spec (ac_CSPC ac))) \<and> GetNodeFromLabelSelector E s (NodeSelector pool) = Ok node
     \<and> node \<noteq> '''' \<and> node \<notin> set (VisitedNodes ac) \<and> node \<in> set (VisitedNodes ac')
     \<and> (\<forall>c \<in> set cspis. mget (Labels c) HostNameLabelKey \<noteq> node)
     \<and> (\<forall>c \<in> set cspis. set (poolBDNames (cspi_Spec c)) \<inter> set (poolBDNames pool) = {})
     \<and> ac' = ac\<lparr>VisitedNodes := VisitedNodes ac'\<rparr>"
proof -
  from assms obtain cspis visited where l: "cspi_list E s (ac_Namespace ac) (clusterSelector (Name (ac_CSPC ac))) = Ok cspis"
    and ac': "ac' = ac\<lparr>VisitedNodes := visited\<rparr>"
    and sel: "selectLoop E s (map (\<lambda>cspi. mget (Labels cspi) HostNameLabelKey) cspis)
        (concat (map (\<lambda>cspi. poolBDNames (cspi_Spec cspi)) cspis)) (VisitedNodes ac) (Pools (cspc_Spec (ac_CSPC ac)))
        = (Ok (pool, node), visited)"
    by (auto simp: SelectNode_def GetUsedNodes_def GetUsedBlockDevices_def bindR_Ok_iff split: res.splits prod.splits)
  from selectLoop_sound [OF sel] l ac' show ?thesis by (auto simp: GetBDListForNode_poolBDNames)
qed

lemma GetCSPISpec_Ok:
  assumes "GetCSPISpec E ac s = (Ok cspi, ac', s')"
  shows "s' = s \<and> (\<exists>pool node. SelectNode E s ac = (Ok (pool, node), ac')
     \<and> cspi = newCSPI E s ac' (pool\<lparr>poolConfig := ac_defaults (cspc_Spec (ac_CSPC ac)) (poolConfig pool)\<rparr>) node
     \<and> (\<forall>b \<in> set (poolBDNames pool). claimedByCluster E s (ac_Namespace ac) (Name (ac_CSPC ac)) b))"
proof -
  from assms obtain pool node where sel: "SelectNode E s ac = (Ok (pool, node), ac')"
    and c: "cspi = newCSPI E s ac' (pool\<lparr>poolConfig := ac_defaults (cspc_Spec (ac_CSPC ac)) (poolConfig pool)\<rparr>) node"
    and claim: "ClaimBDsForNode E ac' (GetBDListForNode (pool\<lparr>poolConfig := ac_defaults (cspc_Spec (ac_CSPC ac)) (poolConfig pool)\<rparr>)) s
        = (Ok (), s')"
    by (auto simp: GetCSPISpec_def Let_def split: res.splits prod.splits if_splits)
  have "GetBDListForNode (pool\<lparr>poolConfig := pc\<rparr>) = poolBDNames pool" for pc
    by (simp add: GetBDListForNode_def poolBDNames_def allRaidGroups_def)
  with ClaimBDsForNode_Ok [OF claim] sel c SelectNode_Ok [OF sel] show ?thesis
    by (metis Config.select_convs(1) Config.select_convs(2) Config.surjective Config.update_convs(3))
qed

section \<open>Properties\<close>

text \<open>
  A selected pool is one of the cluster's, on the node its selector resolves to; the node has
  not been visited before in the round and is marked visited, no listed instance of the cluster is
  labelled with it, and no listed instance uses one of the pool's devices, data or write cache.
\<close>

theorem select_node_sound:
  assumes "SelectNode E s ac = (Ok (pool, node), ac')"
  shows "\<exists>cspis. cspi_list E s (ac_Namespace ac) (clusterSelector (Name (ac_CSPC ac))) = Ok cspis
     \<and> pool \<in> set (Pools (cspc_Spec (ac_CSPC ac))) \<and> GetNodeFromLabelSelector E s (NodeSelector pool) = Ok node
     \<and> node \<notin> set (VisitedNodes ac) \<and> node \<in> set (VisitedNodes ac')
     \<and> (\<forall>c \<in> set cspis. mget (Labels c) HostNameLabelKey \<noteq> node)
     \<and> (\<forall>c \<in> set cspis. set (poolBDNames (cspi_Spec c)) \<inter> set (poolBDNames pool) = {})"
  using SelectNode_Ok [OF assms] by blast

definition sampleConfig :: "CStorPoolCluster \<Rightarrow> Config" where
  "sampleConfig c = \<lparr>ac_CSPC = c, ac_Namespace = ''openebs'', VisitedNodes = []\<rparr>"

definition sampleTwo :: CStorPoolCluster where
  "sampleTwo = sampleCSPC ''c1'' [samplePool ''n1'' ''mirror'' [[''a1'', ''a2'']], samplePool ''n2'' ''mirror'' [[''b1'', ''b2'']]]"

theorem select_node_sound_witness:
  "\<exists>cspis. cspi_list sampleEnv sampleStore ''openebs'' (clusterSelector ''c1'') = Ok cspis
     \<and> list_all (\<lambda>c. mget (Labels c) HostNameLabelKey \<noteq> ''n2'') cspis"
proof -
  have "SelectNode sampleEnv sampleStore (sampleConfig sampleTwo) =
      (Ok (samplePool ''n2'' ''mirror'' [[''b1'', ''b2'']], ''n2''), (sampleConfig sampleTwo)\<lparr>VisitedNodes := [''n2'', ''n1'']\<rparr>)"
    by code_simp
  from select_node_sound [OF this] show ?thesis
    by (auto simp: list_all_iff sampleConfig_def sampleTwo_def sampleCSPC_def sampleMeta_def ObjectMeta.defs)
qed

text \<open>
  When no node qualifies although the instances could be listed, none of the pools did: a pool
  whose node is free, not visited and not another pool's, and whose devices are unused, would have
  been selected.
\<close>

theorem select_node_complete:
  assumes "SelectNode E s ac = (Err e, ac')"
    and "cspi_list E s (ac_Namespace ac) (clusterSelector (Name (ac_CSPC ac))) = Ok cspis"
    and "pool \<in> set (Pools (cspc_Spec (ac_CSPC ac)))" and "node \<notin> set (VisitedNodes ac)"
    and "\<forall>other \<in> set (Pools (cspc_Spec (ac_CSPC ac))).
           other \<noteq> pool \<longrightarrow> GetNodeFromLabelSelector E s (NodeSelector other) \<noteq> Ok node"
  shows "\<not> poolQualified E s (map (\<lambda>c. mget (Labels c) HostNameLabelKey) cspis)
           (concat (map (\<lambda>c. poolBDNames (cspi_Spec c)) cspis)) pool node"
proof
  assume q: "poolQualified E s (map (\<lambda>c. mget (Labels c) HostNameLabelKey) cspis)
           (concat (map (\<lambda>c. poolBDNames (cspi_Spec c)) cspis)) pool node"
  from assms(1,2) obtain visited where "selectLoop E s (map (\<lambda>c. mget (Labels c) HostNameLabelKey) cspis)
      (concat (map (\<lambda>c. poolBDNames (cspi_Spec c)) cspis)) (VisitedNodes ac) (Pools (cspc_Spec (ac_CSPC ac))) = (Err e, visited)"
    by (auto simp: SelectNode_def GetUsedNodes_def GetUsedBlockDevices_def split: res.splits prod.splits)
  from selectLoop_complete [OF this assms(3) q] assms(4,5) show False by blast
qed

theorem select_node_complete_witness:
  "\<not> poolQualified sampleEnv sampleStore [''n1''] [''a1'', ''a2''] (samplePool ''n1'' ''mirror'' [[''a1'', ''a2'']]) ''n1''"
proof -
  let ?p = "samplePool ''n1'' ''mirror'' [[''a1'', ''a2'']]"
  let ?ac = "sampleConfig (sampleCSPC ''c1'' [?p])"
  have 1: "SelectNode sampleEnv sampleStore ?ac = (Err (Errorf ''no node qualified for pool creation'' []), ?ac\<lparr>VisitedNodes := [''n1'']\<rparr>)"
    by code_simp
  have 2: "cspi_list sampleEnv sampleStore (ac_Namespace ?ac) (clusterSelector (Name (ac_CSPC ?ac))) = Ok [sampleCSPI ''c1-x'' ''c1'' ''n1'' ?p]"
    by code_simp
  have 3: "Pools (cspc_Spec (ac_CSPC ?ac)) = [?p]" and 4: "''n1'' \<notin> set (VisitedNodes ?ac)" by code_simp+
  have 5: "map (\<lambda>c. mget (Labels c) HostNameLabelKey) [sampleCSPI ''c1-x'' ''c1'' ''n1'' ?p] = [''n1'']"
    "concat (map (\<lambda>c. poolBDNames (cspi_Spec c)) [sampleCSPI ''c1-x'' ''c1'' ''n1'' ?p]) = [''a1'', ''a2'']" by code_simp+
  from select_node_complete [OF 1 2 _ 4, of ?p] show ?thesis by (simp only: 3 5) simp
qed

text \<open>
  C30. An instance spec is built only when every device of its pool is claimed and its claim carries
  the label of this cluster; then nothing was written, and the instance has the pool's selector and
  raid groups, the node's host name in its spec and labels, the cluster's name and owner
  reference, and the finalizer that keeps it until its claims are released. While a claim is still
  pending the call fails, so that the next round retries.
\<close>

theorem provision_only_claimed_devices:
  assumes "GetCSPISpec E ac s = (Ok cspi, ac', s')"
  shows "s' = s \<and> (\<forall>b \<in> set (poolBDNames (cspi_Spec cspi)).
            claimedByCluster E s (ac_Namespace ac) (Name (ac_CSPC ac)) b)
     \<and> (\<exists>pool \<in> set (Pools (cspc_Spec (ac_CSPC ac))).
          NodeSelector (cspi_Spec cspi) = NodeSelector pool \<and> DataRaidGroups (cspi_Spec cspi) = DataRaidGroups pool
          \<and> WriteCacheRaidGroups (cspi_Spec cspi) = WriteCacheRaidGroups pool
          \<and> GetNodeFromLabelSelector E s (NodeSelector pool) = Ok (HostName (cspi_Spec cspi)))
     \<and> mget (Labels cspi) HostNameLabelKey = HostName (cspi_Spec cspi)
     \<and> mget (Labels cspi) CStorPoolClusterLabelKey = Name (ac_CSPC ac)
     \<and> OwnerReferences cspi = [GetCSPCOwnerReference (ac_CSPC ac)] \<and> Finalizers cspi = [CSPCFinalizer E]"
proof -
  from GetCSPISpec_Ok [OF assms] obtain pool node where s: "s' = s" and sel: "SelectNode E s ac = (Ok (pool, node), ac')"
    and c: "cspi = newCSPI E s ac' (pool\<lparr>poolConfig := ac_defaults (cspc_Spec (ac_CSPC ac)) (poolConfig pool)\<rparr>) node"
    and claims: "\<forall>b \<in> set (poolBDNames pool). claimedByCluster E s (ac_Namespace ac) (Name (ac_CSPC ac)) b" by blast
  from SelectNode_Ok [OF sel] have same: "ac_CSPC ac' = ac_CSPC ac" by (metis Config.select_convs(1) Config.surjective Config.update_convs(3))
  from SelectNode_Ok [OF sel] have "pool \<in> set (Pools (cspc_Spec (ac_CSPC ac)))"
    and "GetNodeFromLabelSelector E s (NodeSelector pool) = Ok node" by blast+
  with s c claims same show ?thesis
    by (auto simp: newCSPI_def poolBDNames_def allRaidGroups_def buildLabelsForCSPI_def mget_def key_defs)
qed

theorem provision_only_claimed_devices_witness:
  "list_all (claimedByCluster sampleEnv (sampleStore\<lparr>st_cspis := []\<rparr>) ''openebs'' ''c1'') [''a1'', ''a2'']"
proof -
  let ?g = "GetCSPISpec sampleEnv (sampleConfig (sampleCSPC ''c1'' [samplePool ''n1'' ''mirror'' [[''a1'', ''a2'']]]))
      (sampleStore\<lparr>st_cspis := []\<rparr>)"
  have ok: "isOk (bindR (fst ?g) (\<lambda>c. if poolBDNames (cspi_Spec c) = [''a1'', ''a2''] then Ok () else Err (ApiError '''')))" by code_simp
  then obtain cspi where g: "?g = (Ok cspi, fst (snd ?g), snd (snd ?g))" and n: "poolBDNames (cspi_Spec cspi) = [''a1'', ''a2'']"
    by (cases "fst ?g") (auto simp: prod_eq_iff split: if_splits)
  from provision_only_claimed_devices [OF g] n show ?thesis
    by (simp add: sampleConfig_def sampleCSPC_def sampleMeta_def ObjectMeta.defs)
qed

text \<open>
  A tag listed in the cluster's annotation after a comma and a blank admits no device: the
  allowed tags keep the blank while the device's tag is trimmed before it is looked up. Such a
  device is never claimed and nothing is written.
\<close>

theorem spaced_tag_not_allowed:
  assumes "mget (Annotations (ac_CSPC ac)) OpenEBSAllowedBDTagKey = u @ '', '' @ tag"
    and "CHR '','' \<notin> set tag" and "tag \<notin> set (Split (CHR '','') u)"
    and "mhas (Labels bd) BlockDeviceTagLabelKey" and "mget (Labels bd) BlockDeviceTagLabelKey = tag"
    and "TrimSpace tag = tag"
  shows "fst (ac_ClaimBD E ac bd s) \<noteq> Ok () \<and> snd (ac_ClaimBD E ac bd s) = s"
proof -
  have "Split (CHR '','') (u @ '', '' @ tag) = Split (CHR '','') u @ [CHR '' '' # tag]"
    using Split_append [of "CHR '',''" "CHR '' '' # tag" u] assms(2) by simp
  then have "tag \<notin> set (ac_getAllowedTagMap (Annotations (ac_CSPC ac)))"
    using assms(1,3) by (auto simp: ac_getAllowedTagMap_def Let_def)
  with assms(4-6) show ?thesis
    by (auto simp: ac_ClaimBD_def Let_def bindR_Ok_iff split: res.splits)
qed

theorem spaced_tag_not_allowed_witness:
  "fst (ac_ClaimBD sampleEnv (sampleConfig ((sampleCSPC ''c1'' [])\<lparr>Annotations := [(OpenEBSAllowedBDTagKey, ''fast, slow'')]\<rparr>))
     ((sampleBD ''a3'' ''n1'' None 2147483648)\<lparr>Labels := [(BlockDeviceTagLabelKey, ''slow'')]\<rparr>) sampleStore) \<noteq> Ok ()"
proof -
  let ?ac = "sampleConfig ((sampleCSPC ''c1'' [])\<lparr>Annotations := [(OpenEBSAllowedBDTagKey, ''fast, slow'')]\<rparr>)"
  let ?bd = "(sampleBD ''a3'' ''n1'' None 2147483648)\<lparr>Labels := [(BlockDeviceTagLabelKey, ''slow'')]\<rparr>"
  have "mget (Annotations (ac_CSPC ?ac)) OpenEBSAllowedBDTagKey = ''fast'' @ '', '' @ ''slow''"
    "CHR '','' \<notin> set ''slow''" "''slow'' \<notin> set (Split (CHR '','') ''fast'')"
    "mhas (Labels ?bd) BlockDeviceTagLabelKey" "mget (Labels ?bd) BlockDeviceTagLabelKey = ''slow''"
    "TrimSpace ''slow'' = ''slow''"
    by code_simp+
  then show ?thesis by (rule spaced_tag_not_allowed [THEN conjunct1])
qed

end
