(* ===== verification/PoolDeploy.thy ===== *)
theory PoolDeploy
  imports PoolAlgorithm
begin

text \<open>
  The deployment that runs a pool manager: \<open>src/pkg/cspc/algorithm/build_deploy.go\<close>. The
  builders of \<open>github.com/openebs/api\<close> set the field they are named after (a suffix \<open>New\<close>
  replaces the field, otherwise the argument is appended). The process environment is the
  parameter \<open>LookupEnv\<close>.
\<close>

section \<open>Parts of the deployment\<close>

definition PoolMgmtContainerName :: string where "PoolMgmtContainerName = ''cstor-pool-mgmt''"
definition PoolContainerName :: string where "PoolContainerName = ''cstor-pool''"
definition PoolExporterContainerName :: string where "PoolExporterContainerName = ''maya-exporter''"

definition defaultPoolMgmtMounts :: "VolumeMount list" where
  "defaultPoolMgmtMounts =
     [\<lparr>vm_Name = ''device'', vm_MountPath = ''/dev''\<rparr>,
      \<lparr>vm_Name = ''tmp'', vm_MountPath = ''/tmp''\<rparr>,
      \<lparr>vm_Name = ''udev'', vm_MountPath = ''/run/udev''\<rparr>,
      \<lparr>vm_Name = ''storagepath'', vm_MountPath = ''/var/openebs/cstor-pool''\<rparr>,
      \<lparr>vm_Name = ''sockfile'', vm_MountPath = ''/var/tmp/sock''\<rparr>]"

definition getReplicaCount :: "32 word" where
  "getReplicaCount = 1"

definition getDeployOwnerReference :: "CStorPoolInstance \<Rightarrow> OwnerReference list" where
  "getDeployOwnerReference cspi =
     [\<lparr>or_Kind = ''CStorPoolInstance'', or_Name = Name cspi, or_UID = UID cspi\<rparr>]"

definition getDeployLabels :: "'s env \<Rightarrow> CStorPoolInstance \<Rightarrow> gomap" where
  "getDeployLabels E csp =
     [(''app'', ''cstor-pool''),
      (CStorPoolClusterLabelKey, mget (Labels csp) CStorPoolClusterLabelKey),
      (CStorPoolInstanceLabelKey, Name csp),
      (''openebs.io/version'', binaryVersion E)]"

definition getDeployAnnotations :: gomap where
  "getDeployAnnotations = [(''openebs.io/monitoring'', ''pool_exporter_prometheus'')]"

definition getPodLabels :: "'s env \<Rightarrow> CStorPoolInstance \<Rightarrow> gomap" where
  "getPodLabels E csp = getDeployLabels E csp"

definition getPodAnnotations :: gomap where
  "getPodAnnotations =
     [(''cluster-autoscaler.kubernetes.io/safe-to-evict'', ''false''),
      (''openebs.io/monitoring'', ''pool_exporter_prometheus''),
      (''prometheus.io/path'', ''/metrics''),
      (''prometheus.io/port'', ''9500''),
      (''prometheus.io/scrape'', ''true'')]"

definition getDeployMatchLabels :: gomap where
  "getDeployMatchLabels = [(''app'', ''cstor-pool'')]"

definition envOr :: "'s env \<Rightarrow> string \<Rightarrow> string \<Rightarrow> string" where
  "envOr E key dflt = (case LookupEnv E key of None \<Rightarrow> dflt | Some v \<Rightarrow> v)"

definition getPoolMgmtImage :: "'s env \<Rightarrow> string" where
  "getPoolMgmtImage E = envOr E ''OPENEBS_IO_CSPI_MGMT_IMAGE'' ''quay.io/openebs/cstor-pool-manager-amd64:ci''"

definition getPoolImage :: "'s env \<Rightarrow> string" where
  "getPoolImage E = envOr E ''OPENEBS_IO_CSTOR_POOL_IMAGE'' ''quay.io/openebs/cstor-pool:ci''"

definition getMayaExporterImage :: "'s env \<Rightarrow> string" where
  "getMayaExporterImage E = envOr E ''OPENEBS_IO_CSTOR_POOL_EXPORTER_IMAGE'' ''quay.io/openebs/m-exporter:ci''"

definition getContainerPort :: "32 word list \<Rightarrow> ContainerPort list" where
  "getContainerPort ports = map (\<lambda>p. \<lparr>cp_ContainerPort = p, cp_Protocol = ''TCP''\<rparr>) ports"

definition getSparseDirPath :: "'s env \<Rightarrow> string" where
  "getSparseDirPath E = envOr E ''OPENEBS_IO_CSTOR_POOL_SPARSE_DIR'' ''/var/openebs/sparse''"

definition getPoolMgmtMounts :: "'s env \<Rightarrow> VolumeMount list" where
  "getPoolMgmtMounts E =
     defaultPoolMgmtMounts @ [\<lparr>vm_Name = ''sparse'', vm_MountPath = getSparseDirPath E\<rparr>]"

definition getPoolMounts :: "'s env \<Rightarrow> VolumeMount list" where
  "getPoolMounts E = getPoolMgmtMounts E"

definition getPoolUIDAsEnv :: "CStorPoolCluster \<Rightarrow> EnvVar list" where
  "getPoolUIDAsEnv cspc = [\<lparr>ev_Name = ''OPENEBS_IO_POOL_NAME'', ev_Value = UID cspc, ev_FieldPath = None\<rparr>]"

definition getPoolMgmtEnv :: "CStorPoolInstance \<Rightarrow> EnvVar list" where
  "getPoolMgmtEnv cspi =
     [\<lparr>ev_Name = ''OPENEBS_IO_CSPI_ID'', ev_Value = UID cspi, ev_FieldPath = None\<rparr>,
      \<lparr>ev_Name = ''RESYNC_INTERVAL'', ev_Value = ''30'', ev_FieldPath = None\<rparr>,
      \<lparr>ev_Name = ''POD_NAME'', ev_Value = '''', ev_FieldPath = Some ''metadata.name''\<rparr>,
      \<lparr>ev_Name = ''NAMESPACE'', ev_Value = '''', ev_FieldPath = Some ''metadata.namespace''\<rparr>]"

definition getPoolLivenessProbe :: Probe where
  "getPoolLivenessProbe =
     \<lparr>pb_Command = [''/bin/sh'', ''-c'',
        ''timeout 120 zfs set io.openebs:livenesstimestamp='' @ [CHR 0x22] @ ''$(date +%s)'' @ [CHR 0x22]
          @ '' cstor-$OPENEBS_IO_POOL_NAME''],
      pb_FailureThreshold = 3, pb_InitialDelaySeconds = 300, pb_PeriodSeconds = 60, pb_TimeoutSeconds = 150\<rparr>"

definition getPoolEnv :: "CStorPoolInstance \<Rightarrow> EnvVar list" where
  "getPoolEnv cspi = [\<lparr>ev_Name = ''OPENEBS_IO_CSTOR_ID'', ev_Value = UID cspi, ev_FieldPath = None\<rparr>]"

definition getPoolLifeCycle :: "string list" where
  "getPoolLifeCycle = [''/bin/sh'', ''-c'', ''sleep 2'']"

definition getResourceRequirementForCStorPool :: "CStorPoolInstance \<Rightarrow> string" where
  "getResourceRequirementForCStorPool cspi =
     (case Resources (poolConfig (cspi_Spec cspi)) of None \<Rightarrow> '''' | Some r \<Rightarrow> r)"

definition getAuxResourceRequirement :: "CStorPoolInstance \<Rightarrow> string" where
  "getAuxResourceRequirement cspi =
     (case AuxResources (poolConfig (cspi_Spec cspi)) of None \<Rightarrow> '''' | Some r \<Rightarrow> r)"

definition getPoolPodToleration :: "CStorPoolInstance \<Rightarrow> string list" where
  "getPoolPodToleration cspi =
     (case Tolerations (poolConfig (cspi_Spec cspi)) of None \<Rightarrow> [] | Some ts \<Rightarrow> ts)"

definition getPriorityClass :: "CStorPoolInstance \<Rightarrow> string" where
  "getPriorityClass cspi =
     (case PriorityClassName (poolConfig (cspi_Spec cspi)) of None \<Rightarrow> '''' | Some p \<Rightarrow> p)"

section \<open>The deployment\<close>

definition NewContainer :: Container where
  "NewContainer =
     \<lparr>ct_Image = '''', ct_Name = '''', ct_ImagePullPolicy = '''', ct_Privileged = False, ct_Env = [],
      ct_Resources = '''', ct_Ports = [], ct_LivenessProbe = None, ct_PostStart = None, ct_Command = [],
      ct_Args = [], ct_VolumeMounts = []\<rparr>"

definition poolContainers :: "'s env \<Rightarrow> Config \<Rightarrow> CStorPoolInstance \<Rightarrow> Container list" where
  "poolContainers E c cspi =
     [NewContainer\<lparr>ct_Image := getPoolMgmtImage E, ct_Name := PoolMgmtContainerName,
        ct_ImagePullPolicy := ''IfNotPresent'', ct_Privileged := True,
        ct_Env := getPoolMgmtEnv cspi @ getPoolUIDAsEnv (ac_CSPC c),
        ct_Resources := getAuxResourceRequirement cspi, ct_VolumeMounts := getPoolMgmtMounts E\<rparr>,
      NewContainer\<lparr>ct_Image := getPoolImage E, ct_Name := PoolContainerName,
        ct_Resources := getResourceRequirementForCStorPool cspi,
        ct_ImagePullPolicy := ''IfNotPresent'', ct_Privileged := True,
        ct_Ports := getContainerPort [12000, 3232, 3233], ct_LivenessProbe := Some getPoolLivenessProbe,
        ct_Env := getPoolEnv cspi @ getPoolUIDAsEnv (ac_CSPC c),
        ct_PostStart := Some getPoolLifeCycle, ct_VolumeMounts := getPoolMounts E\<rparr>,
      NewContainer\<lparr>ct_Image := getMayaExporterImage E, ct_Name := PoolExporterContainerName,
        ct_ImagePullPolicy := ''IfNotPresent'', ct_Privileged := True,
        ct_Ports := getContainerPort [9500], ct_Command := [''maya-exporter''], ct_Args := [''-e=pool''],
        ct_VolumeMounts := getPoolMounts E\<rparr>]"

definition poolVolumes :: "'s env \<Rightarrow> Config \<Rightarrow> Volume list" where
  "poolVolumes E c =
     (let dir = OpenebsBaseDirPath E @ ''/cstor-pool/'' @ Name (ac_CSPC c) in
      [\<lparr>vol_Name = ''device'', vol_Source = HostPath ''/dev'' ''Directory''\<rparr>,
       \<lparr>vol_Name = ''udev'', vol_Source = HostPath ''/run/udev'' ''Directory''\<rparr>,
       \<lparr>vol_Name = ''tmp'', vol_Source = HostPath dir ''DirectoryOrCreate''\<rparr>,
       \<lparr>vol_Name = ''sparse'', vol_Source = HostPath (getSparseDirPath E) ''DirectoryOrCreate''\<rparr>,
       \<lparr>vol_Name = ''storagepath'', vol_Source = HostPath dir ''DirectoryOrCreate''\<rparr>,
       \<lparr>vol_Name = ''sockfile'', vol_Source = EmptyDir\<rparr>])"

definition GetPoolDeploySpec :: "'s env \<Rightarrow> Config \<Rightarrow> CStorPoolInstance \<Rightarrow> Deployment" where
  "GetPoolDeploySpec E c cspi =
     \<lparr>Name = Name cspi, Namespace = Namespace cspi, UID = '''', Labels = getDeployLabels E cspi,
      Annotations = getDeployAnnotations, Finalizers = [], OwnerReferences = getDeployOwnerReference cspi,
      DeletionTimestamp = None,
      dep_Replicas = getReplicaCount, dep_StrategyType = ''Recreate'', dep_Selector = getDeployMatchLabels,
      dep_Template =
        \<lparr>pt_Labels = getPodLabels E cspi, pt_PriorityClassName = getPriorityClass cspi,
         pt_NodeSelector = NodeSelector (cspi_Spec cspi), pt_Annotations = getPodAnnotations,
         pt_ServiceAccountName = GetServiceAccountName E, pt_Affinity = None,
         pt_Tolerations = getPoolPodToleration cspi,
         pt_ImagePullSecrets = ImagePullSecrets E, pt_Containers = poolContainers E c cspi,
         pt_Volumes = poolVolumes E c\<rparr>,
      dep_ReadyReplicas = 0\<rparr>"

lemmas deploy_part_defs =
  getDeployLabels_def getPodLabels_def getDeployMatchLabels_def poolContainers_def poolVolumes_def
  getPoolMgmtMounts_def getPoolMounts_def defaultPoolMgmtMounts_def NewContainer_def
  PoolMgmtContainerName_def PoolContainerName_def PoolExporterContainerName_def getReplicaCount_def

section \<open>What every deployment has\<close>

text \<open>
  What Kubernetes requires of a deployment, and what the pool manager relies on: the selector
  selects the pods of the template, container names and volume names are unique, every mount
  names a volume, and no two pods of the pool ever run at once (one replica, recreated).
\<close>

definition wellFormedDeployment :: "Deployment \<Rightarrow> bool" where
  "wellFormedDeployment d \<longleftrightarrow>
     (let t = dep_Template d in
      (\<forall>(k, v) \<in> set (dep_Selector d). mget (pt_Labels t) k = v)
      \<and> distinct (map ct_Name (pt_Containers t)) \<and> distinct (map vol_Name (pt_Volumes t))
      \<and> (\<forall>c \<in> set (pt_Containers t). \<forall>m \<in> set (ct_VolumeMounts c). vm_Name m \<in> vol_Name ` set (pt_Volumes t))
      \<and> dep_Replicas d = 1 \<and> dep_StrategyType d = ''Recreate'')"


end
