(* ===== verification/Conditions.thy ===== *)
theory Conditions
  imports ApiTypes
begin

text \<open>
  Status conditions, a list used as a map from condition types:
  \<open>src/pkg/controllers/cspc-controller/util/cspc_util.go\<close> for pool clusters and
  \<open>src/pkg/controllers/cspi-controller/util/cspi_utils.go\<close> for pool instances. The two files
  differ in when they keep the old entry. The locale \<open>condition_map\<close> states what callers of
  either rely on; both files are instances of it. The clock is read once per condition.
\<close>

section \<open>Conditions of a pool cluster\<close>

definition MinimumPoolManagersAvailable :: string where
  "MinimumPoolManagersAvailable = ''MinimumPoolManagersAvailable''"
definition MinimumPoolManagersUnAvailable :: string where
  "MinimumPoolManagersUnAvailable = ''MinimumPoolManagersUnAvailable''"
definition PoolManagerAvailable :: string where
  "PoolManagerAvailable = ''PoolManagerAvailable''"

definition NewCSPCCondition :: "int \<Rightarrow> string \<Rightarrow> string \<Rightarrow> string \<Rightarrow> string \<Rightarrow> Condition" where
  "NewCSPCCondition t condType status reason message =
     \<lparr>cond_Type = condType, cond_Status = status, cond_LastUpdateTime = t, cond_LastTransitionTime = t,
      cond_Reason = reason, cond_Message = message\<rparr>"

definition GetCSPCCondition :: "CStorPoolClusterStatus \<Rightarrow> string \<Rightarrow> Condition option" where
  "GetCSPCCondition status condType = find (\<lambda>c. cond_Type c = condType) (cspc_Conditions status)"

definition filterOutCondition :: "Condition list \<Rightarrow> string \<Rightarrow> Condition list" where
  "filterOutCondition conditions condType = filter (\<lambda>c. cond_Type c \<noteq> condType) conditions"

definition SetCSPCCondition :: "CStorPoolClusterStatus \<Rightarrow> Condition \<Rightarrow> CStorPoolClusterStatus" where
  "SetCSPCCondition status condition =
     (let put = (\<lambda>c. status\<lparr>cspc_Conditions := filterOutCondition (cspc_Conditions status) (cond_Type c) @ [c]\<rparr>)
      in case GetCSPCCondition status (cond_Type condition) of
           None \<Rightarrow> put condition
         | Some currentCond \<Rightarrow>
             if cond_Status currentCond = cond_Status condition \<and> cond_Reason currentCond = cond_Reason condition
             then status
             else if cond_Status currentCond = cond_Status condition
             then put (condition\<lparr>cond_LastTransitionTime := cond_LastTransitionTime currentCond\<rparr>)
             else put condition)"

definition RemoveCSPCCondition :: "CStorPoolClusterStatus \<Rightarrow> string \<Rightarrow> CStorPoolClusterStatus" where
  "RemoveCSPCCondition status condType =
     status\<lparr>cspc_Conditions := filterOutCondition (cspc_Conditions status) condType\<rparr>"

section \<open>Conditions of a pool instance\<close>

definition NewCSPICondition :: "int \<Rightarrow> string \<Rightarrow> string \<Rightarrow> string \<Rightarrow> string \<Rightarrow> Condition" where
  "NewCSPICondition t condType status reason message =
     \<lparr>cond_Type = condType, cond_Status = status, cond_LastUpdateTime = t, cond_LastTransitionTime = t,
      cond_Reason = reason, cond_Message = message\<rparr>"

definition GetCSPICondition :: "CStorPoolInstanceStatus \<Rightarrow> string \<Rightarrow> Condition option" where
  "GetCSPICondition status condType = find (\<lambda>c. cond_Type c = condType) (cspi_Conditions status)"

definition cspi_filterOutCondition :: "Condition list \<Rightarrow> string \<Rightarrow> Condition list" where
  "cspi_filterOutCondition conditions condType = filter (\<lambda>c. cond_Type c \<noteq> condType) conditions"

definition SetCSPICondition :: "CStorPoolInstanceStatus \<Rightarrow> Condition \<Rightarrow> CStorPoolInstanceStatus" where
  "SetCSPICondition status condition =
     (let condition' =
        (case GetCSPICondition status (cond_Type condition) of
           None \<Rightarrow> condition
         | Some currentCond \<Rightarrow>
             if cond_Type currentCond = cond_Type condition \<and> cond_Status currentCond = cond_Status condition
             then condition\<lparr>cond_LastTransitionTime := cond_LastTransitionTime currentCond\<rparr>
             else condition)
      in status\<lparr>cspi_Conditions :=
           cspi_filterOutCondition (cspi_Conditions status) (cond_Type condition) @ [condition']\<rparr>)"

definition RemoveCSPICondition :: "CStorPoolInstanceStatus \<Rightarrow> string \<Rightarrow> CStorPoolInstanceStatus" where
  "RemoveCSPICondition status condType =
     status\<lparr>cspi_Conditions := cspi_filterOutCondition (cspi_Conditions status) condType\<rparr>"

section \<open>The contract of a condition list\<close>

text \<open>
  \<open>conds\<close> is the list of conditions of a status, \<open>get\<close>, \<open>put\<close> and \<open>rem\<close> the three
  operations. \<open>put\<close> leaves an entry of the given type with the given status and reason, keeps
  the other types, and moves the transition time only when the status changes.
\<close>

locale condition_map =
  fixes conds :: "'st \<Rightarrow> Condition list"
    and get :: "'st \<Rightarrow> string \<Rightarrow> Condition option"
    and put :: "'st \<Rightarrow> Condition \<Rightarrow> 'st"
    and rem :: "'st \<Rightarrow> string \<Rightarrow> 'st"
  assumes get_find: "get st t = find (\<lambda>c. cond_Type c = t) (conds st)"
    and put_new: "get st (cond_Type c) = None \<Longrightarrow>
          conds (put st c) = filter (\<lambda>d. cond_Type d \<noteq> cond_Type c) (conds st) @ [c]"
    and put_flip: "get st (cond_Type c) = Some d \<Longrightarrow> cond_Status d \<noteq> cond_Status c \<Longrightarrow>
          conds (put st c) = filter (\<lambda>d. cond_Type d \<noteq> cond_Type c) (conds st) @ [c]"
    and put_same: "get st (cond_Type c) = Some d \<Longrightarrow> cond_Status d = cond_Status c \<Longrightarrow>
          put st c = st \<and> cond_Reason d = cond_Reason c \<or>
          conds (put st c) = filter (\<lambda>d. cond_Type d \<noteq> cond_Type c) (conds st)
             @ [c\<lparr>cond_LastTransitionTime := cond_LastTransitionTime d\<rparr>]"
    and rem_filter: "conds (rem st t) = filter (\<lambda>d. cond_Type d \<noteq> t) (conds st)"
begin

definition keyed :: "'st \<Rightarrow> bool" where
  "keyed st \<longleftrightarrow> distinct (map cond_Type (conds st))"

lemma find_filter_other:
  "t \<noteq> u \<Longrightarrow> find (\<lambda>c. cond_Type c = t) (filter (\<lambda>c. cond_Type c \<noteq> u) cs) = find (\<lambda>c. cond_Type c = t) cs"
  by (induction cs) auto

lemma find_append: "find P (xs @ ys) = (case find P xs of None \<Rightarrow> find P ys | Some x \<Rightarrow> Some x)"
  by (induction xs) auto

lemma find_filter_same: "find (\<lambda>c. cond_Type c = t) (filter (\<lambda>c. cond_Type c \<noteq> t) cs) = None"
  by (induction cs) auto

lemma get_type: "get st t = Some d \<Longrightarrow> cond_Type d = t"
  by (auto simp: get_find find_Some_iff)

text \<open>The four shapes of a list after \<open>put\<close> are two: unchanged, or the entry moved to the end.\<close>

lemma put_cases:
  obtains (kept) d where "put st c = st" "get st (cond_Type c) = Some d"
      "cond_Status d = cond_Status c" "cond_Reason d = cond_Reason c"
  | (moved) c' where "conds (put st c) = filter (\<lambda>d. cond_Type d \<noteq> cond_Type c) (conds st) @ [c']"
      "cond_Type c' = cond_Type c" "cond_Status c' = cond_Status c" "cond_Reason c' = cond_Reason c"
      "cond_LastTransitionTime c' =
         (case get st (cond_Type c) of None \<Rightarrow> cond_LastTransitionTime c
          | Some d \<Rightarrow> if cond_Status d = cond_Status c then cond_LastTransitionTime d else cond_LastTransitionTime c)"
proof (cases "get st (cond_Type c)")
  case None
  with put_new [OF None] moved [of c] show thesis by simp
next
  case (Some d)
  show thesis
  proof (cases "cond_Status d = cond_Status c")
    case True
    with put_same [OF Some True] Some kept [of d]
      moved [of "c\<lparr>cond_LastTransitionTime := cond_LastTransitionTime d\<rparr>"] show thesis by auto
  next
    case False
    with put_flip [OF Some False] Some moved [of c] show thesis by simp
  qed
qed

lemma get_put_same:
  "\<exists>d. get (put st c) (cond_Type c) = Some d \<and> cond_Status d = cond_Status c \<and> cond_Reason d = cond_Reason c
     \<and> (\<forall>old. get st (cond_Type c) = Some old \<and> cond_Status old = cond_Status c \<longrightarrow>
            cond_LastTransitionTime d = cond_LastTransitionTime old)"
  by (rule put_cases [of st c]) (auto simp: get_find find_append find_filter_same)

lemma get_put_other: "t \<noteq> cond_Type c \<Longrightarrow> get (put st c) t = get st t"
  by (rule put_cases [of st c]) (auto simp: get_find find_append find_filter_other split: option.splits)

lemma put_keyed: "keyed st \<Longrightarrow> keyed (put st c)"
  by (rule put_cases [of st c]) (auto simp: keyed_def distinct_map inj_on_def)

lemma get_rem: "get (rem st t) u = (if u = t then None else get st u)"
  by (simp add: get_find rem_filter find_filter_same find_filter_other)

lemma rem_keyed: "keyed st \<Longrightarrow> keyed (rem st t)"
  by (auto simp: keyed_def rem_filter distinct_map inj_on_def)

end

interpretation cspcc: condition_map cspc_Conditions GetCSPCCondition SetCSPCCondition RemoveCSPCCondition
  by unfold_locales
    (auto simp: GetCSPCCondition_def SetCSPCCondition_def RemoveCSPCCondition_def filterOutCondition_def Let_def)

lemma find_type: "find (\<lambda>c. cond_Type c = t) cs = Some d \<Longrightarrow> cond_Type d = t"
  by (auto simp: find_Some_iff)

interpretation cspic: condition_map cspi_Conditions GetCSPICondition SetCSPICondition RemoveCSPICondition
  by unfold_locales
    (auto simp: GetCSPICondition_def SetCSPICondition_def RemoveCSPICondition_def cspi_filterOutCondition_def
      Let_def dest: find_type)

section \<open>Properties\<close>

text \<open>
  Setting a condition of a pool cluster leaves exactly one condition of its type, with the given
  status and reason; its transition time is the old one when the status did not change; conditions
  of other types are as before.
\<close>

theorem cspc_condition_map:
  assumes "distinct (map cond_Type (cspc_Conditions st))"
  shows "distinct (map cond_Type (cspc_Conditions (SetCSPCCondition st c)))
     \<and> (\<exists>d. GetCSPCCondition (SetCSPCCondition st c) (cond_Type c) = Some d
          \<and> cond_Status d = cond_Status c \<and> cond_Reason d = cond_Reason c
          \<and> (\<forall>old. GetCSPCCondition st (cond_Type c) = Some old \<and> cond_Status old = cond_Status c \<longrightarrow>
                 cond_LastTransitionTime d = cond_LastTransitionTime old))
     \<and> (\<forall>t. t \<noteq> cond_Type c \<longrightarrow> GetCSPCCondition (SetCSPCCondition st c) t = GetCSPCCondition st t)"
  using cspcc.put_keyed [of st c] cspcc.get_put_same [of st c] cspcc.get_put_other [of _ c st] assms
  by (simp add: cspcc.keyed_def)

definition sampleStatus :: CStorPoolClusterStatus where
  "sampleStatus = \<lparr>ProvisionedInstances = 1, DesiredInstances = 1, HealthyInstances = 0,
     cspc_Conditions = [NewCSPCCondition 3 PoolManagerAvailable ''False'' ''r'' ''m'']\<rparr>"

theorem cspc_condition_map_witness:
  "distinct (map cond_Type (cspc_Conditions (SetCSPCCondition sampleStatus (NewCSPCCondition 7 PoolManagerAvailable ''True'' ''s'' ''n''))))"
proof -
  have "distinct (map cond_Type (cspc_Conditions sampleStatus))" by code_simp
  from cspc_condition_map [OF this] show ?thesis by (rule conjunct1)
qed

text \<open>
  The same for pool instances, and there the update is never skipped: a condition with unchanged
  status and reason is still replaced, where the comment on the function says it is not.
\<close>

theorem cspi_condition_map:
  assumes "distinct (map cond_Type (cspi_Conditions st))"
  shows "distinct (map cond_Type (cspi_Conditions (SetCSPICondition st c)))
     \<and> (\<exists>d. GetCSPICondition (SetCSPICondition st c) (cond_Type c) = Some d
          \<and> cond_Message d = cond_Message c \<and> cond_LastUpdateTime d = cond_LastUpdateTime c
          \<and> cond_Status d = cond_Status c \<and> cond_Reason d = cond_Reason c)
     \<and> (\<forall>t. t \<noteq> cond_Type c \<longrightarrow> GetCSPICondition (SetCSPICondition st c) t = GetCSPICondition st t)"
proof -
  have "\<exists>d. GetCSPICondition (SetCSPICondition st c) (cond_Type c) = Some d
      \<and> cond_Message d = cond_Message c \<and> cond_LastUpdateTime d = cond_LastUpdateTime c
      \<and> cond_Status d = cond_Status c \<and> cond_Reason d = cond_Reason c"
    by (auto simp: GetCSPICondition_def SetCSPICondition_def cspi_filterOutCondition_def Let_def
        cspic.find_append cspic.find_filter_same split: option.splits)
  with cspic.put_keyed [of st c] cspic.get_put_other [of _ c st] assms show ?thesis
    by (simp add: cspic.keyed_def)
qed

theorem cspi_condition_map_witness:
  "distinct (map cond_Type (cspi_Conditions (SetCSPICondition
     (emptyCSPIStatus\<lparr>cspi_Conditions := [NewCSPICondition 3 ''PoolExpansion'' ''True'' ''r'' ''m'']\<rparr>)
     (NewCSPICondition 7 ''PoolExpansion'' ''True'' ''r'' ''m''))))"
proof -
  have "distinct (map cond_Type (cspi_Conditions
      (emptyCSPIStatus\<lparr>cspi_Conditions := [NewCSPICondition 3 ''PoolExpansion'' ''True'' ''r'' ''m'']\<rparr>)))"
    by code_simp
  from cspi_condition_map [OF this] show ?thesis by (rule conjunct1)
qed

end
