(* ===== verification/CspcOperator.thy ===== *)
theory CspcOperator
  imports PoolDeploy Conditions
begin

text \<open>
  The reconciler of CStorPoolClusters, \<open>src/pkg/controllers/cspc-controller\<close>: day-2 operations
  (\<open>operations.go\<close>), scale up and down (\<open>scale.go\<close>), cleanup of deleted instances
  (\<open>cleanup.go\<close>), status (\<open>status.go\<close>) and one reconcile round (\<open>sync.go\<close>,
  \<open>handler.go\<close>). A handler is an action on the API server. Events, log lines and the sleep
  between retries are not modelled. An object that the Go code mutates through a pointer is
  returned updated where a later step reads it.
\<close>

section \<open>Raid groups of the cluster and of an instance\<close>

definition isRaidGroupPresentOnCSPI :: "RaidGroup \<Rightarrow> CStorPoolInstance \<Rightarrow> bool" where
  "isRaidGroupPresentOnCSPI grp cspi =
     list_ex (\<lambda>b. b \<in> set (rgBDNames grp)) (dataBDNames (cspi_Spec cspi))"

definition getAddedBlockDevicesInGroup :: "RaidGroup \<Rightarrow> RaidGroup \<Rightarrow> string list" where
  "getAddedBlockDevicesInGroup groupOnCSPC groupOnCSPI =
     filter (\<lambda>b. b \<notin> set (rgBDNames groupOnCSPI)) (rgBDNames groupOnCSPC)"

definition isPoolSpecBlockDevicesGotReplaced :: "PoolSpec \<Rightarrow> CStorPoolInstance \<Rightarrow> bool" where
  "isPoolSpecBlockDevicesGotReplaced cspcPoolSpec cspi =
     list_ex (\<lambda>b. b \<notin> set (dataBDNames cspcPoolSpec)) (dataBDNames (cspi_Spec cspi))"

definition misMatchedBDCount :: "RaidGroup \<Rightarrow> RaidGroup \<Rightarrow> nat" where
  "misMatchedBDCount cspcRaidGroup cspiRaidGroup =
     length (filter (\<lambda>b. b \<notin> set (rgBDNames cspcRaidGroup)) (rgBDNames cspiRaidGroup))"

text \<open>
  The result is a pointer to a copy of the group, but the copy shares the array of devices with
  the instance, so a device written through it is written to the instance: the model gives the
  position of the group.
\<close>

definition getReplacedCSPIRaidGroup :: "RaidGroup \<Rightarrow> RaidGroup list \<Rightarrow> nat option" where
  "getReplacedCSPIRaidGroup cspcRaidGroup cspiGroups =
     find (\<lambda>i. misMatchedBDCount cspcRaidGroup (cspiGroups ! i) = 1) [0..<length cspiGroups]"

definition setDataRaidGroups :: "RaidGroup list \<Rightarrow> CStorPoolInstance \<Rightarrow> CStorPoolInstance" where
  "setDataRaidGroups rgs cspi = cspi\<lparr>cspi_Spec := (cspi_Spec cspi)\<lparr>DataRaidGroups := rgs\<rparr>\<rparr>"

section \<open>Claims and usable devices\<close>

definition getCSPIWithNodeName :: "'s env \<Rightarrow> 's \<Rightarrow> Config \<Rightarrow> string \<Rightarrow> CStorPoolInstance res" where
  "getCSPIWithNodeName E s ac nodeName =
     (let pick = (\<lambda>items. case filter (HasNodeName E nodeName) items of
                             [cspi] \<Rightarrow> Ok cspi | _ \<Rightarrow> Err (Errorf ''No CSPI(s) found'' []))
      in case cspi_list E s (ac_Namespace ac) (clusterSelector (Name (ac_CSPC ac))) of
           Panic m \<Rightarrow> Panic m
         | Err e \<Rightarrow> pick []
         | Ok items \<Rightarrow> pick items)"

text \<open>The error of the \<open>Get\<close> is overwritten before it is looked at; the object is then empty.\<close>

definition isBDUsable :: "'s env \<Rightarrow> 's \<Rightarrow> Config \<Rightarrow> string \<Rightarrow> verdict" where
  "isBDUsable E s ac bdName =
     bindR (case bd_get E s (ac_Namespace ac) bdName of
              Panic m \<Rightarrow> Panic m | Err e \<Rightarrow> Ok emptyBlockDevice | Ok b \<Rightarrow> Ok b) (\<lambda>bdObj.
     bindR (wrapR (IsClaimedBDUsable E s ac bdObj)
              ''bd %s cannot be used as could not get claim status'' [AS bdName]) (\<lambda>usable.
       if \<not> usable
       then Err (Errorf ''BD %s cannot be used as it is already claimed but not by cspc'' [AS bdName])
       else Ok ()))"

definition pc_ClaimBD :: "'s env \<Rightarrow> Config \<Rightarrow> string \<Rightarrow> ('s, unit) act" where
  "pc_ClaimBD E ac bdName =
     bindS (readS (\<lambda>s. wrapR (bd_get E s (ac_Namespace ac) bdName) ''could not get bd object %s'' [AS bdName])) (\<lambda>bdObj.
       if bd_ClaimState bdObj = BlockDeviceClaimed then returnS ()
       else wrapS (ac_ClaimBD E ac bdObj) ''failed to claim bd %s'' [AS bdName])"

definition ClaimBDList :: "'s env \<Rightarrow> Config \<Rightarrow> string list \<Rightarrow> ('s, unit) act" where
  "ClaimBDList E ac bdList = foldS (\<lambda>bdName _. ignoreS (pc_ClaimBD E ac bdName)) bdList ()"

section \<open>Expansion\<close>

text \<open>One turn of the loop of \<open>addGroupToPool\<close>.\<close>

definition addGroupStep :: "'s env \<Rightarrow> Config \<Rightarrow> RaidGroup \<Rightarrow> CStorPoolInstance \<Rightarrow> ('s, CStorPoolInstance) act" where
  "addGroupStep E ac cspcRaidGroup cspi =
     (if isRaidGroupPresentOnCSPI cspcRaidGroup cspi then returnS cspi
      else
        bindS (ClaimBDList E ac (rgBDNames cspcRaidGroup)) (\<lambda>_.
        bindS (attemptS (readS (\<lambda>s. checkAll (isBDUsable E s ac) (rgBDNames cspcRaidGroup)))) (\<lambda>validGroup.
          returnS (if isOk validGroup
                   then setDataRaidGroups (DataRaidGroups (cspi_Spec cspi) @ [cspcRaidGroup]) cspi
                   else cspi))))"

definition addGroupToPool :: "'s env \<Rightarrow> Config \<Rightarrow> PoolSpec \<Rightarrow> CStorPoolInstance \<Rightarrow> ('s, CStorPoolInstance) act" where
  "addGroupToPool E ac cspcPoolSpec = foldS (addGroupStep E ac) (DataRaidGroups cspcPoolSpec)"

text \<open>The loop that appends new devices up to the first one that cannot be used.\<close>

fun appendUsable ::
    "'s env \<Rightarrow> 's \<Rightarrow> Config \<Rightarrow> string list \<Rightarrow> CStorPoolInstanceBlockDevice list \<Rightarrow> CStorPoolInstanceBlockDevice list res" where
  "appendUsable E s ac [] bds = Ok bds"
| "appendUsable E s ac (bdName # newBDs) bds =
     (case isBDUsable E s ac bdName of
        Panic m \<Rightarrow> Panic m
      | Err e \<Rightarrow> Ok bds
      | Ok _ \<Rightarrow> appendUsable E s ac newBDs
                  (bds @ [\<lparr>BlockDeviceName = bdName, cbd_Capacity = 0, cbd_DevLink = ''''\<rparr>]))"

definition addBlockDeviceToGroup :: "'s env \<Rightarrow> Config \<Rightarrow> RaidGroup \<Rightarrow> CStorPoolInstance \<Rightarrow> ('s, CStorPoolInstance) act" where
  "addBlockDeviceToGroup E ac grp cspi0 =
     foldS (\<lambda>i cspi.
       let groups = DataRaidGroups (cspi_Spec cspi); groupOnCSPI = groups ! i in
       if isRaidGroupPresentOnCSPI grp cspi
          \<and> length (CStorPoolInstanceBlockDevices grp) > length (CStorPoolInstanceBlockDevices groupOnCSPI)
       then
         let newBDs = getAddedBlockDevicesInGroup grp groupOnCSPI in
         bindS (ClaimBDList E ac newBDs) (\<lambda>_.
         bindS (readS (\<lambda>s. appendUsable E s ac newBDs (CStorPoolInstanceBlockDevices groupOnCSPI))) (\<lambda>bds.
           returnS (setDataRaidGroups (groups[i := groupOnCSPI\<lparr>CStorPoolInstanceBlockDevices := bds\<rparr>]) cspi)))
       else returnS cspi)
       [0..<length (DataRaidGroups (cspi_Spec cspi0))] cspi0"

definition expandExistingStripedGroup ::
    "'s env \<Rightarrow> Config \<Rightarrow> PoolSpec \<Rightarrow> CStorPoolInstance \<Rightarrow> ('s, CStorPoolInstance) act" where
  "expandExistingStripedGroup E ac cspcPoolSpec =
     foldS (\<lambda>cspcGroup cspi.
       if DataRaidGroupType (poolConfig cspcPoolSpec) \<noteq> PoolStriped \<or> \<not> isRaidGroupPresentOnCSPI cspcGroup cspi
       then returnS cspi
       else addBlockDeviceToGroup E ac cspcGroup cspi)
       (DataRaidGroups cspcPoolSpec)"

text \<open>Finding the instance of a pool of the cluster, as \<open>expandPool\<close> and \<open>replaceBlockDevice\<close> begin.\<close>

definition instanceOfPool :: "'s env \<Rightarrow> 's \<Rightarrow> Config \<Rightarrow> PoolSpec \<Rightarrow> CStorPoolInstance res" where
  "instanceOfPool E s ac pool =
     bindR (wrapR (GetNodeFromLabelSelector E s (NodeSelector pool))
              ''could not get node name for node selector {%v} from cspc %s''
              [AM (NodeSelector pool), AS (Name (ac_CSPC ac))]) (\<lambda>nodeName.
       wrapR (getCSPIWithNodeName E s ac nodeName) ''failed to get cspi with node name %s'' [AS nodeName])"

definition expandPool :: "'s env \<Rightarrow> Config \<Rightarrow> ('s, unit) act" where
  "expandPool E ac =
     foldS (\<lambda>pool _.
       bindS (readS (\<lambda>s. instanceOfPool E s ac pool)) (\<lambda>cspiObj.
       bindS (if length (DataRaidGroups pool) > length (DataRaidGroups (cspi_Spec cspiObj))
              then addGroupToPool E ac pool cspiObj else returnS cspiObj) (\<lambda>cspiObj.
       bindS (expandExistingStripedGroup E ac pool cspiObj) (\<lambda>cspiObj.
         ignoreS (\<lambda>s. cspi_update E s (ac_Namespace ac) cspiObj)))))
       (Pools (cspc_Spec (ac_CSPC ac))) ()"

section \<open>Replacement\<close>

text \<open>
  Both names are looked for in a map used as a set, in the run's order. Only the first device
  with the old name is rewritten.
\<close>

fun renameFirst :: "string \<Rightarrow> string \<Rightarrow> CStorPoolInstanceBlockDevice list \<Rightarrow> CStorPoolInstanceBlockDevice list" where
  "renameFirst old new [] = []"
| "renameFirst old new (bd # bds) =
     (if BlockDeviceName bd = old then bd\<lparr>BlockDeviceName := new\<rparr> # bds else bd # renameFirst old new bds)"

definition replaceExistingBlockDevice :: "'s env \<Rightarrow> 's \<Rightarrow> Config \<Rightarrow> RaidGroup \<Rightarrow> RaidGroup \<Rightarrow> RaidGroup res" where
  "replaceExistingBlockDevice E s ac cspcRaidGroup cspiRaidGroup =
     (let oldBD = firstNotIn (setOrder E (rgBDNames cspiRaidGroup)) (rgBDNames cspcRaidGroup);
          newBD = firstNotIn (setOrder E (rgBDNames cspcRaidGroup)) (rgBDNames cspiRaidGroup)
      in if oldBD = '''' \<or> newBD = ''''
         then Err (Errorf ''failed to find new block device {%s} or old block device {%s}'' [AS oldBD, AS newBD])
         else
           bindR (wrapR (isBDUsable E s ac newBD) ''could not use bd %s for replacement'' [AS newBD]) (\<lambda>_.
             Ok (cspiRaidGroup\<lparr>CStorPoolInstanceBlockDevices :=
                    renameFirst oldBD newBD (CStorPoolInstanceBlockDevices cspiRaidGroup)\<rparr>)))"

text \<open>One turn of the loop of \<open>updateExistingCSPI\<close>; an error is logged and the instance kept.\<close>

definition updateGroup :: "'s env \<Rightarrow> 's \<Rightarrow> Config \<Rightarrow> RaidGroup \<Rightarrow> RaidGroup list \<Rightarrow> RaidGroup list res" where
  "updateGroup E s ac cspcRaidGroup cspiGroups =
     (case getReplacedCSPIRaidGroup cspcRaidGroup cspiGroups of
        None \<Rightarrow> Ok cspiGroups
      | Some i \<Rightarrow>
          (case replaceExistingBlockDevice E s ac cspcRaidGroup (cspiGroups ! i) of
             Panic m \<Rightarrow> Panic m
           | Err e \<Rightarrow> Ok cspiGroups
           | Ok rg \<Rightarrow> Ok (cspiGroups[i := rg])))"

definition updateExistingCSPI :: "'s env \<Rightarrow> 's \<Rightarrow> Config \<Rightarrow> PoolSpec \<Rightarrow> CStorPoolInstance \<Rightarrow> CStorPoolInstance res" where
  "updateExistingCSPI E s ac cspcPoolSpec cspi =
     bindR (foldR (updateGroup E s ac) (DataRaidGroups cspcPoolSpec) (DataRaidGroups (cspi_Spec cspi))) (\<lambda>groups.
       Ok (setDataRaidGroups groups cspi))"

definition replaceBlockDevice :: "'s env \<Rightarrow> Config \<Rightarrow> ('s, unit) act" where
  "replaceBlockDevice E ac =
     foldS (\<lambda>pool _.
       bindS (readS (\<lambda>s. instanceOfPool E s ac pool)) (\<lambda>cspiObj.
       whenS (isPoolSpecBlockDevicesGotReplaced pool cspiObj)
         (bindS (readS (\<lambda>s. updateExistingCSPI E s ac pool cspiObj)) (\<lambda>cspiObj.
            ignoreS (\<lambda>s. cspi_update E s (ac_Namespace ac) cspiObj)))))
       (Pools (cspc_Spec (ac_CSPC ac))) ()"

definition handleOperations :: "'s env \<Rightarrow> Config \<Rightarrow> ('s, unit) act" where
  "handleOperations E ac = bindS (ignoreS (expandPool E ac)) (\<lambda>_. ignoreS (replaceBlockDevice E ac))"

section \<open>Usable devices and replaced groups\<close>

lemma isBDUsable_iff:
  "isBDUsable E s ac b = Ok () \<longleftrightarrow> claimedByCluster E s (ac_Namespace ac) (Name (ac_CSPC ac)) b"
proof (cases "bd_get E s (ac_Namespace ac) b")
  case (Ok bd)
  have "isBDUsable E s ac b = Ok () \<longleftrightarrow> IsClaimedBDUsable E s ac bd = Ok True"
    using Ok by (cases "IsClaimedBDUsable E s ac bd") (simp_all add: isBDUsable_def)
  with Ok show ?thesis by (simp add: IsClaimedBDUsable_iff claimedByCluster_def)
next
  case (Err e)
  have "IsClaimedBDUsable E s ac emptyBlockDevice \<noteq> Ok True"
    by (simp add: IsClaimedBDUsable_iff emptyBlockDevice_def BlockDeviceClaimed_def)
  with Err show ?thesis by (auto simp: isBDUsable_def claimedByCluster_def bindR_Ok_iff)
qed (auto simp: isBDUsable_def claimedByCluster_def)

lemma names_renameFirst:
  "map BlockDeviceName (renameFirst old new bds) =
     (let ns = map BlockDeviceName bds in
      if old \<in> set ns then takeWhile (\<lambda>n. n \<noteq> old) ns @ new # tl (dropWhile (\<lambda>n. n \<noteq> old) ns) else ns)"
  by (induction old new bds rule: renameFirst.induct) (auto simp: Let_def)

lemma set_renameFirst:
  assumes "distinct (map BlockDeviceName bds)" and "old \<in> BlockDeviceName ` set bds"
  shows "BlockDeviceName ` set (renameFirst old new bds) = insert new (BlockDeviceName ` set bds - {old})"
  using assms by (induction old new bds rule: renameFirst.induct) (auto simp: image_iff)

lemma length_renameFirst [simp]: "length (renameFirst old new bds) = length bds"
  by (induction old new bds rule: renameFirst.induct) auto

lemma firstNotIn_mem:
  assumes "firstNotIn xs ys \<noteq> ''''"
  shows "firstNotIn xs ys \<in> set xs - set ys"
proof (cases "find (\<lambda>x. x \<notin> set ys) xs")
  case None
  with assms show ?thesis by (simp add: firstNotIn_def)
next
  case (Some x)
  then have "firstNotIn xs ys = x" by (simp add: firstNotIn_def)
  moreover from Some have "x \<in> set xs - set ys" by (auto simp: find_Some_iff)
  ultimately show ?thesis by simp
qed

lemma set_rgBDNames: "set (rgBDNames rg) = BlockDeviceName ` set (CStorPoolInstanceBlockDevices rg)"
  by (simp add: rgBDNames_def)

lemma replaceExisting_Ok:
  assumes "replaceExistingBlockDevice E s ac newRg oldRg = Ok rg" and "\<And>xs. set (setOrder E xs) = set xs"
    and "distinct (rgBDNames oldRg)"
  shows "\<exists>old new. old \<in> set (rgBDNames oldRg) - set (rgBDNames newRg) \<and> new \<in> set (rgBDNames newRg) - set (rgBDNames oldRg)
     \<and> claimedByCluster E s (ac_Namespace ac) (Name (ac_CSPC ac)) new
     \<and> set (rgBDNames rg) = insert new (set (rgBDNames oldRg) - {old})
     \<and> length (rgBDNames rg) = length (rgBDNames oldRg)"
proof -
  let ?old = "firstNotIn (setOrder E (rgBDNames oldRg)) (rgBDNames newRg)"
  let ?new = "firstNotIn (setOrder E (rgBDNames newRg)) (rgBDNames oldRg)"
  from assms(1) have ne: "?old \<noteq> ''''" "?new \<noteq> ''''" and u: "isBDUsable E s ac ?new = Ok ()"
    and rg: "rg = oldRg\<lparr>CStorPoolInstanceBlockDevices := renameFirst ?old ?new (CStorPoolInstanceBlockDevices oldRg)\<rparr>"
    by (auto simp: replaceExistingBlockDevice_def Let_def bindR_Ok_iff split: if_splits)
  from firstNotIn_mem [OF ne(1)] firstNotIn_mem [OF ne(2)] assms(2)
  have mem: "?old \<in> set (rgBDNames oldRg) - set (rgBDNames newRg)" "?new \<in> set (rgBDNames newRg) - set (rgBDNames oldRg)" by auto
  moreover have "set (rgBDNames rg) = insert ?new (set (rgBDNames oldRg) - {?old})"
    using set_renameFirst [of "CStorPoolInstanceBlockDevices oldRg" ?old ?new] mem(1) assms(3) rg
    by (simp add: set_rgBDNames) (simp add: rgBDNames_def)
  moreover from rg have "length (rgBDNames rg) = length (rgBDNames oldRg)" by simp
  ultimately show ?thesis using u unfolding isBDUsable_iff by blast
qed

lemma firstNotIn_ne:
  assumes "x \<in> set xs - set ys" and "'''' \<notin> set xs"
  shows "firstNotIn xs ys \<noteq> ''''"
proof (cases "find (\<lambda>x. x \<notin> set ys) xs")
  case None
  with assms(1) show ?thesis by (auto simp: find_None_iff)
next
  case (Some y)
  with assms(2) show ?thesis by (auto simp: firstNotIn_def dest: find_mem)
qed

lemma getReplaced_first:
  assumes "\<forall>g \<in> set before. misMatchedBDCount n g \<noteq> 1" and "misMatchedBDCount n g = 1"
  shows "getReplacedCSPIRaidGroup n (before @ g # rest) = Some (length before)"
proof -
  have "misMatchedBDCount n ((before @ g # rest) ! j) \<noteq> 1" if "j < length before" for j
    using that assms(1) by (simp add: nth_append)
  with assms(2) show ?thesis
    unfolding getReplacedCSPIRaidGroup_def find_Some_iff by (intro exI [of _ "length before"]) (simp del: upt_Suc)
qed

lemma getReplaced_none:
  "\<forall>g \<in> set gs. misMatchedBDCount n g \<noteq> 1 \<Longrightarrow> getReplacedCSPIRaidGroup n gs = None"
  by (auto simp: getReplacedCSPIRaidGroup_def find_None_iff)

lemma misMatched_disjoint:
  "set (rgBDNames n) \<inter> set (rgBDNames g) = {} \<Longrightarrow> misMatchedBDCount n g = length (rgBDNames g)"
  unfolding misMatchedBDCount_def by (subst filter_True) auto

text \<open>
  What a pair of an instance's group and the cluster's group must satisfy: it is a change the
  webhook allows, in a group that is no stripe and has two devices or more, with named devices, and
  the new device is already claimed by the cluster.
\<close>

definition pairDevices :: "RaidGroup \<times> RaidGroup \<Rightarrow> string set" where
  "pairDevices p = set (rgBDNames (fst p)) \<union> set (rgBDNames (snd p))"

definition replacementReady :: "'s env \<Rightarrow> 's \<Rightarrow> Config \<Rightarrow> string \<Rightarrow> RaidGroup \<times> RaidGroup \<Rightarrow> bool" where
  "replacementReady E s ac t p \<longleftrightarrow>
     (let o_names = rgBDNames (fst p); n_names = rgBDNames (snd p) in
      t \<noteq> PoolStriped \<and> groupChangeOk t (fst p) (snd p) \<and> distinct o_names \<and> distinct n_names
      \<and> 2 \<le> length o_names \<and> '''' \<notin> pairDevices p
      \<and> (\<forall>b \<in> set n_names - set o_names. claimedByCluster E s (ac_Namespace ac) (Name (ac_CSPC ac)) b))"

lemma exchange_one:
  assumes "finite A" and "card A = card B" and "finite B" and "card (A - B) \<le> 1" and "a \<in> A - B" and "b \<in> B - A"
  shows "insert b (A - {a}) = B"
proof -
  have "A - B = {a}" using assms(4,5,1) by (metis One_nat_def card_1_singletonE card_gt_0_iff empty_iff finite_Diff le_antisym singletonD Suc_leI)
  then have "A - {a} \<subseteq> B" by blast
  then have sub: "insert b (A - {a}) \<subseteq> B" using assms(6) by blast
  have "card (insert b (A - {a})) = card B"
    using assms by (simp add: card_Diff_singleton card_gt_0_iff) (metis Suc_pred card_gt_0_iff empty_iff)
  with sub assms(3) show ?thesis by (metis card_subset_eq)
qed

lemma updateGroup_pair:
  assumes ready: "replacementReady E s ac t (old, new)" and ord: "\<And>xs. set (setOrder E xs) = set xs"
    and others: "\<forall>g \<in> set before \<union> set rest. 2 \<le> length (rgBDNames g) \<and> set (rgBDNames g) \<inter> pairDevices (old, new) = {}"
  shows "\<exists>g. updateGroup E s ac new (before @ old # rest) = Ok (before @ g # rest)
     \<and> set (rgBDNames g) = set (rgBDNames new) \<and> length (rgBDNames g) = length (rgBDNames old)"
proof -
  let ?A = "set (rgBDNames old)" and ?B = "set (rgBDNames new)"
  from ready have dist: "distinct (rgBDNames old)" "distinct (rgBDNames new)"
    and len: "length (rgBDNames new) = length (rgBDNames old)" and one: "card (?A - ?B) \<le> 1"
    and ne: "'''' \<notin> ?A" "'''' \<notin> ?B" and use: "\<forall>b \<in> ?B - ?A. isBDUsable E s ac b = Ok ()"
    by (auto simp: replacementReady_def Let_def groupChangeOk_def pairDevices_def isBDUsable_iff)
  from dist len have cards: "card ?A = card ?B" by (simp add: distinct_card)
  have mm: "misMatchedBDCount new old = card (?A - ?B)"
    using dist(1) by (simp add: misMatchedBDCount_def length_filter_notin_card)
  have no: "\<forall>g \<in> set before \<union> set rest. misMatchedBDCount new g \<noteq> 1"
  proof
    fix g
    assume "g \<in> set before \<union> set rest"
    with others have "2 \<le> length (rgBDNames g)" and "set (rgBDNames new) \<inter> set (rgBDNames g) = {}"
      by (auto simp: pairDevices_def)
    with misMatched_disjoint [of new g] show "misMatchedBDCount new g \<noteq> 1" by simp
  qed
  show ?thesis
  proof (cases "card (?A - ?B) = 0")
    case True
    then have "?A \<subseteq> ?B" by simp
    with cards have "?A = ?B" by (simp add: card_subset_eq)
    moreover have "getReplacedCSPIRaidGroup new (before @ old # rest) = None"
      using no mm True by (intro getReplaced_none) auto
    ultimately show ?thesis by (auto simp: updateGroup_def intro!: exI [of _ old])
  next
    case False
    with one mm have "misMatchedBDCount new old = 1" by linarith
    with no have at: "getReplacedCSPIRaidGroup new (before @ old # rest) = Some (length before)"
      by (intro getReplaced_first) auto
    from False obtain a where a: "a \<in> ?A - ?B" by (metis card.empty ex_in_conv)
    from False have "card (?B - ?A) \<noteq> 0" using card_diff_swap [OF dist len [symmetric]] by linarith
    then obtain b where b: "b \<in> ?B - ?A" by (metis card.empty ex_in_conv)
    let ?o = "firstNotIn (setOrder E (rgBDNames old)) (rgBDNames new)"
    let ?n = "firstNotIn (setOrder E (rgBDNames new)) (rgBDNames old)"
    have "?o \<noteq> ''''" "?n \<noteq> ''''" 
      using a b ne firstNotIn_ne [of a "setOrder E (rgBDNames old)" "rgBDNames new"]
        firstNotIn_ne [of b "setOrder E (rgBDNames new)" "rgBDNames old"] by (simp_all add: ord)
    then obtain g where g: "replaceExistingBlockDevice E s ac new old = Ok g"
      using use ord firstNotIn_mem [OF \<open>?n \<noteq> ''''\<close>] by (simp add: replaceExistingBlockDevice_def Let_def)
    from replaceExisting_Ok [OF g ord dist(1)] obtain x y where "x \<in> ?A - ?B" "y \<in> ?B - ?A"
      and "set (rgBDNames g) = insert y (?A - {x})" and "length (rgBDNames g) = length (rgBDNames old)" by blast
    moreover from this have "insert y (?A - {x}) = ?B" using cards one by (intro exchange_one) auto
    ultimately show ?thesis using at g by (auto simp: updateGroup_def)
  qed
qed

lemma updateGroups_fold:
  assumes "\<And>xs. set (setOrder E xs) = set xs" and "\<forall>p \<in> set pairs. replacementReady E s ac t p"
    and "sorted_wrt (\<lambda>p q. pairDevices p \<inter> pairDevices q = {}) pairs"
    and "\<forall>g \<in> set before. 2 \<le> length (rgBDNames g) \<and> (\<forall>p \<in> set pairs. set (rgBDNames g) \<inter> pairDevices p = {})"
  shows "\<exists>gs. foldR (updateGroup E s ac) (map snd pairs) (before @ map fst pairs) = Ok (before @ gs)
     \<and> list_all2 (\<lambda>g p. set (rgBDNames g) = set (rgBDNames (snd p))) gs pairs"
  using assms(2-4)
proof (induction pairs arbitrary: before)
  case Nil
  then show ?case by simp
next
  case (Cons p pairs)
  obtain old new where p: "p = (old, new)" by (cases p)
  have rest: "\<forall>g \<in> set (map fst pairs). 2 \<le> length (rgBDNames g) \<and> set (rgBDNames g) \<inter> pairDevices p = {}"
    using Cons.prems(1,2) by (fastforce simp: replacementReady_def Let_def pairDevices_def)
  from updateGroup_pair [of E s ac t old new before "map fst pairs"] Cons.prems rest p assms(1)
  obtain g where g: "updateGroup E s ac new (before @ old # map fst pairs) = Ok (before @ g # map fst pairs)"
    and gn: "set (rgBDNames g) = set (rgBDNames new)" and gl: "length (rgBDNames g) = length (rgBDNames old)"
    by auto
  have "2 \<le> length (rgBDNames g)" using gl Cons.prems(1) p by (simp add: replacementReady_def Let_def)
  moreover have "set (rgBDNames g) \<inter> pairDevices q = {}" if "q \<in> set pairs" for q
    using gn Cons.prems(2) p that by (fastforce simp: pairDevices_def)
  ultimately have "\<exists>gs. foldR (updateGroup E s ac) (map snd pairs) ((before @ [g]) @ map fst pairs) = Ok ((before @ [g]) @ gs)
     \<and> list_all2 (\<lambda>g p. set (rgBDNames g) = set (rgBDNames (snd p))) gs pairs"
    using Cons.prems by (intro Cons.IH) auto
  then obtain gs where "foldR (updateGroup E s ac) (map snd pairs) (before @ g # map fst pairs) = Ok (before @ g # gs)"
    and "list_all2 (\<lambda>g p. set (rgBDNames g) = set (rgBDNames (snd p))) gs pairs" by auto
  with g gn p show ?case by (intro exI [of _ "g # gs"]) simp
qed

section \<open>Expanded groups\<close>

lemma appendUsable_names:
  "appendUsable E s ac newBDs bds = Ok bds' \<Longrightarrow>
   \<exists>k. map BlockDeviceName bds' = map BlockDeviceName bds @ take k newBDs
     \<and> (\<forall>b \<in> set (take k newBDs). claimedByCluster E s (ac_Namespace ac) (Name (ac_CSPC ac)) b)
     \<and> (k < length newBDs \<longrightarrow> \<not> claimedByCluster E s (ac_Namespace ac) (Name (ac_CSPC ac)) (newBDs ! k))"
proof (induction E s ac newBDs bds rule: appendUsable.induct)
  case (1 E s ac bds)
  then show ?case by auto
next
  case (2 E s ac b newBDs bds)
  show ?case
  proof (cases "isBDUsable E s ac b")
    case (Ok u)
    with 2 obtain k where "map BlockDeviceName bds' = map BlockDeviceName bds @ b # take k newBDs"
      and "\<forall>b \<in> set (take k newBDs). claimedByCluster E s (ac_Namespace ac) (Name (ac_CSPC ac)) b"
      and "k < length newBDs \<longrightarrow> \<not> claimedByCluster E s (ac_Namespace ac) (Name (ac_CSPC ac)) (newBDs ! k)"
      by auto
    moreover from Ok have "claimedByCluster E s (ac_Namespace ac) (Name (ac_CSPC ac)) b"
      unfolding isBDUsable_iff [symmetric] by simp
    ultimately show ?thesis by (intro exI [of _ "Suc k"]) simp
  next
    case (Err e)
    moreover from Err have "\<not> claimedByCluster E s (ac_Namespace ac) (Name (ac_CSPC ac)) b"
      unfolding isBDUsable_iff [symmetric] by simp
    ultimately show ?thesis using 2 by (intro exI [of _ 0]) simp
  next
    case (Panic m)
    with 2 show ?thesis by simp
  qed
qed

lemma addBlockDevice_single:
  assumes "addBlockDeviceToGroup E ac grp cspi s = (Ok cspi', s')" and "DataRaidGroups (cspi_Spec cspi) = [rg]"
  shows "\<exists>k bds. DataRaidGroups (cspi_Spec cspi') = [rg\<lparr>CStorPoolInstanceBlockDevices := bds\<rparr>]
     \<and> map BlockDeviceName bds = rgBDNames rg @ take k (getAddedBlockDevicesInGroup grp rg)
     \<and> (\<forall>b \<in> set (take k (getAddedBlockDevicesInGroup grp rg)). claimedByCluster E s' (ac_Namespace ac) (Name (ac_CSPC ac)) b)"
proof (cases "isRaidGroupPresentOnCSPI grp cspi \<and> length (CStorPoolInstanceBlockDevices grp) > length (CStorPoolInstanceBlockDevices rg)")
  case True
  with assms obtain bds t where t: "appendUsable E t ac (getAddedBlockDevicesInGroup grp rg) (CStorPoolInstanceBlockDevices rg) = Ok bds"
    and "cspi' = setDataRaidGroups [rg\<lparr>CStorPoolInstanceBlockDevices := bds\<rparr>] cspi" and "s' = t"
    by (auto simp: addBlockDeviceToGroup_def bindS_Ok_iff Let_def)
  moreover from appendUsable_names [OF t] obtain k where "map BlockDeviceName bds = rgBDNames rg @ take k (getAddedBlockDevicesInGroup grp rg)"
    and "\<forall>b \<in> set (take k (getAddedBlockDevicesInGroup grp rg)). claimedByCluster E t (ac_Namespace ac) (Name (ac_CSPC ac)) b"
    by (auto simp: rgBDNames_def)
  ultimately show ?thesis by (intro exI [of _ k] exI [of _ bds]) (simp add: setDataRaidGroups_def)
next
  case False
  with assms have "cspi' = cspi" by (auto simp: addBlockDeviceToGroup_def bindS_Ok_iff Let_def)
  with assms(2) show ?thesis
    by (intro exI [of _ 0] exI [of _ "CStorPoolInstanceBlockDevices rg"]) (simp add: rgBDNames_def)
qed


lemma ac_ClaimBD_keeps:
  assumes "\<And>s ns c. I s \<Longrightarrow> I (snd (bdc_create E s ns c))"
  shows "keeps I (ac_ClaimBD E ac bd)"
proof (rule keepsI)
  fix s assume "I s"
  then have "I t" if "bdc_create E s ns c = (r, t)" for ns c r t
    using assms [of s ns c] that by simp
  with \<open>I s\<close> show "I (snd (ac_ClaimBD E ac bd s))"
    by (auto simp: ac_ClaimBD_def Let_def split: res.splits prod.splits)
qed

lemma ClaimBDList_keeps:
  assumes "\<And>s ns c. I s \<Longrightarrow> I (snd (bdc_create E s ns c))"
  shows "keeps I (ClaimBDList E ac bds)"
  unfolding ClaimBDList_def pc_ClaimBD_def by (intro keeps_intros ac_ClaimBD_keeps assms)

definition groupClaimed :: "'s env \<Rightarrow> 's \<Rightarrow> Config \<Rightarrow> RaidGroup \<Rightarrow> bool" where
  "groupClaimed E s ac g \<longleftrightarrow> (\<forall>b \<in> set (rgBDNames g). claimedByCluster E s (ac_Namespace ac) (Name (ac_CSPC ac)) b)"

lemma addGroupStep_Ok:
  assumes "addGroupStep E ac g c s = (Ok c', s')"
  shows "c' = c \<or> DataRaidGroups (cspi_Spec c') = DataRaidGroups (cspi_Spec c) @ [g]
     \<and> \<not> isRaidGroupPresentOnCSPI g c \<and> groupClaimed E s' ac g"
  using assms
  by (auto simp: addGroupStep_def bindS_Ok_iff attemptS_Ok_iff checkAll_Ok_iff isBDUsable_iff setDataRaidGroups_def
      groupClaimed_def split: if_splits)

lemma addGroupStep_keeps:
  assumes "\<And>s ns c. I s \<Longrightarrow> I (snd (bdc_create E s ns c))"
  shows "keeps I (addGroupStep E ac g c)"
  unfolding addGroupStep_def by (intro keeps_intros ClaimBDList_keeps assms)

lemma addGroups_Ok:
  assumes stable: "\<And>s ns c g. groupClaimed E s ac g \<Longrightarrow> groupClaimed E (snd (bdc_create E s ns c)) ac g"
    and "foldS (addGroupStep E ac) gs c s = (Ok c', s')"
  shows "\<exists>added. DataRaidGroups (cspi_Spec c') = DataRaidGroups (cspi_Spec c) @ added
     \<and> (\<forall>g \<in> set added. g \<in> set gs \<and> groupClaimed E s' ac g)
     \<and> (\<forall>g. groupClaimed E s ac g \<longrightarrow> groupClaimed E s' ac g)"
  using assms(2)
proof (induction gs arbitrary: c s)
  case Nil
  then show ?case by simp
next
  case (Cons g gs)
  from Cons.prems obtain c1 t1 where step: "addGroupStep E ac g c s = (Ok c1, t1)"
    and rest: "foldS (addGroupStep E ac) gs c1 t1 = (Ok c', s')" by (auto simp: bindS_Ok_iff)
  from Cons.IH [OF rest] obtain added where added: "DataRaidGroups (cspi_Spec c') = DataRaidGroups (cspi_Spec c1) @ added"
    "\<forall>g \<in> set added. g \<in> set gs \<and> groupClaimed E s' ac g"
    and later: "\<forall>g. groupClaimed E t1 ac g \<longrightarrow> groupClaimed E s' ac g" by blast
  have "groupClaimed E t1 ac h" if "groupClaimed E s ac h" for h
    using keepsD [OF addGroupStep_keeps [of "\<lambda>s. groupClaimed E s ac h"], OF stable that] step by (metis snd_conv)
  with addGroupStep_Ok [OF step] added later show ?case by (elim disjE) (auto intro!: exI [of _ "g # added"])
qed

section \<open>Properties\<close>


definition claimedStore :: store where
  "claimedStore = sampleStore\<lparr>
     st_bds := map (\<lambda>b. if Name b = ''a3'' then sampleBD ''a3'' ''n1'' (Some ''bdc-a3'') 2147483648 else b) (st_bds sampleStore),
     st_bdcs := st_bdcs sampleStore @ [sampleBDC ''bdc-a3'' ''a3'' ''c1'']\<rparr>"

lemma claimedStore_a3: "claimedByCluster sampleEnv claimedStore ''openebs'' ''c1'' ''a3''"
proof -
  have "isBDUsable sampleEnv claimedStore (sampleConfig sampleNew) ''a3'' = Ok ()" by code_simp
  then show ?thesis
    unfolding isBDUsable_iff by (simp add: sampleConfig_def sampleNew_def sampleCSPC_def sampleMeta_def ObjectMeta.defs)
qed


lemma sample_claims_stable:
  assumes "claimedByCluster sampleEnv s ns n b"
  shows "claimedByCluster sampleEnv (snd (bdc_create sampleEnv s ns' c)) ns n b"
proof -
  have "find P (xs @ ys) = (case find P xs of None \<Rightarrow> find P ys | Some x \<Rightarrow> Some x)" for P and xs ys :: "BlockDeviceClaim list"
    by (induction xs) auto
  with assms show ?thesis
    by (fastforce simp: claimedByCluster_def sampleEnv_def storeWith_def insertObj_def lookupObj_def split: option.splits)
qed

text \<open>
  Expanding a pool by raid groups only appends: the groups of the instance stay as they are,
  and each added group is one of the cluster spec all of whose devices are claimed by the cluster.
  The creation of a claim is assumed not to undo others.
\<close>

theorem added_groups_are_claimed:
  assumes "addGroupToPool E ac pool cspi s = (Ok cspi', s')"
    and "\<And>s ns c g. groupClaimed E s ac g \<Longrightarrow> groupClaimed E (snd (bdc_create E s ns c)) ac g"
  shows "\<exists>added. DataRaidGroups (cspi_Spec cspi') = DataRaidGroups (cspi_Spec cspi) @ added
     \<and> (\<forall>g \<in> set added. g \<in> set (DataRaidGroups pool) \<and> groupClaimed E s' ac g)"
  using addGroups_Ok [OF assms(2) assms(1) [unfolded addGroupToPool_def]] by blast

theorem added_groups_are_claimed_witness:
  "\<exists>cspi' s'. addGroupToPool sampleEnv (sampleConfig sampleNew) (samplePool ''n1'' ''mirror'' [[''a1'', ''a2''], [''a3'']])
       (hd (st_cspis sampleStore)) claimedStore = (Ok cspi', s')
     \<and> map rgBDNames (DataRaidGroups (cspi_Spec cspi')) = [[''a1'', ''a2''], [''a3'']]
     \<and> (\<exists>added. DataRaidGroups (cspi_Spec cspi') = DataRaidGroups (cspi_Spec (hd (st_cspis sampleStore))) @ added
          \<and> list_all (groupClaimed sampleEnv s' (sampleConfig sampleNew)) added)"
proof -
  let ?r = "addGroupToPool sampleEnv (sampleConfig sampleNew) (samplePool ''n1'' ''mirror'' [[''a1'', ''a2''], [''a3'']])
       (hd (st_cspis sampleStore)) claimedStore"
  have "isOk (bindR (fst ?r) (\<lambda>c. if map rgBDNames (DataRaidGroups (cspi_Spec c)) = [[''a1'', ''a2''], [''a3'']]
      then Ok () else Err (ApiError '''')))" by code_simp
  then obtain cspi' where r: "?r = (Ok cspi', snd ?r)"
    and n: "map rgBDNames (DataRaidGroups (cspi_Spec cspi')) = [[''a1'', ''a2''], [''a3'']]"
    by (cases "fst ?r") (auto simp: prod_eq_iff split: if_splits)
  have st: "groupClaimed sampleEnv s ac g \<Longrightarrow> groupClaimed sampleEnv (snd (bdc_create sampleEnv s ns c)) ac g" for s ac ns c g
    by (simp add: groupClaimed_def sample_claims_stable)
  have ad: "\<exists>added. DataRaidGroups (cspi_Spec cspi') = DataRaidGroups (cspi_Spec (hd (st_cspis sampleStore))) @ added
      \<and> (\<forall>g \<in> set added. g \<in> set (DataRaidGroups (samplePool ''n1'' ''mirror'' [[''a1'', ''a2''], [''a3'']]))
           \<and> groupClaimed sampleEnv (snd ?r) (sampleConfig sampleNew) g)"
    by (rule added_groups_are_claimed [OF r]) (rule st)
  show ?thesis
    by (intro exI [of _ cspi'] exI [of _ "snd ?r"] conjI r n) (use ad in \<open>auto simp only: list_all_iff\<close>)
qed

text \<open>
  Expanding a stripe keeps the devices of its one group in place and appends new devices of the
  cluster spec in their order up to the first that is not claimed by the cluster, so that every
  device appended is claimed.
\<close>

theorem stripe_grows_by_claimed_devices:
  assumes "addBlockDeviceToGroup E ac grp cspi s = (Ok cspi', s')" and "DataRaidGroups (cspi_Spec cspi) = [rg]"
  shows "\<exists>k bds. DataRaidGroups (cspi_Spec cspi') = [rg\<lparr>CStorPoolInstanceBlockDevices := bds\<rparr>]
     \<and> map BlockDeviceName bds = rgBDNames rg @ take k (getAddedBlockDevicesInGroup grp rg)
     \<and> (\<forall>b \<in> set (take k (getAddedBlockDevicesInGroup grp rg)). claimedByCluster E s' (ac_Namespace ac) (Name (ac_CSPC ac)) b)"
  using assms by (rule addBlockDevice_single)

theorem stripe_grows_by_claimed_devices_witness:
  "\<exists>cspi' s'. addBlockDeviceToGroup sampleEnv (sampleConfig sampleNew) (sampleGroup [''a1'', ''a3''])
       (sampleCSPI ''c1-y'' ''c1'' ''n1'' (samplePool ''n1'' ''stripe'' [[''a1'']])) claimedStore = (Ok cspi', s')
     \<and> (\<exists>k bds. DataRaidGroups (cspi_Spec cspi') = [(sampleGroup [''a1''])\<lparr>CStorPoolInstanceBlockDevices := bds\<rparr>]
          \<and> map BlockDeviceName bds = [''a1''] @ take k [''a3''])"
proof -
  let ?c = "sampleCSPI ''c1-y'' ''c1'' ''n1'' (samplePool ''n1'' ''stripe'' [[''a1'']])"
  let ?r = "addBlockDeviceToGroup sampleEnv (sampleConfig sampleNew) (sampleGroup [''a1'', ''a3'']) ?c claimedStore"
  have "isOk (bindR (fst ?r) (\<lambda>c. Ok ()))" by code_simp
  then obtain cspi' where r: "?r = (Ok cspi', snd ?r)" by (cases "fst ?r") (auto simp: prod_eq_iff)
  have g: "DataRaidGroups (cspi_Spec ?c) = [sampleGroup [''a1'']]" by code_simp
  have n: "rgBDNames (sampleGroup [''a1'']) = [''a1'']"
    "getAddedBlockDevicesInGroup (sampleGroup [''a1'', ''a3'']) (sampleGroup [''a1'']) = [''a3'']" by code_simp+
  from stripe_grows_by_claimed_devices [OF r g] r show ?thesis unfolding n by blast
qed

end
