(* ===== verification/CspcSync.thy ===== *)
theory CspcSync
  imports CspcOperator "HOL-Library.Multiset"
begin

text \<open>
  One reconcile round of the CStorPoolCluster operator:
  \<open>src/pkg/controllers/cspc-controller/scale.go\<close>, \<open>cleanup.go\<close>, \<open>status.go\<close>, \<open>sync.go\<close> and
  \<open>handler.go\<close>.
\<close>

section \<open>Listing the instances\<close>

definition GetCSPIListForCSPC :: "'s env \<Rightarrow> 's \<Rightarrow> CStorPoolCluster \<Rightarrow> CStorPoolInstance list res" where
  "GetCSPIListForCSPC E s cspc = cspi_list E s (Namespace cspc) (clusterSelector (Name cspc))"

section \<open>Status\<close>

definition IsPoolMangerAvailable :: "32 word \<Rightarrow> bool" where
  "IsPoolMangerAvailable readyReplicas = (1 \<le> sint readyReplicas)"

text \<open>The map from names to deployments, filled in list order, read at a missing key as the zero value.\<close>

definition readyReplicasOf :: "Deployment list \<Rightarrow> string \<Rightarrow> 32 word" where
  "readyReplicasOf poolManagers cspiName =
     (case find (\<lambda>d. Name d = cspiName) (rev poolManagers) of None \<Rightarrow> 0 | Some d \<Rightarrow> dep_ReadyReplicas d)"

definition CStorPoolStatusOnline :: string where "CStorPoolStatusOnline = ''ONLINE''"

definition calculateStatus :: "'s env \<Rightarrow> 's \<Rightarrow> CStorPoolCluster \<Rightarrow> CStorPoolClusterStatus res" where
  "calculateStatus E s cspc =
     bindR (wrapR (GetCSPIListForCSPC E s cspc)
              ''failed to list cspi(s) for cspc %s in namespace %s'' [AS (Name cspc), AS (Namespace cspc)]) (\<lambda>cspis.
     bindR (wrapR (deploy_list E s (Namespace cspc) (clusterSelector (Name cspc)))
              ''failed to list pool-manager deployments for cspc %s in namespace %s''
              [AS (Name cspc), AS (Namespace cspc)]) (\<lambda>poolManagers.
       let available = (\<lambda>cspi. IsPoolMangerAvailable (readyReplicasOf poolManagers (Name cspi)));
           healthy = filter (\<lambda>cspi. available cspi \<and> cspi_Phase (cspi_Status cspi) = CStorPoolStatusOnline) cspis;
           unavailable = filter (\<lambda>cspi. \<not> available cspi) cspis;
           status = \<lparr>ProvisionedInstances = word_of_nat (length cspis),
                     DesiredInstances = word_of_nat (length (Pools (cspc_Spec cspc))),
                     HealthyInstances = word_of_nat (length healthy),
                     cspc_Conditions = cspc_Conditions (cspc_Status cspc)\<rparr>
       in Ok (SetCSPCCondition status
            (if unavailable \<noteq> []
             then NewCSPCCondition (now E s) PoolManagerAvailable ''False'' MinimumPoolManagersUnAvailable
                    (''Pool manager(s): '' @ concat (map (\<lambda>cspi. Name cspi @ '' '') unavailable)
                     @ '':does not have minimum available pod'')
             else NewCSPCCondition (now E s) PoolManagerAvailable ''True'' MinimumPoolManagersAvailable
                    ''Pool manager(s) have minimum available pod''))))"

text \<open>The outcome with the cluster object, whose status the call overwrites.\<close>

definition UpdateStatus :: "'s env \<Rightarrow> CStorPoolCluster \<Rightarrow> 's \<Rightarrow> (verdict \<times> CStorPoolCluster) \<times> 's" where
  "UpdateStatus E cspc s =
     (case wrapR (calculateStatus E s cspc) ''failed to calculate cspc %s status'' [AS (Name cspc)] of
        Panic m \<Rightarrow> ((Panic m, cspc), s)
      | Err e \<Rightarrow> ((Err e, cspc), s)
      | Ok status \<Rightarrow>
          let cspc' = cspc\<lparr>cspc_Status := status\<rparr> in
          (case cspc_update E s (Namespace cspc) cspc' of
             (Ok _, s') \<Rightarrow> ((Ok (), cspc'), s')
           | (Err e, s') \<Rightarrow> ((Err (Wrapf e ''failed to update cspc %s in namespace %s''
                                     [AS (Name cspc), AS (Namespace cspc)]), cspc'), s')
           | (Panic m, s') \<Rightarrow> ((Panic m, cspc'), s')))"

fun statusRetry :: "'s env \<Rightarrow> CStorPoolCluster \<Rightarrow> goerr \<Rightarrow> nat \<Rightarrow> 's \<Rightarrow> verdict \<times> 's" where
  "statusRetry E cspc err 0 s = (Err err, s)"
| "statusRetry E cspc err (Suc maxRetry) s =
     (case cspc_get E s (Namespace cspc) (Name cspc) of
        Panic m \<Rightarrow> (Panic m, s)
      | Err e \<Rightarrow> (Err (Wrapf e ''failed to update cspc status'' []), s)
      | Ok cspcNew \<Rightarrow>
          (case UpdateStatus E cspcNew s of
             ((Panic m, _), s') \<Rightarrow> (Panic m, s')
           | ((Ok _, _), s') \<Rightarrow> (Ok (), s')
           | ((Err _, _), s') \<Rightarrow> statusRetry E cspc err maxRetry s'))"

definition UpdateStatusEventually :: "'s env \<Rightarrow> CStorPoolCluster \<Rightarrow> 's \<Rightarrow> (verdict \<times> CStorPoolCluster) \<times> 's" where
  "UpdateStatusEventually E cspc s =
     (case UpdateStatus E cspc s of
        ((Err e, cspc'), s') \<Rightarrow> (case statusRetry E cspc e 3 s' of (r, s'') \<Rightarrow> ((r, cspc'), s''))
      | other \<Rightarrow> other)"

text \<open>A status update whose error is only logged, giving the overwritten object.\<close>

definition statusLogged :: "'s env \<Rightarrow> CStorPoolCluster \<Rightarrow> ('s, CStorPoolCluster) act" where
  "statusLogged E cspc s =
     (case UpdateStatusEventually E cspc s of
        ((Panic m, _), s') \<Rightarrow> (Panic m, s') | ((_, cspc'), s') \<Rightarrow> (Ok cspc', s'))"

section \<open>Scale up\<close>

definition CreateCSPIDeployment :: "'s env \<Rightarrow> Config \<Rightarrow> CStorPoolInstance \<Rightarrow> ('s, unit) act" where
  "CreateCSPIDeployment E ac cspi s = deploy_create E s (Namespace cspi) (GetPoolDeploySpec E ac cspi)"

definition CreateCSPI :: "'s env \<Rightarrow> CStorPoolCluster \<Rightarrow> Config \<Rightarrow> 's \<Rightarrow> verdict \<times> Config \<times> 's" where
  "CreateCSPI E cspc ac s =
     (case GetCSPISpec E ac s of
        (Panic m, ac', s') \<Rightarrow> (Panic m, ac', s')
      | (Err e, ac', s') \<Rightarrow> (Err e, ac', s')
      | (Ok cspi, ac', s') \<Rightarrow>
          (case bindS (\<lambda>s. cspi_create E s (Namespace cspc) cspi) (CreateCSPIDeployment E ac') s' of
             (r, s'') \<Rightarrow> (r, ac', s'')))"

text \<open>The loop of \<open>ScaleUp\<close> with \<open>needsStatusUpdate\<close> and the turns left.\<close>

fun scaleUpLoop :: "'s env \<Rightarrow> CStorPoolCluster \<Rightarrow> nat \<Rightarrow> Config \<Rightarrow> bool \<Rightarrow> 's \<Rightarrow> (bool \<times> Config) res \<times> 's" where
  "scaleUpLoop E cspc 0 ac needsStatusUpdate s = (Ok (needsStatusUpdate, ac), s)"
| "scaleUpLoop E cspc (Suc n) ac needsStatusUpdate s =
     (case CreateCSPI E cspc ac s of
        (Panic m, ac', s') \<Rightarrow> (Panic m, s')
      | (Err e, ac', s') \<Rightarrow> scaleUpLoop E cspc n ac' needsStatusUpdate s'
      | (Ok _, ac', s') \<Rightarrow> scaleUpLoop E cspc n ac' True s')"

definition ScaleUp :: "'s env \<Rightarrow> Config \<Rightarrow> CStorPoolCluster \<Rightarrow> nat \<Rightarrow> ('s, CStorPoolCluster) act" where
  "ScaleUp E ac cspc pendingPoolCount =
     bindS (scaleUpLoop E cspc pendingPoolCount ac False) (\<lambda>(needsStatusUpdate, _).
       if needsStatusUpdate then statusLogged E cspc else returnS cspc)"

definition createDeployForCSPList :: "'s env \<Rightarrow> Config \<Rightarrow> CStorPoolInstance list \<Rightarrow> ('s, unit) act" where
  "createDeployForCSPList E ac cspList = foldS (\<lambda>cspObj _. ignoreS (CreateCSPIDeployment E ac cspObj)) cspList ()"

section \<open>Scale down\<close>

definition getNodePresentOnCSPC :: "'s env \<Rightarrow> 's \<Rightarrow> CStorPoolCluster \<Rightarrow> string list res" where
  "getNodePresentOnCSPC E s cspc =
     collect (\<lambda>pool. wrapR (GetNodeFromLabelSelector E s (NodeSelector pool))
        ''could not get node name for node selector {%v} from cspc %s'' [AM (NodeSelector pool), AS (Name cspc)])
       (Pools (cspc_Spec cspc))"

definition isCSPISpecExist :: "PoolSpec list \<Rightarrow> CStorPoolInstanceSpec \<Rightarrow> bool" where
  "isCSPISpecExist cspcPoolSpecs cspiPoolSpec =
     list_ex (\<lambda>b. b \<in> set (concat (map dataBDNames cspcPoolSpecs))) (dataBDNames cspiPoolSpec)"

definition getOrphanedCStorPools :: "'s env \<Rightarrow> 's \<Rightarrow> Config \<Rightarrow> CStorPoolCluster \<Rightarrow> string list res" where
  "getOrphanedCStorPools E s ac cspc =
     bindR (wrapR (getNodePresentOnCSPC E s cspc)
              ''could not get node names of pool config present on CSPC'' []) (\<lambda>nodePresentOnCSPC.
     bindR (wrapR (cspi_list E s (Namespace cspc) (clusterSelector (Name cspc))) ''could not list CSP(s)'' []) (\<lambda>cspis.
       Ok (map Name (filter (\<lambda>cspi. \<not> (HostName (cspi_Spec cspi) \<in> set nodePresentOnCSPC
             \<or> isCSPISpecExist (Pools (cspc_Spec (ac_CSPC ac))) (cspi_Spec cspi))) cspis))))"

definition ScaleDown :: "'s env \<Rightarrow> Config \<Rightarrow> CStorPoolCluster \<Rightarrow> ('s, CStorPoolCluster) act" where
  "ScaleDown E ac cspc =
     bindS (attemptS (readS (\<lambda>s. getOrphanedCStorPools E s ac cspc))) (\<lambda>orphaned.
       case orphaned of
         Ok names \<Rightarrow>
           bindS (foldS (\<lambda>cspiName _. ignoreS (\<lambda>s. cspi_delete E s (Namespace cspc) cspiName)) names ()) (\<lambda>_.
             if names \<noteq> [] then statusLogged E cspc else returnS cspc)
       | _ \<Rightarrow> returnS cspc)"

section \<open>Cleanup of deleted instances\<close>

definition isDestroyed :: "CStorPoolInstance \<Rightarrow> bool" where
  "isDestroyed cspi = (DeletionTimestamp cspi \<noteq> None)"

definition hasCSPCFinalizer :: "'s env \<Rightarrow> CStorPoolInstance \<Rightarrow> bool" where
  "hasCSPCFinalizer E cspi = ContainsString E (Finalizers cspi) (CSPCFinalizer E)"

definition hasNoPoolProtectionFinalizer :: "'s env \<Rightarrow> CStorPoolInstance \<Rightarrow> bool" where
  "hasNoPoolProtectionFinalizer E cspi = (\<not> ContainsString E (Finalizers cspi) PoolProtectionFinalizer)"

definition canPerformCSPICleanup :: "'s env \<Rightarrow> CStorPoolInstance \<Rightarrow> bool" where
  "canPerformCSPICleanup E cspi =
     list_all (\<lambda>p. p cspi) [isDestroyed, hasCSPCFinalizer E, hasNoPoolProtectionFinalizer E]"

definition dropCSPCFinalizer :: "'s env \<Rightarrow> BlockDeviceClaim \<Rightarrow> BlockDeviceClaim" where
  "dropCSPCFinalizer E bdc = bdc\<lparr>Finalizers := RemoveString E (Finalizers bdc) (CSPCFinalizer E)\<rparr>"

text \<open>One turn of the loop of \<open>cleanupBDC\<close>: the claims of data devices are released and deleted.\<close>

definition releaseClaim :: "'s env \<Rightarrow> CStorPoolInstance \<Rightarrow> BlockDeviceClaim \<Rightarrow> ('s, unit) act" where
  "releaseClaim E cspi bdc =
     (if bdc_BlockDeviceName bdc \<in> set (dataBDNames (cspi_Spec cspi))
      then
        bindS (wrapS (\<lambda>s. bdc_update E s (Namespace cspi) (dropCSPCFinalizer E bdc))
                 ''failed to remove finalizers from bdc %s'' [AS (Name bdc)]) (\<lambda>_.
          wrapS (\<lambda>s. bdc_delete E s (Namespace cspi) (Name bdc)) ''failed to delete bdc %s'' [AS (Name bdc)])
      else returnS ())"

definition cleanupBDC :: "'s env \<Rightarrow> CStorPoolInstance \<Rightarrow> ('s, unit) act" where
  "cleanupBDC E cspi =
     bindS (readS (\<lambda>s. bdc_list E s (Namespace cspi)
              (clusterSelector (mget (Labels cspi) CStorPoolClusterLabelKey)))) (\<lambda>bdcs.
       foldS (\<lambda>bdc _. releaseClaim E cspi bdc) bdcs ())"

text \<open>One turn of the loop of \<open>cleanupCSPIResources\<close>, with the errors collected so far.\<close>

definition cleanupPending :: "CStorPoolInstance \<Rightarrow> goerr" where
  "cleanupPending cspi =
     Errorf ''failed to cleanup cspi %s: waiting for pool to get destroyed or there is no CSPC label on CSPI''
       [AS (Name cspi)]"

definition cleanupStep :: "'s env \<Rightarrow> CStorPoolInstance \<Rightarrow> goerr list \<Rightarrow> ('s, goerr list) act" where
  "cleanupStep E cspi cspiCleanUpError =
     (if canPerformCSPICleanup E cspi
      then
        bindS (wrapS (cleanupBDC E cspi) ''failed to cleanup cspi %s'' [AS (Name cspi)]) (\<lambda>_.
        bindS (wrapS (\<lambda>s. cspi_update E s (Namespace cspi)
                  (cspi\<lparr>Finalizers := RemoveString E (Finalizers cspi) (CSPCFinalizer E)\<rparr>))
                 ''failed to remove finalizer from cspi %s'' [AS (Name cspi)]) (\<lambda>_.
          returnS cspiCleanUpError))
      else
        returnS (if isDestroyed cspi then cspiCleanUpError @ [cleanupPending cspi] else cspiCleanUpError))"

definition cleanupCSPIResources :: "'s env \<Rightarrow> CStorPoolInstance list \<Rightarrow> ('s, unit) act" where
  "cleanupCSPIResources E cspis =
     bindS (foldS (cleanupStep E) cspis []) (\<lambda>cspiCleanUpError.
     if length cspiCleanUpError > 0
     then failS (Errorf ''failure in cspi cleanup: {%v}'' [AEs cspiCleanUpError])
     else returnS ())"

section \<open>Deletion of the cluster\<close>

definition deleteAssociatedCSPI :: "'s env \<Rightarrow> CStorPoolCluster \<Rightarrow> ('s, unit) act" where
  "deleteAssociatedCSPI E cspc =
     bindS (attemptS (\<lambda>s. cspi_delete_collection E s (Namespace cspc) (clusterSelector (Name cspc)))) (\<lambda>r.
       case r of
         Err e \<Rightarrow> if IsNotFound e then returnS ()
                   else failS (Wrapf e ''failed to delete associated CSPI(s):%s'' [AE e])
       | _ \<Rightarrow> returnS ())"

text \<open>
  When instances are left, the source wraps an error variable that is nil at that point, and
  \<open>errors.Wrap(nil, \<dots>)\<close> is nil: the call returns without an error and without removing the
  finalizer of the cluster.
\<close>

definition removeCSPCFinalizer :: "'s env \<Rightarrow> CStorPoolCluster \<Rightarrow> ('s, unit) act" where
  "removeCSPCFinalizer E cspc =
     bindS (wrapS (readS (\<lambda>s. GetCSPIListForCSPC E s cspc)) ''could not list cspi(s)'' []) (\<lambda>cspiList.
     bindS (wrapS (cleanupCSPIResources E cspiList) ''failed to cleanup cspc'' []) (\<lambda>_.
     bindS (wrapS (readS (\<lambda>s. GetCSPIListForCSPC E s cspc)) ''could not list cspi(s)'' []) (\<lambda>cspList.
       if length cspList > 0 then returnS ()
       else
         bindS (readS (\<lambda>s. bdc_list E s (Namespace cspc) (clusterSelector (Name cspc)))) (\<lambda>bdcs.
         bindS (foldS (\<lambda>bdc _. wrapS (\<lambda>s. bdc_update E s (Namespace cspc) (dropCSPCFinalizer E bdc))
                    ''failed to remove finalizers from bdc %s'' [AS (Name bdc)]) bdcs ()) (\<lambda>_.
         bindS (wrapS (\<lambda>s. cspc_update E s (Namespace cspc)
                   (cspc\<lparr>Finalizers := RemoveFinalizer E (Finalizers cspc) (CSPCFinalizer E)\<rparr>))
                  ''failed to remove CSPC finalizer on cspc resource'' []) (\<lambda>_. returnS ()))))))"

definition handleCSPCDeletion :: "'s env \<Rightarrow> CStorPoolCluster \<Rightarrow> ('s, unit) act" where
  "handleCSPCDeletion E cspc =
     bindS (wrapS (deleteAssociatedCSPI E cspc) ''failed to delete associated cspi(s)'' []) (\<lambda>_.
     whenS (HasFinalizer E (Finalizers cspc) (CSPCFinalizer E))
       (wrapS (removeCSPCFinalizer E cspc) ''failed to remove cspc finalizers on cspi objects'' []))"

section \<open>Versions of the cluster\<close>

definition EstimateCSPCVersion :: "'s env \<Rightarrow> 's \<Rightarrow> CStorPoolCluster \<Rightarrow> string res" where
  "EstimateCSPCVersion E s cspc =
     bindR (wrapR (cspi_list E s (Namespace cspc) (clusterSelector (Name cspc)))
              ''failed to get the cstorpool instance list related to cspc : %s'' [AS (Name cspc)]) (\<lambda>cspis.
       case cspis of
         [] \<Rightarrow> Ok (binaryVersion E)
       | cspi # _ \<Rightarrow> Ok (mget (Labels cspi) OpenEBSVersionLabelKey))"

definition setVersion :: "string \<Rightarrow> CStorPoolCluster \<Rightarrow> CStorPoolCluster" where
  "setVersion v cspc =
     cspc\<lparr>cspc_Version := (cspc_Version cspc)\<lparr>vd_Current := v, vd_Desired := v, vd_DependentsUpgraded := True\<rparr>\<rparr>"

text \<open>
  The cluster to go on with, and the argument as the call leaves it (the version is written into
  it before the update).
\<close>

definition populateVersion :: "'s env \<Rightarrow> CStorPoolCluster \<Rightarrow> ('s, CStorPoolCluster \<times> CStorPoolCluster) act" where
  "populateVersion E cspc =
     (if vd_Current (cspc_Version cspc) = ''''
      then
        bindS (readS (\<lambda>s. EstimateCSPCVersion E s cspc)) (\<lambda>v.
        bindS (wrapS (\<lambda>s. cspc_update E s (Namespace cspc) (setVersion v cspc))
                 ''failed to update cspc %s while adding versiondetails'' [AS (Name cspc)]) (\<lambda>obj.
          returnS (obj, setVersion v cspc)))
      else returnS (cspc, cspc))"

text \<open>
  An error comes with the cluster object the caller reports it on. \<open>upgradeMap\<close> has no entries,
  so no upgrade function is ever called.
\<close>

definition reconcileVersion :: "'s env \<Rightarrow> CStorPoolCluster \<Rightarrow> ('s, (goerr option \<times> CStorPoolCluster)) act" where
  "reconcileVersion E cspc =
     (let v = cspc_Version cspc; base = baseVersion (binaryVersion E) in
      if vd_Current v \<noteq> vd_Desired v
      then
        bindS (readS (\<lambda>s. IsCurrentVersionValid base (vd_Current v))) (\<lambda>currentValid.
          if \<not> currentValid
          then returnS (Some (Errorf ''invalid current version %s'' [AS (vd_Current v)]), cspc)
          else if \<not> IsDesiredVersionValid base (vd_Desired v)
          then returnS (Some (Errorf ''invalid desired version %s'' [AS (vd_Desired v)]), cspc)
          else
            bindS (if vd_State v \<noteq> ReconcileInProgress E
                   then attemptS (\<lambda>s. cspc_update E s (Namespace cspc)
                          (cspc\<lparr>cspc_Version := setInProgressStatus E v\<rparr>))
                   else returnS (Ok cspc)) (\<lambda>r.
              case r of
                Ok cspcObj \<Rightarrow>
                  bindS (attemptS (\<lambda>s. cspc_update E s (Namespace cspcObj)
                     (cspcObj\<lparr>cspc_Version := setSuccessStatus E (cspc_Version cspcObj)\<rparr>))) (\<lambda>r2.
                    case r2 of
                      Ok obj \<Rightarrow> returnS (None, obj)
                    | Err e \<Rightarrow> returnS (Some (Wrapf e ''failed to update CSPC'' []), cspcObj)
                    | Panic m \<Rightarrow> (\<lambda>s. (Panic m, s)))
              | Err e \<Rightarrow> returnS (Some e, cspc)
              | Panic m \<Rightarrow> (\<lambda>s. (Panic m, s))))
      else returnS (None, cspc))"

definition ShouldReconcile :: "'s env \<Rightarrow> CStorPoolCluster \<Rightarrow> bool" where
  "ShouldReconcile E cspc =
     (let cspcVersion = vd_Current (cspc_Version cspc)
      in if cspcVersion = '''' then True else cspcVersion = binaryVersion E)"

definition populateDesiredInstances :: "'s env \<Rightarrow> CStorPoolCluster \<Rightarrow> ('s, CStorPoolCluster) act" where
  "populateDesiredInstances E cspc =
     wrapS (\<lambda>s. cspc_update E s (Namespace cspc)
              (cspc\<lparr>cspc_Status := (cspc_Status cspc)\<lparr>DesiredInstances := word_of_nat (length (Pools (cspc_Spec cspc)))\<rparr>\<rparr>))
       ''failed to update cspc %s while adding desired instances number in spec'' [AS '''']"

section \<open>Propagating tunables to the instances\<close>

definition GetCSPIWithoutDeployment :: "'s env \<Rightarrow> 's \<Rightarrow> CStorPoolCluster \<Rightarrow> CStorPoolInstance list res" where
  "GetCSPIWithoutDeployment E s cspc =
     bindR (wrapR (cspi_list E s (Namespace cspc) (clusterSelector (Name cspc)))
              ''could not list cspi for cspc {%s}'' [AS (Name cspc)]) (\<lambda>cspis.
     foldR (\<lambda>cspi acc.
       case deploy_get E s (Namespace cspc) (Name cspi) of
         Panic m \<Rightarrow> Panic m
       | Err e \<Rightarrow> Ok (if IsNotFound e then acc @ [cspi] else acc)
       | Ok _ \<Rightarrow> Ok acc) cspis [])"

definition defaultPoolConfig :: "CStorPoolClusterSpec \<Rightarrow> PoolConfig \<Rightarrow> PoolConfig" where
  "defaultPoolConfig spec pc =
     (let pc1 = (if Resources pc = None then pc\<lparr>Resources := DefaultResources spec\<rparr> else pc);
          pc2 = (if AuxResources pc1 = None then pc1\<lparr>AuxResources := DefaultAuxResources spec\<rparr> else pc1);
          pc3 = (if Tolerations pc2 = None then pc2\<lparr>Tolerations := DefaultTolerations spec\<rparr> else pc2);
          pc4 = (if PriorityClassName pc3 = None
                 then pc3\<lparr>PriorityClassName := Some (DefaultPriorityClassName spec)\<rparr> else pc3)
      in if ROThresholdLimit pc4 = None then pc4\<lparr>ROThresholdLimit := Some 85\<rparr> else pc4)"

definition patchPoolDeploymentSpec :: "'s env \<Rightarrow> Config \<Rightarrow> CStorPoolInstance \<Rightarrow> ('s, unit) act" where
  "patchPoolDeploymentSpec E ac cspi =
     bindS (readS (\<lambda>s. wrapR (deploy_get E s (Namespace cspi) (Name cspi))
              ''failed to get corresponding pool manager deployment for cspi %s in namespace %s''
              [AS (Name cspi), AS (Name cspi)])) (\<lambda>existing.
     bindS (readS (\<lambda>s. wrapR (marshalDeployment E existing)
              ''failed to marshal existing deployment object %s'' [AS (Name existing)])) (\<lambda>existingBytes.
     bindS (readS (\<lambda>s. wrapR (marshalDeployment E (GetPoolDeploySpec E ac cspi))
              ''failed to marshal new deployment object for existing deployment %s'' [AS (Name existing)])) (\<lambda>newBytes.
     bindS (readS (\<lambda>s. wrapR (CreateTwoWayMergePatch E existingBytes newBytes)
              ''could not compute two way patch data'' [])) (\<lambda>twoWayPatchData.
     bindS (readS (\<lambda>s. wrapR (StrategicMergePatch E existingBytes twoWayPatchData)
              ''could not compute strategic patch data'' [])) (\<lambda>strategicPatchData.
       wrapS (\<lambda>s. deploy_patch E s (Namespace cspi) (Name existing) strategicPatchData)
         ''failed to patch pool manager'' [])))))"

text \<open>
  The pool spec of an instance: the first with its node selector or one of its data devices.
\<close>

definition poolSpecOf :: "PoolSpec list \<Rightarrow> CStorPoolInstance \<Rightarrow> PoolSpec option" where
  "poolSpecOf pools cspi =
     find (\<lambda>ps. NodeSelector ps = NodeSelector (cspi_Spec cspi)
                       \<or> isCSPISpecExist [ps] (cspi_Spec cspi)) pools"

text \<open>
  When the node's host name label is empty, the error message is built from a nil error.
\<close>

definition syncCSPIWithCSPC :: "'s env \<Rightarrow> Config \<Rightarrow> CStorPoolCluster \<Rightarrow> CStorPoolInstance \<Rightarrow> ('s, unit) act" where
  "syncCSPIWithCSPC E ac cspc cspi =
     bindS (case poolSpecOf (Pools (cspc_Spec cspc)) cspi of
              None \<Rightarrow> returnS cspi
            | Some ps \<Rightarrow>
                bindS (readS (\<lambda>s.
                  case GetNodeFromLabelSelector E s (NodeSelector ps) of
                    Panic m \<Rightarrow> Panic m
                  | Err e \<Rightarrow> Err (Errorf ''could not use node for selectors {%v}: {%s}'' [AM (NodeSelector ps), AE e])
                  | Ok hostName \<Rightarrow> if hostName = '''' then Panic ''invalid memory address or nil pointer dereference''
                                    else Ok hostName)) (\<lambda>hostName.
                  returnS (cspi\<lparr>cspi_Spec := (cspi_Spec cspi)\<lparr>
                    poolConfig := defaultPoolConfig (cspc_Spec cspc) (poolConfig ps),
                    NodeSelector := NodeSelector ps, HostName := hostName\<rparr>\<rparr>))) (\<lambda>cspiCopy.
     bindS (\<lambda>s. cspi_update E s (Namespace cspiCopy) cspiCopy) (patchPoolDeploymentSpec E ac))"

text \<open>With no instance, the wrapped error is nil: the call returns no error.\<close>

definition syncCSPI :: "'s env \<Rightarrow> Config \<Rightarrow> CStorPoolCluster \<Rightarrow> ('s, unit) act" where
  "syncCSPI E ac cspc =
     bindS (wrapS (readS (\<lambda>s. GetCSPIListForCSPC E s cspc))
              ''failed to sync cspi(s) from its parent cspc %s'' [AS (Name cspc)]) (\<lambda>cspis.
     foldS (\<lambda>cspi _. ignoreS (syncCSPIWithCSPC E ac cspc cspi)) cspis ())"

section \<open>One reconcile round\<close>

definition cspcGone :: "CStorPoolCluster \<Rightarrow> bool" where
  "cspcGone cspc = (DeletionTimestamp cspc \<noteq> None)"

definition NewBuilder :: ConfigBuilder where
  "NewBuilder = \<lparr>ConfigObj = \<lparr>ac_CSPC = emptyCStorPoolCluster, ac_Namespace = '''', VisitedNodes = []\<rparr>, cb_errs = []\<rparr>"

text \<open>
  The steps after the version is settled. \<open>listed\<close> is the number of instances found before the
  round began.
\<close>

definition reconcilePools :: "'s env \<Rightarrow> CStorPoolCluster \<Rightarrow> nat \<Rightarrow> ('s, unit) act" where
  "reconcilePools E cspc listed =
     bindS (readS (\<lambda>s. wrapR (cb_Build (cb_WithNameSpace (Namespace cspc) (cb_WithCSPC (Some cspc) NewBuilder)))
              ''failed to build pool config for cspc :%s in namespace %s'' [AS (Name cspc), AS (Namespace cspc)])) (\<lambda>ac.
     bindS (if listed < length (Pools (cspc_Spec cspc))
            then ScaleUp E ac cspc (length (Pools (cspc_Spec cspc)) - listed)
            else if listed > length (Pools (cspc_Spec cspc)) then ScaleDown E ac cspc
            else returnS cspc) (\<lambda>cspc.
     bindS (attemptS (readS (\<lambda>s. GetCSPIWithoutDeployment E s cspc))) (\<lambda>r.
     bindS (createDeployForCSPList E ac (case r of Ok cspis \<Rightarrow> cspis | _ \<Rightarrow> [])) (\<lambda>_.
     bindS (ignoreS (syncCSPI E ac cspc)) (\<lambda>_.
     bindS (handleOperations E ac) (\<lambda>_.
     bindS (statusLogged E cspc) (\<lambda>_. returnS ())))))))"

definition syncVersioned :: "'s env \<Rightarrow> CStorPoolCluster \<Rightarrow> nat \<Rightarrow> ('s, unit) act" where
  "syncVersioned E cspc0 listed =
     bindS (attemptS (populateVersion E cspc0)) (\<lambda>r. case r of
       Ok (cspcGot, cspc) \<Rightarrow>
     bindS (reconcileVersion E cspcGot) (\<lambda>(verr, cspcGot). case verr of
       Some e \<Rightarrow>
         ignoreS (\<lambda>s. cspc_update E s (Namespace cspcGot)
           (cspcGot\<lparr>cspc_Version := setErrorStatus E ''Failed to reconcile cspc version'' e (cspc_Version cspcGot)\<rparr>))
     | None \<Rightarrow>
     if \<not> ShouldReconcile E cspc then returnS ()
     else
     bindS (attemptS (populateDesiredInstances E cspcGot)) (\<lambda>r. case r of
       Ok cspcGot \<Rightarrow>
     if HasFinalizer E (Finalizers cspcGot) (CSPCFinalizer E) then reconcilePools E cspcGot listed
     else
     bindS (attemptS (\<lambda>s. cspc_update E s (Namespace cspcGot)
              (cspcGot\<lparr>Finalizers := WithFinalizer E (Finalizers cspcGot) (CSPCFinalizer E)\<rparr>))) (\<lambda>r. case r of
       Ok cspcGot \<Rightarrow> reconcilePools E cspcGot listed
     | _ \<Rightarrow> returnS ())
     | _ \<Rightarrow> returnS ()))
     | _ \<Rightarrow> returnS ())"

definition sync :: "'s env \<Rightarrow> CStorPoolCluster \<Rightarrow> nat \<Rightarrow> ('s, unit) act" where
  "sync E cspc listed =
     (if cspcGone cspc then ignoreS (handleCSPCDeletion E cspc)
      else
        bindS (attemptS (readS (\<lambda>s. GetCSPIListForCSPC E s cspc))) (\<lambda>r. case r of
          Ok cspis \<Rightarrow>
            bindS (attemptS (cleanupCSPIResources E cspis)) (\<lambda>r. case r of
              Ok _ \<Rightarrow> syncVersioned E cspc listed
            | _ \<Rightarrow> returnS ())
        | _ \<Rightarrow> returnS ()))"

definition syncCSPC :: "'s env \<Rightarrow> string \<Rightarrow> ('s, unit) act" where
  "syncCSPC E key =
     bindS (attemptS (readS (\<lambda>s. SplitMetaNamespaceKey E key))) (\<lambda>r. case r of
       Ok (ns, name) \<Rightarrow>
         bindS (attemptS (readS (\<lambda>s. cspc_cached E s ns name))) (\<lambda>r. case r of
           Ok cspc \<Rightarrow>
             bindS (attemptS (readS (\<lambda>s. GetCSPIListForCSPC E s cspc))) (\<lambda>r.
               sync E cspc (case r of Ok cspis \<Rightarrow> length cspis | _ \<Rightarrow> 0))
         | Err e \<Rightarrow> if IsNotFound e then returnS () else failS e
         | Panic m \<Rightarrow> (\<lambda>s. (Panic m, s)))
     | _ \<Rightarrow> returnS ())"

section \<open>One pool instance per node\<close>

definition hostOf :: "CStorPoolInstance \<Rightarrow> string" where
  "hostOf cspi = mget (Labels cspi) HostNameLabelKey"

definition instanceView :: "CStorPoolInstance \<Rightarrow> gomap \<times> CStorPoolInstanceSpec" where
  "instanceView cspi = (Labels cspi, cspi_Spec cspi)"

text \<open>
  What the API server promises of the instances of a cluster: creating a claim or a deployment does
  not change them, and creating an instance adds at most that one. Instances are compared by their
  labels and spec; the server fills in the rest.
\<close>

definition instanceLaws :: "'s env \<Rightarrow> bool" where
  "instanceLaws E \<longleftrightarrow>
     (\<forall>s ns c ns' sel. cspi_list E (snd (bdc_create E s ns c)) ns' sel = cspi_list E s ns' sel)
     \<and> (\<forall>s ns d ns' sel. cspi_list E (snd (deploy_create E s ns d)) ns' sel = cspi_list E s ns' sel)
     \<and> (\<forall>s ns c ns' sel l'. cspi_list E (snd (cspi_create E s ns c)) ns' sel = Ok l' \<longrightarrow>
          (\<exists>l. cspi_list E s ns' sel = Ok l
             \<and> mset (map instanceView l') \<subseteq># add_mset (instanceView c) (mset (map instanceView l))))"

text \<open>
  No two listed instances of the cluster are on the same node or use the same block device.
\<close>

definition separateInstances :: "'s env \<Rightarrow> Config \<Rightarrow> 's \<Rightarrow> bool" where
  "separateInstances E ac s \<longleftrightarrow>
     (\<forall>l. cspi_list E s (ac_Namespace ac) (clusterSelector (Name (ac_CSPC ac))) = Ok l \<longrightarrow>
        distinct (map hostOf l) \<and> distinct (concat (map (\<lambda>c. poolBDNames (cspi_Spec c)) l)))"

lemma distinct_concat_sub:
  assumes "mset xs \<subseteq># mset ys" and "distinct (concat (map f ys))"
  shows "distinct (concat (map f xs))"
proof -
  from assms(1) obtain zs where "mset ys = mset xs + mset zs" by (metis ex_mset mset_subset_eq_exists_conv)
  then have "mset (concat (map f ys)) = mset (concat (map f (xs @ zs)))"
    by (simp add: mset_concat mset_map [symmetric] sum_mset_sum_list [symmetric] del: mset_map) simp
  with assms(2) have "distinct (concat (map f (xs @ zs)))" by (metis mset_eq_imp_distinct_iff)
  then show ?thesis by simp
qed

lemma separate_insert:
  assumes "mset (map instanceView l') \<subseteq># add_mset (instanceView c) (mset (map instanceView l))"
    and "distinct (map hostOf (c # l))" and "distinct (concat (map (\<lambda>c. poolBDNames (cspi_Spec c)) (c # l)))"
  shows "distinct (map hostOf l') \<and> distinct (concat (map (\<lambda>c. poolBDNames (cspi_Spec c)) l'))"
proof -
  let ?h = "\<lambda>v. [mget (fst v) HostNameLabelKey]" and ?d = "\<lambda>v :: gomap \<times> CStorPoolInstanceSpec. poolBDNames (snd v)"
  from assms(1) have sub: "mset (map instanceView l') \<subseteq># mset (map instanceView (c # l))" by simp
  have h: "concat (map ?h (map instanceView xs)) = map hostOf xs" for xs by (induction xs) (auto simp: instanceView_def hostOf_def)
  have d: "concat (map ?d (map instanceView xs)) = concat (map (\<lambda>c. poolBDNames (cspi_Spec c)) xs)" for xs
    by (induction xs) (auto simp: instanceView_def)
  have "distinct (concat (map ?h (map instanceView l')))"
    by (rule distinct_concat_sub [OF sub]) (use assms(2) in \<open>simp only: h\<close>)
  moreover have "distinct (concat (map ?d (map instanceView l')))"
    by (rule distinct_concat_sub [OF sub]) (use assms(3) in \<open>simp only: d\<close>)
  ultimately show ?thesis by (simp only: h d)
qed

lemma claimLoop_keeps:
  assumes "\<And>s ns c. I s \<Longrightarrow> I (snd (bdc_create E s ns c))"
  shows "I s \<Longrightarrow> I (snd (claimLoop E ac pending bds s))"
proof (induction bds arbitrary: pending s)
  case Nil
  then show ?case by simp
next
  case (Cons b bds)
  have "ac_ClaimBD E ac bd s = (r, t) \<Longrightarrow> I t" for bd r t
    using keepsD [OF ac_ClaimBD_keeps [of I E], OF assms Cons.prems] by (metis snd_conv)
  with Cons show ?case by (auto split: res.splits prod.splits)
qed

lemma GetCSPISpec_keeps:
  assumes "\<And>s ns c. I s \<Longrightarrow> I (snd (bdc_create E s ns c))" and "I s"
  shows "I (snd (snd (GetCSPISpec E ac s)))"
proof -
  have "claimLoop E a [] bds s = (r, t) \<Longrightarrow> I t" for a bds r t
    using claimLoop_keeps [of I E s a "[]" bds] assms by simp
  with assms(2) show ?thesis
    by (auto simp: GetCSPISpec_def ClaimBDsForNode_def Let_def split: res.splits prod.splits)
qed

lemma GetCSPISpec_config: "GetCSPISpec E ac s = (r, ac', s') \<Longrightarrow> ac_CSPC ac' = ac_CSPC ac \<and> ac_Namespace ac' = ac_Namespace ac"
  by (auto simp: GetCSPISpec_def SelectNode_def Let_def split: res.splits prod.splits if_splits)

lemma instanceLawsD:
  assumes "instanceLaws E"
  shows "cspi_list E (snd (bdc_create E s ns c)) = cspi_list E s"
    "cspi_list E (snd (deploy_create E s ns d)) = cspi_list E s"
    "cspi_list E (snd (cspi_create E s ns x)) ns' sel = Ok l' \<Longrightarrow>
       \<exists>l. cspi_list E s ns' sel = Ok l \<and> mset (map instanceView l') \<subseteq># add_mset (instanceView x) (mset (map instanceView l))"
  using assms unfolding instanceLaws_def by (auto intro!: ext)

lemma CreateCSPI_separate:
  assumes laws: "instanceLaws E" and inv: "separateInstances E ac s" and dist: "distinct (cspcBDNames (ac_CSPC ac))"
    and run: "CreateCSPI E cspc ac s = (r, ac', s')"
  shows "separateInstances E ac s'"
proof -
  obtain r1 ac1 s1 where spec: "GetCSPISpec E ac s = (r1, ac1, s1)" by (cases "GetCSPISpec E ac s") auto
  have "separateInstances E ac (snd (bdc_create E t ns c)) = separateInstances E ac t" for t ns c
    by (simp add: separateInstances_def instanceLawsD [OF laws])
  then have inv1: "separateInstances E ac s1"
    using GetCSPISpec_keeps [of "separateInstances E ac" E s ac] inv spec by simp
  show ?thesis
  proof (cases r1)
    case (Ok cspi)
    from GetCSPISpec_Ok [OF spec [unfolded Ok]] obtain pool node where s1: "s1 = s"
      and sel: "SelectNode E s ac = (Ok (pool, node), ac1)"
      and c: "cspi = newCSPI E s ac1 (pool\<lparr>poolConfig := ac_defaults (cspc_Spec (ac_CSPC ac)) (poolConfig pool)\<rparr>) node" by blast
    from SelectNode_Ok [OF sel] obtain l where l: "cspi_list E s (ac_Namespace ac) (clusterSelector (Name (ac_CSPC ac))) = Ok l"
      and pool: "pool \<in> set (Pools (cspc_Spec (ac_CSPC ac)))" and nodes: "\<forall>c \<in> set l. hostOf c \<noteq> node"
      and devs: "\<forall>c \<in> set l. set (poolBDNames (cspi_Spec c)) \<inter> set (poolBDNames pool) = {}"
      by (auto simp: hostOf_def)
    have h: "hostOf cspi = node" and d: "poolBDNames (cspi_Spec cspi) = poolBDNames pool"
      by (simp_all add: c hostOf_def newCSPI_def buildLabelsForCSPI_def mget_def poolBDNames_def allRaidGroups_def)
    have d1: "distinct (map hostOf (cspi # l))"
      using inv l nodes h by (auto simp: separateInstances_def)
    have d2: "distinct (concat (map (\<lambda>c. poolBDNames (cspi_Spec c)) (cspi # l)))"
      using inv l devs d pool_distinct [OF dist pool] by (auto simp: separateInstances_def)
    let ?s2 = "snd (cspi_create E s (Namespace cspc) cspi)"
    have inv2: "separateInstances E ac ?s2"
      unfolding separateInstances_def
    proof (intro allI impI)
      fix l'
      assume "cspi_list E ?s2 (ac_Namespace ac) (clusterSelector (Name (ac_CSPC ac))) = Ok l'"
      from instanceLawsD(3) [OF laws this] l
      have "mset (map instanceView l') \<subseteq># add_mset (instanceView cspi) (mset (map instanceView l))" by auto
      then show "distinct (map hostOf l') \<and> distinct (concat (map (\<lambda>c. poolBDNames (cspi_Spec c)) l'))"
        using d1 d2 by (rule separate_insert)
    qed
    moreover have "separateInstances E ac (snd (deploy_create E t ns x)) = separateInstances E ac t" for t ns x
      by (simp add: separateInstances_def instanceLawsD [OF laws])
    ultimately show ?thesis
      using run spec Ok s1
      by (cases "cspi_create E s (Namespace cspc) cspi")
        (auto simp: CreateCSPI_def bindS_def CreateCSPIDeployment_def split: res.splits prod.splits, metis snd_conv)
  qed (use run spec inv1 in \<open>auto simp: CreateCSPI_def\<close>)
qed

lemma CreateCSPI_config: "CreateCSPI E cspc ac s = (r, ac', s') \<Longrightarrow> ac_CSPC ac' = ac_CSPC ac \<and> ac_Namespace ac' = ac_Namespace ac"
  by (auto simp: CreateCSPI_def dest: GetCSPISpec_config split: res.splits prod.splits)

lemma separate_config:
  "ac_CSPC a = ac_CSPC b \<Longrightarrow> ac_Namespace a = ac_Namespace b \<Longrightarrow> separateInstances E a s = separateInstances E b s"
  by (simp add: separateInstances_def)

section \<open>Cleanup and versions\<close>

lemma cleanup_none_ready:
  "\<forall>c \<in> set cspis. \<not> canPerformCSPICleanup E c \<Longrightarrow>
   foldS (cleanupStep E) cspis errs s = (Ok (errs @ map cleanupPending (filter isDestroyed cspis)), s)"
  by (induction cspis arbitrary: errs) (simp_all add: cleanupStep_def bindS_def)

lemma reconcileVersion_keeps:
  assumes "\<And>t ns c. I t \<Longrightarrow> I (snd (cspc_update E t ns c))"
  shows "keeps I (reconcileVersion E cspc)"
proof -
  have u: "keeps I (\<lambda>s. cspc_update E s ns c)" for ns c using assms by (simp add: keeps_def)
  have p: "keeps I (\<lambda>s. (Panic m, s))" for m by (simp add: keeps_def)
  show ?thesis
    unfolding reconcileVersion_def Let_def
    by (intro keeps_intros u p | auto intro!: keeps_intros u p split: res.split)+
qed

lemmas field_ifs =
  if_distrib [of Resources] if_distrib [of AuxResources] if_distrib [of Tolerations]
  if_distrib [of PriorityClassName] if_distrib [of ROThresholdLimit] if_distrib [of DataRaidGroupType]
  if_distrib [of WriteCacheGroupType] if_distrib [of Compression]

lemma defaultPoolConfig_fields:
  "Resources (defaultPoolConfig spec pc) = (if Resources pc = None then DefaultResources spec else Resources pc)"
  "AuxResources (defaultPoolConfig spec pc) = (if AuxResources pc = None then DefaultAuxResources spec else AuxResources pc)"
  "Tolerations (defaultPoolConfig spec pc) = (if Tolerations pc = None then DefaultTolerations spec else Tolerations pc)"
  "PriorityClassName (defaultPoolConfig spec pc) =
     (if PriorityClassName pc = None then Some (DefaultPriorityClassName spec) else PriorityClassName pc)"
  "ROThresholdLimit (defaultPoolConfig spec pc) = (if ROThresholdLimit pc = None then Some 85 else ROThresholdLimit pc)"
  "DataRaidGroupType (defaultPoolConfig spec pc) = DataRaidGroupType pc"
  "WriteCacheGroupType (defaultPoolConfig spec pc) = WriteCacheGroupType pc"
  "Compression (defaultPoolConfig spec pc) = Compression pc"
  by (simp_all add: defaultPoolConfig_def Let_def field_ifs cong: if_cong split del: if_split)

lemma ac_defaults_fields:
  "Resources (ac_defaults spec pc) = Resources (defaultPoolConfig spec pc)"
  "AuxResources (ac_defaults spec pc) = AuxResources (defaultPoolConfig spec pc)"
  "Tolerations (ac_defaults spec pc) =
     (if Tolerations pc = None \<or> Tolerations pc = Some [] then DefaultTolerations spec else Tolerations pc)"
  "PriorityClassName (ac_defaults spec pc) = PriorityClassName (defaultPoolConfig spec pc)"
  "ROThresholdLimit (ac_defaults spec pc) = ROThresholdLimit (defaultPoolConfig spec pc)"
  "DataRaidGroupType (ac_defaults spec pc) = DataRaidGroupType pc"
  "WriteCacheGroupType (ac_defaults spec pc) = WriteCacheGroupType pc"
  "Compression (ac_defaults spec pc) = Compression pc"
  unfolding defaultPoolConfig_fields by (simp_all add: ac_defaults_def Let_def field_ifs cong: if_cong split del: if_split)

section \<open>Samples\<close>

text \<open>An instance that is being destroyed and keeps both finalizers; a cluster of an earlier release.\<close>

definition dyingCSPI :: CStorPoolInstance where
  "dyingCSPI = (hd (st_cspis sampleStore))\<lparr>DeletionTimestamp := Some ''now'',
     Finalizers := [CSPCFinalizer sampleEnv, PoolProtectionFinalizer]\<rparr>"

definition oldVersionCSPC :: CStorPoolCluster where
  "oldVersionCSPC = sampleOld\<lparr>cspc_Version := emptyVersionDetails\<lparr>vd_Current := ''1.12.0'', vd_Desired := ''2.12.0''\<rparr>\<rparr>"

section \<open>Properties\<close>

text \<open>The pool manager deployment of the instance is listed with a ready replica.\<close>

definition availableCSPI :: "'s env \<Rightarrow> 's \<Rightarrow> CStorPoolCluster \<Rightarrow> CStorPoolInstance \<Rightarrow> bool" where
  "availableCSPI E s cspc cspi \<longleftrightarrow>
     (\<exists>l. deploy_list E s (Namespace cspc) (clusterSelector (Name cspc)) = Ok l
        \<and> 1 \<le> sint (readyReplicasOf l (Name cspi)))"

text \<open>
  C5. Scaling up keeps the instances of a cluster apart: if no two of them share a node or a block
  device, the same holds after any number of turns of the loop, whatever each turn's outcome. The
  cluster itself names no device twice.
\<close>

theorem scale_up_keeps_instances_separate:
  assumes "instanceLaws E" and "distinct (cspcBDNames (ac_CSPC ac))" and "separateInstances E ac s"
  shows "separateInstances E ac (snd (scaleUpLoop E cspc n ac b s))"
  using assms(2,3)
proof (induction n arbitrary: ac b s)
  case 0
  then show ?case by simp
next
  case (Suc n)
  obtain r ac1 s1 where c: "CreateCSPI E cspc ac s = (r, ac1, s1)" by (cases "CreateCSPI E cspc ac s") auto
  from CreateCSPI_config [OF c] have same: "ac_CSPC ac1 = ac_CSPC ac" "ac_Namespace ac1 = ac_Namespace ac" by auto
  have "separateInstances E ac s1" by (rule CreateCSPI_separate [OF assms(1) Suc.prems(2,1) c])
  with Suc.IH [of ac1] Suc.prems(1) same have "separateInstances E ac (snd (scaleUpLoop E cspc n ac1 b' s1))" for b'
    by (simp add: separate_config [of ac1 ac])
  with c \<open>separateInstances E ac s1\<close> show ?case by (cases r) simp_all
qed

theorem scale_up_keeps_instances_separate_witness:
  "separateInstances sampleEnv (sampleConfig sampleTwo)
     (snd (scaleUpLoop sampleEnv sampleTwo 2 (sampleConfig sampleTwo) False sampleStore))"
proof (rule scale_up_keeps_instances_separate)
  have 1: "cspi_list sampleEnv (snd (bdc_create sampleEnv s ns c)) ns' sel = cspi_list sampleEnv s ns' sel" for s ns c ns' sel
    by (simp add: sampleEnv_def storeWith_def split: res.splits)
  have 2: "cspi_list sampleEnv (snd (deploy_create sampleEnv s ns c)) ns' sel = cspi_list sampleEnv s ns' sel" for s ns c ns' sel
    by (simp add: sampleEnv_def storeWith_def split: res.splits)
  have 3: "\<exists>l. cspi_list sampleEnv s ns' sel = Ok l \<and> mset (map instanceView l') \<subseteq># add_mset (instanceView c) (mset (map instanceView l))"
    if "cspi_list sampleEnv (snd (cspi_create sampleEnv s ns c)) ns' sel = Ok l'" for s ns c ns' sel l'
    using that by (auto simp: sampleEnv_def storeWith_def insertObj_def split: if_splits)
  show "instanceLaws sampleEnv" unfolding instanceLaws_def using 1 2 3 by blast
  show "distinct (cspcBDNames (ac_CSPC (sampleConfig sampleTwo)))" by code_simp
  have "cspi_list sampleEnv sampleStore ''openebs'' (clusterSelector ''c1'') = Ok (st_cspis sampleStore)"
    "distinct (map hostOf (st_cspis sampleStore))" "distinct (concat (map (\<lambda>c. poolBDNames (cspi_Spec c)) (st_cspis sampleStore)))"
    "ac_Namespace (sampleConfig sampleTwo) = ''openebs''" "Name (ac_CSPC (sampleConfig sampleTwo)) = ''c1''" by code_simp+
  then show "separateInstances sampleEnv (sampleConfig sampleTwo) sampleStore"
    by (simp add: separateInstances_def)
qed



text \<open>
  The computed status counts the listed instances, the pools of the spec, and the instances
  that are online with an available pool manager; the availability condition is true exactly when
  every listed instance has an available pool manager, and other conditions are kept.
\<close>

theorem status_counts:
  assumes "calculateStatus E s cspc = Ok st"
  shows "\<exists>cspis. GetCSPIListForCSPC E s cspc = Ok cspis
     \<and> ProvisionedInstances st = word_of_nat (length cspis)
     \<and> DesiredInstances st = word_of_nat (length (Pools (cspc_Spec cspc)))
     \<and> HealthyInstances st = word_of_nat (length (filter (\<lambda>c. availableCSPI E s cspc c
           \<and> cspi_Phase (cspi_Status c) = CStorPoolStatusOnline) cspis))
     \<and> (\<exists>c. GetCSPCCondition st PoolManagerAvailable = Some c
           \<and> cond_Status c = (if \<forall>c \<in> set cspis. availableCSPI E s cspc c then ''True'' else ''False''))
     \<and> (\<forall>t. t \<noteq> PoolManagerAvailable \<longrightarrow> GetCSPCCondition st t = GetCSPCCondition (cspc_Status cspc) t)"
proof -
  from assms obtain cspis l where c: "GetCSPIListForCSPC E s cspc = Ok cspis"
    and l: "deploy_list E s (Namespace cspc) (clusterSelector (Name cspc)) = Ok l"
    by (auto simp: calculateStatus_def bindR_Ok_iff)
  have av: "availableCSPI E s cspc = (\<lambda>c. IsPoolMangerAvailable (readyReplicasOf l (Name c)))"
    by (rule ext) (simp add: availableCSPI_def l IsPoolMangerAvailable_def)
  let ?n = "if filter (\<lambda>c. \<not> availableCSPI E s cspc c) cspis \<noteq> []
     then NewCSPCCondition (now E s) PoolManagerAvailable ''False'' MinimumPoolManagersUnAvailable
                    (''Pool manager(s): '' @ concat (map (\<lambda>cspi. Name cspi @ '' '') (filter (\<lambda>c. \<not> availableCSPI E s cspc c) cspis))
                     @ '':does not have minimum available pod'')
     else NewCSPCCondition (now E s) PoolManagerAvailable ''True'' MinimumPoolManagersAvailable
                    ''Pool manager(s) have minimum available pod''"
  let ?s0 = "\<lparr>ProvisionedInstances = word_of_nat (length cspis),
       DesiredInstances = word_of_nat (length (Pools (cspc_Spec cspc))),
       HealthyInstances = word_of_nat (length (filter (\<lambda>c. availableCSPI E s cspc c
           \<and> cspi_Phase (cspi_Status c) = CStorPoolStatusOnline) cspis)),
       cspc_Conditions = cspc_Conditions (cspc_Status cspc)\<rparr>"
  from assms c l have st: "st = SetCSPCCondition ?s0 ?n" unfolding av by (simp add: calculateStatus_def Let_def)
  have ty: "cond_Type ?n = PoolManagerAvailable" by (simp add: NewCSPCCondition_def)
  have stat: "cond_Status ?n = (if \<forall>c \<in> set cspis. availableCSPI E s cspc c then ''True'' else ''False'')"
    by (simp add: NewCSPCCondition_def filter_empty_conv)
  have counts: "ProvisionedInstances (SetCSPCCondition a b) = ProvisionedInstances a"
    "DesiredInstances (SetCSPCCondition a b) = DesiredInstances a" "HealthyInstances (SetCSPCCondition a b) = HealthyInstances a" for a b
    by (simp_all add: SetCSPCCondition_def Let_def split: option.splits)
  have "GetCSPCCondition ?s0 = GetCSPCCondition (cspc_Status cspc)" by (rule ext) (simp add: GetCSPCCondition_def)
  with cspcc.get_put_same [of ?s0 ?n] cspcc.get_put_other [of _ ?n ?s0] c ty stat show ?thesis
    unfolding st counts by (intro exI [of _ cspis]) auto
qed

theorem status_counts_witness:
  "\<exists>st. calculateStatus sampleEnv sampleStore sampleOld = Ok st
     \<and> ProvisionedInstances st = word_of_nat (length (st_cspis sampleStore)) \<and> DesiredInstances st = word_of_nat 1"
proof -
  have "isOk (bindR (calculateStatus sampleEnv sampleStore sampleOld) (\<lambda>_. Ok ()))" by code_simp
  then obtain st where st: "calculateStatus sampleEnv sampleStore sampleOld = Ok st"
    by (cases "calculateStatus sampleEnv sampleStore sampleOld") auto
  have "GetCSPIListForCSPC sampleEnv sampleStore sampleOld = Ok (st_cspis sampleStore)"
    "length (Pools (cspc_Spec sampleOld)) = 1" by code_simp+
  with status_counts [OF st] st show ?thesis by auto
qed

text \<open>
  While every destroyed instance still has its pool protection finalizer (or lacks the
  cluster's), cleanup writes nothing and reports all of them, and with no destroyed instance it
  succeeds: no claim is released before its pool is gone.
\<close>

theorem cleanup_waits_for_pools:
  assumes "\<forall>c \<in> set cspis. isDestroyed c \<longrightarrow> \<not> (hasCSPCFinalizer E c \<and> hasNoPoolProtectionFinalizer E c)"
  shows "cleanupCSPIResources E cspis s =
     (if filter isDestroyed cspis = [] then Ok ()
      else Err (Errorf ''failure in cspi cleanup: {%v}'' [AEs (map cleanupPending (filter isDestroyed cspis))]), s)"
proof -
  from assms have "\<forall>c \<in> set cspis. \<not> canPerformCSPICleanup E c" by (auto simp: canPerformCSPICleanup_def)
  from cleanup_none_ready [OF this, of "[]" s] show ?thesis by (auto simp: cleanupCSPIResources_def bindS_def)
qed

theorem cleanup_waits_for_pools_witness:
  "cleanupCSPIResources sampleEnv [dyingCSPI] sampleStore =
     (if filter isDestroyed [dyingCSPI] = [] then Ok ()
      else Err (Errorf ''failure in cspi cleanup: {%v}'' [AEs (map cleanupPending (filter isDestroyed [dyingCSPI]))]), sampleStore)"
  by (rule cleanup_waits_for_pools) code_simp

text \<open>
  Cleanup of an instance releases and deletes only claims of its data devices: claims of its
  write cache devices are left, with their finalizer.
\<close>

theorem cleanup_releases_only_data_claims:
  assumes "bdc_list E s (Namespace cspi) (clusterSelector (mget (Labels cspi) CStorPoolClusterLabelKey)) = Ok bdcs"
    and "\<And>t c. c \<in> set bdcs \<Longrightarrow> bdc_BlockDeviceName c \<in> set (dataBDNames (cspi_Spec cspi)) \<Longrightarrow> I t \<Longrightarrow>
           I (snd (bdc_update E t (Namespace cspi) (dropCSPCFinalizer E c)))"
    and "\<And>t c. c \<in> set bdcs \<Longrightarrow> bdc_BlockDeviceName c \<in> set (dataBDNames (cspi_Spec cspi)) \<Longrightarrow> I t \<Longrightarrow>
           I (snd (bdc_delete E t (Namespace cspi) (Name c)))"
    and "I s"
  shows "I (snd (cleanupBDC E cspi s))"
proof -
  have "keeps I (releaseClaim E cspi c)" if "c \<in> set bdcs" for c
  proof (cases "bdc_BlockDeviceName c \<in> set (dataBDNames (cspi_Spec cspi))")
    case True
    with assms(2,3) that have "keeps I (\<lambda>t. bdc_update E t (Namespace cspi) (dropCSPCFinalizer E c))"
      and "keeps I (\<lambda>t. bdc_delete E t (Namespace cspi) (Name c))" by (simp_all add: keeps_def)
    with True show ?thesis by (simp add: releaseClaim_def keeps_intros)
  qed (simp add: releaseClaim_def keeps_returnS)
  then have "keeps I (foldS (\<lambda>c _. releaseClaim E cspi c) bdcs ())" by (rule keeps_foldS_mem)
  with assms(1,4) show ?thesis by (simp add: cleanupBDC_def bindS_def keepsD)
qed

theorem cleanup_releases_only_data_claims_witness:
  "\<exists>c. c \<in> set (st_bdcs (snd (cleanupBDC sampleEnv (dyingCSPI\<lparr>cspi_Spec := (cspi_Spec dyingCSPI)
      \<lparr>DataRaidGroups := [sampleGroup [''a1'']], WriteCacheRaidGroups := [sampleGroup [''a2'']]\<rparr>\<rparr>) sampleStore)))
     \<and> bdc_BlockDeviceName c = ''a2''"
proof -
  let ?c = "dyingCSPI\<lparr>cspi_Spec := (cspi_Spec dyingCSPI)
      \<lparr>DataRaidGroups := [sampleGroup [''a1'']], WriteCacheRaidGroups := [sampleGroup [''a2'']]\<rparr>\<rparr>"
  let ?I = "\<lambda>s. (sampleBDC ''bdc-a2'' ''a2'' ''c1'') \<in> set (st_bdcs s)"
  have l: "bdc_list sampleEnv sampleStore (Namespace ?c) (clusterSelector (mget (Labels ?c) CStorPoolClusterLabelKey)) = Ok (st_bdcs sampleStore)"
    by code_simp
  have names: "Name c = ''bdc-a1''" if "c \<in> set (st_bdcs sampleStore)" "bdc_BlockDeviceName c \<in> set (dataBDNames (cspi_Spec ?c))" for c
    using that by (auto simp: sampleStore_def Let_def dataBDNames_def rgBDNames_def sampleGroup_def sampleBDC_def sampleMeta_def ObjectMeta.defs)
  have ne: "Name (sampleBDC ''bdc-a2'' ''a2'' ''c1'') \<noteq> ''bdc-a1''" by code_simp
  have "?I (snd (cleanupBDC sampleEnv ?c sampleStore))"
  proof (rule cleanup_releases_only_data_claims [OF l])
    fix t :: store and c
    assume c: "c \<in> set (st_bdcs sampleStore)" "bdc_BlockDeviceName c \<in> set (dataBDNames (cspi_Spec ?c))" and "?I t"
    with names [OF c] ne show "?I (snd (bdc_update sampleEnv t (Namespace ?c) (dropCSPCFinalizer sampleEnv c)))"
      by (auto simp: sampleEnv_def storeWith_def replaceObj_def dropCSPCFinalizer_def image_iff split: res.splits if_splits)
  next
    fix t :: store and c
    assume c: "c \<in> set (st_bdcs sampleStore)" "bdc_BlockDeviceName c \<in> set (dataBDNames (cspi_Spec ?c))" and "?I t"
    with names [OF c] ne show "?I (snd (bdc_delete sampleEnv t (Namespace ?c) (Name c)))"
      by (auto simp: sampleEnv_def storeWith_def removeObj_def split: res.splits if_splits)
  next
    show "?I sampleStore" by (simp add: sampleStore_def Let_def)
  qed
  moreover have "bdc_BlockDeviceName (sampleBDC ''bdc-a2'' ''a2'' ''c1'') = ''a2''" by code_simp
  ultimately show ?thesis by blast
qed

text \<open>
  Deleting a cluster whose instances are not all gone after cleanup stops there: neither claims
  nor the finalizer of the cluster are touched. The call then reports no error, since the error it
  wraps is nil.
\<close>

theorem deletion_waits_for_instances:
  assumes "GetCSPIListForCSPC E s cspc = Ok cspis" and "cleanupCSPIResources E cspis s = (Ok (), t)"
    and "GetCSPIListForCSPC E t cspc = Ok (c # cs)"
  shows "removeCSPCFinalizer E cspc s = (Ok (), t)"
  using assms by (simp add: removeCSPCFinalizer_def bindS_def wrapS_def)

theorem deletion_waits_for_instances_witness:
  "removeCSPCFinalizer sampleEnv sampleOld sampleStore = (Ok (), sampleStore)"
proof (rule deletion_waits_for_instances)
  show "GetCSPIListForCSPC sampleEnv sampleStore sampleOld = Ok (st_cspis sampleStore)" by code_simp
  show "cleanupCSPIResources sampleEnv (st_cspis sampleStore) sampleStore = (Ok (), sampleStore)" by code_simp
  show "GetCSPIListForCSPC sampleEnv sampleStore sampleOld = Ok (hd (st_cspis sampleStore) # [])" by code_simp
qed

text \<open>
  A cluster whose recorded version differs from the operator's is not reconciled: past cleanup,
  a round writes nothing but the cluster object itself.
\<close>

theorem foreign_version_not_reconciled:
  assumes "vd_Current (cspc_Version cspc) \<noteq> ''''" and "vd_Current (cspc_Version cspc) \<noteq> binaryVersion E"
    and "\<And>t ns c. I t \<Longrightarrow> I (snd (cspc_update E t ns c))" and "I s"
  shows "I (snd (syncVersioned E cspc n s))"
proof -
  have no: "\<not> ShouldReconcile E cspc" using assms(1,2) by (simp add: ShouldReconcile_def Let_def)
  have u: "keeps I (\<lambda>s. cspc_update E s ns c)" for ns c using assms(3) by (simp add: keeps_def)
  have rec: "keeps I (reconcileVersion E cspc)" using assms(3) by (rule reconcileVersion_keeps)
  have at: "attemptS (returnS x) = returnS (Ok x)" for x :: "CStorPoolCluster \<times> CStorPoolCluster"
    by (rule ext) (simp add: attemptS_def)
  have eq: "syncVersioned E cspc n =
      bindS (reconcileVersion E cspc) (\<lambda>(verr, cspcGot). case verr of
        Some e \<Rightarrow> ignoreS (\<lambda>s. cspc_update E s (Namespace cspcGot)
          (cspcGot\<lparr>cspc_Version := setErrorStatus E ''Failed to reconcile cspc version'' e (cspc_Version cspcGot)\<rparr>))
      | None \<Rightarrow> returnS ())"
    using assms(1) no by (simp add: syncVersioned_def populateVersion_def at cong: option.case_cong)
  have "keeps I (syncVersioned E cspc n)"
    unfolding eq using rec u by (auto intro!: keeps_intros split: option.split)
  then show ?thesis using assms(4) by (rule keepsD)
qed

theorem foreign_version_not_reconciled_witness:
  "st_cspis (snd (syncVersioned sampleEnv oldVersionCSPC 0 sampleStore)) = st_cspis sampleStore"
proof (rule foreign_version_not_reconciled [where I = "\<lambda>s. st_cspis s = st_cspis sampleStore"])
  show "vd_Current (cspc_Version oldVersionCSPC) \<noteq> ''''" by code_simp
  show "vd_Current (cspc_Version oldVersionCSPC) \<noteq> binaryVersion sampleEnv" by code_simp
  show "st_cspis (snd (cspc_update sampleEnv t ns c)) = st_cspis sampleStore" if "st_cspis t = st_cspis sampleStore" for t ns c
    using that by (auto simp: sampleEnv_def storeWith_def split: res.splits)
qed simp

text \<open>
  A version upgrade is recorded, or anything written for it, only when the current version is
  in the supported window and the desired version is the operator's.
\<close>

theorem upgrade_only_in_window:
  assumes "reconcileVersion E cspc s = (Ok (err, cspc'), s')" and "vd_Current (cspc_Version cspc) \<noteq> vd_Desired (cspc_Version cspc)"
    and "err = None \<or> s' \<noteq> s"
  shows "IsCurrentVersionValid (baseVersion (binaryVersion E)) (vd_Current (cspc_Version cspc)) = Ok True
     \<and> baseVersion (vd_Desired (cspc_Version cspc)) = baseVersion (binaryVersion E)"
  using assms
  by (auto simp: reconcileVersion_def Let_def bindS_Ok_iff IsDesiredVersionValid_def split: if_splits)

theorem upgrade_only_in_window_witness:
  "fst (bindS (reconcileVersion sampleEnv oldVersionCSPC) (\<lambda>(err, c). if err = None then returnS () else failS (ApiError ''''))
      (sampleStore\<lparr>st_cspcs := [oldVersionCSPC]\<rparr>)) = Ok ()
   \<and> IsCurrentVersionValid (baseVersion (binaryVersion sampleEnv)) (vd_Current (cspc_Version oldVersionCSPC)) = Ok True"
proof
  let ?s = "sampleStore\<lparr>st_cspcs := [oldVersionCSPC]\<rparr>"
  show b: "fst (bindS (reconcileVersion sampleEnv oldVersionCSPC) (\<lambda>(err, c). if err = None then returnS () else failS (ApiError '''')) ?s) = Ok ()"
    by code_simp
  obtain r s' where "reconcileVersion sampleEnv oldVersionCSPC ?s = (r, s')" by (cases "reconcileVersion sampleEnv oldVersionCSPC ?s")
  with b obtain c where r: "reconcileVersion sampleEnv oldVersionCSPC ?s = (Ok (None, c), s')"
    by (cases r) (auto simp: bindS_def split: if_splits)
  have d: "vd_Current (cspc_Version oldVersionCSPC) \<noteq> vd_Desired (cspc_Version oldVersionCSPC)" by code_simp
  from upgrade_only_in_window [OF r d] show "IsCurrentVersionValid (baseVersion (binaryVersion sampleEnv)) (vd_Current (cspc_Version oldVersionCSPC)) = Ok True"
    by simp
qed

text \<open>
  Filling in defaults is idempotent, and an instance gets the same config when it is created as
  when it is synced later, except when its tolerations are an empty list and the cluster's are
  not: creation then takes the cluster's, and the next sync empties them again.
\<close>

theorem defaulting_agrees:
  "defaultPoolConfig spec (defaultPoolConfig spec pc) = defaultPoolConfig spec pc
   \<and> (ac_defaults spec pc \<noteq> defaultPoolConfig spec pc) = (Tolerations pc = Some [] \<and> DefaultTolerations spec \<noteq> Some [])"
proof
  show "defaultPoolConfig spec (defaultPoolConfig spec pc) = defaultPoolConfig spec pc"
    by (rule PoolConfig.equality) (auto simp: defaultPoolConfig_fields)
  have "ac_defaults spec pc = defaultPoolConfig spec pc" if "Tolerations pc \<noteq> Some [] \<or> DefaultTolerations spec = Some []"
    using that by (intro PoolConfig.equality) (auto simp: ac_defaults_fields defaultPoolConfig_fields)
  moreover have "Tolerations pc \<noteq> Some [] \<or> DefaultTolerations spec = Some []" if "ac_defaults spec pc = defaultPoolConfig spec pc"
    using arg_cong [OF that, of Tolerations] by (auto simp: ac_defaults_fields defaultPoolConfig_fields split: if_splits)
  ultimately show "(ac_defaults spec pc \<noteq> defaultPoolConfig spec pc) = (Tolerations pc = Some [] \<and> DefaultTolerations spec \<noteq> Some [])"
    by blast
qed

end
