(* ===== verification/VolumeWebhook.thy ===== *)
theory VolumeWebhook
  imports CspcPoolOps
begin

text \<open>
  The admission webhook for volume configurations (\<open>cvc.go\<close>), volume claims (\<open>pvc.go\<close>) and
  namespaces (\<open>namespace.go\<close>), and the dispatcher over the kinds (\<open>validate\<close> of \<open>webhook.go\<close>).
\<close>

section \<open>Volume configurations\<close>

definition isScalingInProgress :: "CStorVolumeConfig \<Rightarrow> bool" where
  "isScalingInProgress cvcObj = (length (cvc_ReplicaPoolInfo cvcObj) \<noteq> length (cvc_PoolInfo cvcObj))"

definition validateReplicaCount :: "CStorVolumeConfig \<Rightarrow> CStorVolumeConfig \<Rightarrow> verdict" where
  "validateReplicaCount cvcOldObj cvcNewObj =
     failIf (cvc_ReplicaCount cvcOldObj \<noteq> cvc_ReplicaCount cvcNewObj)
       (Errorf ''cvc %s replicaCount got modified from %d to %d''
          [AS (Name cvcOldObj), AI (cvc_ReplicaCount cvcOldObj), AI (cvc_ReplicaCount cvcNewObj)])"

definition validateProvisionedCapacity :: "CStorVolumeConfig \<Rightarrow> CStorVolumeConfig \<Rightarrow> verdict" where
  "validateProvisionedCapacity cvcOldObj cvcNewObj =
     failIf (cvc_ProvisionCapacity cvcNewObj \<noteq> cvc_ProvisionCapacity cvcOldObj)
       (Errorf ''cvc initial provisioned capacity `Spec.Provision.Capacity` is immutable, can't be modified '' [])"

definition validatePoolListChanges :: "'s env \<Rightarrow> CStorVolumeConfig \<Rightarrow> CStorVolumeConfig \<Rightarrow> verdict" where
  "validatePoolListChanges E cvcOldObj cvcNewObj =
     (let oldCurrentPoolNames = cvc_PoolInfo cvcOldObj;
          newDesiredPoolNames = GetDesiredReplicaPoolNames E cvcNewObj;
          modifiedPoolNames = ListDiff E oldCurrentPoolNames newDesiredPoolNames
      in if cvc_Phase cvcOldObj \<noteq> CStorVolumeConfigPhaseBound E \<and> cvc_Phase cvcNewObj \<noteq> CStorVolumeConfigPhaseBound E \<and>
            length oldCurrentPoolNames \<noteq> length newDesiredPoolNames
         then Err (Errorf ''Can't perform scaling of volume replicas when CVC is not in %s state''
                     [AS (CStorVolumeConfigPhaseBound E)])
         else if length newDesiredPoolNames \<ge> length oldCurrentPoolNames
         then failIf (length modifiedPoolNames > 0)
                (Errorf ''volume replica migration directly by modifying pool names %v is not yet supported''
                   [AL modifiedPoolNames])
         else failIf (length modifiedPoolNames > 1)
                (Errorf ''Can't perform more than one replica scale down requested scale down count %d''
                   [AI (int (length modifiedPoolNames))]))"

definition validateReplicaScaling :: "CStorVolumeConfig \<Rightarrow> CStorVolumeConfig \<Rightarrow> verdict" where
  "validateReplicaScaling cvcOldObj cvcNewObj =
     failIf (isScalingInProgress cvcOldObj \<and>
             length (cvc_ReplicaPoolInfo cvcOldObj) \<noteq> length (cvc_ReplicaPoolInfo cvcNewObj))
       (Errorf ''scaling of CVC %s is already in progress'' [AS (Name cvcOldObj)])"

text \<open>The loop with its map of names seen so far.\<close>

fun uniqueLoop :: "string list \<Rightarrow> string list \<Rightarrow> bool" where
  "uniqueLoop listMap [] = True"
| "uniqueLoop listMap (str # list) = (if str \<in> set listMap then False else uniqueLoop (str # listMap) list)"

definition IsUniqueList :: "string list \<Rightarrow> bool" where
  "IsUniqueList list = uniqueLoop [] list"

definition validatePoolNames :: "'s env \<Rightarrow> CStorVolumeConfig \<Rightarrow> verdict" where
  "validatePoolNames E cvcObj =
     (if \<not> IsUniqueList (GetDesiredReplicaPoolNames E cvcObj)
      then Err (Errorf ''duplicate pool names %v found under spec of cvc %s''
                  [AL (GetDesiredReplicaPoolNames E cvcObj), AS (Name cvcObj)])
      else failIf (\<not> IsUniqueList (cvc_PoolInfo cvcObj))
             (Errorf ''duplicate pool names %v found under status of cvc %s''
                [AL (cvc_PoolInfo cvcObj), AS (Name cvcObj)]))"

definition validateCVCSpecChanges :: "'s env \<Rightarrow> CStorVolumeConfig \<Rightarrow> CStorVolumeConfig \<Rightarrow> verdict" where
  "validateCVCSpecChanges E cvcOldObj cvcNewObj =
     bindR (checkAll (\<lambda>f. f cvcOldObj cvcNewObj)
              [validateReplicaCount, validateProvisionedCapacity, validatePoolListChanges E, validateReplicaScaling]) (\<lambda>_.
     validatePoolNames E cvcNewObj)"

definition getCVCObject :: "'s env \<Rightarrow> string \<Rightarrow> string \<Rightarrow> 's \<Rightarrow> CStorVolumeConfig res" where
  "getCVCObject E name namespace s = cvc_get E s namespace name"

definition validateCVCUpdateRequest ::
    "'s env \<Rightarrow> AdmissionRequest \<Rightarrow> (string \<Rightarrow> string \<Rightarrow> 's \<Rightarrow> CStorVolumeConfig res) \<Rightarrow> 's \<Rightarrow> AdmissionResponse res" where
  "validateCVCUpdateRequest E req getCVC s =
     (case req_CVC req of
        Panic m \<Rightarrow> Panic m
      | Err e \<Rightarrow> Ok (rejected e StatusBadRequest)
      | Ok cvcNewObj \<Rightarrow>
          (case getCVC (Name cvcNewObj) (Namespace cvcNewObj) s of
             Panic m \<Rightarrow> Panic m
           | Err e \<Rightarrow> Ok (rejected e StatusBadRequest)
           | Ok cvcOldObj \<Rightarrow>
               (case validateCVCSpecChanges E cvcOldObj cvcNewObj of
                  Panic m \<Rightarrow> Panic m
                | Err e \<Rightarrow> Ok (rejected e StatusBadRequest)
                | Ok _ \<Rightarrow> Ok accepted)))"

text \<open>A response that is only marked as allowed, and one that only carries a message.\<close>

definition allowed :: AdmissionResponse where
  "allowed = \<lparr>Allowed = True, Result = None\<rparr>"

definition refused :: "goerr \<Rightarrow> AdmissionResponse" where
  "refused message = \<lparr>Allowed = False, Result = Some ('''', 0, Some message)\<rparr>"

definition validateCVC :: "'s env \<Rightarrow> AdmissionRequest \<Rightarrow> 's \<Rightarrow> AdmissionResponse res" where
  "validateCVC E req s =
     (if req_Operation req = Update then validateCVCUpdateRequest E req (getCVCObject E) s else Ok allowed)"

section \<open>Volume claims\<close>

definition ignoredNamespaces :: "string list" where
  "ignoredNamespaces = [''kube-system'', ''kube-public'']"

fun admissionRequired :: "string list \<Rightarrow> 'a ObjectMeta_scheme \<Rightarrow> bool" where
  "admissionRequired [] metadata = True"
| "admissionRequired (namespace # ignoredList) metadata =
     (if Namespace metadata = namespace then False else admissionRequired ignoredList metadata)"

definition validationRequired :: "string list \<Rightarrow> 'a ObjectMeta_scheme \<Rightarrow> bool" where
  "validationRequired ignoredList metadata = admissionRequired ignoredList metadata"

definition clonesExist :: "PersistentVolumeClaim \<Rightarrow> nat \<Rightarrow> AdmissionResponse" where
  "clonesExist pvc n =
     \<lparr>Allowed = False,
      Result = Some (''Failure'', StatusForbidden, Some (Errorf ''pvc %q has '%v' cloned volume(s)'' [AS (Name pvc), AI (int n)]))\<rparr>"

definition validatePVCDeleteRequest :: "'s env \<Rightarrow> AdmissionRequest \<Rightarrow> 's \<Rightarrow> AdmissionResponse res" where
  "validatePVCDeleteRequest E req s =
     (if req_Name req = '''' then Ok allowed
      else
        case pvc_get E s (req_Namespace req) (req_Name req) of
          Panic m \<Rightarrow> Panic m
        | Err e \<Rightarrow> Ok (refused (Errorf ''error retrieving PVC: %v'' [AE e]))
        | Ok pvc \<Rightarrow>
            if \<not> validationRequired ignoredNamespaces pvc then Ok allowed
            else
              let label = ''openebs.io/source-volume='' @ pvc_VolumeName pvc in
              (case cv_count E s '''' label of
                 Panic m \<Rightarrow> Panic m
               | Err e \<Rightarrow> Ok (refused (Errorf ''error retrieving CstorVolumes: %v'' [AE e]))
               | Ok n \<Rightarrow>
                   if n \<noteq> 0 then Ok (clonesExist pvc n)
                   else
                     (case cvc_list E s '''' label of
                        Panic m \<Rightarrow> Panic m
                      | Err e \<Rightarrow> Ok (refused (Errorf ''error retrieving CstorVolumeClaims: %v'' [AE e]))
                      | Ok cvcs \<Rightarrow>
                          if length cvcs \<noteq> 0 then Ok (clonesExist pvc (length cvcs)) else Ok allowed)))"

definition validatePVCCreateRequest :: "AdmissionRequest \<Rightarrow> AdmissionResponse" where
  "validatePVCCreateRequest req = allowed"

definition validatePVC :: "'s env \<Rightarrow> AdmissionRequest \<Rightarrow> 's \<Rightarrow> AdmissionResponse res" where
  "validatePVC E req s =
     (case req_Operation req of
        Create \<Rightarrow> Ok (validatePVCCreateRequest req)
      | Delete \<Rightarrow> validatePVCDeleteRequest E req s
      | _ \<Rightarrow> Ok allowed)"

section \<open>Namespaces\<close>

definition getOpenebsNamespace :: "'s env \<Rightarrow> string res" where
  "getOpenebsNamespace E =
     (case LookupEnv E (OpenEBSNamespaceEnv E) of
        None \<Rightarrow> Err (Errorf ''%s must be set'' [AS (OpenEBSNamespaceEnv E)])
      | Some ns \<Rightarrow> Ok ns)"

definition validatorWebhook :: string where
  "validatorWebhook = ''openebs-cstor-validation-webhook''"

definition validateNamespaceDeleteRequest :: "'s env \<Rightarrow> AdmissionRequest \<Rightarrow> ('s, AdmissionResponse) act" where
  "validateNamespaceDeleteRequest E req =
     (if req_Name req = '''' then returnS allowed
      else
        bindS (attemptS (\<lambda>s. webhook_config_delete E s validatorWebhook)) (\<lambda>r.
          returnS (case r of Err e \<Rightarrow> refused e | _ \<Rightarrow> allowed)))"

definition validateNamespace :: "'s env \<Rightarrow> AdmissionRequest \<Rightarrow> ('s, AdmissionResponse) act" where
  "validateNamespace E req =
     (case getOpenebsNamespace E of
        Panic m \<Rightarrow> panicS m
      | Err e \<Rightarrow> returnS (refused (Errorf ''error getting OPENEBS_NAMESPACE env %s: %v'' [AS (req_Name req), AE e]))
      | Ok openebsNamespace \<Rightarrow>
          if openebsNamespace = req_Name req \<and> req_Operation req = Delete
          then validateNamespaceDeleteRequest E req
          else returnS allowed)"

section \<open>The dispatcher\<close>

definition validate :: "'s env \<Rightarrow> AdmissionRequest \<Rightarrow> ('s, AdmissionResponse) act" where
  "validate E req =
     (if req_Kind req = ''Namespace'' then validateNamespace E req
      else if req_Kind req = ''PersistentVolumeClaim'' then readS (validatePVC E req)
      else if req_Kind req = ''CStorPoolCluster'' then validateCSPC E req
      else if req_Kind req = ''CStorVolumeConfig'' then readS (validateCVC E req)
      else returnS allowed)"

section \<open>Lemmas\<close>

text \<open>The loop is the library's \<open>distinct\<close>.\<close>

lemma uniqueLoop_distinct: "uniqueLoop seen xs \<longleftrightarrow> distinct xs \<and> set xs \<inter> set seen = {}"
  by (induction seen xs rule: uniqueLoop.induct) auto

lemma IsUniqueList_distinct: "IsUniqueList xs = distinct xs"
  by (simp add: IsUniqueList_def uniqueLoop_distinct)

lemma admissionRequired_iff: "admissionRequired ns m \<longleftrightarrow> Namespace m \<notin> set ns"
  by (induction ns) auto

lemma allowed_simps [simp]: "Allowed allowed" "\<not> Allowed (refused e)" "\<not> Allowed (clonesExist p n)"
  by (simp_all add: allowed_def refused_def clonesExist_def)

text \<open>
  Which updates of a volume configuration are admissible, on sets of pools: the replica count and the
  initial capacity stay; the number of replicas changes only on a bound volume; pools of the volume
  disappear from the wanted list only when it gets shorter, and then at most one; while a change is
  being carried out the number of wanted replicas stays; and no pool is named twice.
\<close>

definition cvcUpdateAdmissible :: "'s env \<Rightarrow> CStorVolumeConfig \<Rightarrow> CStorVolumeConfig \<Rightarrow> bool" where
  "cvcUpdateAdmissible E old new \<longleftrightarrow>
     (let current = cvc_PoolInfo old; wanted = GetDesiredReplicaPoolNames E new;
          gone = filter (\<lambda>p. p \<notin> set wanted) current in
      cvc_ReplicaCount new = cvc_ReplicaCount old \<and> cvc_ProvisionCapacity new = cvc_ProvisionCapacity old \<and>
      (cvc_Phase old = CStorVolumeConfigPhaseBound E \<or> cvc_Phase new = CStorVolumeConfigPhaseBound E \<or> length wanted = length current) \<and>
      length gone \<le> (if length wanted < length current then 1 else 0) \<and>
      (length (cvc_ReplicaPoolInfo old) = length current \<or>
       length (cvc_ReplicaPoolInfo new) = length (cvc_ReplicaPoolInfo old)) \<and>
      distinct wanted \<and> distinct (cvc_PoolInfo new))"

lemma validateCVCSpecChanges_iff:
  assumes "\<And>xs ys. ListDiff E xs ys = filter (\<lambda>x. x \<notin> set ys) xs"
  shows "validateCVCSpecChanges E old new = Ok () \<longleftrightarrow> cvcUpdateAdmissible E old new"
  by (auto simp: validateCVCSpecChanges_def cvcUpdateAdmissible_def Let_def assms bindR_Ok_iff validateReplicaCount_def
      validateProvisionedCapacity_def validatePoolListChanges_def validateReplicaScaling_def isScalingInProgress_def
      validatePoolNames_def IsUniqueList_distinct failIf_def split: if_splits)

lemma validateCVCSpecChanges_answers: "validateCVCSpecChanges E old new \<noteq> Panic m"
  by (auto simp: validateCVCSpecChanges_def Let_def validateReplicaCount_def validateProvisionedCapacity_def
      validatePoolListChanges_def validateReplicaScaling_def validatePoolNames_def failIf_def)

section \<open>Properties\<close>

text \<open>
  C7. An update of a volume configuration is answered, and it is allowed exactly when it is admissible.
\<close>

theorem cvc_update_admits_exactly:
  assumes "\<And>xs ys. ListDiff E xs ys = filter (\<lambda>x. x \<notin> set ys) xs"
    and "req_CVC req = Ok new" and "cvc_get E s (Namespace new) (Name new) = Ok old" and "req_Operation req = Update"
  shows "\<exists>r. validateCVC E req s = Ok r \<and> (Allowed r \<longleftrightarrow> cvcUpdateAdmissible E old new)"
  using assms(2-4) validateCVCSpecChanges_answers [of E old new] validateCVCSpecChanges_iff [OF assms(1), of old new]
  by (cases "validateCVCSpecChanges E old new")
    (auto simp: validateCVC_def validateCVCUpdateRequest_def getCVCObject_def)

text \<open>
  Two updates of a bound volume with two replicas: adding a third pool is allowed, exchanging a pool is not.
\<close>

definition sampleCVC :: "string list \<Rightarrow> CStorVolumeConfig" where
  "sampleCVC wanted = ObjectMeta.extend (sampleMeta ''pvc-1'' [])
     \<lparr>cvc_ReplicaCount = 2, cvc_ProvisionCapacity = 10, cvc_Capacity = 10, cvc_VolumeSource = '''', cvc_VolumeRef = None,
      cvc_Policy = emptyPolicySpec\<lparr>pol_ReplicaPoolInfo := wanted\<rparr>, cvc_NodeID = '''',
      cvc_Phase = ''Bound'', cvc_PoolInfo = [''p1'', ''p2''], cvc_StatusCapacity = 10, cvc_Conditions = [],
      cvc_Version = emptyVersionDetails\<rparr>"

definition cvcRequest :: "CStorVolumeConfig \<Rightarrow> AdmissionRequest" where
  "cvcRequest c = \<lparr>req_Kind = ''CStorVolumeConfig'', req_Operation = Update, req_Name = Name c, req_Namespace = Namespace c,
      req_CSPC = Err (ApiError []), req_CVC = Ok c\<rparr>"

theorem cvc_update_admits_exactly_witness:
  "(\<exists>r. validateCVC sampleEnv (cvcRequest (sampleCVC [''p1'', ''p2'', ''p3''])) (emptyStore\<lparr>st_cvcs := [sampleCVC [''p1'', ''p2'']]\<rparr>) =
        Ok r \<and> Allowed r) \<and>
   (\<exists>r. validateCVC sampleEnv (cvcRequest (sampleCVC [''p1'', ''p3''])) (emptyStore\<lparr>st_cvcs := [sampleCVC [''p1'', ''p2'']]\<rparr>) =
        Ok r \<and> \<not> Allowed r)"
proof -
  have diff: "\<And>xs ys. ListDiff sampleEnv xs ys = filter (\<lambda>x. x \<notin> set ys) xs" by (simp add: sampleEnv_def)
  have get: "cvc_get sampleEnv (emptyStore\<lparr>st_cvcs := [sampleCVC [''p1'', ''p2'']]\<rparr>) (Namespace (sampleCVC w)) (Name (sampleCVC w)) =
      Ok (sampleCVC [''p1'', ''p2''])" for w
    by (simp add: sampleEnv_def sampleCVC_def lookupObj_def sampleMeta_def ObjectMeta.defs)
  have req: "req_CVC (cvcRequest c) = Ok c" "req_Operation (cvcRequest c) = Update" for c by (simp_all add: cvcRequest_def)
  have "cvcUpdateAdmissible sampleEnv (sampleCVC [''p1'', ''p2'']) (sampleCVC [''p1'', ''p2'', ''p3''])"
    "\<not> cvcUpdateAdmissible sampleEnv (sampleCVC [''p1'', ''p2'']) (sampleCVC [''p1'', ''p3''])" by code_simp+
  then show ?thesis
    using cvc_update_admits_exactly [OF diff req(1) get req(2), of "[''p1'', ''p2'', ''p3'']"]
      cvc_update_admits_exactly [OF diff req(1) get req(2), of "[''p1'', ''p3'']"] by blast
qed

text \<open>
  The deletion of a volume claim is answered, and it is allowed exactly when the request names none,
  or the claim is in a system namespace, or no volume and no volume configuration was cloned from its volume.
\<close>

theorem pvc_delete_admits_exactly:
  assumes "req_Operation req = Delete" and "req_Name req \<noteq> '''' \<Longrightarrow> pvc_get E s (req_Namespace req) (req_Name req) = Ok pvc"
    and "cv_count E s '''' (''openebs.io/source-volume='' @ pvc_VolumeName pvc) = Ok n"
    and "cvc_list E s '''' (''openebs.io/source-volume='' @ pvc_VolumeName pvc) = Ok cvcs"
  shows "\<exists>r. validatePVC E req s = Ok r \<and>
     (Allowed r \<longleftrightarrow> req_Name req = '''' \<or> Namespace pvc \<in> {''kube-system'', ''kube-public''} \<or> n = 0 \<and> cvcs = [])"
  using assms
  by (simp add: validatePVC_def validatePVCDeleteRequest_def Let_def validationRequired_def admissionRequired_iff
      ignoredNamespaces_def)

theorem pvc_delete_admits_exactly_witness:
  "\<exists>r. validatePVC sampleEnv \<lparr>req_Kind = ''PersistentVolumeClaim'', req_Operation = Delete, req_Name = ''v'',
        req_Namespace = ''default'', req_CSPC = Err (ApiError []), req_CVC = Err (ApiError [])\<rparr>
     (emptyStore\<lparr>st_pvcs := [ObjectMeta.extend ((sampleMeta ''v'' [])\<lparr>Namespace := ''default''\<rparr>) \<lparr>pvc_VolumeName = ''pvc-1''\<rparr>],
        st_cvcs := [(sampleCVC [])\<lparr>Labels := [(''openebs.io/source-volume'', ''pvc-1'')]\<rparr>]\<rparr>) = Ok r \<and> \<not> Allowed r"
proof -
  let ?req = "\<lparr>req_Kind = ''PersistentVolumeClaim'', req_Operation = Delete, req_Name = ''v'',
        req_Namespace = ''default'', req_CSPC = Err (ApiError []), req_CVC = Err (ApiError [])\<rparr>"
  let ?pvc = "ObjectMeta.extend ((sampleMeta ''v'' [])\<lparr>Namespace := ''default''\<rparr>) \<lparr>pvc_VolumeName = ''pvc-1''\<rparr>"
  let ?cvc = "(sampleCVC [])\<lparr>Labels := [(''openebs.io/source-volume'', ''pvc-1'')]\<rparr>"
  let ?s = "emptyStore\<lparr>st_pvcs := [?pvc], st_cvcs := [?cvc]\<rparr>"
  have "req_Operation ?req = Delete" by simp
  moreover have "pvc_get sampleEnv ?s (req_Namespace ?req) (req_Name ?req) = Ok ?pvc"
    by (simp add: sampleEnv_def lookupObj_def sampleMeta_def ObjectMeta.defs)
  moreover have "cv_count sampleEnv ?s '''' (''openebs.io/source-volume='' @ pvc_VolumeName ?pvc) = Ok 0"
    by (simp add: sampleEnv_def)
  moreover have "cvc_list sampleEnv ?s '''' (''openebs.io/source-volume='' @ pvc_VolumeName ?pvc) = Ok [?cvc]"
    by code_simp
  ultimately have "\<exists>r. validatePVC sampleEnv ?req ?s = Ok r \<and>
     (Allowed r \<longleftrightarrow> req_Name ?req = '''' \<or> Namespace ?pvc \<in> {''kube-system'', ''kube-public''} \<or> (0::nat) = 0 \<and> [?cvc] = [])"
    by (rule pvc_delete_admits_exactly)
  moreover have "Namespace ?pvc = ''default''" by code_simp
  ultimately show ?thesis by simp
qed

end
