(* ===== verification/ZcmdBase.thy ===== *)
theory ZcmdBase
  imports Prelude
begin

text \<open>
  What the thirty command builders under \<open>pkg/zcmd\<close> share. Each Go package repeats the same
  methods \<open>WithCheck\<close>, \<open>WithCommand\<close>, \<open>WithExecutor\<close>, \<open>Validate\<close> and the frame of
  \<open>Build\<close> on its own struct; here they are defined once, on a record that the builders
  extend. A predicate in the list of checks is represented by the name that
  \<open>runtime.FuncForPC\<close> gives it, with the meaning of the names as a parameter. An executor
  takes the command line and gives output and error together, as \<open>bin.Executor\<close> does.

  The second half is the vocabulary in which the command lines are specified: a line without
  shell metacharacters is split at blanks into the words that the program receives.
\<close>

section \<open>Running a command line\<close>

type_synonym 's executor = "string \<Rightarrow> 's \<Rightarrow> (string \<times> goerr option) \<times> 's"

definition ZPOOL :: string where "ZPOOL = ''zpool''"
definition ZFS :: string where "ZFS = ''zfs''"

record zcmd =
  Command :: string
  checks :: "string list"
  cmd_err :: "goerr option"

record 's ezcmd = zcmd +
  Executor :: "'s executor option"

text \<open>\<open>errors.Wrapf\<close> of a nil error is nil.\<close>

definition wrapErr :: "goerr option \<Rightarrow> string \<Rightarrow> goarg list \<Rightarrow> goerr option" where
  "wrapErr e f a = map_option (\<lambda>e. Wrapf e f a) e"

definition WithCheck :: "string list \<Rightarrow> 'z zcmd_scheme \<Rightarrow> 'z zcmd_scheme" where
  "WithCheck check p = p\<lparr>checks := checks p @ check\<rparr>"

definition WithCommand :: "string \<Rightarrow> 'z zcmd_scheme \<Rightarrow> 'z zcmd_scheme" where
  "WithCommand command p = p\<lparr>Command := command\<rparr>"

definition WithExecutor :: "'s executor \<Rightarrow> ('s, 'z) ezcmd_scheme \<Rightarrow> ('s, 'z) ezcmd_scheme" where
  "WithExecutor executor p = p\<lparr>Executor := Some executor\<rparr>"

fun validateLoop :: "(string \<Rightarrow> 'z zcmd_scheme \<Rightarrow> bool) \<Rightarrow> string list \<Rightarrow> 'z zcmd_scheme \<Rightarrow> 'z zcmd_scheme" where
  "validateLoop holds [] p = p"
| "validateLoop holds (check # rest) p =
     validateLoop holds rest
       (if holds check p then p else p\<lparr>cmd_err := wrapErr (cmd_err p) ''validation failed {%v}'' [AS check]\<rparr>)"

definition Validate :: "(string \<Rightarrow> 'z zcmd_scheme \<Rightarrow> bool) \<Rightarrow> 'z zcmd_scheme \<Rightarrow> 'z zcmd_scheme" where
  "Validate holds p = validateLoop holds (checks p) p"

text \<open>
  The frame of \<open>Build\<close>, around the command line that a builder writes into its string
  builder; \<open>strings.Builder.WriteString\<close> never returns an error.
\<close>

definition buildWith ::
    "('z zcmd_scheme \<Rightarrow> string) \<Rightarrow> (string \<Rightarrow> 'z zcmd_scheme \<Rightarrow> bool) \<Rightarrow> 'z zcmd_scheme \<Rightarrow> 'z zcmd_scheme \<times> goerr option" where
  "buildWith render holds p =
     (let q = Validate holds p; r = q\<lparr>Command := render q\<rparr> in (r, cmd_err r))"

text \<open>The two ways to run a built command: the executor of the builder if there is one, else bash.\<close>

definition runBash :: "'s executor \<Rightarrow> 'z zcmd_scheme \<Rightarrow> 's \<Rightarrow> (string \<times> goerr option) \<times> 's" where
  "runBash bash p s = bash (Command p) s"

definition runCmd :: "'s executor \<Rightarrow> ('s, 'z) ezcmd_scheme \<Rightarrow> 's \<Rightarrow> (string \<times> goerr option) \<times> 's" where
  "runCmd bash p s = (case Executor p of Some x \<Rightarrow> x (Command p) s | None \<Rightarrow> bash (Command p) s)"

text \<open>The frame of \<open>Execute\<close>: a failed build gives no output and runs nothing.\<close>

definition executeWith ::
    "('p \<times> goerr option) \<Rightarrow> ('p \<Rightarrow> 's \<Rightarrow> (string \<times> goerr option) \<times> 's) \<Rightarrow> 's \<Rightarrow> (string \<times> goerr option) \<times> 's" where
  "executeWith built run s = (case built of (p, Some e) \<Rightarrow> (('''', Some e), s) | (p, None) \<Rightarrow> run p s)"

lemma wrapErr_None [simp]: "wrapErr None f a = None"
  by (simp add: wrapErr_def)

text \<open>
  A builder starts with no error, and wrapping no error gives none: no check ever makes a
  build fail.
\<close>

lemma validateLoop_no_err: "cmd_err p = None \<Longrightarrow> validateLoop holds cs p = p"
proof (induction cs arbitrary: p)
  case (Cons c cs)
  then have "p\<lparr>cmd_err := None\<rparr> = p" by simp
  with Cons show ?case by simp
qed simp

lemma Validate_no_err: "cmd_err p = None \<Longrightarrow> Validate holds p = p"
  by (simp add: Validate_def validateLoop_no_err)

lemma buildWith_no_err:
  "cmd_err p = None \<Longrightarrow> buildWith render holds p = (p\<lparr>Command := render p\<rparr>, None)"
  by (simp add: buildWith_def Validate_no_err)

section \<open>Words of a command line\<close>

text \<open>\<open>strings.Fields\<close>: the maximal runs of characters that are not white space.\<close>

fun Fields :: "string \<Rightarrow> string list" where
  "Fields [] = []"
| "Fields (c # cs) =
     (if isSpace c then Fields cs
      else (case cs of
              [] \<Rightarrow> [[c]]
            | d # _ \<Rightarrow> if isSpace d then [c] # Fields cs
                        else (case Fields cs of [] \<Rightarrow> [[c]] | w # ws \<Rightarrow> (c # w) # ws)))"

text \<open>Characters that bash takes literally in an unquoted word.\<close>

definition shellMeta :: "char \<Rightarrow> bool" where
  "shellMeta c = (c \<in> set ''|&;<>()$*?[]#~{}!'' \<or> c \<in> {CHR 0x22, CHR 0x27, CHR 0x5C, CHR 0x60})"

definition word :: "string \<Rightarrow> bool" where
  "word w = (w \<noteq> [] \<and> list_all (\<lambda>c. \<not> isSpace c \<and> \<not> shellMeta c) w)"

definition optWord :: "string \<Rightarrow> bool" where
  "optWord w = (w = [] \<or> word w)"

text \<open>The arguments bash passes on, for a line without metacharacters.\<close>

definition shellWords :: "string \<Rightarrow> string list option" where
  "shellWords cmd = (if list_ex shellMeta cmd then None else Some (Fields cmd))"

definition spaceLed :: "string \<Rightarrow> bool" where
  "spaceLed s = (case s of [] \<Rightarrow> True | c # _ \<Rightarrow> isSpace c)"

definition spaceEnded :: "string \<Rightarrow> bool" where
  "spaceEnded s = (s = [] \<or> isSpace (last s))"

named_theorems word_simps \<open>splitting command lines into words\<close>

lemma isSpace_blank [simp]: "isSpace (CHR '' '')"
  by (simp add: isSpace_def)

lemma Fields_Cons_space: "isSpace c \<Longrightarrow> Fields (c # s) = Fields s"
  by simp

lemma Fields_append_spaceLed: "spaceLed t \<Longrightarrow> Fields (s @ t) = Fields s @ Fields t"
proof (induction s rule: Fields.induct)
  case (2 c cs)
  show ?case
  proof (cases cs)
    case Nil
    with 2 show ?thesis by (cases t) (auto simp: spaceLed_def)
  next
    case (Cons d ds)
    with 2 show ?thesis by (auto split: list.splits)
  qed
qed simp

lemma Fields_append_spaceEnded: "spaceEnded s \<Longrightarrow> Fields (s @ t) = Fields s @ Fields t"
proof (induction s rule: Fields.induct)
  case (2 c cs)
  show ?case
  proof (cases cs)
    case Nil
    with 2 show ?thesis by (auto simp: spaceEnded_def)
  next
    case (Cons d ds)
    with 2 show ?thesis by (auto simp: spaceEnded_def split: list.splits)
  qed
qed simp

lemma Fields_append [word_simps]: "spaceEnded s \<or> spaceLed t \<Longrightarrow> Fields (s @ t) = Fields s @ Fields t"
  using Fields_append_spaceLed Fields_append_spaceEnded by blast

lemma Fields_word [word_simps]: "word w \<Longrightarrow> Fields w = [w]"
proof -
  have "w \<noteq> [] \<Longrightarrow> list_all (\<lambda>c. \<not> isSpace c) w \<Longrightarrow> Fields w = [w]"
  proof (induction w)
    case (Cons c w)
    then show ?case by (cases w) auto
  qed simp
  then show "word w \<Longrightarrow> Fields w = [w]" by (auto simp: word_def list_all_iff)
qed

lemma Fields_optWord [word_simps]: "optWord w \<Longrightarrow> w \<noteq> [] \<Longrightarrow> Fields w = [w]"
  by (auto simp: optWord_def Fields_word)

lemma spaceLed_simps [word_simps]:
  "spaceLed []" "spaceLed (c # s) = isSpace c" "spaceLed (if b then s else t) = (if b then spaceLed s else spaceLed t)"
  by (simp_all add: spaceLed_def)

lemma spaceLed_append [word_simps]: "spaceLed s \<Longrightarrow> spaceLed t \<Longrightarrow> spaceLed (s @ t)"
  by (cases s) (simp_all add: spaceLed_def)

lemma spaceLed_concat [word_simps]: "(\<And>v. spaceLed (f v)) \<Longrightarrow> spaceLed (concat (map f vs))"
  by (induction vs) (simp_all add: word_simps)

lemma spaceEnded_simps [word_simps]:
  "spaceEnded []" "spaceEnded (c # s) = (if s = [] then isSpace c else spaceEnded s)"
  "spaceEnded (if b then s else t) = (if b then spaceEnded s else spaceEnded t)"
  by (simp_all add: spaceEnded_def)

lemma spaceEnded_append [word_simps]: "spaceEnded s \<Longrightarrow> spaceEnded t \<Longrightarrow> spaceEnded (s @ t)"
  by (cases t) (auto simp: spaceEnded_def)

lemma spaceEnded_append_Cons [word_simps]: "spaceEnded (c # s) \<Longrightarrow> spaceEnded (t @ c # s)"
  by (simp add: spaceEnded_def)

lemma spaceEnded_concat [word_simps]: "(\<And>v. spaceEnded (f v)) \<Longrightarrow> spaceEnded (concat (map f vs))"
  by (induction vs) (simp_all add: word_simps)

lemma Fields_if [word_simps]: "Fields (if b then s else t) = (if b then Fields s else Fields t)"
  by simp

text \<open>A loop that writes an option in front of every element of a list.\<close>

lemma Fields_concat_led [word_simps]:
  "(\<And>v. spaceLed (f v)) \<Longrightarrow> Fields (concat (map f vs)) = concat (map (\<lambda>v. Fields (f v)) vs)"
  by (induction vs) (simp_all add: word_simps)

lemma concat_words [word_simps]:
  "list_all word vs \<Longrightarrow> concat (map Fields vs) = vs"
  "list_all word vs \<Longrightarrow> concat (map (\<lambda>v. flag # Fields v) vs) = concat (map (\<lambda>v. [flag, v]) vs)"
  by (induction vs) (simp_all add: word_simps)

lemma if_concat [word_simps]:
  "(if vs \<noteq> [] then concat (map f vs) else []) = concat (map f vs)"
  "(if vs = [] then [] else concat (map f vs)) = concat (map f vs)"
  by simp_all

lemma word_append: "word v \<Longrightarrow> word w \<Longrightarrow> word (v @ w)"
  by (simp add: word_def)

text \<open>Lines without metacharacters.\<close>

definition plain :: "string \<Rightarrow> bool" where
  "plain s = (\<not> list_ex shellMeta s)"

named_theorems plain_simps \<open>absence of metacharacters\<close>

lemma plain_simps' [plain_simps]:
  "plain []" "plain (c # t) = (\<not> shellMeta c \<and> plain t)" "plain (s @ t) = (plain s \<and> plain t)"
  "plain (if b then s else t) = (if b then plain s else plain t)"
  by (simp_all add: plain_def)

lemma plain_word [plain_simps]: "word w \<Longrightarrow> plain w"
  by (auto simp: plain_def word_def list_all_iff list_ex_iff)

lemma plain_optWord [plain_simps]: "optWord w \<Longrightarrow> plain w"
  by (auto simp: optWord_def plain_simps)

lemma plain_concat [plain_simps]: "plain (concat (map f vs)) = list_all (\<lambda>v. plain (f v)) vs"
  by (induction vs) (simp_all add: plain_simps)

lemma plain_words [plain_simps]: "list_all word vs \<Longrightarrow> list_all plain vs"
  by (auto simp: list_all_iff plain_word)

lemma word_comma_list: "list_all word fs \<Longrightarrow> fs \<noteq> [] \<Longrightarrow> word (concat (map (\<lambda>f. f @ '','') fs))"
proof (induction fs)
  case (Cons f fs)
  have c: "word '',''" by (simp add: word_def isSpace_def shellMeta_def)
  show ?case
  proof (cases "fs = []")
    case True
    with Cons c show ?thesis by (simp add: word_append)
  next
    case False
    with Cons have "word (concat (map (\<lambda>f. f @ '','') fs))" by simp
    with Cons c show ?thesis using word_append [OF word_append [of f "'',''"]] by simp
  qed
qed simp

lemma Fields_comma_list [word_simps]:
  "list_all word fs \<Longrightarrow> fs \<noteq> [] \<Longrightarrow> Fields (concat (map (\<lambda>f. f @ '','') fs)) = [concat (map (\<lambda>f. f @ '','') fs)]"
  by (rule Fields_word) (rule word_comma_list)

text \<open>A loop that skips empty elements.\<close>

lemma Fields_skip_empty [word_simps]:
  "concat (map (\<lambda>v. if v \<noteq> [] then Fields (f v) else Fields []) vs) =
   concat (map (\<lambda>v. Fields (f v)) (filter (\<lambda>v. v \<noteq> []) vs))"
  by (induction vs) simp_all

lemma concat_nonempty_words [word_simps]:
  "list_all optWord vs \<Longrightarrow>
   concat (map (\<lambda>v. flag # Fields v) (filter (\<lambda>v. v \<noteq> []) vs)) = concat (map (\<lambda>v. [flag, v]) (filter (\<lambda>v. v \<noteq> []) vs))"
  by (induction vs) (auto simp: word_simps)

lemma plain_skip_empty [plain_simps]: "list_all optWord vs \<Longrightarrow> list_all (\<lambda>v. v \<noteq> [] \<longrightarrow> plain v) vs"
  by (auto simp: list_all_iff plain_optWord)

text \<open>A dataset with a snapshot is one word.\<close>

lemma word_at: "word d \<Longrightarrow> word n \<Longrightarrow> word (d @ ''@'' @ n)"
  by (simp add: word_def isSpace_def shellMeta_def)

lemma Fields_at [word_simps]:
  assumes "word d" and "word n"
  shows "Fields (d @ CHR ''@'' # n) = [d @ ''@'' @ n]"
    and "spaceLed t \<Longrightarrow> Fields (d @ CHR ''@'' # n @ t) = (d @ ''@'' @ n) # Fields t"
proof -
  show "Fields (d @ CHR ''@'' # n) = [d @ ''@'' @ n]" using Fields_word [OF word_at [OF assms]] by simp
  assume "spaceLed t"
  then have "Fields ((d @ ''@'' @ n) @ t) = Fields (d @ ''@'' @ n) @ Fields t" by (rule Fields_append_spaceLed)
  then show "Fields (d @ CHR ''@'' # n @ t) = (d @ ''@'' @ n) # Fields t"
    using Fields_word [OF word_at [OF assms]] by simp
qed

lemma Fields_at_opt [word_simps]:
  "word d \<Longrightarrow> optWord n \<Longrightarrow> n \<noteq> [] \<Longrightarrow> Fields (d @ CHR ''@'' # n) = [d @ ''@'' @ n]"
  by (simp add: optWord_def Fields_at)

lemmas cmd_plain = plain_simps shellMeta_def ZPOOL_def ZFS_def
lemmas cmd_words = word_simps isSpace_def ZPOOL_def ZFS_def

lemma shellWords_then_word:
  assumes "word w" and "spaceEnded pre" and "plain pre"
  shows "shellWords (pre @ w) = Some (Fields pre @ [w])"
proof -
  have "plain (pre @ w)" using assms by (simp add: plain_simps)
  then show ?thesis
    using assms by (simp add: shellWords_def plain_def [symmetric] Fields_append_spaceEnded Fields_word del: list_ex_append)
qed

section \<open>The contract of a builder\<close>

text \<open>
  A builder renders a command line; \<open>argv\<close> is what it is meant to pass to the program, for
  the field values its callers use (\<open>clean\<close>). The law is that bash splits the line into
  exactly these words.
\<close>

locale command_builder =
  fixes render :: "'z zcmd_scheme \<Rightarrow> string"
    and argv :: "'z zcmd_scheme \<Rightarrow> string list"
    and clean :: "'z zcmd_scheme \<Rightarrow> bool"
  assumes plain_line: "clean p \<Longrightarrow> plain (render p)"
    and fields_line: "clean p \<Longrightarrow> Fields (render p) = argv p"
begin

lemma words: "clean p \<Longrightarrow> shellWords (render p) = Some (argv p)"
  using plain_line [of p] fields_line [of p] by (simp add: shellWords_def plain_def)

text \<open>Whatever the checks say, a fresh builder builds, and its command is the rendered line.\<close>

lemma build_never_fails:
  "cmd_err p = None \<Longrightarrow> snd (buildWith render holds p) = None"
  by (simp add: buildWith_no_err)

lemma built_argv:
  "cmd_err p = None \<Longrightarrow> clean p \<Longrightarrow> shellWords (Command (fst (buildWith render holds p))) = Some (argv p)"
  by (simp add: buildWith_no_err words)

text \<open>Executing a fresh builder runs one command, with these words.\<close>

lemma execute_bash:
  "cmd_err p = None \<Longrightarrow> clean p \<Longrightarrow>
   \<exists>cmd. executeWith (buildWith render holds p) (runBash bash) = bash cmd \<and> shellWords cmd = Some (argv p)"
  by (rule exI [of _ "render p"], rule conjI, rule ext)
    (simp_all add: buildWith_no_err executeWith_def runBash_def words)

end

end
