(* ===== verification/ZpoolCmd.thy ===== *)
theory ZpoolCmd
  imports ZcmdBase
begin

text \<open>
  The builders of \<open>zpool\<close> command lines, \<open>pkg/zcmd/zpool/*\<close>: for each package its struct, its
  constructor, the methods that fill the fields (\<open>builder.go\<close> and \<open>utils.go\<close>), the
  predicates (\<open>predicate.go\<close>), the command line that \<open>Build\<close> writes, and \<open>Execute\<close>. A name
  carries the alias under which \<open>zcmd/cmd.go\<close> imports the package. The output of \<open>zpool dump\<close>
  is decoded in the theory \<open>PoolTopology\<close>.
\<close>

section \<open>The builders\<close>

subsection \<open>\<open>PoolExpansion\<close>, package \<open>zcmd/zpool/add\<close>\<close>

record 's PoolExpansion = "'s ezcmd" +
  padd_VdevList :: "string list"
  padd_Property :: "string list"
  padd_Pool :: string
  padd_Forcefully :: bool
  padd_DeviceType :: string
  padd_Type :: string

definition NewPoolExpansion :: "'s PoolExpansion" where
  "NewPoolExpansion =
     \<lparr>Command = '''', checks = [], cmd_err = None, Executor = None, padd_VdevList = [], padd_Property = [],
      padd_Pool = '''', padd_Forcefully = False, padd_DeviceType = '''', padd_Type = ''''\<rparr>"

definition padd_WithVdevList :: "string list \<Rightarrow> 's PoolExpansion \<Rightarrow> 's PoolExpansion" where
  "padd_WithVdevList vdevlist p = p\<lparr>padd_VdevList := padd_VdevList p @ vdevlist\<rparr>"

definition padd_WithProperty :: "string \<Rightarrow> string \<Rightarrow> 's PoolExpansion \<Rightarrow> 's PoolExpansion" where
  "padd_WithProperty key value p = p\<lparr>padd_Property := padd_Property p @ [key @ ''='' @ value]\<rparr>"

definition padd_WithForcefully :: "bool \<Rightarrow> 's PoolExpansion \<Rightarrow> 's PoolExpansion" where
  "padd_WithForcefully forcefully p = p\<lparr>padd_Forcefully := forcefully\<rparr>"

definition padd_WithPool :: "string \<Rightarrow> 's PoolExpansion \<Rightarrow> 's PoolExpansion" where
  "padd_WithPool pool p = p\<lparr>padd_Pool := pool\<rparr>"

definition padd_WithDeviceType :: "string \<Rightarrow> 's PoolExpansion \<Rightarrow> 's PoolExpansion" where
  "padd_WithDeviceType devicetype p = p\<lparr>padd_DeviceType := devicetype\<rparr>"

definition padd_WithType :: "string \<Rightarrow> 's PoolExpansion \<Rightarrow> 's PoolExpansion" where
  "padd_WithType ty p = p\<lparr>padd_Type := ty\<rparr>"

definition padd_SetVdev :: "string \<Rightarrow> 's PoolExpansion \<Rightarrow> 's PoolExpansion" where
  "padd_SetVdev vdev p = p\<lparr>padd_VdevList := padd_VdevList p @ [vdev]\<rparr>"

definition padd_SetProperty :: "string \<Rightarrow> string \<Rightarrow> 's PoolExpansion \<Rightarrow> 's PoolExpansion" where
  "padd_SetProperty key value p = p\<lparr>padd_Property := padd_Property p @ [key @ ''='' @ value]\<rparr>"

definition padd_SetPool :: "string \<Rightarrow> 's PoolExpansion \<Rightarrow> 's PoolExpansion" where
  "padd_SetPool pool p = p\<lparr>padd_Pool := pool\<rparr>"

definition padd_IsVdevListSet :: "'s PoolExpansion \<Rightarrow> bool" where
  "padd_IsVdevListSet p = (padd_VdevList p \<noteq> [])"

definition padd_IsPropertySet :: "'s PoolExpansion \<Rightarrow> bool" where
  "padd_IsPropertySet p = (padd_Property p \<noteq> [])"

definition padd_IsPoolSet :: "'s PoolExpansion \<Rightarrow> bool" where
  "padd_IsPoolSet p = (padd_Pool p \<noteq> [])"

definition padd_IsDeviceTypeSet :: "'s PoolExpansion \<Rightarrow> bool" where
  "padd_IsDeviceTypeSet p = (if padd_DeviceType p = ''stripe'' then False else padd_DeviceType p \<noteq> '''')"

definition padd_IsTypeSet :: "'s PoolExpansion \<Rightarrow> bool" where
  "padd_IsTypeSet p = (if padd_Type p = ''stripe'' then False else padd_Type p \<noteq> '''')"

definition padd_IsForcefullySet :: "'s PoolExpansion \<Rightarrow> bool" where
  "padd_IsForcefullySet p = padd_Forcefully p"

definition padd_command :: "'s PoolExpansion \<Rightarrow> string" where
  "padd_command p =
     ZPOOL @
     '' add '' @
     (if padd_IsForcefullySet p then '' -f '' else '''') @
     (if padd_IsPropertySet p then concat (map (\<lambda>v. '' -o '' @ v @ '' '') (padd_Property p)) else '''') @
     padd_Pool p @
     (if padd_IsDeviceTypeSet p then '' '' @ padd_DeviceType p @ '' '' else '''') @
     (if padd_IsTypeSet p then '' '' @ padd_Type p @ '' '' else '''') @
     concat (map (\<lambda>v. '' '' @ v @ '' '') (padd_VdevList p))"

definition padd_Build :: "(string \<Rightarrow> 's PoolExpansion \<Rightarrow> bool) \<Rightarrow> 's PoolExpansion \<Rightarrow> 's PoolExpansion \<times> goerr option" where
  "padd_Build = buildWith padd_command"

definition padd_Execute ::
    "'s executor \<Rightarrow> (string \<Rightarrow> 's PoolExpansion \<Rightarrow> bool) \<Rightarrow> 's PoolExpansion \<Rightarrow> 's \<Rightarrow> (string \<times> goerr option) \<times> 's" where
  "padd_Execute bash holds p s =
     executeWith (padd_Build holds p) (\<lambda>q s.
       case runCmd bash q s of
         ((ret, Some e), s') \<Rightarrow> ((ret, Some (Errorf ''error %s %s'' [AE e, AS ret])), s')
       | ((ret, None), s') \<Rightarrow> ((ret, None), s')) s"

subsection \<open>\<open>PoolAttach\<close>, package \<open>zcmd/zpool/attach\<close>\<close>

record 's PoolAttach = "'s ezcmd" +
  pattach_Property :: "string list"
  pattach_Forcefully :: bool
  pattach_Device :: string
  pattach_NewDevice :: string
  pattach_Pool :: string

definition NewPoolAttach :: "'s PoolAttach" where
  "NewPoolAttach =
     \<lparr>Command = '''', checks = [], cmd_err = None, Executor = None, pattach_Property = [],
      pattach_Forcefully = False, pattach_Device = '''', pattach_NewDevice = '''',
      pattach_Pool = ''''\<rparr>"

definition pattach_WithProperty :: "string \<Rightarrow> string \<Rightarrow> 's PoolAttach \<Rightarrow> 's PoolAttach" where
  "pattach_WithProperty key value p = p\<lparr>pattach_Property := pattach_Property p @ [key @ ''='' @ value]\<rparr>"

definition pattach_WithForcefully :: "bool \<Rightarrow> 's PoolAttach \<Rightarrow> 's PoolAttach" where
  "pattach_WithForcefully forcefully p = p\<lparr>pattach_Forcefully := forcefully\<rparr>"

definition pattach_WithDevice :: "string \<Rightarrow> 's PoolAttach \<Rightarrow> 's PoolAttach" where
  "pattach_WithDevice device p = p\<lparr>pattach_Device := device\<rparr>"

definition pattach_WithNewDevice :: "string \<Rightarrow> 's PoolAttach \<Rightarrow> 's PoolAttach" where
  "pattach_WithNewDevice newdevice p = p\<lparr>pattach_NewDevice := newdevice\<rparr>"

definition pattach_WithPool :: "string \<Rightarrow> 's PoolAttach \<Rightarrow> 's PoolAttach" where
  "pattach_WithPool pool p = p\<lparr>pattach_Pool := pool\<rparr>"

definition pattach_SetProperty :: "string \<Rightarrow> string \<Rightarrow> 's PoolAttach \<Rightarrow> 's PoolAttach" where
  "pattach_SetProperty key value p = p\<lparr>pattach_Property := pattach_Property p @ [key @ ''='' @ value]\<rparr>"

definition pattach_SetForcefully :: "bool \<Rightarrow> 's PoolAttach \<Rightarrow> 's PoolAttach" where
  "pattach_SetForcefully forcefully p = p\<lparr>pattach_Forcefully := forcefully\<rparr>"

definition pattach_SetDevice :: "string \<Rightarrow> 's PoolAttach \<Rightarrow> 's PoolAttach" where
  "pattach_SetDevice device p = p\<lparr>pattach_Device := device\<rparr>"

definition pattach_SetNewDevice :: "string \<Rightarrow> 's PoolAttach \<Rightarrow> 's PoolAttach" where
  "pattach_SetNewDevice newdevice p = p\<lparr>pattach_NewDevice := newdevice\<rparr>"

definition pattach_SetPool :: "string \<Rightarrow> 's PoolAttach \<Rightarrow> 's PoolAttach" where
  "pattach_SetPool pool p = p\<lparr>pattach_Pool := pool\<rparr>"

definition pattach_IsPropertySet :: "'s PoolAttach \<Rightarrow> bool" where
  "pattach_IsPropertySet p = (pattach_Property p \<noteq> [])"

definition pattach_IsForcefullySet :: "'s PoolAttach \<Rightarrow> bool" where
  "pattach_IsForcefullySet p = pattach_Forcefully p"

definition pattach_IsDeviceSet :: "'s PoolAttach \<Rightarrow> bool" where
  "pattach_IsDeviceSet p = (pattach_Device p \<noteq> [])"

definition pattach_IsNewDeviceSet :: "'s PoolAttach \<Rightarrow> bool" where
  "pattach_IsNewDeviceSet p = (pattach_NewDevice p \<noteq> [])"

definition pattach_IsPoolSet :: "'s PoolAttach \<Rightarrow> bool" where
  "pattach_IsPoolSet p = (pattach_Pool p \<noteq> [])"

definition pattach_command :: "'s PoolAttach \<Rightarrow> string" where
  "pattach_command p =
     ZPOOL @
     '' attach '' @
     (if pattach_IsForcefullySet p then '' -f '' else '''') @
     (if pattach_IsPropertySet p then concat (map (\<lambda>v. '' -o '' @ v @ '' '') (pattach_Property p)) else '''') @
     pattach_Pool p @
     '' '' @
     pattach_Device p @
     ''  '' @
     pattach_NewDevice p @
     '' ''"

definition pattach_Build :: "(string \<Rightarrow> 's PoolAttach \<Rightarrow> bool) \<Rightarrow> 's PoolAttach \<Rightarrow> 's PoolAttach \<times> goerr option" where
  "pattach_Build = buildWith pattach_command"

definition pattach_Execute ::
    "'s executor \<Rightarrow> (string \<Rightarrow> 's PoolAttach \<Rightarrow> bool) \<Rightarrow> 's PoolAttach \<Rightarrow> 's \<Rightarrow> (string \<times> goerr option) \<times> 's" where
  "pattach_Execute bash holds p s = executeWith (pattach_Build holds p) (runCmd bash) s"

subsection \<open>\<open>PoolClear\<close>, package \<open>zcmd/zpool/clear\<close>\<close>

record 's PoolClear = "'s ezcmd" +
  pclear_Pool :: string
  pclear_Vdev :: "string list"

definition NewPoolClear :: "'s PoolClear" where
  "NewPoolClear =
     \<lparr>Command = '''', checks = [], cmd_err = None, Executor = None, pclear_Pool = '''', pclear_Vdev = []\<rparr>"

definition pclear_WithPool :: "string \<Rightarrow> 's PoolClear \<Rightarrow> 's PoolClear" where
  "pclear_WithPool pool p = p\<lparr>pclear_Pool := pool\<rparr>"

definition pclear_WithVdev :: "string \<Rightarrow> 's PoolClear \<Rightarrow> 's PoolClear" where
  "pclear_WithVdev vdev p = p\<lparr>pclear_Vdev := pclear_Vdev p @ [vdev]\<rparr>"

definition pclear_SetPool :: "string \<Rightarrow> 's PoolClear \<Rightarrow> 's PoolClear" where
  "pclear_SetPool pool p = p\<lparr>pclear_Pool := pool\<rparr>"

definition pclear_SetVdev :: "string \<Rightarrow> 's PoolClear \<Rightarrow> 's PoolClear" where
  "pclear_SetVdev vdev p = p\<lparr>pclear_Vdev := pclear_Vdev p @ [vdev]\<rparr>"

definition pclear_IsPoolSet :: "'s PoolClear \<Rightarrow> bool" where
  "pclear_IsPoolSet p = (pclear_Pool p \<noteq> [])"

definition pclear_IsVdevSet :: "'s PoolClear \<Rightarrow> bool" where
  "pclear_IsVdevSet p = (pclear_Vdev p \<noteq> [])"

definition pclear_command :: "'s PoolClear \<Rightarrow> string" where
  "pclear_command p =
     ZPOOL @
     '' clear '' @
     pclear_Pool p @
     concat (map (\<lambda>v. '' '' @ v @ '' '') (pclear_Vdev p))"

definition pclear_Build :: "(string \<Rightarrow> 's PoolClear \<Rightarrow> bool) \<Rightarrow> 's PoolClear \<Rightarrow> 's PoolClear \<times> goerr option" where
  "pclear_Build = buildWith pclear_command"

definition pclear_Execute ::
    "'s executor \<Rightarrow> (string \<Rightarrow> 's PoolClear \<Rightarrow> bool) \<Rightarrow> 's PoolClear \<Rightarrow> 's \<Rightarrow> (string \<times> goerr option) \<times> 's" where
  "pclear_Execute bash holds p s = executeWith (pclear_Build holds p) (runCmd bash) s"

subsection \<open>\<open>PoolCreate\<close>, package \<open>zcmd/zpool/create\<close>\<close>

record 's PoolCreate = "'s ezcmd" +
  pcreate_Property :: "string list"
  pcreate_FSProperty :: "string list"
  pcreate_Pool :: string
  pcreate_Type :: string
  pcreate_Vdev :: "string list"
  pcreate_Forcefully :: bool

definition NewPoolCreate :: "'s PoolCreate" where
  "NewPoolCreate =
     \<lparr>Command = '''', checks = [], cmd_err = None, Executor = None, pcreate_Property = [],
      pcreate_FSProperty = [], pcreate_Pool = '''', pcreate_Type = '''', pcreate_Vdev = [],
      pcreate_Forcefully = False\<rparr>"

definition pcreate_WithProperty :: "string \<Rightarrow> string \<Rightarrow> 's PoolCreate \<Rightarrow> 's PoolCreate" where
  "pcreate_WithProperty key value p = (if value \<noteq> '''' then p\<lparr>pcreate_Property := pcreate_Property p @ [key @ ''='' @ value]\<rparr> else p)"

definition pcreate_WithFSProperty :: "string \<Rightarrow> string \<Rightarrow> 's PoolCreate \<Rightarrow> 's PoolCreate" where
  "pcreate_WithFSProperty key value p = (if value \<noteq> '''' then p\<lparr>pcreate_FSProperty := pcreate_FSProperty p @ [key @ ''='' @ value]\<rparr> else p)"

definition pcreate_WithPool :: "string \<Rightarrow> 's PoolCreate \<Rightarrow> 's PoolCreate" where
  "pcreate_WithPool pool p = p\<lparr>pcreate_Pool := pool\<rparr>"

definition pcreate_WithType :: "string \<Rightarrow> 's PoolCreate \<Rightarrow> 's PoolCreate" where
  "pcreate_WithType t p = p\<lparr>pcreate_Type := t\<rparr>"

definition pcreate_WithVdev :: "string \<Rightarrow> 's PoolCreate \<Rightarrow> 's PoolCreate" where
  "pcreate_WithVdev vdev p = p\<lparr>pcreate_Vdev := pcreate_Vdev p @ [vdev]\<rparr>"

definition pcreate_WithVdevList :: "string list \<Rightarrow> 's PoolCreate \<Rightarrow> 's PoolCreate" where
  "pcreate_WithVdevList vdevlist p = p\<lparr>pcreate_Vdev := pcreate_Vdev p @ vdevlist\<rparr>"

definition pcreate_WithForcefully :: "bool \<Rightarrow> 's PoolCreate \<Rightarrow> 's PoolCreate" where
  "pcreate_WithForcefully forcefully p = p\<lparr>pcreate_Forcefully := forcefully\<rparr>"

definition pcreate_SetProperty :: "string \<Rightarrow> string \<Rightarrow> 's PoolCreate \<Rightarrow> 's PoolCreate" where
  "pcreate_SetProperty key value p = p\<lparr>pcreate_Property := pcreate_Property p @ [key @ ''='' @ value]\<rparr>"

definition pcreate_SetPool :: "string \<Rightarrow> 's PoolCreate \<Rightarrow> 's PoolCreate" where
  "pcreate_SetPool pool p = p\<lparr>pcreate_Pool := pool\<rparr>"

definition pcreate_SetVdev :: "string \<Rightarrow> 's PoolCreate \<Rightarrow> 's PoolCreate" where
  "pcreate_SetVdev vdev p = p\<lparr>pcreate_Vdev := pcreate_Vdev p @ [vdev]\<rparr>"

definition pcreate_SetForcefully :: "bool \<Rightarrow> 's PoolCreate \<Rightarrow> 's PoolCreate" where
  "pcreate_SetForcefully forcefully p = p\<lparr>pcreate_Forcefully := forcefully\<rparr>"

definition pcreate_IsPropertySet :: "'s PoolCreate \<Rightarrow> bool" where
  "pcreate_IsPropertySet p = (pcreate_Property p \<noteq> [])"

definition pcreate_IsFSPropertySet :: "'s PoolCreate \<Rightarrow> bool" where
  "pcreate_IsFSPropertySet p = (pcreate_FSProperty p \<noteq> [])"

definition pcreate_IsPoolSet :: "'s PoolCreate \<Rightarrow> bool" where
  "pcreate_IsPoolSet p = (pcreate_Pool p \<noteq> [])"

definition pcreate_IsVdevSet :: "'s PoolCreate \<Rightarrow> bool" where
  "pcreate_IsVdevSet p = (pcreate_Vdev p \<noteq> [])"

definition pcreate_IsForcefullySet :: "'s PoolCreate \<Rightarrow> bool" where
  "pcreate_IsForcefullySet p = pcreate_Forcefully p"

definition pcreate_IsTypeSet :: "'s PoolCreate \<Rightarrow> bool" where
  "pcreate_IsTypeSet p = (if pcreate_Type p = ''stripe'' then False else pcreate_Type p \<noteq> '''')"

definition pcreate_command :: "'s PoolCreate \<Rightarrow> string" where
  "pcreate_command p =
     ZPOOL @
     '' create '' @
     (if pcreate_IsForcefullySet p then '' -f '' else '''') @
     (if pcreate_IsPropertySet p then concat (map (\<lambda>v. '' -o '' @ v @ '' '') (pcreate_Property p)) else '''') @
     (if pcreate_IsFSPropertySet p then concat (map (\<lambda>v. '' -O '' @ v @ '' '') (pcreate_FSProperty p)) else '''') @
     pcreate_Pool p @
     (if pcreate_IsTypeSet p then '' '' @ pcreate_Type p @ '' '' else '''') @
     concat (map (\<lambda>v. '' '' @ v @ '' '') (pcreate_Vdev p))"

definition pcreate_Build :: "(string \<Rightarrow> 's PoolCreate \<Rightarrow> bool) \<Rightarrow> 's PoolCreate \<Rightarrow> 's PoolCreate \<times> goerr option" where
  "pcreate_Build = buildWith pcreate_command"

definition pcreate_Execute ::
    "'s executor \<Rightarrow> (string \<Rightarrow> 's PoolCreate \<Rightarrow> bool) \<Rightarrow> 's PoolCreate \<Rightarrow> 's \<Rightarrow> (string \<times> goerr option) \<times> 's" where
  "pcreate_Execute bash holds p s = executeWith (pcreate_Build holds p) (runCmd bash) s"

subsection \<open>\<open>PoolDestroy\<close>, package \<open>zcmd/zpool/destroy\<close>\<close>

record 's PoolDestroy = "'s ezcmd" +
  pdestroy_Pool :: string
  pdestroy_Forcefully :: bool

definition NewPoolDestroy :: "'s PoolDestroy" where
  "NewPoolDestroy =
     \<lparr>Command = '''', checks = [], cmd_err = None, Executor = None, pdestroy_Pool = '''',
      pdestroy_Forcefully = False\<rparr>"

definition pdestroy_WithPool :: "string \<Rightarrow> 's PoolDestroy \<Rightarrow> 's PoolDestroy" where
  "pdestroy_WithPool pool p = p\<lparr>pdestroy_Pool := pool\<rparr>"

definition pdestroy_WithForcefully :: "bool \<Rightarrow> 's PoolDestroy \<Rightarrow> 's PoolDestroy" where
  "pdestroy_WithForcefully forcefully p = p\<lparr>pdestroy_Forcefully := forcefully\<rparr>"

definition pdestroy_SetPool :: "string \<Rightarrow> 's PoolDestroy \<Rightarrow> 's PoolDestroy" where
  "pdestroy_SetPool pool p = p\<lparr>pdestroy_Pool := pool\<rparr>"

definition pdestroy_SetForcefully :: "bool \<Rightarrow> 's PoolDestroy \<Rightarrow> 's PoolDestroy" where
  "pdestroy_SetForcefully forcefully p = p\<lparr>pdestroy_Forcefully := forcefully\<rparr>"

definition pdestroy_IsPoolSet :: "'s PoolDestroy \<Rightarrow> bool" where
  "pdestroy_IsPoolSet p = (pdestroy_Pool p \<noteq> [])"

definition pdestroy_IsForcefullySet :: "'s PoolDestroy \<Rightarrow> bool" where
  "pdestroy_IsForcefullySet p = pdestroy_Forcefully p"

definition pdestroy_command :: "'s PoolDestroy \<Rightarrow> string" where
  "pdestroy_command p =
     ZPOOL @
     '' destroy '' @
     (if pdestroy_IsForcefullySet p then '' -f '' else '''') @
     pdestroy_Pool p"

definition pdestroy_Build :: "(string \<Rightarrow> 's PoolDestroy \<Rightarrow> bool) \<Rightarrow> 's PoolDestroy \<Rightarrow> 's PoolDestroy \<times> goerr option" where
  "pdestroy_Build = buildWith pdestroy_command"

definition pdestroy_Execute ::
    "'s executor \<Rightarrow> (string \<Rightarrow> 's PoolDestroy \<Rightarrow> bool) \<Rightarrow> 's PoolDestroy \<Rightarrow> 's \<Rightarrow> (string \<times> goerr option) \<times> 's" where
  "pdestroy_Execute bash holds p s =
     executeWith (pdestroy_Build holds p) (\<lambda>q s.
       case runCmd bash q s of
         ((ret, Some e), s') \<Rightarrow> ((ret, Some (Errorf ''error %s %s'' [AE e, AS ret])), s')
       | ((ret, None), s') \<Rightarrow> ((ret, None), s')) s"

subsection \<open>\<open>PoolDetach\<close>, package \<open>zcmd/zpool/detach\<close>\<close>

record 's PoolDetach = "'s ezcmd" +
  pdetach_Pool :: string
  pdetach_Vdev :: string

definition NewPoolDetach :: "'s PoolDetach" where
  "NewPoolDetach =
     \<lparr>Command = '''', checks = [], cmd_err = None, Executor = None, pdetach_Pool = '''',
      pdetach_Vdev = ''''\<rparr>"

definition pdetach_WithPool :: "string \<Rightarrow> 's PoolDetach \<Rightarrow> 's PoolDetach" where
  "pdetach_WithPool pool p = p\<lparr>pdetach_Pool := pool\<rparr>"

definition pdetach_WithVdev :: "string \<Rightarrow> 's PoolDetach \<Rightarrow> 's PoolDetach" where
  "pdetach_WithVdev vdev p = p\<lparr>pdetach_Vdev := vdev\<rparr>"

definition pdetach_SetPool :: "string \<Rightarrow> 's PoolDetach \<Rightarrow> 's PoolDetach" where
  "pdetach_SetPool pool p = p\<lparr>pdetach_Pool := pool\<rparr>"

definition pdetach_SetVdev :: "string \<Rightarrow> 's PoolDetach \<Rightarrow> 's PoolDetach" where
  "pdetach_SetVdev vdev p = p\<lparr>pdetach_Vdev := vdev\<rparr>"

definition pdetach_IsPoolSet :: "'s PoolDetach \<Rightarrow> bool" where
  "pdetach_IsPoolSet p = (pdetach_Pool p \<noteq> [])"

definition pdetach_IsVdevSet :: "'s PoolDetach \<Rightarrow> bool" where
  "pdetach_IsVdevSet p = (pdetach_Vdev p \<noteq> [])"

definition pdetach_command :: "'s PoolDetach \<Rightarrow> string" where
  "pdetach_command p =
     ZPOOL @
     '' detach  '' @
     pdetach_Pool p @
     ''  '' @
     pdetach_Vdev p @
     '' ''"

definition pdetach_Build :: "(string \<Rightarrow> 's PoolDetach \<Rightarrow> bool) \<Rightarrow> 's PoolDetach \<Rightarrow> 's PoolDetach \<times> goerr option" where
  "pdetach_Build = buildWith pdetach_command"

definition pdetach_Execute ::
    "'s executor \<Rightarrow> (string \<Rightarrow> 's PoolDetach \<Rightarrow> bool) \<Rightarrow> 's PoolDetach \<Rightarrow> 's \<Rightarrow> (string \<times> goerr option) \<times> 's" where
  "pdetach_Execute bash holds p s = executeWith (pdetach_Build holds p) (runCmd bash) s"

subsection \<open>\<open>PoolDump\<close>, package \<open>zcmd/zpool/dump\<close>\<close>

record 's PoolDump = "'s ezcmd" +
  pdump_Pool :: string
  pdump_StripVdevPath :: bool

definition NewPoolDump :: "'s PoolDump" where
  "NewPoolDump =
     \<lparr>Command = '''', checks = [], cmd_err = None, Executor = None, pdump_Pool = '''',
      pdump_StripVdevPath = False\<rparr>"

definition pdump_WithPool :: "string \<Rightarrow> 's PoolDump \<Rightarrow> 's PoolDump" where
  "pdump_WithPool pool p = p\<lparr>pdump_Pool := pool\<rparr>"

definition pdump_WithStripVdevPath :: "'s PoolDump \<Rightarrow> 's PoolDump" where
  "pdump_WithStripVdevPath p = p\<lparr>pdump_StripVdevPath := True\<rparr>"

definition pdump_SetPool :: "string \<Rightarrow> 's PoolDump \<Rightarrow> 's PoolDump" where
  "pdump_SetPool pool p = p\<lparr>pdump_Pool := pool\<rparr>"

definition pdump_IsPoolSet :: "'s PoolDump \<Rightarrow> bool" where
  "pdump_IsPoolSet p = (pdump_Pool p \<noteq> [])"

definition pdump_command :: "'s PoolDump \<Rightarrow> string" where
  "pdump_command p =
     ZPOOL @
     '' dump '' @
     pdump_Pool p"

definition pdump_Build :: "(string \<Rightarrow> 's PoolDump \<Rightarrow> bool) \<Rightarrow> 's PoolDump \<Rightarrow> 's PoolDump \<times> goerr option" where
  "pdump_Build = buildWith pdump_command"

subsection \<open>\<open>PoolExport\<close>, package \<open>zcmd/zpool/export\<close>\<close>

record 's PoolExport = "'s ezcmd" +
  pexport_AllPool :: bool
  pexport_Forcefully :: bool
  pexport_PoolList :: "string list"

definition NewPoolExport :: "'s PoolExport" where
  "NewPoolExport =
     \<lparr>Command = '''', checks = [], cmd_err = None, Executor = None, pexport_AllPool = False,
      pexport_Forcefully = False, pexport_PoolList = []\<rparr>"

definition pexport_WithAllPool :: "bool \<Rightarrow> 's PoolExport \<Rightarrow> 's PoolExport" where
  "pexport_WithAllPool allpool p = p\<lparr>pexport_AllPool := allpool\<rparr>"

definition pexport_WithForcefully :: "bool \<Rightarrow> 's PoolExport \<Rightarrow> 's PoolExport" where
  "pexport_WithForcefully forcefully p = p\<lparr>pexport_Forcefully := forcefully\<rparr>"

definition pexport_WithPool :: "string \<Rightarrow> 's PoolExport \<Rightarrow> 's PoolExport" where
  "pexport_WithPool pool p = p\<lparr>pexport_PoolList := pexport_PoolList p @ [pool]\<rparr>"

definition pexport_SetAllPool :: "bool \<Rightarrow> 's PoolExport \<Rightarrow> 's PoolExport" where
  "pexport_SetAllPool allpool p = p\<lparr>pexport_AllPool := allpool\<rparr>"

definition pexport_SetForcefully :: "bool \<Rightarrow> 's PoolExport \<Rightarrow> 's PoolExport" where
  "pexport_SetForcefully forcefully p = p\<lparr>pexport_Forcefully := forcefully\<rparr>"

definition pexport_SetPoolList :: "string \<Rightarrow> 's PoolExport \<Rightarrow> 's PoolExport" where
  "pexport_SetPoolList pool p = p\<lparr>pexport_PoolList := pexport_PoolList p @ [pool]\<rparr>"

definition pexport_IsAllPoolSet :: "'s PoolExport \<Rightarrow> bool" where
  "pexport_IsAllPoolSet p = pexport_AllPool p"

definition pexport_IsForcefullySet :: "'s PoolExport \<Rightarrow> bool" where
  "pexport_IsForcefullySet p = pexport_Forcefully p"

definition pexport_IsPoolListSet :: "'s PoolExport \<Rightarrow> bool" where
  "pexport_IsPoolListSet p = (pexport_PoolList p \<noteq> [])"

definition pexport_command :: "'s PoolExport \<Rightarrow> string" where
  "pexport_command p =
     ZPOOL @
     '' export '' @
     (if pexport_IsForcefullySet p then '' -f '' else '''') @
     concat (map (\<lambda>i. '' '' @ i @ '' '') (pexport_PoolList p))"

definition pexport_Build :: "(string \<Rightarrow> 's PoolExport \<Rightarrow> bool) \<Rightarrow> 's PoolExport \<Rightarrow> 's PoolExport \<times> goerr option" where
  "pexport_Build = buildWith pexport_command"

definition pexport_Execute ::
    "'s executor \<Rightarrow> (string \<Rightarrow> 's PoolExport \<Rightarrow> bool) \<Rightarrow> 's PoolExport \<Rightarrow> 's \<Rightarrow> (string \<times> goerr option) \<times> 's" where
  "pexport_Execute bash holds p s = executeWith (pexport_Build holds p) (runCmd bash) s"

subsection \<open>\<open>PoolGProperty\<close>, package \<open>zcmd/zpool/get\<close>\<close>

record 's PoolGProperty = "'s ezcmd" +
  pget_PropList :: "string list"
  pget_IsScriptedMode :: bool
  pget_IsParsableMode :: bool
  pget_FieldList :: "string list"
  pget_Pool :: string

definition NewPoolGetProperty :: "'s PoolGProperty" where
  "NewPoolGetProperty =
     \<lparr>Command = '''', checks = [], cmd_err = None, Executor = None, pget_PropList = [],
      pget_IsScriptedMode = False, pget_IsParsableMode = False, pget_FieldList = [], pget_Pool = ''''\<rparr>"

definition pget_WithProperty :: "string \<Rightarrow> 's PoolGProperty \<Rightarrow> 's PoolGProperty" where
  "pget_WithProperty key p = p\<lparr>pget_PropList := pget_PropList p @ [key]\<rparr>"

definition pget_WithPropertyList :: "string list \<Rightarrow> 's PoolGProperty \<Rightarrow> 's PoolGProperty" where
  "pget_WithPropertyList keys p = p\<lparr>pget_PropList := pget_PropList p @ keys\<rparr>"

definition pget_WithScriptedMode :: "bool \<Rightarrow> 's PoolGProperty \<Rightarrow> 's PoolGProperty" where
  "pget_WithScriptedMode isscriptedmode p = p\<lparr>pget_IsScriptedMode := isscriptedmode\<rparr>"

definition pget_WithParsableMode :: "bool \<Rightarrow> 's PoolGProperty \<Rightarrow> 's PoolGProperty" where
  "pget_WithParsableMode isparsablemode p = p\<lparr>pget_IsParsableMode := isparsablemode\<rparr>"

definition pget_WithField :: "string \<Rightarrow> 's PoolGProperty \<Rightarrow> 's PoolGProperty" where
  "pget_WithField fld p = p\<lparr>pget_FieldList := pget_FieldList p @ [fld]\<rparr>"

definition pget_WithPool :: "string \<Rightarrow> 's PoolGProperty \<Rightarrow> 's PoolGProperty" where
  "pget_WithPool pool p = p\<lparr>pget_Pool := pool\<rparr>"

definition pget_SetPropList :: "string \<Rightarrow> 's PoolGProperty \<Rightarrow> 's PoolGProperty" where
  "pget_SetPropList key p = p\<lparr>pget_PropList := pget_PropList p @ [key]\<rparr>"

definition pget_SetPool :: "string \<Rightarrow> 's PoolGProperty \<Rightarrow> 's PoolGProperty" where
  "pget_SetPool pool p = p\<lparr>pget_Pool := pool\<rparr>"

definition pget_IsPropListSet :: "'s PoolGProperty \<Rightarrow> bool" where
  "pget_IsPropListSet p = (pget_PropList p \<noteq> [])"

definition pget_IsPoolSet :: "'s PoolGProperty \<Rightarrow> bool" where
  "pget_IsPoolSet p = (pget_Pool p \<noteq> [])"

definition pget_IsScriptedModeSet :: "'s PoolGProperty \<Rightarrow> bool" where
  "pget_IsScriptedModeSet p = pget_IsScriptedMode p"

definition pget_IsParsableModeSet :: "'s PoolGProperty \<Rightarrow> bool" where
  "pget_IsParsableModeSet p = pget_IsParsableMode p"

definition pget_IsFieldListSet :: "'s PoolGProperty \<Rightarrow> bool" where
  "pget_IsFieldListSet p = (pget_FieldList p \<noteq> [])"

definition pget_command :: "'s PoolGProperty \<Rightarrow> string" where
  "pget_command p =
     ZPOOL @
     '' get '' @
     (if pget_IsScriptedModeSet p then '' -H '' else '''') @
     (if pget_IsParsableModeSet p then '' -p '' else '''') @
     (if pget_IsFieldListSet p then '' -o '' @ concat (map (\<lambda>f. f @ '','') (pget_FieldList p)) @ '' '' else '''') @
     (if pget_IsPropListSet p then concat (map (\<lambda>v. v @ '','') (pget_PropList p)) @ '' '' else '''') @
     (if pget_IsPoolSet p then '' '' @ pget_Pool p @ '' '' else '''')"

definition pget_Build :: "(string \<Rightarrow> 's PoolGProperty \<Rightarrow> bool) \<Rightarrow> 's PoolGProperty \<Rightarrow> 's PoolGProperty \<times> goerr option" where
  "pget_Build = buildWith pget_command"

definition pget_Execute ::
    "'s executor \<Rightarrow> (string \<Rightarrow> 's PoolGProperty \<Rightarrow> bool) \<Rightarrow> 's PoolGProperty \<Rightarrow> 's \<Rightarrow> (string \<times> goerr option) \<times> 's" where
  "pget_Execute bash holds p s = executeWith (pget_Build holds p) (runCmd bash) s"

subsection \<open>\<open>PoolImport\<close>, package \<open>zcmd/zpool/import\<close>\<close>

record 's PoolImport = "'s ezcmd" +
  pimport_Cachefile :: string
  pimport_Directorylist :: "string list"
  pimport_ImportAll :: bool
  pimport_ForceImport :: bool
  pimport_Property :: "string list"
  pimport_Pool :: string
  pimport_NewPool :: string

definition NewPoolImport :: "'s PoolImport" where
  "NewPoolImport =
     \<lparr>Command = '''', checks = [], cmd_err = None, Executor = None, pimport_Cachefile = '''',
      pimport_Directorylist = [], pimport_ImportAll = False, pimport_ForceImport = False,
      pimport_Property = [], pimport_Pool = '''', pimport_NewPool = ''''\<rparr>"

definition pimport_WithCachefile :: "string \<Rightarrow> 's PoolImport \<Rightarrow> 's PoolImport" where
  "pimport_WithCachefile cachefile p = p\<lparr>pimport_Cachefile := cachefile\<rparr>"

definition pimport_WithDirectory :: "string \<Rightarrow> 's PoolImport \<Rightarrow> 's PoolImport" where
  "pimport_WithDirectory dir p = p\<lparr>pimport_Directorylist := pimport_Directorylist p @ [dir]\<rparr>"

definition pimport_WithImportAll :: "bool \<Rightarrow> 's PoolImport \<Rightarrow> 's PoolImport" where
  "pimport_WithImportAll importall p = p\<lparr>pimport_ImportAll := importall\<rparr>"

definition pimport_WithForceImport :: "bool \<Rightarrow> 's PoolImport \<Rightarrow> 's PoolImport" where
  "pimport_WithForceImport forceimport p = p\<lparr>pimport_ForceImport := forceimport\<rparr>"

definition pimport_WithProperty :: "string \<Rightarrow> string \<Rightarrow> 's PoolImport \<Rightarrow> 's PoolImport" where
  "pimport_WithProperty key value p = (if value \<noteq> '''' then p\<lparr>pimport_Property := pimport_Property p @ [key @ ''='' @ value]\<rparr> else p)"

definition pimport_WithPool :: "string \<Rightarrow> 's PoolImport \<Rightarrow> 's PoolImport" where
  "pimport_WithPool pool p = p\<lparr>pimport_Pool := pool\<rparr>"

definition pimport_WithNewPool :: "string \<Rightarrow> 's PoolImport \<Rightarrow> 's PoolImport" where
  "pimport_WithNewPool newpool p = p\<lparr>pimport_NewPool := newpool\<rparr>"

definition pimport_SetCachefile :: "string \<Rightarrow> 's PoolImport \<Rightarrow> 's PoolImport" where
  "pimport_SetCachefile cachefile p = p\<lparr>pimport_Cachefile := cachefile\<rparr>"

definition pimport_SetDirectorylist :: "string \<Rightarrow> 's PoolImport \<Rightarrow> 's PoolImport" where
  "pimport_SetDirectorylist dir p = p\<lparr>pimport_Directorylist := pimport_Directorylist p @ [dir]\<rparr>"

definition pimport_SetImportAll :: "bool \<Rightarrow> 's PoolImport \<Rightarrow> 's PoolImport" where
  "pimport_SetImportAll importall p = p\<lparr>pimport_ImportAll := importall\<rparr>"

definition pimport_SetForceImport :: "bool \<Rightarrow> 's PoolImport \<Rightarrow> 's PoolImport" where
  "pimport_SetForceImport forceimport p = p\<lparr>pimport_ForceImport := forceimport\<rparr>"

definition pimport_SetProperty :: "string \<Rightarrow> string \<Rightarrow> 's PoolImport \<Rightarrow> 's PoolImport" where
  "pimport_SetProperty key value p = p\<lparr>pimport_Property := pimport_Property p @ [key @ ''='' @ value]\<rparr>"

definition pimport_SetPool :: "string \<Rightarrow> 's PoolImport \<Rightarrow> 's PoolImport" where
  "pimport_SetPool pool p = p\<lparr>pimport_Pool := pool\<rparr>"

definition pimport_SetNewPool :: "string \<Rightarrow> 's PoolImport \<Rightarrow> 's PoolImport" where
  "pimport_SetNewPool newpool p = p\<lparr>pimport_NewPool := newpool\<rparr>"

definition pimport_IsCachefileSet :: "'s PoolImport \<Rightarrow> bool" where
  "pimport_IsCachefileSet p = (pimport_Cachefile p \<noteq> [])"

definition pimport_IsDirectorylistSet :: "'s PoolImport \<Rightarrow> bool" where
  "pimport_IsDirectorylistSet p = (pimport_Directorylist p \<noteq> [])"

definition pimport_IsImportAllSet :: "'s PoolImport \<Rightarrow> bool" where
  "pimport_IsImportAllSet p = pimport_ImportAll p"

definition pimport_IsForceImportSet :: "'s PoolImport \<Rightarrow> bool" where
  "pimport_IsForceImportSet p = pimport_ForceImport p"

definition pimport_IsPropertySet :: "'s PoolImport \<Rightarrow> bool" where
  "pimport_IsPropertySet p = (pimport_Property p \<noteq> [])"

definition pimport_IsPoolSet :: "'s PoolImport \<Rightarrow> bool" where
  "pimport_IsPoolSet p = (pimport_Pool p \<noteq> [])"

definition pimport_IsNewPoolSet :: "'s PoolImport \<Rightarrow> bool" where
  "pimport_IsNewPoolSet p = (pimport_NewPool p \<noteq> [])"

definition pimport_command :: "'s PoolImport \<Rightarrow> string" where
  "pimport_command p =
     ZPOOL @
     '' import '' @
     (if pimport_IsPropertySet p then concat (map (\<lambda>v. '' -o '' @ v @ '' '') (pimport_Property p)) else '''') @
     (if \<not> pimport_IsCachefileSet p \<and> pimport_IsDirectorylistSet p
        then concat (map (\<lambda>i. (if i \<noteq> '''' then '' -d '' @ i @ '' '' else '''')) (pimport_Directorylist p)) else '''') @
     (if pimport_IsCachefileSet p then '' -c '' @ pimport_Cachefile p @ '' '' else '''') @
     (if pimport_IsForceImportSet p then '' -f '' else '''') @
     (if pimport_IsImportAllSet p then '' -a '' else pimport_Pool p @ (if pimport_IsNewPoolSet p then '' '' @ pimport_NewPool p @ '' '' else ''''))"

definition pimport_Build :: "(string \<Rightarrow> 's PoolImport \<Rightarrow> bool) \<Rightarrow> 's PoolImport \<Rightarrow> 's PoolImport \<times> goerr option" where
  "pimport_Build = buildWith pimport_command"

definition pimport_Execute ::
    "'s executor \<Rightarrow> (string \<Rightarrow> 's PoolImport \<Rightarrow> bool) \<Rightarrow> 's PoolImport \<Rightarrow> 's \<Rightarrow> (string \<times> goerr option) \<times> 's" where
  "pimport_Execute bash holds p s = executeWith (pimport_Build holds p) (runCmd bash) s"

subsection \<open>\<open>PoolLabelClear\<close>, package \<open>zcmd/zpool/labelclear\<close>\<close>

record 's PoolLabelClear = "'s ezcmd" +
  plabelclear_Vdev :: string
  plabelclear_Forcefully :: bool

definition NewPoolLabelClear :: "'s PoolLabelClear" where
  "NewPoolLabelClear =
     \<lparr>Command = '''', checks = [], cmd_err = None, Executor = None, plabelclear_Vdev = '''',
      plabelclear_Forcefully = False\<rparr>"

definition plabelclear_WithForceFully :: "bool \<Rightarrow> 's PoolLabelClear \<Rightarrow> 's PoolLabelClear" where
  "plabelclear_WithForceFully forcefully p = p\<lparr>plabelclear_Forcefully := forcefully\<rparr>"

definition plabelclear_WithVdev :: "string \<Rightarrow> 's PoolLabelClear \<Rightarrow> 's PoolLabelClear" where
  "plabelclear_WithVdev vdev p = p\<lparr>plabelclear_Vdev := vdev\<rparr>"

definition plabelclear_SetVdev :: "string \<Rightarrow> 's PoolLabelClear \<Rightarrow> 's PoolLabelClear" where
  "plabelclear_SetVdev vdev p = p\<lparr>plabelclear_Vdev := vdev\<rparr>"

definition plabelclear_SetForcefully :: "bool \<Rightarrow> 's PoolLabelClear \<Rightarrow> 's PoolLabelClear" where
  "plabelclear_SetForcefully forcefully p = p\<lparr>plabelclear_Forcefully := forcefully\<rparr>"

definition plabelclear_IsVdevSet :: "'s PoolLabelClear \<Rightarrow> bool" where
  "plabelclear_IsVdevSet p = (plabelclear_Vdev p \<noteq> [])"

definition plabelclear_IsForcefullySet :: "'s PoolLabelClear \<Rightarrow> bool" where
  "plabelclear_IsForcefullySet p = plabelclear_Forcefully p"

definition plabelclear_command :: "'s PoolLabelClear \<Rightarrow> string" where
  "plabelclear_command p =
     ZPOOL @
     '' labelclear '' @
     (if plabelclear_IsForcefullySet p then '' -f '' else '''') @
     '' '' @
     plabelclear_Vdev p @
     '' ''"

definition plabelclear_Build :: "(string \<Rightarrow> 's PoolLabelClear \<Rightarrow> bool) \<Rightarrow> 's PoolLabelClear \<Rightarrow> 's PoolLabelClear \<times> goerr option" where
  "plabelclear_Build = buildWith plabelclear_command"

definition plabelclear_Execute ::
    "'s executor \<Rightarrow> (string \<Rightarrow> 's PoolLabelClear \<Rightarrow> bool) \<Rightarrow> 's PoolLabelClear \<Rightarrow> 's \<Rightarrow> (string \<times> goerr option) \<times> 's" where
  "plabelclear_Execute bash holds p s = executeWith (plabelclear_Build holds p) (runCmd bash) s"

subsection \<open>\<open>PoolOffline\<close>, package \<open>zcmd/zpool/offline\<close>\<close>

record 's PoolOffline = "'s ezcmd" +
  poffline_ForceOffline :: bool
  poffline_isTemporary :: bool
  poffline_Pool :: string
  poffline_Devicelist :: "string list"

definition NewPoolOffline :: "'s PoolOffline" where
  "NewPoolOffline =
     \<lparr>Command = '''', checks = [], cmd_err = None, Executor = None, poffline_ForceOffline = False,
      poffline_isTemporary = False, poffline_Pool = '''', poffline_Devicelist = []\<rparr>"

definition poffline_WithForceOffline :: "bool \<Rightarrow> 's PoolOffline \<Rightarrow> 's PoolOffline" where
  "poffline_WithForceOffline forceoffline p = p\<lparr>poffline_ForceOffline := forceoffline\<rparr>"

definition poffline_WithisTemporary :: "bool \<Rightarrow> 's PoolOffline \<Rightarrow> 's PoolOffline" where
  "poffline_WithisTemporary isTemporary p = p\<lparr>poffline_isTemporary := isTemporary\<rparr>"

definition poffline_WithPool :: "string \<Rightarrow> 's PoolOffline \<Rightarrow> 's PoolOffline" where
  "poffline_WithPool pool p = p\<lparr>poffline_Pool := pool\<rparr>"

definition poffline_WithDevicelist :: "string \<Rightarrow> 's PoolOffline \<Rightarrow> 's PoolOffline" where
  "poffline_WithDevicelist device p = p\<lparr>poffline_Devicelist := poffline_Devicelist p @ [device]\<rparr>"

definition poffline_SetForceOffline :: "bool \<Rightarrow> 's PoolOffline \<Rightarrow> 's PoolOffline" where
  "poffline_SetForceOffline forceoffline p = p\<lparr>poffline_ForceOffline := forceoffline\<rparr>"

definition poffline_SetisTemporary :: "bool \<Rightarrow> 's PoolOffline \<Rightarrow> 's PoolOffline" where
  "poffline_SetisTemporary isTemporary p = p\<lparr>poffline_isTemporary := isTemporary\<rparr>"

definition poffline_SetPool :: "string \<Rightarrow> 's PoolOffline \<Rightarrow> 's PoolOffline" where
  "poffline_SetPool pool p = p\<lparr>poffline_Pool := pool\<rparr>"

definition poffline_SetDevice :: "string \<Rightarrow> 's PoolOffline \<Rightarrow> 's PoolOffline" where
  "poffline_SetDevice device p = p\<lparr>poffline_Devicelist := poffline_Devicelist p @ [device]\<rparr>"

definition poffline_IsForceOfflineSet :: "'s PoolOffline \<Rightarrow> bool" where
  "poffline_IsForceOfflineSet p = poffline_ForceOffline p"

definition poffline_IsTemporarySet :: "'s PoolOffline \<Rightarrow> bool" where
  "poffline_IsTemporarySet p = poffline_isTemporary p"

definition poffline_IsPoolSet :: "'s PoolOffline \<Rightarrow> bool" where
  "poffline_IsPoolSet p = (poffline_Pool p \<noteq> [])"

definition poffline_IsDevicelistSet :: "'s PoolOffline \<Rightarrow> bool" where
  "poffline_IsDevicelistSet p = (poffline_Devicelist p \<noteq> [])"

definition poffline_command :: "'s PoolOffline \<Rightarrow> string" where
  "poffline_command p =
     ZPOOL @
     '' offline '' @
     (if poffline_IsTemporarySet p then '' -t '' else '''') @
     '' '' @
     poffline_Pool p @
     '' '' @
     (if poffline_IsDevicelistSet p then concat (map (\<lambda>d. '' '' @ d @ '' '') (poffline_Devicelist p)) else '''')"

definition poffline_Build :: "(string \<Rightarrow> 's PoolOffline \<Rightarrow> bool) \<Rightarrow> 's PoolOffline \<Rightarrow> 's PoolOffline \<times> goerr option" where
  "poffline_Build = buildWith poffline_command"

definition poffline_Execute ::
    "'s executor \<Rightarrow> (string \<Rightarrow> 's PoolOffline \<Rightarrow> bool) \<Rightarrow> 's PoolOffline \<Rightarrow> 's \<Rightarrow> (string \<times> goerr option) \<times> 's" where
  "poffline_Execute bash holds p s = executeWith (poffline_Build holds p) (runCmd bash) s"

subsection \<open>\<open>PoolOnline\<close>, package \<open>zcmd/zpool/online\<close>\<close>

record 's PoolOnline = "'s ezcmd" +
  ponline_Pool :: string
  ponline_Device :: "string list"
  ponline_ShouldExpand :: bool

definition NewPoolOnline :: "'s PoolOnline" where
  "NewPoolOnline =
     \<lparr>Command = '''', checks = [], cmd_err = None, Executor = None, ponline_Pool = '''',
      ponline_Device = [], ponline_ShouldExpand = False\<rparr>"

definition ponline_WithPool :: "string \<Rightarrow> 's PoolOnline \<Rightarrow> 's PoolOnline" where
  "ponline_WithPool pool p = p\<lparr>ponline_Pool := pool\<rparr>"

definition ponline_WithDevice :: "string \<Rightarrow> 's PoolOnline \<Rightarrow> 's PoolOnline" where
  "ponline_WithDevice dev p = p\<lparr>ponline_Device := ponline_Device p @ [dev]\<rparr>"

definition ponline_WithShouldExpand :: "bool \<Rightarrow> 's PoolOnline \<Rightarrow> 's PoolOnline" where
  "ponline_WithShouldExpand shouldexpand p = p\<lparr>ponline_ShouldExpand := shouldexpand\<rparr>"

definition ponline_SetPool :: "string \<Rightarrow> 's PoolOnline \<Rightarrow> 's PoolOnline" where
  "ponline_SetPool pool p = p\<lparr>ponline_Pool := pool\<rparr>"

definition ponline_SetDevice :: "string \<Rightarrow> 's PoolOnline \<Rightarrow> 's PoolOnline" where
  "ponline_SetDevice dev p = p\<lparr>ponline_Device := ponline_Device p @ [dev]\<rparr>"

definition ponline_SetShouldExpand :: "bool \<Rightarrow> 's PoolOnline \<Rightarrow> 's PoolOnline" where
  "ponline_SetShouldExpand shouldexpand p = p\<lparr>ponline_ShouldExpand := shouldexpand\<rparr>"

definition ponline_IsPoolSet :: "'s PoolOnline \<Rightarrow> bool" where
  "ponline_IsPoolSet p = (ponline_Pool p \<noteq> [])"

definition ponline_IsDeviceSet :: "'s PoolOnline \<Rightarrow> bool" where
  "ponline_IsDeviceSet p = (ponline_Device p \<noteq> [])"

definition ponline_IsShouldExpandSet :: "'s PoolOnline \<Rightarrow> bool" where
  "ponline_IsShouldExpandSet p = ponline_ShouldExpand p"

definition ponline_command :: "'s PoolOnline \<Rightarrow> string" where
  "ponline_command p =
     ZPOOL @
     '' online '' @
     (if ponline_IsShouldExpandSet p then '' -e '' else '''') @
     '' '' @
     ponline_Pool p @
     '' '' @
     (if ponline_IsDeviceSet p then concat (map (\<lambda>d. '' '' @ d @ '' '') (ponline_Device p)) else '''')"

definition ponline_Build :: "(string \<Rightarrow> 's PoolOnline \<Rightarrow> bool) \<Rightarrow> 's PoolOnline \<Rightarrow> 's PoolOnline \<times> goerr option" where
  "ponline_Build = buildWith ponline_command"

definition ponline_Execute ::
    "'s executor \<Rightarrow> (string \<Rightarrow> 's PoolOnline \<Rightarrow> bool) \<Rightarrow> 's PoolOnline \<Rightarrow> 's \<Rightarrow> (string \<times> goerr option) \<times> 's" where
  "ponline_Execute bash holds p s = executeWith (ponline_Build holds p) (runCmd bash) s"

subsection \<open>\<open>PoolRemove\<close>, package \<open>zcmd/zpool/remove\<close>\<close>

record 's PoolRemove = "'s ezcmd" +
  premove_Pool :: string
  premove_Device :: "string list"

definition NewPoolRemove :: "'s PoolRemove" where
  "NewPoolRemove =
     \<lparr>Command = '''', checks = [], cmd_err = None, Executor = None, premove_Pool = '''',
      premove_Device = []\<rparr>"

definition premove_WithPool :: "string \<Rightarrow> 's PoolRemove \<Rightarrow> 's PoolRemove" where
  "premove_WithPool pool p = p\<lparr>premove_Pool := pool\<rparr>"

definition premove_WithDevice :: "string \<Rightarrow> 's PoolRemove \<Rightarrow> 's PoolRemove" where
  "premove_WithDevice dev p = p\<lparr>premove_Device := premove_Device p @ [dev]\<rparr>"

definition premove_SetPool :: "string \<Rightarrow> 's PoolRemove \<Rightarrow> 's PoolRemove" where
  "premove_SetPool pool p = p\<lparr>premove_Pool := pool\<rparr>"

definition premove_SetDevice :: "string \<Rightarrow> 's PoolRemove \<Rightarrow> 's PoolRemove" where
  "premove_SetDevice device p = p\<lparr>premove_Device := premove_Device p @ [device]\<rparr>"

definition premove_IsPoolSet :: "'s PoolRemove \<Rightarrow> bool" where
  "premove_IsPoolSet p = (premove_Pool p \<noteq> [])"

definition premove_IsDeviceSet :: "'s PoolRemove \<Rightarrow> bool" where
  "premove_IsDeviceSet p = (premove_Device p \<noteq> [])"

definition premove_command :: "'s PoolRemove \<Rightarrow> string" where
  "premove_command p =
     ZPOOL @
     '' remove  '' @
     premove_Pool p @
     '' '' @
     (if premove_IsDeviceSet p then concat (map (\<lambda>d. '' '' @ d @ '' '') (premove_Device p)) else '''')"

definition premove_Build :: "(string \<Rightarrow> 's PoolRemove \<Rightarrow> bool) \<Rightarrow> 's PoolRemove \<Rightarrow> 's PoolRemove \<times> goerr option" where
  "premove_Build = buildWith premove_command"

definition premove_Execute ::
    "'s executor \<Rightarrow> (string \<Rightarrow> 's PoolRemove \<Rightarrow> bool) \<Rightarrow> 's PoolRemove \<Rightarrow> 's \<Rightarrow> (string \<times> goerr option) \<times> 's" where
  "premove_Execute bash holds p s = executeWith (premove_Build holds p) (runCmd bash) s"

subsection \<open>\<open>PoolDiskReplace\<close>, package \<open>zcmd/zpool/replace\<close>\<close>

record 's PoolDiskReplace = "'s ezcmd" +
  preplace_OldVdev :: string
  preplace_NewVdev :: string
  preplace_Property :: "string list"
  preplace_Pool :: string
  preplace_Forcefully :: bool

definition NewPoolDiskReplace :: "'s PoolDiskReplace" where
  "NewPoolDiskReplace =
     \<lparr>Command = '''', checks = [], cmd_err = None, Executor = None, preplace_OldVdev = '''',
      preplace_NewVdev = '''', preplace_Property = [], preplace_Pool = '''',
      preplace_Forcefully = False\<rparr>"

definition preplace_WithOldVdev :: "string \<Rightarrow> 's PoolDiskReplace \<Rightarrow> 's PoolDiskReplace" where
  "preplace_WithOldVdev oldvdev p = p\<lparr>preplace_OldVdev := oldvdev\<rparr>"

definition preplace_WithNewVdev :: "string \<Rightarrow> 's PoolDiskReplace \<Rightarrow> 's PoolDiskReplace" where
  "preplace_WithNewVdev newvdev p = p\<lparr>preplace_NewVdev := newvdev\<rparr>"

definition preplace_WithProperty :: "string \<Rightarrow> string \<Rightarrow> 's PoolDiskReplace \<Rightarrow> 's PoolDiskReplace" where
  "preplace_WithProperty key value p = p\<lparr>preplace_Property := preplace_Property p @ [key @ ''='' @ value]\<rparr>"

definition preplace_WithForcefully :: "bool \<Rightarrow> 's PoolDiskReplace \<Rightarrow> 's PoolDiskReplace" where
  "preplace_WithForcefully forcefully p = p\<lparr>preplace_Forcefully := forcefully\<rparr>"

definition preplace_WithPool :: "string \<Rightarrow> 's PoolDiskReplace \<Rightarrow> 's PoolDiskReplace" where
  "preplace_WithPool pool p = p\<lparr>preplace_Pool := pool\<rparr>"

definition preplace_SetNewVdev :: "string \<Rightarrow> 's PoolDiskReplace \<Rightarrow> 's PoolDiskReplace" where
  "preplace_SetNewVdev newvdev p = p\<lparr>preplace_NewVdev := newvdev\<rparr>"

definition preplace_SetOldVdev :: "string \<Rightarrow> 's PoolDiskReplace \<Rightarrow> 's PoolDiskReplace" where
  "preplace_SetOldVdev oldvdev p = p\<lparr>preplace_OldVdev := oldvdev\<rparr>"

definition preplace_SetProperty :: "string \<Rightarrow> string \<Rightarrow> 's PoolDiskReplace \<Rightarrow> 's PoolDiskReplace" where
  "preplace_SetProperty key value p = p\<lparr>preplace_Property := preplace_Property p @ [key @ ''='' @ value]\<rparr>"

definition preplace_SetPool :: "string \<Rightarrow> 's PoolDiskReplace \<Rightarrow> 's PoolDiskReplace" where
  "preplace_SetPool pool p = p\<lparr>preplace_Pool := pool\<rparr>"

definition preplace_IsOldVdevSet :: "'s PoolDiskReplace \<Rightarrow> bool" where
  "preplace_IsOldVdevSet p = (preplace_OldVdev p \<noteq> [])"

definition preplace_IsNewVdevSet :: "'s PoolDiskReplace \<Rightarrow> bool" where
  "preplace_IsNewVdevSet p = (preplace_NewVdev p \<noteq> [])"

definition preplace_IsPropertySet :: "'s PoolDiskReplace \<Rightarrow> bool" where
  "preplace_IsPropertySet p = (preplace_Property p \<noteq> [])"

definition preplace_IsPoolSet :: "'s PoolDiskReplace \<Rightarrow> bool" where
  "preplace_IsPoolSet p = (preplace_Pool p \<noteq> [])"

definition preplace_IsForcefullySet :: "'s PoolDiskReplace \<Rightarrow> bool" where
  "preplace_IsForcefullySet p = preplace_Forcefully p"

definition preplace_command :: "'s PoolDiskReplace \<Rightarrow> string" where
  "preplace_command p =
     ZPOOL @
     '' replace '' @
     (if preplace_IsForcefullySet p then '' -f '' else '''') @
     (if preplace_IsPropertySet p then concat (map (\<lambda>v. '' -o '' @ v @ '' '') (preplace_Property p)) else '''') @
     preplace_Pool p @
     '' '' @
     preplace_OldVdev p @
     '' '' @
     preplace_NewVdev p"

definition preplace_Build :: "(string \<Rightarrow> 's PoolDiskReplace \<Rightarrow> bool) \<Rightarrow> 's PoolDiskReplace \<Rightarrow> 's PoolDiskReplace \<times> goerr option" where
  "preplace_Build = buildWith preplace_command"

definition preplace_Execute ::
    "'s executor \<Rightarrow> (string \<Rightarrow> 's PoolDiskReplace \<Rightarrow> bool) \<Rightarrow> 's PoolDiskReplace \<Rightarrow> 's \<Rightarrow> (string \<times> goerr option) \<times> 's" where
  "preplace_Execute bash holds p s =
     executeWith (preplace_Build holds p) (\<lambda>q s.
       case runCmd bash q s of
         ((ret, Some e), s') \<Rightarrow> (('''', Some (Wrapf e ''execution failed %s'' [AS ret])), s')
       | ((ret, None), s') \<Rightarrow> (('''', None), s')) s"

subsection \<open>\<open>PoolSProperty\<close>, package \<open>zcmd/zpool/set\<close>\<close>

record 's PoolSProperty = "'s ezcmd" +
  pset_PropList :: "string list"
  pset_Pool :: string

definition NewPoolSetProperty :: "'s PoolSProperty" where
  "NewPoolSetProperty =
     \<lparr>Command = '''', checks = [], cmd_err = None, Executor = None, pset_PropList = [], pset_Pool = ''''\<rparr>"

definition pset_WithProperty :: "string \<Rightarrow> string \<Rightarrow> 's PoolSProperty \<Rightarrow> 's PoolSProperty" where
  "pset_WithProperty key value p = p\<lparr>pset_PropList := pset_PropList p @ [key @ ''='' @ value]\<rparr>"

definition pset_WithPool :: "string \<Rightarrow> 's PoolSProperty \<Rightarrow> 's PoolSProperty" where
  "pset_WithPool pool p = p\<lparr>pset_Pool := pool\<rparr>"

definition pset_SetPropList :: "string \<Rightarrow> string \<Rightarrow> 's PoolSProperty \<Rightarrow> 's PoolSProperty" where
  "pset_SetPropList key value p = p\<lparr>pset_PropList := pset_PropList p @ [key @ ''='' @ value]\<rparr>"

definition pset_SetPool :: "string \<Rightarrow> 's PoolSProperty \<Rightarrow> 's PoolSProperty" where
  "pset_SetPool pool p = p\<lparr>pset_Pool := pool\<rparr>"

definition pset_IsPropListSet :: "'s PoolSProperty \<Rightarrow> bool" where
  "pset_IsPropListSet p = (pset_PropList p \<noteq> [])"

definition pset_IsPoolSet :: "'s PoolSProperty \<Rightarrow> bool" where
  "pset_IsPoolSet p = (pset_Pool p \<noteq> [])"

definition pset_command :: "'s PoolSProperty \<Rightarrow> string" where
  "pset_command p =
     ZPOOL @
     '' set '' @
     (if pset_IsPropListSet p then concat (map (\<lambda>v. '' '' @ v @ '' '') (pset_PropList p)) else '''') @
     pset_Pool p"

definition pset_Build :: "(string \<Rightarrow> 's PoolSProperty \<Rightarrow> bool) \<Rightarrow> 's PoolSProperty \<Rightarrow> 's PoolSProperty \<times> goerr option" where
  "pset_Build = buildWith pset_command"

definition pset_Execute ::
    "'s executor \<Rightarrow> (string \<Rightarrow> 's PoolSProperty \<Rightarrow> bool) \<Rightarrow> 's PoolSProperty \<Rightarrow> 's \<Rightarrow> (string \<times> goerr option) \<times> 's" where
  "pset_Execute bash holds p s = executeWith (pset_Build holds p) (runCmd bash) s"

subsection \<open>\<open>PoolStatus\<close>, package \<open>zcmd/zpool/status\<close>\<close>

record 's PoolStatus = "'s ezcmd" +
  pstatus_Pool :: string

definition NewPoolStatus :: "'s PoolStatus" where
  "NewPoolStatus =
     \<lparr>Command = '''', checks = [], cmd_err = None, Executor = None, pstatus_Pool = ''''\<rparr>"

definition pstatus_WithPool :: "string \<Rightarrow> 's PoolStatus \<Rightarrow> 's PoolStatus" where
  "pstatus_WithPool pool p = p\<lparr>pstatus_Pool := pool\<rparr>"

definition pstatus_SetPool :: "string \<Rightarrow> 's PoolStatus \<Rightarrow> 's PoolStatus" where
  "pstatus_SetPool pool p = p\<lparr>pstatus_Pool := pool\<rparr>"

definition pstatus_IsPoolSet :: "'s PoolStatus \<Rightarrow> bool" where
  "pstatus_IsPoolSet p = (pstatus_Pool p \<noteq> [])"

definition pstatus_command :: "'s PoolStatus \<Rightarrow> string" where
  "pstatus_command p =
     ZPOOL @
     '' status '' @
     pstatus_Pool p"

definition pstatus_Build :: "(string \<Rightarrow> 's PoolStatus \<Rightarrow> bool) \<Rightarrow> 's PoolStatus \<Rightarrow> 's PoolStatus \<times> goerr option" where
  "pstatus_Build = buildWith pstatus_command"

definition pstatus_Execute ::
    "'s executor \<Rightarrow> (string \<Rightarrow> 's PoolStatus \<Rightarrow> bool) \<Rightarrow> 's PoolStatus \<Rightarrow> 's \<Rightarrow> (string \<times> goerr option) \<times> 's" where
  "pstatus_Execute bash holds p s = executeWith (pstatus_Build holds p) (runCmd bash) s"

section \<open>The words of the commands\<close>

text \<open>
  For each builder the words it is meant to pass to \<open>zpool\<close>, and the field values for which it
  does: every value that is written is a word, or empty where the builder leaves it out.
\<close>

definition padd_argv :: "'s PoolExpansion \<Rightarrow> string list" where
  "padd_argv p =
     [''zpool'', ''add''] @ (if padd_Forcefully p then [''-f''] else []) @ concat (map (\<lambda>v. [''-o'', v]) (padd_Property p)) @
     [padd_Pool p] @ (if padd_DeviceType p = '''' \<or> padd_DeviceType p = ''stripe'' then [] else [padd_DeviceType p]) @
     (if padd_Type p = '''' \<or> padd_Type p = ''stripe'' then [] else [padd_Type p]) @ padd_VdevList p"

definition padd_clean :: "'s PoolExpansion \<Rightarrow> bool" where
  "padd_clean p = (list_all word (padd_Property p) \<and> word (padd_Pool p) \<and> optWord (padd_DeviceType p) \<and> optWord (padd_Type p) \<and> list_all word (padd_VdevList p))"

definition pattach_argv :: "'s PoolAttach \<Rightarrow> string list" where
  "pattach_argv p =
     [''zpool'', ''attach''] @ (if pattach_Forcefully p then [''-f''] else []) @ concat (map (\<lambda>v. [''-o'', v]) (pattach_Property p)) @
     [pattach_Pool p, pattach_Device p, pattach_NewDevice p]"

definition pattach_clean :: "'s PoolAttach \<Rightarrow> bool" where
  "pattach_clean p = (list_all word (pattach_Property p) \<and> word (pattach_Pool p) \<and> word (pattach_Device p) \<and> word (pattach_NewDevice p))"

definition pclear_argv :: "'s PoolClear \<Rightarrow> string list" where
  "pclear_argv p =
     [''zpool'', ''clear'', pclear_Pool p] @ pclear_Vdev p"

definition pclear_clean :: "'s PoolClear \<Rightarrow> bool" where
  "pclear_clean p = (word (pclear_Pool p) \<and> list_all word (pclear_Vdev p))"

definition pcreate_argv :: "'s PoolCreate \<Rightarrow> string list" where
  "pcreate_argv p =
     [''zpool'', ''create''] @ (if pcreate_Forcefully p then [''-f''] else []) @ concat (map (\<lambda>v. [''-o'', v]) (pcreate_Property p)) @
     concat (map (\<lambda>v. [''-O'', v]) (pcreate_FSProperty p)) @ [pcreate_Pool p] @
     (if pcreate_Type p = '''' \<or> pcreate_Type p = ''stripe'' then [] else [pcreate_Type p]) @ pcreate_Vdev p"

definition pcreate_clean :: "'s PoolCreate \<Rightarrow> bool" where
  "pcreate_clean p = (list_all word (pcreate_Property p) \<and> list_all word (pcreate_FSProperty p) \<and> word (pcreate_Pool p) \<and> optWord (pcreate_Type p) \<and> list_all word (pcreate_Vdev p))"

definition pdestroy_argv :: "'s PoolDestroy \<Rightarrow> string list" where
  "pdestroy_argv p =
     [''zpool'', ''destroy''] @ (if pdestroy_Forcefully p then [''-f''] else []) @ [pdestroy_Pool p]"

definition pdestroy_clean :: "'s PoolDestroy \<Rightarrow> bool" where
  "pdestroy_clean p = (word (pdestroy_Pool p))"

definition pdetach_argv :: "'s PoolDetach \<Rightarrow> string list" where
  "pdetach_argv p =
     [''zpool'', ''detach'', pdetach_Pool p, pdetach_Vdev p]"

definition pdetach_clean :: "'s PoolDetach \<Rightarrow> bool" where
  "pdetach_clean p = (word (pdetach_Pool p) \<and> word (pdetach_Vdev p))"

definition pdump_argv :: "'s PoolDump \<Rightarrow> string list" where
  "pdump_argv p =
     [''zpool'', ''dump'', pdump_Pool p]"

definition pdump_clean :: "'s PoolDump \<Rightarrow> bool" where
  "pdump_clean p = (word (pdump_Pool p))"

definition pexport_argv :: "'s PoolExport \<Rightarrow> string list" where
  "pexport_argv p =
     [''zpool'', ''export''] @ (if pexport_Forcefully p then [''-f''] else []) @ pexport_PoolList p"

definition pexport_clean :: "'s PoolExport \<Rightarrow> bool" where
  "pexport_clean p = (list_all word (pexport_PoolList p))"

definition pget_argv :: "'s PoolGProperty \<Rightarrow> string list" where
  "pget_argv p =
     [''zpool'', ''get''] @ (if pget_IsScriptedMode p then [''-H''] else []) @ (if pget_IsParsableMode p then [''-p''] else []) @
     (if pget_FieldList p = [] then [] else [''-o'', concat (map (\<lambda>f. f @ '','') (pget_FieldList p))]) @
     (if pget_PropList p = [] then [] else [concat (map (\<lambda>f. f @ '','') (pget_PropList p))]) @
     (if pget_Pool p = '''' then [] else [pget_Pool p])"

definition pget_clean :: "'s PoolGProperty \<Rightarrow> bool" where
  "pget_clean p = (list_all word (pget_FieldList p) \<and> list_all word (pget_PropList p) \<and> optWord (pget_Pool p))"

definition pimport_argv :: "'s PoolImport \<Rightarrow> string list" where
  "pimport_argv p =
     [''zpool'', ''import''] @ concat (map (\<lambda>v. [''-o'', v]) (pimport_Property p)) @
     (if pimport_Cachefile p = '''' then concat (map (\<lambda>d. [''-d'', d]) (filter (\<lambda>d. d \<noteq> '''') (pimport_Directorylist p)))
      else [''-c'', pimport_Cachefile p]) @
     (if pimport_ForceImport p then [''-f''] else []) @
     (if pimport_ImportAll p then [''-a''] else (if pimport_Pool p = '''' then [] else [pimport_Pool p]) @ (if pimport_NewPool p = '''' then [] else [pimport_NewPool p]))"

definition pimport_clean :: "'s PoolImport \<Rightarrow> bool" where
  "pimport_clean p = (list_all word (pimport_Property p) \<and> optWord (pimport_Cachefile p) \<and> list_all optWord (pimport_Directorylist p) \<and> optWord (pimport_Pool p) \<and> optWord (pimport_NewPool p))"

definition plabelclear_argv :: "'s PoolLabelClear \<Rightarrow> string list" where
  "plabelclear_argv p =
     [''zpool'', ''labelclear''] @ (if plabelclear_Forcefully p then [''-f''] else []) @ [plabelclear_Vdev p]"

definition plabelclear_clean :: "'s PoolLabelClear \<Rightarrow> bool" where
  "plabelclear_clean p = (word (plabelclear_Vdev p))"

definition poffline_argv :: "'s PoolOffline \<Rightarrow> string list" where
  "poffline_argv p =
     [''zpool'', ''offline''] @ (if poffline_isTemporary p then [''-t''] else []) @ [poffline_Pool p] @ poffline_Devicelist p"

definition poffline_clean :: "'s PoolOffline \<Rightarrow> bool" where
  "poffline_clean p = (word (poffline_Pool p) \<and> list_all word (poffline_Devicelist p))"

definition ponline_argv :: "'s PoolOnline \<Rightarrow> string list" where
  "ponline_argv p =
     [''zpool'', ''online''] @ (if ponline_ShouldExpand p then [''-e''] else []) @ [ponline_Pool p] @ ponline_Device p"

definition ponline_clean :: "'s PoolOnline \<Rightarrow> bool" where
  "ponline_clean p = (word (ponline_Pool p) \<and> list_all word (ponline_Device p))"

definition premove_argv :: "'s PoolRemove \<Rightarrow> string list" where
  "premove_argv p =
     [''zpool'', ''remove'', premove_Pool p] @ premove_Device p"

definition premove_clean :: "'s PoolRemove \<Rightarrow> bool" where
  "premove_clean p = (word (premove_Pool p) \<and> list_all word (premove_Device p))"

definition preplace_argv :: "'s PoolDiskReplace \<Rightarrow> string list" where
  "preplace_argv p =
     [''zpool'', ''replace''] @ (if preplace_Forcefully p then [''-f''] else []) @ concat (map (\<lambda>v. [''-o'', v]) (preplace_Property p)) @
     [preplace_Pool p, preplace_OldVdev p, preplace_NewVdev p]"

definition preplace_clean :: "'s PoolDiskReplace \<Rightarrow> bool" where
  "preplace_clean p = (list_all word (preplace_Property p) \<and> word (preplace_Pool p) \<and> word (preplace_OldVdev p) \<and> word (preplace_NewVdev p))"

definition pset_argv :: "'s PoolSProperty \<Rightarrow> string list" where
  "pset_argv p =
     [''zpool'', ''set''] @ pset_PropList p @ [pset_Pool p]"

definition pset_clean :: "'s PoolSProperty \<Rightarrow> bool" where
  "pset_clean p = (list_all word (pset_PropList p) \<and> word (pset_Pool p))"

definition pstatus_argv :: "'s PoolStatus \<Rightarrow> string list" where
  "pstatus_argv p =
     [''zpool'', ''status''] @ (if pstatus_Pool p = '''' then [] else [pstatus_Pool p])"

definition pstatus_clean :: "'s PoolStatus \<Rightarrow> bool" where
  "pstatus_clean p = (optWord (pstatus_Pool p))"

interpretation padd: command_builder padd_command padd_argv padd_clean
proof
  fix p :: "'s PoolExpansion"
  assume clean: "padd_clean p"
  show "plain (padd_command p)"
    using clean by (simp add: padd_command_def padd_clean_def cmd_plain)
  show "Fields (padd_command p) = padd_argv p"
    using clean by (simp add: padd_command_def padd_clean_def padd_argv_def padd_IsPropertySet_def padd_IsDeviceTypeSet_def padd_IsTypeSet_def padd_IsForcefullySet_def cmd_words)
qed

interpretation pattach: command_builder pattach_command pattach_argv pattach_clean
proof
  fix p :: "'s PoolAttach"
  assume clean: "pattach_clean p"
  show "plain (pattach_command p)"
    using clean by (simp add: pattach_command_def pattach_clean_def cmd_plain)
  show "Fields (pattach_command p) = pattach_argv p"
    using clean by (simp add: pattach_command_def pattach_clean_def pattach_argv_def pattach_IsPropertySet_def pattach_IsForcefullySet_def cmd_words)
qed

interpretation pclear: command_builder pclear_command pclear_argv pclear_clean
proof
  fix p :: "'s PoolClear"
  assume clean: "pclear_clean p"
  show "plain (pclear_command p)"
    using clean by (simp add: pclear_command_def pclear_clean_def cmd_plain)
  show "Fields (pclear_command p) = pclear_argv p"
    using clean by (simp add: pclear_command_def pclear_clean_def pclear_argv_def  cmd_words)
qed

interpretation pcreate: command_builder pcreate_command pcreate_argv pcreate_clean
proof
  fix p :: "'s PoolCreate"
  assume clean: "pcreate_clean p"
  show "plain (pcreate_command p)"
    using clean by (simp add: pcreate_command_def pcreate_clean_def cmd_plain)
  show "Fields (pcreate_command p) = pcreate_argv p"
    using clean by (simp add: pcreate_command_def pcreate_clean_def pcreate_argv_def pcreate_IsPropertySet_def pcreate_IsFSPropertySet_def pcreate_IsForcefullySet_def pcreate_IsTypeSet_def cmd_words)
qed

interpretation pdestroy: command_builder pdestroy_command pdestroy_argv pdestroy_clean
proof
  fix p :: "'s PoolDestroy"
  assume clean: "pdestroy_clean p"
  show "plain (pdestroy_command p)"
    using clean by (simp add: pdestroy_command_def pdestroy_clean_def cmd_plain)
  show "Fields (pdestroy_command p) = pdestroy_argv p"
    using clean by (simp add: pdestroy_command_def pdestroy_clean_def pdestroy_argv_def pdestroy_IsForcefullySet_def cmd_words)
qed

interpretation pdetach: command_builder pdetach_command pdetach_argv pdetach_clean
proof
  fix p :: "'s PoolDetach"
  assume clean: "pdetach_clean p"
  show "plain (pdetach_command p)"
    using clean by (simp add: pdetach_command_def pdetach_clean_def cmd_plain)
  show "Fields (pdetach_command p) = pdetach_argv p"
    using clean by (simp add: pdetach_command_def pdetach_clean_def pdetach_argv_def  cmd_words)
qed

interpretation pdump: command_builder pdump_command pdump_argv pdump_clean
proof
  fix p :: "'s PoolDump"
  assume clean: "pdump_clean p"
  show "plain (pdump_command p)"
    using clean by (simp add: pdump_command_def pdump_clean_def cmd_plain)
  show "Fields (pdump_command p) = pdump_argv p"
    using clean by (simp add: pdump_command_def pdump_clean_def pdump_argv_def  cmd_words)
qed

interpretation pexport: command_builder pexport_command pexport_argv pexport_clean
proof
  fix p :: "'s PoolExport"
  assume clean: "pexport_clean p"
  show "plain (pexport_command p)"
    using clean by (simp add: pexport_command_def pexport_clean_def cmd_plain)
  show "Fields (pexport_command p) = pexport_argv p"
    using clean by (simp add: pexport_command_def pexport_clean_def pexport_argv_def pexport_IsForcefullySet_def cmd_words)
qed

interpretation pget: command_builder pget_command pget_argv pget_clean
proof
  fix p :: "'s PoolGProperty"
  assume clean: "pget_clean p"
  show "plain (pget_command p)"
    using clean by (simp add: pget_command_def pget_clean_def cmd_plain)
  show "Fields (pget_command p) = pget_argv p"
    using clean by (simp add: pget_command_def pget_clean_def pget_argv_def pget_IsPropListSet_def pget_IsPoolSet_def pget_IsScriptedModeSet_def pget_IsParsableModeSet_def pget_IsFieldListSet_def cmd_words)
qed

interpretation pimport: command_builder pimport_command pimport_argv pimport_clean
proof
  fix p :: "'s PoolImport"
  assume clean: "pimport_clean p"
  show "plain (pimport_command p)"
    using clean by (simp add: pimport_command_def pimport_clean_def cmd_plain)
  show "Fields (pimport_command p) = pimport_argv p"
    using clean by (simp add: pimport_command_def pimport_clean_def pimport_argv_def pimport_IsCachefileSet_def pimport_IsDirectorylistSet_def pimport_IsImportAllSet_def pimport_IsForceImportSet_def pimport_IsPropertySet_def pimport_IsNewPoolSet_def cmd_words)
qed

interpretation plabelclear: command_builder plabelclear_command plabelclear_argv plabelclear_clean
proof
  fix p :: "'s PoolLabelClear"
  assume clean: "plabelclear_clean p"
  show "plain (plabelclear_command p)"
    using clean by (simp add: plabelclear_command_def plabelclear_clean_def cmd_plain)
  show "Fields (plabelclear_command p) = plabelclear_argv p"
    using clean by (simp add: plabelclear_command_def plabelclear_clean_def plabelclear_argv_def plabelclear_IsForcefullySet_def cmd_words)
qed

interpretation poffline: command_builder poffline_command poffline_argv poffline_clean
proof
  fix p :: "'s PoolOffline"
  assume clean: "poffline_clean p"
  show "plain (poffline_command p)"
    using clean by (simp add: poffline_command_def poffline_clean_def cmd_plain)
  show "Fields (poffline_command p) = poffline_argv p"
    using clean by (simp add: poffline_command_def poffline_clean_def poffline_argv_def poffline_IsTemporarySet_def poffline_IsDevicelistSet_def cmd_words)
qed

interpretation ponline: command_builder ponline_command ponline_argv ponline_clean
proof
  fix p :: "'s PoolOnline"
  assume clean: "ponline_clean p"
  show "plain (ponline_command p)"
    using clean by (simp add: ponline_command_def ponline_clean_def cmd_plain)
  show "Fields (ponline_command p) = ponline_argv p"
    using clean by (simp add: ponline_command_def ponline_clean_def ponline_argv_def ponline_IsDeviceSet_def ponline_IsShouldExpandSet_def cmd_words)
qed

interpretation premove: command_builder premove_command premove_argv premove_clean
proof
  fix p :: "'s PoolRemove"
  assume clean: "premove_clean p"
  show "plain (premove_command p)"
    using clean by (simp add: premove_command_def premove_clean_def cmd_plain)
  show "Fields (premove_command p) = premove_argv p"
    using clean by (simp add: premove_command_def premove_clean_def premove_argv_def premove_IsDeviceSet_def cmd_words)
qed

interpretation preplace: command_builder preplace_command preplace_argv preplace_clean
proof
  fix p :: "'s PoolDiskReplace"
  assume clean: "preplace_clean p"
  show "plain (preplace_command p)"
    using clean by (simp add: preplace_command_def preplace_clean_def cmd_plain)
  show "Fields (preplace_command p) = preplace_argv p"
    using clean by (simp add: preplace_command_def preplace_clean_def preplace_argv_def preplace_IsPropertySet_def preplace_IsForcefullySet_def cmd_words)
qed

interpretation pset: command_builder pset_command pset_argv pset_clean
proof
  fix p :: "'s PoolSProperty"
  assume clean: "pset_clean p"
  show "plain (pset_command p)"
    using clean by (simp add: pset_command_def pset_clean_def cmd_plain)
  show "Fields (pset_command p) = pset_argv p"
    using clean by (simp add: pset_command_def pset_clean_def pset_argv_def pset_IsPropListSet_def cmd_words)
qed

interpretation pstatus: command_builder pstatus_command pstatus_argv pstatus_clean
proof
  fix p :: "'s PoolStatus"
  assume clean: "pstatus_clean p"
  show "plain (pstatus_command p)"
    using clean by (simp add: pstatus_command_def pstatus_clean_def cmd_plain)
  show "Fields (pstatus_command p) = pstatus_argv p"
    using clean by (simp add: pstatus_command_def pstatus_clean_def pstatus_argv_def  cmd_words)
qed

section \<open>Properties\<close>

text \<open>
  The checks attached to a builder never reject anything: a failed check wraps the error of the
  builder, which is nil to begin with, and wrapping nil gives nil. A builder fresh from its
  constructor builds, whatever checks were added and whatever they say.
\<close>

theorem checks_never_reject:
  "snd (pcreate_Build holds (WithCheck cs (pcreate_WithVdevList vs (pcreate_WithPool pool NewPoolCreate)))) = None"
  unfolding pcreate_Build_def
  by (rule pcreate.build_never_fails)
    (simp add: NewPoolCreate_def WithCheck_def pcreate_WithVdevList_def pcreate_WithPool_def)

end
