(* ===== verification/PoolTopology.thy ===== *)
theory PoolTopology
  imports ApiTypes ZpoolCmd
begin

text \<open>
  Reading the topology of a pool: \<open>Execute\<close> of \<open>zpool dump\<close> and the removal of partition
  suffixes (\<open>pkg/zcmd/zpool/dump\<close>), and the search for a device in the topology
  (\<open>compareDisk\<close> and \<open>checkIfDeviceUsed\<close> of \<open>pkg/pool/operations/pool_utils.go\<close>).
\<close>

section \<open>Partition suffixes\<close>

text \<open>\<open>unicode.IsLetter\<close> and \<open>unicode.IsNumber\<close> of a byte taken as a code point.\<close>

definition isLetter :: "char \<Rightarrow> bool" where
  "isLetter c =
     (let n = of_char c :: nat in
      65 \<le> n \<and> n \<le> 90 \<or> 97 \<le> n \<and> n \<le> 122 \<or> n \<in> {170, 181, 186} \<or>
      192 \<le> n \<and> n \<noteq> 215 \<and> n \<noteq> 247)"

definition isNumber :: "char \<Rightarrow> bool" where
  "isNumber c = (let n = of_char c :: nat in 48 \<le> n \<and> n \<le> 57 \<or> n \<in> {178, 179, 185, 188, 189, 190})"

fun getLastIndex :: "string \<Rightarrow> (char \<Rightarrow> bool) \<Rightarrow> nat" where
  "getLastIndex [] fn = 0"
| "getLastIndex (c # p) fn = (if \<not> fn c then 0 else Suc (getLastIndex p fn))"

text \<open>
  \<open>getDiskStripPath\<close>. The file name is a slice of the path's bytes and every candidate suffix is a
  slice at its end, so that overwriting the suffix with newlines and splitting at the first one
  drops it. Slicing the first three bytes of a shorter file name reaches into the spare capacity
  of that allocation, whose bytes are zero, and panics beyond it; \<open>spare\<close> is the capacity of the
  byte slice of a string less its length, which depends on the run-time system.
\<close>

definition scsiSuffix :: "nat \<Rightarrow> string \<Rightarrow> nat option res" where
  "scsiSuffix spare name =
     (case name of
        [] \<Rightarrow> Panic ''index out of range''
      | [c] \<Rightarrow> if c \<in> set ''hsv'' then Panic ''index out of range''
                else if spare < 2 then Panic ''slice bounds out of range'' else Ok None
      | c # d # rest \<Rightarrow>
          if c \<in> set ''hsv'' \<and> d = CHR ''d'' then Ok (Some (2 + getLastIndex rest isLetter))
          else if rest = [] then (if spare < 1 then Panic ''slice bounds out of range'' else Ok None)
          else if take 3 name = ''xvd'' then Ok (Some (3 + getLastIndex (drop 3 name) isLetter))
          else Ok None)"

text \<open>The suffix found: where it starts in the file name, and how many of its bytes precede the digits.\<close>

definition findSuffix :: "nat \<Rightarrow> string \<Rightarrow> (nat \<times> nat) option res" where
  "findSuffix spare name =
     (let other = bindR (scsiSuffix spare name) (\<lambda>r. Ok (map_option (\<lambda>i. (i, 0)) r)) in
      case Index name ''-part'' of
        Some (Suc i) \<Rightarrow> Ok (Some (Suc i, 5))
      | _ \<Rightarrow>
          (case LastIndexByte name (CHR ''p'') of
             Some (Suc (Suc i)) \<Rightarrow> if isNumber (name ! Suc i) then Ok (Some (Suc (Suc i), 1)) else other
           | _ \<Rightarrow> other))"

definition getDiskStripPath :: "(string \<Rightarrow> nat) \<Rightarrow> string \<Rightarrow> string res" where
  "getDiskStripPath spare path =
     (if path = '''' then Ok path
      else
        case LastIndexByte path (CHR ''/'') of
          None \<Rightarrow> Ok path
        | Some lastIndex \<Rightarrow>
            let name = drop (Suc lastIndex) path in
            bindR (findSuffix (spare path) name) (\<lambda>r.
              let stripped =
                (case r of
                   None \<Rightarrow> path
                 | Some (i, k) \<Rightarrow>
                     let d = drop (i + k) name in
                     if d \<noteq> [] \<and> getLastIndex d isNumber = length d
                     then take (Suc lastIndex + i) path @ replicate (length name - i) (CHR 0x0A)
                     else path)
              in Ok (hd (Split (CHR 0x0A) stripped))))"

fun stripDiskPath :: "(string \<Rightarrow> nat) \<Rightarrow> Vdev list \<Rightarrow> Vdev list res" where
  "stripDiskPath spare [] = Ok []"
| "stripDiskPath spare (Vdev path wholeDisk stats scan children # vs) =
     bindR (if wholeDisk = 1 then getDiskStripPath spare path else Ok path) (\<lambda>path'.
     bindR (stripDiskPath spare children) (\<lambda>children'.
     bindR (stripDiskPath spare vs) (\<lambda>vs'.
       Ok (Vdev path' wholeDisk stats scan children' # vs'))))"

text \<open>
  \<open>Execute\<close> of \<open>zpool dump\<close>; the JSON decoder is a parameter. On a decoding error the topology that
  was decoded so far is stripped too, and dropped by every caller.
\<close>

definition pdump_Execute ::
    "'s executor \<Rightarrow> (string \<Rightarrow> Topology res) \<Rightarrow> (string \<Rightarrow> nat) \<Rightarrow> (string \<Rightarrow> 's PoolDump \<Rightarrow> bool) \<Rightarrow> 's PoolDump \<Rightarrow> 's \<Rightarrow> Topology res \<times> 's" where
  "pdump_Execute bash unmarshal spare holds p s =
     (case pdump_Build holds p of
        (q, Some e) \<Rightarrow> (Err e, s)
      | (q, None) \<Rightarrow>
          (case runCmd bash q s of
             ((out, Some e), s') \<Rightarrow> (Err e, s')
           | ((out, None), s') \<Rightarrow>
               (bindR (unmarshal out) (\<lambda>t.
                  if pdump_StripVdevPath q
                  then bindR (stripDiskPath spare (Topvdev t)) (\<lambda>top.
                       bindR (stripDiskPath spare (Spares t)) (\<lambda>spares.
                       bindR (stripDiskPath spare (Readcache t)) (\<lambda>cache.
                         Ok \<lparr>Topvdev = top, Spares = spares, Readcache = cache\<rparr>)))
                  else Ok t), s')))"

section \<open>Searching the topology\<close>

text \<open>
  \<open>compareDisk\<close>, with its inner loop over the children as \<open>compareChildren\<close>; the path found, or
  \<open>None\<close> for the pair of the empty string and \<open>false\<close>. \<open>contains\<close> is \<open>util.ContainsString\<close>.
\<close>

fun compareDisk :: "(string list \<Rightarrow> string \<Rightarrow> bool) \<Rightarrow> string list \<Rightarrow> Vdev list \<Rightarrow> string option"
  and compareChildren :: "(string list \<Rightarrow> string \<Rightarrow> bool) \<Rightarrow> string list \<Rightarrow> Vdev list \<Rightarrow> string option" where
  "compareDisk contains path [] = None"
| "compareDisk contains path (Vdev vpath wd stats scan children # vs) =
     (if contains path vpath then Some vpath
      else (case compareChildren contains path children of
              Some r \<Rightarrow> Some r
            | None \<Rightarrow> compareDisk contains path vs))"
| "compareChildren contains path [] = None"
| "compareChildren contains path (Vdev ppath wd stats scan children # ps) =
     (if contains path ppath then Some ppath
      else (case compareDisk contains path children of
              Some r \<Rightarrow> Some r
            | None \<Rightarrow> compareChildren contains path ps))"

definition checkIfDeviceUsed :: "(string list \<Rightarrow> string \<Rightarrow> bool) \<Rightarrow> string list \<Rightarrow> Topology \<Rightarrow> string option" where
  "checkIfDeviceUsed contains path t =
     (case compareDisk contains path (Topvdev t) of
        Some p \<Rightarrow> Some p
      | None \<Rightarrow>
          (case compareDisk contains path (Spares t) of
             Some p \<Rightarrow> Some p
           | None \<Rightarrow> compareDisk contains path (Readcache t)))"

section \<open>Lemmas\<close>

text \<open>The paths of a forest of devices, in the order the search visits them.\<close>

fun vdevPaths :: "Vdev list \<Rightarrow> string list" where
  "vdevPaths [] = []"
| "vdevPaths (Vdev path wd stats scan children # vs) = path # vdevPaths children @ vdevPaths vs"

lemma find_of_append: "find P (xs @ ys) = (case find P xs of None \<Rightarrow> find P ys | Some x \<Rightarrow> Some x)"
  by (induction xs) auto

lemma compareDisk_find:
  "compareDisk contains path vs = find (contains path) (vdevPaths vs)"
  "compareChildren contains path vs = find (contains path) (vdevPaths vs)"
  by (induction contains path vs and contains path vs rule: compareDisk_compareChildren.induct)
    (simp_all add: find_of_append split: option.splits)

definition topologyPaths :: "Topology \<Rightarrow> string list" where
  "topologyPaths t = vdevPaths (Topvdev t) @ vdevPaths (Spares t) @ vdevPaths (Readcache t)"

lemma checkIfDeviceUsed_find: "checkIfDeviceUsed contains path t = find (contains path) (topologyPaths t)"
  by (simp add: checkIfDeviceUsed_def topologyPaths_def compareDisk_find find_of_append split: option.splits)

lemma LastIndexByte_append:
  "b \<notin> set t \<Longrightarrow> LastIndexByte (s @ b # t) b = Some (length s)"
proof (induction s)
  case Nil
  have "LastIndexByte t b = None" using Nil by (induction t) auto
  then show ?case by simp
qed simp

lemma getLastIndex_all: "list_all fn d \<Longrightarrow> getLastIndex d fn = length d"
  by (induction d) auto

lemma Split_hd_replicate: "c \<notin> set s \<Longrightarrow> n > 0 \<Longrightarrow> hd (Split c (s @ replicate n c)) = s"
proof (induction s)
  case Nil
  then show ?case by (cases n) auto
next
  case (Cons x s)
  then show ?case using Split_ne_Nil [of c "s @ replicate n c"] by (cases "Split c (s @ replicate n c)") auto
qed

text \<open>A name without the marker, followed by the marker: the marker is found where it was put.\<close>

lemma Index_part: "Index name ''-part'' = None \<Longrightarrow> Index (name @ ''-part'' @ d) ''-part'' = Some (length name)"
proof (induction name)
  case Nil
  then show ?case by (simp add: HasPrefix_def)
next
  case (Cons c name)
  then have no: "\<not> HasPrefix (c # name) ''-part''" and n: "Index name ''-part'' = None" by (auto split: if_splits)
  have "\<not> HasPrefix (c # name @ ''-part'' @ d) ''-part''"
  proof
    assume "HasPrefix (c # name @ ''-part'' @ d) ''-part''"
    with no show False
      by (cases name; cases "tl name"; cases "tl (tl name)"; cases "tl (tl (tl name))") (auto simp: HasPrefix_def)
  qed
  with Cons.IH [OF n] show ?case by simp
qed

section \<open>Properties\<close>

text \<open>
  Removing the partition suffix undoes partitioning: for a disk path \<open>dir/name\<close>, and a
  partition number, \<open>dir/name-partN\<close> is stripped to the path of the disk. The name is not empty,
  does not contain the marker itself, and the path has no newline.
\<close>

theorem strip_partition_roundtrip:
  assumes "name \<noteq> []" and "Index name ''-part'' = None" and "CHR ''/'' \<notin> set name"
    and "CHR 0x0A \<notin> set (dir @ name)"
  shows "getDiskStripPath spare (dir @ ''/'' @ name @ ''-part'' @ showNat n) = Ok (dir @ ''/'' @ name)"
proof -
  let ?d = "showNat n" and ?name = "name @ ''-part'' @ showNat n"
  have digits: "list_all isNumber ?d"
    using showNat_digits [of n] by (auto simp: list_all_iff isDigit_def isNumber_def)
  have "CHR ''/'' \<notin> set ?name"
    using assms(3) showNat_digits [of n] by (auto simp: list_all_iff isDigit_def)
  then have li: "LastIndexByte (dir @ ''/'' @ ?name) (CHR ''/'') = Some (length dir)"
    using LastIndexByte_append [of "CHR ''/''" ?name dir] by simp
  obtain m where m: "length name = Suc m" using assms(1) by (cases name) auto
  have fs: "findSuffix k ?name = Ok (Some (length name, 5))" for k
    using Index_part [OF assms(2)] m by (simp add: findSuffix_def)
  have "drop (length name + 5) ?name = ?d" by simp
  moreover have "take (Suc (length dir) + length name) (dir @ ''/'' @ ?name) = dir @ ''/'' @ name" by simp
  moreover have "hd (Split (CHR 0x0A) ((dir @ ''/'' @ name) @ replicate (length ?name - length name) (CHR 0x0A))) = dir @ ''/'' @ name"
    using assms(4) by (intro Split_hd_replicate) auto
  ultimately show ?thesis
    using digits getLastIndex_all [OF digits] showNat_ne_Nil [of n]
    by (simp add: getDiskStripPath_def li [simplified] fs [simplified] Let_def)
qed

theorem strip_partition_roundtrip_witness:
  "getDiskStripPath (\<lambda>_. 0) ''/dev/disk/by-id/scsi-0-part23'' = Ok ''/dev/disk/by-id/scsi-0''"
proof -
  have n: "showNat 23 = ''23''" by code_simp
  have "getDiskStripPath (\<lambda>_. 0) (''/dev/disk/by-id'' @ ''/'' @ ''scsi-0'' @ ''-part'' @ showNat 23) =
        Ok (''/dev/disk/by-id'' @ ''/'' @ ''scsi-0'')"
    by (rule strip_partition_roundtrip) code_simp+
  then show ?thesis by (simp add: n)
qed

text \<open>
  The recursive search through data devices, spares and read caches finds a device exactly when
  one of its links is the path of some device of the topology at any depth, and gives such a link.
\<close>

theorem device_search_exact:
  assumes "\<And>xs x. contains xs x = (x \<in> set xs)"
  shows "(checkIfDeviceUsed contains path t = None \<longleftrightarrow> set path \<inter> set (topologyPaths t) = {})
     \<and> (checkIfDeviceUsed contains path t = Some u \<longrightarrow> u \<in> set path \<inter> set (topologyPaths t))"
proof -
  have "contains = (\<lambda>xs x. x \<in> set xs)" using assms by blast
  then show ?thesis
    by (auto simp: checkIfDeviceUsed_find find_None_iff find_Some_iff)
qed

theorem device_search_exact_witness:
  "checkIfDeviceUsed (\<lambda>xs x. x \<in> set xs) [''/dev/sdb'', ''/dev/by-id/b'']
     \<lparr>Topvdev = [Vdev '''' 0 [] [] [Vdev ''/dev/sda'' 1 [] [] [], Vdev ''/dev/by-id/b'' 1 [] [] []]], Spares = [], Readcache = []\<rparr>
   \<noteq> None"
  using device_search_exact [of "\<lambda>xs x. x \<in> set xs" "[''/dev/sdb'', ''/dev/by-id/b'']"
      "\<lparr>Topvdev = [Vdev '''' 0 [] [] [Vdev ''/dev/sda'' 1 [] [] [], Vdev ''/dev/by-id/b'' 1 [] [] []]], Spares = [], Readcache = []\<rparr>"]
  by (simp add: topologyPaths_def)

end
