(* ===== verification/ZfsCmd.thy ===== *)
theory ZfsCmd
  imports ZcmdBase
begin

text \<open>
  The builders of \<open>zfs\<close> command lines, \<open>pkg/zcmd/zfs/*\<close>, in the same form as those of \<open>zpool\<close>.
\<close>

section \<open>The builders\<close>

subsection \<open>\<open>VolumeClone\<close>, package \<open>zcmd/zfs/clone\<close>\<close>

record VolumeClone = "zcmd" +
  vclone_Snapshot :: string
  vclone_TargetDataset :: string
  vclone_SourceDataset :: string
  vclone_Property :: "string list"
  vclone_CreateParent :: bool

definition NewVolumeClone :: "VolumeClone" where
  "NewVolumeClone =
     \<lparr>Command = '''', checks = [], cmd_err = None, vclone_Snapshot = '''', vclone_TargetDataset = '''',
      vclone_SourceDataset = '''', vclone_Property = [], vclone_CreateParent = False\<rparr>"

definition vclone_WithSnapshot :: "string \<Rightarrow> VolumeClone \<Rightarrow> VolumeClone" where
  "vclone_WithSnapshot snapshot p = p\<lparr>vclone_Snapshot := snapshot\<rparr>"

definition vclone_WithTargetDataset :: "string \<Rightarrow> VolumeClone \<Rightarrow> VolumeClone" where
  "vclone_WithTargetDataset targetdataset p = p\<lparr>vclone_TargetDataset := targetdataset\<rparr>"

definition vclone_WithSourceDataset :: "string \<Rightarrow> VolumeClone \<Rightarrow> VolumeClone" where
  "vclone_WithSourceDataset sourcedataset p = p\<lparr>vclone_SourceDataset := sourcedataset\<rparr>"

definition vclone_WithCreateParent :: "bool \<Rightarrow> VolumeClone \<Rightarrow> VolumeClone" where
  "vclone_WithCreateParent createparent p = p\<lparr>vclone_CreateParent := createparent\<rparr>"

definition vclone_SetSnapshot :: "string \<Rightarrow> VolumeClone \<Rightarrow> VolumeClone" where
  "vclone_SetSnapshot snapshot p = p\<lparr>vclone_Snapshot := snapshot\<rparr>"

definition vclone_SetTargetDataset :: "string \<Rightarrow> VolumeClone \<Rightarrow> VolumeClone" where
  "vclone_SetTargetDataset targetdataset p = p\<lparr>vclone_TargetDataset := targetdataset\<rparr>"

definition vclone_SetSourceDataset :: "string \<Rightarrow> VolumeClone \<Rightarrow> VolumeClone" where
  "vclone_SetSourceDataset sourcedataset p = p\<lparr>vclone_SourceDataset := sourcedataset\<rparr>"

definition vclone_SetProperty :: "string \<Rightarrow> string \<Rightarrow> VolumeClone \<Rightarrow> VolumeClone" where
  "vclone_SetProperty key value p = p\<lparr>vclone_Property := vclone_Property p @ [''%s=%s'', key, value]\<rparr>"

definition vclone_SetCreateParent :: "bool \<Rightarrow> VolumeClone \<Rightarrow> VolumeClone" where
  "vclone_SetCreateParent createparent p = p\<lparr>vclone_CreateParent := createparent\<rparr>"

definition vclone_WithProperty :: "string \<Rightarrow> string \<Rightarrow> VolumeClone \<Rightarrow> VolumeClone" where
  "vclone_WithProperty key value p = vclone_SetProperty key value p"

definition vclone_IsSnapshotSet :: "VolumeClone \<Rightarrow> bool" where
  "vclone_IsSnapshotSet p = (vclone_Snapshot p \<noteq> [])"

definition vclone_IsTargetDatasetSet :: "VolumeClone \<Rightarrow> bool" where
  "vclone_IsTargetDatasetSet p = (vclone_TargetDataset p \<noteq> [])"

definition vclone_IsSourceDatasetSet :: "VolumeClone \<Rightarrow> bool" where
  "vclone_IsSourceDatasetSet p = (vclone_SourceDataset p \<noteq> [])"

definition vclone_IsPropertySet :: "VolumeClone \<Rightarrow> bool" where
  "vclone_IsPropertySet p = (vclone_Property p \<noteq> [])"

definition vclone_IsCreateParentSet :: "VolumeClone \<Rightarrow> bool" where
  "vclone_IsCreateParentSet p = vclone_CreateParent p"

definition vclone_command :: "VolumeClone \<Rightarrow> string" where
  "vclone_command p =
     ZFS @
     '' clone '' @
     vclone_SourceDataset p @
     ''@'' @
     vclone_Snapshot p @
     '' '' @
     vclone_TargetDataset p"

definition vclone_Build :: "(string \<Rightarrow> VolumeClone \<Rightarrow> bool) \<Rightarrow> VolumeClone \<Rightarrow> VolumeClone \<times> goerr option" where
  "vclone_Build = buildWith vclone_command"

definition vclone_Execute ::
    "'s executor \<Rightarrow> (string \<Rightarrow> VolumeClone \<Rightarrow> bool) \<Rightarrow> VolumeClone \<Rightarrow> 's \<Rightarrow> (string \<times> goerr option) \<times> 's" where
  "vclone_Execute bash holds p s = executeWith (vclone_Build holds p) (runBash bash) s"

subsection \<open>\<open>VolumeCreate\<close>, package \<open>zcmd/zfs/create\<close>\<close>

record VolumeCreate = "zcmd" +
  vcreate_Name :: string
  vcreate_Size :: string
  vcreate_BlockSize :: string
  vcreate_Property :: "string list"
  vcreate_Reservation :: bool
  vcreate_CreateParent :: bool

definition NewVolumeCreate :: "VolumeCreate" where
  "NewVolumeCreate =
     \<lparr>Command = '''', checks = [], cmd_err = None, vcreate_Name = '''', vcreate_Size = '''',
      vcreate_BlockSize = '''', vcreate_Property = [], vcreate_Reservation = False,
      vcreate_CreateParent = False\<rparr>"

definition vcreate_WithName :: "string \<Rightarrow> VolumeCreate \<Rightarrow> VolumeCreate" where
  "vcreate_WithName name p = p\<lparr>vcreate_Name := name\<rparr>"

definition vcreate_WithSize :: "string \<Rightarrow> VolumeCreate \<Rightarrow> VolumeCreate" where
  "vcreate_WithSize sz p = p\<lparr>vcreate_Size := sz\<rparr>"

definition vcreate_WithBlockSize :: "string \<Rightarrow> VolumeCreate \<Rightarrow> VolumeCreate" where
  "vcreate_WithBlockSize blocksize p = p\<lparr>vcreate_BlockSize := blocksize\<rparr>"

definition vcreate_WithReservation :: "bool \<Rightarrow> VolumeCreate \<Rightarrow> VolumeCreate" where
  "vcreate_WithReservation reservation p = p\<lparr>vcreate_Reservation := reservation\<rparr>"

definition vcreate_WithCreateParent :: "bool \<Rightarrow> VolumeCreate \<Rightarrow> VolumeCreate" where
  "vcreate_WithCreateParent createparent p = p\<lparr>vcreate_CreateParent := createparent\<rparr>"

definition vcreate_SetName :: "string \<Rightarrow> VolumeCreate \<Rightarrow> VolumeCreate" where
  "vcreate_SetName name p = p\<lparr>vcreate_Name := name\<rparr>"

definition vcreate_SetSize :: "string \<Rightarrow> VolumeCreate \<Rightarrow> VolumeCreate" where
  "vcreate_SetSize sz p = p\<lparr>vcreate_Size := sz\<rparr>"

definition vcreate_SetBlockSize :: "string \<Rightarrow> VolumeCreate \<Rightarrow> VolumeCreate" where
  "vcreate_SetBlockSize blocksize p = p\<lparr>vcreate_BlockSize := blocksize\<rparr>"

definition vcreate_SetProperty :: "string \<Rightarrow> string \<Rightarrow> VolumeCreate \<Rightarrow> VolumeCreate" where
  "vcreate_SetProperty key value p = p\<lparr>vcreate_Property := vcreate_Property p @ [key @ ''='' @ value]\<rparr>"

definition vcreate_SetReservation :: "bool \<Rightarrow> VolumeCreate \<Rightarrow> VolumeCreate" where
  "vcreate_SetReservation reservation p = p\<lparr>vcreate_Reservation := reservation\<rparr>"

definition vcreate_SetCreateParent :: "bool \<Rightarrow> VolumeCreate \<Rightarrow> VolumeCreate" where
  "vcreate_SetCreateParent createparent p = p\<lparr>vcreate_CreateParent := createparent\<rparr>"

definition vcreate_WithProperty :: "string \<Rightarrow> string \<Rightarrow> VolumeCreate \<Rightarrow> VolumeCreate" where
  "vcreate_WithProperty key value p = vcreate_SetProperty key value p"

definition vcreate_IsNameSet :: "VolumeCreate \<Rightarrow> bool" where
  "vcreate_IsNameSet p = (vcreate_Name p \<noteq> [])"

definition vcreate_IsSizeSet :: "VolumeCreate \<Rightarrow> bool" where
  "vcreate_IsSizeSet p = (vcreate_Size p \<noteq> [])"

definition vcreate_IsBlockSizeSet :: "VolumeCreate \<Rightarrow> bool" where
  "vcreate_IsBlockSizeSet p = (vcreate_BlockSize p \<noteq> [])"

definition vcreate_IsPropertySet :: "VolumeCreate \<Rightarrow> bool" where
  "vcreate_IsPropertySet p = (vcreate_Property p \<noteq> [])"

definition vcreate_IsReservationSet :: "VolumeCreate \<Rightarrow> bool" where
  "vcreate_IsReservationSet p = vcreate_Reservation p"

definition vcreate_IsCreateParentSet :: "VolumeCreate \<Rightarrow> bool" where
  "vcreate_IsCreateParentSet p = vcreate_CreateParent p"

definition vcreate_command :: "VolumeCreate \<Rightarrow> string" where
  "vcreate_command p =
     ZFS @
     '' create  -V '' @
     vcreate_Size p @
     (if \<not> vcreate_IsReservationSet p then '' -s '' else '''') @
     (if vcreate_IsBlockSizeSet p then '' -b '' @ vcreate_BlockSize p else '''') @
     (if vcreate_IsPropertySet p then concat (map (\<lambda>q. '' -o '' @ q) (vcreate_Property p)) else '''') @
     '' '' @
     vcreate_Name p"

definition vcreate_Build :: "(string \<Rightarrow> VolumeCreate \<Rightarrow> bool) \<Rightarrow> VolumeCreate \<Rightarrow> VolumeCreate \<times> goerr option" where
  "vcreate_Build = buildWith vcreate_command"

definition vcreate_Execute ::
    "'s executor \<Rightarrow> (string \<Rightarrow> VolumeCreate \<Rightarrow> bool) \<Rightarrow> VolumeCreate \<Rightarrow> 's \<Rightarrow> (string \<times> goerr option) \<times> 's" where
  "vcreate_Execute bash holds p s = executeWith (vcreate_Build holds p) (runBash bash) s"

subsection \<open>\<open>VolumeDestroy\<close>, package \<open>zcmd/zfs/destroy\<close>\<close>

record VolumeDestroy = "zcmd" +
  vdestroy_DryRun :: bool
  vdestroy_Recursive :: bool
  vdestroy_Name :: string

definition NewVolumeDestroy :: "VolumeDestroy" where
  "NewVolumeDestroy =
     \<lparr>Command = '''', checks = [], cmd_err = None, vdestroy_DryRun = False, vdestroy_Recursive = False,
      vdestroy_Name = ''''\<rparr>"

definition vdestroy_WithDryRun :: "bool \<Rightarrow> VolumeDestroy \<Rightarrow> VolumeDestroy" where
  "vdestroy_WithDryRun dryrun p = p\<lparr>vdestroy_DryRun := dryrun\<rparr>"

definition vdestroy_WithRecursive :: "bool \<Rightarrow> VolumeDestroy \<Rightarrow> VolumeDestroy" where
  "vdestroy_WithRecursive recursive p = p\<lparr>vdestroy_Recursive := recursive\<rparr>"

definition vdestroy_WithName :: "string \<Rightarrow> VolumeDestroy \<Rightarrow> VolumeDestroy" where
  "vdestroy_WithName name p = p\<lparr>vdestroy_Name := name\<rparr>"

definition vdestroy_SetDryRun :: "bool \<Rightarrow> VolumeDestroy \<Rightarrow> VolumeDestroy" where
  "vdestroy_SetDryRun dryrun p = p\<lparr>vdestroy_DryRun := dryrun\<rparr>"

definition vdestroy_SetRecursive :: "bool \<Rightarrow> VolumeDestroy \<Rightarrow> VolumeDestroy" where
  "vdestroy_SetRecursive recursive p = p\<lparr>vdestroy_Recursive := recursive\<rparr>"

definition vdestroy_SetName :: "string \<Rightarrow> VolumeDestroy \<Rightarrow> VolumeDestroy" where
  "vdestroy_SetName name p = p\<lparr>vdestroy_Name := name\<rparr>"

definition vdestroy_IsDryRunSet :: "VolumeDestroy \<Rightarrow> bool" where
  "vdestroy_IsDryRunSet p = vdestroy_DryRun p"

definition vdestroy_IsRecursiveSet :: "VolumeDestroy \<Rightarrow> bool" where
  "vdestroy_IsRecursiveSet p = vdestroy_Recursive p"

definition vdestroy_IsNameSet :: "VolumeDestroy \<Rightarrow> bool" where
  "vdestroy_IsNameSet p = (vdestroy_Name p \<noteq> [])"

definition vdestroy_command :: "VolumeDestroy \<Rightarrow> string" where
  "vdestroy_command p =
     ZFS @
     '' destroy '' @
     (if vdestroy_IsDryRunSet p then '' -n'' else '''') @
     (if vdestroy_IsRecursiveSet p then '' -R '' else '''') @
     vdestroy_Name p"

definition vdestroy_Build :: "(string \<Rightarrow> VolumeDestroy \<Rightarrow> bool) \<Rightarrow> VolumeDestroy \<Rightarrow> VolumeDestroy \<times> goerr option" where
  "vdestroy_Build = buildWith vdestroy_command"

definition vdestroy_Execute ::
    "'s executor \<Rightarrow> (string \<Rightarrow> VolumeDestroy \<Rightarrow> bool) \<Rightarrow> VolumeDestroy \<Rightarrow> 's \<Rightarrow> (string \<times> goerr option) \<times> 's" where
  "vdestroy_Execute bash holds p s = executeWith (vdestroy_Build holds p) (runBash bash) s"

subsection \<open>\<open>VolumeGetProperty\<close>, package \<open>zcmd/zfs/get\<close>\<close>

record 's VolumeGetProperty = "'s ezcmd" +
  vget_Proplist :: "string list"
  vget_Dataset :: string
  vget_IsScriptedMode :: bool
  vget_IsParsableMode :: bool
  vget_FieldList :: "string list"
  vget_Snapshot :: string

definition NewVolumeGetProperty :: "'s VolumeGetProperty" where
  "NewVolumeGetProperty =
     \<lparr>Command = '''', checks = [], cmd_err = None, Executor = None, vget_Proplist = [], vget_Dataset = '''',
      vget_IsScriptedMode = False, vget_IsParsableMode = False, vget_FieldList = [],
      vget_Snapshot = ''''\<rparr>"

definition vget_WithProperty :: "string \<Rightarrow> 's VolumeGetProperty \<Rightarrow> 's VolumeGetProperty" where
  "vget_WithProperty key p = p\<lparr>vget_Proplist := vget_Proplist p @ [key]\<rparr>"

definition vget_WithScriptedMode :: "bool \<Rightarrow> 's VolumeGetProperty \<Rightarrow> 's VolumeGetProperty" where
  "vget_WithScriptedMode isscriptedmode p = p\<lparr>vget_IsScriptedMode := isscriptedmode\<rparr>"

definition vget_WithParsableMode :: "bool \<Rightarrow> 's VolumeGetProperty \<Rightarrow> 's VolumeGetProperty" where
  "vget_WithParsableMode isparsablemode p = p\<lparr>vget_IsParsableMode := isparsablemode\<rparr>"

definition vget_WithField :: "string \<Rightarrow> 's VolumeGetProperty \<Rightarrow> 's VolumeGetProperty" where
  "vget_WithField fld p = p\<lparr>vget_FieldList := vget_FieldList p @ [fld]\<rparr>"

definition vget_WithPropertyList :: "string list \<Rightarrow> 's VolumeGetProperty \<Rightarrow> 's VolumeGetProperty" where
  "vget_WithPropertyList keys p = p\<lparr>vget_Proplist := vget_Proplist p @ keys\<rparr>"

definition vget_WithDataset :: "string \<Rightarrow> 's VolumeGetProperty \<Rightarrow> 's VolumeGetProperty" where
  "vget_WithDataset dataset p = p\<lparr>vget_Dataset := dataset\<rparr>"

definition vget_WithSnapshot :: "string \<Rightarrow> 's VolumeGetProperty \<Rightarrow> 's VolumeGetProperty" where
  "vget_WithSnapshot snapshot p = p\<lparr>vget_Snapshot := snapshot\<rparr>"

definition vget_SetProperty :: "string \<Rightarrow> string \<Rightarrow> 's VolumeGetProperty \<Rightarrow> 's VolumeGetProperty" where
  "vget_SetProperty key value p = p\<lparr>vget_Proplist := vget_Proplist p @ [key @ ''='' @ value]\<rparr>"

definition vget_SetDataset :: "string \<Rightarrow> 's VolumeGetProperty \<Rightarrow> 's VolumeGetProperty" where
  "vget_SetDataset dataset p = p\<lparr>vget_Dataset := dataset\<rparr>"

definition vget_SetSnapshot :: "string \<Rightarrow> 's VolumeGetProperty \<Rightarrow> 's VolumeGetProperty" where
  "vget_SetSnapshot snapshot p = p\<lparr>vget_Snapshot := snapshot\<rparr>"

definition vget_IsProplistSet :: "'s VolumeGetProperty \<Rightarrow> bool" where
  "vget_IsProplistSet p = (vget_Proplist p \<noteq> [])"

definition vget_IsDatasetSet :: "'s VolumeGetProperty \<Rightarrow> bool" where
  "vget_IsDatasetSet p = (vget_Dataset p \<noteq> [])"

definition vget_IsSnapshotSet :: "'s VolumeGetProperty \<Rightarrow> bool" where
  "vget_IsSnapshotSet p = (vget_Snapshot p \<noteq> [])"

definition vget_IsScriptedModeSet :: "'s VolumeGetProperty \<Rightarrow> bool" where
  "vget_IsScriptedModeSet p = vget_IsScriptedMode p"

definition vget_IsParsableModeSet :: "'s VolumeGetProperty \<Rightarrow> bool" where
  "vget_IsParsableModeSet p = vget_IsParsableMode p"

definition vget_IsFieldListSet :: "'s VolumeGetProperty \<Rightarrow> bool" where
  "vget_IsFieldListSet p = (vget_FieldList p \<noteq> [])"

definition vget_command :: "'s VolumeGetProperty \<Rightarrow> string" where
  "vget_command p =
     ZFS @
     '' get '' @
     (if vget_IsScriptedModeSet p then '' -H '' else '''') @
     (if vget_IsParsableModeSet p then '' -p '' else '''') @
     (if vget_IsFieldListSet p then '' -o '' @ concat (map (\<lambda>f. f @ '','') (vget_FieldList p)) @ '' '' else '''') @
     (if vget_IsProplistSet p then concat (map (\<lambda>q. q @ '','') (vget_Proplist p)) @ '' '' else '''') @
     vget_Dataset p @
     (if vget_IsSnapshotSet p then ''@'' @ vget_Snapshot p else '''')"

definition vget_Build :: "(string \<Rightarrow> 's VolumeGetProperty \<Rightarrow> bool) \<Rightarrow> 's VolumeGetProperty \<Rightarrow> 's VolumeGetProperty \<times> goerr option" where
  "vget_Build = buildWith vget_command"

definition vget_Execute ::
    "'s executor \<Rightarrow> (string \<Rightarrow> 's VolumeGetProperty \<Rightarrow> bool) \<Rightarrow> 's VolumeGetProperty \<Rightarrow> 's \<Rightarrow> (string \<times> goerr option) \<times> 's" where
  "vget_Execute bash holds p s =
     executeWith (vget_Build holds p) (\<lambda>q s.
       case Executor q of
         Some x \<Rightarrow> x (Command q) s
       | None \<Rightarrow>
           (case bash (Command q) s of
              ((ret, Some e), s') \<Rightarrow> (('''', Some (Wrapf e ''%s'' [AS ret])), s')
            | ((ret, None), s') \<Rightarrow> ((ret, None), s'))) s"

subsection \<open>\<open>VolumeList\<close>, package \<open>zcmd/zfs/list\<close>\<close>

record 's VolumeList = "'s ezcmd" +
  vlist_PropList :: "string list"
  vlist_Dataset :: string
  vlist_IsScriptedMode :: bool
  vlist_IsParsableMode :: bool
  vlist_FieldList :: "string list"

definition NewVolumeList :: "'s VolumeList" where
  "NewVolumeList =
     \<lparr>Command = '''', checks = [], cmd_err = None, Executor = None, vlist_PropList = [],
      vlist_Dataset = '''', vlist_IsScriptedMode = False, vlist_IsParsableMode = False,
      vlist_FieldList = []\<rparr>"

definition vlist_WithProperty :: "string \<Rightarrow> 's VolumeList \<Rightarrow> 's VolumeList" where
  "vlist_WithProperty key p = p\<lparr>vlist_PropList := vlist_PropList p @ [key]\<rparr>"

definition vlist_WithField :: "string \<Rightarrow> 's VolumeList \<Rightarrow> 's VolumeList" where
  "vlist_WithField fld p = p\<lparr>vlist_FieldList := vlist_FieldList p @ [fld]\<rparr>"

definition vlist_WithDataset :: "string \<Rightarrow> 's VolumeList \<Rightarrow> 's VolumeList" where
  "vlist_WithDataset dataset p = p\<lparr>vlist_Dataset := dataset\<rparr>"

definition vlist_WithScriptedMode :: "bool \<Rightarrow> 's VolumeList \<Rightarrow> 's VolumeList" where
  "vlist_WithScriptedMode isscriptedmode p = p\<lparr>vlist_IsScriptedMode := isscriptedmode\<rparr>"

definition vlist_WithParsableMode :: "bool \<Rightarrow> 's VolumeList \<Rightarrow> 's VolumeList" where
  "vlist_WithParsableMode isparsablemode p = p\<lparr>vlist_IsParsableMode := isparsablemode\<rparr>"

definition vlist_IsProplistSet :: "'s VolumeList \<Rightarrow> bool" where
  "vlist_IsProplistSet p = (vlist_PropList p \<noteq> [])"

definition vlist_IsFieldListSet :: "'s VolumeList \<Rightarrow> bool" where
  "vlist_IsFieldListSet p = (vlist_FieldList p \<noteq> [])"

definition vlist_IsScriptedModeSet :: "'s VolumeList \<Rightarrow> bool" where
  "vlist_IsScriptedModeSet p = vlist_IsScriptedMode p"

definition vlist_IsParsableModeSet :: "'s VolumeList \<Rightarrow> bool" where
  "vlist_IsParsableModeSet p = vlist_IsParsableMode p"

definition vlist_IsDatasetSet :: "'s VolumeList \<Rightarrow> bool" where
  "vlist_IsDatasetSet p = (vlist_Dataset p \<noteq> [])"

definition vlist_command :: "'s VolumeList \<Rightarrow> string" where
  "vlist_command p =
     ZFS @
     '' list '' @
     (if vlist_IsScriptedModeSet p then '' -H '' else '''') @
     (if vlist_IsParsableModeSet p then '' -p '' else '''') @
     (if vlist_IsFieldListSet p then '' -o '' @ concat (map (\<lambda>f. f @ '','') (vlist_FieldList p)) @ '' '' else '''') @
     (if vlist_IsProplistSet p then concat (map (\<lambda>q. '' -o '' @ q) (vlist_PropList p)) else '''') @
     (if vlist_IsDatasetSet p then '' '' @ vlist_Dataset p @ '' '' else '''')"

definition vlist_Build :: "(string \<Rightarrow> 's VolumeList \<Rightarrow> bool) \<Rightarrow> 's VolumeList \<Rightarrow> 's VolumeList \<times> goerr option" where
  "vlist_Build = buildWith vlist_command"

definition vlist_Execute ::
    "'s executor \<Rightarrow> (string \<Rightarrow> 's VolumeList \<Rightarrow> bool) \<Rightarrow> 's VolumeList \<Rightarrow> 's \<Rightarrow> (string \<times> goerr option) \<times> 's" where
  "vlist_Execute bash holds p s =
     executeWith (vlist_Build holds p) (\<lambda>q s.
       case runCmd bash q s of
         ((out, Some e), s') \<Rightarrow> (('''', Some (Wrapf e ''%s'' [AS out])), s')
       | ((out, None), s') \<Rightarrow> ((out, None), s')) s"

subsection \<open>\<open>VolumeListSnapshot\<close>, package \<open>zcmd/zfs/listsnap\<close>\<close>

record VolumeListSnapshot = "zcmd" +
  vlistsnap_Dataset :: string

definition NewVolumeListSnapshot :: "VolumeListSnapshot" where
  "NewVolumeListSnapshot =
     \<lparr>Command = '''', checks = [], cmd_err = None, vlistsnap_Dataset = ''''\<rparr>"

definition vlistsnap_WithDataset :: "string \<Rightarrow> VolumeListSnapshot \<Rightarrow> VolumeListSnapshot" where
  "vlistsnap_WithDataset dataset p = p\<lparr>vlistsnap_Dataset := dataset\<rparr>"

definition vlistsnap_IsDatasetSet :: "VolumeListSnapshot \<Rightarrow> bool" where
  "vlistsnap_IsDatasetSet p = (vlistsnap_Dataset p \<noteq> [])"

definition vlistsnap_command :: "VolumeListSnapshot \<Rightarrow> string" where
  "vlistsnap_command p =
     ZFS @
     '' listsnap '' @
     vlistsnap_Dataset p"

definition vlistsnap_Build :: "(string \<Rightarrow> VolumeListSnapshot \<Rightarrow> bool) \<Rightarrow> VolumeListSnapshot \<Rightarrow> VolumeListSnapshot \<times> goerr option" where
  "vlistsnap_Build = buildWith vlistsnap_command"

subsection \<open>\<open>VolumeSnapshotRecv\<close>, package \<open>zcmd/zfs/receive\<close>\<close>

record VolumeSnapshotRecv = "zcmd" +
  vsnapshotrecv_Snapshot :: string
  vsnapshotrecv_Dataset :: string
  vsnapshotrecv_Target :: string
  vsnapshotrecv_LastSnapshot :: string
  vsnapshotrecv_Dedup :: bool
  vsnapshotrecv_DryRun :: bool
  vsnapshotrecv_EnableCompression :: bool

definition NewVolumeSnapshotRecv :: "VolumeSnapshotRecv" where
  "NewVolumeSnapshotRecv =
     \<lparr>Command = '''', checks = [], cmd_err = None, vsnapshotrecv_Snapshot = '''',
      vsnapshotrecv_Dataset = '''', vsnapshotrecv_Target = '''', vsnapshotrecv_LastSnapshot = '''',
      vsnapshotrecv_Dedup = False, vsnapshotrecv_DryRun = False,
      vsnapshotrecv_EnableCompression = False\<rparr>"

definition vsnapshotrecv_WithSnapshot :: "string \<Rightarrow> VolumeSnapshotRecv \<Rightarrow> VolumeSnapshotRecv" where
  "vsnapshotrecv_WithSnapshot snapshot p = p\<lparr>vsnapshotrecv_Snapshot := snapshot\<rparr>"

definition vsnapshotrecv_WithDataset :: "string \<Rightarrow> VolumeSnapshotRecv \<Rightarrow> VolumeSnapshotRecv" where
  "vsnapshotrecv_WithDataset dataset p = p\<lparr>vsnapshotrecv_Dataset := dataset\<rparr>"

definition vsnapshotrecv_WithTarget :: "string \<Rightarrow> VolumeSnapshotRecv \<Rightarrow> VolumeSnapshotRecv" where
  "vsnapshotrecv_WithTarget target p = p\<lparr>vsnapshotrecv_Target := target\<rparr>"

definition vsnapshotrecv_WithDedup :: "bool \<Rightarrow> VolumeSnapshotRecv \<Rightarrow> VolumeSnapshotRecv" where
  "vsnapshotrecv_WithDedup dedup p = p\<lparr>vsnapshotrecv_Dedup := dedup\<rparr>"

definition vsnapshotrecv_WithLastSnapshot :: "string \<Rightarrow> VolumeSnapshotRecv \<Rightarrow> VolumeSnapshotRecv" where
  "vsnapshotrecv_WithLastSnapshot lastsnapshot p = p\<lparr>vsnapshotrecv_LastSnapshot := lastsnapshot\<rparr>"

definition vsnapshotrecv_WithDryRun :: "bool \<Rightarrow> VolumeSnapshotRecv \<Rightarrow> VolumeSnapshotRecv" where
  "vsnapshotrecv_WithDryRun dryrun p = p\<lparr>vsnapshotrecv_DryRun := dryrun\<rparr>"

definition vsnapshotrecv_WithEnableCompression :: "bool \<Rightarrow> VolumeSnapshotRecv \<Rightarrow> VolumeSnapshotRecv" where
  "vsnapshotrecv_WithEnableCompression enablecompression p = p\<lparr>vsnapshotrecv_EnableCompression := enablecompression\<rparr>"

definition vsnapshotrecv_SetSnapshot :: "string \<Rightarrow> VolumeSnapshotRecv \<Rightarrow> VolumeSnapshotRecv" where
  "vsnapshotrecv_SetSnapshot snapshot p = p\<lparr>vsnapshotrecv_Snapshot := snapshot\<rparr>"

definition vsnapshotrecv_SetDataset :: "string \<Rightarrow> VolumeSnapshotRecv \<Rightarrow> VolumeSnapshotRecv" where
  "vsnapshotrecv_SetDataset dataset p = p\<lparr>vsnapshotrecv_Dataset := dataset\<rparr>"

definition vsnapshotrecv_SetTarget :: "string \<Rightarrow> VolumeSnapshotRecv \<Rightarrow> VolumeSnapshotRecv" where
  "vsnapshotrecv_SetTarget target p = p\<lparr>vsnapshotrecv_Target := target\<rparr>"

definition vsnapshotrecv_SetDedup :: "bool \<Rightarrow> VolumeSnapshotRecv \<Rightarrow> VolumeSnapshotRecv" where
  "vsnapshotrecv_SetDedup dedup p = p\<lparr>vsnapshotrecv_Dedup := dedup\<rparr>"

definition vsnapshotrecv_SetLastSnapshot :: "string \<Rightarrow> VolumeSnapshotRecv \<Rightarrow> VolumeSnapshotRecv" where
  "vsnapshotrecv_SetLastSnapshot lastsnapshot p = p\<lparr>vsnapshotrecv_LastSnapshot := lastsnapshot\<rparr>"

definition vsnapshotrecv_SetDryRun :: "bool \<Rightarrow> VolumeSnapshotRecv \<Rightarrow> VolumeSnapshotRecv" where
  "vsnapshotrecv_SetDryRun dryrun p = p\<lparr>vsnapshotrecv_DryRun := dryrun\<rparr>"

definition vsnapshotrecv_SetEnableCompression :: "bool \<Rightarrow> VolumeSnapshotRecv \<Rightarrow> VolumeSnapshotRecv" where
  "vsnapshotrecv_SetEnableCompression enablecompression p = p\<lparr>vsnapshotrecv_EnableCompression := enablecompression\<rparr>"

definition vsnapshotrecv_IsSnapshotSet :: "VolumeSnapshotRecv \<Rightarrow> bool" where
  "vsnapshotrecv_IsSnapshotSet p = (vsnapshotrecv_Snapshot p \<noteq> [])"

definition vsnapshotrecv_IsDatasetSet :: "VolumeSnapshotRecv \<Rightarrow> bool" where
  "vsnapshotrecv_IsDatasetSet p = (vsnapshotrecv_Dataset p \<noteq> [])"

definition vsnapshotrecv_IsTargetSet :: "VolumeSnapshotRecv \<Rightarrow> bool" where
  "vsnapshotrecv_IsTargetSet p = (vsnapshotrecv_Target p \<noteq> [])"

definition vsnapshotrecv_IsDedupSet :: "VolumeSnapshotRecv \<Rightarrow> bool" where
  "vsnapshotrecv_IsDedupSet p = vsnapshotrecv_Dedup p"

definition vsnapshotrecv_IsLastSnapshotSet :: "VolumeSnapshotRecv \<Rightarrow> bool" where
  "vsnapshotrecv_IsLastSnapshotSet p = (vsnapshotrecv_LastSnapshot p \<noteq> [])"

definition vsnapshotrecv_IsDryRunSet :: "VolumeSnapshotRecv \<Rightarrow> bool" where
  "vsnapshotrecv_IsDryRunSet p = vsnapshotrecv_DryRun p"

definition vsnapshotrecv_IsEnableCompressionSet :: "VolumeSnapshotRecv \<Rightarrow> bool" where
  "vsnapshotrecv_IsEnableCompressionSet p = vsnapshotrecv_EnableCompression p"

definition vsnapshotrecv_command :: "VolumeSnapshotRecv \<Rightarrow> string" where
  "vsnapshotrecv_command p =
     ZFS @
     '' receive '' @
     (if vsnapshotrecv_IsDedupSet p then '' -D '' else '''') @
     (if vsnapshotrecv_IsLastSnapshotSet p then '' -i @'' @ vsnapshotrecv_LastSnapshot p @ '' '' else '''') @
     '' '' @
     vsnapshotrecv_Dataset p @
     ''@'' @
     vsnapshotrecv_Snapshot p @
     ''  | nc '' @
     vsnapshotrecv_Target p"

definition vsnapshotrecv_Build :: "(string \<Rightarrow> VolumeSnapshotRecv \<Rightarrow> bool) \<Rightarrow> VolumeSnapshotRecv \<Rightarrow> VolumeSnapshotRecv \<times> goerr option" where
  "vsnapshotrecv_Build = buildWith vsnapshotrecv_command"

definition vsnapshotrecv_Execute ::
    "'s executor \<Rightarrow> (string \<Rightarrow> VolumeSnapshotRecv \<Rightarrow> bool) \<Rightarrow> VolumeSnapshotRecv \<Rightarrow> 's \<Rightarrow> (string \<times> goerr option) \<times> 's" where
  "vsnapshotrecv_Execute bash holds p s = executeWith (vsnapshotrecv_Build holds p) (runBash bash) s"

subsection \<open>\<open>VolumeRename\<close>, package \<open>zcmd/zfs/rename\<close>\<close>

record VolumeRename = "zcmd" +
  vrename_CreateParent :: bool
  vrename_ForceUnmount :: bool
  vrename_Source :: string
  vrename_Dest :: string

definition NewVolumeRename :: "VolumeRename" where
  "NewVolumeRename =
     \<lparr>Command = '''', checks = [], cmd_err = None, vrename_CreateParent = False,
      vrename_ForceUnmount = False, vrename_Source = '''', vrename_Dest = ''''\<rparr>"

definition vrename_WithCreateParent :: "bool \<Rightarrow> VolumeRename \<Rightarrow> VolumeRename" where
  "vrename_WithCreateParent createparent p = p\<lparr>vrename_CreateParent := createparent\<rparr>"

definition vrename_WithForceUnmount :: "bool \<Rightarrow> VolumeRename \<Rightarrow> VolumeRename" where
  "vrename_WithForceUnmount forceunmount p = p\<lparr>vrename_ForceUnmount := forceunmount\<rparr>"

definition vrename_WithSource :: "string \<Rightarrow> VolumeRename \<Rightarrow> VolumeRename" where
  "vrename_WithSource source p = p\<lparr>vrename_Source := source\<rparr>"

definition vrename_WithDest :: "string \<Rightarrow> VolumeRename \<Rightarrow> VolumeRename" where
  "vrename_WithDest dst p = p\<lparr>vrename_Dest := dst\<rparr>"

definition vrename_SetCreateParent :: "bool \<Rightarrow> VolumeRename \<Rightarrow> VolumeRename" where
  "vrename_SetCreateParent createparent p = p\<lparr>vrename_CreateParent := createparent\<rparr>"

definition vrename_SetForceUnmount :: "bool \<Rightarrow> VolumeRename \<Rightarrow> VolumeRename" where
  "vrename_SetForceUnmount forceunmount p = p\<lparr>vrename_ForceUnmount := forceunmount\<rparr>"

definition vrename_SetSource :: "string \<Rightarrow> VolumeRename \<Rightarrow> VolumeRename" where
  "vrename_SetSource source p = p\<lparr>vrename_Source := source\<rparr>"

definition vrename_SetDest :: "string \<Rightarrow> VolumeRename \<Rightarrow> VolumeRename" where
  "vrename_SetDest dst p = p\<lparr>vrename_Dest := dst\<rparr>"

definition vrename_IsCreateParentSet :: "VolumeRename \<Rightarrow> bool" where
  "vrename_IsCreateParentSet p = vrename_CreateParent p"

definition vrename_IsForceUnmountSet :: "VolumeRename \<Rightarrow> bool" where
  "vrename_IsForceUnmountSet p = vrename_ForceUnmount p"

definition vrename_IsSourceSet :: "VolumeRename \<Rightarrow> bool" where
  "vrename_IsSourceSet p = (vrename_Source p \<noteq> [])"

definition vrename_IsDestSet :: "VolumeRename \<Rightarrow> bool" where
  "vrename_IsDestSet p = (vrename_Dest p \<noteq> [])"

definition vrename_command :: "VolumeRename \<Rightarrow> string" where
  "vrename_command p =
     ZFS @
     '' rename '' @
     (if vrename_IsCreateParentSet p then '' p'' else '''') @
     vrename_Source p @
     '' '' @
     vrename_Dest p"

definition vrename_Build :: "(string \<Rightarrow> VolumeRename \<Rightarrow> bool) \<Rightarrow> VolumeRename \<Rightarrow> VolumeRename \<times> goerr option" where
  "vrename_Build = buildWith vrename_command"

definition vrename_Execute ::
    "'s executor \<Rightarrow> (string \<Rightarrow> VolumeRename \<Rightarrow> bool) \<Rightarrow> VolumeRename \<Rightarrow> 's \<Rightarrow> (string \<times> goerr option) \<times> 's" where
  "vrename_Execute bash holds p s = executeWith (vrename_Build holds p) (runBash bash) s"

subsection \<open>\<open>VolumeRollback\<close>, package \<open>zcmd/zfs/rollback\<close>\<close>

record VolumeRollback = "zcmd" +
  vrollback_Destroy :: bool
  vrollback_ForceUnmount :: bool
  vrollback_DestroySnap :: bool
  vrollback_Snapshot :: string

definition NewVolumeRollback :: "VolumeRollback" where
  "NewVolumeRollback =
     \<lparr>Command = '''', checks = [], cmd_err = None, vrollback_Destroy = False,
      vrollback_ForceUnmount = False, vrollback_DestroySnap = False, vrollback_Snapshot = ''''\<rparr>"

definition vrollback_WithDestroy :: "bool \<Rightarrow> VolumeRollback \<Rightarrow> VolumeRollback" where
  "vrollback_WithDestroy destroy p = p\<lparr>vrollback_Destroy := destroy\<rparr>"

definition vrollback_WithForceUnmount :: "bool \<Rightarrow> VolumeRollback \<Rightarrow> VolumeRollback" where
  "vrollback_WithForceUnmount forceunmount p = p\<lparr>vrollback_ForceUnmount := forceunmount\<rparr>"

definition vrollback_WithDestroySnap :: "bool \<Rightarrow> VolumeRollback \<Rightarrow> VolumeRollback" where
  "vrollback_WithDestroySnap destroysnap p = p\<lparr>vrollback_DestroySnap := destroysnap\<rparr>"

definition vrollback_WithSnapshot :: "string \<Rightarrow> VolumeRollback \<Rightarrow> VolumeRollback" where
  "vrollback_WithSnapshot snapshot p = p\<lparr>vrollback_Snapshot := snapshot\<rparr>"

definition vrollback_SetDestroy :: "bool \<Rightarrow> VolumeRollback \<Rightarrow> VolumeRollback" where
  "vrollback_SetDestroy destroy p = p\<lparr>vrollback_Destroy := destroy\<rparr>"

definition vrollback_SetForceUnmount :: "bool \<Rightarrow> VolumeRollback \<Rightarrow> VolumeRollback" where
  "vrollback_SetForceUnmount forceunmount p = p\<lparr>vrollback_ForceUnmount := forceunmount\<rparr>"

definition vrollback_SetDestroySnap :: "bool \<Rightarrow> VolumeRollback \<Rightarrow> VolumeRollback" where
  "vrollback_SetDestroySnap destroysnap p = p\<lparr>vrollback_DestroySnap := destroysnap\<rparr>"

definition vrollback_SetSnapshot :: "string \<Rightarrow> VolumeRollback \<Rightarrow> VolumeRollback" where
  "vrollback_SetSnapshot snapshot p = p\<lparr>vrollback_Snapshot := snapshot\<rparr>"

definition vrollback_IsDestroySet :: "VolumeRollback \<Rightarrow> bool" where
  "vrollback_IsDestroySet p = vrollback_Destroy p"

definition vrollback_IsForceUnmountSet :: "VolumeRollback \<Rightarrow> bool" where
  "vrollback_IsForceUnmountSet p = vrollback_ForceUnmount p"

definition vrollback_IsDestroySnapSet :: "VolumeRollback \<Rightarrow> bool" where
  "vrollback_IsDestroySnapSet p = vrollback_DestroySnap p"

definition vrollback_IsSnapshotSet :: "VolumeRollback \<Rightarrow> bool" where
  "vrollback_IsSnapshotSet p = (vrollback_Snapshot p \<noteq> [])"

definition vrollback_command :: "VolumeRollback \<Rightarrow> string" where
  "vrollback_command p =
     ZFS @
     '' rollback '' @
     (if vrollback_IsDestroySet p then '' -R '' @ (if vrollback_IsForceUnmountSet p then '' -f '' else '''') else '''') @
     (if vrollback_IsDestroySnapSet p then '' -r '' else '''') @
     vrollback_Snapshot p"

definition vrollback_Build :: "(string \<Rightarrow> VolumeRollback \<Rightarrow> bool) \<Rightarrow> VolumeRollback \<Rightarrow> VolumeRollback \<times> goerr option" where
  "vrollback_Build = buildWith vrollback_command"

definition vrollback_Execute ::
    "'s executor \<Rightarrow> (string \<Rightarrow> VolumeRollback \<Rightarrow> bool) \<Rightarrow> VolumeRollback \<Rightarrow> 's \<Rightarrow> (string \<times> goerr option) \<times> 's" where
  "vrollback_Execute bash holds p s = executeWith (vrollback_Build holds p) (runBash bash) s"

subsection \<open>\<open>VolumeSnapshotSend\<close>, package \<open>zcmd/zfs/send\<close>\<close>

record VolumeSnapshotSend = "zcmd" +
  vsnapshotsend_Snapshot :: string
  vsnapshotsend_Dataset :: string
  vsnapshotsend_Target :: string
  vsnapshotsend_LastSnapshot :: string
  vsnapshotsend_Dedup :: bool
  vsnapshotsend_DryRun :: bool
  vsnapshotsend_EnableCompression :: bool

definition NewVolumeSnapshotSend :: "VolumeSnapshotSend" where
  "NewVolumeSnapshotSend =
     \<lparr>Command = '''', checks = [], cmd_err = None, vsnapshotsend_Snapshot = '''',
      vsnapshotsend_Dataset = '''', vsnapshotsend_Target = '''', vsnapshotsend_LastSnapshot = '''',
      vsnapshotsend_Dedup = False, vsnapshotsend_DryRun = False,
      vsnapshotsend_EnableCompression = False\<rparr>"

definition vsnapshotsend_WithSnapshot :: "string \<Rightarrow> VolumeSnapshotSend \<Rightarrow> VolumeSnapshotSend" where
  "vsnapshotsend_WithSnapshot snapshot p = p\<lparr>vsnapshotsend_Snapshot := snapshot\<rparr>"

definition vsnapshotsend_WithDataset :: "string \<Rightarrow> VolumeSnapshotSend \<Rightarrow> VolumeSnapshotSend" where
  "vsnapshotsend_WithDataset dataset p = p\<lparr>vsnapshotsend_Dataset := dataset\<rparr>"

definition vsnapshotsend_WithTarget :: "string \<Rightarrow> VolumeSnapshotSend \<Rightarrow> VolumeSnapshotSend" where
  "vsnapshotsend_WithTarget target p = p\<lparr>vsnapshotsend_Target := target\<rparr>"

definition vsnapshotsend_WithDedup :: "bool \<Rightarrow> VolumeSnapshotSend \<Rightarrow> VolumeSnapshotSend" where
  "vsnapshotsend_WithDedup dedup p = p\<lparr>vsnapshotsend_Dedup := dedup\<rparr>"

definition vsnapshotsend_WithLastSnapshot :: "string \<Rightarrow> VolumeSnapshotSend \<Rightarrow> VolumeSnapshotSend" where
  "vsnapshotsend_WithLastSnapshot lastsnapshot p = p\<lparr>vsnapshotsend_LastSnapshot := lastsnapshot\<rparr>"

definition vsnapshotsend_WithDryRun :: "bool \<Rightarrow> VolumeSnapshotSend \<Rightarrow> VolumeSnapshotSend" where
  "vsnapshotsend_WithDryRun dryrun p = p\<lparr>vsnapshotsend_DryRun := dryrun\<rparr>"

definition vsnapshotsend_WithEnableCompression :: "bool \<Rightarrow> VolumeSnapshotSend \<Rightarrow> VolumeSnapshotSend" where
  "vsnapshotsend_WithEnableCompression enablecompression p = p\<lparr>vsnapshotsend_EnableCompression := enablecompression\<rparr>"

definition vsnapshotsend_SetSnapshot :: "string \<Rightarrow> VolumeSnapshotSend \<Rightarrow> VolumeSnapshotSend" where
  "vsnapshotsend_SetSnapshot snapshot p = p\<lparr>vsnapshotsend_Snapshot := snapshot\<rparr>"

definition vsnapshotsend_SetDataset :: "string \<Rightarrow> VolumeSnapshotSend \<Rightarrow> VolumeSnapshotSend" where
  "vsnapshotsend_SetDataset dataset p = p\<lparr>vsnapshotsend_Dataset := dataset\<rparr>"

definition vsnapshotsend_SetTarget :: "string \<Rightarrow> VolumeSnapshotSend \<Rightarrow> VolumeSnapshotSend" where
  "vsnapshotsend_SetTarget target p = p\<lparr>vsnapshotsend_Target := target\<rparr>"

definition vsnapshotsend_SetDedup :: "bool \<Rightarrow> VolumeSnapshotSend \<Rightarrow> VolumeSnapshotSend" where
  "vsnapshotsend_SetDedup dedup p = p\<lparr>vsnapshotsend_Dedup := dedup\<rparr>"

definition vsnapshotsend_SetLastSnapshot :: "string \<Rightarrow> VolumeSnapshotSend \<Rightarrow> VolumeSnapshotSend" where
  "vsnapshotsend_SetLastSnapshot lastsnapshot p = p\<lparr>vsnapshotsend_LastSnapshot := lastsnapshot\<rparr>"

definition vsnapshotsend_SetDryRun :: "bool \<Rightarrow> VolumeSnapshotSend \<Rightarrow> VolumeSnapshotSend" where
  "vsnapshotsend_SetDryRun dryrun p = p\<lparr>vsnapshotsend_DryRun := dryrun\<rparr>"

definition vsnapshotsend_SetEnableCompression :: "bool \<Rightarrow> VolumeSnapshotSend \<Rightarrow> VolumeSnapshotSend" where
  "vsnapshotsend_SetEnableCompression enablecompression p = p\<lparr>vsnapshotsend_EnableCompression := enablecompression\<rparr>"

definition vsnapshotsend_IsSnapshotSet :: "VolumeSnapshotSend \<Rightarrow> bool" where
  "vsnapshotsend_IsSnapshotSet p = (vsnapshotsend_Snapshot p \<noteq> [])"

definition vsnapshotsend_IsDatasetSet :: "VolumeSnapshotSend \<Rightarrow> bool" where
  "vsnapshotsend_IsDatasetSet p = (vsnapshotsend_Dataset p \<noteq> [])"

definition vsnapshotsend_IsTargetSet :: "VolumeSnapshotSend \<Rightarrow> bool" where
  "vsnapshotsend_IsTargetSet p = (vsnapshotsend_Target p \<noteq> [])"

definition vsnapshotsend_IsDedupSet :: "VolumeSnapshotSend \<Rightarrow> bool" where
  "vsnapshotsend_IsDedupSet p = vsnapshotsend_Dedup p"

definition vsnapshotsend_IsLastSnapshotSet :: "VolumeSnapshotSend \<Rightarrow> bool" where
  "vsnapshotsend_IsLastSnapshotSet p = (vsnapshotsend_LastSnapshot p \<noteq> [])"

definition vsnapshotsend_IsDryRunSet :: "VolumeSnapshotSend \<Rightarrow> bool" where
  "vsnapshotsend_IsDryRunSet p = vsnapshotsend_DryRun p"

definition vsnapshotsend_IsEnableCompressionSet :: "VolumeSnapshotSend \<Rightarrow> bool" where
  "vsnapshotsend_IsEnableCompressionSet p = vsnapshotsend_EnableCompression p"

definition vsnapshotsend_command :: "VolumeSnapshotSend \<Rightarrow> string" where
  "vsnapshotsend_command p =
     ZFS @
     '' send '' @
     (if vsnapshotsend_IsDedupSet p then '' -D '' else '''') @
     (if vsnapshotsend_IsLastSnapshotSet p then '' -i @'' @ vsnapshotsend_LastSnapshot p @ '' '' else '''') @
     '' '' @
     vsnapshotsend_Dataset p @
     ''@'' @
     vsnapshotsend_Snapshot p @
     ''  | nc '' @
     vsnapshotsend_Target p"

definition vsnapshotsend_Build :: "(string \<Rightarrow> VolumeSnapshotSend \<Rightarrow> bool) \<Rightarrow> VolumeSnapshotSend \<Rightarrow> VolumeSnapshotSend \<times> goerr option" where
  "vsnapshotsend_Build = buildWith vsnapshotsend_command"

definition vsnapshotsend_Execute ::
    "'s executor \<Rightarrow> (string \<Rightarrow> VolumeSnapshotSend \<Rightarrow> bool) \<Rightarrow> VolumeSnapshotSend \<Rightarrow> 's \<Rightarrow> (string \<times> goerr option) \<times> 's" where
  "vsnapshotsend_Execute bash holds p s = executeWith (vsnapshotsend_Build holds p) (runBash bash) s"

subsection \<open>\<open>VolumeSetProperty\<close>, package \<open>zcmd/zfs/set\<close>\<close>

record 's VolumeSetProperty = "'s ezcmd" +
  vset_Proplist :: "string list"
  vset_Dataset :: string
  vset_Snapshot :: string

definition NewVolumeSetProperty :: "'s VolumeSetProperty" where
  "NewVolumeSetProperty =
     \<lparr>Command = '''', checks = [], cmd_err = None, Executor = None, vset_Proplist = [], vset_Dataset = '''',
      vset_Snapshot = ''''\<rparr>"

definition vset_WithProperty :: "string \<Rightarrow> string \<Rightarrow> 's VolumeSetProperty \<Rightarrow> 's VolumeSetProperty" where
  "vset_WithProperty key value p = p\<lparr>vset_Proplist := vset_Proplist p @ [key @ ''='' @ value]\<rparr>"

definition vset_WithDataset :: "string \<Rightarrow> 's VolumeSetProperty \<Rightarrow> 's VolumeSetProperty" where
  "vset_WithDataset dataset p = p\<lparr>vset_Dataset := dataset\<rparr>"

definition vset_WithSnapshot :: "string \<Rightarrow> 's VolumeSetProperty \<Rightarrow> 's VolumeSetProperty" where
  "vset_WithSnapshot snapshot p = p\<lparr>vset_Snapshot := snapshot\<rparr>"

definition vset_SetProperty :: "string \<Rightarrow> string \<Rightarrow> 's VolumeSetProperty \<Rightarrow> 's VolumeSetProperty" where
  "vset_SetProperty key value p = p\<lparr>vset_Proplist := vset_Proplist p @ [key @ ''='' @ value]\<rparr>"

definition vset_SetDataset :: "string \<Rightarrow> 's VolumeSetProperty \<Rightarrow> 's VolumeSetProperty" where
  "vset_SetDataset dataset p = p\<lparr>vset_Dataset := dataset\<rparr>"

definition vset_SetSnapshot :: "string \<Rightarrow> 's VolumeSetProperty \<Rightarrow> 's VolumeSetProperty" where
  "vset_SetSnapshot snapshot p = p\<lparr>vset_Snapshot := snapshot\<rparr>"

definition vset_IsProplistSet :: "'s VolumeSetProperty \<Rightarrow> bool" where
  "vset_IsProplistSet p = (vset_Proplist p \<noteq> [])"

definition vset_IsDatasetSet :: "'s VolumeSetProperty \<Rightarrow> bool" where
  "vset_IsDatasetSet p = (vset_Dataset p \<noteq> [])"

definition vset_IsSnapshotSet :: "'s VolumeSetProperty \<Rightarrow> bool" where
  "vset_IsSnapshotSet p = (vset_Snapshot p \<noteq> [])"

definition vset_command :: "'s VolumeSetProperty \<Rightarrow> string" where
  "vset_command p =
     ZFS @
     '' set '' @
     (if vset_IsProplistSet p then concat (map (\<lambda>q. '' '' @ q @ '' '') (vset_Proplist p)) else '''') @
     vset_Dataset p @
     (if vset_IsSnapshotSet p then ''@'' @ vset_Snapshot p else '''')"

definition vset_Build :: "(string \<Rightarrow> 's VolumeSetProperty \<Rightarrow> bool) \<Rightarrow> 's VolumeSetProperty \<Rightarrow> 's VolumeSetProperty \<times> goerr option" where
  "vset_Build = buildWith vset_command"

definition vset_Execute ::
    "'s executor \<Rightarrow> (string \<Rightarrow> 's VolumeSetProperty \<Rightarrow> bool) \<Rightarrow> 's VolumeSetProperty \<Rightarrow> 's \<Rightarrow> (string \<times> goerr option) \<times> 's" where
  "vset_Execute bash holds p s = executeWith (vset_Build holds p) (runCmd bash) s"

subsection \<open>\<open>VolumeSnapshot\<close>, package \<open>zcmd/zfs/snapshot\<close>\<close>

record VolumeSnapshot = "zcmd" +
  vsnapshot_Property :: "string list"
  vsnapshot_Snapshot :: string
  vsnapshot_Dataset :: string
  vsnapshot_Recursive :: bool

definition NewVolumeSnapshot :: "VolumeSnapshot" where
  "NewVolumeSnapshot =
     \<lparr>Command = '''', checks = [], cmd_err = None, vsnapshot_Property = [], vsnapshot_Snapshot = '''',
      vsnapshot_Dataset = '''', vsnapshot_Recursive = False\<rparr>"

definition vsnapshot_WithProperty :: "string \<Rightarrow> string \<Rightarrow> VolumeSnapshot \<Rightarrow> VolumeSnapshot" where
  "vsnapshot_WithProperty key value p = p\<lparr>vsnapshot_Property := vsnapshot_Property p @ [key @ ''='' @ value]\<rparr>"

definition vsnapshot_WithRecursive :: "bool \<Rightarrow> VolumeSnapshot \<Rightarrow> VolumeSnapshot" where
  "vsnapshot_WithRecursive recursive p = p\<lparr>vsnapshot_Recursive := recursive\<rparr>"

definition vsnapshot_WithSnapshot :: "string \<Rightarrow> VolumeSnapshot \<Rightarrow> VolumeSnapshot" where
  "vsnapshot_WithSnapshot snapshot p = p\<lparr>vsnapshot_Snapshot := snapshot\<rparr>"

definition vsnapshot_WithDataset :: "string \<Rightarrow> VolumeSnapshot \<Rightarrow> VolumeSnapshot" where
  "vsnapshot_WithDataset dataset p = p\<lparr>vsnapshot_Dataset := dataset\<rparr>"

definition vsnapshot_SetProperty :: "string \<Rightarrow> string \<Rightarrow> VolumeSnapshot \<Rightarrow> VolumeSnapshot" where
  "vsnapshot_SetProperty key value p = p\<lparr>vsnapshot_Property := vsnapshot_Property p @ [key @ ''='' @ value]\<rparr>"

definition vsnapshot_SetRecursive :: "bool \<Rightarrow> VolumeSnapshot \<Rightarrow> VolumeSnapshot" where
  "vsnapshot_SetRecursive recursive p = p\<lparr>vsnapshot_Recursive := recursive\<rparr>"

definition vsnapshot_SetSnapshot :: "string \<Rightarrow> VolumeSnapshot \<Rightarrow> VolumeSnapshot" where
  "vsnapshot_SetSnapshot snapshot p = p\<lparr>vsnapshot_Snapshot := snapshot\<rparr>"

definition vsnapshot_SetDataset :: "string \<Rightarrow> VolumeSnapshot \<Rightarrow> VolumeSnapshot" where
  "vsnapshot_SetDataset dataset p = p\<lparr>vsnapshot_Dataset := dataset\<rparr>"

definition vsnapshot_IsPropertySet :: "VolumeSnapshot \<Rightarrow> bool" where
  "vsnapshot_IsPropertySet p = (vsnapshot_Property p \<noteq> [])"

definition vsnapshot_IsRecursiveSet :: "VolumeSnapshot \<Rightarrow> bool" where
  "vsnapshot_IsRecursiveSet p = vsnapshot_Recursive p"

definition vsnapshot_IsSnapshotSet :: "VolumeSnapshot \<Rightarrow> bool" where
  "vsnapshot_IsSnapshotSet p = (vsnapshot_Snapshot p \<noteq> [])"

definition vsnapshot_IsDatasetSet :: "VolumeSnapshot \<Rightarrow> bool" where
  "vsnapshot_IsDatasetSet p = (vsnapshot_Dataset p \<noteq> [])"

definition vsnapshot_command :: "VolumeSnapshot \<Rightarrow> string" where
  "vsnapshot_command p =
     ZFS @
     '' snapshot '' @
     (if vsnapshot_IsRecursiveSet p then '' -r '' else '''') @
     (if vsnapshot_IsPropertySet p then concat (map (\<lambda>q. '' -o '' @ q) (vsnapshot_Property p)) else '''') @
     '' '' @
     vsnapshot_Dataset p @
     ''@'' @
     vsnapshot_Snapshot p @
     '' ''"

definition vsnapshot_Build :: "(string \<Rightarrow> VolumeSnapshot \<Rightarrow> bool) \<Rightarrow> VolumeSnapshot \<Rightarrow> VolumeSnapshot \<times> goerr option" where
  "vsnapshot_Build = buildWith vsnapshot_command"

definition vsnapshot_Execute ::
    "'s executor \<Rightarrow> (string \<Rightarrow> VolumeSnapshot \<Rightarrow> bool) \<Rightarrow> VolumeSnapshot \<Rightarrow> 's \<Rightarrow> (string \<times> goerr option) \<times> 's" where
  "vsnapshot_Execute bash holds p s = executeWith (vsnapshot_Build holds p) (runBash bash) s"

subsection \<open>\<open>VolumeStats\<close>, package \<open>zcmd/zfs/stats\<close>\<close>

record 's VolumeStats = "'s ezcmd" +
  vstats_Proplist :: "string list"
  vstats_Dataset :: string

definition NewVolumeStats :: "'s VolumeStats" where
  "NewVolumeStats =
     \<lparr>Command = '''', checks = [], cmd_err = None, Executor = None, vstats_Proplist = [],
      vstats_Dataset = ''''\<rparr>"

definition vstats_WithProperty :: "string \<Rightarrow> 's VolumeStats \<Rightarrow> 's VolumeStats" where
  "vstats_WithProperty key p = p\<lparr>vstats_Proplist := vstats_Proplist p @ [key]\<rparr>"

definition vstats_WithDataset :: "string \<Rightarrow> 's VolumeStats \<Rightarrow> 's VolumeStats" where
  "vstats_WithDataset dataset p = p\<lparr>vstats_Dataset := dataset\<rparr>"

definition vstats_IsProplistSet :: "'s VolumeStats \<Rightarrow> bool" where
  "vstats_IsProplistSet p = (vstats_Proplist p \<noteq> [])"

definition vstats_IsDatasetSet :: "'s VolumeStats \<Rightarrow> bool" where
  "vstats_IsDatasetSet p = (vstats_Dataset p \<noteq> [])"

definition vstats_command :: "'s VolumeStats \<Rightarrow> string" where
  "vstats_command p =
     ZFS @
     '' stats '' @
     (if vstats_IsProplistSet p then concat (map (\<lambda>q. '' -o '' @ q) (vstats_Proplist p)) else '''') @
     (if vstats_IsDatasetSet p then '' '' @ vstats_Dataset p @ '' '' else '''')"

definition vstats_Build :: "(string \<Rightarrow> 's VolumeStats \<Rightarrow> bool) \<Rightarrow> 's VolumeStats \<Rightarrow> 's VolumeStats \<times> goerr option" where
  "vstats_Build = buildWith vstats_command"

section \<open>The words of the commands\<close>

text \<open>
  For each builder the words it is meant to pass to \<open>zfs\<close>, and the field values for which it does.
  The two builders that pipe into \<open>nc\<close> write more than one command and have no such
  specification. A dry run of \<open>destroy\<close> without \<open>-R\<close> and a rename that creates parents are
  excluded: there the flag is not followed by a blank.
\<close>

definition vclone_argv :: "VolumeClone \<Rightarrow> string list" where
  "vclone_argv p =
     [''zfs'', ''clone'', vclone_SourceDataset p @ ''@'' @ vclone_Snapshot p, vclone_TargetDataset p]"

definition vclone_clean :: "VolumeClone \<Rightarrow> bool" where
  "vclone_clean p = (word (vclone_SourceDataset p) \<and> word (vclone_Snapshot p) \<and> word (vclone_TargetDataset p))"

definition vcreate_argv :: "VolumeCreate \<Rightarrow> string list" where
  "vcreate_argv p =
     [''zfs'', ''create'', ''-V'', vcreate_Size p] @ (if vcreate_Reservation p then [] else [''-s'']) @
     (if vcreate_BlockSize p = '''' then [] else [''-b'', vcreate_BlockSize p]) @
     concat (map (\<lambda>v. [''-o'', v]) (vcreate_Property p)) @ [vcreate_Name p]"

definition vcreate_clean :: "VolumeCreate \<Rightarrow> bool" where
  "vcreate_clean p = (word (vcreate_Size p) \<and> optWord (vcreate_BlockSize p) \<and> list_all word (vcreate_Property p) \<and> word (vcreate_Name p))"

definition vdestroy_argv :: "VolumeDestroy \<Rightarrow> string list" where
  "vdestroy_argv p =
     [''zfs'', ''destroy''] @ (if vdestroy_DryRun p then [''-n''] else []) @ (if vdestroy_Recursive p then [''-R''] else []) @ [vdestroy_Name p]"

definition vdestroy_clean :: "VolumeDestroy \<Rightarrow> bool" where
  "vdestroy_clean p = ((vdestroy_DryRun p \<longrightarrow> vdestroy_Recursive p) \<and> word (vdestroy_Name p))"

definition vget_argv :: "'s VolumeGetProperty \<Rightarrow> string list" where
  "vget_argv p =
     [''zfs'', ''get''] @ (if vget_IsScriptedMode p then [''-H''] else []) @ (if vget_IsParsableMode p then [''-p''] else []) @
     (if vget_FieldList p = [] then [] else [''-o'', concat (map (\<lambda>f. f @ '','') (vget_FieldList p))]) @
     (if vget_Proplist p = [] then [] else [concat (map (\<lambda>f. f @ '','') (vget_Proplist p))]) @
     [vget_Dataset p @ (if vget_Snapshot p = '''' then '''' else ''@'' @ vget_Snapshot p)]"

definition vget_clean :: "'s VolumeGetProperty \<Rightarrow> bool" where
  "vget_clean p = (list_all word (vget_FieldList p) \<and> list_all word (vget_Proplist p) \<and> word (vget_Dataset p) \<and> optWord (vget_Snapshot p))"

definition vlist_argv :: "'s VolumeList \<Rightarrow> string list" where
  "vlist_argv p =
     [''zfs'', ''list''] @ (if vlist_IsScriptedMode p then [''-H''] else []) @ (if vlist_IsParsableMode p then [''-p''] else []) @
     (if vlist_FieldList p = [] then [] else [''-o'', concat (map (\<lambda>f. f @ '','') (vlist_FieldList p))]) @
     concat (map (\<lambda>v. [''-o'', v]) (vlist_PropList p)) @ (if vlist_Dataset p = '''' then [] else [vlist_Dataset p])"

definition vlist_clean :: "'s VolumeList \<Rightarrow> bool" where
  "vlist_clean p = (list_all word (vlist_FieldList p) \<and> list_all word (vlist_PropList p) \<and> optWord (vlist_Dataset p))"

definition vlistsnap_argv :: "VolumeListSnapshot \<Rightarrow> string list" where
  "vlistsnap_argv p =
     [''zfs'', ''listsnap'', vlistsnap_Dataset p]"

definition vlistsnap_clean :: "VolumeListSnapshot \<Rightarrow> bool" where
  "vlistsnap_clean p = (word (vlistsnap_Dataset p))"

definition vrename_argv :: "VolumeRename \<Rightarrow> string list" where
  "vrename_argv p =
     [''zfs'', ''rename'', vrename_Source p, vrename_Dest p]"

definition vrename_clean :: "VolumeRename \<Rightarrow> bool" where
  "vrename_clean p = (\<not> vrename_CreateParent p \<and> word (vrename_Source p) \<and> word (vrename_Dest p))"

definition vrollback_argv :: "VolumeRollback \<Rightarrow> string list" where
  "vrollback_argv p =
     [''zfs'', ''rollback''] @ (if vrollback_Destroy p then [''-R''] else []) @ (if vrollback_Destroy p \<and> vrollback_ForceUnmount p then [''-f''] else []) @
     (if vrollback_DestroySnap p then [''-r''] else []) @ [vrollback_Snapshot p]"

definition vrollback_clean :: "VolumeRollback \<Rightarrow> bool" where
  "vrollback_clean p = (word (vrollback_Snapshot p))"

definition vset_argv :: "'s VolumeSetProperty \<Rightarrow> string list" where
  "vset_argv p =
     [''zfs'', ''set''] @ vset_Proplist p @ [vset_Dataset p @ (if vset_Snapshot p = '''' then '''' else ''@'' @ vset_Snapshot p)]"

definition vset_clean :: "'s VolumeSetProperty \<Rightarrow> bool" where
  "vset_clean p = (list_all word (vset_Proplist p) \<and> word (vset_Dataset p) \<and> optWord (vset_Snapshot p))"

definition vsnapshot_argv :: "VolumeSnapshot \<Rightarrow> string list" where
  "vsnapshot_argv p =
     [''zfs'', ''snapshot''] @ (if vsnapshot_Recursive p then [''-r''] else []) @ concat (map (\<lambda>v. [''-o'', v]) (vsnapshot_Property p)) @
     [vsnapshot_Dataset p @ ''@'' @ vsnapshot_Snapshot p]"

definition vsnapshot_clean :: "VolumeSnapshot \<Rightarrow> bool" where
  "vsnapshot_clean p = (list_all word (vsnapshot_Property p) \<and> word (vsnapshot_Dataset p) \<and> word (vsnapshot_Snapshot p))"

definition vstats_argv :: "'s VolumeStats \<Rightarrow> string list" where
  "vstats_argv p =
     [''zfs'', ''stats''] @ concat (map (\<lambda>v. [''-o'', v]) (vstats_Proplist p)) @ (if vstats_Dataset p = '''' then [] else [vstats_Dataset p])"

definition vstats_clean :: "'s VolumeStats \<Rightarrow> bool" where
  "vstats_clean p = (list_all word (vstats_Proplist p) \<and> optWord (vstats_Dataset p))"

interpretation vclone: command_builder vclone_command vclone_argv vclone_clean
proof
  fix p :: "VolumeClone"
  assume clean: "vclone_clean p"
  show "plain (vclone_command p)"
    using clean by (simp add: vclone_command_def vclone_clean_def cmd_plain)
  show "Fields (vclone_command p) = vclone_argv p"
    using clean by (simp add: vclone_command_def vclone_clean_def vclone_argv_def  cmd_words)
qed

interpretation vcreate: command_builder vcreate_command vcreate_argv vcreate_clean
proof
  fix p :: "VolumeCreate"
  assume clean: "vcreate_clean p"
  show "plain (vcreate_command p)"
    using clean by (simp add: vcreate_command_def vcreate_clean_def cmd_plain)
  show "Fields (vcreate_command p) = vcreate_argv p"
    using clean by (simp add: vcreate_command_def vcreate_clean_def vcreate_argv_def vcreate_IsBlockSizeSet_def vcreate_IsPropertySet_def vcreate_IsReservationSet_def cmd_words)
qed

interpretation vdestroy: command_builder vdestroy_command vdestroy_argv vdestroy_clean
proof
  fix p :: "VolumeDestroy"
  assume clean: "vdestroy_clean p"
  show "plain (vdestroy_command p)"
    using clean by (simp add: vdestroy_command_def vdestroy_clean_def cmd_plain)
  show "Fields (vdestroy_command p) = vdestroy_argv p"
    using clean by (simp add: vdestroy_command_def vdestroy_clean_def vdestroy_argv_def vdestroy_IsDryRunSet_def vdestroy_IsRecursiveSet_def cmd_words)
qed

interpretation vget: command_builder vget_command vget_argv vget_clean
proof
  fix p :: "'s VolumeGetProperty"
  assume clean: "vget_clean p"
  show "plain (vget_command p)"
    using clean by (simp add: vget_command_def vget_clean_def cmd_plain)
  show "Fields (vget_command p) = vget_argv p"
    using clean by (simp add: vget_command_def vget_clean_def vget_argv_def vget_IsProplistSet_def vget_IsSnapshotSet_def vget_IsScriptedModeSet_def vget_IsParsableModeSet_def vget_IsFieldListSet_def cmd_words)
qed

interpretation vlist: command_builder vlist_command vlist_argv vlist_clean
proof
  fix p :: "'s VolumeList"
  assume clean: "vlist_clean p"
  show "plain (vlist_command p)"
    using clean by (simp add: vlist_command_def vlist_clean_def cmd_plain)
  show "Fields (vlist_command p) = vlist_argv p"
    using clean by (simp add: vlist_command_def vlist_clean_def vlist_argv_def vlist_IsProplistSet_def vlist_IsFieldListSet_def vlist_IsScriptedModeSet_def vlist_IsParsableModeSet_def vlist_IsDatasetSet_def cmd_words)
qed

interpretation vlistsnap: command_builder vlistsnap_command vlistsnap_argv vlistsnap_clean
proof
  fix p :: "VolumeListSnapshot"
  assume clean: "vlistsnap_clean p"
  show "plain (vlistsnap_command p)"
    using clean by (simp add: vlistsnap_command_def vlistsnap_clean_def cmd_plain)
  show "Fields (vlistsnap_command p) = vlistsnap_argv p"
    using clean by (simp add: vlistsnap_command_def vlistsnap_clean_def vlistsnap_argv_def  cmd_words)
qed

interpretation vrename: command_builder vrename_command vrename_argv vrename_clean
proof
  fix p :: "VolumeRename"
  assume clean: "vrename_clean p"
  show "plain (vrename_command p)"
    using clean by (simp add: vrename_command_def vrename_clean_def cmd_plain)
  show "Fields (vrename_command p) = vrename_argv p"
    using clean by (simp add: vrename_command_def vrename_clean_def vrename_argv_def vrename_IsCreateParentSet_def cmd_words)
qed

interpretation vrollback: command_builder vrollback_command vrollback_argv vrollback_clean
proof
  fix p :: "VolumeRollback"
  assume clean: "vrollback_clean p"
  show "plain (vrollback_command p)"
    using clean by (simp add: vrollback_command_def vrollback_clean_def cmd_plain)
  show "Fields (vrollback_command p) = vrollback_argv p"
    using clean by (simp add: vrollback_command_def vrollback_clean_def vrollback_argv_def vrollback_IsDestroySet_def vrollback_IsForceUnmountSet_def vrollback_IsDestroySnapSet_def cmd_words)
qed

interpretation vset: command_builder vset_command vset_argv vset_clean
proof
  fix p :: "'s VolumeSetProperty"
  assume clean: "vset_clean p"
  show "plain (vset_command p)"
    using clean by (simp add: vset_command_def vset_clean_def cmd_plain)
  show "Fields (vset_command p) = vset_argv p"
    using clean by (simp add: vset_command_def vset_clean_def vset_argv_def vset_IsProplistSet_def vset_IsSnapshotSet_def cmd_words)
qed

interpretation vsnapshot: command_builder vsnapshot_command vsnapshot_argv vsnapshot_clean
proof
  fix p :: "VolumeSnapshot"
  assume clean: "vsnapshot_clean p"
  show "plain (vsnapshot_command p)"
    using clean by (simp add: vsnapshot_command_def vsnapshot_clean_def cmd_plain)
  show "Fields (vsnapshot_command p) = vsnapshot_argv p"
    using clean by (simp add: vsnapshot_command_def vsnapshot_clean_def vsnapshot_argv_def vsnapshot_IsPropertySet_def vsnapshot_IsRecursiveSet_def cmd_words)
qed

interpretation vstats: command_builder vstats_command vstats_argv vstats_clean
proof
  fix p :: "'s VolumeStats"
  assume clean: "vstats_clean p"
  show "plain (vstats_command p)"
    using clean by (simp add: vstats_command_def vstats_clean_def cmd_plain)
  show "Fields (vstats_command p) = vstats_argv p"
    using clean by (simp add: vstats_command_def vstats_clean_def vstats_argv_def vstats_IsProplistSet_def vstats_IsDatasetSet_def cmd_words)
qed

section \<open>Commands with decoded output\<close>

text \<open>The JSON decoder is a parameter; \<open>zfs listsnap\<close> and \<open>zfs stats\<close> print JSON.\<close>

record SnapshotList =
  sl_Name :: string
  SnapList :: gomap

record Stats =
  zs_Name :: string
  zs_Status :: string
  zs_RebuildStatus :: string
  zs_IsIOAckSenderCreated :: int
  zs_IsIOReceiverCreated :: int
  zs_RunningIONum :: int
  zs_CheckpointedIONum :: int
  zs_DegradedCheckpointedIONum :: int
  zs_CheckpointedTime :: int
  zs_RebuildBytes :: int
  zs_RebuildCnt :: int
  zs_RebuildDoneCnt :: int
  zs_RebuildFailedCnt :: int
  zs_Quorum :: int

type_synonym ZFSStats = "Stats list"

definition vlistsnap_Execute ::
    "'s executor \<Rightarrow> (string \<Rightarrow> SnapshotList res) \<Rightarrow> (string \<Rightarrow> VolumeListSnapshot \<Rightarrow> bool) \<Rightarrow> VolumeListSnapshot \<Rightarrow> 's \<Rightarrow> SnapshotList res \<times> 's" where
  "vlistsnap_Execute bash unmarshal holds p s =
     (case vlistsnap_Build holds p of
        (q, Some e) \<Rightarrow> (Err e, s)
      | (q, None) \<Rightarrow>
          (case bash (Command q) s of
             ((ret, Some e), s') \<Rightarrow> (Err (Errorf ''Output: %s Error: %s'' [AS ret, AE e]), s')
           | ((ret, None), s') \<Rightarrow> (unmarshal ret, s')))"

definition vstats_Execute ::
    "'s executor \<Rightarrow> (string \<Rightarrow> ZFSStats res) \<Rightarrow> (string \<Rightarrow> 's VolumeStats \<Rightarrow> bool) \<Rightarrow> 's VolumeStats \<Rightarrow> 's \<Rightarrow> ZFSStats res \<times> 's" where
  "vstats_Execute bash unmarshal holds p s =
     (case vstats_Build holds p of
        (q, Some e) \<Rightarrow> (Err e, s)
      | (q, None) \<Rightarrow>
          (case runCmd bash q s of
             ((out, Some e), s') \<Rightarrow> (Err (Wrapf e ''%s'' [AS out]), s')
           | ((out, None), s') \<Rightarrow> (wrapR (unmarshal out) ''failed to unmarshal %s'' [AS out], s')))"

section \<open>Properties\<close>

lemma dry_run_joined:
  assumes "word n"
  shows "shellWords (vdestroy_command (vdestroy_WithName n (vdestroy_WithDryRun True NewVolumeDestroy))) =
           Some [''zfs'', ''destroy'', ''-n'' @ n]"
proof -
  have n: "word (''-n'' @ n)" using assms by (simp add: word_def shellMeta_def isSpace_def)
  have "vdestroy_command (vdestroy_WithName n (vdestroy_WithDryRun True NewVolumeDestroy)) = ''zfs destroy  '' @ (''-n'' @ n)"
    by (simp add: vdestroy_command_def NewVolumeDestroy_def vdestroy_WithName_def vdestroy_WithDryRun_def
        vdestroy_IsDryRunSet_def vdestroy_IsRecursiveSet_def ZFS_def)
  then show ?thesis
    using shellWords_then_word [OF n, of "''zfs destroy  ''"]
    by (simp only:) (simp add: spaceEnded_def cmd_plain isSpace_def)
qed

lemma create_parent_joined:
  assumes "word n" and "word d"
  shows "shellWords (vrename_command (vrename_WithDest d (vrename_WithSource n (vrename_WithCreateParent True NewVolumeRename)))) =
           Some [''zfs'', ''rename'', ''p'' @ n, d]"
proof -
  have p: "word (''p'' @ n)" using assms by (simp add: word_def shellMeta_def isSpace_def)
  have "vrename_command (vrename_WithDest d (vrename_WithSource n (vrename_WithCreateParent True NewVolumeRename))) =
        (''zfs rename  '' @ (''p'' @ n) @ '' '') @ d"
    by (simp add: vrename_command_def NewVolumeRename_def vrename_WithDest_def vrename_WithSource_def
        vrename_WithCreateParent_def vrename_IsCreateParentSet_def ZFS_def)
  moreover have "plain (''zfs rename  '' @ (''p'' @ n) @ '' '')" "spaceEnded (''zfs rename  '' @ (''p'' @ n) @ '' '')"
    using plain_word [OF p] by (simp_all add: cmd_plain spaceEnded_def)
  moreover have "Fields (''zfs rename  '' @ (''p'' @ n) @ '' '') = [''zfs'', ''rename'', ''p'' @ n]"
    using Fields_append_spaceEnded [of "''zfs rename  ''" "(''p'' @ n) @ '' ''"]
      Fields_append_spaceLed [of "'' ''" "''p'' @ n"] Fields_word [OF p]
    by (simp only:) (simp add: spaceEnded_def spaceLed_def isSpace_def)
  ultimately show ?thesis
    using shellWords_then_word [OF assms(2), of "''zfs rename  '' @ (''p'' @ n) @ '' ''"]
    by (simp only:) simp
qed

text \<open>
  A dry run of \<open>zfs destroy\<close> that is not recursive, and a rename that creates parents, write
  their flag without a blank after it: the program receives the flag and the dataset as one
  word, and for the rename the flag has no dash either.
\<close>

theorem flags_joined_with_names:
  assumes "word n" and "word d"
  shows "shellWords (vdestroy_command (vdestroy_WithName n (vdestroy_WithDryRun True NewVolumeDestroy))) =
           Some [''zfs'', ''destroy'', ''-n'' @ n] \<and>
         shellWords (vrename_command (vrename_WithDest d (vrename_WithSource n (vrename_WithCreateParent True NewVolumeRename)))) =
           Some [''zfs'', ''rename'', ''p'' @ n, d]"
  using dry_run_joined [OF assms(1)] create_parent_joined [OF assms] by (rule conjI)

theorem flags_joined_with_names_witness:
  "shellWords (vdestroy_command (vdestroy_WithName ''cstor-p/v'' (vdestroy_WithDryRun True NewVolumeDestroy))) =
     Some [''zfs'', ''destroy'', ''-ncstor-p/v'']"
proof -
  have "word ''cstor-p/v''" by code_simp
  from conjunct1 [OF flags_joined_with_names [OF this this]] show ?thesis by simp
qed

end
