(* ===== verification/PoolManager.thy ===== *)
theory PoolManager
  imports PoolTopology ZfsCmd Conditions
begin

text \<open>
  The pool manager's libraries: \<open>pkg/pool/operations\<close> (create, import, modify, delete and query
  the zpool of a pool instance) and the parts of \<open>pkg/volumereplica/volumereplica.go\<close> and
  \<open>pkg/pool/pool.go\<close> they call. Commands go to bash on the node, objects to the API server; both
  are one world \<open>'s\<close>. The package variables of the process (\<open>common.SyncResources.IsImported\<close>,
  \<open>common.InitialImportedPoolVol\<close>, the property cache \<open>ds\<close>) are the other fields of the state.
\<close>

section \<open>Parameters and state\<close>

text \<open>
  What the pool manager calls outside the repository, beside the API server \<open>api\<close>: bash and the
  command runner, JSON decoding, methods and constants of \<open>github.com/openebs/api\<close>, and the
  rendering of messages, which no branch looks at. \<open>rangeRaid\<close> is the order in which a \<open>range\<close>
  loop over the map of raid group configurations visits its two keys, in a given state.
\<close>

record 's penv =
  api :: "'s env"
  bash :: "'s executor"
  RunStdoutPipe :: "string \<Rightarrow> string list \<Rightarrow> 's \<Rightarrow> (string \<times> goerr option) \<times> 's"
  cspi_get :: "'s \<Rightarrow> string \<Rightarrow> string \<Rightarrow> CStorPoolInstance res"
  unmarshalTopology :: "string \<Rightarrow> Topology res"
  unmarshalStats :: "string \<Rightarrow> ZFSStats res"
  spareCap :: "string \<Rightarrow> nat"
  GetVdevFromPath :: "Vdev list \<Rightarrow> string \<Rightarrow> Vdev option"
  GetBlockDeviceClaimFromBDName :: "BlockDeviceClaim list \<Rightarrow> string \<Rightarrow> BlockDeviceClaim res"
  QuantityValue :: "Quantity \<Rightarrow> 64 word"
  GetAllRaidGroups :: "CStorPoolInstance \<Rightarrow> RaidGroup list"
  IsDestroyed :: "CStorPoolInstance \<Rightarrow> bool"
  IsEmptyStatus :: "CStorPoolInstance \<Rightarrow> bool"
  IsPendingStatus :: "CStorPoolInstance \<Rightarrow> bool"
  HasAnnotation :: "CStorPoolInstance \<Rightarrow> string \<Rightarrow> string \<Rightarrow> bool"
  Sprintf :: "string \<Rightarrow> goarg list \<Rightarrow> string"
  rangeRaid :: "'s \<Rightarrow> string list"
  GetEnvNamespace :: string
  poolNameEnv :: string
  cspiIdEnv :: string
  zfsGetErrorInjected :: bool
  CStorPoolBasePath :: string
  CacheFileName :: string
  OpenEBSCStorExistingPoolName :: string
  VdevScanProcessedIndex :: nat
  VdevStateIndex :: nat
  VdevScanStatsStateIndex :: nat
  VdevScanStatsScanFuncIndex :: nat
  PoolScanFinished :: "64 word"
  PoolScanFuncResilver :: "64 word"
  VdevStateHealthy :: "64 word"
  CSPIPoolExpansion :: string
  CSPIDiskReplacement :: string
  CSPIPoolLost :: string
  CSPIDiskUnavailable :: string
  CStorPoolStatusDeletionFailed :: string
  CStorPoolStatusPending :: string
  CStorPoolStatusOffline :: string

record 's pm =
  world :: 's
  IsImported :: bool
  InitialImportedPoolVol :: "string list"
  fsCache :: "(string \<times> gomap) list"

text \<open>Actions on the world, and commands with output and error, as actions of the pool manager.\<close>

definition onWorld :: "('s, 'a) act \<Rightarrow> ('s pm, 'a) act" where
  "onWorld m p = (case m (world p) of (r, w) \<Rightarrow> (r, p\<lparr>world := w\<rparr>))"

definition readW :: "('s \<Rightarrow> 'a res) \<Rightarrow> ('s pm, 'a) act" where
  "readW f = readS (\<lambda>p. f (world p))"

definition runZ :: "('s \<Rightarrow> (string \<times> goerr option) \<times> 's) \<Rightarrow> ('s pm, string \<times> goerr option) act" where
  "runZ m p = (case m (world p) of (r, w) \<Rightarrow> (Ok r, p\<lparr>world := w\<rparr>))"

text \<open>No caller of the builders adds a check.\<close>

definition noChecks :: "string \<Rightarrow> 'p \<Rightarrow> bool" where
  "noChecks check p = True"

definition ErrorWrapf :: "goerr option \<Rightarrow> string \<Rightarrow> goarg list \<Rightarrow> goerr" where
  "ErrorWrapf err f a = (case err of None \<Rightarrow> Errorf f a | Some e \<Rightarrow> Wrapf e f a)"

definition failOpt :: "goerr option \<Rightarrow> ('s, unit) act" where
  "failOpt e = (case e of None \<Rightarrow> returnS () | Some e \<Rightarrow> failS e)"

record 's OperationsConfig =
  zcmdExecutor :: "'s executor"

definition PoolName :: "'s penv \<Rightarrow> string" where
  "PoolName P = ''cstor-'' @ poolNameEnv P"

definition IsEmpty :: "string \<Rightarrow> bool" where
  "IsEmpty s = (length s = 0)"

section \<open>Paths of block devices\<close>

definition getZFSDeviceType :: "string \<Rightarrow> string" where
  "getZFSDeviceType dType = (if dType = ''data'' then '''' else dType)"

definition getPathForBDevFromBlockDevice :: "BlockDevice \<Rightarrow> string list" where
  "getPathForBDevFromBlockDevice bd = concat (bd_DevLinks bd) @ (if bd_Path bd \<noteq> '''' then [bd_Path bd] else [])"

definition getPathForBDev :: "'s penv \<Rightarrow> string \<Rightarrow> ('s pm, string list) act" where
  "getPathForBDev P bdev =
     readW (\<lambda>w. bindR (bd_get (api P) w (GetEnvNamespace P) bdev) (\<lambda>bd. Ok (getPathForBDevFromBlockDevice bd)))"

text \<open>
  The paths of the devices of a group, with the errors met on the way. A device without any path
  makes the loop read the message of a nil error.
\<close>

fun pathListLoop ::
    "'s penv \<Rightarrow> CStorPoolInstanceBlockDevice list \<Rightarrow> (string \<times> string list) list \<Rightarrow> goerr option \<Rightarrow>
     ('s pm, (string \<times> string list) list \<times> goerr option) act" where
  "pathListLoop P [] vdev err = returnS (vdev, err)"
| "pathListLoop P (b # bs) vdev err =
     bindS (attemptS (getPathForBDev P (BlockDeviceName b))) (\<lambda>r.
       case r of
         Err er \<Rightarrow>
           pathListLoop P bs vdev
             (Some (ErrorWrapf err ''Failed to fetch path for bdev {%s} {%s}'' [AS (BlockDeviceName b), AE er]))
       | Ok [] \<Rightarrow> panicS ''invalid memory address or nil pointer dereference''
       | Ok path \<Rightarrow> pathListLoop P bs (mput (BlockDeviceName b) path vdev) err
       | Panic m \<Rightarrow> panicS m)"

definition getPathForBdevList ::
    "'s penv \<Rightarrow> CStorPoolInstanceBlockDevice list \<Rightarrow> ('s pm, (string \<times> string list) list \<times> goerr option) act" where
  "getPathForBdevList P bdevs = pathListLoop P bdevs [] None"

text \<open>\<open>for _, v := range disklist { vdevlist = append(vdevlist, v[0]) }\<close>, in the order of the map.\<close>

definition firstPaths :: "'s penv \<Rightarrow> (string \<times> string list) list \<Rightarrow> string list res" where
  "firstPaths P disklist =
     collect (\<lambda>k. case map_of disklist k of Some (v # _) \<Rightarrow> Ok v | _ \<Rightarrow> Panic ''index out of range'')
       (setOrder (api P) (map fst disklist))"

definition GetDevPathIfNotSlashDev :: "string \<Rightarrow> string" where
  "GetDevPathIfNotSlashDev devID =
     (if devID = '''' then ''''
      else if HasPrefix devID ''/dev'' then ''''
      else (case LastIndexByte devID (CHR ''/'') of None \<Rightarrow> '''' | Some i \<Rightarrow> take i devID))"

section \<open>Queries of the pool\<close>

definition checkIfPoolPresent :: "'s penv \<Rightarrow> string \<Rightarrow> 's executor \<Rightarrow> ('s pm, bool) act" where
  "checkIfPoolPresent P name executor =
     bindS (runZ (pget_Execute (bash P) noChecks
       (WithExecutor executor (pget_WithPool name (pget_WithProperty ''name'' (pget_WithField ''value''
         (pget_WithScriptedMode True (pget_WithParsableMode True NewPoolGetProperty)))))))) (\<lambda>(ret, err).
     returnS (err = None))"

definition zpoolDump :: "'s penv \<Rightarrow> 's executor \<Rightarrow> ('s pm, Topology) act" where
  "zpoolDump P executor =
     onWorld (pdump_Execute (bash P) (unmarshalTopology P) (spareCap P) noChecks
       (WithExecutor executor (pdump_WithStripVdevPath (pdump_WithPool (PoolName P) NewPoolDump))))"

definition executeZpoolDump :: "'s penv \<Rightarrow> CStorPoolInstance \<Rightarrow> 's executor \<Rightarrow> ('s pm, Topology) act" where
  "executeZpoolDump P cspi executor = zpoolDump P executor"

definition getVdevFromPath :: "'s penv \<Rightarrow> string \<Rightarrow> Topology \<Rightarrow> Vdev option" where
  "getVdevFromPath P path topology =
     (case GetVdevFromPath P (Topvdev topology) path of
        Some v \<Rightarrow> Some v
      | None \<Rightarrow>
          (case GetVdevFromPath P (Spares topology) path of
             Some v \<Rightarrow> Some v
           | None \<Rightarrow> GetVdevFromPath P (Readcache topology) path))"

definition statAt :: "64 word list \<Rightarrow> nat \<Rightarrow> 64 word res" where
  "statAt xs i = (if i < length xs then Ok (xs ! i) else Panic ''index out of range'')"

definition vdevResilvering :: "'s penv \<Rightarrow> Vdev \<Rightarrow> bool res" where
  "vdevResilvering P vdev =
     (if ScanStats vdev = [] then Ok False
      else
        bindR (statAt (VdevStats vdev) (VdevScanProcessedIndex P)) (\<lambda>processed.
        if processed = 0 then Ok False
        else if vdev_Children vdev \<noteq> [] then Ok True
        else
          bindR (statAt (ScanStats vdev) (VdevScanStatsStateIndex P)) (\<lambda>state.
          if state \<noteq> PoolScanFinished P then Ok True
          else
            bindR (statAt (ScanStats vdev) (VdevScanStatsScanFuncIndex P)) (\<lambda>func.
            Ok (func \<noteq> PoolScanFuncResilver P)))))"

definition isResilveringInProgress ::
    "'s penv \<Rightarrow> (CStorPoolInstance \<Rightarrow> 's executor \<Rightarrow> ('s pm, Topology) act) \<Rightarrow> CStorPoolInstance \<Rightarrow> string \<Rightarrow>
     's executor \<Rightarrow> ('s pm, bool) act" where
  "isResilveringInProgress P executeCommand cspi path executor =
     bindS (attemptS (executeCommand cspi executor)) (\<lambda>r.
       case r of
         Ok poolTopology \<Rightarrow>
           (case getVdevFromPath P path poolTopology of
              None \<Rightarrow> returnS True
            | Some vdev \<Rightarrow> readS (\<lambda>_. vdevResilvering P vdev))
       | _ \<Rightarrow> returnS True)"

text \<open>The first device of the first data group, which import and create look at; absent, the code panics.\<close>

definition firstBD :: "CStorPoolInstance \<Rightarrow> string res" where
  "firstBD cspi =
     (case DataRaidGroups (cspi_Spec cspi) of
        [] \<Rightarrow> Panic ''index out of range''
      | r # _ \<Rightarrow> (case CStorPoolInstanceBlockDevices r of
                     [] \<Rightarrow> Panic ''index out of range''
                   | b # _ \<Rightarrow> Ok (BlockDeviceName b)))"

definition firstBDPath :: "'s penv \<Rightarrow> CStorPoolInstance \<Rightarrow> ('s pm, string) act" where
  "firstBDPath P cspi =
     bindS (readS (\<lambda>_. firstBD cspi)) (\<lambda>b.
     bindS (getPathForBDev P b) (\<lambda>bdPath.
     case bdPath of [] \<Rightarrow> panicS ''index out of range'' | p # _ \<Rightarrow> returnS p))"

text \<open>The output of the listing, and whether the pool's name occurs in it.\<close>

definition checkIfPoolIsImportable ::
    "'s penv \<Rightarrow> 's OperationsConfig \<Rightarrow> CStorPoolInstance \<Rightarrow> ('s pm, string \<times> bool) act" where
  "checkIfPoolIsImportable P oc cspi =
     bindS (firstBDPath P cspi) (\<lambda>bdPath.
     let devID = GetDevPathIfNotSlashDev bdPath;
         scan = bindS (runZ (pimport_Execute (bash P) noChecks (WithExecutor (zcmdExecutor oc) NewPoolImport)))
                  (\<lambda>(cmdOut, err).
                    if Contains cmdOut (PoolName P) then returnS (cmdOut, True)
                    else bindS (failOpt err) (\<lambda>_. returnS (cmdOut, False)))
     in if devID \<noteq> ''''
        then bindS (runZ (pimport_Execute (bash P) noChecks
                 (WithExecutor (zcmdExecutor oc) (pimport_WithDirectory devID NewPoolImport)))) (\<lambda>(cmdOut, err).
               if Contains cmdOut (PoolName P) then returnS (cmdOut, True) else scan)
        else scan)"

section \<open>Raid groups\<close>

record raidConfiguration =
  RaidGroupType :: string
  RaidGroups :: "RaidGroup list"

definition getRaidGroupsConfigMap :: "CStorPoolInstance \<Rightarrow> string \<Rightarrow> raidConfiguration" where
  "getRaidGroupsConfigMap cspi deviceType =
     (if deviceType = ''data''
      then \<lparr>RaidGroupType = DataRaidGroupType (poolConfig (cspi_Spec cspi)), RaidGroups = DataRaidGroups (cspi_Spec cspi)\<rparr>
      else \<lparr>RaidGroupType = WriteCacheGroupType (poolConfig (cspi_Spec cspi)),
             RaidGroups = WriteCacheRaidGroups (cspi_Spec cspi)\<rparr>)"

text \<open>The pairs a nested loop over the map and its raid groups visits.\<close>

definition rangeGroups :: "'s penv \<Rightarrow> CStorPoolInstance \<Rightarrow> 's \<Rightarrow> (string \<times> string \<times> RaidGroup) list" where
  "rangeGroups P cspi w =
     concat (map (\<lambda>d. map (\<lambda>r. (d, RaidGroupType (getRaidGroupsConfigMap cspi d), r))
                        (RaidGroups (getRaidGroupsConfigMap cspi d))) (rangeRaid P w))"

definition addRaidGroup ::
    "'s penv \<Rightarrow> 's OperationsConfig \<Rightarrow> RaidGroup \<Rightarrow> string \<Rightarrow> string \<Rightarrow> ('s pm, unit) act" where
  "addRaidGroup P oc r dType pType =
     (let deviceType = getZFSDeviceType dType in
      if pType = '''' then failS (Errorf ''type for %s raid group not found'' [AS deviceType])
      else
        bindS (getPathForBdevList P (CStorPoolInstanceBlockDevices r)) (\<lambda>(disklist, err).
        bindS (failOpt err) (\<lambda>_.
        bindS (readS (\<lambda>_. firstPaths P disklist)) (\<lambda>vdevlist.
        bindS (runZ (padd_Execute (bash P) noChecks
          (WithExecutor (zcmdExecutor oc) (padd_WithVdevList vdevlist (padd_WithPool (PoolName P)
            (padd_WithType pType (padd_WithDeviceType deviceType NewPoolExpansion))))))) (\<lambda>(ret, err).
        failOpt err)))))"

section \<open>Creating, importing and deleting the pool\<close>

definition createPool ::
    "'s penv \<Rightarrow> 's OperationsConfig \<Rightarrow> CStorPoolInstance \<Rightarrow> RaidGroup \<Rightarrow> ('s pm, unit) act" where
  "createPool P oc cspi r =
     (let ptype = DataRaidGroupType (poolConfig (cspi_Spec cspi)) in
      if ptype = '''' then failS (Errorf ''type for data raid group not found'' [])
      else
        bindS (getPathForBdevList P (CStorPoolInstanceBlockDevices r)) (\<lambda>(disklist, err).
        bindS (failOpt (map_option (\<lambda>e. Errorf ''Failed to get list of disk-path : %s'' [AE e]) err)) (\<lambda>_.
        bindS (readS (\<lambda>_. firstPaths P disklist)) (\<lambda>vdevlist.
        let compression = Compression (poolConfig (cspi_Spec cspi));
            compressionType = (if compression = '''' then ''lz4'' else compression)
        in bindS (runZ (pcreate_Execute (bash P) noChecks
             (WithExecutor (zcmdExecutor oc) (pcreate_WithVdevList vdevlist (pcreate_WithPool (PoolName P)
               (pcreate_WithFSProperty ''canmount'' ''off'' (pcreate_WithFSProperty ''compression'' compressionType
               (pcreate_WithProperty ''cachefile'' (CStorPoolBasePath P @ CacheFileName P)
               (pcreate_WithType ptype NewPoolCreate))))))))) (\<lambda>(ret, err).
           failOpt (map_option (\<lambda>e. Errorf ''Failed to create pool.. %s .. %s'' [AS ret, AE e]) err))))))"

text \<open>The loop of \<open>Create\<close> over the remaining groups, which goes on after an error.\<close>

fun addGroupsLoop ::
    "'s penv \<Rightarrow> 's OperationsConfig \<Rightarrow> (string \<times> string \<times> RaidGroup) list \<Rightarrow> goerr option \<Rightarrow> ('s pm, goerr option) act" where
  "addGroupsLoop P oc [] err = returnS err"
| "addGroupsLoop P oc ((deviceType, raidType, r) # rest) err =
     bindS (attemptS (addRaidGroup P oc r deviceType raidType)) (\<lambda>res.
       addGroupsLoop P oc rest
         (case res of Err e \<Rightarrow> Some (ErrorWrapf err ''Failed to add raidGroup{%#v}.. %s'' [AL (map BlockDeviceName (CStorPoolInstanceBlockDevices r)), AE e]) | _ \<Rightarrow> err))"

definition Create :: "'s penv \<Rightarrow> 's OperationsConfig \<Rightarrow> CStorPoolInstance \<Rightarrow> ('s pm, unit) act" where
  "Create P oc cspi =
     bindS (attemptS (checkIfPoolIsImportable P oc cspi)) (\<lambda>r.
       case r of
         Err e \<Rightarrow> failS (Errorf ''failed to verify if pool is importable: %s'' [AE e])
       | Panic m \<Rightarrow> panicS m
       | Ok (ret, notImported) \<Rightarrow>
           if notImported then failS (Errorf ''Pool {%s} is in faulty state.. %s'' [AS (PoolName P), AS ret])
           else
             bindS (case DataRaidGroups (cspi_Spec cspi) of
                      [] \<Rightarrow> returnS cspi
                    | g # gs \<Rightarrow>
                        bindS (attemptS (createPool P oc cspi g)) (\<lambda>res.
                          case res of
                            Err e \<Rightarrow> failS (Errorf ''Failed to create pool {%s} : %s'' [AS (PoolName P), AE e])
                          | _ \<Rightarrow> returnS (cspi\<lparr>cspi_Spec := (cspi_Spec cspi)\<lparr>DataRaidGroups := gs\<rparr>\<rparr>))) (\<lambda>cspiCopy.
             bindS (readW (\<lambda>w. Ok (rangeGroups P cspiCopy w))) (\<lambda>groups.
             bindS (addGroupsLoop P oc groups None) failOpt)))"

text \<open>
  \<open>Import\<close> returns whether the pool is imported, the error, and the instance, whose annotation with
  the name of an existing pool it removes in place.
\<close>

definition dropExistingPoolName :: "'s penv \<Rightarrow> CStorPoolInstance \<Rightarrow> CStorPoolInstance" where
  "dropExistingPoolName P cspi = cspi\<lparr>Annotations := mdel (OpenEBSCStorExistingPoolName P) (Annotations cspi)\<rparr>"

definition setImported :: "bool \<Rightarrow> ('s pm, unit) act" where
  "setImported b p = (Ok (), p\<lparr>IsImported := b\<rparr>)"

definition importCmd ::
    "'s penv \<Rightarrow> 's OperationsConfig \<Rightarrow> string \<Rightarrow> ('s PoolImport \<Rightarrow> 's PoolImport) \<Rightarrow> ('s pm, string \<times> goerr option) act" where
  "importCmd P oc existing source =
     runZ (pimport_Execute (bash P) noChecks
       (WithExecutor (zcmdExecutor oc) (pimport_WithNewPool (PoolName P) (pimport_WithPool existing
         (pimport_WithProperty ''cachefile'' (CStorPoolBasePath P @ CacheFileName P) (source NewPoolImport))))))"

definition importFrom ::
    "'s penv \<Rightarrow> 's OperationsConfig \<Rightarrow> string \<Rightarrow> CStorPoolInstance \<Rightarrow> ('s pm, bool \<times> goerr option \<times> CStorPoolInstance) act" where
  "importFrom P oc existing cspi =
     bindS (setImported False) (\<lambda>_.
     bindS (attemptS (firstBDPath P cspi)) (\<lambda>r.
       case r of
         Err e \<Rightarrow> returnS (False, Some e, cspi)
       | Panic m \<Rightarrow> panicS m
       | Ok bdPath \<Rightarrow>
           bindS (importCmd P oc existing (pimport_WithCachefile (CStorPoolBasePath P @ CacheFileName P))) (\<lambda>(out, err).
           bindS (if err = None then returnS None
                  else bindS (importCmd P oc existing (pimport_WithDirectory (GetDevPathIfNotSlashDev bdPath)))
                         (\<lambda>(out, err). returnS err)) (\<lambda>err.
           case err of
             Some e \<Rightarrow> returnS (False, Some e, cspi)
           | None \<Rightarrow> bindS (setImported True) (\<lambda>_. returnS (True, None, dropExistingPoolName P cspi))))))"

definition Import ::
    "'s penv \<Rightarrow> 's OperationsConfig \<Rightarrow> CStorPoolInstance \<Rightarrow> ('s pm, bool \<times> goerr option \<times> CStorPoolInstance) act" where
  "Import P oc cspi =
     bindS (checkIfPoolPresent P (PoolName P) (zcmdExecutor oc)) (\<lambda>poolExist.
       if poolExist then returnS (True, None, dropExistingPoolName P cspi)
       else
         let existingPoolName = mget (Annotations cspi) (OpenEBSCStorExistingPoolName P) in
         if existingPoolName = '''' then importFrom P oc '''' cspi
         else
           bindS (attemptS (checkIfPoolIsImportable P oc cspi)) (\<lambda>r.
             case r of
               Err e \<Rightarrow> returnS (False, Some (Errorf ''failed to verify if pool is importable: %s'' [AE e]), cspi)
             | Panic m \<Rightarrow> panicS m
             | Ok (_, importable) \<Rightarrow>
                 if importable then importFrom P oc '''' (dropExistingPoolName P cspi)
                 else importFrom P oc existingPoolName cspi))"

fun labelClearLoop :: "'s penv \<Rightarrow> 's OperationsConfig \<Rightarrow> string list \<Rightarrow> ('s pm, unit) act" where
  "labelClearLoop P oc [] = returnS ()"
| "labelClearLoop P oc (v # vs) =
     bindS (runZ (plabelclear_Execute (bash P) noChecks
       (WithExecutor (zcmdExecutor oc) (plabelclear_WithVdev v (plabelclear_WithForceFully True NewPoolLabelClear)))))
       (\<lambda>_. labelClearLoop P oc vs)"

fun ClearPoolLabel :: "'s penv \<Rightarrow> 's OperationsConfig \<Rightarrow> RaidGroup list \<Rightarrow> ('s pm, unit) act" where
  "ClearPoolLabel P oc [] = returnS ()"
| "ClearPoolLabel P oc (r # rs) =
     bindS (getPathForBdevList P (CStorPoolInstanceBlockDevices r)) (\<lambda>(disklist, err).
     bindS (readS (\<lambda>_. firstPaths P disklist)) (\<lambda>vdevs.
     bindS (labelClearLoop P oc vdevs) (\<lambda>_. ClearPoolLabel P oc rs)))"

definition Delete :: "'s penv \<Rightarrow> 's OperationsConfig \<Rightarrow> CStorPoolInstance \<Rightarrow> ('s pm, unit) act" where
  "Delete P oc cspi =
     bindS (checkIfPoolPresent P (PoolName P) (zcmdExecutor oc)) (\<lambda>poolExist.
       if \<not> poolExist then returnS ()
       else
         bindS (runZ (pdestroy_Execute (bash P) noChecks
           (WithExecutor (zcmdExecutor oc) (pdestroy_WithPool (PoolName P) NewPoolDestroy)))) (\<lambda>(ret, err).
         bindS (failOpt err) (\<lambda>_. ClearPoolLabel P oc (GetAllRaidGroups P cspi))))"

section \<open>Replacing devices\<close>

definition getBlockDeviceClaimList :: "'s penv \<Rightarrow> string \<Rightarrow> string \<Rightarrow> ('s pm, BlockDeviceClaim list) act" where
  "getBlockDeviceClaimList P key val =
     readW (\<lambda>w. wrapR (bdc_list (api P) w (GetEnvNamespace P) (key @ ''='' @ val))
       ''failed to list bdc related to key: %s value: %s'' [AS key, AS val])"

text \<open>
  Removes the marks of a finished replacement: the claim of the old device loses its finalizer and
  is deleted, and the claim of the new device loses the annotation naming its predecessor.
\<close>

definition cleanUpReplacementMarks ::
    "'s penv \<Rightarrow> BlockDeviceClaim option \<Rightarrow> BlockDeviceClaim \<Rightarrow> ('s pm, unit) act" where
  "cleanUpReplacementMarks P oldObj newObj =
     (let E = api P; fin = CSPCFinalizer E in
      bindS (case oldObj of
               None \<Rightarrow> returnS ()
             | Some old \<Rightarrow>
                 bindS (whenS (ContainsString E (Finalizers old) fin)
                   (onWorld (wrapS (\<lambda>w. bdc_update E w (Namespace old) (old\<lparr>Finalizers := RemoveFinalizer E (Finalizers old) fin\<rparr>))
                      ''Failed to remove finalizer %s on claim %s of blockdevice %s''
                      [AS fin, AS (Name old), AS (bdc_BlockDeviceName old)]))) (\<lambda>_.
                 onWorld (wrapS (\<lambda>w. bdc_delete E w (Namespace newObj) (Name old))
                   ''Failed to unclaim old blockdevice {%s}'' [AS (bdc_BlockDeviceName old)]))) (\<lambda>_.
      onWorld (wrapS (\<lambda>w. bdc_update E w (Namespace newObj) (newObj\<lparr>Annotations := mdel PredecessorBDLabelKey (Annotations newObj)\<rparr>))
        ''Failed to remove annotation {%s} from blockdeviceclaim {%s}'' [AS PredecessorBDLabelKey, AS (Name newObj)])))"

text \<open>The path in use after the call, or the empty string when there is nothing to replace.\<close>

definition replacePoolVdev ::
    "'s penv \<Rightarrow> 's OperationsConfig \<Rightarrow> CStorPoolInstance \<Rightarrow> string list \<Rightarrow> string list \<Rightarrow> ('s pm, string) act" where
  "replacePoolVdev P oc cspi oldPaths npath =
     (case npath of
        [] \<Rightarrow> failS (Errorf ''Empty path for vdev'' [])
      | newVdev # _ \<Rightarrow>
          bindS (attemptS (zpoolDump P (zcmdExecutor oc))) (\<lambda>r.
            case r of
              Err e \<Rightarrow> failS (Errorf ''Failed to fetch pool topology.. %s'' [AE e])
            | Panic m \<Rightarrow> panicS m
            | Ok poolTopology \<Rightarrow>
                (case checkIfDeviceUsed (ContainsString (api P)) npath poolTopology of
                   Some usedPath \<Rightarrow> returnS usedPath
                 | None \<Rightarrow>
                     if oldPaths = [] then returnS ''''
                     else
                       (case checkIfDeviceUsed (ContainsString (api P)) oldPaths poolTopology of
                          None \<Rightarrow> failS (Errorf ''Old device links are not in use by pool'' [])
                        | Some usedPath \<Rightarrow>
                            bindS (runZ (preplace_Execute (bash P) noChecks
                              (WithExecutor (zcmdExecutor oc) (preplace_WithPool (PoolName P)
                                (preplace_WithNewVdev newVdev (preplace_WithOldVdev usedPath NewPoolDiskReplace)))))) (\<lambda>(ret, err).
                            bindS (failOpt err) (\<lambda>_. returnS newVdev))))))"

text \<open>
  The variables of \<open>Update\<close> that its loops write: the error collected so far, whether a replacement
  was seen, how many are still running, and whether the instance has to be written.
\<close>

record updateVars =
  uv_err :: "goerr option"
  isReplacementTriggered :: bool
  replacingBlockDeviceCount :: int
  isObjChanged :: bool

definition addErr :: "string \<Rightarrow> goarg list \<Rightarrow> updateVars \<Rightarrow> updateVars" where
  "addErr f a u = u\<lparr>uv_err := Some (ErrorWrapf (uv_err u) f a)\<rparr>"

text \<open>The end of the body of the device loop: a finished replacement loses its marks.\<close>

definition finishReplacement ::
    "'s penv \<Rightarrow> 's OperationsConfig \<Rightarrow> CStorPoolInstance \<Rightarrow> BlockDeviceClaim list \<Rightarrow> BlockDeviceClaim \<Rightarrow> string \<Rightarrow> string \<Rightarrow>
     string \<Rightarrow> updateVars \<Rightarrow> ('s pm, updateVars) act" where
  "finishReplacement P oc cspi claims bdClaim predecessor bdName diskPath u =
     (if predecessor = '''' then returnS u
      else
        bindS (isResilveringInProgress P (executeZpoolDump P) cspi diskPath (zcmdExecutor oc)) (\<lambda>resilvering.
          if resilvering then returnS u
          else
            let oldBDClaim = (case GetBlockDeviceClaimFromBDName P claims predecessor of Ok c \<Rightarrow> Some c | _ \<Rightarrow> None) in
            bindS (attemptS (cleanUpReplacementMarks P oldBDClaim bdClaim)) (\<lambda>res.
              returnS (case res of
                Err er \<Rightarrow> addErr ''Failed cleanup replacement marks of replaced blockdevice {%s}.. %s'' [AS bdName, AE er] u
              | _ \<Rightarrow> u\<lparr>isReplacementTriggered := True,
                        replacingBlockDeviceCount := replacingBlockDeviceCount u - 1\<rparr>))))"

text \<open>The body of the device loop: the device with its link, and the variables.\<close>

definition updateBDev ::
    "'s penv \<Rightarrow> 's OperationsConfig \<Rightarrow> CStorPoolInstance \<Rightarrow> BlockDeviceClaim list \<Rightarrow> CStorPoolInstanceBlockDevice \<Rightarrow>
     updateVars \<Rightarrow> ('s pm, CStorPoolInstanceBlockDevice \<times> updateVars) act" where
  "updateBDev P oc cspi claims bdev u =
     (let name = BlockDeviceName bdev in
      case GetBlockDeviceClaimFromBDName P claims name of
        Panic m \<Rightarrow> panicS m
      | Err er \<Rightarrow> returnS (bdev, addErr ''Failed to get claim of blockdevice {%s}.. %s'' [AS name, AE er] u)
      | Ok bdClaim \<Rightarrow>
          let predecessor = mget (Annotations bdClaim) PredecessorBDLabelKey in
          bindS (attemptS (if predecessor = '''' then returnS [] else getPathForBDev P predecessor)) (\<lambda>r.
            case r of
              Panic m \<Rightarrow> panicS m
            | Err er \<Rightarrow> returnS (bdev, addErr ''Failed to check bdev change {%s}.. %s'' [AS name, AE er] u)
            | Ok oldPath \<Rightarrow>
                let u = (if predecessor = '''' then u
                         else u\<lparr>isReplacementTriggered := True,
                                replacingBlockDeviceCount := replacingBlockDeviceCount u + 1\<rparr>) in
                bindS (attemptS (getPathForBDev P name)) (\<lambda>r.
                  case r of
                    Panic m \<Rightarrow> panicS m
                  | Err er \<Rightarrow>
                      bindS (finishReplacement P oc cspi claims bdClaim predecessor name ''''
                               (addErr ''Failed to check bdev change {%s}.. %s'' [AS name, AE er] u)) (\<lambda>u.
                      returnS (bdev, u))
                  | Ok newPath \<Rightarrow>
                      bindS (attemptS (replacePoolVdev P oc cspi oldPath newPath)) (\<lambda>r.
                        case r of
                          Panic m \<Rightarrow> panicS m
                        | Err er \<Rightarrow> returnS (bdev, addErr ''Failed to replace bdev for {%s}.. %s'' [AS name, AE er] u)
                        | Ok diskPath \<Rightarrow>
                            let changed = (\<not> IsEmpty diskPath \<and> diskPath \<noteq> cbd_DevLink bdev);
                                bdev' = (if changed then bdev\<lparr>cbd_DevLink := diskPath\<rparr> else bdev)
                            in bindS (finishReplacement P oc cspi claims bdClaim predecessor name diskPath
                                        (u\<lparr>isObjChanged := isObjChanged u \<or> changed\<rparr>)) (\<lambda>u.
                               returnS (bdev', u))))))"

fun updateBDevs ::
    "'s penv \<Rightarrow> 's OperationsConfig \<Rightarrow> CStorPoolInstance \<Rightarrow> BlockDeviceClaim list \<Rightarrow> CStorPoolInstanceBlockDevice list \<Rightarrow>
     updateVars \<Rightarrow> ('s pm, CStorPoolInstanceBlockDevice list \<times> updateVars) act" where
  "updateBDevs P oc cspi claims [] u = returnS ([], u)"
| "updateBDevs P oc cspi claims (b # bs) u =
     bindS (updateBDev P oc cspi claims b u) (\<lambda>(b', u).
     bindS (updateBDevs P oc cspi claims bs u) (\<lambda>(bs', u). returnS (b' # bs', u)))"

text \<open>
  The loop over the groups of one kind. A group that lost all its devices would be removed, but a
  group is only marked as changed after a device of it was written.
\<close>

fun updateGroups ::
    "'s penv \<Rightarrow> 's OperationsConfig \<Rightarrow> CStorPoolInstance \<Rightarrow> BlockDeviceClaim list \<Rightarrow> RaidGroup list \<Rightarrow>
     updateVars \<Rightarrow> ('s pm, RaidGroup list \<times> updateVars) act" where
  "updateGroups P oc cspi claims [] u = returnS ([], u)"
| "updateGroups P oc cspi claims (g # gs) u =
     bindS (updateBDevs P oc cspi claims (CStorPoolInstanceBlockDevices g) u) (\<lambda>(bs, u).
     bindS (updateGroups P oc cspi claims gs u) (\<lambda>(gs', u).
       returnS (g\<lparr>CStorPoolInstanceBlockDevices := bs\<rparr> # gs', u)))"

definition setGroups :: "string \<Rightarrow> RaidGroup list \<Rightarrow> CStorPoolInstance \<Rightarrow> CStorPoolInstance" where
  "setGroups deviceType gs cspi =
     (if deviceType = ''data'' then cspi\<lparr>cspi_Spec := (cspi_Spec cspi)\<lparr>DataRaidGroups := gs\<rparr>\<rparr>
      else cspi\<lparr>cspi_Spec := (cspi_Spec cspi)\<lparr>WriteCacheRaidGroups := gs\<rparr>\<rparr>)"

fun updateKinds ::
    "'s penv \<Rightarrow> 's OperationsConfig \<Rightarrow> BlockDeviceClaim list \<Rightarrow> string list \<Rightarrow> CStorPoolInstance \<Rightarrow> updateVars \<Rightarrow>
     ('s pm, CStorPoolInstance \<times> updateVars) act" where
  "updateKinds P oc claims [] cspi u = returnS (cspi, u)"
| "updateKinds P oc claims (d # ds) cspi u =
     bindS (updateGroups P oc cspi claims (RaidGroups (getRaidGroupsConfigMap cspi d)) u) (\<lambda>(gs, u).
     updateKinds P oc claims ds (setGroups d gs cspi) u)"

section \<open>Expanding the pool\<close>

text \<open>
  The devices of a group that the pool does not use yet: their first links and their names, and
  whether that is the whole group.
\<close>

fun newDevices ::
    "'s penv \<Rightarrow> Topology \<Rightarrow> CStorPoolInstanceBlockDevice list \<Rightarrow> ('s pm, string list \<times> string list \<times> bool) act" where
  "newDevices P t [] = returnS ([], [], True)"
| "newDevices P t (b # bs) =
     bindS (attemptS (getPathForBDev P (BlockDeviceName b))) (\<lambda>r.
       case r of
         Panic m \<Rightarrow> panicS m
       | Err er \<Rightarrow> failS (Errorf ''Failed get bdev {%s} path err {%s}'' [AS (BlockDeviceName b), AE er])
       | Ok newPath \<Rightarrow>
           (case checkIfDeviceUsed (ContainsString (api P)) newPath t of
              Some _ \<Rightarrow> bindS (newDevices P t bs) (\<lambda>(devlist, names, whole). returnS (devlist, names, False))
            | None \<Rightarrow>
                (case newPath of
                   [] \<Rightarrow> panicS ''index out of range''
                 | p # _ \<Rightarrow> bindS (newDevices P t bs) (\<lambda>(devlist, names, whole).
                              returnS (p # devlist, BlockDeviceName b # names, whole)))))"

text \<open>The body of the loop: whether an expansion was triggered so far, and the error.\<close>

definition expandGroup ::
    "'s penv \<Rightarrow> 's OperationsConfig \<Rightarrow> Topology \<Rightarrow> string \<times> string \<times> RaidGroup \<Rightarrow> bool \<times> goerr option \<Rightarrow>
     ('s pm, bool \<times> goerr option) act" where
  "expandGroup P oc t x acc =
     (case x of (deviceType, raidType, raidGroup) \<Rightarrow>
      case acc of (triggered, err) \<Rightarrow>
      bindS (newDevices P t (CStorPoolInstanceBlockDevices raidGroup)) (\<lambda>(devlist, names, wholeGroup).
        if wholeGroup
        then bindS (attemptS (addRaidGroup P oc raidGroup deviceType raidType)) (\<lambda>res.
               returnS (True, case res of
                  Err er \<Rightarrow> Some (ErrorWrapf err ''Failed to add raidGroup{%#v}.. %s'' [AL names, AE er]) | _ \<Rightarrow> err))
        else if devlist \<noteq> [] \<and> raidType = PoolStriped
        then bindS (runZ (padd_Execute (bash P) noChecks
               (WithExecutor (zcmdExecutor oc) (padd_WithPool (PoolName P) (padd_WithVdevList devlist
                 (padd_WithDeviceType (getZFSDeviceType deviceType) NewPoolExpansion)))))) (\<lambda>(ret, er).
               returnS (True, case er of
                  Some er \<Rightarrow> Some (ErrorWrapf err ''Failed to add devlist %v.. err {%s} {%s}'' [AL devlist, AS ret, AE er])
                | None \<Rightarrow> err))
        else returnS (triggered, err)))"

text \<open>The instance as the caller still holds it, the returned instance, and the error.\<close>

definition updateNewVdevFromCSPI ::
    "'s penv \<Rightarrow> 's OperationsConfig \<Rightarrow> CStorPoolInstance \<Rightarrow>
     ('s pm, CStorPoolInstance \<times> CStorPoolInstance \<times> goerr option) act" where
  "updateNewVdevFromCSPI P oc cspi =
     bindS (attemptS (zpoolDump P (zcmdExecutor oc))) (\<lambda>r.
       case r of
         Panic m \<Rightarrow> panicS m
       | Err e \<Rightarrow> returnS (cspi, cspi, Some (Errorf ''Failed to fetch pool topology.. %s'' [AE e]))
       | Ok t \<Rightarrow>
           bindS (readW (\<lambda>w. Ok (rangeGroups P cspi w))) (\<lambda>groups.
           bindS (attemptS (foldS (expandGroup P oc t) groups (False, None))) (\<lambda>r.
             case r of
               Panic m \<Rightarrow> panicS m
             | Err e \<Rightarrow> returnS (cspi, cspi, Some e)
             | Ok (triggered, err) \<Rightarrow>
                 let condition = GetCSPICondition (cspi_Status cspi) (CSPIPoolExpansion P);
                     finished = (case condition of None \<Rightarrow> False
                                 | Some c \<Rightarrow> \<not> triggered \<and> cond_Reason c \<noteq> ''PoolExpansionSuccessful'')
                 in if \<not> finished \<and> \<not> triggered then returnS (cspi, cspi, err)
                    else
                      bindS (readW (\<lambda>w. Ok (now (api P) w))) (\<lambda>t.
                      let newCondition =
                        (if finished
                         then NewCSPICondition t (CSPIPoolExpansion P) ''False'' ''PoolExpansionSuccessful''
                                ''Pool expansion was successfull by adding blockdevices/raid groups''
                         else NewCSPICondition t (CSPIPoolExpansion P) ''True'' ''PoolExpansionInProgress''
                                (Sprintf P ''Pool expansion is in progress because of blockdevice/raid group addition error: %v''
                                   (case err of None \<Rightarrow> [] | Some e \<Rightarrow> [AE e])));
                          cspi' = cspi\<lparr>cspi_Status := SetCSPICondition (cspi_Status cspi) newCondition\<rparr>
                      in bindS (attemptS (onWorld (\<lambda>w. cspi_update (api P) w (Namespace cspi) cspi'))) (\<lambda>r.
                           case r of
                             Panic m \<Rightarrow> panicS m
                           | Err e \<Rightarrow> returnS (cspi', cspi, Some (Wrapf e ''failed to update cspi pool expansion conditions error: %v''
                                                      (case err of None \<Rightarrow> [] | Some e \<Rightarrow> [AE e])))
                           | Ok updated \<Rightarrow> returnS (cspi', updated, err))))))"

text \<open>The condition that \<open>Update\<close> sets when a replacement was seen.\<close>

definition replacementCondition :: "'s penv \<Rightarrow> int \<Rightarrow> updateVars \<Rightarrow> Condition" where
  "replacementCondition P t u =
     (if replacingBlockDeviceCount u > 0
      then NewCSPICondition t (CSPIDiskReplacement P) ''True'' ''BlockDeviceReplacementInprogress''
             (Sprintf P ''Resilvering %d no.of blockdevices... because of blockdevice replacement error: %v''
                (AI (replacingBlockDeviceCount u) # (case uv_err u of None \<Rightarrow> [] | Some e \<Rightarrow> [AE e])))
      else NewCSPICondition t (CSPIDiskReplacement P) ''False'' ''BlockDeviceReplacementSucceess''
             ''Blockdevice replacement was successfully completed'')"

text \<open>\<open>Update\<close>: the instance it returns, and the error.\<close>

definition UpdatePool ::
    "'s penv \<Rightarrow> 's OperationsConfig \<Rightarrow> CStorPoolInstance \<Rightarrow> ('s pm, CStorPoolInstance \<times> goerr option) act" where
  "UpdatePool P oc cspi =
     bindS (attemptS (getBlockDeviceClaimList P CStorPoolClusterLabelKey (mget (Labels cspi) CStorPoolClusterLabelKey))) (\<lambda>r.
       case r of
         Panic m \<Rightarrow> panicS m
       | Err e \<Rightarrow> returnS (cspi, Some e)
       | Ok claims \<Rightarrow>
           bindS (readW (\<lambda>w. Ok (rangeRaid P w))) (\<lambda>kinds.
           bindS (updateKinds P oc claims kinds cspi
                    \<lparr>uv_err = None, isReplacementTriggered = False, replacingBlockDeviceCount = 0, isObjChanged = False\<rparr>)
             (\<lambda>(cspi, u).
           bindS (readW (\<lambda>w. Ok (now (api P) w))) (\<lambda>t.
           let cspi = (if isReplacementTriggered u
                       then cspi\<lparr>cspi_Status := SetCSPICondition (cspi_Status cspi) (replacementCondition P t u)\<rparr> else cspi)
           in bindS (if isObjChanged u \<or> isReplacementTriggered u
                     then bindS (attemptS (onWorld (\<lambda>w. cspi_update (api P) w (Namespace cspi) cspi))) (\<lambda>r.
                            case r of
                              Panic m \<Rightarrow> panicS m
                            | Err er \<Rightarrow> returnS (cspi, Some (ErrorWrapf (uv_err u) ''Failed to update object.. err {%s}'' [AE er]))
                            | Ok ncspi \<Rightarrow> returnS (ncspi, uv_err u))
                     else returnS (cspi, uv_err u)) (\<lambda>(cspi, err).
              bindS (updateNewVdevFromCSPI P oc cspi) (\<lambda>(held, ncspi, er).
                returnS (case er of
                   Some e \<Rightarrow> (held, Some (ErrorWrapf err ''Pool expansion... err {%s}'' [AE e]))
                 | None \<Rightarrow> (ncspi, err))))))))"

section \<open>Properties of the pool\<close>

text \<open>\<open>strings.Replace\<close> of one byte by another, at most \<open>n\<close> times.\<close>

fun replaceByte :: "char \<Rightarrow> char \<Rightarrow> nat \<Rightarrow> string \<Rightarrow> string" where
  "replaceByte a b n [] = []"
| "replaceByte a b 0 s = s"
| "replaceByte a b (Suc n) (c # s) = (if c = a then b # replaceByte a b n s else c # replaceByte a b (Suc n) s)"

definition GetCapacityInBinarySi :: "string \<Rightarrow> string" where
  "GetCapacityInBinarySi capacity =
     (if Contains capacity ''K''
      then replaceByte (CHR ''K'') (CHR ''k'') (case Index capacity ''K'' of Some i \<Rightarrow> i | None \<Rightarrow> 0) capacity
      else capacity)"

definition GetCapacityFromString :: "'s penv \<Rightarrow> string \<Rightarrow> Quantity res" where
  "GetCapacityFromString P capacity = ParseQuantity (api P) capacity"

definition GetPropertyValue :: "'s penv \<Rightarrow> string \<Rightarrow> string \<Rightarrow> 's executor \<Rightarrow> ('s pm, string) act" where
  "GetPropertyValue P poolName prop executor =
     bindS (runZ (pget_Execute (bash P) noChecks
       (WithExecutor executor (pget_WithPool poolName (pget_WithProperty prop (pget_WithField ''value''
         (pget_WithScriptedMode True NewPoolGetProperty))))))) (\<lambda>(ret, err).
     bindS (failOpt (map_option (\<lambda>e. Wrapf e ''failed to get property %s value output: %s'' [AS prop, AS ret]) err)) (\<lambda>_.
     returnS (hd (Split (CHR 0x0A) ret))))"

definition GetListOfPropertyValues ::
    "'s penv \<Rightarrow> 's OperationsConfig \<Rightarrow> string \<Rightarrow> string list \<Rightarrow> ('s pm, string list) act" where
  "GetListOfPropertyValues P oc poolName propertyList =
     bindS (runZ (pget_Execute (bash P) noChecks
       (WithExecutor (zcmdExecutor oc) (pget_WithPool poolName (pget_WithPropertyList propertyList (pget_WithField ''value''
         (pget_WithScriptedMode True NewPoolGetProperty))))))) (\<lambda>(ret, err).
     bindS (failOpt err) (\<lambda>_. returnS (Split (CHR 0x0A) ret)))"

definition GetVolumePropertyValue ::
    "'s penv \<Rightarrow> 's OperationsConfig \<Rightarrow> string \<Rightarrow> string \<Rightarrow> ('s pm, string) act" where
  "GetVolumePropertyValue P oc poolName prop =
     bindS (runZ (vget_Execute (bash P) noChecks
       (WithExecutor (zcmdExecutor oc) (vget_WithDataset poolName (vget_WithProperty prop (vget_WithField ''value''
         (vget_WithScriptedMode True NewVolumeGetProperty))))))) (\<lambda>(ret, err).
     bindS (failOpt (map_option (\<lambda>e. Wrapf e ''failed to get property %s value output: %s'' [AS prop, AS ret]) err)) (\<lambda>_.
     returnS (hd (Split (CHR 0x0A) ret))))"

definition vr_GetListOfPropertyValues ::
    "'s penv \<Rightarrow> string \<Rightarrow> string list \<Rightarrow> 's executor \<Rightarrow> ('s pm, string list) act" where
  "vr_GetListOfPropertyValues P dataSetName propertyList executor =
     bindS (runZ (vget_Execute (bash P) noChecks
       (WithExecutor executor (vget_WithDataset dataSetName (vget_WithPropertyList propertyList (vget_WithField ''value''
         (vget_WithScriptedMode True NewVolumeGetProperty))))))) (\<lambda>(ret, err).
     bindS (failOpt err) (\<lambda>_. returnS (Split (CHR 0x0A) ret)))"

definition elemAt :: "'a list \<Rightarrow> nat \<Rightarrow> 'a res" where
  "elemAt xs i = (if i < length xs then Ok (xs ! i) else Panic ''index out of range'')"

definition capacityOf :: "'s penv \<Rightarrow> string \<Rightarrow> string list \<Rightarrow> CStorPoolInstanceCapacity res" where
  "capacityOf P poolName valueList =
     bindR (elemAt valueList 0) (\<lambda>u. bindR (elemAt valueList 1) (\<lambda>l. bindR (elemAt valueList 2) (\<lambda>f.
     let used = GetCapacityInBinarySi u; logical = GetCapacityInBinarySi l; available = GetCapacityInBinarySi f in
     bindR (wrapR (GetCapacityFromString P used) ''failed to parse pool used size %s of pool %s'' [AS used, AS poolName]) (\<lambda>usedQ.
     bindR (wrapR (GetCapacityFromString P logical) ''failed to parse pool logicalused size %s of pool %s''
              [AS logical, AS poolName]) (\<lambda>logicalQ.
     bindR (wrapR (GetCapacityFromString P available) ''failed to parse pool free size %s of pool %s''
              [AS available, AS poolName]) (\<lambda>freeQ.
       Ok \<lparr>cap_Used = usedQ, cap_Free = freeQ, cap_Total = freeQ + usedQ, cap_LogicalUsed = logicalQ\<rparr>))))))"

definition GetCSPICapacity ::
    "'s penv \<Rightarrow> 's OperationsConfig \<Rightarrow> string \<Rightarrow> ('s pm, CStorPoolInstanceCapacity) act" where
  "GetCSPICapacity P oc poolName =
     (let propertyList = [''used'', ''logicalused'', ''available''] in
      bindS (attemptS (vr_GetListOfPropertyValues P poolName propertyList (zcmdExecutor oc))) (\<lambda>r.
        case r of
          Panic m \<Rightarrow> panicS m
        | Err e \<Rightarrow> failS (Errorf ''failed to get pool %v properties for pool %s cmd out: %v error: %v''
                      [AL propertyList, AS poolName, AL [], AE e])
        | Ok valueList \<Rightarrow> readS (\<lambda>_. capacityOf P poolName valueList)))"

definition SetPoolRDMode :: "'s penv \<Rightarrow> 's OperationsConfig \<Rightarrow> string \<Rightarrow> bool \<Rightarrow> ('s pm, unit) act" where
  "SetPoolRDMode P oc poolName isROMode =
     (let mode = (if isROMode then ''on'' else ''off'') in
      bindS (runZ (pset_Execute (bash P) noChecks
        (WithExecutor (zcmdExecutor oc) (pset_WithPool poolName (pset_WithProperty ''io.openebs:readonly'' mode NewPoolSetProperty)))))
        (\<lambda>(ret, err).
      failOpt (map_option (\<lambda>e. Errorf ''Failed to update readOnly mode to %s out:%v err:%v'' [AS mode, AS ret, AE e]) err)))"

text \<open>
  \<open>SetPoolFSPropertiesIfNot\<close>: \<open>missing\<close> collects the properties that are not set yet. The cache of
  a dataset that is already known is a shared map, so that what the loop learns stays in the cache
  when a later query fails.
\<close>

definition storeCache :: "string \<Rightarrow> gomap \<Rightarrow> ('s pm, unit) act" where
  "storeCache dataset props p = (Ok (), p\<lparr>fsCache := mput dataset props (fsCache p)\<rparr>)"

fun missingLoop ::
    "'s penv \<Rightarrow> 's OperationsConfig \<Rightarrow> string \<Rightarrow> bool \<Rightarrow> gomap \<Rightarrow> gomap \<Rightarrow> gomap \<Rightarrow> ('s pm, gomap \<times> gomap) act" where
  "missingLoop P oc dataset known [] props missing = returnS (props, missing)"
| "missingLoop P oc dataset known ((prop, desired) # rest) props missing =
     (if mhas props prop \<and> mget props prop = desired then missingLoop P oc dataset known rest props missing
      else
        bindS (wrapS (GetVolumePropertyValue P oc dataset prop)
                 ''failed to get value of filesystem property %s of pool %s'' [AS prop, AS dataset]) (\<lambda>existing.
          if existing = desired
          then bindS (if known then storeCache dataset (mput prop desired props) else returnS ()) (\<lambda>_.
               missingLoop P oc dataset known rest (mput prop desired props) missing)
          else missingLoop P oc dataset known rest props (mput prop desired missing)))"

fun mputAll :: "gomap \<Rightarrow> gomap \<Rightarrow> gomap" where
  "mputAll [] m = m"
| "mputAll ((k, v) # rest) m = mputAll rest (mput k v m)"

fun withProperties :: "gomap \<Rightarrow> 's VolumeSetProperty \<Rightarrow> 's VolumeSetProperty" where
  "withProperties [] p = p"
| "withProperties ((k, v) # rest) p = withProperties rest (vset_WithProperty k v p)"

definition SetPoolFSPropertiesIfNot ::
    "'s penv \<Rightarrow> 's OperationsConfig \<Rightarrow> string \<Rightarrow> gomap \<Rightarrow> ('s pm, unit) act" where
  "SetPoolFSPropertiesIfNot P oc dataset desired =
     bindS (readS (\<lambda>p. Ok (map_of (fsCache p) dataset))) (\<lambda>cached.
     bindS (missingLoop P oc dataset (cached \<noteq> None) (mapOrder (api P) desired) (case cached of None \<Rightarrow> [] | Some m \<Rightarrow> m) [])
       (\<lambda>(props, missing).
     if missing = [] then storeCache dataset props
     else
       bindS (runZ (vset_Execute (bash P) noChecks
         (withProperties (mapOrder (api P) missing) (WithExecutor (zcmdExecutor oc) (vset_WithDataset dataset NewVolumeSetProperty)))))
         (\<lambda>(ret, err).
       bindS (failOpt (map_option (\<lambda>e. Wrapf e ''failed to set property values %v output: %s'' [AM missing, AS ret]) err)) (\<lambda>_.
       storeCache dataset (mputAll missing props)))))"

definition SetPoolProperties :: "'s penv \<Rightarrow> 's OperationsConfig \<Rightarrow> CStorPoolInstance \<Rightarrow> ('s pm, unit) act" where
  "SetPoolProperties P oc cspi =
     (let compression = Compression (poolConfig (cspi_Spec cspi));
          compressionType = (if compression \<noteq> '''' then compression else ''lz4'')
      in SetPoolFSPropertiesIfNot P oc (PoolName P) [(''canmount'', ''off''), (''compression'', compressionType)])"

text \<open>The devices of the instance whose vdev is not healthy.\<close>

definition unavailableBD :: "'s penv \<Rightarrow> Topology \<Rightarrow> CStorPoolInstanceBlockDevice \<Rightarrow> bool res" where
  "unavailableBD P t bdev =
     (if cbd_DevLink bdev = '''' then Ok False
      else (case getVdevFromPath P (cbd_DevLink bdev) t of
              None \<Rightarrow> Ok False
            | Some vdev \<Rightarrow> bindR (statAt (VdevStats vdev) (VdevStateIndex P)) (\<lambda>st. Ok (st \<noteq> VdevStateHealthy P))))"

definition GetUnavailableDiskList ::
    "'s penv \<Rightarrow> 's OperationsConfig \<Rightarrow> CStorPoolInstance \<Rightarrow> ('s pm, string list) act" where
  "GetUnavailableDiskList P oc cspi =
     bindS (wrapS (executeZpoolDump P cspi (zcmdExecutor oc)) ''failed to execute zpool dump'' []) (\<lambda>t.
     bindS (readW (\<lambda>w. Ok (rangeGroups P cspi w))) (\<lambda>groups.
     readS (\<lambda>_. foldR (\<lambda>b faulted. bindR (unavailableBD P t b) (\<lambda>bad.
         Ok (if bad then faulted @ [BlockDeviceName b] else faulted)))
       (concat (map (\<lambda>(_, _, g). CStorPoolInstanceBlockDevices g) groups)) [])))"

section \<open>Volumes of the pool\<close>

definition GetVolumes :: "'s penv \<Rightarrow> ('s pm, string list) act" where
  "GetVolumes P =
     (if zfsGetErrorInjected P then failS (Errorf ''ZFS get error via injection'' [])
      else
        bindS (runZ (RunStdoutPipe P ''zfs'' [''get'', ''-Hp'', ''name'', ''-o'', ''name''])) (\<lambda>(out, err).
        bindS (failOpt err) (\<lambda>_.
        returnS (if out = '''' then [] else map TrimSpace (Split (CHR 0x0A) out)))))"

definition CheckImportedPoolVolume :: "'s penv \<Rightarrow> ('s pm, unit) act" where
  "CheckImportedPoolVolume P =
     bindS (readS (\<lambda>p. Ok (IsImported p))) (\<lambda>imported.
       if imported then returnS ()
       else
         bindS (attemptS (GetVolumes P)) (\<lambda>r.
           case r of
             Ok vols \<Rightarrow> bindS (\<lambda>p. (Ok (), p\<lparr>InitialImportedPoolVol := vols\<rparr>)) (\<lambda>_. setImported (vols \<noteq> []))
           | Panic m \<Rightarrow> panicS m
           | Err e \<Rightarrow> bindS (\<lambda>p. (Ok (), p\<lparr>InitialImportedPoolVol := []\<rparr>)) (\<lambda>_. setImported False)))"

definition GetStats :: "'s penv \<Rightarrow> 's executor \<Rightarrow> ('s pm, ZFSStats) act" where
  "GetStats P executor =
     wrapS (onWorld (vstats_Execute (bash P) (unmarshalStats P) noChecks (WithExecutor executor NewVolumeStats)))
       ''failed to execute zfs stats'' []"

definition getReplicaDataSets :: "'s penv \<Rightarrow> 's executor \<Rightarrow> ('s pm, string list) act" where
  "getReplicaDataSets P executor =
     bindS (runZ (vlist_Execute (bash P) noChecks
       (WithExecutor executor (vlist_WithProperty ''name'' (vlist_WithScriptedMode True NewVolumeList))))) (\<lambda>(ret, err).
     bindS (failOpt (map_option (\<lambda>e. Wrapf e ''failed to get replicas present in the pool'' []) err)) (\<lambda>_.
     returnS (filter (\<lambda>n. Contains n ''/'' \<and> \<not> Contains n ''_rebuild_clone'') (Split (CHR 0x0A) ret))))"

definition GetProvisionedAndHealthyReplicaCount :: "'s penv \<Rightarrow> 's executor \<Rightarrow> ('s pm, 32 word \<times> 32 word) act" where
  "GetProvisionedAndHealthyReplicaCount P executor =
     bindS (wrapS (getReplicaDataSets P executor) ''unable to get replicas in pool'' []) (\<lambda>replicaList.
     bindS (wrapS (GetStats P executor) ''Unable to get stats of volume replicas'' []) (\<lambda>stats.
     returnS (of_nat (length replicaList), of_nat (length (filter (\<lambda>v. zs_Status v = ''Healthy'') stats)))))"

end
