(* ===== verification/VolumeReplica.thy ===== *)
theory VolumeReplica
  imports PoolManager
begin

text \<open>
  The volume replica library, \<open>pkg/volumereplica/volumereplica.go\<close> (its queries used by the pool manager
  are in \<open>PoolManager\<close>), the hash of \<open>pkg/util/hash\<close> and the helpers of \<open>pkg/controllers/common\<close>: the zfs
  volumes behind the replicas of a volume, their identifiers, snapshots, backup and restore. A function
  that changes the replica object it is given returns the object beside its error, because the callers
  write the object in either case.
\<close>

section \<open>Parameters\<close>

text \<open>
  What is used outside the repository, beside the pool manager's parameters: the command runner, JSON,
  the xxhash library, the client for replicas (the JSON patch that removes all finalizers is one call),
  the fault injection of debug builds, and the constants of \<open>github.com/openebs/api\<close>.
\<close>

record 's renv =
  pool :: "'s penv"
  RunCombinedOutput :: "string \<Rightarrow> string list \<Rightarrow> 's \<Rightarrow> (string \<times> goerr option) \<times> 's"
  unmarshalSnapshotList :: "string \<Rightarrow> SnapshotList res"
  marshalUID :: "string \<Rightarrow> string res"
  xxhashSum64 :: "string \<Rightarrow> 64 word"
  cvr_get :: "'s \<Rightarrow> string \<Rightarrow> string \<Rightarrow> CStorVolumeReplica res"
  cvr_update :: "'s \<Rightarrow> string \<Rightarrow> CStorVolumeReplica \<Rightarrow> CStorVolumeReplica res \<times> 's"
  cvr_removeFinalizers :: "'s \<Rightarrow> string \<Rightarrow> string \<Rightarrow> verdict \<times> 's"
  zfsCreateErrorInjected :: bool
  zfsDeleteErrorInjected :: bool
  cvrUpdateErrorInjected :: bool
  CloneEnableKEY :: string
  SourceVolumeKey :: string
  SnapshotNameKey :: string
  PersistentVolumeLabelKey :: string
  CVRStatusOnline :: string
  CVRStatusOffline :: string
  CVRStatusDegraded :: string
  CVRStatusNewReplicaDegraded :: string
  CVRStatusRebuilding :: string
  CVRStatusReconstructingNewReplica :: string
  CVRStatusError :: string
  CVRStatusEmpty :: string
  CVRStatusInit :: string
  CVRStatusRecreate :: string
  CVRStatusDeletionFailed :: string
  CVRStatusInvalid :: string

definition VolumeReplicaOperator :: string where
  "VolumeReplicaOperator = ''zfs''"

definition ExecuteScript :: string where
  "ExecuteScript = ''/usr/local/bin/execute.sh''"

definition PvNameKey :: string where
  "PvNameKey = ''cstorvolume.openebs.io/name''"

definition IsRestoreVol :: string where
  "IsRestoreVol = ''isRestoreVol''"

section \<open>Helpers of the pool manager's controllers\<close>

definition vr_GetPoolName :: "'s renv \<Rightarrow> string" where
  "vr_GetPoolName R =
     (let poolname = poolNameEnv (pool R) in if TrimSpace poolname = '''' then '''' else ''cstor-'' @ poolname)"

fun CheckIfPresent :: "string list \<Rightarrow> string \<Rightarrow> bool" where
  "CheckIfPresent [] searchStr = False"
| "CheckIfPresent (str # arrStr) searchStr = (if str = searchStr then True else CheckIfPresent arrStr searchStr)"

text \<open>\<open>GetPoolName\<close> of \<open>pool.go\<close>: the names of the imported pools; on an error there are none.\<close>

definition pool_GetPoolName :: "'s renv \<Rightarrow> ('s pm, string list) act" where
  "pool_GetPoolName R =
     bindS (runZ (RunStdoutPipe (pool R) ''zpool'' [''get'', ''-Hp'', ''name'', ''-o'', ''name''])) (\<lambda>(out, err).
     returnS (if err \<noteq> None \<or> out = '''' then [] else map TrimSpace (Split (CHR 0x0A) out)))"

text \<open>The loop asks \<open>cnt + 2\<close> times; \<open>left\<close> counts the rounds after the current one.\<close>

fun poolNameLoop :: "'s renv \<Rightarrow> nat \<Rightarrow> ('s pm, bool) act" where
  "poolNameLoop R left =
     bindS (pool_GetPoolName R) (\<lambda>poolname.
       if CheckIfPresent poolname (vr_GetPoolName R) then returnS True
       else (case left of 0 \<Rightarrow> returnS False | Suc n \<Rightarrow> poolNameLoop R n))"

definition PoolNameHandler :: "'s renv \<Rightarrow> nat \<Rightarrow> ('s pm, bool) act" where
  "PoolNameHandler R cnt = poolNameLoop R (Suc cnt)"

text \<open>
  The volumes found at import. The parameter shadows the package variable, so that removing the entry
  only shifts the shared array: the variable keeps its length and repeats its last entry.
\<close>

fun indexOf :: "string list \<Rightarrow> string \<Rightarrow> nat option" where
  "indexOf [] x = None"
| "indexOf (y # ys) x = (if y = x then Some 0 else map_option Suc (indexOf ys x))"

definition CheckForInitialImportedPoolVol :: "string \<Rightarrow> ('s pm, bool) act" where
  "CheckForInitialImportedPoolVol fullvolname p =
     (let vols = InitialImportedPoolVol p in
      case indexOf vols fullvolname of
        None \<Rightarrow> (Ok False, p)
      | Some i \<Rightarrow> (Ok True, p\<lparr>InitialImportedPoolVol := take i vols @ drop (Suc i) vols @ [last vols]\<rparr>))"

definition Hash :: "'s renv \<Rightarrow> string \<Rightarrow> string res" where
  "Hash R uid =
     bindR (wrapR (marshalUID R uid) ''failed to convert the object to json encoded format'' []) (\<lambda>bytes.
     Ok (showNat (unat (xxhashSum64 R bytes))))"

section \<open>Status and capacity\<close>

definition ZfsToCvrStatusMapper :: "'s renv \<Rightarrow> string \<Rightarrow> int \<Rightarrow> string" where
  "ZfsToCvrStatusMapper R zfsstatus quorum =
     (if zfsstatus = ''Healthy'' then CVRStatusOnline R
      else if zfsstatus = ''Offline'' then CVRStatusOffline R
      else if zfsstatus = ''Degraded''
      then (if quorum = 1 then CVRStatusDegraded R else CVRStatusNewReplicaDegraded R)
      else if zfsstatus = ''Rebuilding''
      then (if quorum = 1 then CVRStatusRebuilding R else CVRStatusReconstructingNewReplica R)
      else CVRStatusError R)"

definition vr_Status :: "'s renv \<Rightarrow> string \<Rightarrow> ('s pm, string) act" where
  "vr_Status R volumeName =
     bindS (attemptS (onWorld (vstats_Execute (bash (pool R)) (unmarshalStats (pool R)) noChecks
       (vstats_WithDataset volumeName NewVolumeStats)))) (\<lambda>r.
       case r of
         Panic m \<Rightarrow> panicS m
       | Err e \<Rightarrow> failS (Errorf ''Unable to get volume stats for volume %s : %s'' [AS volumeName, AE e])
       | Ok [] \<Rightarrow> panicS ''index out of range''
       | Ok (v # _) \<Rightarrow> returnS (ZfsToCvrStatusMapper R (zs_Status v) (zs_Quorum v)))"

text \<open>Total and used size from the table that \<open>zfs get\<close> prints; empty when the table has another shape.\<close>

definition capacityOutputParser :: "string \<Rightarrow> string \<times> string" where
  "capacityOutputParser output =
     (if TrimSpace output = '''' then ('''', '''')
      else
        let outputStr = Split (CHR 0x0A) output in
        if length outputStr < 3 then ('''', '''')
        else
          let alloc = Fields (outputStr ! 1); used = Fields (outputStr ! 2) in
          if length alloc = 4 \<and> length used = 4 then (TrimSpace (alloc ! 2), TrimSpace (used ! 2)) else ('''', ''''))"

definition vr_Capacity :: "'s renv \<Rightarrow> string \<Rightarrow> ('s pm, string \<times> string) act" where
  "vr_Capacity R volName =
     bindS (runZ (RunCombinedOutput R VolumeReplicaOperator [''get'', ''used,logicalreferenced'', volName])) (\<lambda>(out, err).
     bindS (failOpt err) (\<lambda>_.
     case capacityOutputParser out of
       (totalSize, used) \<Rightarrow>
         if TrimSpace totalSize = '''' \<or> TrimSpace used = ''''
         then failS (Errorf ''unable to get volume capacity from capacity parser'' [])
         else returnS (totalSize, used)))"

definition GetVolumeName :: "'s renv \<Rightarrow> CStorVolumeReplica \<Rightarrow> string res" where
  "GetVolumeName R cVR =
     (if Labels cVR = [] then Err (Errorf ''no labels found on cvr object'' [])
      else
        let pvName = mget (Labels cVR) PvNameKey in
        if TrimSpace pvName = '''' then Err (Errorf ''pv name not found on cvr label'' [])
        else Ok (vr_GetPoolName R @ ''/'' @ pvName))"

section \<open>Creating and deleting the volume\<close>

definition CheckValidVolumeReplica :: "CStorVolumeReplica \<Rightarrow> verdict" where
  "CheckValidVolumeReplica cVR =
     (let cspUID = mget (Labels cVR) ''cstorpool.openebs.io/uid'';
          cspiUID = mget (Labels cVR) ''cstorpoolinstance.openebs.io/uid''
      in if mget (Labels cVR) ''cstorvolume.openebs.io/name'' = ''''
         then Err (Errorf ''Volume Name/UID cannot be empty'' [])
         else if cvr_TargetIP cVR = '''' then Err (Errorf ''TargetIP cannot be empty'' [])
         else if cvr_Capacity cVR = '''' then Err (Errorf ''Capacity cannot be empty'' [])
         else if cspUID = '''' \<and> cspiUID = '''' then Err (Errorf ''Pool cannot be empty'' [])
         else failIf (cspUID \<noteq> '''' \<and> cspiUID \<noteq> '''') (Errorf ''Both pool types related labels are available'' []))"

definition parseCapacityUnit :: "string \<Rightarrow> string" where
  "parseCapacityUnit capacity = (if HasSuffix capacity ''i'' then TrimSuffix capacity ''i'' else capacity)"

definition buildVolumeCreateCommand :: "CStorVolumeReplica \<Rightarrow> string \<Rightarrow> bool \<Rightarrow> string list" where
  "buildVolumeCreateCommand cvr fullVolName quorum =
     [''create'', ''-b'', ''4K'', ''-s'', ''-o'', ''compression=on'',
      ''-o'', if quorum then ''quorum=on'' else ''quorum=off'',
      ''-o'', ''io.openebs:zvol_replica_id='' @ cvr_ReplicaID cvr,
      ''-o'', ''io.openebs:volname='' @ Name cvr] @
     (if cvr_ZvolWorkers cvr \<noteq> '''' then [''-o'', ''io.openebs:zvol_workers='' @ cvr_ZvolWorkers cvr] else []) @
     (if mget (Annotations cvr) IsRestoreVol \<noteq> ''true'' then [''-o'', ''io.openebs:targetip='' @ cvr_TargetIP cvr] else []) @
     [''-V'', cvr_Capacity cvr, fullVolName]"

definition buildVolumeCloneCommand :: "CStorVolumeReplica \<Rightarrow> string \<Rightarrow> string \<Rightarrow> string list" where
  "buildVolumeCloneCommand cvr snapName fullVolName =
     (let volname = ''io.openebs:volname='' @ Name cvr;
          targetIP = ''io.openebs:targetip='' @ cvr_TargetIP cvr;
          workers = ''io.openebs:zvol_workers='' @ cvr_ZvolWorkers cvr;
          zvolID = ''io.openebs:zvol_replica_id='' @ cvr_ReplicaID cvr
      in if cvr_ZvolWorkers cvr \<noteq> ''''
         then [''clone'', ''-o'', ''compression=on'', ''-o'', targetIP, ''-o'', ''quorum=on'', ''-o'', workers,
               ''-o'', volname, ''-o'', zvolID, snapName, fullVolName]
         else [''clone'', ''-o'', ''compression=on'', ''-o'', targetIP, ''-o'', ''quorum=on'', ''-o'', zvolID,
               ''-o'', volname, snapName, fullVolName])"

text \<open>The replica with the capacity as it is passed on, and the error.\<close>

definition CreateVolumeReplica ::
    "'s renv \<Rightarrow> CStorVolumeReplica \<Rightarrow> string \<Rightarrow> bool \<Rightarrow> ('s pm, CStorVolumeReplica \<times> goerr option) act" where
  "CreateVolumeReplica R cvr fullVolName quorum =
     (if zfsCreateErrorInjected R then returnS (cvr, Some (Errorf ''ZFS create error via injection'' []))
      else
        let isClone = (mget (Labels cvr) (CloneEnableKEY R) = ''true'');
            srcVolume = mget (Annotations cvr) (SourceVolumeKey R);
            snapName = mget (Annotations cvr) (SnapshotNameKey R);
            dataset = hd (Split (CHR ''/'') fullVolName);
            cvr' = (if isClone then cvr else cvr\<lparr>cvr_Capacity := parseCapacityUnit (cvr_Capacity cvr)\<rparr>);
            cmd = (if isClone then buildVolumeCloneCommand cvr (dataset @ ''/'' @ srcVolume @ ''@'' @ snapName) fullVolName
                   else buildVolumeCreateCommand cvr' fullVolName quorum)
        in bindS (runZ (RunCombinedOutput R VolumeReplicaOperator cmd)) (\<lambda>(out, err).
           returnS (cvr', map_option (\<lambda>e. Wrapf e ''failed to create volume: %s'' [AS fullVolName]) err)))"

definition DeleteVolume :: "'s renv \<Rightarrow> string \<Rightarrow> ('s pm, unit) act" where
  "DeleteVolume R fullVolName =
     (if zfsDeleteErrorInjected R then failS (Errorf ''ZFS delete error via injection'' [])
      else
        bindS (runZ (RunCombinedOutput R VolumeReplicaOperator [''destroy'', ''-R'', fullVolName])) (\<lambda>(out, err).
          case err of
            None \<Rightarrow> returnS ()
          | Some e \<Rightarrow>
              if Contains out ''dataset does not exist'' then returnS ()
              else failS (Wrapf e ''failed to delete volume.. %s'' [AS out])))"

definition SetTargetIp :: "'s renv \<Rightarrow> string \<Rightarrow> string \<Rightarrow> ('s pm, unit) act" where
  "SetTargetIp R fullVolName targetIp =
     bindS (runZ (vset_Execute (bash (pool R)) noChecks
       (vset_WithDataset fullVolName (vset_WithProperty ''io.openebs:targetip'' targetIp NewVolumeSetProperty)))) (\<lambda>(out, err).
     failOpt (map_option (\<lambda>e. Wrapf e ''failed to set target ip to %s %s'' [AS fullVolName, AS out]) err))"

definition getVolumeProperty :: "'s renv \<Rightarrow> string \<Rightarrow> string \<Rightarrow> ('s pm, string \<times> goerr option) act" where
  "getVolumeProperty R prop dataset =
     runZ (vget_Execute (bash (pool R)) noChecks
       (vget_WithDataset dataset (vget_WithProperty prop (vget_WithField ''value''
         (vget_WithParsableMode True (vget_WithScriptedMode True NewVolumeGetProperty))))))"

definition GetTargetIp :: "'s renv \<Rightarrow> string \<Rightarrow> ('s pm, string) act" where
  "GetTargetIp R fullVolName =
     bindS (getVolumeProperty R ''io.openebs:targetip'' fullVolName) (\<lambda>(ret, err).
     bindS (failOpt (map_option (\<lambda>e. Wrapf e ''failed to get target ip: %s'' [AS fullVolName]) err)) (\<lambda>_.
     returnS (hd (Split (CHR 0x0A) ret))))"

section \<open>Replica identifiers\<close>

definition GenerateReplicaID :: "'s renv \<Rightarrow> CStorVolumeReplica \<Rightarrow> CStorVolumeReplica res" where
  "GenerateReplicaID R cvr =
     (if cvr_ReplicaID cvr \<noteq> '''' then Err (Errorf ''ReplicaID for cvr(%s) is already generated'' [AS (Name cvr)])
      else bindR (Hash R (UID cvr)) (\<lambda>csum. Ok (cvr\<lparr>cvr_ReplicaID := ToUpper csum\<rparr>)))"

definition GetReplicaIDFromZFS :: "'s renv \<Rightarrow> string \<Rightarrow> ('s pm, string) act" where
  "GetReplicaIDFromZFS R volumeName =
     bindS (getVolumeProperty R ''io.openebs:zvol_replica_id'' volumeName) (\<lambda>(ret, err).
     bindS (failOpt (map_option (\<lambda>e. Errorf ''Failed to get replicaID %s'' [AE e]) err)) (\<lambda>_.
     returnS (hd (Split (CHR 0x0A) ret))))"

definition SetReplicaID :: "'s renv \<Rightarrow> CStorVolumeReplica \<Rightarrow> ('s pm, unit) act" where
  "SetReplicaID R cvr =
     bindS (readS (\<lambda>_. GetVolumeName R cvr)) (\<lambda>vol.
     bindS (GetReplicaIDFromZFS R vol) (\<lambda>sid.
       if sid = ''''
       then bindS (runZ (vset_Execute (bash (pool R)) noChecks
              (vset_WithDataset vol (vset_WithProperty ''io.openebs:zvol_replica_id'' (cvr_ReplicaID cvr) NewVolumeSetProperty))))
              (\<lambda>(lr, err). failOpt (map_option (\<lambda>e. Errorf ''Failed to set replicaID %s %s'' [AE e, AS lr]) err))
       else if cvr_ReplicaID cvr \<noteq> sid
       then failS (Errorf ''ReplicaID mismatch.. actual(%s) on-disk(%s)'' [AS (cvr_ReplicaID cvr), AS sid])
       else returnS ()))"

definition GetAndUpdateReplicaID ::
    "'s renv \<Rightarrow> CStorVolumeReplica \<Rightarrow> ('s pm, CStorVolumeReplica \<times> goerr option) act" where
  "GetAndUpdateReplicaID R cvr =
     (case (if cvr_ReplicaID cvr = '''' then GenerateReplicaID R cvr else Ok cvr) of
        Panic m \<Rightarrow> panicS m
      | Err e \<Rightarrow> returnS (cvr, Some (Errorf ''CVR(%s) replicaID generation error %s'' [AS (Name cvr), AE e]))
      | Ok cvr \<Rightarrow>
          bindS (attemptS (SetReplicaID R cvr)) (\<lambda>r.
            case r of
              Panic m \<Rightarrow> panicS m
            | Err e \<Rightarrow> returnS (cvr, Some (Errorf ''Failed to set ReplicaID for CVR(%s).. %s'' [AS (Name cvr), AE e]))
            | Ok _ \<Rightarrow> returnS (cvr, None)))"

section \<open>Snapshots\<close>

definition GetSnapshotList :: "'s renv \<Rightarrow> string \<Rightarrow> ('s pm, gomap) act" where
  "GetSnapshotList R dsName =
     bindS (onWorld (vlistsnap_Execute (bash (pool R)) (unmarshalSnapshotList R) noChecks
       (vlistsnap_WithDataset dsName NewVolumeListSnapshot))) (\<lambda>snapshotList.
     returnS (SnapList snapshotList))"

text \<open>Both values are parsed, and the first is kept.\<close>

definition getSnapshotInfo :: "'s renv \<Rightarrow> string \<Rightarrow> string \<Rightarrow> ('s pm, 64 word) act" where
  "getSnapshotInfo R dsName snapName =
     bindS (runZ (vget_Execute (bash (pool R)) noChecks
       (vget_WithDataset (dsName @ ''@'' @ snapName) (vget_WithProperty ''used'' (vget_WithProperty ''logicalreferenced''
         (vget_WithField ''value'' (vget_WithParsableMode True (vget_WithScriptedMode True NewVolumeGetProperty)))))))) (\<lambda>(ret, err).
     bindS (failOpt (map_option (\<lambda>e. Wrapf e ''failed to get snapshot properties'' []) err)) (\<lambda>_.
     let valueList = Split (CHR 0x0A) ret in
     readS (\<lambda>_.
       bindR (elemAt valueList 0) (\<lambda>v0. bindR (elemAt valueList 1) (\<lambda>v1.
       bindR (wrapR (ParseUint64 v0) ''failed to parse the snapshot properties'' []) (\<lambda>n0.
       bindR (wrapR (ParseUint64 v1) ''failed to parse the snapshot properties'' []) (\<lambda>n1.
       Ok (of_nat n0))))))))"

fun addSnapshots ::
    "'s renv \<Rightarrow> string \<Rightarrow> string list \<Rightarrow> (string \<times> 64 word) list \<Rightarrow> ('s pm, (string \<times> 64 word) list \<times> goerr option) act" where
  "addSnapshots R dsName [] snaps = returnS (snaps, None)"
| "addSnapshots R dsName (snapName # rest) snaps =
     (if map_of snaps snapName \<noteq> None then addSnapshots R dsName rest snaps
      else
        bindS (attemptS (getSnapshotInfo R dsName snapName)) (\<lambda>r.
          case r of
            Panic m \<Rightarrow> panicS m
          | Err e \<Rightarrow> returnS (snaps, Some (Wrapf e ''failed to get the properties of snapshot %s@%s'' [AS dsName, AS snapName]))
          | Ok info \<Rightarrow> addSnapshots R dsName rest (mput snapName info snaps)))"

definition snapshotDataset :: "'s renv \<Rightarrow> CStorVolumeReplica \<Rightarrow> string" where
  "snapshotDataset R cvr = vr_GetPoolName R @ ''/'' @ mget (Labels cvr) (PersistentVolumeLabelKey R)"

text \<open>
  Adds what zfs has, then drops what zfs no longer has, and what zfs has from the pending ones. When a
  query fails, the snapshots added so far stay in the object.
\<close>

definition addOrDeleteSnapshotListInfo ::
    "'s renv \<Rightarrow> CStorVolumeReplica \<Rightarrow> gomap \<Rightarrow> ('s pm, CStorVolumeReplica \<times> goerr option) act" where
  "addOrDeleteSnapshotListInfo R cvr currentSnapList =
     bindS (addSnapshots R (snapshotDataset R cvr) (map fst (mapOrder (api (pool R)) currentSnapList)) (cvr_Snapshots cvr))
       (\<lambda>(snaps, err).
     returnS (case err of
        Some e \<Rightarrow> (cvr\<lparr>cvr_Snapshots := snaps\<rparr>, Some e)
      | None \<Rightarrow> (cvr\<lparr>cvr_Snapshots := filter (\<lambda>(n, _). map_of currentSnapList n \<noteq> None) snaps,
                      cvr_PendingSnapshots := filter (\<lambda>(n, _). map_of currentSnapList n = None) (cvr_PendingSnapshots cvr)\<rparr>, None)))"

definition getPeerReplicas :: "'s renv \<Rightarrow> CStorVolumeReplica \<Rightarrow> ('s pm, CStorVolumeReplica list) act" where
  "getPeerReplicas R cvr =
     readW (\<lambda>w. bindR (cvr_list (api (pool R)) w (Namespace cvr)
         (PersistentVolumeLabelKey R @ ''='' @ mget (Labels cvr) (PersistentVolumeLabelKey R))) (\<lambda>cvrs.
       Ok (filter (\<lambda>obj. Name obj \<noteq> Name cvr) cvrs)))"

text \<open>The first peer that knows a snapshot describes it.\<close>

fun putNew :: "(string \<times> 64 word) list \<Rightarrow> (string \<times> 64 word) list \<Rightarrow> (string \<times> 64 word) list" where
  "putNew [] m = m"
| "putNew ((n, i) # rest) m = putNew rest (if map_of m n = None then mput n i m else m)"

fun getPeerSnapshotInfoList :: "CStorVolumeReplica list \<Rightarrow> (string \<times> 64 word) list \<Rightarrow> (string \<times> 64 word) list" where
  "getPeerSnapshotInfoList [] m = m"
| "getPeerSnapshotInfoList (cvr # cvrs) m = getPeerSnapshotInfoList cvrs (putNew (cvr_Snapshots cvr) m)"

definition getAndAddPendingSnapshotList ::
    "'s renv \<Rightarrow> CStorVolumeReplica \<Rightarrow> ('s pm, CStorVolumeReplica) act" where
  "getAndAddPendingSnapshotList R cvr =
     bindS (wrapS (getPeerReplicas R cvr) ''failed to get peer CVRs of volume replica %s'' [AS (Name cvr)]) (\<lambda>peerCVRList.
     let peerSnapshotList = getPeerSnapshotInfoList peerCVRList [];
         kept = filter (\<lambda>(n, _). map_of peerSnapshotList n \<noteq> None) (cvr_PendingSnapshots cvr);
         missing = filter (\<lambda>(n, _). map_of (cvr_Snapshots cvr) n = None) peerSnapshotList
     in returnS (cvr\<lparr>cvr_PendingSnapshots := putNew missing kept\<rparr>))"

definition GetAndUpdateSnapshotInfo ::
    "'s renv \<Rightarrow> CStorVolumeReplica \<Rightarrow> ('s pm, CStorVolumeReplica \<times> goerr option) act" where
  "GetAndUpdateSnapshotInfo R cvr =
     bindS (attemptS (GetSnapshotList R (snapshotDataset R cvr))) (\<lambda>r.
       case r of
         Panic m \<Rightarrow> panicS m
       | Err e \<Rightarrow> returnS (cvr, Some (Wrapf e ''failed to get the list of snapshots'' []))
       | Ok snapList \<Rightarrow>
           bindS (addOrDeleteSnapshotListInfo R cvr snapList) (\<lambda>(cvr, err).
             case err of
               Some e \<Rightarrow> returnS (cvr, Some (Wrapf e ''failed to add snapshot list info'' []))
             | None \<Rightarrow>
                 bindS (if cvr_Phase cvr = CVRStatusRebuilding R \<or> cvr_Phase cvr = CVRStatusReconstructingNewReplica R
                        then attemptS (getAndAddPendingSnapshotList R cvr) else returnS (Ok cvr)) (\<lambda>r.
                   case r of
                     Panic m \<Rightarrow> panicS m
                   | Err e \<Rightarrow> returnS (cvr, Some (Wrapf e ''failed to update pending snapshots'' []))
                   | Ok cvr \<Rightarrow>
                       returnS (if cvr_Phase cvr = CVRStatusOnline R then cvr\<lparr>cvr_PendingSnapshots := []\<rparr> else cvr, None))))"

section \<open>Backup and restore\<close>

definition buildVolumeBackupCommand :: "string \<Rightarrow> string \<Rightarrow> string \<Rightarrow> string \<Rightarrow> string \<Rightarrow> string list res" where
  "buildVolumeBackupCommand poolName fullVolName oldSnapName newSnapName backupDest =
     (let bkpAddr = Split (CHR '':'') backupDest; snap = (\<lambda>n. poolName @ ''/'' @ fullVolName @ ''@'' @ n) in
      bindR (elemAt bkpAddr 0) (\<lambda>host. bindR (elemAt bkpAddr 1) (\<lambda>port.
      let send = ''| nc -w 3 '' @ host @ '' '' @ port in
      Ok (if oldSnapName = '''' then [''zfs'', ''send'', snap newSnapName, send]
          else [''zfs'', ''send'', ''-i'', snap oldSnapName, snap newSnapName, send]))))"

definition buildVolumeRestoreCommand :: "string \<Rightarrow> string \<Rightarrow> string \<Rightarrow> string list res" where
  "buildVolumeRestoreCommand poolName fullVolName restoreSrc =
     (let restorAddr = Split (CHR '':'') restoreSrc in
      bindR (elemAt restorAddr 0) (\<lambda>host. bindR (elemAt restorAddr 1) (\<lambda>port.
      Ok [''nc -w 3 '' @ host @ '' '' @ port @ '' | '', ''zfs'', ''recv'', '' -F '' @ poolName @ ''/'' @ fullVolName])))"

text \<open>The loop runs the command until it succeeds, at most \<open>n\<close> times; the output and error of the last run.\<close>

fun retryLoop :: "'s renv \<Rightarrow> string list \<Rightarrow> nat \<Rightarrow> string \<times> goerr option \<Rightarrow> ('s pm, string \<times> goerr option) act" where
  "retryLoop R cmd 0 res = returnS res"
| "retryLoop R cmd (Suc n) res =
     bindS (runZ (RunCombinedOutput R ExecuteScript cmd)) (\<lambda>(out, err).
       if err = None then returnS (out, err) else retryLoop R cmd n (out, err))"

definition CreateVolumeBackup :: "'s renv \<Rightarrow> CStorBackup \<Rightarrow> ('s pm, unit) act" where
  "CreateVolumeBackup R bkp =
     bindS (readS (\<lambda>_. buildVolumeBackupCommand (vr_GetPoolName R) (bkp_VolumeName bkp) (bkp_PrevSnapName bkp)
              (bkp_SnapName bkp) (bkp_BackupDest bkp))) (\<lambda>cmd.
     bindS (retryLoop R cmd 10 ('''', None)) (\<lambda>(out, err).
     failOpt (map_option (\<lambda>e. Wrapf e ''error: %s'' [AS out]) err)))"

definition CreateVolumeRestore :: "'s renv \<Rightarrow> CStorRestore \<Rightarrow> ('s pm, unit) act" where
  "CreateVolumeRestore R rst =
     bindS (readS (\<lambda>_. buildVolumeRestoreCommand (vr_GetPoolName R) (rst_VolumeName rst) (rst_RestoreSrc rst))) (\<lambda>cmd.
     bindS (retryLoop R cmd 10 ('''', None)) (\<lambda>(out, err). failOpt err))"

end
