(* ===== verification/CspiController.thy ===== *)
theory CspiController
  imports PoolManager Versions "HOL-Library.Signed_Division"
begin

text \<open>
  The controller of pool instances, \<open>pkg/controllers/cspi-controller\<close>: \<open>handler.go\<close>,
  \<open>status.go\<close> and \<open>utils.go\<close>. One run of \<open>reconcile\<close> imports, creates, updates or destroys
  the zpool of an instance. Events and logs are left out; the lock around import and creation
  belongs to the concurrency of the process, which is not modelled. Byte counts are 64-bit
  integers, as \<open>Quantity.Value\<close> gives them.
\<close>

section \<open>Helpers\<close>

definition IsRightCStorPoolInstanceMgmt :: "'s penv \<Rightarrow> CStorPoolInstance \<Rightarrow> bool" where
  "IsRightCStorPoolInstanceMgmt P cspi = (cspiIdEnv P = UID cspi)"

definition IsStatusChange :: "CStorPoolInstanceStatus \<Rightarrow> CStorPoolInstanceStatus \<Rightarrow> bool" where
  "IsStatusChange oldStatus newStatus = (oldStatus \<noteq> newStatus)"

definition IsReconcileDisabled :: "'s penv \<Rightarrow> CStorPoolInstance \<Rightarrow> bool" where
  "IsReconcileDisabled P cspi = HasAnnotation P cspi (OpenEBSDisableReconcileLabelKey (api P)) ''true''"

definition updateCSPI :: "'s penv \<Rightarrow> CStorPoolInstance \<Rightarrow> ('s pm, CStorPoolInstance) act" where
  "updateCSPI P cspi = onWorld (\<lambda>w. cspi_update (api P) w (Namespace cspi) cspi)"

definition validateCSPI :: "CStorPoolInstance \<Rightarrow> verdict" where
  "validateCSPI cspi =
     (let spec = cspi_Spec cspi in
      if DataRaidGroups spec = [] then Err (Errorf ''No data RaidGroups exists'' [])
      else if DataRaidGroupType (poolConfig spec) = '''' then Err (Errorf ''Missing DataRaidGroupType'' [])
      else if WriteCacheRaidGroups spec \<noteq> [] \<and> WriteCacheGroupType (poolConfig spec) = ''''
      then Err (Errorf ''Missing WriteCacheRaidGroupType'' [])
      else
        bindR (checkAll (\<lambda>rg. failIf (CStorPoolInstanceBlockDevices rg = [])
                 (Errorf ''No BlockDevices exist in one of the DataRaidGroup'' [])) (DataRaidGroups spec)) (\<lambda>_.
        checkAll (\<lambda>rg. failIf (CStorPoolInstanceBlockDevices rg = [])
                 (Errorf ''No BlockDevices exist in one of the WriteCache RaidGroup'' [])) (WriteCacheRaidGroups spec)))"

definition getCSPIObjFromKey :: "'s penv \<Rightarrow> string \<Rightarrow> ('s pm, CStorPoolInstance option) act" where
  "getCSPIObjFromKey P key =
     readW (\<lambda>w. case SplitMetaNamespaceKey (api P) key of
         Panic m \<Rightarrow> Panic m
       | Err e \<Rightarrow> Ok None
       | Ok (ns, name) \<Rightarrow>
           (case cspi_get P w ns name of
              Panic m \<Rightarrow> Panic m
            | Err e \<Rightarrow> if IsNotFound e then Ok None else Err e
            | Ok cspi \<Rightarrow> Ok (Some cspi)))"

definition cspi_removeFinalizer :: "'s penv \<Rightarrow> CStorPoolInstance \<Rightarrow> ('s pm, unit) act" where
  "cspi_removeFinalizer P cspi =
     (if Finalizers cspi = [] then returnS ()
      else
        bindS (updateCSPI P (cspi\<lparr>Finalizers := RemoveString (api P) (Finalizers cspi) PoolProtectionFinalizer\<rparr>)) (\<lambda>_.
        returnS ()))"

definition addPoolProtectionFinalizer :: "'s penv \<Rightarrow> CStorPoolInstance \<Rightarrow> ('s pm, CStorPoolInstance) act" where
  "addPoolProtectionFinalizer P cspi =
     (if ContainsString (api P) (Finalizers cspi) PoolProtectionFinalizer then returnS cspi
      else updateCSPI P (cspi\<lparr>Finalizers := Finalizers cspi @ [PoolProtectionFinalizer]\<rparr>))"

text \<open>The instance returned beside the error is the one whose error status is written.\<close>

definition cspi_reconcileVersion ::
    "'s penv \<Rightarrow> CStorPoolInstance \<Rightarrow> ('s pm, goerr option \<times> CStorPoolInstance) act" where
  "cspi_reconcileVersion P cspi =
     (let E = api P; v = cspi_Version cspi; base = baseVersion (binaryVersion E) in
      if vd_Current v = vd_Desired v then returnS (None, cspi)
      else
        bindS (readS (\<lambda>_. IsCurrentVersionValid base (vd_Current v))) (\<lambda>currentValid.
          if \<not> currentValid then returnS (Some (Errorf ''invalid current version %s'' [AS (vd_Current v)]), cspi)
          else if \<not> IsDesiredVersionValid base (vd_Desired v)
          then returnS (Some (Errorf ''invalid desired version %s'' [AS (vd_Desired v)]), cspi)
          else
            bindS (if vd_State v \<noteq> ReconcileInProgress E
                   then attemptS (updateCSPI P (cspi\<lparr>cspi_Version := setInProgressStatus E v\<rparr>))
                   else returnS (Ok cspi)) (\<lambda>r.
              case r of
                Panic m \<Rightarrow> panicS m
              | Err e \<Rightarrow> returnS (Some e, cspi)
              | Ok cspiObj \<Rightarrow>
                  bindS (attemptS (updateCSPI P (cspiObj\<lparr>cspi_Version := setSuccessStatus E (cspi_Version cspiObj)\<rparr>))) (\<lambda>r.
                    case r of
                      Panic m \<Rightarrow> panicS m
                    | Err e \<Rightarrow> returnS (Some (Wrapf e ''failed to update CSPI'' []), cspiObj)
                    | Ok obj \<Rightarrow> returnS (None, obj)))))"

section \<open>Status\<close>

definition UpdateStatusCondition ::
    "'s penv \<Rightarrow> CStorPoolInstance \<Rightarrow> Condition \<Rightarrow> ('s pm, CStorPoolInstance) act" where
  "UpdateStatusCondition P cspi condition =
     wrapS (updateCSPI P (cspi\<lparr>cspi_Status := SetCSPICondition (cspi_Status cspi) condition\<rparr>))
       ''failed to update cspi conditions'' []"

text \<open>The retries; \<open>err\<close> is the error of the first attempt, which is returned when they are used up.\<close>

fun conditionRetry ::
    "'s penv \<Rightarrow> CStorPoolInstance \<Rightarrow> Condition \<Rightarrow> goerr \<Rightarrow> nat \<Rightarrow> ('s pm, CStorPoolInstance \<times> goerr option) act" where
  "conditionRetry P cspi condition err 0 = returnS (cspi, Some err)"
| "conditionRetry P cspi condition err (Suc maxRetry) =
     bindS (attemptS (readW (\<lambda>w. cspi_get P w (Namespace cspi) (Name cspi)))) (\<lambda>r.
       case r of
         Panic m \<Rightarrow> panicS m
       | Err e \<Rightarrow> returnS (cspi, Some (Wrapf e ''failed to update cspi status'' []))
       | Ok newCSPI \<Rightarrow>
           bindS (attemptS (UpdateStatusCondition P newCSPI condition)) (\<lambda>r.
             case r of
               Panic m \<Rightarrow> panicS m
             | Err e \<Rightarrow> conditionRetry P cspi condition err maxRetry
             | Ok updated \<Rightarrow> returnS (updated, None)))"

definition UpdateStatusConditionEventually ::
    "'s penv \<Rightarrow> CStorPoolInstance \<Rightarrow> Condition \<Rightarrow> ('s pm, CStorPoolInstance \<times> goerr option) act" where
  "UpdateStatusConditionEventually P cspi condition =
     bindS (attemptS (UpdateStatusCondition P cspi condition)) (\<lambda>r.
       case r of
         Panic m \<Rightarrow> panicS m
       | Err e \<Rightarrow> conditionRetry P cspi condition e 3
       | Ok updated \<Rightarrow> returnS (updated, None))"

text \<open>
  The read-only mode the pool should have, from its capacity; a total of zero is a division by
  zero. The division of 64-bit integers truncates.
\<close>

definition wantsReadOnly :: "64 word \<Rightarrow> 64 word \<Rightarrow> int option \<Rightarrow> bool res" where
  "wantsReadOnly availableInBytes usedInBytes threshold =
     (let roThresholdLimit = (case threshold of None \<Rightarrow> 85 | Some l \<Rightarrow> l);
          totalInBytes = availableInBytes + usedInBytes
      in if totalInBytes = 0 then Panic ''integer divide by zero''
         else let usedPercentage = sint (word_of_int (sint (usedInBytes * 100) sdiv sint totalInBytes) :: 64 word)
              in Ok (usedPercentage \<ge> roThresholdLimit \<and> roThresholdLimit \<noteq> 100))"

definition updateROMode ::
    "'s penv \<Rightarrow> 's executor \<Rightarrow> CStorPoolInstanceStatus \<Rightarrow> CStorPoolInstance \<Rightarrow> ('s pm, CStorPoolInstanceStatus) act" where
  "updateROMode P x status cspi =
     bindS (readS (\<lambda>_. wantsReadOnly (QuantityValue P (cap_Free (cspi_Capacity status)))
              (QuantityValue P (cap_Used (cspi_Capacity status))) (ROThresholdLimit (poolConfig (cspi_Spec cspi))))) (\<lambda>readOnly.
       if readOnly = cspi_ReadOnly status then returnS status
       else
         bindS (attemptS (SetPoolRDMode P \<lparr>zcmdExecutor = x\<rparr> (PoolName P) readOnly)) (\<lambda>r.
           returnS (case r of Ok _ \<Rightarrow> status\<lparr>cspi_ReadOnly := readOnly\<rparr> | _ \<Rightarrow> status)))"

definition addDiskUnavailableCondition ::
    "'s penv \<Rightarrow> 's executor \<Rightarrow> CStorPoolInstance \<Rightarrow> ('s pm, CStorPoolInstance) act" where
  "addDiskUnavailableCondition P x cspi =
     bindS (attemptS (GetUnavailableDiskList P \<lparr>zcmdExecutor = x\<rparr> cspi)) (\<lambda>r.
     bindS (readW (\<lambda>w. Ok (now (api P) w))) (\<lambda>t.
       returnS (case r of
         Ok disks \<Rightarrow>
           if disks \<noteq> []
           then cspi\<lparr>cspi_Status := SetCSPICondition (cspi_Status cspi)
                  (NewCSPICondition t (CSPIDiskUnavailable P) ''True'' ''DisksAreUnavailable''
                     (Sprintf P ''Following disks %v are unavailable/faulted'' [AL disks]))\<rparr>
           else if GetCSPICondition (cspi_Status cspi) (CSPIDiskUnavailable P) \<noteq> None
           then cspi\<lparr>cspi_Status := SetCSPICondition (cspi_Status cspi)
                  (NewCSPICondition t (CSPIDiskUnavailable P) ''False'' ''DisksAreAvailable'' '''')\<rparr>
           else cspi
       | _ \<Rightarrow> cspi)))"

definition cspi_updateStatus ::
    "'s penv \<Rightarrow> 's executor \<Rightarrow> CStorPoolInstance \<Rightarrow> ('s pm, CStorPoolInstance \<times> goerr option) act" where
  "cspi_updateStatus P x cspi =
     (let pool = PoolName P; oc = \<lparr>zcmdExecutor = x\<rparr>; propertyList = [''health'', ''io.openebs:readonly''] in
      bindS (attemptS (GetListOfPropertyValues P oc pool propertyList)) (\<lambda>r.
        case r of
          Panic m \<Rightarrow> panicS m
        | Err e \<Rightarrow> returnS (cspi, Some (Errorf ''Failed to fetch %v output: %v error: %v'' [AL propertyList, AL [], AE e]))
        | Ok valueList \<Rightarrow>
            bindS (readS (\<lambda>_. bindR (elemAt valueList 0) (\<lambda>phase. bindR (elemAt valueList 1) (\<lambda>ro. Ok (phase, ro = ''on''))))) (\<lambda>(phase, ro).
            bindS (attemptS (GetProvisionedAndHealthyReplicaCount P x)) (\<lambda>counts.
            let status = emptyCSPIStatus\<lparr>cspi_Phase := phase, cspi_ReadOnly := ro,
                           cspi_ProvisionedReplicas := (case counts of Ok (p, h) \<Rightarrow> p | _ \<Rightarrow> 0),
                           cspi_HealthyReplicas := (case counts of Ok (p, h) \<Rightarrow> h | _ \<Rightarrow> 0)\<rparr> in
            bindS (attemptS (GetCSPICapacity P oc pool)) (\<lambda>r.
              case r of
                Panic m \<Rightarrow> panicS m
              | Err e \<Rightarrow> returnS (cspi, Some (Errorf ''Failed to sync due to %s'' [AE e]))
              | Ok capacity \<Rightarrow>
                  bindS (updateROMode P x (status\<lparr>cspi_Capacity := capacity\<rparr>) cspi) (\<lambda>status.
                  bindS (addDiskUnavailableCondition P x cspi) (\<lambda>cspi.
                  let status = status\<lparr>cspi_Conditions := cspi_Conditions (cspi_Status cspi)\<rparr> in
                  if \<not> IsStatusChange (cspi_Status cspi) status then returnS (cspi, None)
                  else
                    let cspi = cspi\<lparr>cspi_Status := status\<rparr> in
                    bindS (attemptS (updateCSPI P cspi)) (\<lambda>r.
                      case r of
                        Panic m \<Rightarrow> panicS m
                      | Err e \<Rightarrow> returnS (cspi, Some (Errorf (''Failed to updateStatus due to '%s'' @ [CHR 0x27]) [AE e]))
                      | Ok cspiGot \<Rightarrow> returnS (cspiGot, None)))))))))"

section \<open>Reconciling an instance\<close>

definition cspi_update_pool ::
    "'s penv \<Rightarrow> 's executor \<Rightarrow> CStorPoolInstance \<Rightarrow> ('s pm, CStorPoolInstance \<times> goerr option) act" where
  "cspi_update_pool P x cspi =
     bindS (UpdatePool P \<lparr>zcmdExecutor = x\<rparr> cspi) (\<lambda>(ncspi, err).
       case err of
         Some e \<Rightarrow> returnS (ncspi, Some (Errorf ''Failed to update pool due to %s'' [AE e]))
       | None \<Rightarrow> cspi_updateStatus P x ncspi)"

definition cspi_sync :: "'s penv \<Rightarrow> 's executor \<Rightarrow> CStorPoolInstance \<Rightarrow> ('s pm, unit) act" where
  "cspi_sync P x cspi = ignoreS (SetPoolProperties P \<lparr>zcmdExecutor = x\<rparr> cspi)"

definition destroy :: "'s penv \<Rightarrow> 's executor \<Rightarrow> CStorPoolInstance \<Rightarrow> ('s pm, unit) act" where
  "destroy P x cspi =
     (if \<not> ContainsString (api P) (Finalizers cspi) PoolProtectionFinalizer then returnS ()
      else
        let updatestatus = (\<lambda>obj e.
              bindS (ignoreS (updateCSPI P (obj\<lparr>cspi_Status := (cspi_Status obj)\<lparr>cspi_Phase := CStorPoolStatusDeletionFailed P\<rparr>\<rparr>)))
                (\<lambda>_. failS e))
        in bindS (attemptS (Delete P \<lparr>zcmdExecutor = x\<rparr> cspi)) (\<lambda>r.
             case r of
               Panic m \<Rightarrow> panicS m
             | Err e \<Rightarrow> updatestatus cspi e
             | Ok _ \<Rightarrow>
                 bindS (attemptS (cspi_removeFinalizer P cspi)) (\<lambda>r.
                   case r of
                     Panic m \<Rightarrow> panicS m
                   | Err e \<Rightarrow> updatestatus
                       (cspi\<lparr>Finalizers := RemoveString (api P) (Finalizers cspi) PoolProtectionFinalizer\<rparr>) e
                   | Ok _ \<Rightarrow> returnS ())))"

text \<open>The part of \<open>reconcile\<close> after validation.\<close>

definition reconcilePool :: "'s penv \<Rightarrow> 's executor \<Rightarrow> CStorPoolInstance \<Rightarrow> ('s pm, unit) act" where
  "reconcilePool P x cspi =
     (let oc = \<lparr>zcmdExecutor = x\<rparr> in
      bindS (Import P oc cspi) (\<lambda>(isImported, err, cspi).
        if isImported
        then
          (case err of
             Some e \<Rightarrow> returnS ()
           | None \<Rightarrow>
               bindS (CheckImportedPoolVolume P) (\<lambda>_.
               bindS (cspi_update_pool P x cspi) (\<lambda>(cspiGot, err).
               cspi_sync P x cspiGot)))
        else if IsEmptyStatus P cspi \<or> IsPendingStatus P cspi
        then
          bindS (attemptS (Create P oc cspi)) (\<lambda>r.
            case r of
              Panic m \<Rightarrow> panicS m
            | Err e \<Rightarrow> ignoreS (Delete P oc cspi)
            | Ok _ \<Rightarrow> bindS (cspi_update_pool P x cspi) (\<lambda>_. returnS ()))
        else
          bindS (readW (\<lambda>w. Ok (now (api P) w))) (\<lambda>t.
          bindS (UpdateStatusConditionEventually P cspi
                   (NewCSPICondition t (CSPIPoolLost P) ''True'' ''PoolLost'' (''failed to import'' @ PoolName P @ ''pool'')))
            (\<lambda>_. returnS ()))))"

definition reconcile :: "'s penv \<Rightarrow> 's executor \<Rightarrow> string \<Rightarrow> ('s pm, unit) act" where
  "reconcile P x key =
     bindS (getCSPIObjFromKey P key) (\<lambda>obj.
       case obj of
         None \<Rightarrow> returnS ()
       | Some cspi \<Rightarrow>
           if IsReconcileDisabled P cspi then returnS ()
           else if IsDestroyed P cspi then destroy P x cspi
           else
             bindS (attemptS (addPoolProtectionFinalizer P cspi)) (\<lambda>r.
               case r of
                 Panic m \<Rightarrow> panicS m
               | Err e \<Rightarrow> returnS ()
               | Ok cspiObj \<Rightarrow>
                   bindS (cspi_reconcileVersion P cspiObj) (\<lambda>(err, cspiObj).
                     case err of
                       Some e \<Rightarrow>
                         ignoreS (updateCSPI P (cspiObj\<lparr>cspi_Version :=
                           setErrorStatus (api P) ''Failed to reconcile cspi version'' e (cspi_Version cspiObj)\<rparr>))
                     | None \<Rightarrow>
                         (case validateCSPI cspiObj of
                            Panic m \<Rightarrow> panicS m
                          | Err e \<Rightarrow> returnS ()
                          | Ok _ \<Rightarrow> reconcilePool P x cspiObj))))"

text \<open>On shutdown the instance of this pod is marked offline, unless its pool was never created.\<close>

fun offlineLoop :: "'s penv \<Rightarrow> CStorPoolInstance list \<Rightarrow> ('s pm, unit) act" where
  "offlineLoop P [] = returnS ()"
| "offlineLoop P (cspi # rest) =
     (if UID cspi = cspiIdEnv P
      then if cspi_Phase (cspi_Status cspi) = '''' \<or> cspi_Phase (cspi_Status cspi) = CStorPoolStatusPending P
           then returnS ()
           else ignoreS (updateCSPI P (cspi\<lparr>cspi_Status := (cspi_Status cspi)\<lparr>cspi_Phase := CStorPoolStatusOffline P\<rparr>\<rparr>))
      else offlineLoop P rest)"

definition markCSPIStatusToOffline :: "'s penv \<Rightarrow> ('s pm, unit) act" where
  "markCSPIStatusToOffline P =
     bindS (attemptS (readW (\<lambda>w. cspi_list (api P) w '''' ''''))) (\<lambda>r.
       case r of Ok cspis \<Rightarrow> offlineLoop P cspis | _ \<Rightarrow> returnS ())"

end
