(* ===== verification/ReplicaController.thy ===== *)
theory ReplicaController
  imports VolumeReplica CspiController
begin

text \<open>
  The controller of volume replicas, \<open>pkg/controllers/replica-controller\<close>: the event filter of
  \<open>controller.go\<close> that decides which operation is queued, and \<open>handler.go\<close>, which carries it out.
  Events, logs and the wait between attempts are left out. A handler that changes the replica it is
  given returns the replica beside the phase and the error, since \<open>syncHandler\<close> writes it.
\<close>

datatype QueueOperation = QOpAdd | QOpDestroy | QOpModify | QOpSync | QOpOther string

section \<open>Predicates on a replica\<close>

definition IsRightCStorVolumeReplica :: "'s renv \<Rightarrow> CStorVolumeReplica \<Rightarrow> bool" where
  "IsRightCStorVolumeReplica R cVR =
     (let uid = mget (Labels cVR) ''cstorpoolinstance.openebs.io/uid''
      in if TrimSpace uid \<noteq> '''' then cspiIdEnv (pool R) = uid else False)"

definition IsDestroyEvent :: "CStorVolumeReplica \<Rightarrow> bool" where
  "IsDestroyEvent cVR = (DeletionTimestamp cVR \<noteq> None)"

definition cvrSpec :: "CStorVolumeReplica \<Rightarrow> string \<times> string \<times> string \<times> string" where
  "cvrSpec c = (cvr_TargetIP c, cvr_Capacity c, cvr_ZvolWorkers c, cvr_ReplicaID c)"

definition cvrStatus ::
    "CStorVolumeReplica \<Rightarrow> string \<times> string \<times> string \<times> (string \<times> 64 word) list \<times> (string \<times> 64 word) list \<times> int \<times> int" where
  "cvrStatus c = (cvr_Phase c, cvr_TotalAllocated c, cvr_Used c, cvr_Snapshots c, cvr_PendingSnapshots c,
                  cvr_LastUpdateTime c, cvr_LastTransitionTime c)"

definition IsOnlyStatusChange :: "CStorVolumeReplica \<Rightarrow> CStorVolumeReplica \<Rightarrow> bool" where
  "IsOnlyStatusChange oldCVR newCVR = (cvrSpec oldCVR = cvrSpec newCVR \<and> cvrStatus oldCVR \<noteq> cvrStatus newCVR)"

definition IsDeletionFailedBefore :: "'s renv \<Rightarrow> CStorVolumeReplica \<Rightarrow> bool" where
  "IsDeletionFailedBefore R cvrObj = (cvr_Phase cvrObj = CVRStatusDeletionFailed R)"

definition IsOnlineStatus :: "'s renv \<Rightarrow> CStorVolumeReplica \<Rightarrow> bool" where
  "IsOnlineStatus R cVR = (cvr_Phase cVR = CVRStatusOnline R)"

definition cvr_IsEmptyStatus :: "'s renv \<Rightarrow> CStorVolumeReplica \<Rightarrow> bool" where
  "cvr_IsEmptyStatus R cVR = (cvr_Phase cVR = CVRStatusEmpty R)"

definition IsInitStatus :: "'s renv \<Rightarrow> CStorVolumeReplica \<Rightarrow> bool" where
  "IsInitStatus R cVR = (cvr_Phase cVR = CVRStatusInit R)"

definition IsRecreateStatus :: "'s renv \<Rightarrow> CStorVolumeReplica \<Rightarrow> bool" where
  "IsRecreateStatus R cVR = (cvr_Phase cVR = CVRStatusRecreate R)"

definition isCVRCreateStatus :: "'s renv \<Rightarrow> CStorVolumeReplica \<Rightarrow> bool" where
  "isCVRCreateStatus R cVR =
     (EqualFold (cvr_Phase cVR) (CVRStatusEmpty R) \<or> EqualFold (cvr_Phase cVR) (CVRStatusRecreate R) \<or>
      EqualFold (cvr_Phase cVR) (CVRStatusInit R))"

definition isEmptyReplicaID :: "CStorVolumeReplica \<Rightarrow> bool" where
  "isEmptyReplicaID cVR = (cvr_ReplicaID cVR = '''')"

section \<open>Events\<close>

text \<open>
  The handlers of the informer: the operation that is queued for the replica, if any. On an add event
  the replica is first written with its next phase; an error of that write is ignored, and the key of
  the returned object is queued, which is an empty object after an error.
\<close>

definition cvrAddFunc :: "'s renv \<Rightarrow> CStorVolumeReplica \<Rightarrow> ('s pm, (CStorVolumeReplica \<times> QueueOperation) option) act" where
  "cvrAddFunc R cvrObj =
     (if \<not> IsRightCStorVolumeReplica R cvrObj then returnS None
      else
        let phase = (if cvr_IsEmptyStatus R cvrObj \<or> IsInitStatus R cvrObj then CVRStatusInit R else CVRStatusRecreate R) in
        bindS (attemptS (onWorld (\<lambda>w. cvr_update R w (Namespace cvrObj) (cvrObj\<lparr>cvr_Phase := phase\<rparr>)))) (\<lambda>r.
          returnS (Some (case r of Ok obj \<Rightarrow> obj | _ \<Rightarrow> emptyCVR, QOpAdd))))"

definition cvrUpdateFunc ::
    "'s renv \<Rightarrow> CStorVolumeReplica \<Rightarrow> CStorVolumeReplica \<Rightarrow> (CStorVolumeReplica \<times> QueueOperation) option" where
  "cvrUpdateFunc R oldCVR newCVR =
     (if \<not> IsRightCStorVolumeReplica R newCVR then None
      else if IsDestroyEvent newCVR then Some (newCVR, QOpDestroy)
      else if IsOnlyStatusChange oldCVR newCVR then None
      else Some (newCVR, QOpSync))"

section \<open>Handling an operation\<close>

definition getVolumeReplicaResource :: "'s renv \<Rightarrow> string \<Rightarrow> ('s pm, CStorVolumeReplica option) act" where
  "getVolumeReplicaResource R key =
     readW (\<lambda>w. case SplitMetaNamespaceKey (api (pool R)) key of
         Panic m \<Rightarrow> Panic m
       | Err e \<Rightarrow> Ok None
       | Ok (ns, name) \<Rightarrow>
           (case cvr_get R w ns name of
              Panic m \<Rightarrow> Panic m
            | Err e \<Rightarrow> if IsNotFound e then Ok None else Err e
            | Ok cvr \<Rightarrow> Ok (Some cvr)))"

definition updateCVR :: "'s renv \<Rightarrow> CStorVolumeReplica \<Rightarrow> ('s pm, CStorVolumeReplica) act" where
  "updateCVR R cvr = onWorld (\<lambda>w. cvr_update R w (Namespace cvr) cvr)"

text \<open>The JSON patch of constant operations always encodes.\<close>

definition cvr_removeFinalizer :: "'s renv \<Rightarrow> CStorVolumeReplica \<Rightarrow> ('s pm, unit) act" where
  "cvr_removeFinalizer R cvrObj =
     onWorld (wrapS (\<lambda>w. cvr_removeFinalizers R w (Namespace cvrObj) (Name cvrObj))
       ''failed to remove finalizers from cvr {%s}'' [AS (Name cvrObj)])"

definition getVolumeReplicaStatus :: "'s renv \<Rightarrow> CStorVolumeReplica \<Rightarrow> string \<Rightarrow> ('s pm, string \<times> goerr option) act" where
  "getVolumeReplicaStatus R cVR fullVolName =
     bindS (attemptS (vr_Status R fullVolName)) (\<lambda>r.
       case r of Panic m \<Rightarrow> panicS m | Err e \<Rightarrow> returnS (cvr_Phase cVR, Some e) | Ok status \<Rightarrow> returnS (status, None))"

definition createVolumeReplica ::
    "'s renv \<Rightarrow> CStorVolumeReplica \<Rightarrow> string \<Rightarrow> ('s pm, CStorVolumeReplica \<times> string \<times> goerr option) act" where
  "createVolumeReplica R cVR fullVolName =
     (let quorum = (\<not> IsRecreateStatus R cVR) in
      case (if isEmptyReplicaID cVR \<and> (cvr_IsEmptyStatus R cVR \<or> IsInitStatus R cVR)
            then GenerateReplicaID R cVR else Ok cVR) of
        Panic m \<Rightarrow> panicS m
      | Err e \<Rightarrow> returnS (cVR, cvr_Phase cVR, Some e)
      | Ok cVR \<Rightarrow>
          if cvr_ReplicaID cVR = '''' then returnS (cVR, cvr_Phase cVR, Some (Errorf ''ReplicaID is not set'' []))
          else
            bindS (CreateVolumeReplica R cVR fullVolName quorum) (\<lambda>(cVR, err).
              case err of
                Some e \<Rightarrow> returnS (cVR, cvr_Phase cVR, Some e)
              | None \<Rightarrow> bindS (getVolumeReplicaStatus R cVR fullVolName) (\<lambda>(status, err). returnS (cVR, status, err))))"

definition cVRAddEventHandler ::
    "'s renv \<Rightarrow> CStorVolumeReplica \<Rightarrow> string \<Rightarrow> ('s pm, CStorVolumeReplica \<times> string \<times> goerr option) act" where
  "cVRAddEventHandler R cVR fullVolName =
     bindS (readS (\<lambda>p. Ok (IsImported p))) (\<lambda>imported.
     bindS (if imported then CheckForInitialImportedPoolVol fullVolName else returnS False) (\<lambda>importedFlag.
       if importedFlag \<and> \<not> cvr_IsEmptyStatus R cVR
       then bindS (getVolumeReplicaStatus R cVR fullVolName) (\<lambda>(status, err). returnS (cVR, status, err))
       else
         bindS (attemptS (GetVolumes (pool R))) (\<lambda>r.
         let existingvol = (case r of Ok vols \<Rightarrow> vols | _ \<Rightarrow> []) in
         if CheckIfPresent existingvol fullVolName
         then
           bindS (if isEmptyReplicaID cVR then attemptS (GetReplicaIDFromZFS R fullVolName)
                  else returnS (Ok (cvr_ReplicaID cVR))) (\<lambda>r.
             case r of
               Panic m \<Rightarrow> panicS m
             | Err e \<Rightarrow> returnS (cVR\<lparr>cvr_ReplicaID := ''''\<rparr>, cvr_Phase cVR,
                                  Some (Wrapf e ''volume replica %s exists'' [AS (Name cVR)]))
             | Ok rid \<Rightarrow>
                 let cVR = cVR\<lparr>cvr_ReplicaID := rid\<rparr> in
                 bindS (getVolumeReplicaStatus R cVR fullVolName) (\<lambda>(status, err). returnS (cVR, status, err)))
         else if isCVRCreateStatus R cVR then createVolumeReplica R cVR fullVolName
         else returnS (cVR, CVRStatusOffline R,
                Some (Errorf ''VolumeReplica offline: %v, %v'' [AS (Name cVR), AS (mget (Labels cVR) ''cstorvolume.openebs.io/name'')])))))"

definition getCVRStatus :: "'s renv \<Rightarrow> CStorVolumeReplica \<Rightarrow> ('s pm, string \<times> goerr option) act" where
  "getCVRStatus R cVR =
     (case GetVolumeName R cVR of
        Panic m \<Rightarrow> panicS m
      | Err e \<Rightarrow> returnS ('''', Some (Errorf ''unable to get volume name:%s'' [AE e]))
      | Ok volumeName \<Rightarrow>
          bindS (attemptS (vr_Status R volumeName)) (\<lambda>r.
            case r of Panic m \<Rightarrow> panicS m | Err e \<Rightarrow> returnS ('''', Some e) | Ok status \<Rightarrow> returnS (status, None)))"

definition restoreCompletedAnnotation :: string where
  "restoreCompletedAnnotation = ''openebs.io/restore-completed''"

text \<open>The part of the sync case for a replica whose restore has completed.\<close>

definition finishRestore ::
    "'s renv \<Rightarrow> CStorVolumeReplica \<Rightarrow> string \<Rightarrow> ('s pm, CStorVolumeReplica) act" where
  "finishRestore R cvrObj fullVolName =
     bindS (GetTargetIp R fullVolName) (\<lambda>targetIp.
     bindS (if targetIp = '''' then SetTargetIp R fullVolName (cvr_TargetIP cvrObj) else returnS ()) (\<lambda>_.
     returnS (cvrObj\<lparr>Annotations := mdel IsRestoreVol (mdel restoreCompletedAnnotation (Annotations cvrObj))\<rparr>)))"

definition cVREventHandler ::
    "'s renv \<Rightarrow> QueueOperation \<Rightarrow> CStorVolumeReplica \<Rightarrow> ('s pm, CStorVolumeReplica \<times> string \<times> goerr option) act" where
  "cVREventHandler R operation cvrObj =
     (case CheckValidVolumeReplica cvrObj of
        Panic m \<Rightarrow> panicS m
      | Err e \<Rightarrow> returnS (cvrObj, CVRStatusOffline R, Some e)
      | Ok _ \<Rightarrow>
          bindS (PoolNameHandler R 2) (\<lambda>found.
            if \<not> found then returnS (cvrObj, cvr_Phase cvrObj, Some (Errorf ''pool not found'' []))
            else
              let fullVolName = vr_GetPoolName R @ ''/'' @ mget (Labels cvrObj) ''cstorvolume.openebs.io/name'';
                  sync =
                    (if isCVRCreateStatus R cvrObj then cVRAddEventHandler R cvrObj fullVolName
                     else
                       bindS (if mget (Annotations cvrObj) restoreCompletedAnnotation = ''true''
                              then attemptS (finishRestore R cvrObj fullVolName) else returnS (Ok cvrObj)) (\<lambda>r.
                         case r of
                           Panic m \<Rightarrow> panicS m
                         | Err e \<Rightarrow> returnS (cvrObj, '''', Some e)
                         | Ok cvrObj \<Rightarrow> bindS (getCVRStatus R cvrObj) (\<lambda>(status, err). returnS (cvrObj, status, err))))
              in case operation of
                   QOpAdd \<Rightarrow> cVRAddEventHandler R cvrObj fullVolName
                 | QOpDestroy \<Rightarrow>
                     bindS (attemptS (DeleteVolume R fullVolName)) (\<lambda>r.
                       case r of
                         Panic m \<Rightarrow> panicS m
                       | Err e \<Rightarrow> returnS (cvrObj, CVRStatusDeletionFailed R, Some e)
                       | Ok _ \<Rightarrow>
                           bindS (attemptS (cvr_removeFinalizer R cvrObj)) (\<lambda>r.
                             case r of
                               Panic m \<Rightarrow> panicS m
                             | Err e \<Rightarrow> returnS (cvrObj, CVRStatusDeletionFailed R, Some e)
                             | Ok _ \<Rightarrow> returnS (cvrObj, '''', None)))
                 | QOpModify \<Rightarrow> sync
                 | QOpSync \<Rightarrow> sync
                 | QOpOther _ \<Rightarrow> returnS (cvrObj, CVRStatusInvalid R, None)))"

section \<open>Reconciling a replica\<close>

text \<open>The version step of the pool instance, on replicas; no upgrade function is registered.\<close>

definition cvr_reconcileVersion ::
    "'s renv \<Rightarrow> CStorVolumeReplica \<Rightarrow> ('s pm, goerr option \<times> CStorVolumeReplica) act" where
  "cvr_reconcileVersion R cvr =
     (let E = api (pool R); v = cvr_Version cvr; base = baseVersion (binaryVersion E) in
      if vd_Current v = vd_Desired v then returnS (None, cvr)
      else
        bindS (readS (\<lambda>_. IsCurrentVersionValid base (vd_Current v))) (\<lambda>currentValid.
          if \<not> currentValid then returnS (Some (Errorf ''invalid current version %s'' [AS (vd_Current v)]), cvr)
          else if \<not> IsDesiredVersionValid base (vd_Desired v)
          then returnS (Some (Errorf ''invalid desired version %s'' [AS (vd_Desired v)]), cvr)
          else
            bindS (if vd_State v \<noteq> ReconcileInProgress E
                   then attemptS (updateCVR R (cvr\<lparr>cvr_Version := setInProgressStatus E v\<rparr>))
                   else returnS (Ok cvr)) (\<lambda>r.
              case r of
                Panic m \<Rightarrow> panicS m
              | Err e \<Rightarrow> returnS (Some e, cvr)
              | Ok cvrObj \<Rightarrow>
                  bindS (attemptS (updateCVR R (cvrObj\<lparr>cvr_Version := setSuccessStatus E (cvr_Version cvrObj)\<rparr>))) (\<lambda>r.
                    case r of
                      Panic m \<Rightarrow> panicS m
                    | Err e \<Rightarrow> returnS (Some e, cvrObj)
                    | Ok obj \<Rightarrow> returnS (None, obj)))))"

definition syncCVRStatus :: "'s renv \<Rightarrow> CStorVolumeReplica \<Rightarrow> ('s pm, CStorVolumeReplica \<times> goerr option) act" where
  "syncCVRStatus R cvr =
     (case GetVolumeName R cvr of
        Panic m \<Rightarrow> panicS m
      | Err e \<Rightarrow> returnS (cvr, Some e)
      | Ok volumeName \<Rightarrow>
          bindS (attemptS (vr_Capacity R volumeName)) (\<lambda>r.
            case r of
              Panic m \<Rightarrow> panicS m
            | Err e \<Rightarrow> returnS (cvr, Some (Wrapf e ''failed to get volume replica capacity'' []))
            | Ok (totalSize, used) \<Rightarrow>
                bindS (GetAndUpdateSnapshotInfo R (cvr\<lparr>cvr_TotalAllocated := totalSize, cvr_Used := used\<rparr>)) (\<lambda>(cvr, err).
                returnS (cvr, map_option (\<lambda>e. Wrapf e ''unable to update snapshot list details in CVR'' []) err))))"

text \<open>The part of \<open>syncHandler\<close> after the version step.\<close>

definition setPhase :: "int \<Rightarrow> string \<Rightarrow> CStorVolumeReplica \<Rightarrow> CStorVolumeReplica" where
  "setPhase t status cvr =
     (let cvr = cvr\<lparr>cvr_LastUpdateTime := t\<rparr> in
      if cvr_Phase cvr \<noteq> status then cvr\<lparr>cvr_LastTransitionTime := t, cvr_Phase := status\<rparr> else cvr)"

definition handleCVR :: "'s renv \<Rightarrow> string \<Rightarrow> QueueOperation \<Rightarrow> CStorVolumeReplica \<Rightarrow> ('s pm, unit) act" where
  "handleCVR R key operation cvrGot =
     bindS (cVREventHandler R operation cvrGot) (\<lambda>(cvrGot, status, err).
       if status = '''' then returnS ()
       else
         bindS (readW (\<lambda>w. Ok (now (api (pool R)) w))) (\<lambda>t.
         let cvrGot = setPhase t status cvrGot in
         case err of
           Some e \<Rightarrow>
             if cvrUpdateErrorInjected R then failS (Errorf ''CVR update error via injection'' [])
             else
               bindS (attemptS (updateCVR R cvrGot)) (\<lambda>r.
                 case r of
                   Panic m \<Rightarrow> panicS m
                 | Err e1 \<Rightarrow> failS (Wrapf e ''failed to reconcile cvr {%s}: failed to update cvr with phase {%s}: {%s}''
                                      [AS key, AS (cvr_Phase cvrGot), AE e1])
                 | Ok _ \<Rightarrow> failS (Wrapf e ''failed to reconcile cvr {%s}'' [AS key]))
         | None \<Rightarrow>
             bindS (syncCVRStatus R cvrGot) (\<lambda>(cvrGot, err).
             bindS (wrapS (updateCVR R cvrGot) ''failed to reconcile cvr {%s}: failed to update cvr with phase {%s}''
                      [AS key, AS (cvr_Phase cvrGot)]) (\<lambda>_.
             returnS ()))))"

definition syncHandler :: "'s renv \<Rightarrow> string \<Rightarrow> QueueOperation \<Rightarrow> ('s pm, unit) act" where
  "syncHandler R key operation =
     bindS (getVolumeReplicaResource R key) (\<lambda>cvr.
       case cvr of
         None \<Rightarrow> failS (Errorf ''failed to reconcile cvr {%s}: object not found'' [AS key])
       | Some cvrGot \<Rightarrow>
           bindS (cvr_reconcileVersion R cvrGot) (\<lambda>(err, cvrGot).
             case err of
               Some e \<Rightarrow>
                 ignoreS (updateCVR R (cvrGot\<lparr>cvr_Version :=
                   setErrorStatus (api (pool R)) ''Failed to reconcile cvr version'' e (cvr_Version cvrGot)\<rparr>))
             | None \<Rightarrow> handleCVR R key operation cvrGot))"

fun cvrOfflineLoop :: "'s renv \<Rightarrow> CStorVolumeReplica list \<Rightarrow> ('s pm, unit) act" where
  "cvrOfflineLoop R [] = returnS ()"
| "cvrOfflineLoop R (cvr # rest) =
     bindS (if cvr_Phase cvr = '''' \<or> cvr_Phase cvr = CVRStatusInit R then returnS ()
            else ignoreS (updateCVR R (cvr\<lparr>cvr_Phase := CVRStatusOffline R\<rparr>))) (\<lambda>_.
     cvrOfflineLoop R rest)"

definition markCVRStatusToOffline :: "'s renv \<Rightarrow> ('s pm, unit) act" where
  "markCVRStatusToOffline R =
     bindS (attemptS (readW (\<lambda>w. cvr_list (api (pool R)) w '''' (''cstorpoolinstance.openebs.io/uid='' @ cspiIdEnv (pool R))))) (\<lambda>r.
       case r of Ok cvrs \<Rightarrow> cvrOfflineLoop R cvrs | _ \<Rightarrow> returnS ())"

end
