(* ===== verification/SampleNode.thy ===== *)
theory SampleNode
  imports CspiController SampleServer
begin

text \<open>
  A concrete storage node beside the sample API server: its executor records every command line
  and knows which pools exist. Like the sample server it is an example for the witnesses and
  models no code of the repository.
\<close>

definition sampleExec :: "store executor" where
  "sampleExec cmd s =
     (let s' = s\<lparr>st_commands := st_commands s @ [cmd]\<rparr>; failed = Some (ApiError ''exit status 1'') in
      if HasPrefix cmd ''zpool create'' then (('''', None), s'\<lparr>st_zpools := [''cstor-p'']\<rparr>)
      else if HasPrefix cmd ''zpool destroy'' then (('''', None), s'\<lparr>st_zpools := []\<rparr>)
      else if HasPrefix cmd ''zpool get'' then (if st_zpools s = [] then (('''', failed), s') else ((''ONLINE'', None), s'))
      else if HasPrefix cmd ''zpool import'' then (('''', failed), s')
      else (('''', None), s'))"

text \<open>The first vdev in a list or below it with the given path.\<close>

fun sampleVdev :: "Vdev list \<Rightarrow> string \<Rightarrow> Vdev option" where
  "sampleVdev [] path = None"
| "sampleVdev (Vdev p wd st sc ch # vs) path =
     (if p = path then Some (Vdev p wd st sc ch)
      else (case sampleVdev ch path of Some v \<Rightarrow> Some v | None \<Rightarrow> sampleVdev vs path))"

definition sampleTopology :: Topology where
  "sampleTopology =
     \<lparr>Topvdev = [Vdev ''/dev/a1'' 0 [0, 7, 5] [1, 2] [], Vdev ''/dev/a2'' 0 [0, 7, 5] [1, 2] []], Spares = [], Readcache = []\<rparr>"

definition samplePM :: "store penv" where
  "samplePM =
    \<lparr>api = sampleEnv,
     bash = sampleExec,
     RunStdoutPipe = (\<lambda>c a s. (('''', None), s)),
     cspi_get = (\<lambda>s ns n. lookupObj Name n (st_cspis s)),
     unmarshalTopology = (\<lambda>s. Ok sampleTopology),
     unmarshalStats = (\<lambda>s. Ok []),
     spareCap = (\<lambda>s. 8),
     GetVdevFromPath = sampleVdev,
     GetBlockDeviceClaimFromBDName =
       (\<lambda>cs n. case find (\<lambda>c. bdc_BlockDeviceName c = n) cs of Some c \<Rightarrow> Ok c | None \<Rightarrow> Err (NotFound n)),
     QuantityValue = word_of_int,
     GetAllRaidGroups = (\<lambda>c. DataRaidGroups (cspi_Spec c) @ WriteCacheRaidGroups (cspi_Spec c)),
     IsDestroyed = (\<lambda>c. DeletionTimestamp c \<noteq> None),
     IsEmptyStatus = (\<lambda>c. cspi_Phase (cspi_Status c) = ''''),
     IsPendingStatus = (\<lambda>c. cspi_Phase (cspi_Status c) = ''Pending''),
     HasAnnotation = (\<lambda>c k v. mget (Annotations c) k = v),
     Sprintf = (\<lambda>f a. f),
     rangeRaid = (\<lambda>s. [''data'', ''log'']),
     GetEnvNamespace = ''openebs'',
     poolNameEnv = ''p'',
     cspiIdEnv = ''uid-c1-x'',
     zfsGetErrorInjected = False,
     CStorPoolBasePath = ''/var/openebs/cstor-pool/'',
     CacheFileName = ''pool.cache'',
     OpenEBSCStorExistingPoolName = ''cstor.openebs.io/existing-pool-name'',
     VdevScanProcessedIndex = 2,
     VdevStateIndex = 1,
     VdevScanStatsStateIndex = 1,
     VdevScanStatsScanFuncIndex = 0,
     PoolScanFinished = 3,
     PoolScanFuncResilver = 2,
     VdevStateHealthy = 7,
     CSPIPoolExpansion = ''PoolExpansion'',
     CSPIDiskReplacement = ''DiskReplacement'',
     CSPIPoolLost = ''PoolLost'',
     CSPIDiskUnavailable = ''DiskUnavailable'',
     CStorPoolStatusDeletionFailed = ''DeletionFailed'',
     CStorPoolStatusPending = ''Pending'',
     CStorPoolStatusOffline = ''OFFLINE''\<rparr>"

definition samplePm :: "store \<Rightarrow> store pm" where
  "samplePm s = \<lparr>world = s, IsImported = False, InitialImportedPoolVol = [], fsCache = []\<rparr>"

text \<open>An instance with the protection finalizer on the node of \<open>sampleStore\<close>, its store, and an executor that cannot destroy pools.\<close>

definition protectedCSPI :: CStorPoolInstance where
  "protectedCSPI =
     (sampleCSPI ''c1-x'' ''c1'' ''n1'' (samplePool ''n1'' ''mirror'' [[''a1'', ''a2'']]))\<lparr>Finalizers := [PoolProtectionFinalizer]\<rparr>"

definition nodeStore :: store where
  "nodeStore = sampleStore\<lparr>st_cspis := [protectedCSPI], st_zpools := [''cstor-p'']\<rparr>"

definition busyExec :: "store executor" where
  "busyExec cmd s =
     (if HasPrefix cmd ''zpool destroy'' then ((''pool is busy'', Some (ApiError ''exit status 1'')), s) else sampleExec cmd s)"

end
