(* ===== verification/SampleReplica.thy ===== *)
theory SampleReplica
  imports ReplicaController SampleNode
begin

text \<open>
  A concrete node for the witnesses on volume replicas. Its list of pools also holds the volumes; \<open>zfs\<close>
  queries answer with fixed values, \<open>zfs destroy\<close> removes the volume, and a transfer script succeeds on its
  second run. It models no code of the repository.
\<close>

definition replicaExec :: "store executor" where
  "replicaExec cmd s =
     (if HasPrefix cmd ''zfs ''
      then (((if HasPrefix cmd ''zfs get '' then ''10'' @ [CHR 0x0A] @ ''20'' @ [CHR 0x0A] else ''''), None),
            s\<lparr>st_commands := st_commands s @ [cmd]\<rparr>)
      else sampleExec cmd s)"

definition sampleRun :: "string \<Rightarrow> string list \<Rightarrow> store \<Rightarrow> (string \<times> goerr option) \<times> store" where
  "sampleRun prog args s =
     (let cmd = Join (prog # args) '' ''; s' = s\<lparr>st_commands := st_commands s @ [cmd]\<rparr> in
      case args of
        [] \<Rightarrow> (('''', None), s')
      | c # rest \<Rightarrow>
          if c = ''destroy''
          then (if last args \<in> set (st_zpools s) then (('''', None), s'\<lparr>st_zpools := filter (\<lambda>v. v \<noteq> last args) (st_zpools s)\<rparr>)
                else ((''cannot open: dataset does not exist'', Some (ApiError ''exit status 1'')), s'))
          else if prog = ExecuteScript \<and> \<not> List.member (st_commands s) cmd
          then ((''connection refused'', Some (ApiError ''exit status 1'')), s')
          else (('''', None), s'))"

definition sampleRenv :: "store renv" where
  "sampleRenv =
    \<lparr>pool = samplePM\<lparr>bash := replicaExec,
       RunStdoutPipe := (\<lambda>prog args s. ((Join (st_zpools s) [CHR 0x0A], None), s))\<rparr>,
     RunCombinedOutput = sampleRun,
     unmarshalSnapshotList = (\<lambda>_. Ok \<lparr>sl_Name = ''v1'', SnapList = [(''s1'', ''''), (''s2'', '''')]\<rparr>),
     marshalUID = Ok,
     xxhashSum64 = (\<lambda>s. of_nat (length s)),
     cvr_get = (\<lambda>s ns n. lookupObj Name n (st_cvrs s)),
     cvr_update = (\<lambda>s ns c. storeWith (\<lambda>xs s. s\<lparr>st_cvrs := xs\<rparr>) (replaceObj Name c (st_cvrs s)) c s),
     cvr_removeFinalizers = (\<lambda>s ns n. (Ok (), s\<lparr>st_cvrs := filter (\<lambda>c. Name c \<noteq> n) (st_cvrs s)\<rparr>)),
     zfsCreateErrorInjected = False,
     zfsDeleteErrorInjected = False,
     cvrUpdateErrorInjected = False,
     CloneEnableKEY = ''openebs.io/cloned'',
     SourceVolumeKey = ''openebs.io/source-volume'',
     SnapshotNameKey = ''openebs.io/snapshot'',
     PersistentVolumeLabelKey = ''openebs.io/persistent-volume'',
     CVRStatusOnline = ''Healthy'',
     CVRStatusOffline = ''Offline'',
     CVRStatusDegraded = ''Degraded'',
     CVRStatusNewReplicaDegraded = ''NewReplicaDegraded'',
     CVRStatusRebuilding = ''Rebuilding'',
     CVRStatusReconstructingNewReplica = ''ReconstructingNewReplica'',
     CVRStatusError = ''Error'',
     CVRStatusEmpty = '''',
     CVRStatusInit = ''Init'',
     CVRStatusRecreate = ''Recreate'',
     CVRStatusDeletionFailed = ''DeletionFailed'',
     CVRStatusInvalid = ''Invalid''\<rparr>"

definition sampleCVR :: "string \<Rightarrow> string \<Rightarrow> (string \<times> 64 word) list \<Rightarrow> CStorVolumeReplica" where
  "sampleCVR n phase snaps =
     emptyCVR\<lparr>Name := n, Namespace := ''openebs'',
       Labels := [(''cstorvolume.openebs.io/name'', ''v1''), (''openebs.io/persistent-volume'', ''v1''),
                  (''cstorpoolinstance.openebs.io/uid'', ''uid-c1-x'')],
       cvr_TargetIP := ''10.0.0.1'', cvr_Capacity := ''5Gi'', cvr_Phase := phase, cvr_Snapshots := snaps\<rparr>"

text \<open>The node with the volume of a replica that is rebuilding, and a second replica of the volume elsewhere.\<close>

definition replicaStore :: store where
  "replicaStore =
     nodeStore\<lparr>st_zpools := [''cstor-p'', ''cstor-p/v1''],
       st_cvrs := [sampleCVR ''v1-a'' ''Rebuilding'' [], sampleCVR ''v1-b'' ''Healthy'' [(''s0'', 5), (''s1'', 7)]]\<rparr>"

definition sampleBackup :: CStorBackup where
  "sampleBackup =
     ObjectMeta.extend (sampleMeta ''b1'' [])
       \<lparr>bkp_BackupName = ''b'', bkp_VolumeName = ''v1'', bkp_SnapName = ''s1'', bkp_PrevSnapName = '''',
        bkp_BackupDest = ''10.0.0.2:9000'', bkp_LocalSnap = False, bkp_Status = ''Init''\<rparr>"

end
