(* ===== verification/PoolSafety.thy ===== *)
theory PoolSafety
  imports SampleNode
begin

text \<open>
  What the pool manager may do to a pool, and what its commands are: which commands a live instance can
  cause, when claims are released, how a pool is created and destroyed, when it turns read-only, and
  that its properties are set once.
\<close>

section \<open>Commands on the node\<close>

text \<open>
  The commands that leave the existence of a pool alone: no \<open>create\<close>, \<open>destroy\<close>,
  \<open>labelclear\<close>, \<open>export\<close>, \<open>detach\<close> or \<open>offline\<close> is among them.
\<close>

definition liveCommand :: "string \<Rightarrow> bool" where
  "liveCommand cmd =
     list_ex (HasPrefix cmd) [''zpool get '', ''zpool import '', ''zpool dump '', ''zpool add '', ''zpool replace '',
       ''zpool set '', ''zfs get '', ''zfs set '', ''zfs stats '', ''zfs list '']"

text \<open>Predicates on the world that neither these commands nor writes of instances touch, and those
  that writes of block device claims do not touch.\<close>

definition quiet :: "'s penv \<Rightarrow> 's executor \<Rightarrow> ('s \<Rightarrow> bool) \<Rightarrow> bool" where
  "quiet P x I \<longleftrightarrow>
     (\<forall>cmd w. liveCommand cmd \<longrightarrow> I w \<longrightarrow> I (snd (x cmd w))) \<and>
     (\<forall>a w. I w \<longrightarrow> I (snd (RunStdoutPipe P ''zfs'' (''get'' # a) w))) \<and>
     (\<forall>ns c. keeps I (\<lambda>w. cspi_update (api P) w ns c))"

definition claimsQuiet :: "'s penv \<Rightarrow> ('s \<Rightarrow> bool) \<Rightarrow> bool" where
  "claimsQuiet P I \<longleftrightarrow>
     (\<forall>ns b. keeps I (\<lambda>w. bdc_update (api P) w ns b)) \<and> (\<forall>ns n. keeps I (\<lambda>w. bdc_delete (api P) w ns n))"

lemma quietD:
  assumes "quiet P x I"
  shows "liveCommand cmd \<Longrightarrow> I w \<Longrightarrow> I (snd (x cmd w))"
    and "I w \<Longrightarrow> I (snd (RunStdoutPipe P ''zfs'' (''get'' # a) w))"
    and "keeps I (\<lambda>w. cspi_update (api P) w ns c)"
  using assms by (auto simp: quiet_def)

abbreviation keepsW :: "('s \<Rightarrow> bool) \<Rightarrow> ('s pm, 'a) act \<Rightarrow> bool" where
  "keepsW I m \<equiv> keeps (\<lambda>p. I (world p)) m"

lemma keepsW_onWorld: "keeps I m \<Longrightarrow> keepsW I (onWorld m)"
  by (fastforce simp: keeps_def onWorld_def split: prod.splits)

lemma keepsW_readW [keeps_intros]: "keepsW I (readW f)"
  by (simp add: readW_def keeps_readS)

lemma keepsW_runZ: "(\<And>w. I w \<Longrightarrow> I (snd (m w))) \<Longrightarrow> keepsW I (runZ m)"
  by (fastforce simp: keeps_def runZ_def split: prod.splits)

lemma keepsW_setImported [keeps_intros]: "keepsW I (setImported b)"
  by (simp add: keeps_def setImported_def)

lemma keepsW_storeCache [keeps_intros]: "keepsW I (storeCache d m)"
  by (simp add: keeps_def storeCache_def)

lemma keepsW_vols [keeps_intros]: "keepsW I (\<lambda>p. (Ok (), p\<lparr>InitialImportedPoolVol := v\<rparr>))"
  by (simp add: keeps_def)

lemma keepsW_failOpt [keeps_intros]: "keepsW I (failOpt e)"
  unfolding failOpt_def by (intro keeps_intros)

text \<open>Without checks, \<open>Build\<close> only writes the command line.\<close>

lemma Validate_noChecks [simp]: "Validate noChecks p = p"
proof -
  have "validateLoop noChecks cs p = p" for cs by (induction cs) (simp_all add: noChecks_def)
  then show ?thesis by (simp add: Validate_def)
qed

lemma buildWith_noChecks [simp]: "buildWith render noChecks p = (p\<lparr>Command := render p\<rparr>, cmd_err p)"
  by (simp add: buildWith_def Let_def)

lemma executeWith_snd:
  "(cmd_err p = None \<Longrightarrow> I (snd (run (p\<lparr>Command := render p\<rparr>) w))) \<Longrightarrow> I w \<Longrightarrow>
   I (snd (executeWith (buildWith render noChecks p) run w))"
  by (simp add: executeWith_def split: option.split)

lemma live_commands:
  "liveCommand (pget_command p)" "liveCommand (pimport_command i)" "liveCommand (pdump_command d)"
  "liveCommand (padd_command a)" "liveCommand (preplace_command r)" "liveCommand (pset_command q)"
  "liveCommand (vget_command g)" "liveCommand (vset_command v)" "liveCommand (vstats_command t)"
  "liveCommand (vlist_command l)"
  by (simp_all only: pget_command_def pimport_command_def pdump_command_def padd_command_def preplace_command_def
      pset_command_def vget_command_def vset_command_def vstats_command_def vlist_command_def ZPOOL_def ZFS_def)
    (simp_all add: liveCommand_def HasPrefix_def)

lemma runCmd_WithExecutor [simp]: "runCmd b ((WithExecutor x p)\<lparr>Command := c\<rparr>) w = x c w"
  by (simp add: runCmd_def WithExecutor_def)

lemma snd_case_output [simp]:
  "snd (case r of ((out, Some e), w) \<Rightarrow> (f out e, w) | ((out, None), w) \<Rightarrow> (g out, w)) = snd r"
  by (simp split: prod.splits option.splits)

text \<open>Executing a builder of a live command, with the executor of the instance.\<close>

lemma live_execute:
  assumes q: "quiet P x I" and w: "I w"
  shows "I (snd (pget_Execute b noChecks (WithExecutor x p1) w))"
    and "I (snd (pimport_Execute b noChecks (WithExecutor x p2) w))"
    and "I (snd (padd_Execute b noChecks (WithExecutor x p3) w))"
    and "I (snd (preplace_Execute b noChecks (WithExecutor x p4) w))"
    and "I (snd (pset_Execute b noChecks (WithExecutor x p5) w))"
    and "I (snd (vget_Execute b noChecks (WithExecutor x p6) w))"
    and "I (snd (vset_Execute b noChecks (WithExecutor x p7) w))"
    and "I (snd (vlist_Execute b noChecks (WithExecutor x p8) w))"
    and "I (snd (pdump_Execute b u sp noChecks (WithExecutor x p9) w))"
    and "I (snd (vstats_Execute b us noChecks (WithExecutor x p10) w))"
proof -
  have r: "I (snd (x c w))" if "liveCommand c" for c by (rule quietD(1) [OF q that w])
  show "I (snd (pget_Execute b noChecks (WithExecutor x p1) w))"
    unfolding pget_Execute_def pget_Build_def by (rule executeWith_snd) (simp_all add: r w live_commands)
  show "I (snd (pimport_Execute b noChecks (WithExecutor x p2) w))"
    unfolding pimport_Execute_def pimport_Build_def by (rule executeWith_snd) (simp_all add: r w live_commands)
  show "I (snd (padd_Execute b noChecks (WithExecutor x p3) w))"
    unfolding padd_Execute_def padd_Build_def by (rule executeWith_snd) (simp_all add: r w live_commands)
  show "I (snd (preplace_Execute b noChecks (WithExecutor x p4) w))"
    unfolding preplace_Execute_def preplace_Build_def by (rule executeWith_snd) (simp_all add: r w live_commands)
  show "I (snd (pset_Execute b noChecks (WithExecutor x p5) w))"
    unfolding pset_Execute_def pset_Build_def by (rule executeWith_snd) (simp_all add: r w live_commands)
  show "I (snd (vget_Execute b noChecks (WithExecutor x p6) w))"
    unfolding vget_Execute_def vget_Build_def
    by (rule executeWith_snd) (simp_all add: r w live_commands WithExecutor_def)
  show "I (snd (vset_Execute b noChecks (WithExecutor x p7) w))"
    unfolding vset_Execute_def vset_Build_def by (rule executeWith_snd) (simp_all add: r w live_commands)
  show "I (snd (vlist_Execute b noChecks (WithExecutor x p8) w))"
    unfolding vlist_Execute_def vlist_Build_def by (rule executeWith_snd) (simp_all add: r w live_commands)
  show "I (snd (pdump_Execute b u sp noChecks (WithExecutor x p9) w))"
    using r [OF live_commands(3) [of "WithExecutor x p9"]] by (auto simp: pdump_Execute_def pdump_Build_def w split: prod.splits option.splits)
  show "I (snd (vstats_Execute b us noChecks (WithExecutor x p10) w))"
    using r [OF live_commands(9) [of "WithExecutor x p10"]] by (auto simp: vstats_Execute_def vstats_Build_def w split: prod.splits option.splits)
qed

named_theorems live_intros \<open>operations that leave the existence of the pool alone\<close>

lemma keepsW_live [live_intros]:
  assumes q: "quiet P x I"
  shows "keepsW I (runZ (pget_Execute b noChecks (WithExecutor x p1)))"
    and "keepsW I (runZ (pimport_Execute b noChecks (WithExecutor x p2)))"
    and "keepsW I (runZ (padd_Execute b noChecks (WithExecutor x p3)))"
    and "keepsW I (runZ (preplace_Execute b noChecks (WithExecutor x p4)))"
    and "keepsW I (runZ (pset_Execute b noChecks (WithExecutor x p5)))"
    and "keepsW I (runZ (vget_Execute b noChecks (WithExecutor x p6)))"
    and "keepsW I (runZ (vset_Execute b noChecks (WithExecutor x p7)))"
    and "keepsW I (runZ (vlist_Execute b noChecks (WithExecutor x p8)))"
    and "keepsW I (onWorld (pdump_Execute b u sp noChecks (WithExecutor x p9)))"
    and "keepsW I (onWorld (vstats_Execute b us noChecks (WithExecutor x p10)))"
    and "keepsW I (runZ (RunStdoutPipe P ''zfs'' (''get'' # a)))"
    and "keepsW I (onWorld (\<lambda>w. cspi_update (api P) w ns c))"
  by (intro keepsW_runZ keepsW_onWorld keeps_wrapS keepsI live_execute [OF q] quietD [OF q] | assumption | erule keepsD [OF quietD(3) [OF q]])+

section \<open>Pool operations that leave the existence of the pool alone\<close>

lemma keepsW_getPathForBDev [keeps_intros]: "keepsW I (getPathForBDev P b)"
  unfolding getPathForBDev_def Let_def by (intro keeps_intros)

lemma keepsW_pathListLoop [keeps_intros]: "keepsW I (pathListLoop P bs vdev err)"
  by (induction bs arbitrary: vdev err) (simp_all only: pathListLoop.simps, (intro keeps_intros | assumption)+)

lemma keepsW_getPathForBdevList [keeps_intros]: "keepsW I (getPathForBdevList P bs)"
  unfolding getPathForBdevList_def Let_def by (intro keeps_intros)

lemma keepsW_firstBDPath [keeps_intros]: "keepsW I (firstBDPath P c)"
  unfolding firstBDPath_def Let_def by (intro keeps_intros)

lemma keepsW_checkIfPoolPresent [live_intros]:
  assumes q: "quiet P x I"
  shows "keepsW I (checkIfPoolPresent P n x)"
  unfolding checkIfPoolPresent_def Let_def by (intro keeps_intros live_intros | rule q)+

lemma keepsW_zpoolDump [live_intros]:
  assumes q: "quiet P x I"
  shows "keepsW I (zpoolDump P x)"
  unfolding zpoolDump_def Let_def by (intro keeps_intros live_intros | rule q)+

lemma keepsW_executeZpoolDump [live_intros]:
  assumes q: "quiet P x I"
  shows "keepsW I (executeZpoolDump P c x)"
  unfolding executeZpoolDump_def Let_def by (intro keeps_intros live_intros | rule q)+

lemma keepsW_isResilveringInProgress [live_intros]:
  assumes q: "quiet P x I"
  shows "keepsW I (isResilveringInProgress P (executeZpoolDump P) c path x)"
  unfolding isResilveringInProgress_def Let_def by (intro keeps_intros live_intros | rule q)+

lemma keepsW_checkIfPoolIsImportable [live_intros]:
  assumes q: "quiet P x I"
  shows "keepsW I (checkIfPoolIsImportable P \<lparr>zcmdExecutor = x\<rparr> c)"
  unfolding checkIfPoolIsImportable_def Let_def OperationsConfig.simps by (intro keeps_intros live_intros | rule q)+

lemma keepsW_addRaidGroup [live_intros]:
  assumes q: "quiet P x I"
  shows "keepsW I (addRaidGroup P \<lparr>zcmdExecutor = x\<rparr> r d t)"
  unfolding addRaidGroup_def Let_def OperationsConfig.simps by (intro keeps_intros live_intros | rule q)+

lemma keepsW_importCmd [live_intros]:
  assumes q: "quiet P x I"
  shows "keepsW I (importCmd P \<lparr>zcmdExecutor = x\<rparr> e src)"
  unfolding importCmd_def Let_def OperationsConfig.simps by (intro keeps_intros live_intros | rule q)+

lemma keepsW_importFrom [live_intros]:
  assumes q: "quiet P x I"
  shows "keepsW I (importFrom P \<lparr>zcmdExecutor = x\<rparr> e c)"
  unfolding importFrom_def Let_def by (intro keeps_intros live_intros | rule q)+

lemma keepsW_Import [live_intros]:
  assumes q: "quiet P x I"
  shows "keepsW I (Import P \<lparr>zcmdExecutor = x\<rparr> c)"
  unfolding Import_def Let_def OperationsConfig.simps by (intro keeps_intros live_intros | rule q)+

lemma keepsW_replacePoolVdev [live_intros]:
  assumes q: "quiet P x I"
  shows "keepsW I (replacePoolVdev P \<lparr>zcmdExecutor = x\<rparr> c old new)"
  unfolding replacePoolVdev_def Let_def OperationsConfig.simps by (intro keeps_intros live_intros | rule q)+

text \<open>
  The end of a replacement writes claims. \<open>settles\<close> says that a predicate survives it; it does when
  writes of claims keep the predicate, and also when the pool is seen to resilver, since then the
  claims are not written.
\<close>

definition settles :: "'s penv \<Rightarrow> 's executor \<Rightarrow> ('s \<Rightarrow> bool) \<Rightarrow> bool" where
  "settles P x I \<longleftrightarrow>
     (\<forall>c cl b pr n d u. keepsW I (finishReplacement P \<lparr>zcmdExecutor = x\<rparr> c cl b pr n d u))"

lemma keepsW_finishReplacement [live_intros]:
  "settles P x I \<Longrightarrow> keepsW I (finishReplacement P \<lparr>zcmdExecutor = x\<rparr> c cl b pr n d u)"
  by (simp add: settles_def)

lemma claimsQuiet_settles:
  assumes q: "quiet P x I" and c: "claimsQuiet P I"
  shows "settles P x I"
proof -
  have marks: "keepsW I (cleanUpReplacementMarks P old new)" for old new
    unfolding cleanUpReplacementMarks_def Let_def
    using c by (intro keeps_intros keepsW_onWorld) (simp_all add: claimsQuiet_def)
  show ?thesis
    unfolding settles_def finishReplacement_def Let_def OperationsConfig.simps
    by (intro allI keeps_intros live_intros marks | rule q)+
qed

text \<open>The pool is seen to resilver: whatever device is looked up in the topology, its resilvering is not over.\<close>

definition seenResilvering :: "'s penv \<Rightarrow> 's executor \<Rightarrow> ('s \<Rightarrow> bool) \<Rightarrow> bool" where
  "seenResilvering P x I \<longleftrightarrow>
     (\<forall>p t p' path v. I (world p) \<longrightarrow> zpoolDump P x p = (Ok t, p') \<longrightarrow> getVdevFromPath P path t = Some v \<longrightarrow>
        vdevResilvering P v = Ok True)"

lemma seenResilvering_in_progress:
  assumes "seenResilvering P x I" and "I (world p)"
    and "isResilveringInProgress P (executeZpoolDump P) c path x p = (Ok b, p')"
  shows b
proof -
  obtain r q where dump: "zpoolDump P x p = (r, q)" by (cases "zpoolDump P x p")
  show ?thesis
  proof (cases r)
    case (Ok t)
    show ?thesis
    proof (cases "getVdevFromPath P path t")
      case (Some v)
      with assms dump Ok have "vdevResilvering P v = Ok True" unfolding seenResilvering_def by blast
      with assms(3) dump Ok Some show ?thesis
        by (simp add: isResilveringInProgress_def executeZpoolDump_def bindS_def attemptS_def)
    qed (use assms(3) dump Ok in \<open>simp add: isResilveringInProgress_def executeZpoolDump_def bindS_def attemptS_def\<close>)
  qed (use assms(3) dump in \<open>simp_all add: isResilveringInProgress_def executeZpoolDump_def bindS_def attemptS_def\<close>)
qed

lemma seenResilvering_settles:
  fixes P :: "'a penv"
  assumes q: "quiet P x I" and r: "seenResilvering P x I"
  shows "settles P x I"
  unfolding settles_def
proof (intro allI keepsI)
  fix c cl b pr n d u and p :: "'a pm"
  assume i: "I (world p)"
  let ?m = "isResilveringInProgress P (executeZpoolDump P) c d x"
  have k: "I (world (snd (?m p)))" using keepsW_isResilveringInProgress [OF q] i by (rule keepsD)
  obtain res p' where m: "?m p = (res, p')" by (cases "?m p")
  show "I (world (snd (finishReplacement P \<lparr>zcmdExecutor = x\<rparr> c cl b pr n d u p)))"
  proof (cases res)
    case (Ok y)
    with m have y using seenResilvering_in_progress [OF r i] by blast
    with Ok k m i show ?thesis by (simp add: finishReplacement_def bindS_def)
  qed (use k m i in \<open>simp_all add: finishReplacement_def bindS_def\<close>)
qed

lemma keepsW_updateBDev [live_intros]:
  assumes q: "quiet P x I" and r: "settles P x I"
  shows "keepsW I (updateBDev P \<lparr>zcmdExecutor = x\<rparr> c cl b u)"
  unfolding updateBDev_def Let_def OperationsConfig.simps by (intro keeps_intros live_intros | rule q r)+

lemma keepsW_updateBDevs [live_intros]:
  assumes q: "quiet P x I" and r: "settles P x I"
  shows "keepsW I (updateBDevs P \<lparr>zcmdExecutor = x\<rparr> c cl bs u)"
  by (induction bs arbitrary: u) (simp_all only: updateBDevs.simps, (intro keeps_intros live_intros | rule q r | assumption)+)

lemma keepsW_updateGroups [live_intros]:
  assumes q: "quiet P x I" and r: "settles P x I"
  shows "keepsW I (updateGroups P \<lparr>zcmdExecutor = x\<rparr> c cl gs u)"
  by (induction gs arbitrary: u) (simp_all only: updateGroups.simps, (intro keeps_intros live_intros | rule q r | assumption)+)

lemma keepsW_updateKinds [live_intros]:
  assumes q: "quiet P x I" and r: "settles P x I"
  shows "keepsW I (updateKinds P \<lparr>zcmdExecutor = x\<rparr> cl ds c u)"
  by (induction ds arbitrary: c u) (simp_all only: updateKinds.simps, (intro keeps_intros live_intros | rule q r | assumption)+)

lemma keepsW_newDevices [keeps_intros]: "keepsW I (newDevices P t bs)"
  by (induction bs) (simp_all only: newDevices.simps, (intro keeps_intros | assumption)+)

lemma keepsW_expandGroup [live_intros]:
  assumes q: "quiet P x I"
  shows "keepsW I (expandGroup P \<lparr>zcmdExecutor = x\<rparr> t g acc)"
  unfolding expandGroup_def Let_def OperationsConfig.simps by (intro keeps_intros live_intros | rule q)+

lemma keepsW_updateNewVdevFromCSPI [live_intros]:
  assumes q: "quiet P x I"
  shows "keepsW I (updateNewVdevFromCSPI P \<lparr>zcmdExecutor = x\<rparr> c)"
  unfolding updateNewVdevFromCSPI_def Let_def OperationsConfig.simps by (intro keeps_intros live_intros | rule q)+

lemma keepsW_getBlockDeviceClaimList [keeps_intros]: "keepsW I (getBlockDeviceClaimList P k v)"
  unfolding getBlockDeviceClaimList_def Let_def by (intro keeps_intros)

lemma keepsW_UpdatePool [live_intros]:
  assumes q: "quiet P x I" and r: "settles P x I"
  shows "keepsW I (UpdatePool P \<lparr>zcmdExecutor = x\<rparr> c)"
  unfolding UpdatePool_def Let_def by (intro keeps_intros live_intros | rule q r)+

lemma keepsW_GetListOfPropertyValues [live_intros]:
  assumes q: "quiet P x I"
  shows "keepsW I (GetListOfPropertyValues P \<lparr>zcmdExecutor = x\<rparr> n l)"
  unfolding GetListOfPropertyValues_def Let_def OperationsConfig.simps by (intro keeps_intros live_intros | rule q)+

lemma keepsW_GetVolumePropertyValue [live_intros]:
  assumes q: "quiet P x I"
  shows "keepsW I (GetVolumePropertyValue P \<lparr>zcmdExecutor = x\<rparr> n l)"
  unfolding GetVolumePropertyValue_def Let_def OperationsConfig.simps by (intro keeps_intros live_intros | rule q)+

lemma keepsW_vr_GetListOfPropertyValues [live_intros]:
  assumes q: "quiet P x I"
  shows "keepsW I (vr_GetListOfPropertyValues P n l x)"
  unfolding vr_GetListOfPropertyValues_def Let_def by (intro keeps_intros live_intros | rule q)+

lemma keepsW_GetCSPICapacity [live_intros]:
  assumes q: "quiet P x I"
  shows "keepsW I (GetCSPICapacity P \<lparr>zcmdExecutor = x\<rparr> n)"
  unfolding GetCSPICapacity_def Let_def OperationsConfig.simps by (intro keeps_intros live_intros | rule q)+

lemma keepsW_SetPoolRDMode [live_intros]:
  assumes q: "quiet P x I"
  shows "keepsW I (SetPoolRDMode P \<lparr>zcmdExecutor = x\<rparr> n b)"
  unfolding SetPoolRDMode_def Let_def OperationsConfig.simps by (intro keeps_intros live_intros | rule q)+

lemma keepsW_missingLoop [live_intros]:
  assumes q: "quiet P x I"
  shows "keepsW I (missingLoop P \<lparr>zcmdExecutor = x\<rparr> d kn want props m)"
  by (induction want arbitrary: props m)
    (simp_all only: missingLoop.simps split_paired_all, (intro keeps_intros live_intros | rule q | assumption)+)

lemma withProperties_WithExecutor: "withProperties ps (WithExecutor x p) = WithExecutor x (withProperties ps p)"
proof -
  have swap: "vset_WithProperty k v (WithExecutor x p) = WithExecutor x (vset_WithProperty k v p)" for k v p
    by (cases p) (simp add: vset_WithProperty_def WithExecutor_def)
  show ?thesis by (induction ps arbitrary: p) (auto simp: swap)
qed

lemma keepsW_SetPoolFSPropertiesIfNot [live_intros]:
  assumes q: "quiet P x I"
  shows "keepsW I (SetPoolFSPropertiesIfNot P \<lparr>zcmdExecutor = x\<rparr> d want)"
  unfolding SetPoolFSPropertiesIfNot_def Let_def OperationsConfig.simps withProperties_WithExecutor by (intro keeps_intros live_intros | rule q)+

lemma keepsW_SetPoolProperties [live_intros]:
  assumes q: "quiet P x I"
  shows "keepsW I (SetPoolProperties P \<lparr>zcmdExecutor = x\<rparr> c)"
  unfolding SetPoolProperties_def Let_def by (intro keeps_intros live_intros | rule q)+

lemma keepsW_GetUnavailableDiskList [live_intros]:
  assumes q: "quiet P x I"
  shows "keepsW I (GetUnavailableDiskList P \<lparr>zcmdExecutor = x\<rparr> c)"
  unfolding GetUnavailableDiskList_def Let_def OperationsConfig.simps by (intro keeps_intros live_intros | rule q)+

lemma keepsW_GetVolumes [live_intros]:
  assumes q: "quiet P x I"
  shows "keepsW I (GetVolumes P)"
  unfolding GetVolumes_def Let_def by (intro keeps_intros live_intros | rule q)+

lemma keepsW_CheckImportedPoolVolume [live_intros]:
  assumes q: "quiet P x I"
  shows "keepsW I (CheckImportedPoolVolume P)"
  unfolding CheckImportedPoolVolume_def Let_def by (intro keeps_intros live_intros | rule q)+

lemma keepsW_GetStats [live_intros]:
  assumes q: "quiet P x I"
  shows "keepsW I (GetStats P x)"
  unfolding GetStats_def Let_def by (intro keeps_intros live_intros | rule q)+

lemma keepsW_getReplicaDataSets [live_intros]:
  assumes q: "quiet P x I"
  shows "keepsW I (getReplicaDataSets P x)"
  unfolding getReplicaDataSets_def Let_def by (intro keeps_intros live_intros | rule q)+

lemma keepsW_GetProvisionedAndHealthyReplicaCount [live_intros]:
  assumes q: "quiet P x I"
  shows "keepsW I (GetProvisionedAndHealthyReplicaCount P x)"
  unfolding GetProvisionedAndHealthyReplicaCount_def Let_def by (intro keeps_intros live_intros | rule q)+

section \<open>The controller\<close>

lemma keepsW_updateCSPI [live_intros]:
  assumes q: "quiet P x I"
  shows "keepsW I (updateCSPI P c)"
  unfolding updateCSPI_def Let_def by (intro keeps_intros live_intros | rule q)+

lemma keepsW_cspi_reconcileVersion [live_intros]:
  assumes q: "quiet P x I"
  shows "keepsW I (cspi_reconcileVersion P c)"
  unfolding cspi_reconcileVersion_def Let_def by (intro keeps_intros live_intros | rule q)+

lemma keepsW_addPoolProtectionFinalizer [live_intros]:
  assumes q: "quiet P x I"
  shows "keepsW I (addPoolProtectionFinalizer P c)"
  unfolding addPoolProtectionFinalizer_def Let_def by (intro keeps_intros live_intros | rule q)+

lemma keepsW_UpdateStatusCondition [live_intros]:
  assumes q: "quiet P x I"
  shows "keepsW I (UpdateStatusCondition P c k)"
  unfolding UpdateStatusCondition_def Let_def by (intro keeps_intros live_intros | rule q)+

lemma keepsW_conditionRetry [live_intros]:
  assumes q: "quiet P x I"
  shows "keepsW I (conditionRetry P c k e n)"
  by (induction n) (simp_all only: conditionRetry.simps, (intro keeps_intros live_intros | rule q | assumption)+)

lemma keepsW_UpdateStatusConditionEventually [live_intros]:
  assumes q: "quiet P x I"
  shows "keepsW I (UpdateStatusConditionEventually P c k)"
  unfolding UpdateStatusConditionEventually_def Let_def by (intro keeps_intros live_intros | rule q)+

lemma keepsW_updateROMode [live_intros]:
  assumes q: "quiet P x I"
  shows "keepsW I (updateROMode P x st c)"
  unfolding updateROMode_def Let_def by (intro keeps_intros live_intros | rule q)+

lemma keepsW_addDiskUnavailableCondition [live_intros]:
  assumes q: "quiet P x I"
  shows "keepsW I (addDiskUnavailableCondition P x c)"
  unfolding addDiskUnavailableCondition_def Let_def by (intro keeps_intros live_intros | rule q)+

lemma keepsW_cspi_updateStatus [live_intros]:
  assumes q: "quiet P x I"
  shows "keepsW I (cspi_updateStatus P x c)"
  unfolding cspi_updateStatus_def Let_def by (intro keeps_intros live_intros | rule q)+

lemma keepsW_cspi_update_pool [live_intros]:
  assumes q: "quiet P x I" and r: "settles P x I"
  shows "keepsW I (cspi_update_pool P x c)"
  unfolding cspi_update_pool_def Let_def by (intro keeps_intros live_intros | rule q r)+

lemma keepsW_cspi_sync [live_intros]:
  assumes q: "quiet P x I"
  shows "keepsW I (cspi_sync P x c)"
  unfolding cspi_sync_def Let_def by (intro keeps_intros live_intros | rule q)+

lemma keepsW_getCSPIObjFromKey [keeps_intros]: "keepsW I (getCSPIObjFromKey P k)"
  unfolding getCSPIObjFromKey_def Let_def by (intro keeps_intros)

section \<open>Reconciling a live instance\<close>

abbreviation phase :: "CStorPoolInstance \<Rightarrow> string" where
  "phase c \<equiv> cspi_Phase (cspi_Status c)"

text \<open>
  What the API library and the server document: the two predicates look at the phase, and an
  update returns the instance with the phase it was given.
\<close>

definition phaseContract :: "'s penv \<Rightarrow> bool" where
  "phaseContract P \<longleftrightarrow>
     (\<forall>c. IsEmptyStatus P c = (phase c = '''')) \<and> (\<forall>c. IsPendingStatus P c = (phase c = CStorPoolStatusPending P)) \<and>
     (\<forall>w ns c c' w'. cspi_update (api P) w ns c = (Ok c', w') \<longrightarrow> phase c' = phase c)"

abbreviation samePhase :: "CStorPoolInstance \<Rightarrow> CStorPoolInstance \<Rightarrow> bool" where
  "samePhase c c' \<equiv> phase c' = phase c"

lemma updateCSPI_phase:
  assumes "phaseContract P"
  shows "gives (samePhase c) (updateCSPI P c)"
proof (rule givesI)
  fix p c' p'
  assume "updateCSPI P c p = (Ok c', p')"
  then obtain w' where "cspi_update (api P) (world p) (Namespace c) c = (Ok c', w')"
    by (auto simp: updateCSPI_def onWorld_def split: prod.splits)
  with assms show "samePhase c c'" unfolding phaseContract_def by blast
qed

lemma addPoolProtectionFinalizer_phase:
  assumes "phaseContract P"
  shows "gives (samePhase c) (addPoolProtectionFinalizer P c)"
  using updateCSPI_phase [OF assms, of "c\<lparr>Finalizers := Finalizers c @ [PoolProtectionFinalizer]\<rparr>"]
  by (simp add: addPoolProtectionFinalizer_def gives_returnS)

lemma cspi_reconcileVersion_phase:
  assumes k: "phaseContract P"
  shows "gives (\<lambda>(err, c'). samePhase c c') (cspi_reconcileVersion P c)"
proof -
  have u: "gives (\<lambda>r. \<forall>c'. r = Ok c' \<longrightarrow> samePhase c c') (attemptS (updateCSPI P d))" if "phase d = phase c" for d
    using gives_attemptS [OF updateCSPI_phase [OF k, of d]] that by simp
  show ?thesis
    unfolding cspi_reconcileVersion_def Let_def
    by (intro gives_intros gives_bindS [where R = "\<lambda>r. \<forall>c'. r = Ok c' \<longrightarrow> samePhase c c'"] u) auto
qed

lemma importFrom_phase: "gives (\<lambda>(b, err, c'). samePhase c c') (importFrom P oc e c)"
  unfolding importFrom_def by (intro gives_intros) (auto simp: dropExistingPoolName_def)

lemma Import_phase: "gives (\<lambda>(b, err, c'). samePhase c c') (Import P oc c)"
proof -
  have "gives (\<lambda>(b, err, c'). samePhase c c') (importFrom P oc e (dropExistingPoolName P c))" for e
    using importFrom_phase [of "dropExistingPoolName P c" P oc e] by (simp add: dropExistingPoolName_def)
  then show ?thesis
    unfolding Import_def Let_def by (intro gives_intros importFrom_phase) (auto simp: dropExistingPoolName_def)
qed

lemma keepsW_reconcilePool:
  assumes q: "quiet P x I" and c: "claimsQuiet P I" and k: "phaseContract P"
    and live: "phase cspi \<noteq> ''''" "phase cspi \<noteq> CStorPoolStatusPending P"
  shows "keepsW I (reconcilePool P x cspi)"
proof -
  have created: "IsEmptyStatus P c' = False" "IsPendingStatus P c' = False" if "samePhase cspi c'" for c'
    using k live that by (simp_all add: phaseContract_def)
  show ?thesis
    unfolding reconcilePool_def Let_def
    by (rule keeps_bindS_gives [OF keepsW_Import [OF q] Import_phase], clarify,
        simp only: prod.case created simp_thms if_False,
        (intro keeps_intros live_intros | rule q claimsQuiet_settles [OF q c])+)
qed


lemma sample_phaseContract: "phaseContract samplePM"
  by (auto simp: phaseContract_def samplePM_def sampleEnv_def storeWith_def split: res.splits)

lemma sampleExec_log: "st_commands (snd (sampleExec cmd s)) = st_commands s @ [cmd]"
  by (simp add: sampleExec_def Let_def)

lemma storeWith_commands:
  "(\<And>xs. st_commands (upd xs s) = st_commands s) \<Longrightarrow> st_commands (snd (storeWith upd r x s)) = st_commands s"
  by (simp add: storeWith_def split: res.split)

lemma sample_quiet: "quiet samplePM sampleExec (\<lambda>s. list_all liveCommand (st_commands s))"
  by (simp add: quiet_def sampleExec_log samplePM_def sampleEnv_def keeps_def storeWith_commands)

lemma sample_claimsQuiet: "claimsQuiet samplePM (\<lambda>s. list_all liveCommand (st_commands s))"
  by (simp add: claimsQuiet_def samplePM_def sampleEnv_def keeps_def storeWith_commands)



definition replacingStore :: store where
  "replacingStore = nodeStore\<lparr>st_bdcs :=
     [(sampleBDC ''bdc-a1'' ''a1'' ''c1'')\<lparr>Annotations := [(PredecessorBDLabelKey, ''a3'')]\<rparr>,
      sampleBDC ''bdc-a2'' ''a2'' ''c1'', sampleBDC ''bdc-a3'' ''a3'' ''c1'']\<rparr>"

lemma sample_dump:
  assumes "zpoolDump samplePM x p = (Ok t, p')"
  shows "t = sampleTopology"
proof -
  have strip: "stripDiskPath sp (Topvdev sampleTopology) = Ok (Topvdev sampleTopology)"
    "stripDiskPath sp (Spares sampleTopology) = Ok (Spares sampleTopology)"
    "stripDiskPath sp (Readcache sampleTopology) = Ok (Readcache sampleTopology)" for sp
    by (simp_all add: sampleTopology_def)
  have u: "unmarshalTopology samplePM s = Ok sampleTopology" for s by (simp add: samplePM_def)
  show ?thesis
    using assms by (auto simp: zpoolDump_def onWorld_def pdump_Execute_def pdump_Build_def u strip split: prod.splits option.splits if_splits)
qed

lemma sample_vdev:
  assumes "getVdevFromPath samplePM path sampleTopology = Some v"
  shows "vdevResilvering samplePM v = Ok True"
proof -
  from assms have "v \<in> set (Topvdev sampleTopology)"
    by (auto simp: getVdevFromPath_def samplePM_def sampleTopology_def split: if_splits option.splits)
  then show ?thesis
    by (auto simp: sampleTopology_def samplePM_def vdevResilvering_def statAt_def)
qed

lemma storeWith_bdcs:
  "(\<And>xs. st_bdcs (upd xs s) = st_bdcs s) \<Longrightarrow> st_bdcs (snd (storeWith upd r x s)) = st_bdcs s"
  by (simp add: storeWith_def split: res.split)


section \<open>The command that creates a pool\<close>

definition devicePaths :: "'s penv \<Rightarrow> 's \<Rightarrow> string \<Rightarrow> string list" where
  "devicePaths P w name =
     (case bd_get (api P) w (GetEnvNamespace P) name of Ok bd \<Rightarrow> getPathForBDevFromBlockDevice bd | _ \<Rightarrow> [])"

text \<open>Every device of the group is known to the server and has a path.\<close>

definition groupHasPaths :: "'s penv \<Rightarrow> 's \<Rightarrow> RaidGroup \<Rightarrow> bool" where
  "groupHasPaths P w r =
     (distinct (map BlockDeviceName (CStorPoolInstanceBlockDevices r)) \<and>
      list_all (\<lambda>b. devicePaths P w (BlockDeviceName b) \<noteq> []) (CStorPoolInstanceBlockDevices r))"

lemma getPathForBDev_devicePaths:
  "devicePaths P (world p) n \<noteq> [] \<Longrightarrow> getPathForBDev P n p = (Ok (devicePaths P (world p) n), p)"
  by (auto simp: getPathForBDev_def readW_def devicePaths_def split: res.splits)

lemma pathListLoop_paths:
  assumes "distinct (map fst vdev @ map BlockDeviceName bs)"
    and "list_all (\<lambda>b. devicePaths P (world p) (BlockDeviceName b) \<noteq> []) bs"
  shows "pathListLoop P bs vdev err p =
           (Ok (vdev @ map (\<lambda>b. (BlockDeviceName b, devicePaths P (world p) (BlockDeviceName b))) bs, err), p)"
  using assms
proof (induction bs arbitrary: vdev)
  case (Cons b bs)
  obtain q qs where q: "devicePaths P (world p) (BlockDeviceName b) = q # qs"
    using Cons.prems by (cases "devicePaths P (world p) (BlockDeviceName b)") auto
  have new: "mput (BlockDeviceName b) (q # qs) vdev = vdev @ [(BlockDeviceName b, q # qs)]"
    using Cons.prems by (intro mput_new) (auto simp: image_iff)
  show ?case
    using Cons.prems Cons.IH [of "vdev @ [(BlockDeviceName b, q # qs)]"] q
    by (simp add: bindS_def attemptS_def getPathForBDev_devicePaths new)
qed simp

lemma firstPaths_paths:
  assumes order: "set (setOrder (api P) ns) \<subseteq> set ns" and "\<forall>n \<in> set ns. f n \<noteq> []"
  shows "firstPaths P (map (\<lambda>n. (n, f n)) ns) = Ok (map (\<lambda>n. hd (f n)) (setOrder (api P) ns))"
proof -
  have m: "map_of (map (\<lambda>n. (n, f n)) ns) k = Some (f k)" if "k \<in> set ns" for k
    using that by (simp add: map_of_map_restrict)
  have "collect (\<lambda>k. case map_of (map (\<lambda>n. (n, f n)) ns) k of Some (v # _) \<Rightarrow> Ok v | _ \<Rightarrow> Panic ''index out of range'') ks =
        Ok (map (\<lambda>n. hd (f n)) ks)" if "set ks \<subseteq> set ns" for ks
    using that
  proof (induction ks)
    case (Cons k ks)
    moreover from Cons.prems assms(2) obtain v vs where "f k = v # vs" by (cases "f k") auto
    ultimately show ?case by (simp add: m)
  qed simp
  from this [OF order] show ?thesis by (simp add: firstPaths_def comp_def)
qed

definition compressionOf :: "CStorPoolInstance \<Rightarrow> string" where
  "compressionOf cspi =
     (if Compression (poolConfig (cspi_Spec cspi)) = '''' then ''lz4'' else Compression (poolConfig (cspi_Spec cspi)))"

lemma createPool_runs:
  assumes "DataRaidGroupType (poolConfig (cspi_Spec cspi)) \<noteq> ''''"
    and "getPathForBdevList P (CStorPoolInstanceBlockDevices r) p = (Ok (disks, None), p)"
    and "firstPaths P disks = Ok devs"
  shows "createPool P \<lparr>zcmdExecutor = x\<rparr> cspi r p =
     (case x (pcreate_command (WithExecutor x (pcreate_WithVdevList devs (pcreate_WithPool (PoolName P)
               (pcreate_WithFSProperty ''canmount'' ''off'' (pcreate_WithFSProperty ''compression'' (compressionOf cspi)
               (pcreate_WithProperty ''cachefile'' (CStorPoolBasePath P @ CacheFileName P)
               (pcreate_WithType (DataRaidGroupType (poolConfig (cspi_Spec cspi))) NewPoolCreate)))))))) (world p) of
        ((ret, None), w) \<Rightarrow> (Ok (), p\<lparr>world := w\<rparr>)
      | ((ret, Some e), w) \<Rightarrow> (Err (Errorf ''Failed to create pool.. %s .. %s'' [AS ret, AE e]), p\<lparr>world := w\<rparr>))"
proof -
  have fresh: "cmd_err (WithExecutor x (pcreate_WithVdevList devs (pcreate_WithPool n
               (pcreate_WithFSProperty k1 v1 (pcreate_WithFSProperty k2 v2 (pcreate_WithProperty k3 v3 (pcreate_WithType t NewPoolCreate))))))) = None"
    for n k1 v1 k2 v2 k3 v3 t
    by (simp add: WithExecutor_def pcreate_WithVdevList_def pcreate_WithPool_def pcreate_WithFSProperty_def
        pcreate_WithProperty_def pcreate_WithType_def NewPoolCreate_def)
  show ?thesis
    using assms fresh
    by (simp add: createPool_def compressionOf_def Let_def bindS_def failOpt_def runZ_def pcreate_Execute_def pcreate_Build_def
        executeWith_def split: prod.splits option.splits)
qed

text \<open>
  Creating the pool of an instance whose devices all have paths runs one command: \<open>zpool create\<close> with
  the cache file, the compression (\<open>lz4\<close> by default), \<open>canmount=off\<close>, the pool's name, the raid type unless it
  is a stripe, and the first path of every device of the group, each as a word of its own. The outcome is
  that of the command.
\<close>

theorem create_pool_command:
  fixes P :: "'s penv"
  assumes "groupHasPaths P (world p) r"
    and "set (setOrder (api P) (map BlockDeviceName (CStorPoolInstanceBlockDevices r))) \<subseteq>
         set (map BlockDeviceName (CStorPoolInstanceBlockDevices r))"
    and "list_all word (map (\<lambda>n. hd (devicePaths P (world p) n))
           (setOrder (api P) (map BlockDeviceName (CStorPoolInstanceBlockDevices r))))"
    and "word (PoolName P)" and "word (CStorPoolBasePath P)" and "word (CacheFileName P)"
    and "word (DataRaidGroupType (poolConfig (cspi_Spec cspi)))"
    and "optWord (Compression (poolConfig (cspi_Spec cspi)))"
  shows "\<exists>cmd. shellWords cmd =
      Some ([''zpool'', ''create'', ''-o'', ''cachefile='' @ CStorPoolBasePath P @ CacheFileName P,
             ''-O'', ''compression='' @ compressionOf cspi, ''-O'', ''canmount=off'', PoolName P] @
            (if DataRaidGroupType (poolConfig (cspi_Spec cspi)) = ''stripe'' then []
             else [DataRaidGroupType (poolConfig (cspi_Spec cspi))]) @
            map (\<lambda>n. hd (devicePaths P (world p) n))
              (setOrder (api P) (map BlockDeviceName (CStorPoolInstanceBlockDevices r)))) \<and>
    createPool P \<lparr>zcmdExecutor = x\<rparr> cspi r p =
      (case x cmd (world p) of
         ((ret, None), w) \<Rightarrow> (Ok (), p\<lparr>world := w\<rparr>)
       | ((ret, Some e), w) \<Rightarrow> (Err (Errorf ''Failed to create pool.. %s .. %s'' [AS ret, AE e]), p\<lparr>world := w\<rparr>))"
proof -
  let ?ns = "map BlockDeviceName (CStorPoolInstanceBlockDevices r)"
  let ?devs = "map (\<lambda>n. hd (devicePaths P (world p) n)) (setOrder (api P) ?ns)"
  let ?b = "WithExecutor x (pcreate_WithVdevList ?devs (pcreate_WithPool (PoolName P)
               (pcreate_WithFSProperty ''canmount'' ''off'' (pcreate_WithFSProperty ''compression'' (compressionOf cspi)
               (pcreate_WithProperty ''cachefile'' (CStorPoolBasePath P @ CacheFileName P)
               (pcreate_WithType (DataRaidGroupType (poolConfig (cspi_Spec cspi))) NewPoolCreate))))))"
  have disks: "getPathForBdevList P (CStorPoolInstanceBlockDevices r) p =
      (Ok (map (\<lambda>n. (n, devicePaths P (world p) n)) ?ns, None), p)"
    using assms(1) pathListLoop_paths [of "[]" "CStorPoolInstanceBlockDevices r" P p None]
    by (simp add: getPathForBdevList_def groupHasPaths_def comp_def)
  have devs: "firstPaths P (map (\<lambda>n. (n, devicePaths P (world p) n)) ?ns) = Ok ?devs"
    using assms(1,2) by (intro firstPaths_paths) (auto simp: groupHasPaths_def list_all_iff)
  have nonempty: "DataRaidGroupType (poolConfig (cspi_Spec cspi)) \<noteq> ''''" "CStorPoolBasePath P \<noteq> ''''" "compressionOf cspi \<noteq> ''''"
    using assms by (auto simp: word_def compressionOf_def)
  have lz4: "word ''lz4''" by (simp add: word_def isSpace_def shellMeta_def)
  have "word (compressionOf cspi)"
    using assms(8) lz4 by (auto simp: compressionOf_def optWord_def)
  then have fs: "word (''compression='' @ compressionOf cspi)" "word ''canmount=off''"
      "word (''cachefile='' @ CStorPoolBasePath P @ CacheFileName P)"
    using assms(5,6) by (simp_all add: word_def isSpace_def shellMeta_def)
  note defs = WithExecutor_def pcreate_WithVdevList_def pcreate_WithPool_def pcreate_WithFSProperty_def
      pcreate_WithProperty_def pcreate_WithType_def NewPoolCreate_def
  have "pcreate_clean ?b"
    using assms(3,4,7) fs nonempty by (simp add: pcreate_clean_def defs optWord_def)
  note words = pcreate.words [OF this]
  have argv: "pcreate_argv ?b = [''zpool'', ''create'', ''-o'', ''cachefile='' @ CStorPoolBasePath P @ CacheFileName P,
             ''-O'', ''compression='' @ compressionOf cspi, ''-O'', ''canmount=off'', PoolName P] @
            (if DataRaidGroupType (poolConfig (cspi_Spec cspi)) = ''stripe'' then []
             else [DataRaidGroupType (poolConfig (cspi_Spec cspi))]) @ ?devs"
    using nonempty by (simp add: pcreate_argv_def defs)
  show ?thesis
    by (rule exI, rule conjI [OF words [unfolded argv] createPool_runs [OF nonempty(1) disks devs]])
qed

theorem create_pool_command_witness:
  "\<exists>cmd. shellWords cmd = Some [''zpool'', ''create'', ''-o'', ''cachefile=/var/openebs/cstor-pool/pool.cache'',
        ''-O'', ''compression=lz4'', ''-O'', ''canmount=off'', ''cstor-p'', ''mirror'', ''/dev/a1'', ''/dev/a2''] \<and>
     createPool samplePM \<lparr>zcmdExecutor = sampleExec\<rparr>
       (sampleCSPI ''c1-x'' ''c1'' ''n1'' (samplePool ''n1'' ''mirror'' [[''a1'', ''a2'']])) (sampleGroup [''a1'', ''a2''])
       (samplePm sampleStore) =
      (case sampleExec cmd (world (samplePm sampleStore)) of
         ((ret, None), w) \<Rightarrow> (Ok (), (samplePm sampleStore)\<lparr>world := w\<rparr>)
       | ((ret, Some e), w) \<Rightarrow> (Err (Errorf ''Failed to create pool.. %s .. %s'' [AS ret, AE e]), (samplePm sampleStore)\<lparr>world := w\<rparr>))"
proof -
  let ?c = "sampleCSPI ''c1-x'' ''c1'' ''n1'' (samplePool ''n1'' ''mirror'' [[''a1'', ''a2'']])"
  have "groupHasPaths samplePM (world (samplePm sampleStore)) (sampleGroup [''a1'', ''a2''])"
    "set (setOrder (api samplePM) (map BlockDeviceName (CStorPoolInstanceBlockDevices (sampleGroup [''a1'', ''a2''])))) \<subseteq>
       set (map BlockDeviceName (CStorPoolInstanceBlockDevices (sampleGroup [''a1'', ''a2''])))"
    "list_all word (map (\<lambda>n. hd (devicePaths samplePM (world (samplePm sampleStore)) n))
       (setOrder (api samplePM) (map BlockDeviceName (CStorPoolInstanceBlockDevices (sampleGroup [''a1'', ''a2''])))))"
    "word (PoolName samplePM)" "word (CStorPoolBasePath samplePM)" "word (CacheFileName samplePM)"
    "word (DataRaidGroupType (poolConfig (cspi_Spec ?c)))" "optWord (Compression (poolConfig (cspi_Spec ?c)))"
    by code_simp+
  note c = create_pool_command [OF this, of sampleExec]
  have argv: "[''zpool'', ''create'', ''-o'', ''cachefile='' @ CStorPoolBasePath samplePM @ CacheFileName samplePM,
             ''-O'', ''compression='' @ compressionOf ?c, ''-O'', ''canmount=off'', PoolName samplePM] @
            (if DataRaidGroupType (poolConfig (cspi_Spec ?c)) = ''stripe'' then []
             else [DataRaidGroupType (poolConfig (cspi_Spec ?c))]) @
            map (\<lambda>n. hd (devicePaths samplePM (world (samplePm sampleStore)) n))
              (setOrder (api samplePM) (map BlockDeviceName (CStorPoolInstanceBlockDevices (sampleGroup [''a1'', ''a2''])))) =
      [''zpool'', ''create'', ''-o'', ''cachefile=/var/openebs/cstor-pool/pool.cache'',
        ''-O'', ''compression=lz4'', ''-O'', ''canmount=off'', ''cstor-p'', ''mirror'', ''/dev/a1'', ''/dev/a2'']"
    by code_simp
  from c [unfolded argv] show ?thesis .
qed

section \<open>Deleting a pool\<close>

definition existsCmd :: "'s penv \<Rightarrow> string" where
  "existsCmd P = ''zpool get  -H  -p  -o value, name,  '' @ PoolName P @ '' ''"

definition destroyCmd :: "'s penv \<Rightarrow> string" where
  "destroyCmd P = ''zpool destroy '' @ PoolName P"

lemma checkIfPoolPresent_runs:
  "checkIfPoolPresent P (PoolName P) x p =
     (case x (existsCmd P) (world p) of ((out, err), w) \<Rightarrow> (Ok (err = None), p\<lparr>world := w\<rparr>))"
proof -
  let ?b = "WithExecutor x (pget_WithPool (PoolName P) (pget_WithProperty ''name'' (pget_WithField ''value''
         (pget_WithScriptedMode True (pget_WithParsableMode True NewPoolGetProperty)))))"
  note defs = pget_WithParsableMode_def pget_WithScriptedMode_def pget_WithField_def pget_WithProperty_def
    pget_WithPool_def NewPoolGetProperty_def WithExecutor_def
  have cmd: "pget_command ?b = existsCmd P" and fresh: "cmd_err ?b = None"
    by (simp_all add: pget_command_def existsCmd_def defs pget_IsScriptedModeSet_def pget_IsParsableModeSet_def
        pget_IsFieldListSet_def pget_IsPropListSet_def pget_IsPoolSet_def ZPOOL_def PoolName_def)
  show ?thesis
    by (simp add: checkIfPoolPresent_def bindS_def runZ_def pget_Execute_def pget_Build_def executeWith_def fresh cmd
        split: prod.splits)
qed

lemma pdestroy_runs:
  "pdestroy_Execute b noChecks (WithExecutor x (pdestroy_WithPool (PoolName P) NewPoolDestroy)) w =
     (case x (destroyCmd P) w of
        ((ret, Some e), w') \<Rightarrow> ((ret, Some (Errorf ''error %s %s'' [AE e, AS ret])), w')
      | ((ret, None), w') \<Rightarrow> ((ret, None), w'))"
proof -
  let ?b = "WithExecutor x (pdestroy_WithPool (PoolName P) NewPoolDestroy)"
  have "pdestroy_command ?b = destroyCmd P" "cmd_err ?b = None"
    by (simp_all add: pdestroy_command_def destroyCmd_def pdestroy_WithPool_def NewPoolDestroy_def WithExecutor_def
        pdestroy_IsForcefullySet_def ZPOOL_def)
  then show ?thesis by (simp add: pdestroy_Execute_def pdestroy_Build_def executeWith_def)
qed

text \<open>
  When the pool of an instance under deletion is there and \<open>zpool destroy\<close> fails, the handler returns that
  error and its only write is the instance with the phase of a failed deletion and all its finalizers, so
  that the instance outlives its pool's data.
\<close>

theorem failed_destroy_keeps_finalizers:
  assumes "ContainsString (api P) (Finalizers cspi) PoolProtectionFinalizer"
    and "x (existsCmd P) (world p) = ((out, None), w)" and "x (destroyCmd P) w = ((ret, Some e), w')"
    and "cspi_update (api P) w' (Namespace cspi)
           (cspi\<lparr>cspi_Status := (cspi_Status cspi)\<lparr>cspi_Phase := CStorPoolStatusDeletionFailed P\<rparr>\<rparr>) = (written, w'')"
    and "\<forall>m. written \<noteq> Panic m"
  shows "destroy P x cspi p = (Err (Errorf ''error %s %s'' [AE e, AS ret]), p\<lparr>world := w''\<rparr>)"
  using assms
  by (cases written)
    (simp_all add: destroy_def Delete_def checkIfPoolPresent_runs pdestroy_runs bindS_def attemptS_def runZ_def
      failOpt_def ignoreS_def updateCSPI_def onWorld_def)

theorem failed_destroy_keeps_finalizers_witness:
  "\<exists>s. destroy samplePM busyExec protectedCSPI (samplePm nodeStore) =
       (Err (Errorf ''error %s %s'' [AE (ApiError ''exit status 1''), AS ''pool is busy'']), (samplePm nodeStore)\<lparr>world := s\<rparr>)"
proof -
  let ?w = "snd (busyExec (existsCmd samplePM) (world (samplePm nodeStore)))"
  let ?c = "protectedCSPI\<lparr>cspi_Status := (cspi_Status protectedCSPI)\<lparr>cspi_Phase := CStorPoolStatusDeletionFailed samplePM\<rparr>\<rparr>"
  let ?r = "cspi_update (api samplePM) ?w (Namespace protectedCSPI) ?c"
  have "ContainsString (api samplePM) (Finalizers protectedCSPI) PoolProtectionFinalizer" by code_simp
  moreover have "busyExec (existsCmd samplePM) (world (samplePm nodeStore)) = ((''ONLINE'', None), ?w)" by code_simp
  moreover have "busyExec (destroyCmd samplePM) ?w = ((''pool is busy'', Some (ApiError ''exit status 1'')), ?w)" by code_simp
  moreover have "?r = (fst ?r, snd ?r)" by simp
  moreover have "\<forall>m. fst ?r \<noteq> Panic m" by (simp add: samplePM_def sampleEnv_def storeWith_def replaceObj_def)
  ultimately show ?thesis by (intro exI failed_destroy_keeps_finalizers)
qed

text \<open>
  C35. Conversely, an instance with the protection finalizer is only released without error after
  \<open>zpool destroy\<close> succeeded, or after the query for the pool failed: every failure of that query, not
  only a missing pool, counts as the pool being gone.
\<close>

theorem release_needs_destroy:
  assumes "ContainsString (api P) (Finalizers cspi) PoolProtectionFinalizer"
    and "destroy P x cspi p = (Ok (), p')"
  shows "\<exists>out err w. x (existsCmd P) (world p) = ((out, err), w) \<and>
           (err \<noteq> None \<or> (\<exists>ret w'. x (destroyCmd P) w = ((ret, None), w')))"
proof -
  obtain out err w where ex: "x (existsCmd P) (world p) = ((out, err), w)" by (metis surj_pair)
  obtain ret e w' where de: "x (destroyCmd P) w = ((ret, e), w')" by (metis surj_pair)
  have False if "err = None" "e = Some e'" for e'
    using assms ex de that
    by (simp add: destroy_def Delete_def checkIfPoolPresent_runs pdestroy_runs bindS_def attemptS_def runZ_def failOpt_def
        split: res.splits prod.splits)
  then show ?thesis using ex de by (metis option.exhaust)
qed

theorem release_needs_destroy_witness:
  "\<exists>out err w. sampleExec (existsCmd samplePM) nodeStore = ((out, err), w) \<and>
           (err \<noteq> None \<or> (\<exists>ret w'. sampleExec (destroyCmd samplePM) w = ((ret, None), w')))"
proof -
  let ?r = "destroy samplePM sampleExec protectedCSPI (samplePm nodeStore)"
  have "ContainsString (api samplePM) (Finalizers protectedCSPI) PoolProtectionFinalizer" by code_simp
  moreover have "fst ?r = Ok ()" by code_simp
  then have "?r = (Ok (), snd ?r)" by (metis prod.collapse)
  ultimately have "\<exists>out err w. sampleExec (existsCmd samplePM) (world (samplePm nodeStore)) = ((out, err), w) \<and>
           (err \<noteq> None \<or> (\<exists>ret w'. sampleExec (destroyCmd samplePM) w = ((ret, None), w')))"
    by (rule release_needs_destroy)
  then show ?thesis by (simp add: samplePm_def)
qed

section \<open>The read-only threshold\<close>

text \<open>Signed division of 64-bit values without overflow is division of integers.\<close>

lemma sint_nonneg_times:
  fixes u :: "64 word"
  assumes "0 \<le> sint u" and "100 * sint u < 2 ^ 63"
  shows "sint (u * 100) = 100 * sint u"
  using assms by (simp add: sint_word_ariths(3) signed_take_bit_int_eq_self mult.commute)

lemma div_ge_iff:
  assumes "0 < (t :: int)"
  shows "l \<le> a div t \<longleftrightarrow> l * t \<le> a"
proof
  assume "l \<le> a div t"
  then have "l * t \<le> a div t * t" using assms by (simp add: mult_right_mono)
  also have "\<dots> \<le> a" using assms by (simp add: minus_mod_eq_div_mult [symmetric])
  finally show "l * t \<le> a" .
next
  assume "l * t \<le> a"
  then have "l * t div t \<le> a div t" using assms by (rule zdiv_mono1)
  then show "l \<le> a div t" using assms by simp
qed



section \<open>The cache of pool properties\<close>

lemma map_of_mputAll: "distinct (map fst ms) \<Longrightarrow> map_of (mputAll ms m) = map_of m ++ map_of ms"
  by (induction ms m rule: mputAll.induct)
    (simp_all add: map_of_mput map_add_upd_left dom_map_of_conv_image_fst)

lemma missingLoop_result:
  assumes "missingLoop P oc d kn want props missing p = (Ok (props', missing'), p')"
    and "distinct (map fst want)" and "distinct (map fst missing)"
    and "\<forall>k \<in> fst ` set want. map_of missing k = None"
  shows "distinct (map fst missing') \<and>
    (\<forall>k. k \<notin> fst ` set want \<longrightarrow> map_of props' k = map_of props k \<and> map_of missing' k = map_of missing k) \<and>
    (\<forall>(k, v) \<in> set want. map_of missing' k = Some v \<or> map_of missing' k = None \<and> map_of props' k = Some v)"
  using assms
proof (induction want arbitrary: props missing p)
  case (Cons kv want)
  obtain k v where kv: "kv = (k, v)" by (cases kv)
  have fresh: "k \<notin> fst ` set want" "distinct (map fst want)" using Cons.prems kv by auto
  note upd = map_of_mput distinct_mput
  show ?case
  proof (cases "mhas props k \<and> mget props k = v")
    case True
    then have "map_of props k = Some v" by (auto simp: mhas_def mget_def split: option.splits)
    with True show ?thesis using Cons.IH [of props missing p] Cons.prems kv fresh by auto
  next
    case False
    then obtain q where
      "missingLoop P oc d kn want (mput k v props) missing q = (Ok (props', missing'), p') \<or>
       missingLoop P oc d kn want props (mput k v missing) q = (Ok (props', missing'), p')"
      using Cons.prems(1) kv by (auto simp: bindS_Ok_iff split: if_splits)
    then consider "missingLoop P oc d kn want (mput k v props) missing q = (Ok (props', missing'), p')"
      | "missingLoop P oc d kn want props (mput k v missing) q = (Ok (props', missing'), p')"
      by blast
    then show ?thesis
    proof cases
      case 1
      with Cons.IH [OF 1] Cons.prems kv fresh show ?thesis by (auto simp: upd)
    next
      case 2
      have "\<forall>k' \<in> fst ` set want. map_of (mput k v missing) k' = None"
        using Cons.prems(4) kv fresh by (auto simp: map_of_mput)
      from Cons.IH [OF 2 fresh(2) distinct_mput [OF Cons.prems(3)] this] kv fresh Cons.prems(4)
      show ?thesis by (auto simp: map_of_mput)
    qed
  qed
qed simp

lemma missingLoop_satisfied:
  "\<forall>(k, v) \<in> set want. map_of props k = Some v \<Longrightarrow> missingLoop P oc d kn want props missing = returnS (props, missing)"
  by (induction want) (auto simp: mhas_def mget_def)

lemma SetPoolFSPropertiesIfNot_stores:
  assumes order: "\<forall>m. distinct (map fst m) \<longrightarrow> distinct (map fst (mapOrder (api P) m)) \<and> set (mapOrder (api P) m) = set m"
    and keys: "distinct (map fst desired)"
    and run: "SetPoolFSPropertiesIfNot P oc d desired p = (Ok (), p')"
  obtains q m where "p' = q\<lparr>fsCache := mput d m (fsCache q)\<rparr>" and "\<forall>(k, v) \<in> set desired. map_of m k = Some v"
proof -
  let ?want = "mapOrder (api P) desired"
  obtain props missing q where loop: "missingLoop P oc d (map_of (fsCache p) d \<noteq> None) ?want
        (case map_of (fsCache p) d of None \<Rightarrow> [] | Some m \<Rightarrow> m) [] p = (Ok (props, missing), q)"
    and rest: "(if missing = [] then storeCache d props
         else bindS (runZ (vset_Execute (bash P) noChecks
         (withProperties (mapOrder (api P) missing) (WithExecutor (zcmdExecutor oc) (vset_WithDataset d NewVolumeSetProperty)))))
         (\<lambda>(ret, err).
       bindS (failOpt (map_option (\<lambda>e. Wrapf e ''failed to set property values %v output: %s'' [AM missing, AS ret]) err)) (\<lambda>_.
       storeCache d (mputAll missing props)))) q = (Ok (), p')"
    using run by (auto simp: SetPoolFSPropertiesIfNot_def bindS_Ok_iff)
  have res: "distinct (map fst missing)"
      "\<forall>(k, v) \<in> set desired. map_of missing k = Some v \<or> map_of missing k = None \<and> map_of props k = Some v"
    using missingLoop_result [OF loop] order keys by auto
  show ?thesis
  proof (cases "missing = []")
    case True
    with rest res show ?thesis by (intro that [of props q]) (auto simp: storeCache_def)
  next
    case False
    with rest obtain q' where "storeCache d (mputAll missing props) q' = (Ok (), p')"
      by (auto simp: bindS_Ok_iff split: prod.splits)
    moreover have "\<forall>(k, v) \<in> set desired. map_of (mputAll missing props) k = Some v"
      using res by (auto simp: map_of_mputAll map_add_def split: option.splits)
    ultimately show ?thesis by (intro that [of "mputAll missing props" q']) (auto simp: storeCache_def)
  qed
qed

text \<open>
  Once the properties of a pool have been set without error, setting them again runs no command and
  changes nothing, whatever the order in which the maps are visited: the cache then holds every wanted value.
\<close>

theorem properties_set_once:
  assumes order: "\<forall>m. distinct (map fst m) \<longrightarrow> distinct (map fst (mapOrder (api P) m)) \<and> set (mapOrder (api P) m) = set m"
    and run: "SetPoolProperties P oc cspi p = (Ok (), p')"
  shows "SetPoolProperties P oc' cspi p' = (Ok (), p')"
proof -
  let ?c = "Compression (poolConfig (cspi_Spec cspi))"
  let ?want = "[(''canmount'', ''off''), (''compression'', if ?c \<noteq> '''' then ?c else ''lz4'')]"
  have keys: "distinct (map fst ?want)" by simp
  from run have "SetPoolFSPropertiesIfNot P oc (PoolName P) ?want p = (Ok (), p')"
    by (simp only: SetPoolProperties_def Let_def)
  then obtain q m where p': "p' = q\<lparr>fsCache := mput (PoolName P) m (fsCache q)\<rparr>"
      and m: "\<forall>(k, v) \<in> set ?want. map_of m k = Some v"
    by (rule SetPoolFSPropertiesIfNot_stores [OF order keys])
  have "map_of (fsCache p') (PoolName P) = Some m" using p' by (simp add: map_of_mput)
  moreover have "\<forall>(k, v) \<in> set (mapOrder (api P) ?want). map_of m k = Some v" using order keys m by blast
  ultimately have "SetPoolFSPropertiesIfNot P oc' (PoolName P) ?want p' = storeCache (PoolName P) m p'"
    by (simp only: SetPoolFSPropertiesIfNot_def) (simp add: bindS_def missingLoop_satisfied)
  also have "\<dots> = (Ok (), p')" using p' by (simp add: storeCache_def mput_idem)
  finally show ?thesis by (simp only: SetPoolProperties_def Let_def)
qed

theorem properties_set_once_witness:
  "\<exists>p. SetPoolProperties samplePM \<lparr>zcmdExecutor = sampleExec\<rparr> protectedCSPI (samplePm nodeStore) = (Ok (), p) \<and>
       SetPoolProperties samplePM \<lparr>zcmdExecutor = busyExec\<rparr> protectedCSPI p = (Ok (), p)"
proof -
  let ?r = "SetPoolProperties samplePM \<lparr>zcmdExecutor = sampleExec\<rparr> protectedCSPI (samplePm nodeStore)"
  have order: "\<forall>m. distinct (map fst m) \<longrightarrow>
      distinct (map fst (mapOrder (api samplePM) m)) \<and> set (mapOrder (api samplePM) m) = set m"
    by (simp add: samplePM_def sampleEnv_def)
  have "fst ?r = Ok ()" by code_simp
  then have run: "?r = (Ok (), snd ?r)" by (metis prod.collapse)
  from run properties_set_once [OF order run] show ?thesis by blast
qed

end
