(* ===== verification/ReplicaSafety.thy ===== *)
theory ReplicaSafety
  imports SampleReplica PoolSafety
begin

text \<open>
  What the replica controller may do to volumes, and what it keeps in the replica objects.
\<close>

section \<open>Commands that destroy no volume\<close>

definition replicaCommand :: "string \<Rightarrow> bool" where
  "replicaCommand cmd = list_ex (HasPrefix cmd) [''zfs get '', ''zfs set '', ''zfs stats '', ''zfs listsnap '']"

text \<open>Predicates on the world that these commands, queries, and writes of replicas keep.\<close>

definition volumeQuiet :: "'s renv \<Rightarrow> ('s \<Rightarrow> bool) \<Rightarrow> bool" where
  "volumeQuiet R I \<longleftrightarrow>
     (\<forall>cmd w. replicaCommand cmd \<longrightarrow> I w \<longrightarrow> I (snd (bash (pool R) cmd w))) \<and>
     (\<forall>prog a w. I w \<longrightarrow> I (snd (RunStdoutPipe (pool R) prog (''get'' # a) w))) \<and>
     (\<forall>c a w. c \<noteq> ''destroy'' \<longrightarrow> I w \<longrightarrow> I (snd (RunCombinedOutput R ''zfs'' (c # a) w))) \<and>
     (\<forall>ns c. keeps I (\<lambda>w. cvr_update R w ns c))"

lemma volumeQuietD:
  assumes "volumeQuiet R I"
  shows "replicaCommand cmd \<Longrightarrow> I w \<Longrightarrow> I (snd (bash (pool R) cmd w))"
    and "I w \<Longrightarrow> I (snd (RunStdoutPipe (pool R) prog (''get'' # a) w))"
    and "c \<noteq> ''destroy'' \<Longrightarrow> I w \<Longrightarrow> I (snd (RunCombinedOutput R ''zfs'' (c # a) w))"
    and "keeps I (\<lambda>w. cvr_update R w ns cv)"
  using assms by (auto simp: volumeQuiet_def)

lemma replica_commands:
  "replicaCommand (vget_command g)" "replicaCommand (vset_command v)" "replicaCommand (vstats_command t)"
  "replicaCommand (vlistsnap_command l)"
  by (simp_all only: vget_command_def vset_command_def vstats_command_def vlistsnap_command_def ZFS_def)
    (simp_all add: replicaCommand_def HasPrefix_def)

named_theorems volume_intros \<open>operations that destroy no volume\<close>

lemma snd_vstats:
  "Executor t = None \<Longrightarrow> snd (vstats_Execute b us noChecks t w) =
     (if cmd_err t = None then snd (b (vstats_command t) w) else w)"
  by (auto simp: vstats_Execute_def vstats_Build_def runCmd_def split: prod.splits option.splits)

lemma snd_vlistsnap:
  "snd (vlistsnap_Execute b ul noChecks l w) = (if cmd_err l = None then snd (b (vlistsnap_command l) w) else w)"
  by (auto simp: vlistsnap_Execute_def vlistsnap_Build_def split: prod.splits option.splits)

text \<open>Builders that are executed by bash, as \<open>volumereplica.go\<close> uses them.\<close>

lemma keepsW_volume_commands [volume_intros]:
  fixes R :: "'s renv"
  assumes q: "volumeQuiet R I"
  shows "Executor g = None \<Longrightarrow> keepsW I (runZ (vget_Execute (bash (pool R)) noChecks g))"
    and "Executor v = None \<Longrightarrow> keepsW I (runZ (vset_Execute (bash (pool R)) noChecks v))"
    and "Executor t = None \<Longrightarrow> keepsW I (onWorld (vstats_Execute (bash (pool R)) us noChecks t))"
    and "keepsW I (onWorld (vlistsnap_Execute (bash (pool R)) ul noChecks l))"
    and "keepsW I (runZ (RunStdoutPipe (pool R) prog (''get'' # a)))"
    and "c \<noteq> ''destroy'' \<Longrightarrow> keepsW I (runZ (RunCombinedOutput R ''zfs'' (c # a)))"
    and "keepsW I (onWorld (\<lambda>w. cvr_update R w ns cv))"
proof -
  have r: "I (snd (bash (pool R) cmd w))" if "replicaCommand cmd" "I w" for cmd w by (rule volumeQuietD(1) [OF q that])
  show "keepsW I (runZ (vget_Execute (bash (pool R)) noChecks g))" if "Executor g = None"
    by (rule keepsW_runZ, unfold vget_Execute_def vget_Build_def, rule executeWith_snd)
      (simp_all add: r that replica_commands)
  show "keepsW I (runZ (vset_Execute (bash (pool R)) noChecks v))" if "Executor v = None"
    by (rule keepsW_runZ, unfold vset_Execute_def vset_Build_def, rule executeWith_snd)
      (simp_all add: r that replica_commands runCmd_def)
  show "keepsW I (onWorld (vstats_Execute (bash (pool R)) us noChecks t))" if "Executor t = None"
    by (intro keepsW_onWorld keepsI) (simp add: snd_vstats that r replica_commands)
  show "keepsW I (onWorld (vlistsnap_Execute (bash (pool R)) ul noChecks l))"
    by (intro keepsW_onWorld keepsI) (simp add: snd_vlistsnap r replica_commands)
  show "keepsW I (runZ (RunStdoutPipe (pool R) prog (''get'' # a)))" by (intro keepsW_runZ volumeQuietD(2) [OF q])
  show "c \<noteq> ''destroy'' \<Longrightarrow> keepsW I (runZ (RunCombinedOutput R ''zfs'' (c # a)))"
    by (intro keepsW_runZ volumeQuietD(3) [OF q])
  show "keepsW I (onWorld (\<lambda>w. cvr_update R w ns cv))" by (intro keepsW_onWorld volumeQuietD(4) [OF q])
qed

section \<open>Replica operations that destroy no volume\<close>

text \<open>The builders of \<open>volumereplica.go\<close> have no executor.\<close>

lemma no_executor [volume_intros]:
  "Executor g = None \<Longrightarrow> Executor (vget_WithDataset d g) = None" "Executor g = None \<Longrightarrow> Executor (vget_WithProperty k g) = None"
  "Executor g = None \<Longrightarrow> Executor (vget_WithField f g) = None" "Executor g = None \<Longrightarrow> Executor (vget_WithParsableMode b g) = None"
  "Executor g = None \<Longrightarrow> Executor (vget_WithScriptedMode b g) = None" "Executor NewVolumeGetProperty = None"
  "Executor v = None \<Longrightarrow> Executor (vset_WithDataset d v) = None" "Executor v = None \<Longrightarrow> Executor (vset_WithProperty k e v) = None"
  "Executor NewVolumeSetProperty = None"
  "Executor t = None \<Longrightarrow> Executor (vstats_WithDataset d t) = None" "Executor NewVolumeStats = None"
  by (simp_all add: vget_WithDataset_def vget_WithProperty_def vget_WithField_def vget_WithParsableMode_def
      vget_WithScriptedMode_def NewVolumeGetProperty_def vset_WithDataset_def vset_WithProperty_def
      NewVolumeSetProperty_def vstats_WithDataset_def NewVolumeStats_def)

lemma not_destroy [volume_intros]: "''get'' \<noteq> ''destroy''" "''create'' \<noteq> ''destroy''" "''clone'' \<noteq> ''destroy''"
  by simp_all

lemma keepsW_pool_GetPoolName [volume_intros]:
  assumes q: "volumeQuiet R I"
  shows "keepsW I (pool_GetPoolName R)"
  unfolding pool_GetPoolName_def Let_def by (intro keeps_intros volume_intros | rule q)+

lemma keepsW_poolNameLoop [volume_intros]:
  assumes q: "volumeQuiet R I"
  shows "keepsW I (poolNameLoop R n)"
proof (induction n)
  case 0
  show ?case
    by (subst poolNameLoop.simps, simp only: nat.case) (intro keeps_intros volume_intros | rule q)+
next
  case (Suc n)
  show ?case
    by (subst poolNameLoop.simps, simp only: nat.case) (intro keeps_intros volume_intros | rule q Suc)+
qed

lemma keepsW_PoolNameHandler [volume_intros]:
  assumes q: "volumeQuiet R I"
  shows "keepsW I (PoolNameHandler R n)"
  unfolding PoolNameHandler_def Let_def by (intro keeps_intros volume_intros | rule q)+

lemma keepsW_CheckForInitialImportedPoolVol [keeps_intros]: "keepsW I (CheckForInitialImportedPoolVol v)"
  by (simp add: keeps_def CheckForInitialImportedPoolVol_def Let_def split: option.split)

lemma keepsW_GetVolumes_pool [volume_intros]:
  assumes q: "volumeQuiet R I"
  shows "keepsW I (GetVolumes (pool R))"
  unfolding GetVolumes_def by (intro keeps_intros volume_intros | rule q)+

lemma keepsW_vr_Status [volume_intros]:
  assumes q: "volumeQuiet R I"
  shows "keepsW I (vr_Status R v)"
  unfolding vr_Status_def Let_def by (intro keeps_intros volume_intros | rule q)+

lemma keepsW_vr_Capacity [volume_intros]:
  assumes q: "volumeQuiet R I"
  shows "keepsW I (vr_Capacity R v)"
  unfolding vr_Capacity_def Let_def VolumeReplicaOperator_def by (intro keeps_intros volume_intros | rule q)+

lemma volume_create_argv:
  "\<exists>a k. buildVolumeCreateCommand c v q = k # a \<and> k \<noteq> ''destroy''"
  "\<exists>a k. buildVolumeCloneCommand c s v = k # a \<and> k \<noteq> ''destroy''"
  by (simp_all add: buildVolumeCreateCommand_def buildVolumeCloneCommand_def Let_def)

lemma keepsW_CreateVolumeReplica [volume_intros]:
  assumes q: "volumeQuiet R I"
  shows "keepsW I (CreateVolumeReplica R c v qu)"
proof -
  have *: "keepsW I (runZ (RunCombinedOutput R VolumeReplicaOperator cmd))" if "\<exists>a k. cmd = k # a \<and> k \<noteq> ''destroy''" for cmd
    using that keepsW_volume_commands(6) [OF q] unfolding VolumeReplicaOperator_def by metis
  have **: "\<exists>a k. (if b then buildVolumeCloneCommand c s v else buildVolumeCreateCommand c' v qu) = k # a \<and> k \<noteq> ''destroy''" for b s c'
    using volume_create_argv by presburger
  show ?thesis
    unfolding CreateVolumeReplica_def Let_def by (intro keeps_intros * [OF **])
qed

lemma keepsW_SetTargetIp [volume_intros]:
  assumes q: "volumeQuiet R I"
  shows "keepsW I (SetTargetIp R v ip)"
  unfolding SetTargetIp_def Let_def by (intro keeps_intros volume_intros | rule q)+

lemma keepsW_getVolumeProperty [volume_intros]:
  assumes q: "volumeQuiet R I"
  shows "keepsW I (getVolumeProperty R k d)"
  unfolding getVolumeProperty_def Let_def by (intro keeps_intros volume_intros | rule q)+

lemma keepsW_GetTargetIp [volume_intros]:
  assumes q: "volumeQuiet R I"
  shows "keepsW I (GetTargetIp R v)"
  unfolding GetTargetIp_def Let_def by (intro keeps_intros volume_intros | rule q)+

lemma keepsW_GetReplicaIDFromZFS [volume_intros]:
  assumes q: "volumeQuiet R I"
  shows "keepsW I (GetReplicaIDFromZFS R v)"
  unfolding GetReplicaIDFromZFS_def Let_def by (intro keeps_intros volume_intros | rule q)+

lemma keepsW_SetReplicaID [volume_intros]:
  assumes q: "volumeQuiet R I"
  shows "keepsW I (SetReplicaID R c)"
  unfolding SetReplicaID_def Let_def by (intro keeps_intros volume_intros | rule q)+

lemma keepsW_GetSnapshotList [volume_intros]:
  assumes q: "volumeQuiet R I"
  shows "keepsW I (GetSnapshotList R d)"
  unfolding GetSnapshotList_def Let_def by (intro keeps_intros volume_intros | rule q)+

lemma keepsW_getSnapshotInfo [volume_intros]:
  assumes q: "volumeQuiet R I"
  shows "keepsW I (getSnapshotInfo R d n)"
  unfolding getSnapshotInfo_def Let_def by (intro keeps_intros volume_intros | rule q)+

lemma keepsW_addSnapshots [volume_intros]:
  assumes q: "volumeQuiet R I"
  shows "keepsW I (addSnapshots R d ns m)"
  by (induction ns arbitrary: m) (simp_all only: addSnapshots.simps, (intro keeps_intros volume_intros | rule q | assumption)+)

lemma keepsW_addOrDeleteSnapshotListInfo [volume_intros]:
  assumes q: "volumeQuiet R I"
  shows "keepsW I (addOrDeleteSnapshotListInfo R c l)"
  unfolding addOrDeleteSnapshotListInfo_def Let_def by (intro keeps_intros volume_intros | rule q)+

lemma keepsW_getPeerReplicas [keeps_intros]: "keepsW I (getPeerReplicas R c)"
  unfolding getPeerReplicas_def Let_def by (intro keeps_intros)

lemma keepsW_getAndAddPendingSnapshotList [keeps_intros]: "keepsW I (getAndAddPendingSnapshotList R c)"
  unfolding getAndAddPendingSnapshotList_def Let_def by (intro keeps_intros)

lemma keepsW_GetAndUpdateSnapshotInfo [volume_intros]:
  assumes q: "volumeQuiet R I"
  shows "keepsW I (GetAndUpdateSnapshotInfo R c)"
  unfolding GetAndUpdateSnapshotInfo_def Let_def by (intro keeps_intros volume_intros | rule q)+

lemma keepsW_updateCVR [volume_intros]:
  assumes q: "volumeQuiet R I"
  shows "keepsW I (updateCVR R c)"
  unfolding updateCVR_def Let_def by (intro keeps_intros volume_intros | rule q)+

lemma keepsW_getVolumeReplicaStatus [volume_intros]:
  assumes q: "volumeQuiet R I"
  shows "keepsW I (getVolumeReplicaStatus R c v)"
  unfolding getVolumeReplicaStatus_def Let_def by (intro keeps_intros volume_intros | rule q)+

lemma keepsW_createVolumeReplica [volume_intros]:
  assumes q: "volumeQuiet R I"
  shows "keepsW I (createVolumeReplica R c v)"
  unfolding createVolumeReplica_def Let_def by (intro keeps_intros volume_intros | rule q)+

lemma keepsW_cVRAddEventHandler [volume_intros]:
  assumes q: "volumeQuiet R I"
  shows "keepsW I (cVRAddEventHandler R c v)"
  unfolding cVRAddEventHandler_def Let_def by (intro keeps_intros volume_intros | rule q)+

lemma keepsW_getCVRStatus [volume_intros]:
  assumes q: "volumeQuiet R I"
  shows "keepsW I (getCVRStatus R c)"
  unfolding getCVRStatus_def Let_def by (intro keeps_intros volume_intros | rule q)+

lemma keepsW_finishRestore [volume_intros]:
  assumes q: "volumeQuiet R I"
  shows "keepsW I (finishRestore R c v)"
  unfolding finishRestore_def Let_def by (intro keeps_intros volume_intros | rule q)+

lemma keepsW_cvr_reconcileVersion [volume_intros]:
  assumes q: "volumeQuiet R I"
  shows "keepsW I (cvr_reconcileVersion R c)"
  unfolding cvr_reconcileVersion_def Let_def by (intro keeps_intros volume_intros | rule q)+

lemma keepsW_syncCVRStatus [volume_intros]:
  assumes q: "volumeQuiet R I"
  shows "keepsW I (syncCVRStatus R c)"
  unfolding syncCVRStatus_def Let_def by (intro keeps_intros volume_intros | rule q)+

lemma keepsW_getVolumeReplicaResource [keeps_intros]: "keepsW I (getVolumeReplicaResource R k)"
  unfolding getVolumeReplicaResource_def Let_def by (intro keeps_intros)

lemma keepsW_cVREventHandler [volume_intros]:
  assumes q: "volumeQuiet R I" and op: "operation \<noteq> QOpDestroy"
  shows "keepsW I (cVREventHandler R operation c)"
  using op unfolding cVREventHandler_def Let_def
  by (cases operation; simp only: QueueOperation.case QueueOperation.distinct not_False_eq_True)
    (intro keeps_intros volume_intros | rule q)+

lemma keepsW_handleCVR [volume_intros]:
  assumes q: "volumeQuiet R I" and op: "operation \<noteq> QOpDestroy"
  shows "keepsW I (handleCVR R k operation c)"
  unfolding handleCVR_def Let_def by (intro keeps_intros volume_intros | rule q op)+

text \<open>
  C6. Only the destroy operation can destroy the volume of a replica or take its finalizer: every other
  operation of the controller, whatever fails, keeps every predicate that the zfs queries, the setting
  of properties, the creation of volumes and writes of the replica object keep.
\<close>

theorem only_destroy_destroys:
  assumes "volumeQuiet R I" and "operation \<noteq> QOpDestroy" and "I (world p)"
  shows "I (world (snd (syncHandler R key operation p)))"
proof -
  have "keepsW I (syncHandler R key operation)"
    unfolding syncHandler_def Let_def by (intro keeps_intros volume_intros | rule assms)+
  with assms(3) show ?thesis by (auto dest: keepsD)
qed

lemma replicaCommand_zfs: "replicaCommand cmd \<Longrightarrow> HasPrefix cmd ''zfs ''"
  unfolding replicaCommand_def
  by (simp only: list_ex_iff list.set insert_iff empty_iff bex_simps)
    (elim disjE; (erule HasPrefix_trans, simp add: HasPrefix_def)?; simp)

lemma sample_volumeQuiet: "volumeQuiet sampleRenv (\<lambda>s. ''cstor-p/v1'' \<in> set (st_zpools s))"
  unfolding volumeQuiet_def
  by (auto simp: sampleRenv_def replicaExec_def replicaCommand_zfs sampleRun_def keeps_def storeWith_def replaceObj_def Let_def)

theorem only_destroy_destroys_witness:
  "''cstor-p/v1'' \<in> set (st_zpools (world (snd (syncHandler sampleRenv ''openebs/v1-a'' QOpSync (samplePm replicaStore)))))"
proof -
  have "''cstor-p/v1'' \<in> set (st_zpools (world (samplePm replicaStore)))" by code_simp
  then show ?thesis by (intro only_destroy_destroys [OF sample_volumeQuiet]) simp_all
qed

section \<open>Deleting a replica\<close>

lemma DeleteVolume_Ok:
  assumes "DeleteVolume R v p = (Ok u, p')"
  obtains out err w where "RunCombinedOutput R ''zfs'' [''destroy'', ''-R'', v] (world p) = ((out, err), w)"
    and "err = None \<or> Contains out ''dataset does not exist''" and "p' = p\<lparr>world := w\<rparr>"
  using assms
  by (auto simp: DeleteVolume_def VolumeReplicaOperator_def bindS_Ok_iff runZ_def split: if_splits option.splits prod.splits)

lemma cvr_removeFinalizer_Ok:
  "cvr_removeFinalizer R c p = (Ok u, p') \<Longrightarrow> cvr_removeFinalizers R (world p) (Namespace c) (Name c) = (Ok (), world p')"
  by (auto simp: cvr_removeFinalizer_def onWorld_def wrapS_Ok_iff split: prod.splits)

text \<open>
  C32. A replica is released without error only after the pool was found and \<open>zfs destroy\<close> of its volume
  succeeded or reported that the dataset does not exist, and its finalizers are removed after that.
\<close>

theorem replica_release_needs_destroy:
  assumes "cVREventHandler R QOpDestroy c p = (Ok (c', st, None), p')"
  shows "\<exists>p1 out err w. PoolNameHandler R 2 p = (Ok True, p1) \<and>
     RunCombinedOutput R ''zfs'' [''destroy'', ''-R'', vr_GetPoolName R @ ''/'' @ mget (Labels c) PvNameKey] (world p1) =
       ((out, err), w) \<and>
     (err = None \<or> Contains out ''dataset does not exist'') \<and>
     cvr_removeFinalizers R w (Namespace c) (Name c) = (Ok (), world p')"
proof -
  obtain p1 where pool: "PoolNameHandler R 2 p = (Ok True, p1)"
    and run: "bindS (attemptS (DeleteVolume R (vr_GetPoolName R @ ''/'' @ mget (Labels c) PvNameKey))) (\<lambda>r.
        case r of Panic m \<Rightarrow> panicS m | Err e \<Rightarrow> returnS (c, CVRStatusDeletionFailed R, Some e)
        | Ok _ \<Rightarrow> bindS (attemptS (cvr_removeFinalizer R c)) (\<lambda>r.
            case r of Panic m \<Rightarrow> panicS m | Err e \<Rightarrow> returnS (c, CVRStatusDeletionFailed R, Some e)
            | Ok _ \<Rightarrow> returnS (c, '''', None))) p1 = (Ok (c', st, None), p')"
    using assms unfolding cVREventHandler_def Let_def PvNameKey_def
    by (cases "CheckValidVolumeReplica c"; simp add: bindS_Ok_iff split: if_splits; blast)
  then obtain p2 where del: "DeleteVolume R (vr_GetPoolName R @ ''/'' @ mget (Labels c) PvNameKey) p1 = (Ok (), p2)"
      and fin: "cvr_removeFinalizer R c p2 = (Ok (), p')"
    by (auto simp: bindS_attemptS_Ok_iff)
  note rem = cvr_removeFinalizer_Ok [OF fin]
  from del show ?thesis
  proof (rule DeleteVolume_Ok)
    fix out err w
    assume d: "RunCombinedOutput R ''zfs'' [''destroy'', ''-R'', vr_GetPoolName R @ ''/'' @ mget (Labels c) PvNameKey] (world p1) =
        ((out, err), w)" "err = None \<or> Contains out ''dataset does not exist''" "p2 = p1\<lparr>world := w\<rparr>"
    with rem have "cvr_removeFinalizers R w (Namespace c) (Name c) = (Ok (), world p')" by simp
    with pool d(1,2) show ?thesis by blast
  qed
qed

theorem replica_release_needs_destroy_witness:
  "\<exists>p1 out err w. PoolNameHandler sampleRenv 2 (samplePm replicaStore) = (Ok True, p1) \<and>
     RunCombinedOutput sampleRenv ''zfs''
       [''destroy'', ''-R'', vr_GetPoolName sampleRenv @ ''/'' @ mget (Labels (sampleCVR ''v1-a'' ''Healthy'' [])) PvNameKey] (world p1) =
       ((out, err), w) \<and>
     (err = None \<or> Contains out ''dataset does not exist'') \<and>
     cvr_removeFinalizers sampleRenv w (Namespace (sampleCVR ''v1-a'' ''Healthy'' [])) (Name (sampleCVR ''v1-a'' ''Healthy'' [])) =
       (Ok (), world (snd (cVREventHandler sampleRenv QOpDestroy (sampleCVR ''v1-a'' ''Healthy'' []) (samplePm replicaStore))))"
proof -
  let ?r = "cVREventHandler sampleRenv QOpDestroy (sampleCVR ''v1-a'' ''Healthy'' []) (samplePm replicaStore)"
  have "fst ?r = Ok (sampleCVR ''v1-a'' ''Healthy'' [], '''', None)" by code_simp
  then have "?r = (Ok (sampleCVR ''v1-a'' ''Healthy'' [], '''', None), snd ?r)" by (metis prod.collapse)
  then show ?thesis by (rule replica_release_needs_destroy)
qed

section \<open>Backups\<close>

text \<open>The outcome of the \<open>k\<close>-th run (from 0) of a command that is run again and again.\<close>

definition nthRun :: "'s renv \<Rightarrow> string list \<Rightarrow> nat \<Rightarrow> 's \<Rightarrow> (string \<times> goerr option) \<times> 's" where
  "nthRun R cmd k w = RunCombinedOutput R ExecuteScript cmd (((\<lambda>w. snd (RunCombinedOutput R ExecuteScript cmd w)) ^^ k) w)"

lemma nthRun_Suc: "nthRun R cmd (Suc k) w = nthRun R cmd k (snd (RunCombinedOutput R ExecuteScript cmd w))"
  by (simp only: nthRun_def funpow_Suc_right o_apply)

lemma retryLoop_result:
  "\<exists>out err p'. retryLoop R cmd (Suc n) res p = (Ok (out, err), p') \<and>
     (err = None \<longleftrightarrow> (\<exists>k \<le> n. snd (fst (nthRun R cmd k (world p))) = None))"
proof (induction n arbitrary: res p)
  case 0
  then show ?case by (auto simp: bindS_def runZ_def nthRun_def split: prod.splits)
next
  case (Suc n)
  obtain out err w where run: "RunCombinedOutput R ExecuteScript cmd (world p) = ((out, err), w)"
    by (metis surj_pair)
  have first: "snd (fst (nthRun R cmd 0 (world p))) = err" by (simp add: nthRun_def run)
  show ?case
  proof (cases err)
    case None
    with run first show ?thesis by (auto simp: bindS_def runZ_def)
  next
    case (Some e)
    obtain out' err' p' where IH: "retryLoop R cmd (Suc n) (out, err) (p\<lparr>world := w\<rparr>) = (Ok (out', err'), p')"
        "err' = None \<longleftrightarrow> (\<exists>k \<le> n. snd (fst (nthRun R cmd k w)) = None)"
      using Suc.IH [of "(out, err)" "p\<lparr>world := w\<rparr>"] by auto
    have "(\<exists>k \<le> Suc n. snd (fst (nthRun R cmd k (world p))) = None) \<longleftrightarrow>
          (\<exists>k \<le> n. snd (fst (nthRun R cmd (Suc k) (world p))) = None)"
      using first Some by (metis Suc_le_mono not0_implies_Suc option.distinct(1))
    moreover have "retryLoop R cmd (Suc (Suc n)) res p = (Ok (out', err'), p')"
      using IH(1) run Some by (simp only: retryLoop.simps(2) [of R cmd "Suc n"]) (simp add: bindS_def runZ_def)
    ultimately show ?thesis using IH(2) run by (simp add: nthRun_Suc)
  qed
qed

text \<open>
  A backup whose destination is well formed always ends, with no error exactly when one of at most
  ten runs of the transfer succeeds.
\<close>

theorem backup_ends_ok_iff:
  assumes "buildVolumeBackupCommand (vr_GetPoolName R) (bkp_VolumeName bkp) (bkp_PrevSnapName bkp) (bkp_SnapName bkp)
     (bkp_BackupDest bkp) = Ok cmd"
  shows "(\<forall>m. fst (CreateVolumeBackup R bkp p) \<noteq> Panic m) \<and>
     (fst (CreateVolumeBackup R bkp p) = Ok () \<longleftrightarrow> (\<exists>k < 10. snd (fst (nthRun R cmd k (world p))) = None))"
proof -
  obtain out err p' where run: "retryLoop R cmd (Suc 9) ('''', None) p = (Ok (out, err), p')"
    and ok: "err = None \<longleftrightarrow> (\<exists>k \<le> 9. snd (fst (nthRun R cmd k (world p))) = None)"
    using retryLoop_result [of R cmd 9 "('''', None)" p] by blast
  have "CreateVolumeBackup R bkp p = failOpt (map_option (\<lambda>e. Wrapf e ''error: %s'' [AS out]) err) p'"
    using run assms by (simp only: CreateVolumeBackup_def) (simp add: bindS_def eval_nat_numeral)
  moreover have "(k :: nat) < 10 \<longleftrightarrow> k \<le> 9" for k by auto
  ultimately show ?thesis using ok by (cases err) (simp_all add: failOpt_def)
qed

theorem backup_ends_ok_iff_witness:
  "fst (CreateVolumeBackup sampleRenv sampleBackup (samplePm replicaStore)) = Ok ()"
proof -
  let ?cmd = "[''zfs'', ''send'', ''cstor-p/v1@s1'', ''| nc -w 3 10.0.0.2 9000'']"
  have cmd: "buildVolumeBackupCommand (vr_GetPoolName sampleRenv) (bkp_VolumeName sampleBackup) (bkp_PrevSnapName sampleBackup)
     (bkp_SnapName sampleBackup) (bkp_BackupDest sampleBackup) = Ok ?cmd" by code_simp
  have "snd (fst (nthRun sampleRenv ?cmd 1 (world (samplePm replicaStore)))) = None" by code_simp
  then have "\<exists>k < 10. snd (fst (nthRun sampleRenv ?cmd k (world (samplePm replicaStore)))) = None"
    by (intro exI [of _ 1]) simp
  with backup_ends_ok_iff [OF cmd, of "samplePm replicaStore"] show ?thesis by blast
qed

section \<open>Snapshots\<close>

lemma addSnapshots_keys:
  assumes "addSnapshots R d ns m p = (Ok (m', None), p')"
  shows "dom (map_of m') = dom (map_of m) \<union> set ns \<and> (\<forall>n i. map_of m n = Some i \<longrightarrow> map_of m' n = Some i)"
  using assms
proof (induction ns arbitrary: m p)
  case (Cons n ns)
  show ?case
  proof (cases "map_of m n = None")
    case True
    with Cons.prems obtain i q where "addSnapshots R d ns (mput n i m) q = (Ok (m', None), p')"
      by (auto simp: bindS_attemptS_Ok_iff)
    from Cons.IH [OF this, unfolded map_of_mput]
    have IH: "dom (map_of m') = dom ((map_of m)(n \<mapsto> i)) \<union> set ns"
        "\<forall>k j. ((map_of m)(n \<mapsto> i)) k = Some j \<longrightarrow> map_of m' k = Some j" by blast+
    have "map_of m' k = Some j" if "map_of m k = Some j" for k j
      using IH(2) that True by (metis fun_upd_other option.distinct(1))
    with IH(1) show ?thesis by auto
  next
    case False
    with Cons.prems have "addSnapshots R d ns m p = (Ok (m', None), p')" by simp
    from Cons.IH [OF this] False show ?thesis by auto
  qed
qed simp

lemma map_of_filter_keys: "map_of (filter (\<lambda>(k, _). P k) m) = map_of m |` {k. P k}"
  by (induction m) (auto simp: restrict_map_def fun_eq_iff)

lemma dom_putNew: "dom (map_of (putNew xs m)) = dom (map_of m) \<union> fst ` set xs"
  by (induction xs m rule: putNew.induct) (auto simp: map_of_mput)

lemma dom_peer:
  "dom (map_of (getPeerSnapshotInfoList cs m)) = dom (map_of m) \<union> (\<Union>c \<in> set cs. fst ` set (cvr_Snapshots c))"
  by (induction cs m rule: getPeerSnapshotInfoList.induct) (auto simp: dom_putNew)

lemma addOrDelete_result:
  assumes order: "\<forall>m. set (mapOrder (api (pool R)) m) = set m"
    and run: "addOrDeleteSnapshotListInfo R c l p = (Ok (c', None), p')"
  shows "dom (map_of (cvr_Snapshots c')) = fst ` set l \<and> cvr_Phase c' = cvr_Phase c \<and>
     dom (map_of (cvr_PendingSnapshots c')) = dom (map_of (cvr_PendingSnapshots c)) - fst ` set l \<and>
     Name c' = Name c \<and> Namespace c' = Namespace c \<and> Labels c' = Labels c"
proof -
  from run obtain m where add: "addSnapshots R (snapshotDataset R c) (map fst (mapOrder (api (pool R)) l)) (cvr_Snapshots c) p = (Ok (m, None), p')"
    and c': "c' = c\<lparr>cvr_Snapshots := filter (\<lambda>(n, _). map_of l n \<noteq> None) m,
                cvr_PendingSnapshots := filter (\<lambda>(n, _). map_of l n = None) (cvr_PendingSnapshots c)\<rparr>"
    by (auto simp: addOrDeleteSnapshotListInfo_def bindS_Ok_iff split: option.splits)
  have "dom (map_of m) \<supseteq> fst ` set l" using addSnapshots_keys [OF add] order by auto
  then show ?thesis
    using c' by (auto simp: map_of_filter_keys map_of_eq_None_iff)
qed

lemma dom_pending:
  "dom (map_of (putNew (filter (\<lambda>(n, _). map_of own n = None) peer) (filter (\<lambda>(n, _). map_of peer n \<noteq> None) pend))) =
     dom (map_of pend) \<inter> dom (map_of peer) \<union> (dom (map_of peer) - dom (map_of own))"
proof -
  have "fst ` set (filter (\<lambda>(n, _). map_of own n = None) peer) = fst ` set peer - dom (map_of own)" by force
  then show ?thesis by (auto simp: dom_putNew map_of_filter_keys dom_map_of_conv_image_fst [symmetric])
qed

lemma getAndAddPending_result:
  assumes "getAndAddPendingSnapshotList R c p = (Ok c', p')"
  shows "\<exists>cs. cvr_list (api (pool R)) (world p) (Namespace c)
             (PersistentVolumeLabelKey R @ ''='' @ mget (Labels c) (PersistentVolumeLabelKey R)) = Ok cs \<and> p' = p \<and>
           cvr_Phase c' = cvr_Phase c \<and> cvr_Snapshots c' = cvr_Snapshots c \<and>
           dom (map_of (cvr_PendingSnapshots c')) =
             (let peers = (\<Union>d \<in> {d \<in> set cs. Name d \<noteq> Name c}. fst ` set (cvr_Snapshots d))
              in dom (map_of (cvr_PendingSnapshots c)) \<inter> peers \<union> (peers - dom (map_of (cvr_Snapshots c))))"
proof -
  from assms obtain cs where cs: "cvr_list (api (pool R)) (world p) (Namespace c)
             (PersistentVolumeLabelKey R @ ''='' @ mget (Labels c) (PersistentVolumeLabelKey R)) = Ok cs" "p' = p"
    and c': "c' = c\<lparr>cvr_PendingSnapshots :=
        putNew (filter (\<lambda>(n, _). map_of (cvr_Snapshots c) n = None) (getPeerSnapshotInfoList (filter (\<lambda>d. Name d \<noteq> Name c) cs) []))
          (filter (\<lambda>(n, _). map_of (getPeerSnapshotInfoList (filter (\<lambda>d. Name d \<noteq> Name c) cs) []) n \<noteq> None) (cvr_PendingSnapshots c))\<rparr>"
    unfolding getAndAddPendingSnapshotList_def getPeerReplicas_def readW_def Let_def
    by (auto simp: bindS_Ok_iff wrapS_Ok_iff bindR_Ok_iff)
  have "dom (map_of (getPeerSnapshotInfoList (filter (\<lambda>d. Name d \<noteq> Name c) cs) [])) =
      (\<Union>d \<in> {d \<in> set cs. Name d \<noteq> Name c}. fst ` set (cvr_Snapshots d))"
    by (simp add: dom_peer)
  with cs c' show ?thesis by (simp add: dom_pending Let_def del: not_None_eq)
qed

lemma rebuild_pending:
  assumes order: "\<forall>m. set (mapOrder (api (pool R)) m) = set m"
    and add: "addOrDeleteSnapshotListInfo R c l p1 = (Ok (c1, None), p2)"
    and pend: "getAndAddPendingSnapshotList R c1 p2 = (Ok c2, p')"
  obtains cs where
    "cvr_list (api (pool R)) (world p') (Namespace c)
       (PersistentVolumeLabelKey R @ ''='' @ mget (Labels c) (PersistentVolumeLabelKey R)) = Ok cs"
    and "cvr_Phase c2 = cvr_Phase c" and "dom (map_of (cvr_Snapshots c2)) = fst ` set l"
    and "dom (map_of (cvr_PendingSnapshots c2)) =
      (\<Union>d \<in> {d \<in> set cs. Name d \<noteq> Name c}. fst ` set (cvr_Snapshots d)) - fst ` set l"
proof -
  note res = addOrDelete_result [OF order add]
  note step = getAndAddPending_result [OF pend]
  have eqs: "cvr_Phase c1 = cvr_Phase c" "Name c1 = Name c" "Namespace c1 = Namespace c" "Labels c1 = Labels c"
      "dom (map_of (cvr_PendingSnapshots c1)) = dom (map_of (cvr_PendingSnapshots c)) - fst ` set l"
      "dom (map_of (cvr_Snapshots c1)) = fst ` set l"
    using res by simp_all
  from step [unfolded eqs] obtain cs where
      cs: "cvr_list (api (pool R)) (world p2) (Namespace c)
             (PersistentVolumeLabelKey R @ ''='' @ mget (Labels c) (PersistentVolumeLabelKey R)) = Ok cs" "p' = p2"
      and same: "cvr_Phase c2 = cvr_Phase c" "cvr_Snapshots c2 = cvr_Snapshots c1"
      and d: "dom (map_of (cvr_PendingSnapshots c2)) =
        (let peers = (\<Union>d \<in> {d \<in> set cs. Name d \<noteq> Name c}. fst ` set (cvr_Snapshots d))
         in (dom (map_of (cvr_PendingSnapshots c)) - fst ` set l) \<inter> peers \<union> (peers - fst ` set l))"
    by (elim exE conjE) (rule that)
  have aux: "(A - L) \<inter> P \<union> (P - L) = P - L" for A L P :: "string set" by blast
  from d have d': "dom (map_of (cvr_PendingSnapshots c2)) =
      (\<Union>d \<in> {d \<in> set cs. Name d \<noteq> Name c}. fst ` set (cvr_Snapshots d)) - fst ` set l"
    by (simp only: Let_def aux)
  show ?thesis
  proof (rule that)
    show "dom (map_of (cvr_Snapshots c2)) = fst ` set l" using same(2) eqs(6) by simp
  qed (use cs same d' in simp_all)
qed



end
