(* ===== verification/VolumeTarget.thy ===== *)
theory VolumeTarget
  imports PoolDeploy
begin

text \<open>
  The deployment that runs the target of a volume, \<open>pkg/controllers/cstorvolumeconfig/deployment.go\<close>, and the
  defaults of volume policies, \<open>policy.go\<close>. Resource requirements, tolerations and affinities are only copied
  and stay opaque, as in the deployment of a pool.
\<close>

section \<open>Volume policies\<close>

definition defaultQueueDepth :: string where "defaultQueueDepth = ''32''"
definition defaultIOWorkers :: int where "defaultIOWorkers = 6"

text \<open>Requests and limits of zero for CPU and memory.\<close>

definition zeroResources :: string where
  "zeroResources = ''requests: cpu=0 memory=0, limits: cpu=0 memory=0''"

definition getDefaultPolicySpec :: CStorVolumePolicySpec where
  "getDefaultPolicySpec =
     emptyPolicySpec\<lparr>pol_Resources := Some zeroResources, pol_AuxResources := Some zeroResources,
       pol_QueueDepth := defaultQueueDepth, pol_IOWorkers := defaultIOWorkers\<rparr>"

definition defaultTargetPolicy :: "CStorVolumePolicySpec \<Rightarrow> CStorVolumePolicySpec \<Rightarrow> CStorVolumePolicySpec" where
  "defaultTargetPolicy policy defaultPolicy =
     policy\<lparr>pol_Resources := (if pol_Resources policy = None then pol_Resources defaultPolicy else pol_Resources policy),
            pol_AuxResources := (if pol_AuxResources policy = None then pol_AuxResources defaultPolicy else pol_AuxResources policy),
            pol_IOWorkers := (if pol_IOWorkers policy = 0 then pol_IOWorkers defaultPolicy else pol_IOWorkers policy),
            pol_QueueDepth := (if pol_QueueDepth policy = '''' then pol_QueueDepth defaultPolicy else pol_QueueDepth policy)\<rparr>"

definition defaultReplicaPolicy :: "CStorVolumePolicySpec \<Rightarrow> CStorVolumePolicySpec \<Rightarrow> CStorVolumePolicySpec" where
  "defaultReplicaPolicy policy defaultPolicy = policy"

definition validatePolicySpec :: "CStorVolumePolicySpec \<Rightarrow> CStorVolumePolicySpec" where
  "validatePolicySpec policy =
     foldl (\<lambda>p opt. opt p getDefaultPolicySpec) policy [defaultTargetPolicy, defaultReplicaPolicy]"

section \<open>Parts of the deployment\<close>

definition TargetContainerName :: string where "TargetContainerName = ''cstor-istgt''"
definition MonitorContainerName :: string where "MonitorContainerName = ''maya-volume-exporter''"
definition MgmtContainerName :: string where "MgmtContainerName = ''cstor-volume-mgmt''"

definition openebsPVC :: string where
  "openebsPVC = ''openebs.io/persistent-volume-claim''"

definition defaultMounts :: "VolumeMount list" where
  "defaultMounts =
     [\<lparr>vm_Name = ''sockfile'', vm_MountPath = ''/var/run''\<rparr>,
      \<lparr>vm_Name = ''conf'', vm_MountPath = ''/usr/local/etc/istgt''\<rparr>,
      \<lparr>vm_Name = ''storagepath'', vm_MountPath = ''/var/openebs/cstor-target''\<rparr>]"

definition tgt_getDeployLabels :: "'s env \<Rightarrow> string \<Rightarrow> string \<Rightarrow> gomap" where
  "tgt_getDeployLabels E pvName pvcName =
     [(''app'', ''cstor-volume-manager''), (''openebs.io/cas-type'', ''cstor''), (''openebs.io/persistent-volume'', pvName),
      (openebsPVC, pvcName), (''openebs.io/storage-engine-type'', ''cstor''), (''openebs.io/target'', ''cstor-target''),
      (''openebs.io/version'', binaryVersion E)]"

definition getDeployAnnotation :: gomap where
  "getDeployAnnotation = [(''openebs.io/volume-monitor'', ''true''), (''openebs.io/volume-type'', ''cstor'')]"

definition tgt_getDeployMatchLabels :: "string \<Rightarrow> gomap" where
  "tgt_getDeployMatchLabels pvName =
     [(''app'', ''cstor-volume-manager''), (''openebs.io/persistent-volume'', pvName), (''openebs.io/target'', ''cstor-target'')]"

definition getDeployTemplateLabels :: "'s env \<Rightarrow> string \<Rightarrow> string \<Rightarrow> gomap" where
  "getDeployTemplateLabels E pvName pvcName =
     [(''app'', ''cstor-volume-manager''), (''monitoring'', ''volume_exporter_prometheus''),
      (''openebs.io/persistent-volume'', pvName), (openebsPVC, pvcName), (''openebs.io/target'', ''cstor-target''),
      (''openebs.io/version'', binaryVersion E)]"

definition getDeployTemplateAnnotations :: gomap where
  "getDeployTemplateAnnotations =
     [(''prometheus.io/path'', ''/metrics''), (''prometheus.io/port'', ''9500''), (''prometheus.io/scrape'', ''true'')]"

definition tgt_getDeployOwnerReference :: "CStorVolume \<Rightarrow> OwnerReference list" where
  "tgt_getDeployOwnerReference volume = [\<lparr>or_Kind = ''CStorVolume'', or_Name = Name volume, or_UID = UID volume\<rparr>]"

text \<open>The affinity of the pod holds at most a pod affinity.\<close>

definition getTargetTemplateAffinity :: "CStorVolumePolicySpec \<Rightarrow> string option" where
  "getTargetTemplateAffinity policySpec =
     (case pol_PodAffinity policySpec of None \<Rightarrow> None | Some a \<Rightarrow> Some a)"

text \<open>Each entry tolerates a taint with effect NoExecute for 30 seconds.\<close>

definition defaulTolerations :: "string list" where
  "defaulTolerations =
     map (\<lambda>key. key @ '' Exists NoExecute 30'')
       [''node.alpha.kubernetes.io/notReady'', ''node.alpha.kubernetes.io/unreachable'',
        ''node.kubernetes.io/not-ready'', ''node.kubernetes.io/unreachable'']"

definition getDeployTolerations :: "CStorVolumePolicySpec \<Rightarrow> string list" where
  "getDeployTolerations policySpec =
     (if length (pol_Tolerations policySpec) = 0 then defaulTolerations else pol_Tolerations policySpec)"

definition getMonitorMounts :: "VolumeMount list" where
  "getMonitorMounts = defaultMounts"

definition getTargetMgmtMounts :: "VolumeMount list" where
  "getTargetMgmtMounts = defaultMounts"

text \<open>\<open>strconv.FormatInt\<close> in base 10.\<close>

definition FormatInt :: "int \<Rightarrow> string" where
  "FormatInt n = (if n < 0 then ''-'' @ showNat (nat (- n)) else showNat (nat n))"

definition setIstgtEnvs :: "CStorVolumePolicySpec \<Rightarrow> EnvVar list" where
  "setIstgtEnvs policySpec =
     [\<lparr>ev_Name = ''QueueDepth'', ev_Value = pol_QueueDepth policySpec, ev_FieldPath = None\<rparr>,
      \<lparr>ev_Name = ''Luworkers'', ev_Value = FormatInt (pol_IOWorkers policySpec), ev_FieldPath = None\<rparr>]"

definition getDeployTemplateEnvs :: "string \<Rightarrow> EnvVar list" where
  "getDeployTemplateEnvs cstorid =
     [\<lparr>ev_Name = ''OPENEBS_IO_CSTOR_VOLUME_ID'', ev_Value = cstorid, ev_FieldPath = None\<rparr>,
      \<lparr>ev_Name = ''RESYNC_INTERVAL'', ev_Value = ''30'', ev_FieldPath = None\<rparr>,
      \<lparr>ev_Name = ''NODE_NAME'', ev_Value = '''', ev_FieldPath = Some ''spec.nodeName''\<rparr>,
      \<lparr>ev_Name = ''POD_NAME'', ev_Value = '''', ev_FieldPath = Some ''metadata.name''\<rparr>,
      \<lparr>ev_Name = ''OPENEBS_NAMESPACE'', ev_Value = '''', ev_FieldPath = Some ''metadata.namespace''\<rparr>]"

definition getVolumeTargetImage :: "'s env \<Rightarrow> string" where
  "getVolumeTargetImage E = envOr E ''OPENEBS_IO_CSTOR_TARGET_IMAGE'' ''openebs/cstor-istgt:ci''"

definition getVolumeMonitorImage :: "'s env \<Rightarrow> string" where
  "getVolumeMonitorImage E = envOr E ''OPENEBS_IO_VOLUME_MONITOR_IMAGE'' ''openebs/m-exporter:ci''"

definition getVolumeMgmtImage :: "'s env \<Rightarrow> string" where
  "getVolumeMgmtImage E = envOr E ''OPENEBS_IO_CSTOR_VOLUME_MGMT_IMAGE'' ''openebs/cstor-volume-manager-amd64:ci''"

definition tgt_getContainerPort :: "32 word \<Rightarrow> ContainerPort list" where
  "tgt_getContainerPort port = [\<lparr>cp_ContainerPort = port, cp_Protocol = ''''\<rparr>]"

definition getResourceRequirementForCStorTarget :: "CStorVolumePolicySpec \<Rightarrow> string" where
  "getResourceRequirementForCStorTarget policySpec = (case pol_Resources policySpec of None \<Rightarrow> '''' | Some r \<Rightarrow> r)"

definition tgt_getAuxResourceRequirement :: "CStorVolumePolicySpec \<Rightarrow> string" where
  "tgt_getAuxResourceRequirement policySpec = (case pol_AuxResources policySpec of None \<Rightarrow> '''' | Some r \<Rightarrow> r)"

definition tgt_getPriorityClass :: "CStorVolumePolicySpec \<Rightarrow> string" where
  "tgt_getPriorityClass policySpec = pol_PriorityClassName policySpec"

section \<open>The deployment\<close>

definition targetContainers :: "'s env \<Rightarrow> CStorVolume \<Rightarrow> CStorVolumePolicySpec \<Rightarrow> Container list" where
  "targetContainers E vol policySpec =
     [NewContainer\<lparr>ct_Image := getVolumeTargetImage E, ct_Name := TargetContainerName,
        ct_ImagePullPolicy := ''IfNotPresent'', ct_Ports := tgt_getContainerPort 3260, ct_Env := setIstgtEnvs policySpec,
        ct_Resources := getResourceRequirementForCStorTarget policySpec, ct_Privileged := True,
        ct_VolumeMounts := getTargetMgmtMounts\<rparr>,
      NewContainer\<lparr>ct_Image := getVolumeMonitorImage E, ct_Name := MonitorContainerName,
        ct_Command := [''maya-exporter''], ct_Args := [''-e=cstor''],
        ct_Resources := tgt_getAuxResourceRequirement policySpec, ct_Ports := tgt_getContainerPort 9500,
        ct_VolumeMounts := getMonitorMounts\<rparr>,
      NewContainer\<lparr>ct_Image := getVolumeMgmtImage E, ct_Name := MgmtContainerName,
        ct_ImagePullPolicy := ''IfNotPresent'', ct_Ports := tgt_getContainerPort 80,
        ct_Env := getDeployTemplateEnvs (UID vol), ct_Resources := tgt_getAuxResourceRequirement policySpec,
        ct_Privileged := True, ct_VolumeMounts := getTargetMgmtMounts\<rparr>]"

definition targetVolumes :: "'s env \<Rightarrow> CStorVolume \<Rightarrow> Volume list" where
  "targetVolumes E vol =
     [\<lparr>vol_Name = ''sockfile'', vol_Source = EmptyDir\<rparr>,
      \<lparr>vol_Name = ''conf'', vol_Source = EmptyDir\<rparr>,
      \<lparr>vol_Name = ''storagepath'',
       vol_Source = HostPath (OpenebsBaseDirPath E @ ''/cstor-target/'' @ Name vol) ''DirectoryOrCreate''\<rparr>]"

definition BuildTargetDeployment :: "'s env \<Rightarrow> CStorVolume \<Rightarrow> CStorVolumePolicySpec \<Rightarrow> Deployment" where
  "BuildTargetDeployment E vol policySpec =
     (let pvc = mget (Labels vol) openebsPVC in
      \<lparr>Name = Name vol @ ''-target'', Namespace = '''', UID = '''', Labels = tgt_getDeployLabels E (Name vol) pvc,
       Annotations = getDeployAnnotation, Finalizers = [], OwnerReferences = tgt_getDeployOwnerReference vol,
       DeletionTimestamp = None,
       dep_Replicas = 1, dep_StrategyType = ''Recreate'', dep_Selector = tgt_getDeployMatchLabels (Name vol),
       dep_Template =
         \<lparr>pt_Labels = getDeployTemplateLabels E (Name vol) pvc, pt_PriorityClassName = tgt_getPriorityClass policySpec,
          pt_NodeSelector = pol_NodeSelector policySpec, pt_Annotations = getDeployTemplateAnnotations,
          pt_ServiceAccountName = GetServiceAccountName E, pt_Affinity = getTargetTemplateAffinity policySpec,
          pt_Tolerations = getDeployTolerations policySpec, pt_ImagePullSecrets = ImagePullSecrets E,
          pt_Containers = targetContainers E vol policySpec, pt_Volumes = targetVolumes E vol\<rparr>,
       dep_ReadyReplicas = 0\<rparr>)"

definition getOrCreateCStorTargetDeployment ::
    "'s env \<Rightarrow> CStorVolume \<Rightarrow> CStorVolumePolicySpec \<Rightarrow> ('s, unit) act" where
  "getOrCreateCStorTargetDeployment E vol policySpec =
     bindS (attemptS (readS (\<lambda>s. deploy_get E s (OpenEBSNamespace E) (Name vol @ ''-target'')))) (\<lambda>r.
       case r of
         Panic m \<Rightarrow> panicS m
       | Err e \<Rightarrow>
           if \<not> IsNotFound e then failS (Wrapf e ''failed to get cstorvolume target {%v}'' [AS ''''])
           else wrapS (\<lambda>s. deploy_create E s (OpenEBSNamespace E) (BuildTargetDeployment E vol policySpec))
                  ''failed to create deployment object'' []
       | Ok _ \<Rightarrow> returnS ())"

lemmas target_part_defs =
  tgt_getDeployLabels_def getDeployTemplateLabels_def tgt_getDeployMatchLabels_def targetContainers_def targetVolumes_def
  getTargetMgmtMounts_def getMonitorMounts_def defaultMounts_def NewContainer_def openebsPVC_def
  TargetContainerName_def MonitorContainerName_def MgmtContainerName_def

text \<open>
  The deployment of a volume target is well formed for every volume and policy: one recreated replica, whose pods its
  selector selects, with unique containers and volumes and no dangling mount.
\<close>

lemma target_deployment_well_formed: "wellFormedDeployment (BuildTargetDeployment E vol policySpec)"
  by (simp add: wellFormedDeployment_def BuildTargetDeployment_def target_part_defs Let_def mget_def)

end
