(* ===== verification/VolumeOperations.thy ===== *)
theory VolumeOperations
  imports VolumeTarget VolumeReplica "HOL-Library.Signed_Division"
begin

text \<open>
  The operations on volumes of the CVC operator, \<open>pkg/controllers/cstorvolumeconfig/volume_operations.go\<close>
  and \<open>pdb.go\<close>: the service, the volume object and the replicas of a new volume, the pod disruption budgets of
  highly available volumes, and the scaling of replicas.
\<close>

section \<open>Parameters\<close>

text \<open>
  What is used outside the repository: the clients of the kinds below, the JSON encodings, the random permutation
  of \<open>math/rand\<close>, the order in which a map of conditions is visited, the helpers and constants of \<open>github.com/openebs/api\<close>. A create of the typed client returns the
  stored object; the removal of all finalizers is one JSON patch.
\<close>

record 's cenv =
  rep :: "'s renv"
  svc_get :: "'s \<Rightarrow> string \<Rightarrow> string \<Rightarrow> Service res"
  svc_create :: "'s \<Rightarrow> string \<Rightarrow> Service \<Rightarrow> Service res \<times> 's"
  cv_get :: "'s \<Rightarrow> string \<Rightarrow> string \<Rightarrow> CStorVolume res"
  cv_create :: "'s \<Rightarrow> string \<Rightarrow> CStorVolume \<Rightarrow> CStorVolume res \<times> 's"
  cv_update :: "'s \<Rightarrow> string \<Rightarrow> CStorVolume \<Rightarrow> CStorVolume res \<times> 's"
  cv_patch :: "'s \<Rightarrow> string \<Rightarrow> string \<Rightarrow> string \<Rightarrow> CStorVolume res \<times> 's"
  cvp_get :: "'s \<Rightarrow> string \<Rightarrow> string \<Rightarrow> CStorVolumePolicySpec res"
  cvr_create :: "'s \<Rightarrow> string \<Rightarrow> CStorVolumeReplica \<Rightarrow> CStorVolumeReplica res \<times> 's"
  cvr_delete :: "'s \<Rightarrow> string \<Rightarrow> string \<Rightarrow> verdict \<times> 's"
  cvc_cached :: "'s \<Rightarrow> string \<Rightarrow> string \<Rightarrow> CStorVolumeConfig res"
  cvc_update :: "'s \<Rightarrow> string \<Rightarrow> CStorVolumeConfig \<Rightarrow> CStorVolumeConfig res \<times> 's"
  cvc_patch :: "'s \<Rightarrow> string \<Rightarrow> string \<Rightarrow> string \<Rightarrow> CStorVolumeConfig res \<times> 's"
  cvc_removeFinalizers :: "'s \<Rightarrow> string \<Rightarrow> string \<Rightarrow> verdict \<times> 's"
  pdb_list :: "'s \<Rightarrow> string \<Rightarrow> string \<Rightarrow> PodDisruptionBudget list res"
  pdb_create :: "'s \<Rightarrow> string \<Rightarrow> PodDisruptionBudget \<Rightarrow> PodDisruptionBudget res \<times> 's"
  pdb_delete :: "'s \<Rightarrow> string \<Rightarrow> string \<Rightarrow> verdict \<times> 's"
  marshalCVC :: "CStorVolumeConfig \<Rightarrow> string res"
  marshalCV :: "CStorVolume \<Rightarrow> string res"
  QuantityString :: "Quantity \<Rightarrow> string"
  ParsedCapacity :: "string \<Rightarrow> Quantity"
  cstorIQN :: "string \<Rightarrow> string"
  randPerm :: "'s \<Rightarrow> nat \<Rightarrow> nat list"
  IsChangeInLists :: "string list \<Rightarrow> string list \<Rightarrow> bool"
  GetPoolNames :: "CStorVolumeReplica list \<Rightarrow> string list"
  IsScaleDownInProgress :: "CStorVolume \<Rightarrow> bool"
  volumeReference :: "CStorVolume \<Rightarrow> string res"
  spewHash :: "CStorVolumePolicySpec \<Rightarrow> 32 word"
  conditionOrder :: "(string \<times> Condition) list \<Rightarrow> (string \<times> Condition) list"
  TargetPort :: string
  CStorVolumeReplicaFinalizer :: string
  PodDisruptionBudgetKey :: string
  VolumePolicyKey :: string
  CStorVolumeConfigPhasePending :: string
  CStorVolumeConfigResizing :: string
  CStorVolumeConfigResizePending :: string

abbreviation capi :: "'s cenv \<Rightarrow> 's env" where
  "capi C \<equiv> api (pool (rep C))"

abbreviation openebsNamespace :: "'s cenv \<Rightarrow> string" where
  "openebsNamespace C \<equiv> OpenEBSNamespace (capi C)"

record replicaInfo =
  ri_replicaID :: string
  ri_phase :: string
  ri_ioWorkers :: string

section \<open>Names and labels\<close>

definition pvSelector :: string where "pvSelector = ''openebs.io/persistent-volume''"
definition minHAReplicaCount :: nat where "minHAReplicaCount = 3"
definition volumeID :: string where "volumeID = ''openebs.io/volumeID''"
definition pvCreatedByKey :: string where "pvCreatedByKey = ''openebs.io/created-through''"
definition createdThroughRestore :: string where "createdThroughRestore = ''restore''"

definition cvPorts :: "ServicePort list" where
  "cvPorts =
     [\<lparr>sp_Name = ''cstor-iscsi'', sp_Port = 3260, sp_Protocol = ''TCP'', sp_TargetPort = 3260\<rparr>,
      \<lparr>sp_Name = ''cstor-grpc'', sp_Port = 7777, sp_Protocol = ''TCP'', sp_TargetPort = 7777\<rparr>,
      \<lparr>sp_Name = ''mgmt'', sp_Port = 6060, sp_Protocol = ''TCP'', sp_TargetPort = 6060\<rparr>,
      \<lparr>sp_Name = ''exporter'', sp_Port = 9500, sp_Protocol = ''TCP'', sp_TargetPort = 9500\<rparr>]"

definition getTargetServiceLabels :: "'s cenv \<Rightarrow> CStorVolumeConfig \<Rightarrow> gomap" where
  "getTargetServiceLabels C claim =
     [(''openebs.io/cas-type'', ''cstor''), (''openebs.io/persistent-volume'', Name claim),
      (''openebs.io/storage-engine-type'', ''cstor''), (''openebs.io/target-service'', ''cstor-target-svc''),
      (''openebs.io/version'', binaryVersion (capi C))]"

definition getTargetServiceSelectors :: "CStorVolumeConfig \<Rightarrow> gomap" where
  "getTargetServiceSelectors claim =
     [(''app'', ''cstor-volume-manager''), (''openebs.io/persistent-volume'', Name claim),
      (''openebs.io/target'', ''cstor-target'')]"

definition getTargetServiceOwnerReference :: "CStorVolumeConfig \<Rightarrow> OwnerReference list" where
  "getTargetServiceOwnerReference claim = [\<lparr>or_Kind = ''CStorVolumeConfig'', or_Name = Name claim, or_UID = UID claim\<rparr>]"

definition getCVRLabels :: "'s cenv \<Rightarrow> CStorPoolInstance \<Rightarrow> string \<Rightarrow> gomap" where
  "getCVRLabels C cspi volumeName =
     [(''cstorpoolinstance.openebs.io/name'', Name cspi), (''cstorpoolinstance.openebs.io/uid'', UID cspi),
      (''cstorvolume.openebs.io/name'', volumeName), (''openebs.io/persistent-volume'', volumeName),
      (''openebs.io/version'', binaryVersion (capi C))]"

definition getCVRAnnotations :: "CStorPoolInstance \<Rightarrow> gomap" where
  "getCVRAnnotations cspi = [(''cstorpoolinstance.openebs.io/hostname'', mget (Labels cspi) ''kubernetes.io/hostname'')]"

definition getCVRFinalizer :: "'s cenv \<Rightarrow> string" where
  "getCVRFinalizer C = CStorVolumeReplicaFinalizer C"

definition getCVROwnerReference :: "CStorVolume \<Rightarrow> OwnerReference list" where
  "getCVROwnerReference cv = [\<lparr>or_Kind = ''CStorVolume'', or_Name = Name cv, or_UID = UID cv\<rparr>]"

definition getCVLabels :: "'s cenv \<Rightarrow> CStorVolumeConfig \<Rightarrow> gomap" where
  "getCVLabels C claim =
     [(''openebs.io/persistent-volume'', Name claim), (openebsPVC, mget (Annotations claim) openebsPVC),
      (''openebs.io/version'', binaryVersion (capi C))]"

definition getCVOwnerReference :: "CStorVolumeConfig \<Rightarrow> OwnerReference list" where
  "getCVOwnerReference cvc = [\<lparr>or_Kind = ''CStorVolumeConfig'', or_Name = Name cvc, or_UID = UID cvc\<rparr>]"

definition getCSPC :: "CStorVolumeConfig \<Rightarrow> string" where
  "getCSPC claim = mget (Labels claim) CStorPoolClusterLabelKey"

definition getPDBName :: "'s cenv \<Rightarrow> CStorVolumeConfig \<Rightarrow> string" where
  "getPDBName C claim = mget (Labels claim) (PodDisruptionBudgetKey C)"

definition listCStorPools :: "'s cenv \<Rightarrow> string \<Rightarrow> 's \<Rightarrow> CStorPoolInstance list res" where
  "listCStorPools C cspcName s =
     (if cspcName = '''' then Err (Errorf ''failed to list cstorpool: cspc name missing'' [])
      else wrapR (cspi_list (capi C) s (openebsNamespace C) (CStorPoolClusterLabelKey @ ''='' @ cspcName))
             ''failed to list cstorpool for cspc {%s}'' [AS cspcName])"

section \<open>The objects of a new volume\<close>

definition getOrCreateTargetService :: "'s cenv \<Rightarrow> CStorVolumeConfig \<Rightarrow> ('s, Service) act" where
  "getOrCreateTargetService C claim =
     bindS (attemptS (readS (\<lambda>s. svc_get C s (openebsNamespace C) (Name claim)))) (\<lambda>r.
       case r of
         Panic m \<Rightarrow> panicS m
       | Ok svcObj \<Rightarrow> returnS svcObj
       | Err e \<Rightarrow>
           if \<not> IsNotFound e then failS (Wrapf e ''failed to get cstorvolume service {%v}'' [AS ''''])
           else
             (\<lambda>s. svc_create C s (openebsNamespace C)
               (ObjectMeta.extend
                  (emptyMeta\<lparr>Name := Name claim, Labels := getTargetServiceLabels C claim,
                     OwnerReferences := getTargetServiceOwnerReference claim\<rparr>)
                  \<lparr>svc_ClusterIP = '''', svc_Selector = getTargetServiceSelectors claim, svc_Ports = cvPorts\<rparr>)))"

text \<open>The source of a clone is written \<open>volume@snapshot\<close>.\<close>

definition getSrcDetails :: "string \<Rightarrow> (string \<times> string) res" where
  "getSrcDetails cstorVolumeSrc =
     (let volSrc = Split (CHR ''@'') cstorVolumeSrc in
      if length volSrc = 0 then Err (Errorf ''failed to get volumeSource'' [])
      else bindR (elemAt volSrc 0) (\<lambda>vol. bindR (elemAt volSrc 1) (\<lambda>snap. Ok (vol, snap))))"

definition consistencyFactor :: "int \<Rightarrow> int" where
  "consistencyFactor rfactor = rfactor sdiv 2 + 1"

definition newCV :: "'s cenv \<Rightarrow> Service \<Rightarrow> CStorVolumeConfig \<Rightarrow> gomap \<Rightarrow> CStorVolume" where
  "newCV C service claim volLabels =
     emptyCV\<lparr>Name := Name claim, Labels := volLabels, OwnerReferences := getCVOwnerReference claim,
       cv_TargetIP := svc_ClusterIP service, cv_Capacity := ParsedCapacity C (QuantityString C (cvc_Capacity claim)),
       cv_Iqn := cstorIQN C (Name claim), cv_TargetPortal := svc_ClusterIP service @ '':'' @ TargetPort C,
       cv_TargetPort := TargetPort C, cv_ReplicationFactor := cvc_ReplicaCount claim,
       cv_DesiredReplicationFactor := cvc_ReplicaCount claim,
       cv_ConsistencyFactor := consistencyFactor (cvc_ReplicaCount claim),
       cv_Version := (newVersionDetails (capi C) (binaryVersion (capi C)))\<lparr>vd_DependentsUpgraded := True\<rparr>\<rparr>"

definition getOrCreateCStorVolumeResource ::
    "'s cenv \<Rightarrow> Service \<Rightarrow> CStorVolumeConfig \<Rightarrow> ('s, CStorVolume) act" where
  "getOrCreateCStorVolumeResource C service claim =
     bindS (readS (\<lambda>_.
       if length (cvc_VolumeSource claim) \<noteq> 0
       then bindR (getSrcDetails (cvc_VolumeSource claim)) (\<lambda>(srcVolume, _).
              Ok (mput (SourceVolumeKey (rep C)) srcVolume (getCVLabels C claim)))
       else Ok (getCVLabels C claim))) (\<lambda>volLabels.
     bindS (attemptS (readS (\<lambda>s. cv_get C s (openebsNamespace C) (Name claim)))) (\<lambda>r.
       case r of
         Panic m \<Rightarrow> panicS m
       | Ok cvObj \<Rightarrow> returnS cvObj
       | Err e \<Rightarrow>
           if \<not> IsNotFound e then failS (Wrapf e ''failed to get cstorvolume {%v}'' [AS ''''])
           else (\<lambda>s. cv_create C s (openebsNamespace C) (newCV C service claim volLabels))))"

section \<open>Placing replicas\<close>

definition getPolicyBasedPoolList :: "CStorPoolInstance list \<Rightarrow> string list \<Rightarrow> CStorPoolInstance list" where
  "getPolicyBasedPoolList poolList poolInfo =
     concat (map (\<lambda>info. case find (\<lambda>cspi. Name cspi = info) poolList of None \<Rightarrow> [] | Some cspi \<Rightarrow> [cspi]) poolInfo)"

text \<open>The names of the pools that hold a replica, the map read as a set.\<close>

definition getPoolMapFromCVRList :: "'s cenv \<Rightarrow> CStorVolumeReplica list \<Rightarrow> string list" where
  "getPoolMapFromCVRList C cvrList =
     filter (\<lambda>n. n \<noteq> '''') (map (\<lambda>cvr. mget (Labels cvr) (CStorPoolInstanceNameLabelKey (capi C))) cvrList)"

text \<open>When the replicas cannot be listed the result is a nil pointer, \<open>None\<close>.\<close>

definition getUsablePoolList ::
    "'s cenv \<Rightarrow> string \<Rightarrow> CStorPoolInstance list \<Rightarrow> 's \<Rightarrow> CStorPoolInstance list option" where
  "getUsablePoolList C pvName poolList s =
     (case cvr_list (capi C) s (openebsNamespace C) (pvSelector @ ''='' @ pvName) of
        Ok cvrs \<Rightarrow> Some (filter (\<lambda>cspi. Name cspi \<notin> set (getPoolMapFromCVRList C cvrs)) poolList)
      | _ \<Rightarrow> None)"

definition getUsablePoolListForClone ::
    "'s cenv \<Rightarrow> string \<Rightarrow> string \<Rightarrow> CStorPoolInstance list \<Rightarrow> 's \<Rightarrow> CStorPoolInstance list option" where
  "getUsablePoolListForClone C pvName srcPVName poolList s =
     (case cvr_list (capi C) s (openebsNamespace C) (pvSelector @ ''='' @ pvName) of
        Ok cvrs \<Rightarrow>
          (case cvr_list (capi C) s (openebsNamespace C) (pvSelector @ ''='' @ srcPVName) of
             Ok srcCVRs \<Rightarrow>
               Some (filter (\<lambda>cspi. Name cspi \<notin> set (getPoolMapFromCVRList C cvrs) \<and>
                                    Name cspi \<in> set (getPoolMapFromCVRList C srcCVRs)) poolList)
           | _ \<Rightarrow> None)
      | _ \<Rightarrow> None)"

definition prioritizedPoolList :: "string \<Rightarrow> CStorPoolInstance list \<Rightarrow> CStorPoolInstance list" where
  "prioritizedPoolList nodeName list =
     (case find (\<lambda>i. HostName (cspi_Spec (list ! i)) = nodeName) [0..<length list] of
        None \<Rightarrow> list
      | Some i \<Rightarrow> list[0 := list ! i, i := list ! 0])"

definition sanitizePoolList :: "'s cenv \<Rightarrow> CStorPoolInstance list option \<Rightarrow> CStorPoolInstance list res" where
  "sanitizePoolList C list =
     (case list of
        None \<Rightarrow> Panic ''invalid memory address or nil pointer dereference''
      | Some pools \<Rightarrow>
          Ok (filter (\<lambda>cspi. \<not> (cspi_Phase (cspi_Status cspi) = CStorPoolStatusOffline (pool (rep C)) \<or>
                                 cspi_ReadOnly (cspi_Status cspi))) pools))"

definition randomizePoolList :: "'s cenv \<Rightarrow> CStorPoolInstance list \<Rightarrow> 's \<Rightarrow> CStorPoolInstance list res" where
  "randomizePoolList C list s = collect (elemAt list) (randPerm C s (length list))"

definition createCVR ::
    "'s cenv \<Rightarrow> Service \<Rightarrow> CStorVolume \<Rightarrow> CStorVolumeConfig \<Rightarrow> CStorPoolInstance \<Rightarrow> replicaInfo \<Rightarrow> ('s, CStorVolumeReplica) act" where
  "createCVR C service volume claim cspi rInfo =
     bindS (readS (\<lambda>_.
       if cvc_VolumeSource claim \<noteq> ''''
       then bindR (getSrcDetails (cvc_VolumeSource claim)) (\<lambda>(srcVolume, snapName).
              Ok (mput (SnapshotNameKey (rep C)) snapName (mput (SourceVolumeKey (rep C)) srcVolume (getCVRAnnotations cspi)),
                  mput (CloneEnableKEY (rep C)) ''true'' (getCVRLabels C cspi (Name volume))))
       else Ok (getCVRAnnotations cspi, getCVRLabels C cspi (Name volume)))) (\<lambda>(annotations, labels).
     let annotations' = (if mget (Annotations claim) pvCreatedByKey = createdThroughRestore
                         then mput IsRestoreVol ''true'' annotations else annotations);
         name = Name volume @ ''-'' @ Name cspi
     in bindS (attemptS (readS (\<lambda>s. cvr_get (rep C) s (openebsNamespace C) name))) (\<lambda>r.
       case r of
         Panic m \<Rightarrow> panicS m
       | Ok cvrObj \<Rightarrow> returnS cvrObj
       | Err e \<Rightarrow>
           if \<not> IsNotFound e then failS (Wrapf e ''failed to get cstorvolumereplica {%v}'' [AS ''''])
           else
             wrapS (\<lambda>s. cvr_create C s (openebsNamespace C)
                (emptyCVR\<lparr>Name := name, Labels := labels, Annotations := annotations',
                   OwnerReferences := getCVROwnerReference volume, Finalizers := [getCVRFinalizer C],
                   cvr_TargetIP := svc_ClusterIP service, cvr_ReplicaID := ri_replicaID rInfo,
                   cvr_Capacity := QuantityString C (cvc_ProvisionCapacity claim), cvr_ZvolWorkers := ri_ioWorkers rInfo,
                   cvr_Version := (newVersionDetails (capi C) (binaryVersion (capi C)))\<lparr>vd_DependentsUpgraded := True\<rparr>,
                   cvr_Phase := ri_phase rInfo\<rparr>))
               ''failed to create cstorvolumereplica {%v}'' [AS '''']))"

text \<open>The loop over the usable pools; it stops when enough replicas are created.\<close>

fun createCVRsLoop ::
    "'s cenv \<Rightarrow> Service \<Rightarrow> CStorVolume \<Rightarrow> CStorVolumeConfig \<Rightarrow> replicaInfo \<Rightarrow> int \<Rightarrow> int \<Rightarrow> CStorPoolInstance list \<Rightarrow> ('s, unit) act" where
  "createCVRsLoop C service volume claim rInfo pending count [] = returnS ()"
| "createCVRsLoop C service volume claim rInfo pending count (cspi # rest) =
     (if count < pending
      then bindS (createCVR C service volume claim cspi rInfo) (\<lambda>_.
             createCVRsLoop C service volume claim rInfo pending (count + 1) rest)
      else returnS ())"

definition isReplicaAffinityEnabled :: "CStorVolumePolicySpec \<Rightarrow> bool" where
  "isReplicaAffinityEnabled policy = pol_ReplicaAffinity policy"

text \<open>The pools a replica may be placed on, before they are filtered by their state.\<close>

definition candidatePools ::
    "'s cenv \<Rightarrow> CStorVolumeConfig \<Rightarrow> CStorVolume \<Rightarrow> CStorPoolInstance list \<Rightarrow> 's \<Rightarrow> CStorPoolInstance list option res" where
  "candidatePools C claim volume poolList s =
     (if cvc_VolumeSource claim \<noteq> ''''
      then bindR (getSrcDetails (cvc_VolumeSource claim)) (\<lambda>(srcVolName, _).
             Ok (getUsablePoolListForClone C (Name volume) srcVolName poolList s))
      else Ok (getUsablePoolList C (Name volume) poolList s))"

definition distributeCVRs ::
    "'s cenv \<Rightarrow> int \<Rightarrow> CStorVolumeConfig \<Rightarrow> Service \<Rightarrow> CStorVolume \<Rightarrow> CStorVolumePolicySpec \<Rightarrow> ('s, unit) act" where
  "distributeCVRs C pendingReplicaCount claim service volume policy =
     (let rInfo = \<lparr>ri_replicaID = '''', ri_phase = CVRStatusEmpty (rep C), ri_ioWorkers = pol_ReplicaIOWorkers policy\<rparr>;
          cspcName = getCSPC claim; info = pol_ReplicaPoolInfo policy
      in if length cspcName = 0 then failS (Errorf ''failed to get cspc name from cstorvolumeclaim'' [])
         else
           bindS (readS (listCStorPools C cspcName)) (\<lambda>poolList.
             if length info \<noteq> 0 \<and> int (length info) \<noteq> cvc_ReplicaCount claim
             then failS (Errorf ''failed to distribute cvrs: incorrect number of pool names in cvc policy: expected %d got %d''
                           [AI (cvc_ReplicaCount claim), AI (int (length info))])
             else
               let poolList = (if length info \<noteq> 0 then getPolicyBasedPoolList poolList info else poolList) in
               bindS (readS (candidatePools C claim volume poolList)) (\<lambda>candidates.
               bindS (readS (\<lambda>s. bindR (sanitizePoolList C candidates) (\<lambda>pools. randomizePoolList C pools s))) (\<lambda>pools.
               let usable = (if isReplicaAffinityEnabled policy then prioritizedPoolList (cvc_NodeID claim) pools else pools) in
               if int (length usable) < pendingReplicaCount
               then failS (Errorf ''not enough pools are available of provided CSPC: %q, usable pool count: %d pending replica count: %d''
                             [AS cspcName, AI (int (length usable)), AI pendingReplicaCount])
               else createCVRsLoop C service volume claim rInfo pendingReplicaCount 0 usable))))"

section \<open>Pod disruption budgets\<close>

definition GetPDBPoolLabels :: "string list \<Rightarrow> gomap" where
  "GetPDBPoolLabels poolNames = foldl (\<lambda>m poolName. mput (''openebs.io/'' @ poolName) ''true'' m) [] poolNames"

definition GetPDBLabels :: "string list \<Rightarrow> string \<Rightarrow> gomap" where
  "GetPDBLabels poolNames cspcName = mput CStorPoolClusterLabelKey cspcName (GetPDBPoolLabels poolNames)"

definition GetPDBLabelSelector :: "'s cenv \<Rightarrow> string list \<Rightarrow> string res" where
  "GetPDBLabelSelector C poolNames =
     (let labelSelector = concat (map (\<lambda>(key, value). key @ ''='' @ value @ '','') (mapOrder (capi C) (GetPDBPoolLabels poolNames)))
      in if labelSelector = '''' then Panic ''slice bounds out of range'' else Ok (butlast labelSelector))"

definition getPDBSelector :: "string list \<Rightarrow> gomap \<times> LabelSelectorRequirement list" where
  "getPDBSelector pools =
     ([(''app'', ''cstor-pool'')], [\<lparr>lsr_Key = CStorPoolInstanceLabelKey, lsr_Operator = ''In'', lsr_Values = pools\<rparr>])"

definition createPDB :: "'s cenv \<Rightarrow> string list \<Rightarrow> string \<Rightarrow> ('s, PodDisruptionBudget) act" where
  "createPDB C poolNames cspcName s =
     pdb_create C s (openebsNamespace C)
       (ObjectMeta.extend (emptyMeta\<lparr>Labels := GetPDBLabels poolNames cspcName\<rparr>)
          \<lparr>pdb_GenerateName = cspcName, pdb_MaxUnavailable = 1, pdb_MatchLabels = fst (getPDBSelector poolNames),
           pdb_MatchExpressions = snd (getPDBSelector poolNames)\<rparr>)"

text \<open>The first listed budget that covers exactly the given pools.\<close>

fun findPDB :: "'s cenv \<Rightarrow> string list \<Rightarrow> PodDisruptionBudget list \<Rightarrow> PodDisruptionBudget option res" where
  "findPDB C poolNames [] = Ok None"
| "findPDB C poolNames (pdbObj # rest) =
     bindR (elemAt (pdb_MatchExpressions pdbObj) 0) (\<lambda>req.
       if \<not> IsChangeInLists C (lsr_Values req) poolNames then Ok (Some pdbObj) else findPDB C poolNames rest)"

definition getOrCreatePodDisruptionBudget :: "'s cenv \<Rightarrow> string \<Rightarrow> string list \<Rightarrow> ('s, PodDisruptionBudget) act" where
  "getOrCreatePodDisruptionBudget C cspcName poolNames =
     bindS (readS (\<lambda>_. GetPDBLabelSelector C poolNames)) (\<lambda>selector.
     bindS (readS (\<lambda>s. wrapR (pdb_list C s (openebsNamespace C) selector)
              ''failed to list PDB belongs to pools with selector %v'' [AS selector])) (\<lambda>pdbList.
     bindS (readS (\<lambda>_. findPDB C poolNames pdbList)) (\<lambda>found.
       case found of Some pdbObj \<Rightarrow> returnS pdbObj | None \<Rightarrow> createPDB C poolNames cspcName)))"

text \<open>From \<open>controller.go\<close>: the budget goes with the last volume that refers to it.\<close>

definition deletePDBIfNotInUse :: "'s cenv \<Rightarrow> CStorVolumeConfig \<Rightarrow> ('s, unit) act" where
  "deletePDBIfNotInUse C cvc =
     (let pdbName = getPDBName C cvc in
      bindS (readS (\<lambda>s. wrapR (cvc_list (capi C) s (openebsNamespace C) (PodDisruptionBudgetKey C @ ''='' @ pdbName))
               ''failed to list volumes refering to PDB %s'' [AS pdbName])) (\<lambda>cvcList.
        if length cvcList = 1
        then bindS (attemptS (\<lambda>s. pdb_delete C s (openebsNamespace C) pdbName)) (\<lambda>r.
               case r of
                 Panic m \<Rightarrow> panicS m
               | Err e \<Rightarrow> if IsNotFound e then returnS () else failS e
               | Ok _ \<Rightarrow> returnS ())
        else returnS ()))"

definition addPDBLabelOnCVC :: "'s cenv \<Rightarrow> CStorVolumeConfig \<Rightarrow> PodDisruptionBudget \<Rightarrow> CStorVolumeConfig" where
  "addPDBLabelOnCVC C cvcObj pdbObj = cvcObj\<lparr>Labels := mput (PodDisruptionBudgetKey C) (Name pdbObj) (Labels cvcObj)\<rparr>"

definition isHAVolume :: "CStorVolumeConfig \<Rightarrow> bool" where
  "isHAVolume cvcObj =
     (if length (cvc_PoolInfo cvcObj) = 0 then cvc_ReplicaCount cvcObj \<ge> int minHAReplicaCount
      else length (cvc_PoolInfo cvcObj) \<ge> minHAReplicaCount)"

definition getUpdatePDBForVolume :: "'s cenv \<Rightarrow> CStorVolumeConfig \<Rightarrow> ('s, string) act" where
  "getUpdatePDBForVolume C cvcObj =
     bindS (if mhas (Labels cvcObj) (PodDisruptionBudgetKey C) then deletePDBIfNotInUse C cvcObj else returnS ()) (\<lambda>_.
       if \<not> isHAVolume cvcObj then returnS ''''
       else bindS (getOrCreatePodDisruptionBudget C (getCSPC cvcObj) (cvc_PoolInfo cvcObj)) (\<lambda>pdbObj.
              returnS (Name pdbObj)))"

section \<open>Replica pools\<close>

fun addMissing :: "string list \<Rightarrow> string list \<Rightarrow> string list" where
  "addMissing [] infos = infos"
| "addMissing (poolName # rest) infos =
     addMissing rest (if poolName \<in> set infos then infos else infos @ [poolName])"

fun addStatusPools :: "'s cenv \<Rightarrow> string list \<Rightarrow> string list \<Rightarrow> string list" where
  "addStatusPools C [] status = status"
| "addStatusPools C (info # rest) status =
     addStatusPools C rest (if \<not> ContainsString (capi C) status info then status @ [info] else status)"

definition addReplicaPoolInfo :: "'s cenv \<Rightarrow> CStorVolumeConfig \<Rightarrow> string list \<Rightarrow> CStorVolumeConfig" where
  "addReplicaPoolInfo C cvcObj poolNames =
     (let infos = addMissing poolNames (cvc_ReplicaPoolInfo cvcObj)
      in cvcObj\<lparr>cvc_Policy := (cvc_Policy cvcObj)\<lparr>pol_ReplicaPoolInfo := infos\<rparr>,
                cvc_PoolInfo := addStatusPools C infos (cvc_PoolInfo cvcObj)\<rparr>)"

definition isCVCScalePending :: "'s cenv \<Rightarrow> CStorVolumeConfig \<Rightarrow> bool" where
  "isCVCScalePending C cvc = IsChangeInLists C (GetDesiredReplicaPoolNames (capi C) cvc) (cvc_PoolInfo cvc)"

definition GetCVRList :: "'s cenv \<Rightarrow> string \<Rightarrow> string \<Rightarrow> 's \<Rightarrow> CStorVolumeReplica list res" where
  "GetCVRList C pvName namespace s = cvr_list (capi C) s namespace (PersistentVolumeLabelKey (rep C) @ ''='' @ pvName)"

definition GetVolumeReplicaPoolNames :: "'s cenv \<Rightarrow> string \<Rightarrow> string \<Rightarrow> 's \<Rightarrow> string list res" where
  "GetVolumeReplicaPoolNames C pvName namespace s =
     bindR (wrapR (GetCVRList C pvName namespace s) ''failed to list cStorVolumeReplicas related to volume %s'' [AS pvName]) (\<lambda>cvrs.
     Ok (GetPoolNames C cvrs))"

definition updateCStorVolumeInfo :: "'s cenv \<Rightarrow> CStorVolume \<Rightarrow> ('s, CStorVolume) act" where
  "updateCStorVolumeInfo C cvObj s = cv_update C s (openebsNamespace C) cvObj"

section \<open>Scaling\<close>

text \<open>
  The scaling functions write into the volume configuration they are given before they know that the operation
  succeeds, and return an object beside the error. They give here the argument as they leave it, the returned
  object, and the error.
\<close>

type_synonym scaled = "CStorVolumeConfig \<times> CStorVolumeConfig \<times> goerr option"

definition updatePDBForScaledVolume :: "'s cenv \<Rightarrow> CStorVolumeConfig \<Rightarrow> ('s, scaled) act" where
  "updatePDBForScaledVolume C cvc =
     bindS (attemptS (getUpdatePDBForVolume C cvc)) (\<lambda>r.
       case r of
         Panic m \<Rightarrow> panicS m
       | Err e \<Rightarrow> returnS (cvc, cvc, Some (Wrapf e ''failed to handle PDB for scaled volume %s'' [AS (Name cvc)]))
       | Ok pdbName \<Rightarrow>
           let labels = mdel (PodDisruptionBudgetKey C) (Labels cvc);
               cvc' = cvc\<lparr>Labels := if pdbName \<noteq> '''' then mput (PodDisruptionBudgetKey C) pdbName labels else labels\<rparr>
           in bindS (attemptS (\<lambda>s. cvc_update C s (openebsNamespace C) cvc')) (\<lambda>r.
                case r of
                  Panic m \<Rightarrow> panicS m
                | Err e \<Rightarrow>
                    returnS (cvc', cvc, Some (Wrapf e ''failed to update %s CVC status with scaledup replica pool names'' [AS (Name cvc)]))
                | Ok newCVCObj \<Rightarrow> returnS (cvc', newCVCObj, None)))"

definition updateCVCWithScaledUpInfo :: "'s cenv \<Rightarrow> CStorVolumeConfig \<Rightarrow> CStorVolume \<Rightarrow> ('s, scaled) act" where
  "updateCVCWithScaledUpInfo C cvc cvObj =
     (let newPoolNames = ListDiff (capi C) (GetDesiredReplicaPoolNames (capi C) cvc) (cvc_PoolInfo cvc) in
      bindS (attemptS (readS (GetVolumeReplicaPoolNames C (mget (Annotations cvc) volumeID) (openebsNamespace C)))) (\<lambda>r.
        case r of
          Panic m \<Rightarrow> panicS m
        | Err e \<Rightarrow> returnS (cvc, cvc, Some (Wrapf e ''failed to get current replica pool information'' []))
        | Ok replicaPoolNames \<Rightarrow>
            if \<not> list_all (\<lambda>n. n \<in> set replicaPoolNames) newPoolNames
            then returnS (cvc, cvc, Some (Errorf ''scaling replicas from %d to %d in progress''
                   [AI (int (length (cvc_PoolInfo cvc))), AI (int (length (cvc_ReplicaPoolInfo cvc)))]))
            else
              bindS (updatePDBForScaledVolume C (cvc\<lparr>cvc_PoolInfo := cvc_PoolInfo cvc @ newPoolNames\<rparr>)) (\<lambda>(arg, obj, err).
                returnS (case err of
                  Some e \<Rightarrow> (arg, cvc, Some (Wrapf e ''failed to handle post volume replicas scale up process'' []))
                | None \<Rightarrow> (arg, obj, None)))))"

definition getScaleDownCVR :: "'s cenv \<Rightarrow> CStorVolumeConfig \<Rightarrow> 's \<Rightarrow> CStorVolumeReplica res" where
  "getScaleDownCVR C cvc s =
     (let removedPoolNames = ListDiff (capi C) (cvc_PoolInfo cvc) (GetDesiredReplicaPoolNames (capi C) cvc) in
      bindR (elemAt removedPoolNames 0) (\<lambda>poolName.
      cvr_get (rep C) s (openebsNamespace C) (mget (Annotations cvc) volumeID @ ''-'' @ poolName)))"

text \<open>Every new pool is tried; the errors are collected.\<close>

fun newReplicasLoop ::
    "'s cenv \<Rightarrow> CStorVolumeConfig \<Rightarrow> CStorVolume \<Rightarrow> Service \<Rightarrow> string list \<Rightarrow> goerr list \<Rightarrow> ('s, goerr list) act" where
  "newReplicasLoop C cvc cvObj svcObj [] errs = returnS errs"
| "newReplicasLoop C cvc cvObj svcObj (poolName # rest) errs =
     bindS (attemptS (readS (\<lambda>s. cspi_get (pool (rep C)) s (openebsNamespace C) poolName))) (\<lambda>r.
       case r of
         Panic m \<Rightarrow> panicS m
       | Err e \<Rightarrow> newReplicasLoop C cvc cvObj svcObj rest
           (errs @ [Errorf ''failed to get cstorpoolinstance %s error: %v'' [AS poolName, AE e]])
       | Ok cspiObj \<Rightarrow>
           (case Hash (rep C) (mget (Annotations cvc) volumeID @ ''-'' @ poolName) of
              Panic m \<Rightarrow> panicS m
            | Err e \<Rightarrow> newReplicasLoop C cvc cvObj svcObj rest
                (errs @ [Errorf ''failed to calculate of hash for new volume replica error: %v'' [AE e]])
            | Ok hashVal \<Rightarrow>
                bindS (attemptS (createCVR C svcObj cvObj cvc cspiObj
                         \<lparr>ri_replicaID = hashVal, ri_phase = CVRStatusRecreate (rep C),
                          ri_ioWorkers = pol_ReplicaIOWorkers (cvc_Policy cvc)\<rparr>)) (\<lambda>r.
                  case r of
                    Panic m \<Rightarrow> panicS m
                  | Err e \<Rightarrow> newReplicasLoop C cvc cvObj svcObj rest
                      (errs @ [Errorf ''failed to create new replica on pool %s error: %v'' [AS poolName, AE e]])
                  | Ok _ \<Rightarrow> newReplicasLoop C cvc cvObj svcObj rest errs)))"

definition handleVolumeReplicaCreation :: "'s cenv \<Rightarrow> CStorVolumeConfig \<Rightarrow> CStorVolume \<Rightarrow> ('s, unit) act" where
  "handleVolumeReplicaCreation C cvc cvObj =
     (let newPoolNames = ListDiff (capi C) (GetDesiredReplicaPoolNames (capi C) cvc) (cvc_PoolInfo cvc) in
      bindS (readS (\<lambda>s. wrapR (svc_get C s (openebsNamespace C) (Name cvc)) ''failed to get service object %s'' [AS (Name cvc)])) (\<lambda>svcObj.
      bindS (newReplicasLoop C cvc cvObj svcObj newPoolNames []) (\<lambda>errs.
      if length errs > 0 then failS (Errorf ''%+v'' [AEs errs]) else returnS ())))"

definition scaleUpVolumeReplicas :: "'s cenv \<Rightarrow> CStorVolumeConfig \<Rightarrow> ('s, scaled) act" where
  "scaleUpVolumeReplicas C cvc =
     (let drCount = int (length (cvc_ReplicaPoolInfo cvc)) in
      bindS (attemptS (readS (\<lambda>s. cv_get C s (openebsNamespace C) (Name cvc)))) (\<lambda>r.
        case r of
          Panic m \<Rightarrow> panicS m
        | Err e \<Rightarrow> returnS (cvc, cvc, Some (Wrapf e ''failed to get cstorvolumes object %s'' [AS (Name cvc)]))
        | Ok cvObj \<Rightarrow>
            bindS (if cv_DesiredReplicationFactor cvObj < drCount
                   then attemptS (updateCStorVolumeInfo C (cvObj\<lparr>cv_DesiredReplicationFactor := drCount\<rparr>))
                   else returnS (Ok cvObj)) (\<lambda>r.
              case r of
                Panic m \<Rightarrow> panicS m
              | Err e \<Rightarrow> returnS (cvc, cvc, Some e)
              | Ok cvObj \<Rightarrow>
                  bindS (attemptS (handleVolumeReplicaCreation C cvc cvObj)) (\<lambda>r.
                    case r of
                      Panic m \<Rightarrow> panicS m
                    | Err e \<Rightarrow> returnS (cvc, cvc, Some e)
                    | Ok _ \<Rightarrow> updateCVCWithScaledUpInfo C cvc cvObj))))"

text \<open>The part of the scale down after the volume object is up to date.\<close>

definition finishScaleDown :: "'s cenv \<Rightarrow> CStorVolumeConfig \<Rightarrow> CStorVolumeReplica \<Rightarrow> ('s, scaled) act" where
  "finishScaleDown C cvc cvrObj =
     bindS (attemptS (\<lambda>s. cvr_delete C s (openebsNamespace C) (Name cvrObj))) (\<lambda>r.
       case r of
         Panic m \<Rightarrow> panicS m
       | Err e \<Rightarrow> returnS (cvc, cvc, Some (Wrapf e ''failed to delete cstorvolumereplica %s'' [AS (Name cvrObj)]))
       | Ok _ \<Rightarrow>
           bindS (updatePDBForScaledVolume C (cvc\<lparr>cvc_PoolInfo := GetDesiredReplicaPoolNames (capi C) cvc\<rparr>)) (\<lambda>(arg, obj, err).
             returnS (case err of
               Some e \<Rightarrow> (arg, cvc, Some (Wrapf e ''failed to handle post volume replicas scale down process'' []))
             | None \<Rightarrow> (arg, obj, None))))"

definition scaleDownVolumeReplicas :: "'s cenv \<Rightarrow> CStorVolumeConfig \<Rightarrow> ('s, scaled) act" where
  "scaleDownVolumeReplicas C cvc =
     (let drCount = int (length (cvc_ReplicaPoolInfo cvc)) in
      bindS (attemptS (readS (\<lambda>s. cv_get C s (openebsNamespace C) (Name cvc)))) (\<lambda>r.
        case r of
          Panic m \<Rightarrow> panicS m
        | Err e \<Rightarrow> returnS (cvc, cvc, Some (Wrapf e ''failed to get cstorvolumes object %s'' [AS (Name cvc)]))
        | Ok cvObj \<Rightarrow>
      bindS (attemptS (readS (getScaleDownCVR C cvc))) (\<lambda>r.
        case (case r of Err e \<Rightarrow> if IsNotFound e then Ok emptyCVR else Err e | r' \<Rightarrow> r') of
          Panic m \<Rightarrow> panicS m
        | Err e \<Rightarrow> returnS (cvc, cvc, Some (Wrapf e ''failed to get CVR requested for scale down operation'' []))
        | Ok cvrObj \<Rightarrow>
      bindS (if cv_DesiredReplicationFactor cvObj > drCount
             then attemptS (updateCStorVolumeInfo C (cvObj\<lparr>cv_DesiredReplicationFactor := drCount,
                    cv_KnownReplicas := mdel (cvr_ReplicaID cvrObj) (cv_KnownReplicas cvObj)\<rparr>))
             else returnS (Ok cvObj)) (\<lambda>r.
        case r of
          Panic m \<Rightarrow> panicS m
        | Err e \<Rightarrow> returnS (cvc, cvc, Some e)
        | Ok cvObj \<Rightarrow>
            if \<not> IsScaleDownInProgress C cvObj then finishScaleDown C cvc cvrObj
            else returnS (cvc, cvc, Some (Errorf ''Scaling down volume replicas from %d to %d is in progress''
                            [AI (int (length (cvc_PoolInfo cvc))), AI drCount]))))))"

end
