(* ===== verification/VolumeConfig.thy ===== *)
theory VolumeConfig
  imports VolumeOperations
begin

text \<open>
  The controller of volume configurations, \<open>pkg/controllers/cstorvolumeconfig/controller.go\<close>: provisioning,
  resizing, scaling and policy changes of a volume in one synchronisation round. Events and logs are left out.
\<close>

section \<open>Policies\<close>

definition TemplateHashLabelName :: string where
  "TemplateHashLabelName = ''cstor.openebs.io/template-hash''"

definition HashObject :: "'s cenv \<Rightarrow> CStorVolumePolicySpec \<Rightarrow> string" where
  "HashObject C object = showNat (unat (spewHash C object))"

definition setHashLabel :: "'s cenv \<Rightarrow> string \<Rightarrow> gomap \<Rightarrow> CStorVolumePolicySpec \<Rightarrow> gomap" where
  "setHashLabel C labelName labels template = mput labelName (HashObject C template) labels"

definition SetTemplateHashLabel :: "'s cenv \<Rightarrow> gomap \<Rightarrow> CStorVolumePolicySpec \<Rightarrow> gomap" where
  "SetTemplateHashLabel C labels template = setHashLabel C TemplateHashLabelName labels template"

definition addPolicySpecHash :: "'s cenv \<Rightarrow> CStorVolumeConfig \<Rightarrow> CStorVolumeConfig" where
  "addPolicySpecHash C cvc = cvc\<lparr>Labels := SetTemplateHashLabel C (Labels cvc) (cvc_Policy cvc)\<rparr>"

definition getVolumePolicy :: "'s cenv \<Rightarrow> string \<Rightarrow> CStorVolumeConfig \<Rightarrow> 's \<Rightarrow> CStorVolumePolicySpec res" where
  "getVolumePolicy C policyName cvc s =
     (if policyName \<noteq> ''''
      then bindR (wrapR (cvp_get C s (openebsNamespace C) policyName) ''failed to get volume policy %q of volume %q''
                    [AS policyName, AS (Name cvc)]) (\<lambda>spec. Ok (validatePolicySpec spec))
      else Ok getDefaultPolicySpec)"

definition patchTargetDeploymentSpec :: "'s cenv \<Rightarrow> CStorVolumeConfig \<Rightarrow> ('s, unit) act" where
  "patchTargetDeploymentSpec C cvc =
     (let E = capi C in
      bindS (readS (\<lambda>s.
        bindR (wrapR (deploy_get E s (Namespace cvc) (Name cvc @ ''-target''))
                 ''failed to get target deployment for volume %s in namespace %s'' [AS (Name cvc), AS (Namespace cvc)]) (\<lambda>orig.
        bindR (wrapR (cv_get C s (Namespace cvc) (Name cvc)) ''failed to get cstorvolume {%v}'' [AS (Name cvc)]) (\<lambda>vol.
        let new = BuildTargetDeployment E vol (cvc_Policy cvc) in
        bindR (wrapR (marshalDeployment E orig) ''failed to marshal original deployment %s'' [AS (Name orig)]) (\<lambda>oldData.
        bindR (wrapR (marshalDeployment E new) ''failed to marshal updated deployment %s'' [AS (Name new)]) (\<lambda>newData.
        bindR (wrapR (CreateTwoWayMergePatch E oldData newData) ''failed to create strategic merge patch data'' []) (\<lambda>patch.
        Ok (Name orig, patch)))))))) (\<lambda>(name, patch).
      wrapS (\<lambda>s. deploy_patch E s (Namespace cvc) name patch) ''failed to patch volume target deployment'' []))"

definition syncPolicySpec :: "'s cenv \<Rightarrow> CStorVolumeConfig \<Rightarrow> ('s, unit) act" where
  "syncPolicySpec C cvc =
     (if mget (Labels cvc) TemplateHashLabelName \<noteq> HashObject C (cvc_Policy cvc)
      then
        bindS (patchTargetDeploymentSpec C cvc) (\<lambda>_.
        bindS (\<lambda>s. cvc_update C s (Namespace cvc) (addPolicySpecHash C cvc)) (\<lambda>_.
        returnS ()))
      else returnS ())"

section \<open>Provisioning\<close>

definition getCurrentReplicaCount :: "'s cenv \<Rightarrow> CStorVolumeConfig \<Rightarrow> 's \<Rightarrow> int res" where
  "getCurrentReplicaCount C cvc s =
     (case cvr_list (capi C) s (Namespace cvc) (pvSelector @ ''='' @ Name cvc) of
        Ok cvrs \<Rightarrow> Ok (int (length cvrs))
      | Err e \<Rightarrow> Err (Errorf ''unable to get current replica count: %v'' [AE e])
      | Panic m \<Rightarrow> Panic m)"

definition getPendingCVRCount :: "'s cenv \<Rightarrow> CStorVolumeConfig \<Rightarrow> 's \<Rightarrow> int res" where
  "getPendingCVRCount C cvc s =
     bindR (getCurrentReplicaCount C cvc s) (\<lambda>current. Ok (cvc_ReplicaCount cvc - current))"

definition distributePendingCVRs ::
    "'s cenv \<Rightarrow> CStorVolumeConfig \<Rightarrow> CStorVolume \<Rightarrow> Service \<Rightarrow> CStorVolumePolicySpec \<Rightarrow> ('s, unit) act" where
  "distributePendingCVRs C cvc cv service policy =
     bindS (readS (getPendingCVRCount C cvc)) (\<lambda>pending. distributeCVRs C pending cvc service cv policy)"

definition updateCVCObj :: "'s cenv \<Rightarrow> CStorVolumeConfig \<Rightarrow> CStorVolume \<Rightarrow> ('s, unit) act" where
  "updateCVCObj C cvc cv =
     (if Name cvc \<noteq> Name cv
      then failS (Errorf ''could not bind cstorvolumeconfig %s and cstorvolume %s, name does not match'' [AS (Name cvc), AS (Name cv)])
      else bindS (\<lambda>s. cvc_update C s (Namespace cvc) cvc) (\<lambda>_. returnS ()))"

text \<open>The configuration as the call leaves it; after an error the caller does not look at it.\<close>

definition createVolumeOperation :: "'s cenv \<Rightarrow> CStorVolumeConfig \<Rightarrow> ('s, CStorVolumeConfig) act" where
  "createVolumeOperation C cvc =
     bindS (readS (getVolumePolicy C (mget (Annotations cvc) (VolumePolicyKey C)) cvc)) (\<lambda>policy.
     bindS (getOrCreateTargetService C cvc) (\<lambda>svcObj.
     bindS (getOrCreateCStorVolumeResource C svcObj cvc) (\<lambda>cvObj.
     bindS (getOrCreateCStorTargetDeployment (capi C) cvObj policy) (\<lambda>_.
     bindS (distributePendingCVRs C cvc cvObj svcObj policy) (\<lambda>_.
     bindS (readS (\<lambda>s. wrapR (GetVolumeReplicaPoolNames C (Name cvc) (openebsNamespace C) s)
              ''failed to get volume replica pool names of volume %s'' [AS (Name cvObj)])) (\<lambda>poolNames.
     bindS (if isHAVolume cvc
            then bindS (wrapS (getOrCreatePodDisruptionBudget C (getCSPC cvc) poolNames)
                          ''failed to create PDB for volume: %s'' [AS (Name cvc)]) (\<lambda>pdbObj. returnS (addPDBLabelOnCVC C cvc pdbObj))
            else returnS cvc) (\<lambda>cvc.
     bindS (readS (\<lambda>_. volumeReference C cvObj)) (\<lambda>volumeRef.
     let cvc = cvc\<lparr>cvc_VolumeRef := Some volumeRef, cvc_Policy := policy,
                    cvc_Phase := CStorVolumeConfigPhaseBound (capi C), cvc_StatusCapacity := cvc_Capacity cvc\<rparr>;
         cvc = addPolicySpecHash C (addReplicaPoolInfo C cvc poolNames)
     in bindS (updateCVCObj C cvc cvObj) (\<lambda>_. returnS cvc)))))))))"

section \<open>Deleting\<close>

definition CStorVolumeConfigFinalizer :: string where
  "CStorVolumeConfigFinalizer = ''cvc.openebs.io/finalizer''"

definition isClaimDeletionCandidate :: "'s cenv \<Rightarrow> CStorVolumeConfig \<Rightarrow> bool" where
  "isClaimDeletionCandidate C cvc =
     (DeletionTimestamp cvc \<noteq> None \<and> ContainsString (capi C) (Finalizers cvc) CStorVolumeConfigFinalizer)"

definition removeClaimFinalizer :: "'s cenv \<Rightarrow> CStorVolumeConfig \<Rightarrow> ('s, unit) act" where
  "removeClaimFinalizer C cvc =
     bindS (if isHAVolume cvc
            then wrapS (deletePDBIfNotInUse C cvc) ''failed to verify whether PDB %s is in use by other volumes'' [AS (getPDBName C cvc)]
            else returnS ()) (\<lambda>_.
     wrapS (\<lambda>s. cvc_removeFinalizers C s (Namespace cvc) (Name cvc))
       ''failed to remove finalizers from cstorvolumeconfig {%s}'' [AS (Name cvc)])"

section \<open>Resizing\<close>

definition knownResizeConditions :: "'s cenv \<Rightarrow> string list" where
  "knownResizeConditions C = [CStorVolumeConfigResizing C, CStorVolumeConfigResizePending C]"

definition cvcNeedResize :: "CStorVolumeConfig \<Rightarrow> bool" where
  "cvcNeedResize cvc = (cvc_Capacity cvc > cvc_StatusCapacity cvc)"

definition MergeResizeConditionsOfCVC :: "'s cenv \<Rightarrow> Condition list \<Rightarrow> Condition list \<Rightarrow> Condition list" where
  "MergeResizeConditionsOfCVC C oldConditions resizeConditions =
     (let resizeConditionMap = foldl (\<lambda>m c. mput (cond_Type c) c m) [] resizeConditions;
          known = set (knownResizeConditions C);
          kept = concat (map (\<lambda>c. if cond_Type c \<notin> known then [c]
                        else (case map_of resizeConditionMap (cond_Type c) of Some n \<Rightarrow> [n] | None \<Rightarrow> [])) oldConditions);
          processed = (\<lambda>t. t \<in> known \<and> t \<in> cond_Type ` set oldConditions)
      in kept @ map snd (filter (\<lambda>(t, _). \<not> processed t) (conditionOrder C resizeConditionMap)))"

definition getPatchData :: "'s cenv \<Rightarrow> string res \<Rightarrow> string res \<Rightarrow> string res" where
  "getPatchData C oldObj newObj =
     bindR (quoteR oldObj ''marshal old object failed: %v'' []) (\<lambda>oldData.
     bindR (quoteR newObj ''mashal new object failed: %v'' []) (\<lambda>newData.
     quoteR (CreateTwoWayMergePatch (capi C) oldData newData) ''CreateTwoWayMergePatch failed: %v'' []))"

definition PatchCVCStatus :: "'s cenv \<Rightarrow> CStorVolumeConfig \<Rightarrow> CStorVolumeConfig \<Rightarrow> ('s, CStorVolumeConfig) act" where
  "PatchCVCStatus C oldCVC newCVC =
     bindS (readS (\<lambda>_. quoteR (getPatchData C (marshalCVC C oldCVC) (marshalCVC C newCVC))
              ''can't patch status of CVC %s as generate path data failed: %v'' [AS (Name oldCVC)])) (\<lambda>patchBytes.
     (\<lambda>s. case cvc_patch C s (Namespace oldCVC) (Name oldCVC) patchBytes of
            (r, s') \<Rightarrow> (quoteR r ''can't patch status of CVC %s with %v'' [AS (Name oldCVC)], s')))"

definition markCVCResizeInProgress :: "'s cenv \<Rightarrow> CStorVolumeConfig \<Rightarrow> ('s, CStorVolumeConfig) act" where
  "markCVCResizeInProgress C cvc =
     bindS (readS (\<lambda>s. Ok (now (capi C) s))) (\<lambda>t.
     let progressCondition = \<lparr>cond_Type = CStorVolumeConfigResizing C, cond_Status = '''', cond_LastUpdateTime = 0,
            cond_LastTransitionTime = t, cond_Reason = '''', cond_Message = ''''\<rparr>
     in PatchCVCStatus C cvc
          (cvc\<lparr>cvc_Conditions := MergeResizeConditionsOfCVC C (cvc_Conditions cvc) [progressCondition]\<rparr>))"

definition markCVCResizeFinished :: "'s cenv \<Rightarrow> CStorVolumeConfig \<Rightarrow> ('s, unit) act" where
  "markCVCResizeFinished C cvc =
     bindS (PatchCVCStatus C cvc
       (cvc\<lparr>cvc_StatusCapacity := cvc_Capacity cvc, cvc_Conditions := MergeResizeConditionsOfCVC C (cvc_Conditions cvc) []\<rparr>)) (\<lambda>_.
     returnS ())"

definition resizeCV :: "'s cenv \<Rightarrow> CStorVolume \<Rightarrow> Quantity \<Rightarrow> ('s, unit) act" where
  "resizeCV C cv newCapacity =
     bindS (readS (\<lambda>_. quoteR (getPatchData C (marshalCV C cv) (marshalCV C (cv\<lparr>cv_Capacity := newCapacity\<rparr>)))
              ''can't update capacity of CV %s as generate patch data failed: %v'' [AS (Name cv)])) (\<lambda>patchBytes.
     bindS (\<lambda>s. cv_patch C s (openebsNamespace C) (Name cv) patchBytes) (\<lambda>_. returnS ()))"

definition resizeCVC :: "'s cenv \<Rightarrow> CStorVolumeConfig \<Rightarrow> ('s, unit) act" where
  "resizeCVC C cvc =
     bindS (readS (\<lambda>s. cv_get C s (Namespace cvc) (Name cvc))) (\<lambda>cv.
       if cv_Capacity cv > cv_StatusCapacity cv then returnS ()
       else if cvc_Capacity cvc = cv_StatusCapacity cv then markCVCResizeFinished C cvc
       else bindS (markCVCResizeInProgress C cvc) (\<lambda>_. resizeCV C cv (cvc_Capacity cvc)))"

section \<open>Versions\<close>

definition cvc_ShouldReconcile :: "'s cenv \<Rightarrow> CStorVolumeConfig \<Rightarrow> bool" where
  "cvc_ShouldReconcile C cvc =
     (let cvcVersion = vd_Current (cvc_Version cvc)
      in if cvcVersion = '''' then True else cvcVersion = binaryVersion (capi C))"

text \<open>The version step of the other controllers, on volume configurations; no upgrade function is registered.\<close>

definition cvc_reconcileVersion ::
    "'s cenv \<Rightarrow> CStorVolumeConfig \<Rightarrow> ('s, goerr option \<times> CStorVolumeConfig) act" where
  "cvc_reconcileVersion C cvc =
     (let E = capi C; v = cvc_Version cvc; base = baseVersion (binaryVersion E) in
      if vd_Current v = vd_Desired v then returnS (None, cvc)
      else
        bindS (readS (\<lambda>_. IsCurrentVersionValid base (vd_Current v))) (\<lambda>currentValid.
          if \<not> currentValid then returnS (Some (Errorf ''invalid current version %s'' [AS (vd_Current v)]), cvc)
          else if \<not> IsDesiredVersionValid base (vd_Desired v)
          then returnS (Some (Errorf ''invalid desired version %s'' [AS (vd_Desired v)]), cvc)
          else
            bindS (if vd_State v \<noteq> ReconcileInProgress E
                   then attemptS (\<lambda>s. cvc_update C s (Namespace cvc) (cvc\<lparr>cvc_Version := setInProgressStatus E v\<rparr>))
                   else returnS (Ok cvc)) (\<lambda>r.
              case r of
                Panic m \<Rightarrow> panicS m
              | Err e \<Rightarrow> returnS (Some e, cvc)
              | Ok cvcObj \<Rightarrow>
                  bindS (attemptS (\<lambda>s. cvc_update C s (Namespace cvcObj)
                           (cvcObj\<lparr>cvc_Version := setSuccessStatus E (cvc_Version cvcObj)\<rparr>))) (\<lambda>r.
                    case r of
                      Panic m \<Rightarrow> panicS m
                    | Err e \<Rightarrow> returnS (Some (Wrapf e ''failed to update cvc'' []), cvcObj)
                    | Ok obj \<Rightarrow> returnS (None, obj)))))"

definition cvc_populateVersion :: "'s cenv \<Rightarrow> CStorVolumeConfig \<Rightarrow> ('s, CStorVolumeConfig) act" where
  "cvc_populateVersion C cvc =
     (let v = binaryVersion (capi C) in
      if vd_Current (cvc_Version cvc) = ''''
      then wrapS (\<lambda>s. cvc_update C s (Namespace cvc)
                   (cvc\<lparr>cvc_Version := (cvc_Version cvc)\<lparr>vd_Current := v, vd_Desired := v, vd_DependentsUpgraded := True\<rparr>\<rparr>))
             ''failed to update cvc %s while adding versiondetails'' [AS (Name cvc)]
      else returnS cvc)"

section \<open>A synchronisation round\<close>

text \<open>The configuration as the scaling leaves it, and the error.\<close>

definition scaleVolumeReplicas :: "'s cenv \<Rightarrow> CStorVolumeConfig \<Rightarrow> ('s, CStorVolumeConfig \<times> goerr option) act" where
  "scaleVolumeReplicas C cvc =
     (if length (cvc_ReplicaPoolInfo cvc) > length (cvc_PoolInfo cvc)
      then bindS (scaleUpVolumeReplicas C cvc) (\<lambda>(arg, _, err). returnS (arg, err))
      else if length (cvc_ReplicaPoolInfo cvc) < length (cvc_PoolInfo cvc)
      then bindS (scaleDownVolumeReplicas C cvc) (\<lambda>(arg, _, err). returnS (arg, err))
      else returnS (cvc, None))"

text \<open>The part of \<open>syncCVC\<close> for a volume of this version.\<close>

definition syncVolume :: "'s cenv \<Rightarrow> CStorVolumeConfig \<Rightarrow> ('s, unit) act" where
  "syncVolume C cvc =
     bindS (if cvc_Phase cvc = CStorVolumeConfigPhasePending C then createVolumeOperation C cvc else returnS cvc) (\<lambda>cvc.
     bindS (if cvcNeedResize cvc then resizeCVC C cvc else returnS ()) (\<lambda>_.
     bindS (if isCVCScalePending C cvc then scaleVolumeReplicas C cvc else returnS (cvc, None)) (\<lambda>(cvc, _).
     syncPolicySpec C cvc)))"

definition syncCVC :: "'s cenv \<Rightarrow> CStorVolumeConfig \<Rightarrow> ('s, unit) act" where
  "syncCVC C cvc =
     bindS (attemptS (cvc_populateVersion C cvc)) (\<lambda>r.
       case r of
         Panic m \<Rightarrow> panicS m
       | Err e \<Rightarrow> returnS ()
       | Ok updatedCVC \<Rightarrow>
           bindS (cvc_reconcileVersion C updatedCVC) (\<lambda>(err, cvc).
             case err of
               Some e \<Rightarrow>
                 ignoreS (\<lambda>s. cvc_update C s (Namespace cvc)
                   (cvc\<lparr>cvc_Version := setErrorStatus (capi C) ''Failed to reconcile cvc version'' e (cvc_Version cvc)\<rparr>))
             | None \<Rightarrow>
                 if isClaimDeletionCandidate C cvc then ignoreS (removeClaimFinalizer C cvc)
                 else if \<not> cvc_ShouldReconcile C cvc then returnS ()
                 else if Name cvc = '''' then returnS ()
                 else syncVolume C cvc))"

definition cvc_syncHandler :: "'s cenv \<Rightarrow> string \<Rightarrow> ('s, unit) act" where
  "cvc_syncHandler C key =
     (case SplitMetaNamespaceKey (capi C) key of
        Panic m \<Rightarrow> panicS m
      | Err e \<Rightarrow> returnS ()
      | Ok (namespace, name) \<Rightarrow>
          bindS (attemptS (readS (\<lambda>s. cvc_cached C s namespace name))) (\<lambda>r.
            case r of
              Panic m \<Rightarrow> panicS m
            | Err e \<Rightarrow> if IsNotFound e then returnS () else failS e
            | Ok cvc \<Rightarrow> syncCVC C cvc))"

end
