(* ===== verification/SampleVolume.thy ===== *)
theory SampleVolume
  imports VolumeConfig SampleReplica VolumeWebhook
begin

text \<open>
  A concrete server for the witnesses on volume configurations. The deletion of a budget is logged with the number of volume
  configurations that refer to it, the deletion of a replica with its name. It models no code of the repository.
\<close>

definition budgetUsers :: "store \<Rightarrow> string \<Rightarrow> nat" where
  "budgetUsers s n = length (filter (\<lambda>c. inNamespace ''openebs'' (Namespace c) \<and>
       matchesSelector (''openebs.io/pod-disruption-budget='' @ n) (Labels c)) (st_cvcs s))"

definition sampleCenv :: "store cenv" where
  "sampleCenv =
    \<lparr>rep = sampleRenv,
     svc_get = (\<lambda>s ns n. lookupObj Name n (st_services s)),
     svc_create = (\<lambda>s ns x. storeWith (\<lambda>xs s. s\<lparr>st_services := xs\<rparr>) (insertObj Name x (st_services s)) x s),
     cv_get = (\<lambda>s ns n. lookupObj Name n (st_cvs s)),
     cv_create = (\<lambda>s ns x. storeWith (\<lambda>xs s. s\<lparr>st_cvs := xs\<rparr>) (insertObj Name x (st_cvs s)) x s),
     cv_update = (\<lambda>s ns x. storeWith (\<lambda>xs s. s\<lparr>st_cvs := xs\<rparr>) (replaceObj Name x (st_cvs s)) x s),
     cv_patch = (\<lambda>s ns n p. (lookupObj Name n (st_cvs s), s)),
     cvp_get = (\<lambda>s ns n. Err (NotFound n)),
     cvr_create = (\<lambda>s ns x. let y = x\<lparr>Namespace := ns\<rparr> in
                     storeWith (\<lambda>xs s. s\<lparr>st_cvrs := xs\<rparr>) (insertObj Name y (st_cvrs s)) y s),
     cvr_delete = (\<lambda>s ns n. storeWith (\<lambda>xs s. s\<lparr>st_cvrs := xs, st_commands := st_commands s @ [''delete replica '' @ n]\<rparr>)
                     (removeObj Name n (st_cvrs s)) () s),
     cvc_cached = (\<lambda>s ns n. lookupObj Name n (st_cvcs s)),
     cvc_update = (\<lambda>s ns x. storeWith (\<lambda>xs s. s\<lparr>st_cvcs := xs\<rparr>) (replaceObj Name x (st_cvcs s)) x s),
     cvc_patch = (\<lambda>s ns n p. (lookupObj Name n (st_cvcs s), s)),
     cvc_removeFinalizers = (\<lambda>s ns n. (Ok (), s\<lparr>st_cvcs := filter (\<lambda>c. Name c \<noteq> n) (st_cvcs s)\<rparr>)),
     pdb_list = (\<lambda>s ns sel. Ok (filter (\<lambda>c. matchesSelector sel (Labels c)) (st_pdbs s))),
     pdb_create = (\<lambda>s ns x. let y = x\<lparr>Name := pdb_GenerateName x @ showNat (length (st_pdbs s))\<rparr> in
                     storeWith (\<lambda>xs s. s\<lparr>st_pdbs := xs\<rparr>) (insertObj Name y (st_pdbs s)) y s),
     pdb_delete = (\<lambda>s ns n. storeWith (\<lambda>xs s. s\<lparr>st_pdbs := xs, st_commands := st_commands s @
                        [''delete budget with users '' @ showNat (budgetUsers s n)]\<rparr>)
                     (removeObj Name n (st_pdbs s)) () s),
     marshalCVC = (\<lambda>c. Ok (Name c)),
     marshalCV = (\<lambda>c. Ok (Name c)),
     QuantityString = (\<lambda>q. showNat (nat q)),
     ParsedCapacity = Atoi,
     cstorIQN = (\<lambda>n. ''iqn.2016-09.com.openebs.cstor:'' @ n),
     randPerm = (\<lambda>s n. rev [0..<n]),
     IsChangeInLists = (\<lambda>a b. set a \<noteq> set b),
     GetPoolNames = map (\<lambda>c. mget (Labels c) ''cstorpoolinstance.openebs.io/name''),
     IsScaleDownInProgress = (\<lambda>cv. length (cv_StatusKnownReplicas cv) > length (cv_KnownReplicas cv)),
     volumeReference = (\<lambda>cv. Ok (Name cv)),
     spewHash = (\<lambda>p. of_nat (length (concat (pol_ReplicaPoolInfo p)))),
     conditionOrder = (\<lambda>m. m),
     TargetPort = ''3260'',
     CStorVolumeReplicaFinalizer = ''cstorvolumereplica.openebs.io/finalizer'',
     PodDisruptionBudgetKey = ''openebs.io/pod-disruption-budget'',
     VolumePolicyKey = ''openebs.io/volume-policy'',
     CStorVolumeConfigPhasePending = ''Pending'',
     CStorVolumeConfigResizing = ''Resizing'',
     CStorVolumeConfigResizePending = ''ResizePending''\<rparr>"

lemma capi_sample: "capi sampleCenv = sampleEnv"
  by (simp add: sampleCenv_def sampleRenv_def samplePM_def)

text \<open>
  A bound volume configuration of cluster \<open>c1\<close>: the pools that hold its replicas, those it should have, and
  the budget it refers to.
\<close>

definition boundCVC :: "string list \<Rightarrow> string list \<Rightarrow> string \<Rightarrow> CStorVolumeConfig" where
  "boundCVC current wanted budget =
     (sampleCVC wanted)\<lparr>Labels := [(CStorPoolClusterLabelKey, ''c1''), (''openebs.io/pod-disruption-budget'', budget)],
        Annotations := [(''openebs.io/volumeID'', ''pvc-1'')], cvc_PoolInfo := current,
        cvc_Version := emptyVersionDetails\<lparr>vd_Current := ''2.12.0'', vd_Desired := ''2.12.0''\<rparr>\<rparr>"

definition sampleCV :: "int \<Rightarrow> gomap \<Rightarrow> CStorVolume" where
  "sampleCV drf known =
     emptyCV\<lparr>Name := ''pvc-1'', Namespace := ''openebs'', cv_Capacity := 10, cv_StatusCapacity := 10,
       cv_DesiredReplicationFactor := drf, cv_KnownReplicas := known, cv_StatusKnownReplicas := known\<rparr>"

definition volumeReplicaOn :: "string \<Rightarrow> CStorVolumeReplica" where
  "volumeReplicaOn p =
     emptyCVR\<lparr>Name := ''pvc-1-'' @ p, Namespace := ''openebs'', cvr_ReplicaID := ''id-'' @ p,
       Labels := [(''openebs.io/persistent-volume'', ''pvc-1''), (''cstorpoolinstance.openebs.io/name'', p)]\<rparr>"

text \<open>Four pools of the cluster; the volume has replicas on some of them.\<close>

definition volumeStore :: "CStorVolumeConfig list \<Rightarrow> CStorVolume list \<Rightarrow> string list \<Rightarrow> store" where
  "volumeStore cvcs cvs holding =
     emptyStore\<lparr>
       st_cspis := map (\<lambda>n. sampleCSPI n ''c1'' (''node-'' @ n) (samplePool (''node-'' @ n) ''stripe'' []))
         [''p1'', ''p2'', ''p3'', ''p4''],
       st_cvrs := map volumeReplicaOn holding, st_cvcs := cvcs, st_cvs := cvs,
       st_services := [ObjectMeta.extend (sampleMeta ''pvc-1'' []) \<lparr>svc_ClusterIP = ''10.0.0.1'', svc_Selector = [], svc_Ports = []\<rparr>],
       st_pdbs := [ObjectMeta.extend (sampleMeta ''pdb'' [])
         \<lparr>pdb_GenerateName = ''c1'', pdb_MaxUnavailable = 1, pdb_MatchLabels = [], pdb_MatchExpressions = []\<rparr>]\<rparr>"

end
