(* ===== verification/VolumeSafety.thy ===== *)
theory VolumeSafety
  imports SampleVolume
begin

text \<open>
  What a synchronisation round of a volume configuration may delete, where it places replicas, and how it merges
  conditions.
\<close>

section \<open>Budgets and replicas\<close>

text \<open>
  Predicates on the server that the creations and updates of the controller keep, and also the deletion of a budget
  to which exactly one volume configuration refers.
\<close>

definition otherWrites :: "'s cenv \<Rightarrow> ('s \<Rightarrow> bool) \<Rightarrow> bool" where
  "otherWrites C I \<longleftrightarrow>
     (\<forall>ns x. keeps I (\<lambda>s. svc_create C s ns x)) \<and> (\<forall>ns x. keeps I (\<lambda>s. cvr_create C s ns x)) \<and>
     (\<forall>ns x. keeps I (\<lambda>s. cvc_update C s ns x)) \<and> (\<forall>ns n x. keeps I (\<lambda>s. cvc_patch C s ns n x)) \<and>
     (\<forall>ns n. keeps I (\<lambda>s. cvc_removeFinalizers C s ns n)) \<and> (\<forall>ns x. keeps I (\<lambda>s. pdb_create C s ns x)) \<and>
     (\<forall>ns x. keeps I (\<lambda>s. deploy_create (capi C) s ns x)) \<and> (\<forall>ns n x. keeps I (\<lambda>s. deploy_patch (capi C) s ns n x))"

definition volumeWrites :: "'s cenv \<Rightarrow> ('s \<Rightarrow> bool) \<Rightarrow> bool" where
  "volumeWrites C I \<longleftrightarrow>
     otherWrites C I \<and> (\<forall>ns x. keeps I (\<lambda>s. cv_create C s ns x)) \<and> (\<forall>ns x. keeps I (\<lambda>s. cv_update C s ns x)) \<and>
     (\<forall>ns n x. keeps I (\<lambda>s. cv_patch C s ns n x))"

definition soleUserDeletes :: "'s cenv \<Rightarrow> ('s \<Rightarrow> bool) \<Rightarrow> bool" where
  "soleUserDeletes C I \<longleftrightarrow>
     (\<forall>s n cvcs. I s \<longrightarrow> cvc_list (capi C) s (openebsNamespace C) (PodDisruptionBudgetKey C @ ''='' @ n) = Ok cvcs \<longrightarrow>
        length cvcs = 1 \<longrightarrow> I (snd (pdb_delete C s (openebsNamespace C) n)))"

named_theorems cvc_intros \<open>operations that keep what the writes of the controller keep\<close>

lemma otherWritesD [cvc_intros]:
  assumes "otherWrites C I"
  shows "keeps I (\<lambda>s. svc_create C s ns x1)" "keeps I (\<lambda>s. cvr_create C s ns x3)" "keeps I (\<lambda>s. cvc_update C s ns x4)"
    "keeps I (\<lambda>s. cvc_patch C s ns n b)" "keeps I (\<lambda>s. cvc_removeFinalizers C s ns n)" "keeps I (\<lambda>s. pdb_create C s ns x5)"
    "keeps I (\<lambda>s. deploy_create (capi C) s ns x6)" "keeps I (\<lambda>s. deploy_patch (capi C) s ns n b)"
  using assms by (simp_all add: otherWrites_def)

lemma volumeWritesD:
  assumes "volumeWrites C I"
  shows "keeps I (\<lambda>s. cv_create C s ns x)" "keeps I (\<lambda>s. cv_update C s ns x)" "keeps I (\<lambda>s. cv_patch C s ns n b)" "otherWrites C I"
  using assms by (simp_all add: volumeWrites_def)

section \<open>Preservation\<close>

lemma keeps_getOrCreateCStorTargetDeployment [cvc_intros]:
  assumes w: "otherWrites C I"
  shows "keeps I (getOrCreateCStorTargetDeployment (capi C) v q)"
  unfolding getOrCreateCStorTargetDeployment_def Let_def  by (intro keeps_intros cvc_intros | rule w)+

lemma keeps_getOrCreateTargetService [cvc_intros]:
  assumes w: "otherWrites C I"
  shows "keeps I (getOrCreateTargetService C c)"
  unfolding getOrCreateTargetService_def Let_def  by (intro keeps_intros cvc_intros | rule w)+

lemma keeps_getOrCreateCStorVolumeResource [cvc_intros]:
  assumes w: "volumeWrites C I"
  shows "keeps I (getOrCreateCStorVolumeResource C v c)"
  unfolding getOrCreateCStorVolumeResource_def Let_def  by (intro keeps_intros cvc_intros | rule w volumeWritesD [OF w])+

lemma keeps_createCVR [cvc_intros]:
  assumes w: "otherWrites C I"
  shows "keeps I (createCVR C sv v c cs ri)"
  unfolding createCVR_def Let_def  by (intro keeps_intros cvc_intros | rule w)+

lemma keeps_createCVRsLoop [cvc_intros]:
  assumes w: "otherWrites C I"
  shows "keeps I (createCVRsLoop C sv v c ri p k cs)"
  by (induction cs arbitrary: k) (simp_all only: createCVRsLoop.simps, (intro keeps_intros cvc_intros | rule w | assumption)+)

lemma keeps_distributeCVRs [cvc_intros]:
  assumes w: "otherWrites C I"
  shows "keeps I (distributeCVRs C n c sv v q)"
  unfolding distributeCVRs_def Let_def  by (intro keeps_intros cvc_intros | rule w)+

lemma keeps_distributePendingCVRs [cvc_intros]:
  assumes w: "otherWrites C I"
  shows "keeps I (distributePendingCVRs C c v sv q)"
  unfolding distributePendingCVRs_def Let_def  by (intro keeps_intros cvc_intros | rule w)+

lemma keeps_createPDB [cvc_intros]:
  assumes w: "otherWrites C I"
  shows "keeps I (createPDB C ps n)"
  unfolding createPDB_def Let_def  by (intro keeps_intros cvc_intros | rule w)+

lemma keeps_getOrCreatePodDisruptionBudget [cvc_intros]:
  assumes w: "otherWrites C I"
  shows "keeps I (getOrCreatePodDisruptionBudget C n ps)"
  unfolding getOrCreatePodDisruptionBudget_def Let_def  by (intro keeps_intros cvc_intros | rule w)+

lemma keeps_deletePDBIfNotInUse [cvc_intros]:
  assumes d: "soleUserDeletes C I"
  shows "keeps I (deletePDBIfNotInUse C c)"
proof (rule keepsI)
  fix s
  assume I: "I s"
  let ?sel = "PodDisruptionBudgetKey C @ ''='' @ getPDBName C c"
  show "I (snd (deletePDBIfNotInUse C c s))"
  proof (cases "cvc_list (capi C) s (openebsNamespace C) ?sel")
    case (Ok cvcs)
    have "I (snd (pdb_delete C s (openebsNamespace C) (getPDBName C c)))" if "length cvcs = 1"
      using d I Ok that by (simp add: soleUserDeletes_def)
    with Ok I show ?thesis
      by (auto simp: deletePDBIfNotInUse_def Let_def bindS_def attemptS_def split: res.splits prod.splits)
  qed (use I in \<open>simp_all add: deletePDBIfNotInUse_def Let_def bindS_def\<close>)
qed

lemma keeps_getUpdatePDBForVolume [cvc_intros]:
  assumes w: "otherWrites C I" and d: "soleUserDeletes C I"
  shows "keeps I (getUpdatePDBForVolume C c)"
  unfolding getUpdatePDBForVolume_def Let_def  by (intro keeps_intros cvc_intros | rule w d)+

lemma keeps_updatePDBForScaledVolume [cvc_intros]:
  assumes w: "otherWrites C I" and d: "soleUserDeletes C I"
  shows "keeps I (updatePDBForScaledVolume C c)"
  unfolding updatePDBForScaledVolume_def Let_def  by (intro keeps_intros cvc_intros | rule w d)+

lemma keeps_updateCVCWithScaledUpInfo [cvc_intros]:
  assumes w: "otherWrites C I" and d: "soleUserDeletes C I"
  shows "keeps I (updateCVCWithScaledUpInfo C c v)"
  unfolding updateCVCWithScaledUpInfo_def Let_def  by (intro keeps_intros cvc_intros | rule w d)+

lemma keeps_updateCStorVolumeInfo [cvc_intros]:
  assumes w: "volumeWrites C I"
  shows "keeps I (updateCStorVolumeInfo C v)"
  unfolding updateCStorVolumeInfo_def Let_def  by (intro keeps_intros cvc_intros | rule w volumeWritesD [OF w])+

lemma keeps_newReplicasLoop [cvc_intros]:
  assumes w: "otherWrites C I"
  shows "keeps I (newReplicasLoop C c v sv ps es)"
  by (induction ps arbitrary: es) (simp_all only: newReplicasLoop.simps, (intro keeps_intros cvc_intros | rule w | assumption)+)

lemma keeps_handleVolumeReplicaCreation [cvc_intros]:
  assumes w: "otherWrites C I"
  shows "keeps I (handleVolumeReplicaCreation C c v)"
  unfolding handleVolumeReplicaCreation_def Let_def  by (intro keeps_intros cvc_intros | rule w)+

lemma keeps_scaleUpVolumeReplicas [cvc_intros]:
  assumes w: "volumeWrites C I" and d: "soleUserDeletes C I"
  shows "keeps I (scaleUpVolumeReplicas C c)"
  unfolding scaleUpVolumeReplicas_def Let_def  by (intro keeps_intros cvc_intros | rule w volumeWritesD [OF w] d)+

lemma keeps_finishScaleDown [cvc_intros]:
  assumes w: "otherWrites C I" and d: "soleUserDeletes C I" and r: "\<And>ns n. keeps I (\<lambda>s. cvr_delete C s ns n)"
  shows "keeps I (finishScaleDown C c cr)"
  unfolding finishScaleDown_def Let_def  by (intro keeps_intros cvc_intros | rule w d r)+

lemma keeps_scaleDownVolumeReplicas [cvc_intros]:
  assumes w: "volumeWrites C I" and d: "soleUserDeletes C I" and r: "\<And>ns n. keeps I (\<lambda>s. cvr_delete C s ns n)"
  shows "keeps I (scaleDownVolumeReplicas C c)"
  unfolding scaleDownVolumeReplicas_def Let_def  by (intro keeps_intros cvc_intros | rule w volumeWritesD [OF w] d r)+

lemma keeps_scaleVolumeReplicas [cvc_intros]:
  assumes w: "volumeWrites C I" and d: "soleUserDeletes C I" and r: "\<And>ns n. keeps I (\<lambda>s. cvr_delete C s ns n)"
  shows "keeps I (scaleVolumeReplicas C c)"
  unfolding scaleVolumeReplicas_def Let_def  by (intro keeps_intros cvc_intros | rule w volumeWritesD [OF w] d r)+

lemma keeps_patchTargetDeploymentSpec [cvc_intros]:
  assumes w: "otherWrites C I"
  shows "keeps I (patchTargetDeploymentSpec C c)"
  unfolding patchTargetDeploymentSpec_def Let_def  by (intro keeps_intros cvc_intros | rule w)+

lemma keeps_syncPolicySpec [cvc_intros]:
  assumes w: "otherWrites C I"
  shows "keeps I (syncPolicySpec C c)"
  unfolding syncPolicySpec_def Let_def  by (intro keeps_intros cvc_intros | rule w)+

lemma keeps_updateCVCObj [cvc_intros]:
  assumes w: "otherWrites C I"
  shows "keeps I (updateCVCObj C c v)"
  unfolding updateCVCObj_def Let_def  by (intro keeps_intros cvc_intros | rule w)+

lemma keeps_createVolumeOperation [cvc_intros]:
  assumes w: "volumeWrites C I"
  shows "keeps I (createVolumeOperation C c)"
  unfolding createVolumeOperation_def Let_def  by (intro keeps_intros cvc_intros | rule w volumeWritesD [OF w])+

lemma keeps_removeClaimFinalizer [cvc_intros]:
  assumes w: "otherWrites C I" and d: "soleUserDeletes C I"
  shows "keeps I (removeClaimFinalizer C c)"
  unfolding removeClaimFinalizer_def Let_def  by (intro keeps_intros cvc_intros | rule w d)+

lemma keeps_PatchCVCStatus [cvc_intros]:
  assumes w: "otherWrites C I"
  shows "keeps I (PatchCVCStatus C c c')"
proof -
  have "keeps I (\<lambda>s. case cvc_patch C s (Namespace c) (Name c) b of (r, s') \<Rightarrow> (quoteR r f a, s'))" for b f a
    using otherWritesD(4) [OF w, of "Namespace c" "Name c" b] by (auto simp: keeps_def split: prod.splits)
  then show ?thesis unfolding PatchCVCStatus_def by (intro keeps_intros)
qed

lemma keeps_markCVCResizeInProgress [cvc_intros]:
  assumes w: "otherWrites C I"
  shows "keeps I (markCVCResizeInProgress C c)"
  unfolding markCVCResizeInProgress_def Let_def  by (intro keeps_intros cvc_intros | rule w)+

lemma keeps_markCVCResizeFinished [cvc_intros]:
  assumes w: "otherWrites C I"
  shows "keeps I (markCVCResizeFinished C c)"
  unfolding markCVCResizeFinished_def Let_def  by (intro keeps_intros cvc_intros | rule w)+

lemma keeps_resizeCV [cvc_intros]:
  assumes w: "volumeWrites C I"
  shows "keeps I (resizeCV C v q)"
  unfolding resizeCV_def Let_def  by (intro keeps_intros cvc_intros | rule w volumeWritesD [OF w])+

lemma keeps_resizeCVC [cvc_intros]:
  assumes w: "volumeWrites C I"
  shows "keeps I (resizeCVC C c)"
  unfolding resizeCVC_def Let_def  by (intro keeps_intros cvc_intros | rule w volumeWritesD [OF w])+

lemma keeps_cvc_populateVersion [cvc_intros]:
  assumes w: "otherWrites C I"
  shows "keeps I (cvc_populateVersion C c)"
  unfolding cvc_populateVersion_def Let_def  by (intro keeps_intros cvc_intros | rule w)+

lemma keeps_cvc_reconcileVersion [cvc_intros]:
  assumes w: "otherWrites C I"
  shows "keeps I (cvc_reconcileVersion C c)"
  unfolding cvc_reconcileVersion_def Let_def  by (intro keeps_intros cvc_intros | rule w)+

lemma keeps_syncVolume [cvc_intros]:
  assumes w: "volumeWrites C I" and d: "soleUserDeletes C I" and r: "\<And>ns n. keeps I (\<lambda>s. cvr_delete C s ns n)"
  shows "keeps I (syncVolume C c)"
  unfolding syncVolume_def Let_def  by (intro keeps_intros cvc_intros | rule w volumeWritesD [OF w] d r)+

lemma keeps_syncCVC [cvc_intros]:
  assumes w: "volumeWrites C I" and d: "soleUserDeletes C I" and r: "\<And>ns n. keeps I (\<lambda>s. cvr_delete C s ns n)"
  shows "keeps I (syncCVC C c)"
  unfolding syncCVC_def Let_def  by (intro keeps_intros cvc_intros | rule w volumeWritesD [OF w] d r)+

lemma keeps_cvc_syncHandler [cvc_intros]:
  assumes w: "volumeWrites C I" and d: "soleUserDeletes C I" and r: "\<And>ns n. keeps I (\<lambda>s. cvr_delete C s ns n)"
  shows "keeps I (cvc_syncHandler C key)"
  unfolding cvc_syncHandler_def Let_def by (intro keeps_intros cvc_intros | rule w volumeWritesD [OF w] d r)+

section \<open>Properties\<close>

text \<open>
  C9. A synchronisation round of a volume configuration deletes a pod disruption budget only when exactly one volume
  configuration refers to it, deletes nothing else but replicas, and otherwise only creates and updates: whatever these keep, the round keeps.
\<close>

theorem shared_budget_kept:
  assumes "volumeWrites C I" and "soleUserDeletes C I" and "\<And>ns n. keeps I (\<lambda>s. cvr_delete C s ns n)"
  shows "keeps I (cvc_syncHandler C key)"
  using assms by (rule keeps_cvc_syncHandler)

text \<open>Every logged deletion of a budget had one user.\<close>

definition soleDeletions :: "store \<Rightarrow> bool" where
  "soleDeletions s = list_all (\<lambda>c. HasPrefix c ''delete replica '' \<or> c = ''delete budget with users 1'') (st_commands s)"

lemma soleDeletions_storeWith:
  assumes "soleDeletions s"
    and "\<And>xs. st_commands (f xs s) = st_commands s \<or> (\<exists>c. st_commands (f xs s) = st_commands s @ [c] \<and>
       (HasPrefix c ''delete replica '' \<or> c = ''delete budget with users 1''))"
  shows "soleDeletions (snd (storeWith f r x s))"
proof (cases r)
  case (Ok xs)
  with assms(1) assms(2) [of xs] show ?thesis by (elim disjE exE) (simp_all add: storeWith_def soleDeletions_def)
qed (simp_all add: storeWith_def assms(1))

lemma soleDeletions_writes:
  "volumeWrites sampleCenv soleDeletions" "keeps soleDeletions (\<lambda>s. cvr_delete sampleCenv s ns n)"
  unfolding volumeWrites_def otherWrites_def capi_sample
  by (auto simp: keeps_def sampleCenv_def sampleEnv_def Let_def HasPrefix_append intro!: soleDeletions_storeWith)
    (simp_all add: soleDeletions_def)

lemma soleDeletions_sole: "soleUserDeletes sampleCenv soleDeletions"
proof -
  have "budgetUsers s n = 1" if "cvc_list sampleEnv s ''openebs'' (''openebs.io/pod-disruption-budget='' @ n) = Ok cvcs"
    "length cvcs = 1" for s n cvcs using that by (auto simp: sampleEnv_def budgetUsers_def)
  moreover have "showNat 1 = ''1''" by code_simp
  ultimately show ?thesis
    unfolding soleUserDeletes_def capi_sample
    by (auto simp: sampleCenv_def sampleEnv_def intro!: soleDeletions_storeWith)
qed

theorem shared_budget_kept_witness:
  "let gone = (boundCVC [''p1'', ''p2'', ''p3''] [] ''pdb'')\<lparr>DeletionTimestamp := Some ''now'', Finalizers := [CStorVolumeConfigFinalizer]\<rparr>;
       s = volumeStore [gone] [] [] ; s' = snd (cvc_syncHandler sampleCenv ''openebs/pvc-1'' s)
   in soleDeletions s' \<and> st_commands s' = [''delete budget with users 1'']"
proof -
  let ?gone = "(boundCVC [''p1'', ''p2'', ''p3''] [] ''pdb'')\<lparr>DeletionTimestamp := Some ''now'', Finalizers := [CStorVolumeConfigFinalizer]\<rparr>"
  have "soleDeletions (volumeStore [?gone] [] [])" by code_simp
  then have "soleDeletions (snd (cvc_syncHandler sampleCenv ''openebs/pvc-1'' (volumeStore [?gone] [] [])))"
    by (rule keepsD [OF shared_budget_kept [OF soleDeletions_writes(1) soleDeletions_sole soleDeletions_writes(2)]])
  moreover have "st_commands (snd (cvc_syncHandler sampleCenv ''openebs/pvc-1'' (volumeStore [?gone] [] []))) =
      [''delete budget with users 1'']" by code_simp
  ultimately show ?thesis by (simp only: Let_def simp_thms)
qed

end
