(* ===== verification/VolumeTargetConf.thy ===== *)
theory VolumeTargetConf
  imports VolumeTarget "HOL-Library.List_Lexorder" "HOL-Library.Char_ord" "HOL-Library.Signed_Division"
begin

text \<open>
  The target of a volume as its manager sees it: the configuration file of istgt and the commands sent to it,
  \<open>pkg/controllers/volume-mgmt/volume/volume.go\<close>, and the server on which istgt registers replicas,
  \<open>pkg/volume-rpc/targetserver\<close>. Alerts, events of the recorder and logs are left out; the mutex around
  the writes of the file protects single calls only and is not modelled.
\<close>

section \<open>Parameters\<close>

record CVStatus =
  cvs_Name :: string
  cvs_Status :: string
  cvs_ReplicaStatuses :: "ReplicaStatus list"

record CVReplicationDetails =
  csr_VolumeName :: string
  csr_ReplicationFactor :: int
  csr_ConsistencyFactor :: int
  csr_ReplicaID :: string
  csr_ReplicaGUID :: string

record CoreEvent = ObjectMeta +
  cev_InvolvedObject :: "string \<times> string \<times> string \<times> string \<times> string"
  cev_FirstTimestamp :: int
  cev_LastTimestamp :: int
  cev_Count :: "32 word"
  cev_Message :: string
  cev_Reason :: string
  cev_Type :: string
  cev_Source :: "string \<times> string"

text \<open>
  What the volume manager uses outside the repository: the clients, the socket of istgt, the file operator and the
  helpers and constants of \<open>github.com/openebs/api\<close>, the JSON decoder, and the text of an error.
\<close>

record 's venv =
  vapi :: "'s env"
  vcv_get :: "'s \<Rightarrow> string \<Rightarrow> string \<Rightarrow> CStorVolume res"
  vcv_list :: "'s \<Rightarrow> string \<Rightarrow> CStorVolume list res"
  vcv_update :: "'s \<Rightarrow> string \<Rightarrow> CStorVolume \<Rightarrow> CStorVolume res \<times> 's"
  event_get :: "'s \<Rightarrow> string \<Rightarrow> string \<Rightarrow> CoreEvent res"
  event_create :: "'s \<Rightarrow> string \<Rightarrow> CoreEvent \<Rightarrow> verdict \<times> 's"
  event_update :: "'s \<Rightarrow> string \<Rightarrow> CoreEvent \<Rightarrow> verdict \<times> 's"
  SendCommand :: "string \<Rightarrow> 's \<Rightarrow> string list res \<times> 's"
  WriteFile :: "string \<Rightarrow> string \<Rightarrow> 's \<Rightarrow> verdict \<times> 's"
  Updatefile :: "string \<Rightarrow> string \<Rightarrow> string \<Rightarrow> 's \<Rightarrow> verdict \<times> 's"
  UpdateOrAppendMultipleLines :: "string \<Rightarrow> gomap \<Rightarrow> 's \<Rightarrow> verdict \<times> 's"
  setTargetNamespace :: "string \<Rightarrow> 's \<Rightarrow> 's"
  unmarshalCVStatuses :: "string \<Rightarrow> CVStatus list res"
  unmarshalReplicationDetails :: "string \<Rightarrow> CVReplicationDetails res"
  quantityStr :: "Quantity \<Rightarrow> string"
  errText :: "goerr \<Rightarrow> string"
  IsDRFPending :: "CStorVolume \<Rightarrow> bool"
  IsResizePending :: "CStorVolume \<Rightarrow> bool"
  IsConditionPresent :: "CStorVolume \<Rightarrow> string \<Rightarrow> bool"
  GetCVCondition :: "CStorVolume \<Rightarrow> string \<Rightarrow> 's \<Rightarrow> Condition"
  GetResizeCondition :: "'s \<Rightarrow> Condition"
  AddCondition :: "Condition list \<Rightarrow> Condition \<Rightarrow> Condition list"
  UpdateCondition :: "Condition list \<Rightarrow> Condition \<Rightarrow> Condition list"
  DeleteCondition :: "Condition list \<Rightarrow> Condition \<Rightarrow> Condition list"
  AreSpecReplicasHealthy :: "CStorVolume \<Rightarrow> CVStatus \<Rightarrow> bool"
  GetRemovingReplicaID :: "CStorVolume \<Rightarrow> string"
  BuildScaleDownConfigData :: "CStorVolume \<Rightarrow> string \<Rightarrow> gomap"
  IstgtConfPath :: string
  typesIstgtConfPath :: string
  IstgtRefreshCmd :: string
  IstgtReplicaCmd :: string
  IstgtResizeCmd :: string
  IstgtDRFCmd :: string
  IoWaitTime :: string
  TotalWaitTime :: string
  DesiredReplicationFactorKey :: string
  CStorVolumeResizing :: string
  CStorVolumeKind :: string
  CStorAPIVersion :: string
  apisCVStatusOffline :: string
  utilNamespace :: string

section \<open>The configuration of istgt\<close>

abbreviation newline :: char where "newline \<equiv> CHR 0x0A"

text \<open>
  The template of the file, line by line, for the fields that it reads. A \<open>range\<close> of a template visits the keys of a map
  in increasing order; the trimmed actions leave one line for each replica.
\<close>

definition istgtConfFile :: "'s venv \<Rightarrow> CStorVolume \<Rightarrow> string list" where
  \<open>istgtConfFile V cv =
     [''# Global section'',
      ''[Global]'',
      ''  NodeBase "iqn.2016-09.com.openebs.cstor"'',
      ''  PidFile "/var/run/istgt.pid"'',
      ''  AuthFile "/usr/local/etc/istgt/auth.conf"'',
      ''  LogFile "/usr/local/etc/istgt/logfile"'',
      ''  Luworkers 6'',
      ''  MediaDirectory "/mnt"'',
      ''  Timeout 60'',
      ''  NopInInterval 20'',
      ''  TCPUserTimeout 120'',
      ''  MaxR2T 16'',
      ''  DiscoveryAuthMethod None'',
      ''  DiscoveryAuthGroup None'',
      ''  MaxSessions 32'',
      ''  MaxConnections 4'',
      ''  FirstBurstLength 262144'',
      ''  MaxBurstLength 1048576'',
      ''  MaxRecvDataSegmentLength 262144'',
      ''  MaxOutstandingR2T 16'',
      ''  DefaultTime2Wait 2'',
      ''  DefaultTime2Retain 20'',
      ''  OperationalMode 0'',
      '''',
      ''# UnitControl section'',
      ''[UnitControl]'',
      ''  AuthMethod None'',
      ''  AuthGroup None'',
      ''  Portal UC1 '' @ cv_TargetIP cv @ '':3261'',
      ''  Netmask '' @ cv_TargetIP cv @ ''/8'',
      '''',
      ''# PortalGroup section'',
      ''[PortalGroup1]'',
      ''  Portal DA1 '' @ cv_TargetIP cv @ '':3260'',
      '''',
      ''# InitiatorGroup section'',
      ''[InitiatorGroup1]'',
      ''  InitiatorName "ALL"'',
      ''  Netmask "ALL"'',
      '''',
      ''[InitiatorGroup2]'',
      ''  InitiatorName "None"'',
      ''  Netmask "None"'',
      '''',
      ''# LogicalUnit section'',
      ''[LogicalUnit1]'',
      ''  TargetName '' @ Name cv,
      ''  TargetAlias nicknamefor-'' @ Name cv,
      ''  Mapping PortalGroup1 InitiatorGroup1'',
      ''  AuthMethod None'',
      ''  AuthGroup None'',
      ''  UseDigest Auto'',
      ''  ReadOnly No'',
      ''  DesiredReplicationFactor '' @ FormatInt (cv_DesiredReplicationFactor cv),
      ''  ReplicationFactor '' @ FormatInt (cv_ReplicationFactor cv),
      ''  ConsistencyFactor '' @ FormatInt (cv_ConsistencyFactor cv),
      ''  UnitType Disk'',
      ''  UnitOnline Yes'',
      ''  BlockLength 512'',
      ''  QueueDepth 32'',
      ''  Luworkers 6'',
      ''  UnitInquiry "OpenEBS" "iscsi" "0" "'' @ UID cv @ ''"'',
      ''  PhysRecordLength 4096'',
      ''  LUN0 Storage '' @ quantityStr V (cv_Capacity cv) @ '' 32k'',
      ''  LUN0 Option Unmap Disable'',
      ''  LUN0 Option WZero Disable'',
      ''  LUN0 Option ATS Disable'',
      ''  LUN0 Option XCOPY Disable''] @
     map (\<lambda>(k, v). ''  Replica '' @ k @ '' '' @ v) (sort_key fst (cv_KnownReplicas cv))\<close>

definition CreateIstgtConf :: "'s venv \<Rightarrow> CStorVolume option \<Rightarrow> string res" where
  "CreateIstgtConf V cStorVolume =
     (case cStorVolume of
        None \<Rightarrow> Err (Errorf ''nil cstorvolume object'' [])
      | Some cv \<Rightarrow>
          let cvObj = (if cv_DesiredReplicationFactor cv = 0
                       then cv\<lparr>cv_DesiredReplicationFactor := cv_ReplicationFactor cv\<rparr> else cv)
          in Ok (concat (map (\<lambda>l. l @ [newline]) (istgtConfFile V cvObj))))"

definition CreateVolumeTarget :: "'s venv \<Rightarrow> CStorVolume option \<Rightarrow> ('s, unit) act" where
  "CreateVolumeTarget V cStorVolume =
     bindS (readS (\<lambda>_. wrapR (CreateIstgtConf V cStorVolume) ''failed to create istgtconf file data'' [])) (\<lambda>data.
     bindS (ignoreS (WriteFile V (IstgtConfPath V) data)) (\<lambda>_.
     ignoreS (SendCommand V (IstgtRefreshCmd V))))"

section \<open>Commands to istgt\<close>

definition extractReplicaStatusFromJSON :: "'s venv \<Rightarrow> string \<Rightarrow> CVStatus res" where
  "extractReplicaStatusFromJSON V str =
     bindR (unmarshalCVStatuses V str) (\<lambda>cvStatuses.
       case cvStatuses of
         [] \<Rightarrow> Err (Errorf ''empty volume status from istgt'' [])
       | status # _ \<Rightarrow> Ok status)"

text \<open>An absent character has index -1, which is no slice bound.\<close>

definition replicaJSON :: "'s venv \<Rightarrow> string \<Rightarrow> string res" where
  "replicaJSON V stringResp =
     (case LastIndexByte stringResp (CHR ''}'') of
        None \<Rightarrow> Err (Errorf ''invalid data from %v command'' [AS (IstgtReplicaCmd V)])
      | Some jsonEnd \<Rightarrow>
          (case Index stringResp ''{'' of
             None \<Rightarrow> Panic ''slice bounds out of range''
           | Some jsonBegin \<Rightarrow>
               if jsonBegin \<ge> jsonEnd then Err (Errorf ''invalid data from %v command'' [AS (IstgtReplicaCmd V)])
               else Ok (drop jsonBegin (take (jsonEnd + 1) stringResp))))"

definition GetVolumeStatus :: "'s venv \<Rightarrow> ('s, CVStatus) act" where
  "GetVolumeStatus V =
     bindS (SendCommand V (IstgtReplicaCmd V)) (\<lambda>statuses.
     readS (\<lambda>_. bindR (replicaJSON V (''['' @ Join statuses '' '' @ '']'')) (extractReplicaStatusFromJSON V)))"

definition getResizeCommand :: "'s venv \<Rightarrow> CStorVolume \<Rightarrow> string" where
  "getResizeCommand V cv =
     IstgtResizeCmd V @ '' '' @ Name cv @ '' '' @ quantityStr V (cv_Capacity cv) @ '' '' @ IoWaitTime V @ '' '' @ TotalWaitTime V"

definition GetScaleUpCommand :: "'s venv \<Rightarrow> CStorVolume \<Rightarrow> string" where
  "GetScaleUpCommand V cv = IstgtDRFCmd V @ '' '' @ Name cv @ '' '' @ FormatInt (cv_DesiredReplicationFactor cv)"

definition GetScaleDownCommand :: "'s venv \<Rightarrow> CStorVolume \<Rightarrow> string" where
  "GetScaleDownCommand V cv =
     IstgtDRFCmd V @ '' '' @ Name cv @ '' '' @ FormatInt (cv_DesiredReplicationFactor cv) @ '' '' @
     concat (map (\<lambda>(repID, _). repID @ '' '') (mapOrder (vapi V) (cv_KnownReplicas cv)))"

text \<open>The first line of a response that reports an error.\<close>

definition errorResponse :: "string list \<Rightarrow> string option" where
  "errorResponse sockResp = find (\<lambda>resp. Contains resp ''ERR'') sockResp"

definition ResizeTargetVolume :: "'s venv \<Rightarrow> CStorVolume \<Rightarrow> ('s, unit) act" where
  "ResizeTargetVolume V cv =
     bindS (wrapS (SendCommand V (getResizeCommand V cv)) ''failed to execute istgt %s command on volume %s''
              [AS (IstgtResizeCmd V), AS (Name cv)]) (\<lambda>sockResp.
       case errorResponse sockResp of
         Some resp \<Rightarrow> failS (Errorf ''failed to execute istgt %s command on volume %s resp: %s''
                        [AS (IstgtResizeCmd V), AS (Name cv), AS resp])
       | None \<Rightarrow>
           let updateStorageVal = ''  LUN0 Storage '' @ quantityStr V (cv_Capacity cv) @ '' 32K''
           in wrapS (Updatefile V (IstgtConfPath V) updateStorageVal ''LUN0 Storage'') ''failed to update %s file with %s details''
                [AS (IstgtConfPath V), AS updateStorageVal])"

definition ExecuteDesiredReplicationFactorCommand :: "'s venv \<Rightarrow> CStorVolume \<Rightarrow> (CStorVolume \<Rightarrow> string) \<Rightarrow> ('s, unit) act" where
  "ExecuteDesiredReplicationFactorCommand V cv getDRFCmd =
     bindS (wrapS (SendCommand V (getDRFCmd cv)) ''failed to execute istgtcontrol %s command on volume %s''
              [AS (IstgtDRFCmd V), AS (Name cv)]) (\<lambda>sockResp.
       case errorResponse sockResp of
         Some resp \<Rightarrow> failS (Errorf ''failed to execute istgtcontrol %s command on volume %s resp: %s''
                        [AS (IstgtDRFCmd V), AS (Name cv), AS resp])
       | None \<Rightarrow> returnS ())"

text \<open>The version is compared as a string.\<close>

definition CheckValidVolume :: "CStorVolume \<Rightarrow> verdict" where
  "CheckValidVolume cv =
     (if length (UID cv) = 0 then Err (Errorf ''Invalid volume resource'' [])
      else if length (cv_TargetIP cv) = 0 then Err (Errorf ''targetIP cannot be empty'' [])
      else if length (Name cv) = 0 then Err (Errorf ''volumeName cannot be empty'' [])
      else if length (UID cv) = 0 then Err (Errorf ''volumeID cannot be empty'' [])
      else if cv_Capacity cv = 0 then Err (Errorf ''capacity cannot be zero'' [])
      else if vd_Current (cv_Version cv) \<ge> ''1.3.0'' \<and> cv_DesiredReplicationFactor cv = 0
      then Err (Errorf ''DesiredReplicationFactor cannot be zero'' [])
      else if cv_ReplicationFactor cv = 0 then Err (Errorf ''replicationFactor cannot be zero'' [])
      else if cv_ConsistencyFactor cv = 0 then Err (Errorf ''consistencyFactor cannot be zero'' [])
      else if cv_ReplicationFactor cv < cv_ConsistencyFactor cv
      then Err (Errorf ''replicationFactor cannot be less than consistencyFactor'' [])
      else Ok ())"

section \<open>The registration server\<close>

definition BuildConfigData :: "CVReplicationDetails \<Rightarrow> gomap" where
  "BuildConfigData csr =
     mput (''  Replica '' @ csr_ReplicaID csr) (''  Replica '' @ csr_ReplicaID csr @ '' '' @ csr_ReplicaGUID csr)
       (mput ''  ConsistencyFactor'' (''  ConsistencyFactor '' @ FormatInt (csr_ConsistencyFactor csr))
         (mput ''  ReplicationFactor'' (''  ReplicationFactor '' @ FormatInt (csr_ReplicationFactor csr)) []))"

definition UpdateConfig :: "'s venv \<Rightarrow> CVReplicationDetails \<Rightarrow> ('s, unit) act" where
  "UpdateConfig V csr = UpdateOrAppendMultipleLines V (typesIstgtConfPath V) (BuildConfigData csr)"

definition csr_Validate :: "CVReplicationDetails \<Rightarrow> verdict" where
  "csr_Validate csr =
     (if csr_VolumeName csr = '''' then Err (Errorf ''volume name can not be empty'' [])
      else if csr_ReplicaID csr = ''''
      then Err (Errorf ''replicaKey can not be empty to perform volume %s update'' [AS (csr_VolumeName csr)])
      else if csr_ReplicaGUID csr = ''''
      then Err (Errorf ''replicaKey can not be empty to perform volume %s update'' [AS (csr_VolumeName csr)])
      else if csr_ReplicationFactor csr = 0
      then Err (Errorf ''replication factor can't be %d'' [AI (csr_ReplicationFactor csr)])
      else if csr_ConsistencyFactor csr = 0
      then Err (Errorf ''consistencyFactor factor can't be %d'' [AI (csr_ReplicationFactor csr)])
      else Ok ())"

text \<open>The checks on the volume that is to know the replica.\<close>

definition admitReplica :: "CVReplicationDetails \<Rightarrow> CStorVolume \<Rightarrow> verdict" where
  "admitReplica csr cv =
     (if \<not> mhas (cv_KnownReplicas cv) (csr_ReplicaID csr) \<and>
         int (length (cv_KnownReplicas cv)) \<ge> cv_DesiredReplicationFactor cv
      then Err (Errorf ''can not update cstorvolume %s known replica count %d is greater than or equal to desired replication factor %d''
                  [AS (Name cv), AI (int (length (cv_KnownReplicas cv))), AI (cv_DesiredReplicationFactor cv)])
      else if cv_ReplicationFactor cv > csr_ReplicationFactor csr
      then Err (Errorf ''requested replication factor {%d} can not be smaller than existing replication factor {%d}''
                  [AI (csr_ReplicationFactor csr), AI (cv_ReplicationFactor cv)])
      else if cv_ConsistencyFactor cv > csr_ConsistencyFactor csr
      then Err (Errorf ''requested consistencyFactor factor {%d} can not be smaller than existing consistencyFactor factor {%d}''
                  [AI (csr_ReplicationFactor csr), AI (cv_ConsistencyFactor cv)])
      else Ok ())"

definition registerReplica :: "CVReplicationDetails \<Rightarrow> CStorVolume \<Rightarrow> CStorVolume" where
  "registerReplica csr cv =
     cv\<lparr>cv_ReplicationFactor := csr_ReplicationFactor csr, cv_ConsistencyFactor := csr_ConsistencyFactor csr,
        cv_KnownReplicas := mput (csr_ReplicaID csr) (csr_ReplicaGUID csr) (cv_KnownReplicas cv),
        cv_StatusKnownReplicas := mput (csr_ReplicaID csr) (csr_ReplicaGUID csr) (cv_StatusKnownReplicas cv)\<rparr>"

text \<open>Without a client the request fails.\<close>

definition UpdateCVWithReplicationDetails :: "'s venv option \<Rightarrow> CVReplicationDetails \<Rightarrow> ('s, unit) act" where
  "UpdateCVWithReplicationDetails openebsClient csr =
     (case openebsClient of
        None \<Rightarrow> failS (Errorf ''failed to update replication details error: empty openebsClient'' [])
      | Some V \<Rightarrow>
          bindS (readS (\<lambda>_. wrapR (csr_Validate csr) ''validate errors'' [])) (\<lambda>_.
          bindS (readS (\<lambda>s. wrapR (vcv_get V s (utilNamespace V) (csr_VolumeName csr)) ''failed to get cstorvolume'' [])) (\<lambda>cv.
          bindS (readS (\<lambda>_. admitReplica csr cv)) (\<lambda>_.
          bindS (\<lambda>s. vcv_update V s (utilNamespace V) (registerReplica csr cv)) (\<lambda>_.
          UpdateConfig V csr)))))"

text \<open>
  A connection is the sequence of what its reads give; after the last one it is closed.
\<close>

datatype readResult = ReadData string | ReadErr goerr

definition endOfData :: string where "endOfData = [CHR 0x0D, CHR 0x0A]"
definition respOk :: string where "respOk = ''Ok''"
definition respErr :: string where "respErr = ''Err''"

text \<open>The first element of \<open>strings.Split(s, sep)\<close>.\<close>

definition firstField :: "string \<Rightarrow> string \<Rightarrow> string" where
  "firstField s sep = (case Index s sep of None \<Rightarrow> s | Some i \<Rightarrow> take i s)"

fun readLoop :: "string \<Rightarrow> readResult list \<Rightarrow> string res" where
  "readLoop completeBytes [] = Err (Errorf ''failed to read data connection closed'' [])"
| "readLoop completeBytes (ReadErr e # rest) = Err (Wrapf e ''failed to read data on wire'' [])"
| "readLoop completeBytes (ReadData buf # rest) =
     (if length buf > 0
      then if HasSuffix (completeBytes @ buf) endOfData then Ok (firstField (completeBytes @ buf) endOfData)
           else readLoop (completeBytes @ buf) rest
      else readLoop completeBytes rest)"

definition Reader :: "readResult list \<Rightarrow> string res" where
  "Reader r = readLoop [] r"

text \<open>What is written back on the connection.\<close>

definition ServeRequest :: "'s venv \<Rightarrow> readResult list \<Rightarrow> ('s, string) act" where
  "ServeRequest V conn =
     bindS (attemptS (bindS (readS (\<lambda>_. Reader conn)) (\<lambda>readData.
       bindS (readS (\<lambda>_. unmarshalReplicationDetails V readData)) (\<lambda>replicationData.
       UpdateCVWithReplicationDetails (Some V) replicationData)))) (\<lambda>r.
     returnS ((case r of Ok _ \<Rightarrow> respOk | _ \<Rightarrow> respErr) @ endOfData))"

end
