(* ===== verification/VolumeManager.thy ===== *)
theory VolumeManager
  imports VolumeTargetConf
begin

text \<open>
  The controller in the target pod of a volume, \<open>pkg/controllers/volume-mgmt/handler.go\<close> and the event handlers
  of \<open>controller.go\<close>. The handlers change the object they are given: what the caller sees of it afterwards is part of
  the result.
\<close>

section \<open>Operations and phases\<close>

datatype CVQueueOperation = CVOpAdd | CVOpDestroy | CVOpModify | CVOpPeriodicSync

datatype CStorVolumeStatus =
  CVStatusInit | CVStatusHealthy | CVStatusDegraded | CVStatusOffline | CVStatusError | CVStatusInvalid | CVStatusIgnore

fun cvPhase :: "CStorVolumeStatus \<Rightarrow> string" where
  "cvPhase CVStatusInit = ''Init''"
| "cvPhase CVStatusHealthy = ''Healthy''"
| "cvPhase CVStatusDegraded = ''Degraded''"
| "cvPhase CVStatusOffline = ''Offline''"
| "cvPhase CVStatusError = ''Error''"
| "cvPhase CVStatusInvalid = ''Invalid''"
| "cvPhase CVStatusIgnore = ''Ignore''"

definition DefaultNameSpace :: string where "DefaultNameSpace = ''openebs''"

definition Getenv :: "'s env \<Rightarrow> string \<Rightarrow> string" where
  "Getenv E k = (case LookupEnv E k of None \<Rightarrow> '''' | Some v \<Rightarrow> v)"

definition IsValidCStorVolumeMgmt :: "'s venv \<Rightarrow> CStorVolume \<Rightarrow> bool" where
  "IsValidCStorVolumeMgmt V cv = (Getenv (vapi V) ''OPENEBS_IO_CSTOR_VOLUME_ID'' = UID cv)"

definition cv_IsDestroyEvent :: "CStorVolume \<Rightarrow> bool" where
  "cv_IsDestroyEvent cv = (DeletionTimestamp cv \<noteq> None)"

definition cvSpec where
  "cvSpec cv = (cv_Capacity cv, cv_TargetIP cv, cv_TargetPort cv, cv_Iqn cv, cv_TargetPortal cv, cv_ReplicationFactor cv,
     cv_DesiredReplicationFactor cv, cv_ConsistencyFactor cv, cv_KnownReplicas cv)"

definition cvStatus where
  "cvStatus cv = (cv_Phase cv, cv_ReplicaStatuses cv, cv_StatusCapacity cv, cv_LastUpdateTime cv, cv_LastTransitionTime cv,
     cv_Conditions cv, cv_StatusKnownReplicas cv)"

definition cv_IsOnlyStatusChange :: "CStorVolume \<Rightarrow> CStorVolume \<Rightarrow> bool" where
  "cv_IsOnlyStatusChange old new = (cvSpec old = cvSpec new \<and> cvStatus old \<noteq> cvStatus new)"

text \<open>The handlers of the informer: the operation queued for the volume, if any. The update handler also gets the resource versions.\<close>

definition cvAddFunc :: "'s venv \<Rightarrow> CStorVolume \<Rightarrow> CVQueueOperation option" where
  "cvAddFunc V obj = (if \<not> IsValidCStorVolumeMgmt V obj then None else Some CVOpAdd)"

definition cvUpdateFunc :: "'s venv \<Rightarrow> string \<times> CStorVolume \<Rightarrow> string \<times> CStorVolume \<Rightarrow> CVQueueOperation option" where
  "cvUpdateFunc V old new =
     (if \<not> IsValidCStorVolumeMgmt V (snd new) then None
      else if fst new = fst old then Some CVOpPeriodicSync
      else if cv_IsOnlyStatusChange (snd old) (snd new) then None
      else if cv_IsDestroyEvent (snd new) then Some CVOpDestroy
      else Some CVOpModify)"

section \<open>Events\<close>

definition getEventType :: "string \<Rightarrow> string" where
  "getEventType phase =
     (if phase = cvPhase CVStatusInit \<or> phase = cvPhase CVStatusHealthy \<or> phase = cvPhase CVStatusDegraded
      then ''Normal'' else ''Warning'')"

definition createEventObj :: "'s venv \<Rightarrow> CStorVolume \<Rightarrow> 's \<Rightarrow> CoreEvent" where
  "createEventObj V cv s =
     ObjectMeta.extend (emptyMeta\<lparr>Name := Name cv @ ''.'' @ cv_Phase cv, Namespace := Namespace cv\<rparr>)
       \<lparr>cev_InvolvedObject = (CStorVolumeKind V, CStorAPIVersion V, Name cv, Namespace cv, UID cv),
        cev_FirstTimestamp = now (vapi V) s, cev_LastTimestamp = now (vapi V) s, cev_Count = 1,
        cev_Message = ''Volume is in '' @ cv_Phase cv @ '' state'', cev_Reason = cv_Phase cv,
        cev_Type = getEventType (cv_Phase cv),
        cev_Source = (Getenv (vapi V) ''POD_NAME'', Getenv (vapi V) ''NODE_NAME'')\<rparr>"

definition createSyncUpdateEvent :: "'s venv \<Rightarrow> CoreEvent \<Rightarrow> ('s, unit) act" where
  "createSyncUpdateEvent V eventGot =
     bindS (attemptS (readS (\<lambda>s. event_get V s (Namespace eventGot) (Name eventGot)))) (\<lambda>r.
       case r of
         Panic m \<Rightarrow> panicS m
       | Err e \<Rightarrow>
           if \<not> Contains (errText V e) ''not found'' then failS e
           else (\<lambda>s. event_create V s (Namespace eventGot) eventGot)
       | Ok event \<Rightarrow>
           if length (Name event) = 0 then (\<lambda>s. event_create V s (Namespace eventGot) eventGot)
           else (\<lambda>s. event_update V s (Namespace eventGot)
                  (event\<lparr>cev_Count := cev_Count event + 1, cev_LastTimestamp := now (vapi V) s\<rparr>)))"

section \<open>Scaling\<close>

definition triggerScaleUpProcess :: "'s venv \<Rightarrow> CStorVolume \<Rightarrow> ('s, CStorVolume) act" where
  "triggerScaleUpProcess V cv =
     bindS (ExecuteDesiredReplicationFactorCommand V cv (GetScaleUpCommand V)) (\<lambda>_.
     bindS (wrapS (Updatefile V (typesIstgtConfPath V)
                     (DesiredReplicationFactorKey V @ '' '' @ FormatInt (cv_DesiredReplicationFactor cv)) (DesiredReplicationFactorKey V))
              ''failed to update conf file with desiredReplicationFactor %d'' [AI (cv_DesiredReplicationFactor cv)]) (\<lambda>_.
     returnS cv))"

definition triggerScaleDownProcess :: "'s venv \<Rightarrow> CStorVolume \<Rightarrow> ('s, CStorVolume) act" where
  "triggerScaleDownProcess V cv =
     bindS (GetVolumeStatus V) (\<lambda>volumeStatus.
     if cvs_Status volumeStatus \<noteq> cvPhase CVStatusHealthy
     then failS (Errorf ''cStorvolume is not in healthy to trigger scaledown'' [])
     else if \<not> AreSpecReplicasHealthy V cv volumeStatus then failS (Errorf ''spec replicas are not in healthy state'' [])
     else
       let replicaID = GetRemovingReplicaID V cv in
       if replicaID = '''' then failS (Errorf ''removing replica is not present in volume status'' [])
       else
         bindS (if cv_DesiredReplicationFactor cv < cv_ReplicationFactor cv
                then
                  let configData = BuildScaleDownConfigData V cv replicaID;
                      lowered = cv\<lparr>cv_ReplicationFactor := cv_DesiredReplicationFactor cv,
                                   cv_ConsistencyFactor := cv_DesiredReplicationFactor cv sdiv 2 + 1\<rparr>
                  in bindS (wrapS (UpdateOrAppendMultipleLines V (typesIstgtConfPath V) configData)
                              ''failed to update istgt conf file %v'' [AM configData]) (\<lambda>_.
                     wrapS (\<lambda>s. vcv_update V s (Namespace cv) lowered) ''failed to update cstorvolume'' [])
                else returnS cv) (\<lambda>cv.
         bindS (ExecuteDesiredReplicationFactorCommand V cv (GetScaleDownCommand V)) (\<lambda>_.
         wrapS (\<lambda>s. vcv_update V s (Namespace cv) (cv\<lparr>cv_StatusKnownReplicas := cv_KnownReplicas cv\<rparr>))
           ''failed to update cstorvolume status with scaledown replica information'' [])))"

text \<open>The result is assigned to the local pointer only, so the caller keeps the object it had.\<close>

definition updateCStorVolumeDRF :: "'s venv \<Rightarrow> CStorVolume \<Rightarrow> ('s, unit) act" where
  "updateCStorVolumeDRF V cv =
     (let specCount = length (cv_KnownReplicas cv); statusCount = length (cv_StatusKnownReplicas cv) in
      ignoreS
        (if specCount < statusCount then triggerScaleDownProcess V cv
         else if specCount = statusCount then triggerScaleUpProcess V cv
         else failS (Errorf ''unkown changes are made to cStorVolume no.of entries in spec.ReplicaDetails.knownReplicas are %d and no.of entries in status.ReplicaDetails.KnownReplicas are %d''
                       [AI (int specCount), AI (int statusCount)])))"

section \<open>Resizing\<close>

text \<open>The conditions are added to the given object whether the write succeeds or not.\<close>

definition withResizeCondition :: "'s venv \<Rightarrow> CStorVolume \<Rightarrow> 's \<Rightarrow> CStorVolume" where
  "withResizeCondition V cv s = cv\<lparr>cv_Conditions := AddCondition V (cv_Conditions cv) (GetResizeCondition V s)\<rparr>"

definition addResizeConditions :: "'s venv \<Rightarrow> CStorVolume \<Rightarrow> ('s, CStorVolume) act" where
  "addResizeConditions V cv s =
     (case vcv_update V s (Namespace cv) (withResizeCondition V cv s) of
        (r, s') \<Rightarrow> (quoteR r ''failed to update resize conditions error %v'' [], s'))"

definition resizeCStorVolume :: "'s venv \<Rightarrow> CStorVolume \<Rightarrow> ('s, CStorVolume) act" where
  "resizeCStorVolume V cv =
     bindS (readS (\<lambda>s. Ok (GetCVCondition V cv (CStorVolumeResizing V) s))) (\<lambda>conditionStatus.
     bindS (attemptS (ResizeTargetVolume V cv)) (\<lambda>r.
       case r of
         Panic m \<Rightarrow> panicS m
       | Err e \<Rightarrow>
           let message = ''failed to resize cstorvolume from '' @ quantityStr V (cv_StatusCapacity cv) @ '' to '' @
                 quantityStr V (cv_Capacity cv) @ '' error '' @ errText V e
           in (\<lambda>s. vcv_update V s (Namespace cv)
                (cv\<lparr>cv_Conditions := UpdateCondition V (cv_Conditions cv) (conditionStatus\<lparr>cond_Message := message\<rparr>)\<rparr>))
       | Ok _ \<Rightarrow>
           (\<lambda>s. vcv_update V s (Namespace cv)
                (cv\<lparr>cv_Conditions := DeleteCondition V (cv_Conditions cv) conditionStatus, cv_StatusCapacity := cv_Capacity cv\<rparr>))))"

section \<open>Versions\<close>

definition cv_reconcileVersion :: "'s venv \<Rightarrow> CStorVolume \<Rightarrow> ('s, goerr option \<times> CStorVolume) act" where
  "cv_reconcileVersion V cv =
     (let E = vapi V; v = cv_Version cv; base = baseVersion (binaryVersion E) in
      if vd_Current v = vd_Desired v then returnS (None, cv)
      else
        bindS (readS (\<lambda>_. IsCurrentVersionValid base (vd_Current v))) (\<lambda>currentValid.
          if \<not> currentValid then returnS (Some (Errorf ''invalid current version %s'' [AS (vd_Current v)]), cv)
          else if \<not> IsDesiredVersionValid base (vd_Desired v)
          then returnS (Some (Errorf ''invalid desired version %s'' [AS (vd_Desired v)]), cv)
          else
            bindS (if vd_State v \<noteq> ReconcileInProgress E
                   then attemptS (\<lambda>s. vcv_update V s (Namespace cv) (cv\<lparr>cv_Version := setInProgressStatus E v\<rparr>))
                   else returnS (Ok cv)) (\<lambda>r.
              case r of
                Panic m \<Rightarrow> panicS m
              | Err e \<Rightarrow> returnS (Some e, cv)
              | Ok cvObject \<Rightarrow>
                  bindS (attemptS (\<lambda>s. vcv_update V s (Namespace cvObject)
                           (cvObject\<lparr>cv_Version := setSuccessStatus E (cv_Version cvObject)\<rparr>))) (\<lambda>r.
                    case r of
                      Panic m \<Rightarrow> panicS m
                    | Err e \<Rightarrow> returnS (Some e, cvObject)
                    | Ok obj \<Rightarrow> returnS (None, obj)))))"

section \<open>Handling an operation\<close>

definition getVolumeResource :: "'s venv \<Rightarrow> string \<Rightarrow> 's \<Rightarrow> CStorVolume res" where
  "getVolumeResource V key s =
     bindR (SplitMetaNamespaceKey (vapi V) key) (\<lambda>(namespace, name).
     vcv_get V s (if length namespace = 0 then DefaultNameSpace else namespace) name)"

text \<open>The object as the caller sees it after the call, the status, and the error.\<close>

type_synonym handled = "CStorVolume \<times> CStorVolumeStatus \<times> goerr option"

definition handleAdd :: "'s venv \<Rightarrow> CStorVolume \<Rightarrow> ('s, handled) act" where
  "handleAdd V cv =
     (case CheckValidVolume cv of
        Panic m \<Rightarrow> panicS m
      | Err e \<Rightarrow> returnS (cv, CVStatusInvalid, Some e)
      | Ok _ \<Rightarrow>
          bindS (\<lambda>s. (Ok (), setTargetNamespace V (Namespace cv) s)) (\<lambda>_.
          bindS (attemptS (CreateVolumeTarget V (Some cv))) (\<lambda>r.
            case r of
              Panic m \<Rightarrow> panicS m
            | Err e \<Rightarrow> returnS (cv, CVStatusError, Some e)
            | Ok _ \<Rightarrow>
                returnS (if \<not> IsResizePending V cv then cv\<lparr>cv_StatusCapacity := cv_Capacity cv\<rparr> else cv, CVStatusInit, None))))"

definition handleModify :: "'s venv \<Rightarrow> CStorVolume \<Rightarrow> ('s, handled) act" where
  "handleModify V cv =
     (case CheckValidVolume cv of
        Panic m \<Rightarrow> panicS m
      | Err e \<Rightarrow> returnS (cv, CVStatusInvalid, Some e)
      | Ok _ \<Rightarrow>
          bindS (whenS (IsDRFPending V cv) (updateCStorVolumeDRF V cv)) (\<lambda>_.
          if IsResizePending V cv
          then
            bindS (if \<not> IsConditionPresent V cv (CStorVolumeResizing V) then attemptS (addResizeConditions V cv)
                   else returnS (Ok cv)) (\<lambda>r.
              case r of
                Panic m \<Rightarrow> panicS m
              | Err e \<Rightarrow> returnS (cv, CVStatusIgnore, None)
              | Ok updatedCV \<Rightarrow>
                  bindS (ignoreS (resizeCStorVolume V updatedCV)) (\<lambda>_. returnS (cv, CVStatusIgnore, None)))
          else returnS (cv, CVStatusIgnore, None)))"

text \<open>
  The resize step of a periodic synchronisation: the object the caller holds, and the one the rest of the handler works on.
\<close>

definition syncResize :: "'s venv \<Rightarrow> CStorVolume \<Rightarrow> ('s, CStorVolume \<times> CStorVolume) act" where
  "syncResize V cv =
     (if \<not> IsResizePending V cv then returnS (cv, cv)
      else
        bindS (if \<not> IsConditionPresent V cv (CStorVolumeResizing V)
               then bindS (readS (\<lambda>s. Ok (withResizeCondition V cv s))) (\<lambda>changed.
                    bindS (attemptS (addResizeConditions V cv)) (\<lambda>r. returnS (changed, r)))
               else returnS (cv, Ok cv)) (\<lambda>(held, r).
          case r of
            Panic m \<Rightarrow> panicS m
          | Err e \<Rightarrow> returnS (held, held)
          | Ok current \<Rightarrow>
              bindS (attemptS (resizeCStorVolume V current)) (\<lambda>r.
                case r of
                  Panic m \<Rightarrow> panicS m
                | Err e \<Rightarrow> returnS (held, current)
                | Ok updatedCV \<Rightarrow> returnS (held, updatedCV))))"

definition syncedVolume :: "'s venv \<Rightarrow> string \<Rightarrow> CVStatus \<Rightarrow> CStorVolume \<Rightarrow> 's \<Rightarrow> CStorVolume" where
  "syncedVolume V lastKnownPhase volStatus cv s =
     (let phase = (if length (cvs_ReplicaStatuses volStatus) = 0 then cvPhase CVStatusInit else cvs_Status volStatus)
      in cv\<lparr>cv_Phase := phase, cv_LastUpdateTime := now (vapi V) s,
            cv_LastTransitionTime := (if phase \<noteq> lastKnownPhase then now (vapi V) s else cv_LastTransitionTime cv),
            cv_ReplicaStatuses := cvs_ReplicaStatuses volStatus\<rparr>)"

definition handlePeriodicSync :: "'s venv \<Rightarrow> CStorVolume \<Rightarrow> ('s, handled) act" where
  "handlePeriodicSync V cv =
     (let lastKnownPhase = cv_Phase cv in
      bindS (whenS (IsDRFPending V cv) (updateCStorVolumeDRF V cv)) (\<lambda>_.
      bindS (syncResize V cv) (\<lambda>(held, current).
      bindS (attemptS (GetVolumeStatus V)) (\<lambda>r.
        case r of
          Panic m \<Rightarrow> panicS m
        | Err e \<Rightarrow> returnS (held, CVStatusError, None)
        | Ok volStatus \<Rightarrow>
            bindS (attemptS (\<lambda>s. vcv_update V s (Namespace current) (syncedVolume V lastKnownPhase volStatus current s))) (\<lambda>r.
              case r of
                Panic m \<Rightarrow> panicS m
              | Err e \<Rightarrow> returnS (held, CVStatusIgnore, None)
              | Ok updatedCV \<Rightarrow>
                  bindS (whenS (lastKnownPhase \<noteq> cv_Phase updatedCV)
                           (ignoreS (\<lambda>s. createSyncUpdateEvent V (createEventObj V updatedCV s) s))) (\<lambda>_.
                  returnS (held, CVStatusIgnore, None)))))))"

definition cStorVolumeEventHandler :: "'s venv \<Rightarrow> CVQueueOperation \<Rightarrow> CStorVolume \<Rightarrow> ('s, handled) act" where
  "cStorVolumeEventHandler V operation cv =
     (case operation of
        CVOpAdd \<Rightarrow> handleAdd V cv
      | CVOpModify \<Rightarrow> handleModify V cv
      | CVOpPeriodicSync \<Rightarrow> handlePeriodicSync V cv
      | CVOpDestroy \<Rightarrow> returnS (cv, CVStatusIgnore, None))"

definition cv_syncHandler :: "'s venv \<Rightarrow> string \<Rightarrow> CVQueueOperation \<Rightarrow> ('s, unit) act" where
  "cv_syncHandler V key operation =
     bindS (readS (getVolumeResource V key)) (\<lambda>cv.
     bindS (cv_reconcileVersion V cv) (\<lambda>(err, cv).
       case err of
         Some e \<Rightarrow>
           ignoreS (\<lambda>s. vcv_update V s (Namespace cv)
             (cv\<lparr>cv_Version := setErrorStatus (vapi V) ''Failed to reconcile cv version'' e (cv_Version cv)\<rparr>))
       | None \<Rightarrow>
           bindS (cStorVolumeEventHandler V operation cv) (\<lambda>(cv, status, err).
             if status = CVStatusIgnore then returnS ()
             else
               bindS (readS (\<lambda>s. Ok (now (vapi V) s))) (\<lambda>t.
               let cv = cv\<lparr>cv_LastUpdateTime := t,
                           cv_LastTransitionTime := (if cv_Phase cv \<noteq> cvPhase status then t else cv_LastTransitionTime cv),
                           cv_Phase := cvPhase status\<rparr>
               in case err of
                    Some e \<Rightarrow>
                      bindS (wrapS (\<lambda>s. vcv_update V s (Namespace cv) cv) ''failed to update cStorVolume:%v, %v; Status: %v err: %v''
                               [AS (Name cv), AS (UID cv), AS (cv_Phase cv), AE e]) (\<lambda>_. failS e)
                  | None \<Rightarrow>
                      bindS (wrapS (\<lambda>s. vcv_update V s (Namespace cv) cv) ''failed to update cStorVolume:%v, %v; Status: %v''
                               [AS (Name cv), AS (UID cv), AS (cv_Phase cv)]) (\<lambda>_. returnS ())))))"

text \<open>At shutdown: the first volume of this target is written as offline, unless it has no phase.\<close>

definition markCVStatusToOffline :: "'s venv \<Rightarrow> ('s, unit) act" where
  "markCVStatusToOffline V =
     bindS (attemptS (readS (\<lambda>s. vcv_list V s (Getenv (vapi V) ''OPENEBS_NAMESPACE'')))) (\<lambda>r.
       case r of
         Panic m \<Rightarrow> panicS m
       | Err e \<Rightarrow> returnS ()
       | Ok cvs \<Rightarrow>
           (case find (IsValidCStorVolumeMgmt V) cvs of
              None \<Rightarrow> returnS ()
            | Some cv \<Rightarrow>
                if cv_Phase cv = '''' then returnS ()
                else ignoreS (\<lambda>s. vcv_update V s (Namespace cv) (cv\<lparr>cv_Phase := apisCVStatusOffline V, cv_ReplicaStatuses := []\<rparr>))))"

end
