(* ===== verification/SampleTarget.thy ===== *)
theory SampleTarget
  imports VolumeManager SampleVolume
begin

text \<open>
  A concrete target pod for the witnesses on the volume manager: the volumes are those of the sample server, istgt
  accepts every command and reports a healthy volume, and the commands are logged. It models no code of the repository.
\<close>

definition sampleSend :: "string \<Rightarrow> store \<Rightarrow> string list res \<times> store" where
  "sampleSend cmd s = (Ok [''REPLICA'', ''{v}''], s\<lparr>st_commands := st_commands s @ [cmd]\<rparr>)"

definition sampleVenv :: "store venv" where
  "sampleVenv =
    \<lparr>vapi = sampleEnv,
     vcv_get = (\<lambda>s ns n. lookupObj Name n (st_cvs s)),
     vcv_list = (\<lambda>s ns. Ok (st_cvs s)),
     vcv_update = (\<lambda>s ns x. storeWith (\<lambda>xs s. s\<lparr>st_cvs := xs\<rparr>) (replaceObj Name x (st_cvs s)) x s),
     event_get = (\<lambda>s ns n. Err (NotFound n)),
     event_create = (\<lambda>s ns x. (Ok (), s)),
     event_update = (\<lambda>s ns x. (Ok (), s)),
     SendCommand = sampleSend,
     WriteFile = (\<lambda>f d s. (Ok (), s\<lparr>st_commands := st_commands s @ [''write '' @ f]\<rparr>)),
     Updatefile = (\<lambda>f d k s. (Ok (), s\<lparr>st_commands := st_commands s @ [''set '' @ d]\<rparr>)),
     UpdateOrAppendMultipleLines = (\<lambda>f m s. (Ok (), s\<lparr>st_commands := st_commands s @ map (\<lambda>(k, v). ''set '' @ v) m\<rparr>)),
     setTargetNamespace = (\<lambda>ns s. s),
     unmarshalCVStatuses = (\<lambda>j. Ok [\<lparr>cvs_Name = ''pvc-1'', cvs_Status = ''Healthy'', cvs_ReplicaStatuses = [\<lparr>rs_ID = ''1'', rs_Mode = ''Healthy''\<rparr>]\<rparr>]),
     unmarshalReplicationDetails = (\<lambda>j.
        (case Split (CHR '' '') j of
           [v, rf, cf, i, g] \<Rightarrow> Ok \<lparr>csr_VolumeName = v, csr_ReplicationFactor = Atoi rf, csr_ConsistencyFactor = Atoi cf,
                                  csr_ReplicaID = i, csr_ReplicaGUID = g\<rparr>
         | _ \<Rightarrow> Err (ApiError j))),
     quantityStr = (\<lambda>q. showNat (nat q)),
     errText = (\<lambda>e. case e of NotFound n \<Rightarrow> n @ '' not found'' | _ \<Rightarrow> ''error''),
     IsDRFPending = (\<lambda>cv. cv_DesiredReplicationFactor cv \<noteq> cv_ReplicationFactor cv),
     IsResizePending = (\<lambda>cv. cv_Capacity cv > cv_StatusCapacity cv),
     IsConditionPresent = (\<lambda>cv t. List.member (map cond_Type (cv_Conditions cv)) t),
     GetCVCondition = (\<lambda>cv t s. \<lparr>cond_Type = t, cond_Status = '''', cond_LastUpdateTime = 0, cond_LastTransitionTime = 0,
        cond_Reason = '''', cond_Message = ''''\<rparr>),
     GetResizeCondition = (\<lambda>s. \<lparr>cond_Type = ''Resizing'', cond_Status = '''', cond_LastUpdateTime = 0, cond_LastTransitionTime = 0,
        cond_Reason = '''', cond_Message = ''''\<rparr>),
     AddCondition = (\<lambda>cs c. cs @ [c]),
     UpdateCondition = (\<lambda>cs c. map (\<lambda>d. if cond_Type d = cond_Type c then c else d) cs),
     DeleteCondition = (\<lambda>cs c. filter (\<lambda>d. cond_Type d \<noteq> cond_Type c) cs),
     AreSpecReplicasHealthy = (\<lambda>cv st. True),
     GetRemovingReplicaID = (\<lambda>cv. case filter (\<lambda>(k, v). \<not> mhas (cv_KnownReplicas cv) k) (cv_StatusKnownReplicas cv) of
        [] \<Rightarrow> '''' | (k, v) # _ \<Rightarrow> k),
     BuildScaleDownConfigData = (\<lambda>cv i. [(''  Replica '' @ i, '''')]),
     IstgtConfPath = ''istgt.conf'',
     typesIstgtConfPath = ''istgt.conf'',
     IstgtRefreshCmd = ''REFRESH'',
     IstgtReplicaCmd = ''REPLICA'',
     IstgtResizeCmd = ''RESIZE'',
     IstgtDRFCmd = ''DRF'',
     IoWaitTime = ''10'',
     TotalWaitTime = ''60'',
     DesiredReplicationFactorKey = ''  DesiredReplicationFactor'',
     CStorVolumeResizing = ''Resizing'',
     CStorVolumeKind = ''CStorVolume'',
     CStorAPIVersion = ''cstor.openebs.io/v1'',
     apisCVStatusOffline = ''Offline'',
     utilNamespace = ''openebs''\<rparr>"

text \<open>The stored volumes are bounded in the sense of the invariant on known replicas when each is.\<close>

definition storedVolumes :: "(CStorVolume \<Rightarrow> bool) \<Rightarrow> store \<Rightarrow> bool" where
  "storedVolumes B s = list_all B (st_cvs s)"

lemma storedVolumes_log [simp]: "storedVolumes B (s\<lparr>st_commands := c\<rparr>) = storedVolumes B s"
  by (simp add: storedVolumes_def)

lemma storedVolumes_update:
  "storedVolumes B s \<Longrightarrow> B cv \<Longrightarrow> vcv_update sampleVenv s ns cv = (r, s') \<Longrightarrow> storedVolumes B s' \<and> (\<forall>x. r = Ok x \<longrightarrow> B x)"
  by (auto simp: sampleVenv_def storeWith_def replaceObj_def storedVolumes_def list_all_iff split: if_splits)

end
