(* ===== verification/VolumeScaling.thy ===== *)
theory VolumeScaling
  imports SampleVolume "HOL-Library.Multiset"
begin

text \<open>
  Where the replicas of a new volume are placed, how a volume is scaled after an update that the webhook
  admits, and how resizing changes the conditions and the capacity.
\<close>

section \<open>Placement\<close>

text \<open>The pools on which a replica of the volume may be placed, given the replicas listed for it and for its source.\<close>

definition placeable ::
    "'s cenv \<Rightarrow> CStorPoolInstance list \<Rightarrow> CStorVolumeReplica list \<Rightarrow> CStorVolumeReplica list option \<Rightarrow> CStorPoolInstance \<Rightarrow> bool" where
  "placeable C listed own source cspi \<longleftrightarrow>
     cspi \<in> set listed \<and> Name cspi \<notin> set (getPoolMapFromCVRList C own) \<and>
     (case source of None \<Rightarrow> True | Some cvrs \<Rightarrow> Name cspi \<in> set (getPoolMapFromCVRList C cvrs)) \<and>
     cspi_Phase (cspi_Status cspi) \<noteq> CStorPoolStatusOffline (pool (rep C)) \<and> \<not> cspi_ReadOnly (cspi_Status cspi)"

lemma set_getPolicyBasedPoolList: "set (getPolicyBasedPoolList listed info) \<subseteq> set listed"
  by (auto simp: getPolicyBasedPoolList_def dest: find_mem dest!: sym [of "Some x" for x] split: option.splits)

lemma getPolicyBasedPoolList_distinct:
  assumes "distinct info"
  shows "distinct (map Name (getPolicyBasedPoolList listed info))"
proof -
  have "map Name (getPolicyBasedPoolList listed info) = filter (\<lambda>i. \<exists>p \<in> set listed. Name p = i) info"
    by (induction info) (auto simp: getPolicyBasedPoolList_def find_None_iff find_Some_iff split: option.splits)
  with assms show ?thesis by simp
qed

lemma elemAt_perm:
  assumes "distinct js" and "set js = {..<length xs}"
  shows "\<exists>ys. collect (elemAt xs) js = Ok ys \<and> mset ys = mset xs"
proof -
  have "collect (elemAt xs) js = Ok (map ((!) xs) js)" if "set js \<subseteq> {..<length xs}" for js
    using that by (induction js) (simp_all add: elemAt_def)
  moreover have "mset (map ((!) xs) js) = mset xs"
  proof -
    have "mset js = mset [0..<length xs]" 
      using assms set_eq_iff_mset_eq_distinct [of js "[0..<length xs]"] by (simp add: atLeast0LessThan)
    then have "mset (map ((!) xs) js) = mset (map ((!) xs) [0..<length xs])" by (simp only: mset_map)
    then show ?thesis by (simp only: map_nth)
  qed
  ultimately show ?thesis using assms(2) by simp
qed

lemma prioritizedPoolList_mset: "mset (prioritizedPoolList n ps) = mset ps"
proof (cases "find (\<lambda>i. HostName (cspi_Spec (ps ! i)) = n) [0..<length ps]")
  case (Some i)
  then have "i < length ps" by (auto dest: find_mem)
  with Some show ?thesis by (auto simp: prioritizedPoolList_def intro!: mset_swap)
qed (simp add: prioritizedPoolList_def)

lemma createCVRsLoop_take:
  assumes "0 \<le> k"
  shows "createCVRsLoop C sv v c ri pending k ps =
     createCVRsLoop C sv v c ri pending k (take (nat (pending - k)) ps)"
  using assms
proof (induction ps arbitrary: k)
  case (Cons p ps)
  have "nat (pending - k) = Suc (nat (pending - (k + 1)))" if "k < pending" using that by simp
  with Cons show ?case by (cases "k < pending") simp_all
qed simp

text \<open>The creation of one replica of a new volume.\<close>

definition newReplica ::
    "'s cenv \<Rightarrow> Service \<Rightarrow> CStorVolume \<Rightarrow> CStorVolumeConfig \<Rightarrow> replicaInfo \<Rightarrow> CStorPoolInstance \<Rightarrow> ('s, unit) act" where
  "newReplica C service volume claim rInfo cspi = bindS (createCVR C service volume claim cspi rInfo) (\<lambda>_. returnS ())"

lemma createCVRsLoop_all:
  "int (length ps) \<le> pending - k \<Longrightarrow> createCVRsLoop C sv v c ri pending k ps = checkAllS (newReplica C sv v c ri) ps"
proof (induction ps arbitrary: k)
  case Nil
  show ?case by (rule ext) simp
next
  case (Cons p ps)
  then have "createCVRsLoop C sv v c ri pending (k + 1) ps = checkAllS (newReplica C sv v c ri) ps" by simp
  with Cons.prems show ?case by (intro ext) (simp add: newReplica_def [of C sv v c ri p] bindS_def split: res.splits prod.splits)
qed

text \<open>The pools that the policy of the volume names, or all the pools of the cluster.\<close>

definition chosenPools :: "CStorPoolInstance list \<Rightarrow> CStorVolumePolicySpec \<Rightarrow> CStorPoolInstance list" where
  "chosenPools listed policy =
     (if pol_ReplicaPoolInfo policy = [] then listed else getPolicyBasedPoolList listed (pol_ReplicaPoolInfo policy))"

lemma chosenPools_facts:
  assumes "distinct (map Name listed)" and "distinct (pol_ReplicaPoolInfo policy)"
  shows "set (chosenPools listed policy) \<subseteq> set listed" and "distinct (map Name (chosenPools listed policy))"
  using assms set_getPolicyBasedPoolList [of listed "pol_ReplicaPoolInfo policy"] getPolicyBasedPoolList_distinct
  by (auto simp: chosenPools_def)

text \<open>The source of a clone and the replicas of it, as the API server lists them.\<close>

definition sourceReplicas :: "'s cenv \<Rightarrow> CStorVolumeConfig \<Rightarrow> 's \<Rightarrow> CStorVolumeReplica list option \<Rightarrow> bool" where
  "sourceReplicas C claim s source \<longleftrightarrow>
     (if cvc_VolumeSource claim = '''' then source = None
      else \<exists>v snap cvrs. getSrcDetails (cvc_VolumeSource claim) = Ok (v, snap) \<and>
             cvr_list (capi C) s (openebsNamespace C) (pvSelector @ ''='' @ v) = Ok cvrs \<and> source = Some cvrs)"

lemma candidatePools_sanitized:
  assumes "cvr_list (capi C) s (openebsNamespace C) (pvSelector @ ''='' @ Name volume) = Ok own"
    and "sourceReplicas C claim s source" and "set ps \<subseteq> set listed"
  shows "\<exists>q. candidatePools C claim volume ps s = Ok q \<and>
     sanitizePoolList C q = Ok (filter (placeable C listed own source) ps)"
proof (cases "cvc_VolumeSource claim = ''''")
  case True
  with assms show ?thesis
    by (auto simp: candidatePools_def sourceReplicas_def getUsablePoolList_def sanitizePoolList_def placeable_def
        intro!: filter_cong)
next
  case False
  with assms(2) obtain v snap cvrs where
    "getSrcDetails (cvc_VolumeSource claim) = Ok (v, snap)"
    "cvr_list (capi C) s (openebsNamespace C) (pvSelector @ ''='' @ v) = Ok cvrs" "source = Some cvrs"
    by (auto simp: sourceReplicas_def)
  with False assms(1, 3) show ?thesis
    by (auto simp: candidatePools_def getUsablePoolListForClone_def sanitizePoolList_def placeable_def intro!: filter_cong)
qed

definition newVolumeReplica :: "'s cenv \<Rightarrow> CStorVolumePolicySpec \<Rightarrow> replicaInfo" where
  "newVolumeReplica C policy =
     \<lparr>ri_replicaID = '''', ri_phase = CVRStatusEmpty (rep C), ri_ioWorkers = pol_ReplicaIOWorkers policy\<rparr>"

lemma randomized_usable:
  assumes "\<And>n. distinct (randPerm C s n) \<and> set (randPerm C s n) = {..<n}"
  shows "\<exists>ps. randomizePoolList C qs s = Ok ps \<and>
     mset (if isReplicaAffinityEnabled policy then prioritizedPoolList node ps else ps) = mset qs"
proof -
  obtain ps where "randomizePoolList C qs s = Ok ps" "mset ps = mset qs"
    using elemAt_perm [of "randPerm C s (length qs)" qs] assms by (auto simp: randomizePoolList_def)
  then show ?thesis by (simp add: prioritizedPoolList_mset)
qed

lemma distributeCVRs_cases:
  assumes perm: "\<And>n. distinct (randPerm C s n) \<and> set (randPerm C s n) = {..<n}"
    and listed: "listCStorPools C (getCSPC claim) s = Ok listed"
    and own: "cvr_list (capi C) s (openebsNamespace C) (pvSelector @ ''='' @ Name volume) = Ok own"
    and source: "sourceReplicas C claim s source"
    and info: "pol_ReplicaPoolInfo policy = [] \<or> int (length (pol_ReplicaPoolInfo policy)) = cvc_ReplicaCount claim"
    and subset: "set (chosenPools listed policy) \<subseteq> set listed"
  shows "\<exists>usable. mset usable = mset (filter (placeable C listed own source) (chosenPools listed policy)) \<and>
     distributeCVRs C pending claim service volume policy s =
       (if int (length usable) < pending
        then (Err (Errorf ''not enough pools are available of provided CSPC: %q, usable pool count: %d pending replica count: %d''
                 [AS (getCSPC claim), AI (int (length usable)), AI pending]), s)
        else createCVRsLoop C service volume claim (newVolumeReplica C policy) pending 0 usable s)"
proof -
  obtain q where q: "candidatePools C claim volume (chosenPools listed policy) s = Ok q"
    "sanitizePoolList C q = Ok (filter (placeable C listed own source) (chosenPools listed policy))"
    using candidatePools_sanitized [OF own source subset] by blast
  obtain ps where ps: "randomizePoolList C (filter (placeable C listed own source) (chosenPools listed policy)) s = Ok ps"
    "mset (if isReplicaAffinityEnabled policy then prioritizedPoolList (cvc_NodeID claim) ps else ps) =
       mset (filter (placeable C listed own source) (chosenPools listed policy))"
    using randomized_usable [OF perm] by blast
  have cspc: "length (getCSPC claim) \<noteq> 0" using listed by (auto simp: listCStorPools_def)
  show ?thesis
    using cspc listed info q ps(1)
    by (intro exI [of _ "if isReplicaAffinityEnabled policy then prioritizedPoolList (cvc_NodeID claim) ps else ps"] conjI ps(2))
      (auto simp: distributeCVRs_def Let_def bindS_def readS_def chosenPools_def newVolumeReplica_def failS_def)
qed


lemma sampleCenv_perm: "distinct (randPerm sampleCenv s n) \<and> set (randPerm sampleCenv s n) = {..<n}"
  by (auto simp: sampleCenv_def)


section \<open>Scaling after an admitted update\<close>

lemma sub_lists:
  assumes "distinct xs" "distinct ys" "filter (\<lambda>x. x \<notin> set ys) xs = []"
  shows "length (filter (\<lambda>y. y \<notin> set xs) ys) = length ys - length xs"
proof -
  have sub: "set xs \<subseteq> set ys" using assms(3) by (auto simp: filter_empty_conv)
  have "length (filter (\<lambda>y. y \<notin> set xs) ys) = card (set ys - set xs)"
    using assms(2) by (metis distinct_card distinct_filter set_diff_eq set_filter)
  also have "\<dots> = length ys - length xs"
    using assms(1, 2) sub by (simp add: card_Diff_subset distinct_card)
  finally show ?thesis .
qed

lemma one_removed:
  assumes "distinct xs" "distinct ys" "length ys < length xs" "length (filter (\<lambda>x. x \<notin> set ys) xs) \<le> 1"
  shows "\<exists>x. filter (\<lambda>x. x \<notin> set ys) xs = [x] \<and> set ys = set xs - {x}"
proof -
  have gone: "length (filter (\<lambda>x. x \<notin> set ys) xs) = card (set xs - set ys)"
    using assms(1) by (metis distinct_card distinct_filter set_diff_eq set_filter)
  have lens: "card (set xs) = length xs" "card (set ys) = length ys" using assms(1, 2) by (simp_all add: distinct_card)
  have "set xs - set ys \<noteq> {}" using assms(3) lens card_mono [of "set ys" "set xs"] by auto
  then have "card (set xs - set ys) = 1" using gone assms(4) card_gt_0_iff [of "set xs - set ys"] by simp
  with gone obtain x where x: "filter (\<lambda>x. x \<notin> set ys) xs = [x]" by (metis One_nat_def length_0_conv length_Suc_conv)
  then have diff: "set xs - set ys = {x}" by (metis list.set(1) list.simps(15) set_diff_eq set_filter)
  have "card (set xs) = card (set xs - set ys) + card (set xs \<inter> set ys)"
    using card_Int_Diff [of "set xs" "set ys"] by simp
  then have "card (set ys) \<le> card (set xs \<inter> set ys)" using assms(3) lens diff by simp
  then have "set xs \<inter> set ys = set ys" by (intro card_seteq) auto
  with diff x show ?thesis by blast
qed

text \<open>
  C13. After an update that the webhook admits, the controller scales by what the update adds or removes: no pool goes when
  pools are added, exactly one pool goes when the volume shrinks, and its replica is looked up without a panic; with
  the same number of pools nothing is to be scaled.
\<close>

theorem admitted_update_scales:
  assumes diff: "\<And>xs ys. ListDiff (capi C) xs ys = filter (\<lambda>x. x \<notin> set ys) xs"
    and change: "\<And>xs ys. IsChangeInLists C xs ys \<longleftrightarrow> set xs \<noteq> set ys"
    and wanted: "GetDesiredReplicaPoolNames (capi C) new = cvc_ReplicaPoolInfo new"
    and admitted: "cvcUpdateAdmissible (capi C) old new" and status: "cvc_PoolInfo new = cvc_PoolInfo old"
  shows "(length (cvc_PoolInfo new) < length (cvc_ReplicaPoolInfo new) \<longrightarrow>
            set (cvc_PoolInfo new) \<subset> set (cvc_ReplicaPoolInfo new) \<and>
            length (ListDiff (capi C) (GetDesiredReplicaPoolNames (capi C) new) (cvc_PoolInfo new)) =
              length (cvc_ReplicaPoolInfo new) - length (cvc_PoolInfo new)) \<and>
         (length (cvc_ReplicaPoolInfo new) < length (cvc_PoolInfo new) \<longrightarrow>
            (\<exists>p. set (cvc_ReplicaPoolInfo new) = set (cvc_PoolInfo new) - {p} \<and> p \<in> set (cvc_PoolInfo new) \<and>
               (\<forall>s. getScaleDownCVR C new s =
                  cvr_get (rep C) s (openebsNamespace C) (mget (Annotations new) volumeID @ ''-'' @ p)))) \<and>
         (length (cvc_ReplicaPoolInfo new) = length (cvc_PoolInfo new) \<longrightarrow> \<not> isCVCScalePending C new)"
proof -
  let ?now = "cvc_PoolInfo new" and ?want = "cvc_ReplicaPoolInfo new"
  have d: "distinct ?now" "distinct ?want" using admitted wanted status by (simp_all add: cvcUpdateAdmissible_def Let_def)
  have gone: "length (filter (\<lambda>p. p \<notin> set ?want) ?now) \<le> (if length ?want < length ?now then 1 else 0)"
    using admitted wanted status by (simp add: cvcUpdateAdmissible_def Let_def)
  have keep: "set ?now \<subseteq> set ?want" if "\<not> length ?want < length ?now"
    using gone that by (auto simp: filter_empty_conv)
  have up: "set ?now \<subset> set ?want \<and> length (filter (\<lambda>p. p \<notin> set ?now) ?want) = length ?want - length ?now"
    if less: "length ?now < length ?want"
  proof -
    have "set ?now \<noteq> set ?want" using less d by (metis distinct_card nat_neq_iff)
    with keep less sub_lists [OF d] show ?thesis by (auto simp: filter_empty_conv)
  qed
  have down: "\<exists>p. set ?want = set ?now - {p} \<and> p \<in> set ?now \<and>
      (\<forall>s. getScaleDownCVR C new s = cvr_get (rep C) s (openebsNamespace C) (mget (Annotations new) volumeID @ ''-'' @ p))"
    if less: "length ?want < length ?now"
  proof -
    obtain p where p: "filter (\<lambda>x. x \<notin> set ?want) ?now = [p]" "set ?want = set ?now - {p}"
      using one_removed [OF d less] gone less by auto
    have "p \<in> set (filter (\<lambda>x. x \<notin> set ?want) ?now)" by (simp only: p(1)) simp
    then have "p \<in> set ?now" by simp
    with p show ?thesis by (auto simp: getScaleDownCVR_def diff wanted Let_def elemAt_def)
  qed
  have same: "set ?want = set ?now" if eq: "length ?want = length ?now"
  proof -
    have "card (set ?want) \<le> card (set ?now)" using eq d by (simp add: distinct_card)
    with keep eq show ?thesis by (metis List.finite_set card_seteq less_irrefl)
  qed
  show ?thesis using up down same by (auto simp: diff wanted change isCVCScalePending_def)
qed

theorem admitted_update_scales_witness:
  "let old = boundCVC [''p1'', ''p2'', ''p3''] [''p1'', ''p2'', ''p3''] ''pdb'';
       new = boundCVC [''p1'', ''p2'', ''p3''] [''p3'', ''p1''] ''pdb''
   in cvcUpdateAdmissible (capi sampleCenv) old new \<and>
      (\<exists>p. set [''p3'', ''p1''] = set [''p1'', ''p2'', ''p3''] - {p} \<and>
         (\<forall>s. getScaleDownCVR sampleCenv new s =
            cvr_get (rep sampleCenv) s (openebsNamespace sampleCenv) (mget (Annotations new) volumeID @ ''-'' @ p)))"
proof -
  let ?old = "boundCVC [''p1'', ''p2'', ''p3''] [''p1'', ''p2'', ''p3''] ''pdb''"
    and ?new = "boundCVC [''p1'', ''p2'', ''p3''] [''p3'', ''p1''] ''pdb''"
  have "\<And>xs ys. ListDiff (capi sampleCenv) xs ys = filter (\<lambda>x. x \<notin> set ys) xs"
    and "\<And>xs ys. IsChangeInLists sampleCenv xs ys \<longleftrightarrow> set xs \<noteq> set ys"
    and "GetDesiredReplicaPoolNames (capi sampleCenv) ?new = cvc_ReplicaPoolInfo ?new"
    unfolding capi_sample by (simp_all add: sampleEnv_def sampleCenv_def)
  moreover have "cvcUpdateAdmissible (capi sampleCenv) ?old ?new" by code_simp
  moreover have "cvc_PoolInfo ?new = [''p1'', ''p2'', ''p3'']" "cvc_PoolInfo ?old = [''p1'', ''p2'', ''p3'']"
    "cvc_ReplicaPoolInfo ?new = [''p3'', ''p1'']"
    by (simp_all add: boundCVC_def sampleCVC_def ObjectMeta.defs emptyPolicySpec_def)
  ultimately show ?thesis
    using admitted_update_scales [of sampleCenv ?new ?old] by (auto simp: Let_def)
qed

section \<open>Scaling down\<close>

text \<open>The volume object as a scale down leaves it on the server, and as it sees it afterwards.\<close>

definition loweredVolume :: "CStorVolumeConfig \<Rightarrow> CStorVolumeReplica \<Rightarrow> CStorVolume \<Rightarrow> CStorVolume" where
  "loweredVolume cvc cvr cv =
     cv\<lparr>cv_DesiredReplicationFactor := int (length (cvc_ReplicaPoolInfo cvc)),
        cv_KnownReplicas := mdel (cvr_ReplicaID cvr) (cv_KnownReplicas cv)\<rparr>"

lemma loweredVolume_fields:
  "cv_DesiredReplicationFactor (loweredVolume cvc cvr cv) = int (length (cvc_ReplicaPoolInfo cvc))"
  "cvr_ReplicaID cvr \<notin> fst ` set (cv_KnownReplicas (loweredVolume cvc cvr cv))"
  by (auto simp: loweredVolume_def mdel_def)

text \<open>
  A scale down first lowers the desired replication factor of the volume and forgets the replica, and while the
  target reports the scale down to be in progress it deletes no replica and no budget, leaves the volume configuration as it is and
  returns an error, so that it is tried again.
\<close>

theorem scale_down_waits:
  assumes cv: "cv_get C s (openebsNamespace C) (Name cvc) = Ok cv"
    and cvr: "getScaleDownCVR C cvc s = Ok cvr"
    and upd: "cv_update C s (openebsNamespace C) (loweredVolume cvc cvr cv) = (r, s')"
    and busy: "if cv_DesiredReplicationFactor cv > int (length (cvc_ReplicaPoolInfo cvc))
               then (\<exists>e. r = Err e) \<or> (\<exists>cv'. r = Ok cv' \<and> IsScaleDownInProgress C cv')
               else IsScaleDownInProgress C cv"
  shows "\<exists>e. scaleDownVolumeReplicas C cvc s =
     (Ok (cvc, cvc, Some e), if cv_DesiredReplicationFactor cv > int (length (cvc_ReplicaPoolInfo cvc)) then s' else s)"
  using cv cvr upd busy
  by (auto simp: scaleDownVolumeReplicas_def Let_def bindS_def attemptS_def updateCStorVolumeInfo_def loweredVolume_def
      split: if_splits)

theorem scale_down_waits_witness:
  "let cvc = boundCVC [''p1'', ''p2'', ''p3''] [''p1'', ''p2''] ''pdb'';
       cv = sampleCV 3 [(''id-p1'', ''1''), (''id-p2'', ''2''), (''id-p3'', ''3'')];
       s = volumeStore [cvc] [cv] [''p1'', ''p2'', ''p3''] in
   \<exists>e s'. scaleDownVolumeReplicas sampleCenv cvc s = (Ok (cvc, cvc, Some e), s') \<and>
      st_cvrs s' = st_cvrs s \<and> map cv_KnownReplicas (st_cvs s') = [[(''id-p1'', ''1''), (''id-p2'', ''2'')]]"
proof -
  let ?cvc = "boundCVC [''p1'', ''p2'', ''p3''] [''p1'', ''p2''] ''pdb''"
    and ?cv = "sampleCV 3 [(''id-p1'', ''1''), (''id-p2'', ''2''), (''id-p3'', ''3'')]"
  let ?s = "volumeStore [?cvc] [?cv] [''p1'', ''p2'', ''p3'']" and ?cvr = "volumeReplicaOn ''p3''"
  let ?low = "loweredVolume ?cvc ?cvr ?cv"
  have "cv_get sampleCenv ?s (openebsNamespace sampleCenv) (Name ?cvc) = Ok ?cv" by code_simp
  moreover have "getScaleDownCVR sampleCenv ?cvc ?s = Ok ?cvr" by code_simp
  moreover have "cv_update sampleCenv ?s (openebsNamespace sampleCenv) ?low = (Ok ?low, ?s\<lparr>st_cvs := [?low]\<rparr>)" by code_simp
  moreover have "cv_DesiredReplicationFactor ?cv > int (length (cvc_ReplicaPoolInfo ?cvc)) \<and> IsScaleDownInProgress sampleCenv ?low"
    by code_simp
  moreover have "cv_KnownReplicas ?low = [(''id-p1'', ''1''), (''id-p2'', ''2'')]" by code_simp
  ultimately show ?thesis
    using scale_down_waits [of sampleCenv ?s ?cvc ?cv ?cvr "Ok ?low" "?s\<lparr>st_cvs := [?low]\<rparr>"] by (auto simp: Let_def)
qed

section \<open>Failed budgets\<close>

text \<open>
  When the budget of a scaled volume cannot be handled, the configuration is left with the new pools as its
  current ones, so no scaling is pending any more, and the policy step of the same round, whose hash has changed with the list of pools, writes it
  to the server.
\<close>

lemma scaleVolumeReplicas_budget_fails:
  assumes less: "length (cvc_ReplicaPoolInfo cvc) < length (cvc_PoolInfo cvc)"
    and cv: "cv_get C s (openebsNamespace C) (Name cvc) = Ok cv" "cv_DesiredReplicationFactor cv \<le> int (length (cvc_ReplicaPoolInfo cvc))"
    and cvr: "getScaleDownCVR C cvc s = Ok cvr" and finished: "\<not> IsScaleDownInProgress C cv"
    and del: "cvr_delete C s (openebsNamespace C) (Name cvr) = (Ok u, s')"
    and pdb: "getUpdatePDBForVolume C (cvc\<lparr>cvc_PoolInfo := GetDesiredReplicaPoolNames (capi C) cvc\<rparr>) s' = (Err e, s'')"
  shows "\<exists>e'. scaleVolumeReplicas C cvc s = (Ok (cvc\<lparr>cvc_PoolInfo := GetDesiredReplicaPoolNames (capi C) cvc\<rparr>, Some e'), s'')"
  using assms
  by (auto simp: scaleVolumeReplicas_def scaleDownVolumeReplicas_def finishScaleDown_def updatePDBForScaledVolume_def
      Let_def bindS_def attemptS_def)

theorem failed_budget_recorded:
  assumes "cvc_Phase cvc \<noteq> CStorVolumeConfigPhasePending C" "\<not> cvcNeedResize cvc" "isCVCScalePending C cvc"
    and "length (cvc_ReplicaPoolInfo cvc) < length (cvc_PoolInfo cvc)"
    and "cv_get C s (openebsNamespace C) (Name cvc) = Ok cv" "cv_DesiredReplicationFactor cv \<le> int (length (cvc_ReplicaPoolInfo cvc))"
    and "getScaleDownCVR C cvc s = Ok cvr" "\<not> IsScaleDownInProgress C cv"
    and "cvr_delete C s (openebsNamespace C) (Name cvr) = (Ok u, s')"
    and "getUpdatePDBForVolume C (cvc\<lparr>cvc_PoolInfo := GetDesiredReplicaPoolNames (capi C) cvc\<rparr>) s' = (Err e, s'')"
  shows "syncVolume C cvc s = syncPolicySpec C (cvc\<lparr>cvc_PoolInfo := GetDesiredReplicaPoolNames (capi C) cvc\<rparr>) s''"
proof -
  obtain e' where "scaleVolumeReplicas C cvc s =
      (Ok (cvc\<lparr>cvc_PoolInfo := GetDesiredReplicaPoolNames (capi C) cvc\<rparr>, Some e'), s'')"
    using scaleVolumeReplicas_budget_fails [OF assms(4-10)] by blast
  with assms(1-3) show ?thesis by (simp add: syncVolume_def bindS_def)
qed

text \<open>A server that cannot delete budgets, and the target deployment of the volume.\<close>

definition noBudgetDelete :: "store cenv" where
  "noBudgetDelete = sampleCenv\<lparr>pdb_delete := (\<lambda>s ns n. (Err (ApiError ''down''), s))\<rparr>"

definition shrinkingStore :: "CStorVolumeConfig \<Rightarrow> store" where
  "shrinkingStore cvc =
     (volumeStore [cvc] [sampleCV 2 [(''id-p1'', ''1''), (''id-p2'', ''2'')]] [''p1'', ''p2'', ''p3''])\<lparr>st_deploys :=
        [BuildTargetDeployment sampleEnv (sampleCV 3 []) emptyPolicySpec]\<rparr>"

theorem failed_budget_recorded_witness:
  "let cvc = boundCVC [''p1'', ''p2'', ''p3''] [''p1'', ''p2''] ''pdb'';
       run = syncVolume noBudgetDelete cvc (shrinkingStore cvc) in
   fst run = Ok () \<and>
   map (\<lambda>c. (cvc_PoolInfo c, mget (Labels c) ''openebs.io/pod-disruption-budget'')) (st_cvcs (snd run)) =
     [([''p1'', ''p2''], ''pdb'')] \<and>
   map Name (st_pdbs (snd run)) = [''pdb'']"
proof -
  let ?cvc = "boundCVC [''p1'', ''p2'', ''p3''] [''p1'', ''p2''] ''pdb''"
  let ?s = "shrinkingStore ?cvc" and ?cv = "sampleCV 2 [(''id-p1'', ''1''), (''id-p2'', ''2'')]"
    and ?C = noBudgetDelete and ?cvr = "volumeReplicaOn ''p3''"
  let ?d = "cvr_delete ?C ?s (openebsNamespace ?C) (Name ?cvr)"
  let ?new = "?cvc\<lparr>cvc_PoolInfo := GetDesiredReplicaPoolNames (capi ?C) ?cvc\<rparr>"
  have "cvc_Phase ?cvc \<noteq> CStorVolumeConfigPhasePending ?C" "\<not> cvcNeedResize ?cvc" "isCVCScalePending ?C ?cvc"
    "length (cvc_ReplicaPoolInfo ?cvc) < length (cvc_PoolInfo ?cvc)"
    "cv_get ?C ?s (openebsNamespace ?C) (Name ?cvc) = Ok ?cv"
    "cv_DesiredReplicationFactor ?cv \<le> int (length (cvc_ReplicaPoolInfo ?cvc))"
    "getScaleDownCVR ?C ?cvc ?s = Ok ?cvr" "\<not> IsScaleDownInProgress ?C ?cv" by code_simp+
  moreover have "?d = (Ok (), snd ?d)" by code_simp
  moreover have "getUpdatePDBForVolume ?C ?new (snd ?d) = (Err (ApiError ''down''), snd ?d)" by code_simp
  ultimately have "syncVolume ?C ?cvc ?s = syncPolicySpec ?C ?new (snd ?d)" by (rule failed_budget_recorded)
  moreover have "fst (syncPolicySpec ?C ?new (snd ?d)) = Ok ()" by code_simp
  moreover have "map (\<lambda>c. (cvc_PoolInfo c, mget (Labels c) ''openebs.io/pod-disruption-budget''))
       (st_cvcs (snd (syncPolicySpec ?C ?new (snd ?d)))) = [([''p1'', ''p2''], ''pdb'')]" by code_simp
  moreover have "map Name (st_pdbs (snd (syncPolicySpec ?C ?new (snd ?d)))) = [''pdb'']" by code_simp
  ultimately show ?thesis by (simp only: Let_def simp_thms)
qed

section \<open>Resizing\<close>

text \<open>
  The merge of resize conditions keeps the other conditions and their order, and leaves of the known resize
  conditions exactly the given ones.
\<close>

lemma mput_fold_keys:
  "fst ` set (foldl (\<lambda>m c. mput (cond_Type c) c m) m cs) = fst ` set m \<union> cond_Type ` set cs"
proof (induction cs arbitrary: m)
  case (Cons c cs)
  have "fst ` set (mput (cond_Type c) c m) = insert (cond_Type c) (fst ` set m)"
    by (simp only: dom_map_of_conv_image_fst [symmetric] map_of_mput) simp
  with Cons show ?case by simp
qed simp

lemma mput_fold_values:
  assumes "\<forall>(t, c) \<in> set m. cond_Type c = t \<and> c \<in> D"
  shows "\<forall>(t, c) \<in> set (foldl (\<lambda>m c. mput (cond_Type c) c m) m cs). cond_Type c = t \<and> c \<in> D \<union> set cs"
  using assms
proof (induction cs arbitrary: m D)
  case (Cons c cs)
  have "\<forall>(t, c') \<in> set (mput (cond_Type c) c m). cond_Type c' = t \<and> c' \<in> insert c D"
    using Cons.prems by (fastforce simp: mput_def split: if_splits)
  from Cons.IH [OF this] show ?case by auto
qed simp

definition resizeMap :: "Condition list \<Rightarrow> (string \<times> Condition) list" where
  "resizeMap cs = foldl (\<lambda>m c. mput (cond_Type c) c m) [] cs"

lemma resizeMap_facts:
  "fst ` set (resizeMap cs) = cond_Type ` set cs"
  "(t, c) \<in> set (resizeMap cs) \<Longrightarrow> cond_Type c = t \<and> c \<in> set cs"
  using mput_fold_keys [of "[]" cs] mput_fold_values [of "[]" "{}" cs] by (auto simp: resizeMap_def)

lemma resizeMap_lookup: "map_of (resizeMap cs) t = Some c \<Longrightarrow> cond_Type c = t \<and> c \<in> set cs"
  using resizeMap_facts(2) by (blast dest: map_of_SomeD)

lemma resizeMap_None: "map_of (resizeMap cs) t = None \<longleftrightarrow> t \<notin> cond_Type ` set cs"
  by (simp only: map_of_eq_None_iff resizeMap_facts(1))

definition isResize :: "'s cenv \<Rightarrow> Condition \<Rightarrow> bool" where
  "isResize C c \<longleftrightarrow> cond_Type c \<in> set (knownResizeConditions C)"

definition mergeOld :: "'s cenv \<Rightarrow> Condition list \<Rightarrow> Condition \<Rightarrow> Condition list" where
  "mergeOld C new c =
     (if \<not> isResize C c then [c] else (case map_of (resizeMap new) (cond_Type c) of Some n \<Rightarrow> [n] | None \<Rightarrow> []))"

lemma MergeResizeConditionsOfCVC_alt:
  "MergeResizeConditionsOfCVC C old new = concat (map (mergeOld C new) old) @
     map snd (filter (\<lambda>(t, _). \<not> (t \<in> set (knownResizeConditions C) \<and> t \<in> cond_Type ` set old)) (conditionOrder C (resizeMap new)))"
  by (simp add: MergeResizeConditionsOfCVC_def mergeOld_def [abs_def] isResize_def resizeMap_def Let_def cong: if_cong)

lemma mergeOld_others:
  assumes "list_all (isResize C) new"
  shows "filter (\<lambda>c. \<not> isResize C c) (concat (map (mergeOld C new) old)) = filter (\<lambda>c. \<not> isResize C c) old"
proof -
  have "filter (\<lambda>c. \<not> isResize C c) (mergeOld C new c) = (if isResize C c then [] else [c])" for c
    using assms by (auto simp: mergeOld_def list_all_iff dest!: resizeMap_lookup split: option.splits)
  then show ?thesis by (induction old) simp_all
qed

lemma mergeOld_types:
  "cond_Type ` {c \<in> set (concat (map (mergeOld C new) old)). isResize C c} =
     {t \<in> cond_Type ` set new. t \<in> set (knownResizeConditions C) \<and> t \<in> cond_Type ` set old}" (is "?l = ?r")
proof
  show "?l \<subseteq> ?r"
    by (auto simp: mergeOld_def isResize_def dest!: resizeMap_lookup [OF sym] split: if_splits option.splits)
  show "?r \<subseteq> ?l"
  proof
    fix t
    assume t: "t \<in> ?r"
    then obtain c where c: "c \<in> set old" "cond_Type c = t" by auto
    from t have "map_of (resizeMap new) t \<noteq> None" using resizeMap_None [of new t] by simp
    then obtain n where n: "map_of (resizeMap new) t = Some n" by blast
    with c t have "n \<in> set (mergeOld C new c)" by (simp add: mergeOld_def isResize_def)
    with c have "n \<in> set (concat (map (mergeOld C new) old))" by auto
    with resizeMap_lookup [OF n] t show "t \<in> ?l" by (auto simp: isResize_def)
  qed
qed

theorem resize_conditions_merged:
  assumes order: "\<And>m. set (conditionOrder C m) = set m" and new: "list_all (isResize C) new"
  shows "filter (\<lambda>c. \<not> isResize C c) (MergeResizeConditionsOfCVC C old new) = filter (\<lambda>c. \<not> isResize C c) old \<and>
     cond_Type ` {c \<in> set (MergeResizeConditionsOfCVC C old new). isResize C c} = cond_Type ` set new"
proof -
  define added where
    "added = filter (\<lambda>(t, _). \<not> (t \<in> set (knownResizeConditions C) \<and> t \<in> cond_Type ` set old)) (conditionOrder C (resizeMap new))"
  have all: "isResize C c" "cond_Type c = t" "c \<in> set new" if "(t, c) \<in> set added" for t c
    using that resizeMap_facts(2) [of t c new] new by (auto simp: added_def order list_all_iff)
  have types: "cond_Type ` set (map snd added) = {t \<in> cond_Type ` set new. t \<notin> cond_Type ` set old}"
  proof -
    have known: "t \<in> set (knownResizeConditions C)" if "t \<in> cond_Type ` set new" for t
      using that new by (auto simp: list_all_iff isResize_def)
    have "cond_Type ` set (map snd added) = fst ` set added" using all(2) by (force simp: image_iff)
    also have "\<dots> = {t \<in> fst ` set (resizeMap new). \<not> (t \<in> set (knownResizeConditions C) \<and> t \<in> cond_Type ` set old)}"
      by (auto simp: added_def order image_iff)
    finally show ?thesis using known by (auto simp: resizeMap_facts(1))
  qed
  have split: "cond_Type ` {c \<in> set (xs @ map snd added). isResize C c} =
      cond_Type ` {c \<in> set xs. isResize C c} \<union> cond_Type ` set (map snd added)" for xs
    using all(1) by auto
  have "cond_Type ` set new \<subseteq> set (knownResizeConditions C)" using new by (auto simp: list_all_iff isResize_def)
  then have "cond_Type ` {c \<in> set (MergeResizeConditionsOfCVC C old new). isResize C c} = cond_Type ` set new"
    unfolding MergeResizeConditionsOfCVC_alt added_def [symmetric] split mergeOld_types types by auto
  moreover have "filter (\<lambda>c. \<not> isResize C c) (map snd added) = []" using all(1) by (auto simp: filter_empty_conv)
  ultimately show ?thesis
    unfolding MergeResizeConditionsOfCVC_alt added_def [symmetric] filter_append mergeOld_others [OF new] by simp
qed

theorem resize_conditions_merged_witness:
  "let cond = (\<lambda>t n. \<lparr>cond_Type = t, cond_Status = '''', cond_LastUpdateTime = 0, cond_LastTransitionTime = n,
         cond_Reason = '''', cond_Message = ''''\<rparr>);
       old = [cond ''Resizing'' 1, cond ''Bound'' 2, cond ''ResizePending'' 3, cond ''Other'' 4];
       merged = MergeResizeConditionsOfCVC sampleCenv old [cond ''Resizing'' 9] in
   filter (\<lambda>c. \<not> isResize sampleCenv c) merged = filter (\<lambda>c. \<not> isResize sampleCenv c) old \<and>
   merged = [cond ''Resizing'' 9, cond ''Bound'' 2, cond ''Other'' 4]"
proof -
  let ?cond = "\<lambda>t n. \<lparr>cond_Type = t, cond_Status = [], cond_LastUpdateTime = 0, cond_LastTransitionTime = n,
         cond_Reason = [], cond_Message = []\<rparr>"
  let ?old = "[?cond ''Resizing'' 1, ?cond ''Bound'' 2, ?cond ''ResizePending'' 3, ?cond ''Other'' 4]"
  have order: "\<And>m. set (conditionOrder sampleCenv m) = set m" by (simp add: sampleCenv_def)
  have "list_all (isResize sampleCenv) [?cond ''Resizing'' 9]" by code_simp
  from resize_conditions_merged [OF order this, of ?old]
  have "filter (\<lambda>c. \<not> isResize sampleCenv c) (MergeResizeConditionsOfCVC sampleCenv ?old [?cond ''Resizing'' 9]) =
      filter (\<lambda>c. \<not> isResize sampleCenv c) ?old" by (rule conjunct1)
  moreover have "MergeResizeConditionsOfCVC sampleCenv ?old [?cond ''Resizing'' 9] =
      [?cond ''Resizing'' 9, ?cond ''Bound'' 2, ?cond ''Other'' 4]" by code_simp
  ultimately show ?thesis by (simp only: Let_def simp_thms)
qed

end
