(* ===== verification/VolumeContract.thy ===== *)
theory VolumeContract
  imports VolumeManager
begin

text \<open>
  A contract between the volume manager and the server it works on. A server stores volumes with a property when it
  returns only such volumes and stays so as long as it is given such volumes. Every operation of the manager keeps
  this, for every property that survives what the manager writes: the fields it fills in, a registered replica, and the
  end of a scale down. The properties of interest are instances of the locale below.
\<close>

section \<open>Results under an invariant\<close>

text \<open>From a state with the invariant every run keeps the invariant, and every result has the property.\<close>

definition ensures :: "('s \<Rightarrow> bool) \<Rightarrow> ('a \<Rightarrow> bool) \<Rightarrow> ('s, 'a) act \<Rightarrow> bool" where
  "ensures I Q m \<longleftrightarrow> (\<forall>s. I s \<longrightarrow> I (snd (m s)) \<and> (\<forall>x. fst (m s) = Ok x \<longrightarrow> Q x))"

named_theorems ensures_intros \<open>rules for results under an invariant\<close>

lemma ensures_keeps: "ensures I Q m \<Longrightarrow> keeps I m"
  by (simp add: ensures_def keeps_def)

lemma keeps_ensures: "keeps I m \<Longrightarrow> ensures I (\<lambda>_. True) m"
  by (simp add: ensures_def keeps_def)

lemma ensuresI:
  "(\<And>s r s'. I s \<Longrightarrow> m s = (r, s') \<Longrightarrow> I s' \<and> (\<forall>x. r = Ok x \<longrightarrow> Q x)) \<Longrightarrow> ensures I Q m"
  unfolding ensures_def by (metis prod.collapse)

lemma ensures_weaken: "ensures I Q m \<Longrightarrow> (\<And>x. Q x \<Longrightarrow> R x) \<Longrightarrow> ensures I R m"
  by (auto simp: ensures_def)

lemma ensures_bindS:
  assumes "ensures I R m" and "\<And>x. R x \<Longrightarrow> ensures I Q (k x)"
  shows "ensures I Q (bindS m k)"
proof (rule ensuresI)
  fix s r s'
  assume I: "I s" and run: "bindS m k s = (r, s')"
  obtain r1 s1 where m: "m s = (r1, s1)" by fastforce
  with assms(1) I have I1: "I s1" and R: "\<And>x. r1 = Ok x \<Longrightarrow> R x" by (auto simp: ensures_def)
  show "I s' \<and> (\<forall>x. r = Ok x \<longrightarrow> Q x)"
  proof (cases r1)
    case (Ok x)
    with assms(2) [OF R [OF Ok]] I1 have "I (snd (k x s1)) \<and> (\<forall>y. fst (k x s1) = Ok y \<longrightarrow> Q y)" by (simp add: ensures_def)
    with run m Ok show ?thesis by (simp add: bindS_def)
  qed (use run m I1 in \<open>auto simp: bindS_def\<close>)
qed

lemma ensures_returnS [ensures_intros]: "Q x \<Longrightarrow> ensures I Q (returnS x)"
  by (simp add: ensures_def)

lemma ensures_failS [ensures_intros]: "ensures I Q (failS e)"
  by (simp add: ensures_def)

lemma ensures_panicS [ensures_intros]: "ensures I Q (panicS m)"
  by (simp add: ensures_def)

lemma ensures_readS: "(\<And>s x. I s \<Longrightarrow> f s = Ok x \<Longrightarrow> Q x) \<Longrightarrow> ensures I Q (readS f)"
  by (auto simp: ensures_def)

lemma ensures_wrapS [ensures_intros]: "ensures I Q m \<Longrightarrow> ensures I Q (wrapS m f a)"
  by (fastforce simp: ensures_def wrapS_def split: prod.splits)

lemma ensures_attemptS: "ensures I Q m \<Longrightarrow> ensures I (\<lambda>r. \<forall>x. r = Ok x \<longrightarrow> Q x) (attemptS m)"
  unfolding ensures_def attemptS_def
  by (auto split: prod.split res.split simp: split_beta)

lemma ensures_if [ensures_intros]: "(b \<Longrightarrow> ensures I Q m) \<Longrightarrow> (\<not> b \<Longrightarrow> ensures I Q m') \<Longrightarrow> ensures I Q (if b then m else m')"
  by simp

lemma ensures_case_res [ensures_intros]:
  "(\<And>x. r = Ok x \<Longrightarrow> ensures I Q (f x)) \<Longrightarrow> (\<And>e. r = Err e \<Longrightarrow> ensures I Q (g e)) \<Longrightarrow>
   (\<And>m. r = Panic m \<Longrightarrow> ensures I Q (h m)) \<Longrightarrow> ensures I Q (case r of Ok x \<Rightarrow> f x | Err e \<Rightarrow> g e | Panic m \<Rightarrow> h m)"
  by (cases r) simp_all

lemma ensures_case_option [ensures_intros]:
  "(r = None \<Longrightarrow> ensures I Q m) \<Longrightarrow> (\<And>x. r = Some x \<Longrightarrow> ensures I Q (f x)) \<Longrightarrow>
   ensures I Q (case r of None \<Rightarrow> m | Some x \<Rightarrow> f x)"
  by (cases r) simp_all

lemma ensures_case_prod [ensures_intros]:
  "(\<And>a b. r = (a, b) \<Longrightarrow> ensures I Q (f a b)) \<Longrightarrow> ensures I Q (case r of (a, b) \<Rightarrow> f a b)"
  by (cases r) simp

lemma ensures_bind_any:
  assumes "keeps I m" and "\<And>x. ensures I Q (k x)"
  shows "ensures I Q (bindS m k)"
  using assms(2) by (intro ensures_bindS [OF keeps_ensures [OF assms(1)]])

lemma ensures_bind_attempt:
  assumes "ensures I R m" and "\<And>x. R x \<Longrightarrow> ensures I Q (k (Ok x))" and "\<And>e. ensures I Q (k (Err e))"
    and "\<And>p. ensures I Q (k (Panic p))"
  shows "ensures I Q (bindS (attemptS m) k)"
proof (rule ensures_bindS [OF ensures_attemptS [OF assms(1)]])
  fix r :: "'b res"
  assume "\<forall>x. r = Ok x \<longrightarrow> R x"
  with assms(2-4) show "ensures I Q (k r)" by (cases r) simp_all
qed

section \<open>Servers that store volumes with a property\<close>

text \<open>Commands to istgt, writes of its file, and events do not touch volumes.\<close>

definition storesVolumes :: "'s venv \<Rightarrow> (CStorVolume \<Rightarrow> bool) \<Rightarrow> ('s \<Rightarrow> bool) \<Rightarrow> bool" where
  "storesVolumes V B I \<longleftrightarrow>
     (\<forall>ns n. ensures I B (readS (\<lambda>s. vcv_get V s ns n))) \<and>
     (\<forall>ns. ensures I (list_all B) (readS (\<lambda>s. vcv_list V s ns))) \<and>
     (\<forall>ns cv. B cv \<longrightarrow> ensures I B (\<lambda>s. vcv_update V s ns cv)) \<and>
     (\<forall>c. keeps I (SendCommand V c)) \<and> (\<forall>f d. keeps I (WriteFile V f d)) \<and> (\<forall>f d k. keeps I (Updatefile V f d k)) \<and>
     (\<forall>f d. keeps I (UpdateOrAppendMultipleLines V f d)) \<and> (\<forall>ns s. I s \<longrightarrow> I (setTargetNamespace V ns s)) \<and>
     (\<forall>ns x. keeps I (\<lambda>s. event_create V s ns x)) \<and> (\<forall>ns x. keeps I (\<lambda>s. event_update V s ns x))"

lemma storesVolumesD:
  assumes "storesVolumes V B I"
  shows "ensures I B (readS (\<lambda>s. vcv_get V s ns n))"
    "ensures I (list_all B) (readS (\<lambda>s. vcv_list V s ns))"
    "B cv \<Longrightarrow> ensures I B (\<lambda>s. vcv_update V s ns cv)"
    "keeps I (SendCommand V c)" "keeps I (WriteFile V f d)" "keeps I (Updatefile V f d k)"
    "keeps I (UpdateOrAppendMultipleLines V f m)" "keeps I (\<lambda>s. (Ok (), setTargetNamespace V ns s))"
    "keeps I (\<lambda>s. event_create V s ns x)" "keeps I (\<lambda>s. event_update V s ns x)"
  using assms by (simp_all add: storesVolumes_def keeps_def)

section \<open>Properties the manager keeps\<close>

locale managedVolumes =
  fixes B :: "CStorVolume \<Rightarrow> bool"
  assumes B_Conditions [simp]: "B (cv\<lparr>cv_Conditions := a\<rparr>) = B cv"
    and B_StatusCapacity [simp]: "B (cv\<lparr>cv_StatusCapacity := b\<rparr>) = B cv"
    and B_Phase [simp]: "B (cv\<lparr>cv_Phase := c\<rparr>) = B cv"
    and B_LastUpdateTime [simp]: "B (cv\<lparr>cv_LastUpdateTime := d\<rparr>) = B cv"
    and B_LastTransitionTime [simp]: "B (cv\<lparr>cv_LastTransitionTime := d\<rparr>) = B cv"
    and B_ReplicaStatuses [simp]: "B (cv\<lparr>cv_ReplicaStatuses := e\<rparr>) = B cv"
    and B_Version [simp]: "B (cv\<lparr>cv_Version := f\<rparr>) = B cv"
    and B_ReplicationFactor [simp]: "B (cv\<lparr>cv_ReplicationFactor := g\<rparr>) = B cv"
    and B_ConsistencyFactor [simp]: "B (cv\<lparr>cv_ConsistencyFactor := g\<rparr>) = B cv"
    and B_register: "B cv \<Longrightarrow> admitReplica csr cv = Ok () \<Longrightarrow> B (registerReplica csr cv)"
    and B_forget: "B cv \<Longrightarrow> B (cv\<lparr>cv_StatusKnownReplicas := cv_KnownReplicas cv\<rparr>)"
begin

lemma keeps_GetVolumeStatus: "storesVolumes V B I \<Longrightarrow> keeps I (GetVolumeStatus V)"
  unfolding GetVolumeStatus_def by (intro keeps_intros storesVolumesD)

lemma keeps_drfCommand: "storesVolumes V B I \<Longrightarrow> keeps I (ExecuteDesiredReplicationFactorCommand V cv f)"
  unfolding ExecuteDesiredReplicationFactorCommand_def by (intro keeps_intros storesVolumesD)

lemma keeps_ResizeTargetVolume: "storesVolumes V B I \<Longrightarrow> keeps I (ResizeTargetVolume V cv)"
  unfolding ResizeTargetVolume_def Let_def by (intro keeps_intros storesVolumesD)

lemma keeps_CreateVolumeTarget: "storesVolumes V B I \<Longrightarrow> keeps I (CreateVolumeTarget V cv)"
  unfolding CreateVolumeTarget_def by (intro keeps_intros storesVolumesD)

lemma keeps_createSyncUpdateEvent: "storesVolumes V B I \<Longrightarrow> keeps I (\<lambda>s. createSyncUpdateEvent V (f s) s)"
proof -
  assume b: "storesVolumes V B I"
  have "keeps I (createSyncUpdateEvent V e)" for e
  proof -
    have "keeps I (\<lambda>s. event_update V s ns (g s))" for ns g
      using storesVolumesD(10) [OF b] by (simp add: keeps_def)
    then show ?thesis unfolding createSyncUpdateEvent_def by (intro keeps_intros storesVolumesD [OF b])
  qed
  then show ?thesis by (simp add: keeps_def)
qed

text \<open>An update whose object depends on the state.\<close>

lemma ensures_update:
  assumes "storesVolumes V B I" and "\<And>s. B (f s)"
  shows "ensures I B (\<lambda>s. vcv_update V s ns (f s))"
proof (rule ensuresI)
  fix s r s'
  assume "I s" "vcv_update V s ns (f s) = (r, s')"
  with storesVolumesD(3) [OF assms(1), of "f s" ns] assms(2) [of s]
  show "I s' \<and> (\<forall>x. r = Ok x \<longrightarrow> B x)" by (auto simp: ensures_def dest: spec [of _ s])
qed

lemma ensures_triggerScaleDownProcess:
  assumes b: "storesVolumes V B I" and c: "B cv"
  shows "ensures I B (triggerScaleDownProcess V cv)"
proof -
  have last: "ensures I B (bindS (ExecuteDesiredReplicationFactorCommand V cv' f) (\<lambda>_. wrapS (\<lambda>s. vcv_update V s ns
      (cv'\<lparr>cv_StatusKnownReplicas := cv_KnownReplicas cv'\<rparr>)) m a))" if "B cv'" for cv' f ns m a
    using that
    by (intro ensures_bind_any keeps_drfCommand [OF b] ensures_wrapS ensures_update [OF b] B_forget)
  have first: "ensures I B (if cv_DesiredReplicationFactor cv < cv_ReplicationFactor cv
      then bindS (wrapS (UpdateOrAppendMultipleLines V f d) m a) (\<lambda>_. wrapS (\<lambda>s. vcv_update V s (Namespace cv)
        (cv\<lparr>cv_ReplicationFactor := cv_DesiredReplicationFactor cv, cv_ConsistencyFactor := q\<rparr>)) m' a') else returnS cv)"
    for f d m a q m' a'
    by (intro ensures_if ensures_bind_any keeps_wrapS storesVolumesD(7) [OF b] ensures_wrapS ensures_update [OF b] ensures_returnS c)
      (simp add: c)
  show ?thesis
    unfolding triggerScaleDownProcess_def Let_def
    by (intro ensures_bind_any keeps_GetVolumeStatus [OF b] ensures_if ensures_failS ensures_bindS [OF first] last)
qed

lemma keeps_updateCStorVolumeDRF:
  assumes b: "storesVolumes V B I" and c: "B cv"
  shows "keeps I (updateCStorVolumeDRF V cv)"
proof -
  have "keeps I (triggerScaleUpProcess V cv)"
    unfolding triggerScaleUpProcess_def by (intro keeps_intros keeps_drfCommand [OF b] storesVolumesD(6) [OF b])
  then show ?thesis
    unfolding updateCStorVolumeDRF_def Let_def
    by (intro keeps_intros ensures_keeps [OF ensures_triggerScaleDownProcess [OF b c]])
qed

lemma ensures_addResizeConditions:
  assumes b: "storesVolumes V B I" and c: "B cv"
  shows "ensures I B (addResizeConditions V cv)"
proof (rule ensuresI)
  fix s r s'
  assume "I s" "addResizeConditions V cv s = (r, s')"
  moreover obtain r0 s0 where "vcv_update V s (Namespace cv) (withResizeCondition V cv s) = (r0, s0)" by fastforce
  moreover have "B (withResizeCondition V cv s)" by (simp add: withResizeCondition_def c)
  ultimately show "I s' \<and> (\<forall>x. r = Ok x \<longrightarrow> B x)"
    using storesVolumesD(3) [OF b, of "withResizeCondition V cv s" "Namespace cv"]
    by (auto simp: addResizeConditions_def ensures_def)
qed

lemma ensures_resizeCStorVolume:
  assumes b: "storesVolumes V B I" and c: "B cv"
  shows "ensures I B (resizeCStorVolume V cv)"
  unfolding resizeCStorVolume_def Let_def
  by (intro ensures_bind_any keeps_intros keeps_ResizeTargetVolume [OF b] ensures_case_res ensures_panicS ensures_update [OF b])
    (simp_all add: c)

lemma ensures_cv_reconcileVersion:
  assumes b: "storesVolumes V B I" and c: "B cv"
  shows "ensures I (\<lambda>(err, cv). B cv) (cv_reconcileVersion V cv)"
proof -
  have upd: "ensures I (\<lambda>r. \<forall>x. r = Ok x \<longrightarrow> B x)
      (if q then attemptS (\<lambda>s. vcv_update V s ns (cv\<lparr>cv_Version := v\<rparr>)) else returnS (Ok cv))" for q ns v
    by (intro ensures_if ensures_attemptS ensures_update [OF b] ensures_returnS) (simp_all add: c)
  have last: "ensures I (\<lambda>(err, cv). B cv)
      (bindS (attemptS (\<lambda>s. vcv_update V s (Namespace cv') (cv'\<lparr>cv_Version := v\<rparr>))) (\<lambda>r.
         case r of Panic m \<Rightarrow> panicS m | Err e \<Rightarrow> returnS (Some e, cv') | Ok obj \<Rightarrow> returnS (None, obj)))"
    if "B cv'" for cv' v
    by (rule ensures_bind_attempt [OF ensures_update [OF b]]) (simp_all add: that ensures_intros)
  show ?thesis
    unfolding cv_reconcileVersion_def Let_def
    by (intro ensures_if ensures_bind_any keeps_readS ensures_bindS [OF upd] ensures_case_res last ensures_returnS ensures_panicS)
      (simp_all add: c)
qed

lemma ensures_handleAdd:
  assumes b: "storesVolumes V B I" and c: "B cv"
  shows "ensures I (\<lambda>r. B (fst r)) (handleAdd V cv)"
  unfolding handleAdd_def
  by (intro ensures_case_res ensures_bind_any keeps_intros keeps_CreateVolumeTarget [OF b] storesVolumesD(8) [OF b] ensures_intros)
    (simp_all add: c)

lemma ensures_handleModify:
  assumes b: "storesVolumes V B I" and c: "B cv"
  shows "ensures I (\<lambda>r. B (fst r)) (handleModify V cv)"
proof -
  have cond: "ensures I (\<lambda>r. \<forall>x. r = Ok x \<longrightarrow> B x)
      (if q then attemptS (addResizeConditions V cv) else returnS (Ok cv))" for q
    by (intro ensures_if ensures_attemptS ensures_addResizeConditions [OF b c] ensures_returnS) (simp add: c)
  have rest: "ensures I (\<lambda>r. B (fst r)) (case r of Panic m \<Rightarrow> panicS m | Err e \<Rightarrow> returnS (cv, CVStatusIgnore, None)
      | Ok updatedCV \<Rightarrow> bindS (ignoreS (resizeCStorVolume V updatedCV)) (\<lambda>_. returnS (cv, CVStatusIgnore, None)))"
    if "\<forall>x. r = Ok x \<longrightarrow> B x" for r
    using that
    by (cases r) (auto intro!: ensures_bind_any keeps_ignoreS ensures_keeps [OF ensures_resizeCStorVolume [OF b]] ensures_intros simp: c)
  show ?thesis
    unfolding handleModify_def
    by (intro ensures_case_res ensures_bind_any keeps_whenS keeps_updateCStorVolumeDRF [OF b c] ensures_if ensures_bindS [OF cond] rest
        ensures_returnS ensures_panicS) (simp_all add: c)
qed

lemma ensures_syncResize:
  assumes b: "storesVolumes V B I" and c: "B cv"
  shows "ensures I (\<lambda>(held, current). B held \<and> B current) (syncResize V cv)"
proof -
  have cond: "ensures I (\<lambda>(held, r). B held \<and> (\<forall>x. r = Ok x \<longrightarrow> B x))
      (if q then bindS (readS (\<lambda>s. Ok (withResizeCondition V cv s))) (\<lambda>changed.
         bindS (attemptS (addResizeConditions V cv)) (\<lambda>r. returnS (changed, r))) else returnS (cv, Ok cv))" for q
  proof (intro ensures_if)
    show "ensures I (\<lambda>(held, r). B held \<and> (\<forall>x. r = Ok x \<longrightarrow> B x))
      (bindS (readS (\<lambda>s. Ok (withResizeCondition V cv s))) (\<lambda>changed.
         bindS (attemptS (addResizeConditions V cv)) (\<lambda>r. returnS (changed, r))))"
    proof (rule ensures_bindS)
      show "ensures I B (readS (\<lambda>s. Ok (withResizeCondition V cv s)))"
        by (auto intro!: ensures_readS simp: withResizeCondition_def c)
      show "ensures I (\<lambda>(held, r). B held \<and> (\<forall>x. r = Ok x \<longrightarrow> B x))
          (bindS (attemptS (addResizeConditions V cv)) (\<lambda>r. returnS (changed, r)))" if "B changed" for changed
        by (rule ensures_bind_attempt [OF ensures_addResizeConditions [OF b c]]) (simp_all add: that ensures_returnS)
    qed
  qed (simp add: ensures_returnS c)
  have resize: "ensures I (\<lambda>(held, current). B held \<and> B current)
      (bindS (attemptS (resizeCStorVolume V current)) (\<lambda>r. case r of Panic m \<Rightarrow> panicS m | Err e \<Rightarrow> returnS (held, current)
         | Ok updatedCV \<Rightarrow> returnS (held, updatedCV)))"
    if "B held" "B current" for held current
    by (rule ensures_bind_attempt [OF ensures_resizeCStorVolume [OF b that(2)]]) (simp_all add: that ensures_returnS ensures_panicS)
  show ?thesis
    unfolding syncResize_def
    by (intro ensures_if ensures_bindS [OF cond] ensures_case_prod ensures_case_res ensures_returnS ensures_panicS resize)
      (simp_all add: c)
qed

lemma ensures_handlePeriodicSync:
  assumes b: "storesVolumes V B I" and c: "B cv"
  shows "ensures I (\<lambda>r. B (fst r)) (handlePeriodicSync V cv)"
proof -
  have synced: "B (syncedVolume V p st cv' s)" if "B cv'" for p st cv' s
    using that by (simp add: syncedVolume_def Let_def)
  have upd: "ensures I (\<lambda>r. B (fst r)) (bindS (attemptS (\<lambda>s. vcv_update V s ns (syncedVolume V p st current s))) (\<lambda>r.
      case r of Panic m \<Rightarrow> panicS m | Err e \<Rightarrow> returnS (held, CVStatusIgnore, None)
      | Ok updatedCV \<Rightarrow> bindS (whenS (p \<noteq> cv_Phase updatedCV) (ignoreS (\<lambda>s. createSyncUpdateEvent V (createEventObj V updatedCV s) s)))
          (\<lambda>_. returnS (held, CVStatusIgnore, None))))" if "B held" "B current" for held current p st ns
    by (rule ensures_bind_attempt [OF ensures_update [OF b]])
      (auto intro!: ensures_bind_any keeps_whenS keeps_ignoreS keeps_createSyncUpdateEvent [OF b] ensures_intros synced simp: that)
  show ?thesis
    unfolding handlePeriodicSync_def Let_def
    by (intro ensures_bind_any keeps_whenS keeps_updateCStorVolumeDRF [OF b c] ensures_bindS [OF ensures_syncResize [OF b c]]
        ensures_case_prod keeps_attemptS keeps_GetVolumeStatus [OF b] ensures_case_res ensures_returnS ensures_panicS upd) simp_all
qed

lemma ensures_cStorVolumeEventHandler:
  assumes "storesVolumes V B I" and "B cv"
  shows "ensures I (\<lambda>r. B (fst r)) (cStorVolumeEventHandler V op cv)"
  using assms ensures_handleAdd ensures_handleModify ensures_handlePeriodicSync
  by (cases op) (simp_all add: cStorVolumeEventHandler_def ensures_returnS)

lemma keeps_cv_syncHandler:
  assumes b: "storesVolumes V B I"
  shows "keeps I (cv_syncHandler V key op)"
proof -
  have get: "ensures I B (readS (getVolumeResource V key))"
    using storesVolumesD(1) [OF b]
    by (auto simp: ensures_def getVolumeResource_def bindR_Ok_iff split: prod.splits)
  have wr: "ensures I Q (bindS (wrapS (\<lambda>s. vcv_update V s ns cv) f a) (\<lambda>_. k))" if "B cv" "ensures I Q k"
    for Q :: "unit \<Rightarrow> bool" and cv ns f a k
    using that by (intro ensures_bind_any keeps_wrapS ensures_keeps [OF ensures_update [OF b]])
  have "ensures I (\<lambda>_. True) (cv_syncHandler V key op)"
    unfolding cv_syncHandler_def Let_def
    by (intro ensures_bindS [OF get] ensures_bindS [OF ensures_cv_reconcileVersion [OF b]]
        ensures_bindS [OF ensures_cStorVolumeEventHandler [OF b]] ensures_case_prod ensures_case_option ensures_if
        ensures_bind_any keeps_readS wr ensures_returnS ensures_failS
        keeps_ensures [OF keeps_ignoreS [OF ensures_keeps [OF ensures_update [OF b]]]]) simp_all
  then show ?thesis by (rule ensures_keeps)
qed

lemma keeps_markCVStatusToOffline:
  assumes b: "storesVolumes V B I"
  shows "keeps I (markCVStatusToOffline V)"
proof -
  have "ensures I (\<lambda>_. True) (markCVStatusToOffline V)"
    unfolding markCVStatusToOffline_def
  proof (rule ensures_bind_attempt [OF storesVolumesD(2) [OF b]])
    fix cvs
    assume "list_all B cvs"
    then have "B cv" if "find (IsValidCStorVolumeMgmt V) cvs = Some cv" for cv
      using find_mem [OF that] by (simp add: list_all_iff)
    then show "ensures I (\<lambda>_. True) (case Ok cvs of Panic m \<Rightarrow> panicS m | Err e \<Rightarrow> returnS () | Ok cvs \<Rightarrow>
        (case find (IsValidCStorVolumeMgmt V) cvs of None \<Rightarrow> returnS () | Some cv \<Rightarrow> if cv_Phase cv = [] then returnS ()
         else ignoreS (\<lambda>s. vcv_update V s (Namespace cv) (cv\<lparr>cv_Phase := apisCVStatusOffline V, cv_ReplicaStatuses := []\<rparr>))))"
      unfolding res.case
      by (intro ensures_case_option ensures_if ensures_returnS keeps_ensures keeps_ignoreS ensures_keeps [OF ensures_update [OF b]]) simp_all
  qed (simp_all add: ensures_intros)
  then show ?thesis by (rule ensures_keeps)
qed

lemma keeps_ServeRequest:
  assumes b: "storesVolumes V B I"
  shows "keeps I (ServeRequest V conn)"
proof -
  have "ensures I (\<lambda>_. True) (UpdateCVWithReplicationDetails (Some V) csr)" for csr
  proof -
    have get: "ensures I B (readS (\<lambda>s. wrapR (vcv_get V s ns n) f a))" for ns n f a
      using storesVolumesD(1) [OF b] by (simp add: ensures_def)
    have ok: "ensures I (\<lambda>_. admitReplica csr cv = Ok ()) (readS (\<lambda>_. admitReplica csr cv))" for cv
      by (rule ensures_readS) simp
    have cfg: "keeps I (UpdateConfig V csr)" unfolding UpdateConfig_def by (rule storesVolumesD(7) [OF b])
    show ?thesis
      unfolding UpdateCVWithReplicationDetails_def option.case
      by (intro ensures_bind_any keeps_readS ensures_bindS [OF get] ensures_bindS [OF ok] ensures_keeps [OF ensures_update [OF b]]
          B_register keeps_ensures cfg)
  qed
  then show ?thesis
    unfolding ServeRequest_def by (intro keeps_intros ensures_keeps)
qed

end

end
