(* ===== verification/VolumeLife.thy ===== *)
theory VolumeLife
  imports SampleTarget VolumeScaling VolumeContract
begin

text \<open>
  The replicas a volume knows, over the life of the volume: the CVC operator sets how many are desired, istgt registers
  them through the volume manager, and the manager forgets them after a scale down. The bound on them is an instance of the manager's contract
  with the server.
\<close>

section \<open>Known replicas\<close>

text \<open>
  A volume knows at most as many replicas as are desired, each once, and every replica of its specification is
  also in its status.
\<close>

definition replicasBounded :: "CStorVolume \<Rightarrow> bool" where
  "replicasBounded cv \<longleftrightarrow>
     int (length (cv_KnownReplicas cv)) \<le> cv_DesiredReplicationFactor cv \<and> distinct (map fst (cv_KnownReplicas cv)) \<and>
     fst ` set (cv_KnownReplicas cv) \<subseteq> fst ` set (cv_StatusKnownReplicas cv)"

lemma length_mput: "length (mput k v m) = (if k \<in> fst ` set m then length m else Suc (length m))"
  by (simp add: mput_def)

lemma keys_mput: "fst ` set (mput k v m) = insert k (fst ` set m)"
  by (simp only: dom_map_of_conv_image_fst [symmetric] map_of_mput) simp

lemma registerReplica_bounded:
  assumes "replicasBounded cv" and "admitReplica csr cv = Ok ()"
  shows "replicasBounded (registerReplica csr cv)"
proof -
  have "csr_ReplicaID csr \<in> fst ` set (cv_KnownReplicas cv) \<or>
      int (length (cv_KnownReplicas cv)) < cv_DesiredReplicationFactor cv"
    using assms(2) by (auto simp: admitReplica_def mhas_def map_of_eq_None_iff split: if_splits)
  with assms(1) show ?thesis
    by (auto simp: replicasBounded_def registerReplica_def length_mput keys_mput distinct_mput)
qed

lemma loweredVolume_bounded:
  assumes "replicasBounded cv" and "cv_DesiredReplicationFactor cv \<le> int (length (cvc_ReplicaPoolInfo cvc)) + 1"
    and "cvr_ReplicaID cvr \<in> fst ` set (cv_KnownReplicas cv) \<or>
         int (length (cv_KnownReplicas cv)) < cv_DesiredReplicationFactor cv"
  shows "replicasBounded (loweredVolume cvc cvr cv)"
proof -
  let ?known = "cv_KnownReplicas cv" and ?id = "cvr_ReplicaID cvr"
  have "length (mdel ?id ?known) < length ?known" if "?id \<in> fst ` set ?known"
    unfolding mdel_def using that by (auto intro: length_filter_less)
  moreover have "length (mdel ?id ?known) \<le> length ?known" by (simp add: mdel_def)
  ultimately have "int (length (mdel ?id ?known)) \<le> int (length (cvc_ReplicaPoolInfo cvc))"
    using assms unfolding replicasBounded_def by linarith
  moreover have "distinct (map fst (mdel ?id ?known))" using assms(1) by (simp add: replicasBounded_def mdel_def distinct_map_filter)
  moreover have "fst ` set (mdel ?id ?known) \<subseteq> fst ` set (cv_StatusKnownReplicas cv)"
  proof -
    have "set (mdel ?id ?known) \<subseteq> set ?known" unfolding mdel_def by (rule filter_is_subset)
    then have "fst ` set (mdel ?id ?known) \<subseteq> fst ` set ?known" by (rule image_mono)
    also have "\<dots> \<subseteq> fst ` set (cv_StatusKnownReplicas cv)" using assms(1) by (simp only: replicasBounded_def)
    finally show ?thesis .
  qed
  ultimately show ?thesis by (simp add: replicasBounded_def loweredVolume_def)
qed

lemma replicasBounded_update [simp]:
  "replicasBounded (cv\<lparr>cv_Conditions := a\<rparr>) = replicasBounded cv"
  "replicasBounded (cv\<lparr>cv_StatusCapacity := b\<rparr>) = replicasBounded cv"
  "replicasBounded (cv\<lparr>cv_Phase := c\<rparr>) = replicasBounded cv"
  "replicasBounded (cv\<lparr>cv_LastUpdateTime := d\<rparr>) = replicasBounded cv"
  "replicasBounded (cv\<lparr>cv_LastTransitionTime := d\<rparr>) = replicasBounded cv"
  "replicasBounded (cv\<lparr>cv_ReplicaStatuses := e\<rparr>) = replicasBounded cv"
  "replicasBounded (cv\<lparr>cv_Version := f\<rparr>) = replicasBounded cv"
  "replicasBounded (cv\<lparr>cv_ReplicationFactor := g\<rparr>) = replicasBounded cv"
  "replicasBounded (cv\<lparr>cv_ConsistencyFactor := g\<rparr>) = replicasBounded cv"
  by (simp_all add: replicasBounded_def)

lemma replicasBounded_forget: "replicasBounded cv \<Longrightarrow> replicasBounded (cv\<lparr>cv_StatusKnownReplicas := cv_KnownReplicas cv\<rparr>)"
  by (simp add: replicasBounded_def)

interpretation bounded: managedVolumes replicasBounded
  by unfold_locales (simp_all add: registerReplica_bounded replicasBounded_forget)

text \<open>
  C10. A volume never knows more replicas than are desired, and its specification names none that its status does not: what the
  manager of the volume does, on any operation, on the requests istgt sends it, and at shutdown, keeps this of the stored volumes.
\<close>

theorem known_replicas_bounded:
  assumes "storesVolumes V replicasBounded I"
  shows "keeps I (cv_syncHandler V key op) \<and> keeps I (ServeRequest V conn) \<and> keeps I (markCVStatusToOffline V)"
  using bounded.keeps_cv_syncHandler bounded.keeps_ServeRequest bounded.keeps_markCVStatusToOffline assms by blast

lemma sample_stores: "storesVolumes sampleVenv B (storedVolumes B)"
proof -
  have "ensures (storedVolumes B) B (\<lambda>s. vcv_update sampleVenv s ns cv)" if "B cv" for ns cv
    by (rule ensuresI) (rule storedVolumes_update [where B = B and cv = cv], assumption, rule that, assumption)
  moreover have "ensures (storedVolumes B) B (readS (\<lambda>s. vcv_get sampleVenv s ns n))" for ns n
    by (rule ensures_readS)
      (auto simp: sampleVenv_def lookupObj_def storedVolumes_def list_all_iff dest: find_mem split: option.splits)
  moreover have "ensures (storedVolumes B) (list_all B) (readS (\<lambda>s. vcv_list sampleVenv s ns))" for ns
    by (rule ensures_readS) (simp add: sampleVenv_def storedVolumes_def)
  ultimately show ?thesis
    by (simp add: storesVolumes_def) (simp add: sampleVenv_def keeps_def sampleSend_def)
qed

text \<open>Replica \<open>r2\<close> registers with a volume that desires two replicas and knows one; a third is then refused.\<close>

theorem known_replicas_bounded_witness:
  "let cv = (sampleCV 2 [(''r1'', ''1'')])\<lparr>cv_ReplicationFactor := 1, cv_ConsistencyFactor := 1\<rparr>;
       line = (\<lambda>t. [ReadData t, ReadData [CHR 0x0D, CHR 0x0A]]);
       one = ServeRequest sampleVenv (line ''pvc-1 2 2 r2 2'') (emptyStore\<lparr>st_cvs := [cv]\<rparr>);
       two = ServeRequest sampleVenv (line ''pvc-1 3 2 r3 3'') (snd one)
   in storedVolumes replicasBounded (snd two) \<and> fst one = Ok (respOk @ endOfData) \<and> fst two = Ok (respErr @ endOfData) \<and>
      map cv_KnownReplicas (st_cvs (snd two)) = [[(''r1'', ''1''), (''r2'', ''2'')]]"
proof -
  let ?cv = "(sampleCV 2 [(''r1'', ''1'')])\<lparr>cv_ReplicationFactor := 1, cv_ConsistencyFactor := 1\<rparr>"
  let ?line = "\<lambda>t. [ReadData t, ReadData [CHR 0x0D, CHR 0x0A]]"
  let ?one = "ServeRequest sampleVenv (?line ''pvc-1 2 2 r2 2'') (emptyStore\<lparr>st_cvs := [?cv]\<rparr>)"
  let ?two = "ServeRequest sampleVenv (?line ''pvc-1 3 2 r3 3'') (snd ?one)"
  have k: "keeps (storedVolumes replicasBounded) (ServeRequest sampleVenv conn)" for conn
    using known_replicas_bounded [OF sample_stores] by blast
  have "replicasBounded ?cv" by (simp add: replicasBounded_def sampleCV_def)
  then have "storedVolumes replicasBounded (emptyStore\<lparr>st_cvs := [?cv]\<rparr>)" by (simp add: storedVolumes_def)
  then have "storedVolumes replicasBounded (snd ?one)" by (rule keepsD [OF k])
  then have "storedVolumes replicasBounded (snd ?two)" by (rule keepsD [OF k])
  moreover have "fst ?one = Ok (respOk @ endOfData)" by code_simp
  moreover have "fst ?two = Ok (respErr @ endOfData)" by code_simp
  moreover have "map cv_KnownReplicas (st_cvs (snd ?two)) = [[(''r1'', ''1''), (''r2'', ''2'')]]" by code_simp
  ultimately show ?thesis by (simp only: Let_def simp_thms)
qed

section \<open>From the operator to the target\<close>

text \<open>
  C25. The volume manager accepts a volume as the operator creates it exactly when the server gave it an identifier, the
  service has an address, the configuration has a name and a capacity, and at least one replica is asked for; the consistency factor is
  then a majority of the replicas.
\<close>

theorem created_volume_accepted:
  "CheckValidVolume ((newCV C service claim labels)\<lparr>UID := uid\<rparr>) = Ok () \<longleftrightarrow>
     uid \<noteq> '''' \<and> svc_ClusterIP service \<noteq> '''' \<and> Name claim \<noteq> '''' \<and>
     ParsedCapacity C (QuantityString C (cvc_Capacity claim)) \<noteq> 0 \<and> cvc_ReplicaCount claim \<ge> 1 \<and>
     2 * cv_ConsistencyFactor (newCV C service claim labels) > cv_ReplicationFactor (newCV C service claim labels)"
proof -
  have factor: "(n sdiv 2 < n \<longleftrightarrow> n \<ge> 1) \<and> (n \<ge> 1 \<longrightarrow> 2 * (n sdiv 2 + 1) > n \<and> n sdiv 2 \<ge> 0)" for n :: int
  proof (cases "n \<ge> 0")
    case True
    then have "n sdiv 2 = n div 2" by (cases "n = 0") (simp_all add: signed_divide_int_def)
    then show ?thesis using True by presburger
  next
    case False
    then have "n sdiv 2 = - (\<bar>n\<bar> div 2)" by (simp add: signed_divide_int_def)
    with False show ?thesis by presburger
  qed
  show ?thesis
    using factor [of "cvc_ReplicaCount claim"]
    by (auto simp: CheckValidVolume_def newCV_def consistencyFactor_def)
qed

text \<open>
  C29. When the replica that is to go does not exist any more, a scale down lowers the desired number of replicas but
  forgets no replica; not being in progress by the counts, it asks the server to delete a replica without a name, and when the server refuses
  it fails, in this and in every later round. The volume manager, which sees as many replicas in the specification as in the status, runs its
  scale up.
\<close>

theorem missing_replica_scales_up:
  assumes "'''' \<notin> fst ` set (cv_KnownReplicas cv)" and "length (cv_StatusKnownReplicas cv) = length (cv_KnownReplicas cv)"
    and cv: "cv_get C s (openebsNamespace C) (Name cvc) = Ok cv" and gone: "getScaleDownCVR C cvc s = Err (NotFound n)"
    and drf: "cv_DesiredReplicationFactor cv > int (length (cvc_ReplicaPoolInfo cvc))"
    and upd: "cv_update C s (openebsNamespace C) (cv\<lparr>cv_DesiredReplicationFactor := int (length (cvc_ReplicaPoolInfo cvc))\<rparr>) = (Ok cv', s')"
    and stored: "cv' = cv\<lparr>cv_DesiredReplicationFactor := int (length (cvc_ReplicaPoolInfo cvc))\<rparr>"
    and progress: "\<And>cv. IsScaleDownInProgress C cv \<longleftrightarrow> length (cv_KnownReplicas cv) < length (cv_StatusKnownReplicas cv)"
    and refused: "cvr_delete C s' (openebsNamespace C) '''' = (Err e, s'')"
  shows "(\<exists>e'. scaleDownVolumeReplicas C cvc s = (Ok (cvc, cvc, Some e'), s'')) \<and> cv_KnownReplicas cv' = cv_KnownReplicas cv \<and>
     updateCStorVolumeDRF V cv' = ignoreS (triggerScaleUpProcess V cv')"
proof -
  have "mdel (cvr_ReplicaID emptyCVR) (cv_KnownReplicas cv) = cv_KnownReplicas cv"
    using assms(1) by (force simp: mdel_def emptyCVR_def ObjectMeta.defs filter_id_conv)
  moreover have "Name emptyCVR = ''''" by (simp add: emptyCVR_def ObjectMeta.defs emptyMeta_def)
  ultimately have "\<exists>e'. scaleDownVolumeReplicas C cvc s = (Ok (cvc, cvc, Some e'), s'')"
    using cv gone drf upd refused assms(2)
    by (simp add: scaleDownVolumeReplicas_def finishScaleDown_def Let_def bindS_def attemptS_def updateCStorVolumeInfo_def stored progress)
  then show ?thesis using assms(2) stored by (simp add: updateCStorVolumeDRF_def)
qed

theorem missing_replica_scales_up_witness:
  "let cvc = boundCVC [''p1'', ''p2'', ''p3''] [''p1'', ''p2''] ''pdb'';
       cv = sampleCV 3 [(''id-p1'', ''1''), (''id-p2'', ''2''), (''id-p3'', ''3'')];
       s = volumeStore [cvc] [cv] [''p1'', ''p2'']; cv' = cv\<lparr>cv_DesiredReplicationFactor := 2\<rparr>
   in (\<exists>e. scaleDownVolumeReplicas sampleCenv cvc s = (Ok (cvc, cvc, Some e), s\<lparr>st_cvs := [cv']\<rparr>)) \<and>
      st_commands (snd (updateCStorVolumeDRF sampleVenv cv' s)) = [''DRF pvc-1 2'', ''set   DesiredReplicationFactor 2'']"
proof -
  let ?cvc = "boundCVC [''p1'', ''p2'', ''p3''] [''p1'', ''p2''] ''pdb''"
    and ?cv = "sampleCV 3 [(''id-p1'', ''1''), (''id-p2'', ''2''), (''id-p3'', ''3'')]"
  let ?s = "volumeStore [?cvc] [?cv] [''p1'', ''p2'']" and ?low = "?cv\<lparr>cv_DesiredReplicationFactor := int (length (cvc_ReplicaPoolInfo ?cvc))\<rparr>"
  have two: "int (length (cvc_ReplicaPoolInfo ?cvc)) = 2" by code_simp
  have "'''' \<notin> fst ` set (cv_KnownReplicas ?cv)" "length (cv_StatusKnownReplicas ?cv) = length (cv_KnownReplicas ?cv)"
    "cv_get sampleCenv ?s (openebsNamespace sampleCenv) (Name ?cvc) = Ok ?cv"
    "getScaleDownCVR sampleCenv ?cvc ?s = Err (NotFound ''pvc-1-p3'')"
    "cv_DesiredReplicationFactor ?cv > int (length (cvc_ReplicaPoolInfo ?cvc))"
    "cv_update sampleCenv ?s (openebsNamespace sampleCenv) ?low = (Ok ?low, ?s\<lparr>st_cvs := [?low]\<rparr>)" by code_simp+
  moreover have "cvr_delete sampleCenv (?s\<lparr>st_cvs := [?low]\<rparr>) (openebsNamespace sampleCenv) '''' =
      (Err (NotFound ''''), ?s\<lparr>st_cvs := [?low]\<rparr>)" by code_simp
  moreover have "IsScaleDownInProgress sampleCenv cv \<longleftrightarrow> length (cv_KnownReplicas cv) < length (cv_StatusKnownReplicas cv)" for cv
    by (simp add: sampleCenv_def)
  ultimately have "(\<exists>e. scaleDownVolumeReplicas sampleCenv ?cvc ?s = (Ok (?cvc, ?cvc, Some e), ?s\<lparr>st_cvs := [?low]\<rparr>)) \<and>
      updateCStorVolumeDRF sampleVenv ?low = ignoreS (triggerScaleUpProcess sampleVenv ?low)"
    using missing_replica_scales_up [OF _ _ _ _ _ _ refl, of ?cv sampleCenv ?s ?cvc "''pvc-1-p3''" "?s\<lparr>st_cvs := [?low]\<rparr>"
        "NotFound ''''" "?s\<lparr>st_cvs := [?low]\<rparr>" sampleVenv] by blast
  moreover have "st_commands (snd (ignoreS (triggerScaleUpProcess sampleVenv ?low) ?s)) =
      [''DRF pvc-1 2'', ''set   DesiredReplicationFactor 2'']" by code_simp
  ultimately show ?thesis by (simp add: Let_def two)
qed

section \<open>Requests of istgt\<close>

lemma Index_endOfData: "newline \<notin> set msg \<Longrightarrow> Index (msg @ endOfData) endOfData = Some (length msg)"
proof (induction msg)
  case Nil
  show ?case by (simp add: endOfData_def HasPrefix_def)
next
  case (Cons c msg)
  have "\<not> HasPrefix (c # msg @ endOfData) endOfData"
    using Cons.prems by (cases msg) (auto simp: HasPrefix_def endOfData_def)
  with Cons show ?case by simp
qed

lemma endOfData_only_last:
  assumes "acc @ rest = msg @ endOfData" "newline \<notin> set msg" "rest \<noteq> []"
  shows "\<not> HasSuffix acc endOfData"
proof
  assume "HasSuffix acc endOfData"
  then have "acc \<noteq> []" "last acc = newline"
    by (auto simp: HasSuffix_def endOfData_def) (metis last_appendR append_take_drop_id last.simps list.discI)
  moreover have "set acc \<subseteq> set (butlast (msg @ endOfData))"
    using assms(1, 3) by (metis butlast_append set_append sup_ge1)
  ultimately show False using assms(2) by (force simp: endOfData_def butlast_append dest: last_in_set)
qed

lemma readLoop_chunks:
  "acc @ concat bufs = msg @ endOfData \<Longrightarrow> newline \<notin> set msg \<Longrightarrow> concat bufs \<noteq> [] \<Longrightarrow>
   readLoop acc (map ReadData bufs) = Ok msg"
proof (induction bufs arbitrary: acc)
  case (Cons buf bufs)
  show ?case
  proof (cases "buf = [] \<or> concat bufs \<noteq> []")
    case True
    then have "buf = [] \<or> \<not> HasSuffix (acc @ buf) endOfData"
      using endOfData_only_last [of "acc @ buf" "concat bufs" msg] Cons.prems by auto
    with True Cons show ?thesis by (cases "buf = []") auto
  next
    case False
    then have "concat bufs = []" by simp
    with Cons.prems(1) have all: "acc @ buf = msg @ endOfData" by (simp only: concat.simps append_Nil2)
    have "HasSuffix (msg @ endOfData) endOfData" by (simp add: HasSuffix_def)
    with False all Cons.prems(2) show ?thesis by (simp add: firstField_def Index_endOfData)
  qed
qed simp

text \<open>
  C28. However the bytes of a request are cut into reads, the server reads the request: a text without line breaks, terminated as
  istgt terminates it.
\<close>

theorem request_reassembled:
  assumes "concat bufs = msg @ endOfData" and "newline \<notin> set msg"
  shows "Reader (map ReadData bufs) = Ok msg"
  unfolding Reader_def by (rule readLoop_chunks) (use assms in \<open>auto simp: endOfData_def\<close>)

theorem request_reassembled_witness:
  "Reader (map ReadData [''pvc-1 2'', [], '' 2 r2 2'' @ [CHR 0x0D], [CHR 0x0A]]) = Ok ''pvc-1 2 2 r2 2''"
  by (rule request_reassembled) (simp_all add: endOfData_def)

text \<open>A response of istgt with a closing brace and no opening one is sliced with a negative bound.\<close>

theorem status_without_brace_panics: "GetVolumeStatus (sampleVenv\<lparr>SendCommand := (\<lambda>c s. (Ok [''}''], s))\<rparr>) s = (Panic ''slice bounds out of range'', s)"
  by (simp add: GetVolumeStatus_def bindS_def replicaJSON_def HasPrefix_def)

text \<open>The comparison of versions as text takes 1.12.0 for older than 1.3.0, so a volume of that version passes without a desired factor.\<close>

theorem version_compared_as_text:
  "CheckValidVolume ((sampleCV 0 [])\<lparr>UID := ''u'', cv_TargetIP := ''10.0.0.1'', cv_ReplicationFactor := 3, cv_ConsistencyFactor := 2,
     cv_Version := emptyVersionDetails\<lparr>vd_Current := ''1.12.0''\<rparr>\<rparr>) = Ok ()"
  by code_simp

end
