(* ===== verification/VolumeProtocol.thy ===== *)
theory VolumeProtocol
  imports VolumeSafety VolumeLife
begin

text \<open>
  The CVC operator and the volume manager on one server. The operator creates volumes, sets how many replicas are desired and
  removes a replica from the specification; the manager registers replicas on the request of istgt and copies the specification to the status
  once istgt has confirmed a scale down. The operations are the steps of one transition relation; what both sides keep of the stored volumes is
  proved by rule induction from one lemma per operation.
\<close>

section \<open>The operator's side of the contract\<close>

text \<open>
  A server that stores volumes with a property, as the operator sees it. A merge patch between the encodings of a volume before and after
  a change of its capacity changes nothing else; deletions and the writes of other kinds do not touch volumes.
\<close>

definition operatorServer :: "'s cenv \<Rightarrow> (CStorVolume \<Rightarrow> bool) \<Rightarrow> ('s \<Rightarrow> bool) \<Rightarrow> bool" where
  "operatorServer C B I \<longleftrightarrow>
     otherWrites C I \<and> (\<forall>ns n. keeps I (\<lambda>s. pdb_delete C s ns n)) \<and> (\<forall>ns n. keeps I (\<lambda>s. cvr_delete C s ns n)) \<and>
     (\<forall>ns n. ensures I B (readS (\<lambda>s. cv_get C s ns n))) \<and>
     (\<forall>ns cv. B cv \<longrightarrow> ensures I B (\<lambda>s. cv_create C s ns cv)) \<and> (\<forall>ns cv. B cv \<longrightarrow> ensures I B (\<lambda>s. cv_update C s ns cv)) \<and>
     (\<forall>ns cv q bytes. getPatchData C (marshalCV C cv) (marshalCV C (cv\<lparr>cv_Capacity := q\<rparr>)) = Ok bytes \<longrightarrow>
        keeps I (\<lambda>s. cv_patch C s ns (Name cv) bytes))"

lemma operatorServerD:
  assumes "operatorServer C B I"
  shows "otherWrites C I" "keeps I (\<lambda>s. pdb_delete C s ns n)" "keeps I (\<lambda>s. cvr_delete C s ns n)"
    "ensures I B (readS (\<lambda>s. cv_get C s ns n))" "B cv \<Longrightarrow> ensures I B (\<lambda>s. cv_create C s ns cv)"
    "B cv \<Longrightarrow> ensures I B (\<lambda>s. cv_update C s ns cv)"
    "getPatchData C (marshalCV C cv) (marshalCV C (cv\<lparr>cv_Capacity := q\<rparr>)) = Ok bytes \<Longrightarrow> keeps I (\<lambda>s. cv_patch C s ns (Name cv) bytes)"
  using assms by (simp_all add: operatorServer_def)

lemma operatorServer_sole: "operatorServer C B I \<Longrightarrow> soleUserDeletes C I"
  using operatorServerD(2) by (fastforce simp: soleUserDeletes_def keeps_def)

text \<open>A property that the operator keeps as well: it holds of a volume without replicas, and survives both kinds of scaling.\<close>

locale sharedVolumes = managedVolumes +
  assumes B_new: "cv_KnownReplicas cv = [] \<Longrightarrow> cv_StatusKnownReplicas cv = [] \<Longrightarrow> B cv"
    and B_raise: "B cv \<Longrightarrow> cv_DesiredReplicationFactor cv < n \<Longrightarrow> B (cv\<lparr>cv_DesiredReplicationFactor := n\<rparr>)"
    and B_lower: "B cv \<Longrightarrow> n < cv_DesiredReplicationFactor cv \<Longrightarrow>
      B (cv\<lparr>cv_DesiredReplicationFactor := n, cv_KnownReplicas := mdel k (cv_KnownReplicas cv)\<rparr>)"
begin

lemma op_getOrCreateCStorVolumeResource:
  assumes o: "operatorServer C B I"
  shows "keeps I (getOrCreateCStorVolumeResource C svc claim)"
proof -
  have "B (newCV C svc claim labels)" for labels
    by (rule B_new) (simp_all add: newCV_def emptyCV_def ObjectMeta.defs)
  then have "keeps I (\<lambda>s. cv_create C s ns (newCV C svc claim labels))" for ns labels
    by (intro ensures_keeps [OF operatorServerD(5) [OF o]])
  then show ?thesis unfolding getOrCreateCStorVolumeResource_def Let_def by (intro keeps_intros)
qed

lemma op_updateCStorVolumeInfo: "operatorServer C B I \<Longrightarrow> B cv \<Longrightarrow> ensures I B (updateCStorVolumeInfo C cv)"
  unfolding updateCStorVolumeInfo_def by (rule operatorServerD(6))

lemma op_changed:
  assumes o: "operatorServer C B I" and "B cv" and "b \<Longrightarrow> B cv'"
  shows "ensures I (\<lambda>r. \<forall>x. r = Ok x \<longrightarrow> B x) (if b then attemptS (updateCStorVolumeInfo C cv') else returnS (Ok cv))"
  using assms by (intro ensures_if ensures_attemptS op_updateCStorVolumeInfo ensures_returnS) simp_all

lemma op_scaleUpVolumeReplicas:
  assumes o: "operatorServer C B I"
  shows "keeps I (scaleUpVolumeReplicas C cvc)"
proof -
  note w = operatorServerD(1) [OF o] and d = operatorServer_sole [OF o]
  have "ensures I (\<lambda>_. True) (scaleUpVolumeReplicas C cvc)"
    unfolding scaleUpVolumeReplicas_def Let_def
    by (rule ensures_bind_attempt [OF operatorServerD(4) [OF o]])
      (simp_all only: res.case, (intro ensures_bindS [OF op_changed [OF o]] ensures_case_res ensures_bind_any keeps_attemptS
        ensures_returnS ensures_panicS B_raise keeps_ensures keeps_handleVolumeReplicaCreation keeps_updateCVCWithScaledUpInfo w d
        | assumption | rule TrueI)+)
  then show ?thesis by (rule ensures_keeps)
qed

lemma op_scaleDownVolumeReplicas:
  assumes o: "operatorServer C B I"
  shows "keeps I (scaleDownVolumeReplicas C cvc)"
proof -
  note w = operatorServerD(1) [OF o] and d = operatorServer_sole [OF o]
  have "ensures I (\<lambda>_. True) (scaleDownVolumeReplicas C cvc)"
    unfolding scaleDownVolumeReplicas_def Let_def
    by (rule ensures_bind_attempt [OF operatorServerD(4) [OF o]])
      (simp_all only: res.case, (intro ensures_bindS [OF op_changed [OF o]] ensures_case_res ensures_bind_any keeps_attemptS keeps_readS
        ensures_if ensures_returnS ensures_panicS B_lower keeps_ensures keeps_finishScaleDown w d operatorServerD(3) [OF o]
        | assumption | rule TrueI)+)
  then show ?thesis by (rule ensures_keeps)
qed

lemma op_resizeCVC:
  assumes o: "operatorServer C B I"
  shows "keeps I (resizeCVC C cvc)"
proof -
  have "keeps I (resizeCV C cv q)" for cv q
  proof -
    have "ensures I (\<lambda>bytes. getPatchData C (marshalCV C cv) (marshalCV C (cv\<lparr>cv_Capacity := q\<rparr>)) = Ok bytes)
        (readS (\<lambda>_. quoteR (getPatchData C (marshalCV C cv) (marshalCV C (cv\<lparr>cv_Capacity := q\<rparr>))) f a))" for f a
      by (rule ensures_readS) (simp split: res.splits)
    then have "ensures I (\<lambda>_. True) (resizeCV C cv q)"
      unfolding resizeCV_def
      by (rule ensures_bindS) (intro ensures_bind_any operatorServerD(7) [OF o] ensures_returnS | assumption | rule TrueI)+
    then show ?thesis by (rule ensures_keeps)
  qed
  then show ?thesis
    unfolding resizeCVC_def by (intro keeps_intros keeps_markCVCResizeFinished keeps_markCVCResizeInProgress operatorServerD(1) [OF o])
qed

lemma op_syncVolume:
  assumes o: "operatorServer C B I"
  shows "keeps I (syncVolume C cvc)"
proof -
  note w = operatorServerD(1) [OF o]
  have "keeps I (createVolumeOperation C c)" for c
    unfolding createVolumeOperation_def Let_def
    by (intro keeps_intros op_getOrCreateCStorVolumeResource [OF o] cvc_intros | rule w)+
  moreover have "keeps I (scaleVolumeReplicas C c)" for c
    unfolding scaleVolumeReplicas_def by (intro keeps_intros op_scaleUpVolumeReplicas [OF o] op_scaleDownVolumeReplicas [OF o])
  ultimately show ?thesis
    unfolding syncVolume_def Let_def
    by (intro keeps_intros op_resizeCVC [OF o] keeps_syncPolicySpec w)
qed

lemma op_cvc_syncHandler:
  assumes o: "operatorServer C B I"
  shows "keeps I (cvc_syncHandler C key)"
proof -
  note w = operatorServerD(1) [OF o] and d = operatorServer_sole [OF o]
  have "keeps I (syncCVC C c)" for c
    unfolding syncCVC_def Let_def
    by (intro keeps_intros op_syncVolume [OF o] keeps_cvc_populateVersion keeps_cvc_reconcileVersion keeps_removeClaimFinalizer
        otherWritesD(3) w d)
  then show ?thesis unfolding cvc_syncHandler_def Let_def by (intro keeps_intros)
qed

end

section \<open>Tracked replicas\<close>

text \<open>Specification and status of a volume name each replica once, and the specification names none that the status does not.\<close>

definition replicasTracked :: "CStorVolume \<Rightarrow> bool" where
  "replicasTracked cv \<longleftrightarrow>
     distinct (map fst (cv_KnownReplicas cv)) \<and> distinct (map fst (cv_StatusKnownReplicas cv)) \<and>
     fst ` set (cv_KnownReplicas cv) \<subseteq> fst ` set (cv_StatusKnownReplicas cv)"

lemma keys_mdel: "fst ` set (mdel k m) = fst ` set m - {k}"
  by (auto simp: mdel_def)

lemma distinct_mdel: "distinct (map fst m) \<Longrightarrow> distinct (map fst (mdel k m))"
  by (simp add: mdel_def distinct_map_filter)

interpretation tracked: sharedVolumes replicasTracked
  by unfold_locales
    (auto simp: replicasTracked_def registerReplica_def keys_mput keys_mdel distinct_mput distinct_mdel)

text \<open>While the status names a replica that the specification does not, it has more entries.\<close>

lemma tracked_unconfirmed:
  assumes "replicasTracked cv" and "k \<in> fst ` set (cv_StatusKnownReplicas cv)" and "k \<notin> fst ` set (cv_KnownReplicas cv)"
  shows "length (cv_KnownReplicas cv) < length (cv_StatusKnownReplicas cv)"
proof -
  have "fst ` set (cv_KnownReplicas cv) \<subset> fst ` set (cv_StatusKnownReplicas cv)"
    using assms by (auto simp: replicasTracked_def)
  then have "card (fst ` set (cv_KnownReplicas cv)) < card (fst ` set (cv_StatusKnownReplicas cv))"
    by (rule psubset_card_mono [rotated]) simp
  then show ?thesis
    using assms(1) unfolding replicasTracked_def by (metis distinct_card length_map list.set_map)
qed

section \<open>The two processes\<close>

text \<open>
  The operator handles a configuration from its queue, the manager handles a volume from its queue, istgt asks the manager to register
  a replica, and the manager shuts down. A step is a whole round; a write that was overtaken by another one is refused by the server, which
  compares resource versions, and is one of the failures of the clients.
\<close>

inductive volumeStep :: "'s cenv \<Rightarrow> 's venv \<Rightarrow> 's \<Rightarrow> 's \<Rightarrow> bool" for C V where
  operator: "volumeStep C V s (snd (cvc_syncHandler C key s))"
| manager: "volumeStep C V s (snd (cv_syncHandler V key op s))"
| target: "volumeStep C V s (snd (ServeRequest V conn s))"
| shutdown: "volumeStep C V s (snd (markCVStatusToOffline V s))"

lemma step_keeps:
  assumes o: "operatorServer C replicasTracked I" and v: "storesVolumes V replicasTracked I"
    and "volumeStep C V s s'" and "I s"
  shows "I s'"
  using assms(3,4)
proof cases
  case (operator key)
  then show ?thesis using keepsD [OF tracked.op_cvc_syncHandler [OF o]] assms(4) by simp
next
  case (manager key op)
  then show ?thesis using keepsD [OF tracked.keeps_cv_syncHandler [OF v]] assms(4) by simp
next
  case (target conn)
  then show ?thesis using keepsD [OF tracked.keeps_ServeRequest [OF v]] assms(4) by simp
next
  case shutdown
  then show ?thesis using keepsD [OF tracked.keeps_markCVStatusToOffline [OF v]] assms(4) by simp
qed

lemma steps_keep:
  assumes o: "operatorServer C replicasTracked I" and v: "storesVolumes V replicasTracked I"
    and "(volumeStep C V)\<^sup>*\<^sup>* s s'" and "I s"
  shows "I s'"
  using assms(3,4) by (induction rule: rtranclp_induct) (auto intro: step_keeps [OF o v])


text \<open>The sample server and the sample target share the store.\<close>

lemma storedVolumes_storeWith:
  assumes "storedVolumes B s" and "\<And>xs. st_cvs (f xs s) = st_cvs s"
  shows "storedVolumes B (snd (storeWith f r x s))"
  using assms by (cases r) (simp_all add: storeWith_def storedVolumes_def)

lemma sample_otherWrites: "otherWrites sampleCenv (storedVolumes B)"
  unfolding otherWrites_def capi_sample
  by (auto simp: keeps_def sampleCenv_def sampleEnv_def Let_def intro!: storedVolumes_storeWith)
    (simp_all add: storedVolumes_def)

lemma sample_operatorServer: "operatorServer sampleCenv B (storedVolumes B)"
proof -
  have "ensures (storedVolumes B) B (readS (\<lambda>s. cv_get sampleCenv s ns n))" for ns n
    by (rule ensures_readS)
      (auto simp: sampleCenv_def lookupObj_def storedVolumes_def list_all_iff dest: find_mem split: option.splits)
  moreover have "ensures (storedVolumes B) B (\<lambda>s. cv_create sampleCenv s ns cv)" if "B cv" for ns cv
    by (rule ensuresI) (use that in \<open>auto simp: sampleCenv_def storeWith_def insertObj_def storedVolumes_def list_all_iff split: if_splits\<close>)
  moreover have "ensures (storedVolumes B) B (\<lambda>s. cv_update sampleCenv s ns cv)" if "B cv" for ns cv
    by (rule ensuresI) (use that in \<open>auto simp: sampleCenv_def storeWith_def replaceObj_def storedVolumes_def list_all_iff split: if_splits\<close>)
  moreover have "keeps (storedVolumes B) (\<lambda>s. pdb_delete sampleCenv s ns n)" "keeps (storedVolumes B) (\<lambda>s. cvr_delete sampleCenv s ns n)"
    "keeps (storedVolumes B) (\<lambda>s. cv_patch sampleCenv s ns n p)" for ns n p
    by (auto simp: keeps_def sampleCenv_def intro!: storedVolumes_storeWith)
  ultimately show ?thesis by (simp add: operatorServer_def sample_otherWrites)
qed


section \<open>A scale down across the two processes\<close>

text \<open>
  A server both processes see: \<open>view\<close> gives its volumes, \<open>put\<close> stores one. Reads return what is stored, updates of an existing volume
  succeed; commands to istgt and writes of its file change neither volumes nor replicas.
\<close>

definition sharedStore :: "'s cenv \<Rightarrow> 's venv \<Rightarrow> ('s \<Rightarrow> string \<Rightarrow> CStorVolume option) \<Rightarrow> (CStorVolume \<Rightarrow> 's \<Rightarrow> 's) \<Rightarrow> bool" where
  "sharedStore C V view put \<longleftrightarrow>
     (\<forall>s ns n. cv_get C s ns n = (case view s n of None \<Rightarrow> Err (NotFound n) | Some cv \<Rightarrow> Ok cv)) \<and>
     (\<forall>s ns cv. view s (Name cv) \<noteq> None \<longrightarrow> cv_update C s ns cv = (Ok cv, put cv s) \<and> vcv_update V s ns cv = (Ok cv, put cv s)) \<and>
     (\<forall>s n cv. view s n = Some cv \<longrightarrow> Name cv = n) \<and> (\<forall>s cv. view (put cv s) = (view s)(Name cv \<mapsto> cv)) \<and>
     (\<forall>s c. view (snd (SendCommand V c s)) = view s) \<and> (\<forall>s f d. view (snd (UpdateOrAppendMultipleLines V f d s)) = view s) \<and>
     (\<forall>s cv. cvr_get (rep C) (put cv s) = cvr_get (rep C) s) \<and>
     (\<forall>s c. cvr_get (rep C) (snd (SendCommand V c s)) = cvr_get (rep C) s) \<and>
     (\<forall>s f d. cvr_get (rep C) (snd (UpdateOrAppendMultipleLines V f d s)) = cvr_get (rep C) s)"

text \<open>A target that accepts commands and reports the volume and the replicas of its specification to be healthy.\<close>

definition healthyTarget :: "'s venv \<Rightarrow> CStorVolume \<Rightarrow> bool" where
  "healthyTarget V cv \<longleftrightarrow>
     (\<forall>s. \<exists>st. GetVolumeStatus V s = (Ok st, snd (SendCommand V (IstgtReplicaCmd V) s)) \<and>
        cvs_Status st = cvPhase CVStatusHealthy \<and> AreSpecReplicasHealthy V cv st) \<and>
     GetRemovingReplicaID V cv \<noteq> '''' \<and> (\<forall>s c. \<exists>out. fst (SendCommand V c s) = Ok out \<and> errorResponse out = None) \<and>
     (\<forall>s f d. fst (UpdateOrAppendMultipleLines V f d s) = Ok ())"

lemma sharedStoreD:
  assumes "sharedStore C V view put"
  shows "cv_get C s ns n = (case view s n of None \<Rightarrow> Err (NotFound n) | Some cv \<Rightarrow> Ok cv)"
    "view s (Name cv) \<noteq> None \<Longrightarrow> cv_update C s ns cv = (Ok cv, put cv s)"
    "view s (Name cv) \<noteq> None \<Longrightarrow> vcv_update V s ns cv = (Ok cv, put cv s)"
    "view s n = Some cv \<Longrightarrow> Name cv = n" "view (put cv s) = (view s)(Name cv \<mapsto> cv)"
    "view (snd (SendCommand V c s)) = view s" "view (snd (UpdateOrAppendMultipleLines V f d s)) = view s"
    "cvr_get (rep C) (put cv s) = cvr_get (rep C) s"
    "cvr_get (rep C) (snd (SendCommand V c s)) = cvr_get (rep C) s"
    "cvr_get (rep C) (snd (UpdateOrAppendMultipleLines V f d s)) = cvr_get (rep C) s"
  using assms by (simp_all add: sharedStore_def)

lemma snd_ignoreS: "snd (ignoreS m s) = snd (m s)"
  by (simp add: ignoreS_def bindS_def attemptS_def split: prod.split res.split)

lemma healthy_command:
  assumes "healthyTarget V cv"
  shows "ExecuteDesiredReplicationFactorCommand V x f t = (Ok (), snd (SendCommand V (f x) t))"
proof -
  obtain out t' where "SendCommand V (f x) t = (Ok out, t')" "errorResponse out = None"
    using assms by (metis healthyTarget_def prod.collapse)
  then show ?thesis by (simp add: ExecuteDesiredReplicationFactorCommand_def bindS_def wrapS_def)
qed

text \<open>The manager's scale down: the status becomes the specification, nothing else of the two lists changes.\<close>

lemma manager_confirms:
  assumes sh: "sharedStore C V view put" and h: "healthyTarget V cv" and stored: "view s (Name cv) \<noteq> None"
    and less: "length (cv_KnownReplicas cv) < length (cv_StatusKnownReplicas cv)"
  shows "\<exists>cv'. view (snd (updateCStorVolumeDRF V cv s)) (Name cv) = Some cv' \<and> cv_KnownReplicas cv' = cv_KnownReplicas cv \<and>
     cv_StatusKnownReplicas cv' = cv_KnownReplicas cv \<and> cv_DesiredReplicationFactor cv' = cv_DesiredReplicationFactor cv \<and>
     cvr_get (rep C) (snd (updateCStorVolumeDRF V cv s)) = cvr_get (rep C) s"
proof -
  note d = sharedStoreD [OF sh]
  let ?s1 = "snd (SendCommand V (IstgtReplicaCmd V) s)"
  obtain st where st: "GetVolumeStatus V s = (Ok st, ?s1)" "cvs_Status st = cvPhase CVStatusHealthy" "AreSpecReplicasHealthy V cv st"
    using h unfolding healthyTarget_def by blast
  define low where "low = cv\<lparr>cv_ReplicationFactor := cv_DesiredReplicationFactor cv,
    cv_ConsistencyFactor := cv_DesiredReplicationFactor cv sdiv 2 + 1\<rparr>"
  let ?data = "BuildScaleDownConfigData V cv (GetRemovingReplicaID V cv)"
  define b where "b \<longleftrightarrow> cv_DesiredReplicationFactor cv < cv_ReplicationFactor cv"
  define cv2 where "cv2 = (if b then low else cv)"
  define U where "U f m t = snd (UpdateOrAppendMultipleLines V f m t)" for f m t
  define s2 where "s2 = (if b then put low (U (typesIstgtConfPath V) ?data ?s1) else ?s1)"
  have up: "UpdateOrAppendMultipleLines V f m t = (Ok (), U f m t)" for f m t
    using h by (simp add: healthyTarget_def prod_eq_iff U_def)
  note cmd = healthy_command [OF h]
  have n2: "Name cv2 = Name cv" "cv_KnownReplicas cv2 = cv_KnownReplicas cv" "cv_DesiredReplicationFactor cv2 = cv_DesiredReplicationFactor cv"
    by (simp_all add: cv2_def low_def)
  have v2: "view s2 (Name cv) \<noteq> None" "cvr_get (rep C) s2 = cvr_get (rep C) s"
    using stored by (simp_all add: s2_def U_def d low_def)
  let ?last = "cv2\<lparr>cv_StatusKnownReplicas := cv_KnownReplicas cv2\<rparr>"
    and ?s3 = "snd (SendCommand V (GetScaleDownCommand V cv2) s2)"
  have first: "vcv_update V (U f m ?s1) ns low = (Ok low, put low (U f m ?s1))" for f m ns
    by (rule d(3)) (use stored in \<open>simp add: U_def d low_def\<close>)
  have final: "vcv_update V ?s3 ns ?last = (Ok ?last, put ?last ?s3)" for ns
    by (rule d(3)) (use v2 n2 in \<open>simp add: d\<close>)
  have "snd (triggerScaleDownProcess V cv s) = put ?last ?s3"
  proof (cases b)
    case True
    then have "cv2 = low" and s2: "s2 = put low (U (typesIstgtConfPath V) ?data ?s1)"
      by (simp_all add: cv2_def s2_def)
    with True final st h first cmd up show ?thesis
      by (simp add: triggerScaleDownProcess_def bindS_def wrapS_def Let_def healthyTarget_def b_def flip: low_def)
  next
    case False
    then have "cv2 = cv" "s2 = ?s1" by (simp_all add: cv2_def s2_def)
    with False final st h cmd show ?thesis
      by (simp add: triggerScaleDownProcess_def bindS_def wrapS_def Let_def healthyTarget_def b_def)
  qed
  then have "snd (updateCStorVolumeDRF V cv s) = put ?last ?s3"
    using less by (simp add: updateCStorVolumeDRF_def snd_ignoreS)
  then show ?thesis using n2 v2 by (simp add: d)
qed


definition sampleView :: "store \<Rightarrow> string \<Rightarrow> CStorVolume option" where
  "sampleView s n = find (\<lambda>cv. Name cv = n) (st_cvs s)"

definition samplePut :: "CStorVolume \<Rightarrow> store \<Rightarrow> store" where
  "samplePut cv s =
     s\<lparr>st_cvs := if Name cv \<in> Name ` set (st_cvs s) then map (\<lambda>y. if Name y = Name cv then cv else y) (st_cvs s) else st_cvs s @ [cv]\<rparr>"

lemma find_replaced:
  "find (\<lambda>x. nm x = n) (map (\<lambda>y. if nm y = nm c then c else y) xs) =
     (if n = nm c \<and> nm c \<in> nm ` set xs then Some c else find (\<lambda>x. nm x = n) xs)"
  by (induction xs) auto

lemma find_None_keys: "find (\<lambda>x. nm x = n) xs = None \<longleftrightarrow> n \<notin> nm ` set xs"
  by (induction xs) auto

lemma find_snoc: "find P (xs @ [x]) = (case find P xs of None \<Rightarrow> if P x then Some x else None | Some y \<Rightarrow> Some y)"
  by (induction xs) auto

lemma sample_sharedStore: "sharedStore sampleCenv sampleVenv sampleView samplePut"
proof -
  have "sampleView (samplePut cv s) = (sampleView s)(Name cv \<mapsto> cv)" for cv s
  proof (cases "Name cv \<in> Name ` set (st_cvs s)")
    case False
    then have "find (\<lambda>x. Name x = Name cv) (st_cvs s) = None" by (simp only: find_None_keys not_False_eq_True)
    with False show ?thesis by (auto simp: sampleView_def samplePut_def find_snoc fun_eq_iff split: option.split)
  qed (simp add: sampleView_def samplePut_def find_replaced fun_eq_iff)
  moreover have "cv_get sampleCenv s ns n = (case sampleView s n of None \<Rightarrow> Err (NotFound n) | Some cv \<Rightarrow> Ok cv)" for s ns n
    by (simp add: sampleCenv_def lookupObj_def sampleView_def)
  moreover have "cv_update sampleCenv s ns cv = (Ok cv, samplePut cv s) \<and> vcv_update sampleVenv s ns cv = (Ok cv, samplePut cv s)"
    if "sampleView s (Name cv) \<noteq> None" for s ns cv
    using that by (simp add: sampleCenv_def sampleVenv_def sampleView_def find_None_keys storeWith_def replaceObj_def samplePut_def)
  moreover have "Name cv = n" if "sampleView s n = Some cv" for s n cv
    using that by (auto simp: sampleView_def find_Some_iff)
  moreover have "sampleView (snd (SendCommand sampleVenv c s)) = sampleView s"
    "sampleView (snd (UpdateOrAppendMultipleLines sampleVenv f d s)) = sampleView s" for c f d s
    by (simp_all add: sampleVenv_def sampleSend_def sampleView_def fun_eq_iff)
  moreover have "cvr_get (rep sampleCenv) (samplePut cv s) = cvr_get (rep sampleCenv) s"
    "cvr_get (rep sampleCenv) (snd (SendCommand sampleVenv c s)) = cvr_get (rep sampleCenv) s"
    "cvr_get (rep sampleCenv) (snd (UpdateOrAppendMultipleLines sampleVenv f d s)) = cvr_get (rep sampleCenv) s" for cv c f d s
    by (simp_all add: sampleCenv_def sampleRenv_def sampleVenv_def sampleSend_def samplePut_def fun_eq_iff)
  ultimately show ?thesis by (simp add: sharedStore_def)
qed

lemma sample_healthy: "GetRemovingReplicaID sampleVenv cv \<noteq> '''' \<Longrightarrow> healthyTarget sampleVenv cv"
proof -
  assume id: "GetRemovingReplicaID sampleVenv cv \<noteq> ''''"
  let ?st = "\<lparr>cvs_Name = ''pvc-1'', cvs_Status = ''Healthy'', cvs_ReplicaStatuses = [\<lparr>rs_ID = ''1'', rs_Mode = ''Healthy''\<rparr>]\<rparr>"
  have "bindR (replicaJSON sampleVenv (''['' @ Join [''REPLICA'', ''{v}''] '' '' @ '']'')) (extractReplicaStatusFromJSON sampleVenv) = Ok ?st"
    by code_simp
  moreover have "SendCommand sampleVenv c s = (Ok [''REPLICA'', ''{v}''], s\<lparr>st_commands := st_commands s @ [c]\<rparr>)" for c s
    by (simp add: sampleVenv_def sampleSend_def)
  ultimately have "GetVolumeStatus sampleVenv s = (Ok ?st, snd (SendCommand sampleVenv (IstgtReplicaCmd sampleVenv) s))" for s
    unfolding GetVolumeStatus_def bindS_def readS_def by (simp only: prod.case res.case snd_conv)
  moreover have "cvs_Status ?st = cvPhase CVStatusHealthy" by code_simp
  moreover have "AreSpecReplicasHealthy sampleVenv cv ?st" by (simp add: sampleVenv_def)
  moreover have "errorResponse [''REPLICA'', ''{v}''] = None" by code_simp
  moreover have "fst (SendCommand sampleVenv c s) = Ok [''REPLICA'', ''{v}'']"
    "fst (UpdateOrAppendMultipleLines sampleVenv f d s) = Ok ()" for c f d s by (simp_all add: sampleVenv_def sampleSend_def)
  ultimately show ?thesis unfolding healthyTarget_def using id by (intro conjI allI exI) (assumption | rule refl)+
qed


end
