(* ===== verification/BackupController.thy ===== *)
theory BackupController
  imports ReplicaController
begin

text \<open>
  The backup and restore controllers of the pool manager, \<open>pkg/controllers/backup-controller\<close> and
  \<open>pkg/controllers/restore-controller\<close>: their event handlers, synchronisation, and the clean up when the process starts.
\<close>

section \<open>Parameters\<close>

text \<open>
  The clients of both versions of the API for backups, completed backups and restores, the methods on a status and the
  constants of \<open>github.com/openebs/api\<close>.
\<close>

record 's benv =
  brep :: "'s renv"
  bkp_get :: "'s \<Rightarrow> string \<Rightarrow> string \<Rightarrow> CStorBackup res"
  bkp_list :: "'s \<Rightarrow> string \<Rightarrow> string \<Rightarrow> CStorBackup list res"
  bkp_create :: "'s \<Rightarrow> string \<Rightarrow> CStorBackup \<Rightarrow> verdict \<times> 's"
  bkp_update :: "'s \<Rightarrow> string \<Rightarrow> CStorBackup \<Rightarrow> verdict \<times> 's"
  bkp_delete :: "'s \<Rightarrow> string \<Rightarrow> string \<Rightarrow> verdict \<times> 's"
  abkp_get :: "'s \<Rightarrow> string \<Rightarrow> string \<Rightarrow> CStorBackup res"
  abkp_create :: "'s \<Rightarrow> string \<Rightarrow> CStorBackup \<Rightarrow> verdict \<times> 's"
  abkp_update :: "'s \<Rightarrow> string \<Rightarrow> CStorBackup \<Rightarrow> verdict \<times> 's"
  abkp_delete :: "'s \<Rightarrow> string \<Rightarrow> string \<Rightarrow> verdict \<times> 's"
  ccb_get :: "'s \<Rightarrow> string \<Rightarrow> string \<Rightarrow> CStorCompletedBackup res"
  ccb_create :: "'s \<Rightarrow> string \<Rightarrow> CStorCompletedBackup \<Rightarrow> verdict \<times> 's"
  ccb_update :: "'s \<Rightarrow> string \<Rightarrow> CStorCompletedBackup \<Rightarrow> verdict \<times> 's"
  ccb_delete :: "'s \<Rightarrow> string \<Rightarrow> string \<Rightarrow> verdict \<times> 's"
  acb_get :: "'s \<Rightarrow> string \<Rightarrow> string \<Rightarrow> V1Alpha1CompletedBackup res"
  acb_create :: "'s \<Rightarrow> string \<Rightarrow> V1Alpha1CompletedBackup \<Rightarrow> verdict \<times> 's"
  acb_update :: "'s \<Rightarrow> string \<Rightarrow> V1Alpha1CompletedBackup \<Rightarrow> verdict \<times> 's"
  acb_delete :: "'s \<Rightarrow> string \<Rightarrow> string \<Rightarrow> verdict \<times> 's"
  rst_get :: "'s \<Rightarrow> string \<Rightarrow> string \<Rightarrow> CStorRestore res"
  rst_list :: "'s \<Rightarrow> string \<Rightarrow> string \<Rightarrow> CStorRestore list res"
  rst_create :: "'s \<Rightarrow> string \<Rightarrow> CStorRestore \<Rightarrow> verdict \<times> 's"
  rst_update :: "'s \<Rightarrow> string \<Rightarrow> CStorRestore \<Rightarrow> verdict \<times> 's"
  arst_get :: "'s \<Rightarrow> string \<Rightarrow> string \<Rightarrow> CStorRestore res"
  arst_list :: "'s \<Rightarrow> string \<Rightarrow> string \<Rightarrow> CStorRestore list res"
  arst_create :: "'s \<Rightarrow> string \<Rightarrow> CStorRestore \<Rightarrow> verdict \<times> 's"
  arst_update :: "'s \<Rightarrow> string \<Rightarrow> CStorRestore \<Rightarrow> verdict \<times> 's"
  bkpIsSucceeded :: "CStorBackup \<Rightarrow> bool"
  bkpIsFailed :: "CStorBackup \<Rightarrow> bool"
  bkpIsPending :: "CStorBackup \<Rightarrow> bool"
  bkpIsInInit :: "CStorBackup \<Rightarrow> bool"
  rstIsSucceeded :: "CStorRestore \<Rightarrow> bool"
  rstIsFailed :: "CStorRestore \<Rightarrow> bool"
  rstIsPending :: "CStorRestore \<Rightarrow> bool"
  rstIsInInit :: "CStorRestore \<Rightarrow> bool"
  BKPCStorStatusDone :: string
  BKPCStorStatusFailed :: string
  BKPCStorStatusInit :: string
  BKPCStorStatusPending :: string
  BKPCStorStatusInProgress :: string
  BKPCStorStatusInvalid :: string
  RSTCStorStatusEmpty :: string
  RSTCStorStatusDone :: string
  RSTCStorStatusFailed :: string
  RSTCStorStatusInit :: string
  RSTCStorStatusPending :: string
  RSTCStorStatusInProgress :: string
  RSTCStorStatusInvalid :: string
  CStorPoolInstanceUIDLabelKey :: string

abbreviation bapi :: "'s benv \<Rightarrow> 's env" where
  "bapi B \<equiv> api (pool (brep B))"

section \<open>Backups\<close>

definition bkp_IsRightCStorPoolInstanceMgmt :: "'s benv \<Rightarrow> CStorBackup \<Rightarrow> bool" where
  "bkp_IsRightCStorPoolInstanceMgmt B bkp = (cspiIdEnv (pool (brep B)) = mget (Labels bkp) (CStorPoolInstanceUIDLabelKey B))"

definition bkp_IsDestroyEvent :: "CStorBackup \<Rightarrow> bool" where
  "bkp_IsDestroyEvent bkp = (DeletionTimestamp bkp \<noteq> None)"

definition updateBackupStatus :: "'s benv \<Rightarrow> CStorBackup \<Rightarrow> string \<Rightarrow> ('s, unit) act" where
  "updateBackupStatus B bkp status = ignoreS (\<lambda>s. bkp_update B s (Namespace bkp) (bkp\<lparr>bkp_Status := status\<rparr>))"

definition findLastBackupStat :: "'s benv \<Rightarrow> CStorBackup \<Rightarrow> 's \<Rightarrow> string res" where
  "findLastBackupStat B bkp s =
     (case ccb_get B s (Namespace bkp) (bkp_BackupName bkp @ ''-'' @ bkp_VolumeName bkp) of
        Panic m \<Rightarrow> Panic m
      | Err e \<Rightarrow> Ok (BKPCStorStatusFailed B)
      | Ok lastbkp \<Rightarrow>
          Ok (if bkp_SnapName bkp = ccb_LastSnapName lastbkp \<or> bkp_SnapName bkp = ccb_SecondLastSnapName lastbkp
              then BKPCStorStatusDone B else BKPCStorStatusFailed B))"

definition cleanupBackup :: "'s benv \<Rightarrow> CStorBackup \<Rightarrow> ('s, unit) act" where
  "cleanupBackup B bkp =
     (if bkp_Status bkp = BKPCStorStatusInProgress B
      then bindS (readS (findLastBackupStat B bkp)) (\<lambda>laststate. updateBackupStatus B bkp laststate)
      else if bkp_Status bkp = BKPCStorStatusDone B then returnS ()
      else updateBackupStatus B bkp (BKPCStorStatusFailed B))"

definition cleanupOldBackup :: "'s benv \<Rightarrow> ('s, unit) act" where
  "cleanupOldBackup B =
     bindS (attemptS (readS (\<lambda>s. bkp_list B s '''' (CStorPoolInstanceUIDLabelKey B @ ''='' @ cspiIdEnv (pool (brep B)))))) (\<lambda>r.
       case r of
         Panic m \<Rightarrow> panicS m
       | Err e \<Rightarrow> returnS ()
       | Ok bkplist \<Rightarrow> foldS (\<lambda>bkp _. cleanupBackup B bkp) bkplist ())"

text \<open>The handlers of the informer; the update handler gets the resource versions.\<close>

definition handleBKPAddEvent :: "'s benv \<Rightarrow> CStorBackup \<Rightarrow> QueueOperation option" where
  "handleBKPAddEvent B bkp = (if \<not> bkp_IsRightCStorPoolInstanceMgmt B bkp then None else Some QOpAdd)"

definition handleBKPUpdateEvent :: "'s benv \<Rightarrow> string \<times> CStorBackup \<Rightarrow> string \<times> CStorBackup \<Rightarrow> QueueOperation option" where
  "handleBKPUpdateEvent B old new =
     (if \<not> bkp_IsRightCStorPoolInstanceMgmt B (snd new) then None
      else if fst new = fst old then None
      else if bkp_IsDestroyEvent (snd new) then Some QOpDestroy else Some QOpSync)"

definition getCStorBackupResource :: "'s benv \<Rightarrow> string \<Rightarrow> 's \<Rightarrow> CStorBackup option res" where
  "getCStorBackupResource B key s =
     (case SplitMetaNamespaceKey (bapi B) key of
        Panic m \<Rightarrow> Panic m
      | Err e \<Rightarrow> Ok None
      | Ok (ns, name) \<Rightarrow>
          (case bkp_get B s ns name of
             Panic m \<Rightarrow> Panic m
           | Err e \<Rightarrow> if IsNotFound e then Ok None else Err e
           | Ok bkp \<Rightarrow> Ok (Some bkp)))"

definition updateCStorCompletedBackup :: "'s benv \<Rightarrow> CStorBackup \<Rightarrow> ('s, unit) act" where
  "updateCStorCompletedBackup B bkp =
     (let ns = Namespace bkp; lastbkpname = bkp_BackupName bkp @ ''-'' @ bkp_VolumeName bkp in
      bindS (attemptS (readS (\<lambda>s. acb_get B s ns lastbkpname))) (\<lambda>r.
        case r of
          Panic m \<Rightarrow> panicS m
        | Ok completed \<Rightarrow>
            (\<lambda>s. acb_update B s ns (completed\<lparr>acb_SnapName := acb_PrevSnapName completed, acb_PrevSnapName := bkp_SnapName bkp\<rparr>))
        | Err _ \<Rightarrow>
            bindS (attemptS (readS (\<lambda>s. ccb_get B s ns lastbkpname))) (\<lambda>r.
              case r of
                Panic m \<Rightarrow> panicS m
              | Err _ \<Rightarrow> returnS ()
              | Ok bkplast \<Rightarrow>
                  (\<lambda>s. ccb_update B s ns (bkplast\<lparr>ccb_SecondLastSnapName := ccb_LastSnapName bkplast, ccb_LastSnapName := bkp_SnapName bkp\<rparr>)))))"

text \<open>The status, empty for none, beside the error.\<close>

definition bkp_addEventHandler :: "'s benv \<Rightarrow> CStorBackup \<Rightarrow> ('s pm, string \<times> goerr option) act" where
  "bkp_addEventHandler B bkp =
     returnS (if \<not> bkpIsPending B bkp then BKPCStorStatusInvalid B else BKPCStorStatusInit B, None)"

definition bkp_syncEventHandler :: "'s benv \<Rightarrow> CStorBackup \<Rightarrow> ('s pm, string \<times> goerr option) act" where
  "bkp_syncEventHandler B bkp =
     (if bkpIsInInit B bkp
      then
        let bkp = bkp\<lparr>bkp_Status := BKPCStorStatusInProgress B\<rparr> in
        bindS (attemptS (onWorld (\<lambda>s. bkp_update B s (Namespace bkp) bkp))) (\<lambda>r.
          case r of
            Panic m \<Rightarrow> panicS m
          | Err e \<Rightarrow> returnS ('''', Some e)
          | Ok _ \<Rightarrow>
              bindS (attemptS (CreateVolumeBackup (brep B) bkp)) (\<lambda>r.
                case r of
                  Panic m \<Rightarrow> panicS m
                | Err e \<Rightarrow> returnS (BKPCStorStatusFailed B, Some e)
                | Ok _ \<Rightarrow>
                    bindS (attemptS (onWorld (updateCStorCompletedBackup B bkp))) (\<lambda>r.
                      case r of
                        Panic m \<Rightarrow> panicS m
                      | Err e \<Rightarrow> returnS (BKPCStorStatusFailed B, Some e)
                      | Ok _ \<Rightarrow> returnS (BKPCStorStatusDone B, None))))
      else returnS ('''', None))"

definition bkp_eventHandler :: "'s benv \<Rightarrow> QueueOperation \<Rightarrow> CStorBackup \<Rightarrow> ('s pm, string \<times> goerr option) act" where
  "bkp_eventHandler B operation bkp =
     (case operation of
        QOpAdd \<Rightarrow> bkp_addEventHandler B bkp
      | QOpDestroy \<Rightarrow> returnS ('''', None)
      | QOpSync \<Rightarrow> bkp_syncEventHandler B bkp
      | _ \<Rightarrow> returnS (BKPCStorStatusInvalid B, None))"

text \<open>The status is written to the object as the server has it at that time.\<close>

definition bkp_syncHandler :: "'s benv \<Rightarrow> string \<Rightarrow> QueueOperation \<Rightarrow> ('s pm, unit) act" where
  "bkp_syncHandler B key operation =
     bindS (readW (getCStorBackupResource B key)) (\<lambda>found.
       case found of
         None \<Rightarrow> failS (Errorf ''cannot retrieve CStorBackup %q'' [AS key])
       | Some bkp \<Rightarrow>
           if bkpIsSucceeded B bkp \<or> bkpIsFailed B bkp then returnS ()
           else
             bindS (bkp_eventHandler B operation bkp) (\<lambda>(status, err).
               if status = '''' then returnS ()
               else
                 bindS (readW (\<lambda>s. bkp_get B s (Namespace bkp) (Name bkp))) (\<lambda>nbkp.
                 onWorld (\<lambda>s. bkp_update B s (Namespace nbkp)
                   (nbkp\<lparr>bkp_Status := (if err \<noteq> None then BKPCStorStatusFailed B else status)\<rparr>)))))"

section \<open>Restores\<close>

definition IsRightCStorPoolMgmt :: "'s benv \<Rightarrow> CStorRestore \<Rightarrow> bool" where
  "IsRightCStorPoolMgmt B rst = (cspiIdEnv (pool (brep B)) = mget (Labels rst) (CStorPoolInstanceUIDLabelKey B))"

definition rst_IsDestroyEvent :: "CStorRestore \<Rightarrow> bool" where
  "rst_IsDestroyEvent rst = (DeletionTimestamp rst \<noteq> None)"

definition rstSpec where
  "rstSpec r = (rst_RestoreName r, rst_VolumeName r, rst_RestoreSrc r, rst_MaxRetryCount r, rst_RetryCount r,
     rst_StorageClass r, rst_Size r, rst_Local r)"

definition rst_IsOnlyStatusChange :: "CStorRestore \<Rightarrow> CStorRestore \<Rightarrow> bool" where
  "rst_IsOnlyStatusChange old new = (rstSpec old = rstSpec new \<and> rst_Status old \<noteq> rst_Status new)"

definition updateRestoreStatus :: "'s benv \<Rightarrow> CStorRestore \<Rightarrow> string \<Rightarrow> ('s, unit) act" where
  "updateRestoreStatus B rst status = ignoreS (\<lambda>s. rst_update B s (Namespace rst) (rst\<lparr>rst_Status := status\<rparr>))"

definition cleanupOldRestore :: "'s benv \<Rightarrow> ('s, unit) act" where
  "cleanupOldRestore B =
     bindS (attemptS (readS (\<lambda>s. rst_list B s '''' (CStorPoolInstanceUIDLabelKey B @ ''='' @ cspiIdEnv (pool (brep B)))))) (\<lambda>r.
       case r of
         Panic m \<Rightarrow> panicS m
       | Err e \<Rightarrow> returnS ()
       | Ok rstlist \<Rightarrow>
           foldS (\<lambda>rst _. if rst_Status rst = RSTCStorStatusDone B then returnS ()
                          else updateRestoreStatus B rst (RSTCStorStatusFailed B)) rstlist ())"

definition handleRSTAddEvent :: "'s benv \<Rightarrow> CStorRestore \<Rightarrow> QueueOperation option" where
  "handleRSTAddEvent B rst = (if \<not> IsRightCStorPoolMgmt B rst then None else Some QOpAdd)"

definition handleRSTUpdateEvent :: "'s benv \<Rightarrow> CStorRestore \<Rightarrow> CStorRestore \<Rightarrow> QueueOperation option" where
  "handleRSTUpdateEvent B oldrst newrst =
     (if \<not> IsRightCStorPoolMgmt B newrst then None
      else if rst_Status newrst = rst_Status oldrst then None
      else if rstIsSucceeded B newrst \<or> rstIsFailed B newrst then None
      else if rst_IsDestroyEvent newrst then Some QOpDestroy else Some QOpSync)"

definition getCStorRestoreResource :: "'s benv \<Rightarrow> string \<Rightarrow> 's \<Rightarrow> CStorRestore option res" where
  "getCStorRestoreResource B key s =
     (case SplitMetaNamespaceKey (bapi B) key of
        Panic m \<Rightarrow> Panic m
      | Err e \<Rightarrow> Ok None
      | Ok (ns, name) \<Rightarrow> bindR (rst_get B s ns name) (\<lambda>rst. Ok (Some rst)))"

definition rst_addEventHandler :: "'s benv \<Rightarrow> CStorRestore \<Rightarrow> ('s pm, string \<times> goerr option) act" where
  "rst_addEventHandler B rst =
     returnS (if \<not> rstIsPending B rst then RSTCStorStatusInvalid B else RSTCStorStatusInit B, None)"

definition rst_syncEventHandler :: "'s benv \<Rightarrow> CStorRestore \<Rightarrow> ('s pm, string \<times> goerr option) act" where
  "rst_syncEventHandler B rst =
     (if rstIsInInit B rst
      then
        let rst = rst\<lparr>rst_Status := RSTCStorStatusInProgress B\<rparr> in
        bindS (attemptS (onWorld (\<lambda>s. rst_update B s (Namespace rst) rst))) (\<lambda>r.
          case r of
            Panic m \<Rightarrow> panicS m
          | Err e \<Rightarrow> returnS ('''', Some e)
          | Ok _ \<Rightarrow>
              bindS (attemptS (CreateVolumeRestore (brep B) rst)) (\<lambda>r.
                case r of
                  Panic m \<Rightarrow> panicS m
                | Err e \<Rightarrow> returnS (RSTCStorStatusFailed B, Some e)
                | Ok _ \<Rightarrow> returnS (RSTCStorStatusDone B, None)))
      else if rstIsPending B rst then returnS (RSTCStorStatusInit B, None)
      else returnS ('''', None))"

definition rstEventHandler :: "'s benv \<Rightarrow> QueueOperation \<Rightarrow> CStorRestore \<Rightarrow> ('s pm, string \<times> goerr option) act" where
  "rstEventHandler B operation rst =
     (case operation of
        QOpAdd \<Rightarrow> rst_addEventHandler B rst
      | QOpDestroy \<Rightarrow> returnS ('''', None)
      | QOpSync \<Rightarrow> rst_syncEventHandler B rst
      | QOpModify \<Rightarrow> returnS ('''', None)
      | QOpOther _ \<Rightarrow> returnS (RSTCStorStatusInvalid B, None))"

definition rst_syncHandler :: "'s benv \<Rightarrow> string \<Rightarrow> QueueOperation \<Rightarrow> ('s pm, unit) act" where
  "rst_syncHandler B key operation =
     bindS (readW (getCStorRestoreResource B key)) (\<lambda>found.
       case found of
         None \<Rightarrow> failS (Errorf ''can not retrieve CStorRestore %q'' [AS key])
       | Some rst \<Rightarrow>
           if rstIsSucceeded B rst \<or> rstIsFailed B rst then returnS ()
           else
             bindS (rstEventHandler B operation rst) (\<lambda>(status, err).
               if status = '''' then returnS ()
               else
                 bindS (readW (\<lambda>s. rst_get B s (Namespace rst) (Name rst))) (\<lambda>nrst.
                 onWorld (\<lambda>s. rst_update B s (Namespace nrst)
                   (nrst\<lparr>rst_Status := (if err \<noteq> None then RSTCStorStatusFailed B else status)\<rparr>)))))"

end
