(* ===== verification/BackupServer.thy ===== *)
theory BackupServer
  imports BackupController VolumeOperations
begin

text \<open>
  The REST server of the CVC operator for backups and restores, \<open>pkg/server/cstorvolumeconfig\<close>, and the snapshot client it
  uses, \<open>pkg/snapshot\<close>.
\<close>

section \<open>Parameters\<close>

record Pod = ObjectMeta +
  pod_NodeName :: string
  pod_ContainerStatuses :: "(string \<times> bool) list"

record StorageClass = ObjectMeta +
  sc_Parameters :: gomap

record HttpRequest =
  hr_Method :: string
  hr_Path :: string
  hr_Query :: "(string \<times> string list) list"
  hr_Header :: "gomap option"
  hr_Body :: "string res"

text \<open>The wrapper of a backup of either version of the API.\<close>

datatype backupHelper = V1Alpha1 CStorBackup | V1 CStorBackup

datatype reply = NoReply | Text string | Written string | ISCSIVolumeSource string string

text \<open>
  Beside the clients: the decoders and encoders, the version parser of \<open>hashicorp/go-version\<close>, gRPC, unique
  identifiers, and what the world has become after a pause. The namespace of the operator is read from the environment once.
\<close>

record 's senv =
  cvc :: "'s cenv"
  bkpc :: "'s benv"
  cvc_create :: "'s \<Rightarrow> string \<Rightarrow> CStorVolumeConfig \<Rightarrow> verdict \<times> 's"
  pod_list :: "'s \<Rightarrow> string \<Rightarrow> string \<Rightarrow> Pod list res"
  nodeConditions :: "'s \<Rightarrow> string \<Rightarrow> (string \<times> string) list res"
  storageClass_get :: "'s \<Rightarrow> string \<Rightarrow> StorageClass res"
  decodeJsonBackup :: "string \<Rightarrow> CStorBackup res"
  decodeYamlBackup :: "string \<Rightarrow> CStorBackup res"
  decodeJsonRestore :: "string \<Rightarrow> CStorRestore res"
  decodeYamlRestore :: "string \<Rightarrow> CStorRestore res"
  marshalBackup :: "backupHelper \<Rightarrow> string res"
  marshalStatus :: "string \<Rightarrow> string res"
  encodeReply :: "bool \<Rightarrow> reply \<Rightarrow> string res"
  respWrite :: "string \<Rightarrow> verdict"
  errorText :: "goerr \<Rightarrow> string"
  snapshotterSet :: bool
  grpcDial :: "string \<Rightarrow> verdict"
  grpcSnapCreate :: "string \<Rightarrow> string \<Rightarrow> string \<Rightarrow> 's \<Rightarrow> string option res \<times> 's"
  grpcSnapDelete :: "string \<Rightarrow> string \<Rightarrow> string \<Rightarrow> 's \<Rightarrow> string option res \<times> 's"
  commandResponse :: "string \<Rightarrow> string"
  marshalCommandStatus :: "string \<Rightarrow> string"
  istgtSendCommand :: "string \<Rightarrow> 's \<Rightarrow> (string list \<times> goerr option) \<times> 's"
  NewVersion :: "string \<Rightarrow> string res"
  versionLessThan :: "string \<Rightarrow> string \<Rightarrow> bool"
  NewUUID :: "'s \<Rightarrow> string \<times> 's"
  pause :: "'s \<Rightarrow> 's"
  serverNamespace :: string
  canonicalHeader :: "string \<Rightarrow> string"
  responseHeaders :: gomap
  alphaBKPDone :: string
  alphaBKPFailed :: string
  alphaBKPPending :: string
  alphaRSTEmpty :: string
  alphaRSTDone :: string
  alphaRSTFailed :: string
  alphaRSTPending :: string
  alphaRSTInProgress :: string
  alphaRSTInvalid :: string

abbreviation sapi :: "'s senv \<Rightarrow> 's env" where
  "sapi S \<equiv> capi (cvc S)"

section \<open>Requests and answers\<close>

definition CodedError :: "int \<Rightarrow> string \<Rightarrow> goarg list \<Rightarrow> goerr" where
  "CodedError c f a = Wrapf (Errorf f a) ''%d'' [AI c]"

definition errorCode :: "goerr \<Rightarrow> int" where
  "errorCode e = (case e of Wrapf _ f [AI c] \<Rightarrow> if f = ''%d'' then c else 500 | _ \<Rightarrow> 500)"

definition codedR :: "'a res \<Rightarrow> int \<Rightarrow> string \<Rightarrow> goarg list \<Rightarrow> 'a res" where
  "codedR r c f a = (case r of Ok x \<Rightarrow> Ok x | Err e \<Rightarrow> Err (CodedError c f (a @ [AE e])) | Panic m \<Rightarrow> Panic m)"

definition codedS :: "('s, 'a) act \<Rightarrow> int \<Rightarrow> string \<Rightarrow> goarg list \<Rightarrow> ('s, 'a) act" where
  "codedS m c f a s = (case m s of (r, s') \<Rightarrow> (codedR r c f a, s'))"

text \<open>The error is replaced by a message that does not quote it.\<close>

definition replacedS :: "('s, 'a) act \<Rightarrow> int \<Rightarrow> string \<Rightarrow> goarg list \<Rightarrow> ('s, 'a) act" where
  "replacedS m c f a s =
     (case m s of (r, s') \<Rightarrow> ((case r of Ok x \<Rightarrow> Ok x | Err e \<Rightarrow> Err (CodedError c f a) | Panic p \<Rightarrow> Panic p), s'))"

definition getContentType :: "HttpRequest \<Rightarrow> string res" where
  "getContentType req =
     (case hr_Header req of
        None \<Rightarrow> Err (Errorf ''Request does not have any header'' [])
      | Some h \<Rightarrow> Ok (mget h ''Content-Type''))"

definition decodeBody :: "HttpRequest \<Rightarrow> (string \<Rightarrow> 'a res) \<Rightarrow> (string \<Rightarrow> 'a res) \<Rightarrow> 'a res" where
  "decodeBody req decodeJsonBody decodeYamlBody =
     bindR (getContentType req) (\<lambda>cType.
     bindR (hr_Body req) (if Contains cType ''yaml'' then decodeYamlBody else decodeJsonBody))"

definition queryGet :: "HttpRequest \<Rightarrow> string \<Rightarrow> string" where
  "queryGet req k = (case map_of (hr_Query req) k of Some (v # _) \<Rightarrow> v | _ \<Rightarrow> '''')"

definition prettyPrint :: "HttpRequest \<Rightarrow> bool" where
  "prettyPrint req = (case map_of (hr_Query req) ''pretty'' of Some (v # _) \<Rightarrow> v = '''' \<or> v \<noteq> ''0'' | _ \<Rightarrow> False)"

text \<open>The response: its code, headers and body. After a panic of the handler there is none.\<close>

record HttpResponse =
  resp_Code :: int
  resp_Headers :: gomap
  resp_Body :: string

definition setHeaders :: "'s senv \<Rightarrow> gomap" where
  "setHeaders S = map (\<lambda>(field, value). (canonicalHeader S field, value)) (responseHeaders S)"

definition httpError :: "'s senv \<Rightarrow> goerr \<Rightarrow> HttpResponse" where
  "httpError S e = \<lparr>resp_Code = errorCode e, resp_Headers = setHeaders S, resp_Body = errorText S e\<rparr>"

definition wrapHandler :: "'s senv \<Rightarrow> (HttpRequest \<Rightarrow> ('s, reply) act) \<Rightarrow> HttpRequest \<Rightarrow> 's \<Rightarrow> HttpResponse option \<times> 's" where
  "wrapHandler S handler req s =
     (case handler req s of
        (Panic m, s') \<Rightarrow> (None, s')
      | (Err e, s') \<Rightarrow> (Some (httpError S e), s')
      | (Ok obj, s') \<Rightarrow>
          (Some (case obj of
             NoReply \<Rightarrow> \<lparr>resp_Code = 200, resp_Headers = setHeaders S, resp_Body = ''''\<rparr>
           | Written b \<Rightarrow> \<lparr>resp_Code = 200, resp_Headers = setHeaders S, resp_Body = b\<rparr>
           | _ \<Rightarrow>
               (case encodeReply S (prettyPrint req) obj of
                  Ok buf \<Rightarrow> \<lparr>resp_Code = 200, resp_Headers = mput ''Content-Type'' ''application/json'' (setHeaders S),
                             resp_Body = buf @ (if prettyPrint req then [CHR 0x0A] else [])\<rparr>
                | Err e \<Rightarrow> httpError S e
                | Panic m \<Rightarrow> httpError S (ApiError m))), s'))"

section \<open>Snapshots\<close>

text \<open>
  The server beside istgt, \<open>pkg/volume-rpc/client/api.go\<close>: the second line istgt answers is sent back, with the error of the
  socket, which gRPC turns into the error of the call.
\<close>

definition CmdSnapCreate :: string where "CmdSnapCreate = ''SNAPCREATE''"
definition CmdSnapDestroy :: string where "CmdSnapDestroy = ''SNAPDESTROY''"

definition istgtSnapshot :: "'s senv \<Rightarrow> string \<Rightarrow> string \<Rightarrow> string \<Rightarrow> ('s, string) act" where
  "istgtSnapshot S cmd volume snapname s =
     (case istgtSendCommand S (cmd @ '' '' @ volume @ '' '' @ snapname @ '' 10 60'') s of
        ((sockresp, err), s') \<Rightarrow>
          let respstr = (if length sockresp > 1 then sockresp ! 1 else ''ERR'') in
          ((case err of Some e \<Rightarrow> Err e | None \<Rightarrow> Ok (marshalCommandStatus S respstr)), s'))"

definition rpc_CreateSnapshot :: "'s senv \<Rightarrow> string \<Rightarrow> string \<Rightarrow> ('s, string) act" where
  "rpc_CreateSnapshot S volume snapname = istgtSnapshot S CmdSnapCreate volume snapname"

definition rpc_DeleteSnapshot :: "'s senv \<Rightarrow> string \<Rightarrow> string \<Rightarrow> ('s, string) act" where
  "rpc_DeleteSnapshot S volume snapname = istgtSnapshot S CmdSnapDestroy volume snapname"

text \<open>The client. The error of decoding the status is ignored; a missing response counts as success.\<close>

definition snapResponse :: "'s senv \<Rightarrow> string \<Rightarrow> string option \<Rightarrow> verdict" where
  "snapResponse S msg response =
     (case response of
        None \<Rightarrow> Ok ()
      | Some status \<Rightarrow> failIf (Contains (commandResponse S status) ''ERR'') (Errorf msg [AS (commandResponse S status)]))"

definition client_CreateSnapshot :: "'s senv \<Rightarrow> string \<Rightarrow> string \<Rightarrow> string \<Rightarrow> ('s, unit) act" where
  "client_CreateSnapshot S ip volName snapName =
     bindS (readS (\<lambda>_. quoteR (grpcDial S ip) ''Unable to dial gRPC server on port %d error : %s'' [AI 7777])) (\<lambda>_.
     bindS (\<lambda>s. case grpcSnapCreate S ip volName snapName s of
               (r, s') \<Rightarrow> (quoteR r ''Error when calling RunVolumeSnapCreateCommand: %s'' [], s')) (\<lambda>response.
     readS (\<lambda>_. snapResponse S ''Snapshot create failed with error : %v'' response)))"

definition client_DestroySnapshot :: "'s senv \<Rightarrow> string \<Rightarrow> string \<Rightarrow> string \<Rightarrow> ('s, unit) act" where
  "client_DestroySnapshot S ip volName snapName =
     bindS (readS (\<lambda>_. quoteR (grpcDial S ip) ''Unable to dial gRPC server on port error : %s'' [])) (\<lambda>_.
     bindS (\<lambda>s. case grpcSnapDelete S ip volName snapName s of
               (r, s') \<Rightarrow> (quoteR r ''Error when calling RunVolumeSnapDeleteCommand: %s'' [], s')) (\<lambda>response.
     readS (\<lambda>_. snapResponse S ''Snapshot deletion failed with error : %v'' response)))"

definition getVolumeIP :: "'s senv \<Rightarrow> string \<Rightarrow> string \<Rightarrow> 's \<Rightarrow> string res" where
  "getVolumeIP S volumeName namespace s = bindR (cv_get (cvc S) s namespace volumeName) (\<lambda>cv. Ok (cv_TargetIP cv))"

definition snap_CreateSnapshot :: "'s senv \<Rightarrow> string \<Rightarrow> string \<Rightarrow> string \<Rightarrow> ('s, unit) act" where
  "snap_CreateSnapshot S volumeName snapshotName namespace =
     (if \<not> snapshotterSet S then failS (Errorf ''snapshot client is not initilized to perform snapshot operations'' [])
      else
        bindS (readS (\<lambda>s. wrapR (getVolumeIP S volumeName namespace s) ''failed to get CStor volumeIP'' [])) (\<lambda>ipAddr.
        wrapS (client_CreateSnapshot S ipAddr volumeName snapshotName) ''failed to create snapshot: %s for volume: %s''
          [AS snapshotName, AS volumeName]))"

definition snap_DeleteSnapshot :: "'s senv \<Rightarrow> string \<Rightarrow> string \<Rightarrow> string \<Rightarrow> ('s, unit) act" where
  "snap_DeleteSnapshot S volumeName snapshotName namespace =
     (if \<not> snapshotterSet S then failS (Errorf ''snapshot client is not initilized to perform snapshot operations'' [])
      else
        bindS (readS (\<lambda>s. wrapR (getVolumeIP S volumeName namespace s) ''failed to get CStor volumeIP'' [])) (\<lambda>ipAddr.
        wrapS (client_DestroySnapshot S ipAddr volumeName snapshotName) ''failed to delete snapshot: %s for volume: %s''
          [AS snapshotName, AS volumeName]))"

section \<open>The pool manager of a backup\<close>

definition getPoolManager :: "'s senv \<Rightarrow> string \<Rightarrow> string \<Rightarrow> 's \<Rightarrow> Pod res" where
  "getPoolManager S cspiName openebsNs s =
     (if openebsNs = '''' then Err (Errorf ''Failed to fetch operator namespace'' [])
      else
        bindR (pod_list S s openebsNs (''app=cstor-pool,'' @ CStorPoolInstanceLabelKey @ ''='' @ cspiName)) (\<lambda>pods.
          case pods of
            [pod] \<Rightarrow> Ok pod
          | _ \<Rightarrow> Err (Errorf ''expected 1 pool manager but got %d pool managers'' [AI (int (length pods))])))"

definition checkIfPoolManagerNodeDown :: "'s senv \<Rightarrow> string \<Rightarrow> string \<Rightarrow> 's \<Rightarrow> bool" where
  "checkIfPoolManagerNodeDown S cspiName namespace s =
     (if cspiName = '''' then True
      else
        case getPoolManager S cspiName namespace s of
          Ok pod \<Rightarrow>
            if pod_NodeName pod = '''' then True
            else (case nodeConditions S s (pod_NodeName pod) of
                    Ok conds \<Rightarrow> list_ex (\<lambda>(t, st). t = ''Ready'' \<and> st \<noteq> ''True'') conds
                  | _ \<Rightarrow> True)
        | _ \<Rightarrow> True)"

definition checkIfPoolManagerDown :: "'s senv \<Rightarrow> string \<Rightarrow> string \<Rightarrow> 's \<Rightarrow> bool" where
  "checkIfPoolManagerDown S cspiName namespace s =
     (if cspiName = '''' then True
      else
        case getPoolManager S cspiName namespace s of
          Ok pod \<Rightarrow> (case map_of (pod_ContainerStatuses pod) ''cstor-pool-mgmt'' of Some ready \<Rightarrow> \<not> ready | None \<Rightarrow> True)
        | _ \<Rightarrow> True)"

definition isPoolManagerDown :: "'s senv \<Rightarrow> string \<Rightarrow> string \<Rightarrow> 's \<Rightarrow> bool" where
  "isPoolManagerDown S poolName namespace s =
     (checkIfPoolManagerNodeDown S poolName namespace s \<or> checkIfPoolManagerDown S poolName namespace s)"

section \<open>The wrappers of a backup\<close>

definition getOpenEBSNamespace :: "'s senv \<Rightarrow> string" where
  "getOpenEBSNamespace S = serverNamespace S"

text \<open>Deleting what does not exist is no error. On a missing completed backup the client gives an empty object.\<close>

definition deleted :: "('s, unit) act \<Rightarrow> string \<Rightarrow> string \<Rightarrow> ('s, unit) act" where
  "deleted m f name =
     bindS (attemptS m) (\<lambda>r. case r of Panic p \<Rightarrow> panicS p | Ok _ \<Rightarrow> returnS ()
       | Err e \<Rightarrow> if IsNotFound e then returnS () else failS (Wrapf e f [AS name]))"

definition lastBackupName :: "CStorBackup \<Rightarrow> string" where
  "lastBackupName backup = bkp_BackupName backup @ ''-'' @ bkp_VolumeName backup"

definition v1_isBackupCompleted :: "'s senv \<Rightarrow> CStorBackup \<Rightarrow> bool" where
  "v1_isBackupCompleted S backup = (bkpIsFailed (bkpc S) backup \<or> bkpIsSucceeded (bkpc S) backup)"

definition v1_findLastBackupStat :: "'s senv \<Rightarrow> CStorBackup \<Rightarrow> 's \<Rightarrow> string res" where
  "v1_findLastBackupStat S backup s =
     (case ccb_get (bkpc S) s (Namespace backup) (lastBackupName backup) of
        Panic m \<Rightarrow> Panic m
      | Err e \<Rightarrow> Ok (BKPCStorStatusFailed (bkpc S))
      | Ok lastbkp \<Rightarrow>
          Ok (if bkp_SnapName backup = ccb_LastSnapName lastbkp \<or> bkp_SnapName backup = ccb_SecondLastSnapName lastbkp
              then BKPCStorStatusDone (bkpc S) else BKPCStorStatusFailed (bkpc S)))"

definition v1_updateBackupStatus :: "'s senv \<Rightarrow> CStorBackup \<Rightarrow> string \<Rightarrow> ('s, CStorBackup) act" where
  "v1_updateBackupStatus S backup status =
     (let backup = backup\<lparr>bkp_Status := status\<rparr> in
      bindS (ignoreS (\<lambda>s. bkp_update (bkpc S) s (Namespace backup) backup)) (\<lambda>_. returnS backup))"

definition v1_deleteCompletedBackup :: "'s senv \<Rightarrow> string \<Rightarrow> string \<Rightarrow> string \<Rightarrow> ('s, unit) act" where
  "v1_deleteCompletedBackup S name namespace snapName =
     (let del = deleted (\<lambda>s. ccb_delete (bkpc S) s namespace name) ''failed to delete last-completed-backup=%s resource'' name in
      bindS (attemptS (readS (\<lambda>s. ccb_get (bkpc S) s namespace name))) (\<lambda>r.
        case r of
          Panic m \<Rightarrow> panicS m
        | Err e \<Rightarrow> if \<not> IsNotFound e then failS (Wrapf e ''failed to fetch last-completed-backup=%s resource'' [AS name]) else del
        | Ok lastbkp \<Rightarrow> if ccb_LastSnapName lastbkp = snapName \<or> ccb_LastSnapName lastbkp = '''' then del else returnS ()))"

definition v1_deleteBackup :: "'s senv \<Rightarrow> string \<Rightarrow> string \<Rightarrow> ('s, unit) act" where
  "v1_deleteBackup S name namespace =
     deleted (\<lambda>s. bkp_delete (bkpc S) s namespace name) ''failed to delete cstorbackup: %s resource'' name"

definition v1_getOrCreateLastBackupSnap :: "'s senv \<Rightarrow> CStorBackup \<Rightarrow> ('s, string) act" where
  "v1_getOrCreateLastBackupSnap S backup =
     (let ns = Namespace backup; lastbkpName = lastBackupName backup in
      bindS (attemptS (readS (\<lambda>s. acb_get (bkpc S) s ns lastbkpName))) (\<lambda>r.
        case r of
          Panic m \<Rightarrow> panicS m
        | Ok completedV1Alpha1Backup \<Rightarrow> returnS (acb_PrevSnapName completedV1Alpha1Backup)
        | Err e \<Rightarrow>
            if \<not> IsNotFound e then failS (Wrapf e ''failed to get v1alpha1 completed backup %s'' [AS lastbkpName])
            else
              bindS (attemptS (readS (\<lambda>s. ccb_get (bkpc S) s ns lastbkpName))) (\<lambda>r.
                case r of
                  Panic m \<Rightarrow> panicS m
                | Ok completedBackup \<Rightarrow> returnS (ccb_LastSnapName completedBackup)
                | Err e \<Rightarrow>
                    if IsNotFound e
                    then
                      bindS (\<lambda>s. ccb_create (bkpc S) s ns
                               \<lparr>Name = lastbkpName, Namespace = ns, UID = '''', Labels = Labels backup, Annotations = [],
                                Finalizers = [], OwnerReferences = [], DeletionTimestamp = None,
                                ccb_BackupName = bkp_BackupName backup, ccb_VolumeName = bkp_VolumeName backup,
                                ccb_SecondLastSnapName = '''', ccb_LastSnapName = ''''\<rparr>) (\<lambda>_. returnS '''')
                    else failS (Errorf ''failed to get lastbkpName %s error: %s'' [AS lastbkpName, AE e]))))"

definition v1_createBackupResource :: "'s senv \<Rightarrow> CStorBackup \<Rightarrow> ('s, unit) act" where
  "v1_createBackupResource S backup =
     wrapS (\<lambda>s. bkp_create (bkpc S) s (Namespace backup) backup) ''failed to create backup %s'' [AS (Name backup)]"

definition isBackupFailed :: "'s senv \<Rightarrow> CStorBackup \<Rightarrow> bool" where
  "isBackupFailed S backup = (bkp_Status backup = alphaBKPFailed S)"

definition isBackupSucceeded :: "'s senv \<Rightarrow> CStorBackup \<Rightarrow> bool" where
  "isBackupSucceeded S backup = (bkp_Status backup = alphaBKPDone S)"

definition v1alpha1_isBackupCompleted :: "'s senv \<Rightarrow> CStorBackup \<Rightarrow> bool" where
  "v1alpha1_isBackupCompleted S backup = (isBackupFailed S backup \<or> isBackupSucceeded S backup)"

definition v1alpha1_findLastBackupStat :: "'s senv \<Rightarrow> CStorBackup \<Rightarrow> 's \<Rightarrow> string res" where
  "v1alpha1_findLastBackupStat S backup s =
     (case acb_get (bkpc S) s (Namespace backup) (lastBackupName backup) of
        Panic m \<Rightarrow> Panic m
      | Err e \<Rightarrow> Ok (alphaBKPFailed S)
      | Ok lastbkp \<Rightarrow>
          Ok (if bkp_SnapName backup = acb_SnapName lastbkp \<or> bkp_SnapName backup = acb_PrevSnapName lastbkp
              then alphaBKPDone S else alphaBKPFailed S))"

definition v1alpha1_updateBackupStatus :: "'s senv \<Rightarrow> CStorBackup \<Rightarrow> string \<Rightarrow> ('s, CStorBackup) act" where
  "v1alpha1_updateBackupStatus S backup status =
     (let backup = backup\<lparr>bkp_Status := status\<rparr> in
      bindS (ignoreS (\<lambda>s. abkp_update (bkpc S) s (Namespace backup) backup)) (\<lambda>_. returnS backup))"

definition v1alpha1_deleteCompletedBackup :: "'s senv \<Rightarrow> string \<Rightarrow> string \<Rightarrow> string \<Rightarrow> ('s, unit) act" where
  "v1alpha1_deleteCompletedBackup S name namespace snapName =
     (let del = deleted (\<lambda>s. acb_delete (bkpc S) s namespace name) ''failed to delete last-completed-backup=%s resource'' name in
      bindS (attemptS (readS (\<lambda>s. acb_get (bkpc S) s namespace name))) (\<lambda>r.
        case r of
          Panic m \<Rightarrow> panicS m
        | Err e \<Rightarrow> if \<not> IsNotFound e then failS (Wrapf e ''failed to fetch last-completed-backup=%s resource'' [AS name]) else del
        | Ok lastbkp \<Rightarrow> if acb_PrevSnapName lastbkp = snapName \<or> acb_PrevSnapName lastbkp = '''' then del else returnS ()))"

definition v1alpha1_deleteBackup :: "'s senv \<Rightarrow> string \<Rightarrow> string \<Rightarrow> ('s, unit) act" where
  "v1alpha1_deleteBackup S name namespace =
     deleted (\<lambda>s. abkp_delete (bkpc S) s namespace name) ''failed to delete cstorbackup: %s resource'' name"

definition v1alpha1_getOrCreateLastBackupSnap :: "'s senv \<Rightarrow> CStorBackup \<Rightarrow> ('s, string) act" where
  "v1alpha1_getOrCreateLastBackupSnap S backup =
     (let ns = Namespace backup; lastbkpName = lastBackupName backup in
      bindS (attemptS (readS (\<lambda>s. ccb_get (bkpc S) s ns lastbkpName))) (\<lambda>r.
        case r of
          Panic m \<Rightarrow> panicS m
        | Ok completedBackup \<Rightarrow> returnS (ccb_LastSnapName completedBackup)
        | Err e \<Rightarrow>
            if \<not> IsNotFound e then failS (Wrapf e ''failed to get v1 completed backup %s'' [AS lastbkpName])
            else
              bindS (attemptS (readS (\<lambda>s. acb_get (bkpc S) s ns lastbkpName))) (\<lambda>r.
                case r of
                  Panic m \<Rightarrow> panicS m
                | Ok b \<Rightarrow> returnS (acb_PrevSnapName b)
                | Err e \<Rightarrow>
                    if IsNotFound e
                    then
                      bindS (\<lambda>s. acb_create (bkpc S) s ns
                               \<lparr>Name = lastbkpName, Namespace = ns, UID = '''', Labels = Labels backup, Annotations = [],
                                Finalizers = [], OwnerReferences = [], DeletionTimestamp = None,
                                acb_BackupName = bkp_BackupName backup, acb_VolumeName = bkp_VolumeName backup,
                                acb_SnapName = '''', acb_PrevSnapName = ''''\<rparr>) (\<lambda>_. returnS '''')
                    else failS (Errorf ''failed to get lastbkpName %s error: %s'' [AS lastbkpName, AE e]))))"

definition v1alpha1_createBackupResource :: "'s senv \<Rightarrow> CStorBackup \<Rightarrow> ('s, unit) act" where
  "v1alpha1_createBackupResource S backup =
     wrapS (\<lambda>s. abkp_create (bkpc S) s (Namespace backup) backup) ''failed to create backup %s'' [AS (Name backup)]"

text \<open>The methods of the interface on a wrapper.\<close>

fun wrapped :: "backupHelper \<Rightarrow> CStorBackup" where
  "wrapped (V1Alpha1 b) = b"
| "wrapped (V1 b) = b"

definition getCSPIName :: "'s senv \<Rightarrow> backupHelper \<Rightarrow> string" where
  "getCSPIName S h = mget (Labels (wrapped h)) (CStorPoolInstanceNameLabelKey (sapi S))"

fun isBackupCompleted :: "'s senv \<Rightarrow> backupHelper \<Rightarrow> bool" where
  "isBackupCompleted S (V1Alpha1 b) = v1alpha1_isBackupCompleted S b"
| "isBackupCompleted S (V1 b) = v1_isBackupCompleted S b"

fun helper_findLastBackupStat :: "'s senv \<Rightarrow> backupHelper \<Rightarrow> 's \<Rightarrow> string res" where
  "helper_findLastBackupStat S (V1Alpha1 b) s = v1alpha1_findLastBackupStat S b s"
| "helper_findLastBackupStat S (V1 b) s = v1_findLastBackupStat S b s"

fun helper_updateBackupStatus :: "'s senv \<Rightarrow> backupHelper \<Rightarrow> string \<Rightarrow> ('s, backupHelper) act" where
  "helper_updateBackupStatus S (V1Alpha1 b) st = bindS (v1alpha1_updateBackupStatus S b st) (\<lambda>b. returnS (V1Alpha1 b))"
| "helper_updateBackupStatus S (V1 b) st = bindS (v1_updateBackupStatus S b st) (\<lambda>b. returnS (V1 b))"

fun deleteCompletedBackup :: "'s senv \<Rightarrow> backupHelper \<Rightarrow> string \<Rightarrow> string \<Rightarrow> string \<Rightarrow> ('s, unit) act" where
  "deleteCompletedBackup S (V1Alpha1 b) name namespace snapName = v1alpha1_deleteCompletedBackup S name namespace snapName"
| "deleteCompletedBackup S (V1 b) name namespace snapName = v1_deleteCompletedBackup S name namespace snapName"

fun helper_deleteBackup :: "'s senv \<Rightarrow> backupHelper \<Rightarrow> string \<Rightarrow> string \<Rightarrow> ('s, unit) act" where
  "helper_deleteBackup S (V1Alpha1 b) name namespace = v1alpha1_deleteBackup S name namespace"
| "helper_deleteBackup S (V1 b) name namespace = v1_deleteBackup S name namespace"

fun getOrCreateLastBackupSnap :: "'s senv \<Rightarrow> backupHelper \<Rightarrow> ('s, string) act" where
  "getOrCreateLastBackupSnap S (V1Alpha1 b) = v1alpha1_getOrCreateLastBackupSnap S b"
| "getOrCreateLastBackupSnap S (V1 b) = v1_getOrCreateLastBackupSnap S b"

fun setBackupStatus :: "string \<Rightarrow> backupHelper \<Rightarrow> backupHelper" where
  "setBackupStatus st (V1Alpha1 b) = V1Alpha1 (b\<lparr>bkp_Status := st\<rparr>)"
| "setBackupStatus st (V1 b) = V1 (b\<lparr>bkp_Status := st\<rparr>)"

fun setLastSnapshotName :: "string \<Rightarrow> backupHelper \<Rightarrow> backupHelper" where
  "setLastSnapshotName n (V1Alpha1 b) = V1Alpha1 (b\<lparr>bkp_PrevSnapName := n\<rparr>)"
| "setLastSnapshotName n (V1 b) = V1 (b\<lparr>bkp_PrevSnapName := n\<rparr>)"

fun createBackupResource :: "'s senv \<Rightarrow> backupHelper \<Rightarrow> ('s, unit) act" where
  "createBackupResource S (V1Alpha1 b) = v1alpha1_createBackupResource S b"
| "createBackupResource S (V1 b) = v1_createBackupResource S b"

end
