(* ===== verification/RestoreServer.thy ===== *)
theory RestoreServer
  imports BackupServer
begin

text \<open>
  The endpoints for backups and restores of the CVC operator's REST server, \<open>backup_endpoint.go\<close>, \<open>restore_endpoint.go\<close> and
  \<open>v1alpha1_restore.go\<close>.
\<close>

section \<open>Backups\<close>

text \<open>
  \<open>init\<close> parses 2.2.0 and stops the process when that fails, so a request is served with a parsed version only.
  The first pool version to use the resources of version \<open>v1\<close>.
\<close>

definition minV1SupportedVersion :: string where
  "minV1SupportedVersion = ''2.2.0''"

definition belowV1 :: "'s senv \<Rightarrow> string \<Rightarrow> bool" where
  "belowV1 S v = (case NewVersion S minV1SupportedVersion of Ok m \<Rightarrow> versionLessThan S v m | _ \<Rightarrow> False)"

definition blank :: "string \<Rightarrow> bool" where
  "blank s = (TrimSpace s = '''')"

definition backupCreateRequestValidations :: "CStorBackup \<Rightarrow> verdict" where
  "backupCreateRequestValidations backup =
     (if blank (bkp_BackupName backup) then Err (CodedError 400 ''Failed to create backup: missing backup name '' [])
      else if blank (Namespace backup)
      then Err (CodedError 400 ''Failed to create backup '%v': missing namespace'' [AS (bkp_BackupName backup)])
      else if blank (bkp_VolumeName backup)
      then Err (CodedError 400 ''Failed to create backup '%v': missing volume name'' [AS (bkp_BackupName backup)])
      else if \<not> bkp_LocalSnap backup \<and> blank (bkp_BackupDest backup)
      then Err (CodedError 400 ''Failed to create backup '%v': missing backupIP'' [AS (bkp_BackupName backup)])
      else if blank (bkp_SnapName backup)
      then Err (CodedError 400 ''Failed to create backup '%v': missing snapName'' [AS (bkp_BackupName backup)])
      else Ok ())"

definition findHealthyCVR :: "'s senv \<Rightarrow> string \<Rightarrow> string \<Rightarrow> 's \<Rightarrow> CStorVolumeReplica res" where
  "findHealthyCVR S volume namespace s =
     bindR (cvr_list (sapi S) s namespace (PersistentVolumeLabelKey (rep (cvc S)) @ ''='' @ volume)) (\<lambda>cvrList.
       case List.find (\<lambda>cvr. cvr_Phase cvr = CVRStatusOnline (rep (cvc S))) cvrList of
         Some cvr \<Rightarrow> Ok cvr
       | None \<Rightarrow> Err (Errorf ''unable to find healthy CVR'' []))"

definition getPoolVersion :: "'s senv \<Rightarrow> string \<Rightarrow> string \<Rightarrow> 's \<Rightarrow> string res" where
  "getPoolVersion S cspiName cspiNamespace s =
     bindR (cspi_get (pool (rep (cvc S))) s cspiNamespace cspiName) (\<lambda>cspi. Ok (vd_Current (cspi_Version cspi)))"

text \<open>The object of version \<open>v1alpha1\<close> has the same fields.\<close>

definition getV1Alpha1BackupFromV1 :: "CStorBackup \<Rightarrow> CStorBackup" where
  "getV1Alpha1BackupFromV1 backup =
     \<lparr>Name = Name backup, Namespace = Namespace backup, UID = UID backup, Labels = Labels backup,
      Annotations = Annotations backup, Finalizers = Finalizers backup, OwnerReferences = OwnerReferences backup,
      DeletionTimestamp = DeletionTimestamp backup,
      bkp_BackupName = bkp_BackupName backup, bkp_VolumeName = bkp_VolumeName backup, bkp_SnapName = bkp_SnapName backup,
      bkp_PrevSnapName = bkp_PrevSnapName backup, bkp_BackupDest = bkp_BackupDest backup,
      bkp_LocalSnap = bkp_LocalSnap backup, bkp_Status = bkp_Status backup\<rparr>"

text \<open>A version that is not below 2.2.0, and a pool of a development build, get the latest resources.\<close>

definition getBackupInterfaceFromPoolVersion :: "'s senv \<Rightarrow> string \<Rightarrow> CStorBackup \<Rightarrow> backupHelper res" where
  "getBackupInterfaceFromPoolVersion S poolVersion backup =
     (case NewVersion S (hd (Split CHR ''-'' poolVersion)) of
        Panic m \<Rightarrow> Panic m
      | Err e \<Rightarrow>
          if \<not> blank poolVersion \<and> \<not> Contains poolVersion ''dev''
          then Err (Wrapf e ''failed to parse %q pool version'' [AS poolVersion])
          else Ok (V1 backup)
      | Ok currentVersion \<Rightarrow>
          if belowV1 S currentVersion then Ok (V1Alpha1 (getV1Alpha1BackupFromV1 backup)) else Ok (V1 backup))"

text \<open>\<open>None\<close> is the nil interface of a backup that is already deleted.\<close>

definition getBackupInterface :: "'s senv \<Rightarrow> string \<Rightarrow> string \<Rightarrow> 's \<Rightarrow> backupHelper option res" where
  "getBackupInterface S backupName backupNamespace s =
     (case abkp_get (bkpc S) s backupNamespace backupName of
        Panic m \<Rightarrow> Panic m
      | Ok backupObj \<Rightarrow> Ok (Some (V1Alpha1 backupObj))
      | Err e \<Rightarrow>
          if IsNotFound e
          then (case bkp_get (bkpc S) s backupNamespace backupName of
                  Panic m \<Rightarrow> Panic m
                | Ok backupObj \<Rightarrow> Ok (Some (V1 backupObj))
                | Err e \<Rightarrow> if \<not> IsNotFound e then Err (Wrapf e ''failed to fetch %s backup v1 version also'' [AS backupName])
                          else Ok None)
          else Err (Wrapf e ''failed to fetch %s backup'' [AS backupName]))"

definition backupLabels :: "'s senv \<Rightarrow> CStorVolumeReplica \<Rightarrow> CStorBackup \<Rightarrow> gomap" where
  "backupLabels S cvr backup =
     [(CStorPoolInstanceUIDLabelKey (bkpc S), mget (Labels cvr) (CStorPoolInstanceUIDLabelKey (bkpc S))),
      (CStorPoolInstanceNameLabelKey (sapi S), mget (Labels cvr) (CStorPoolInstanceNameLabelKey (sapi S))),
      (PersistentVolumeLabelKey (rep (cvc S)), mget (Labels cvr) (PersistentVolumeLabelKey (rep (cvc S)))),
      (''openebs.io/backup'', bkp_BackupName backup)]"

definition backup_create :: "'s senv \<Rightarrow> HttpRequest \<Rightarrow> ('s, reply) act" where
  "backup_create S req =
     bindS (readS (\<lambda>_. decodeBody req (decodeJsonBackup S) (decodeYamlBackup S))) (\<lambda>backup.
     bindS (readS (\<lambda>_. backupCreateRequestValidations backup)) (\<lambda>_.
     bindS (codedS (snap_CreateSnapshot S (bkp_VolumeName backup) (bkp_SnapName backup) (getOpenEBSNamespace S)) 400
              (''Failed to create snapshot '%v'' @ [CHR 0x27]) []) (\<lambda>_.
     if bkp_LocalSnap backup then returnS (Text '''')
     else
       let backup = backup\<lparr>Name := bkp_SnapName backup @ ''-'' @ bkp_VolumeName backup\<rparr> in
       bindS (replacedS (readS (findHealthyCVR S (bkp_VolumeName backup) (getOpenEBSNamespace S))) 400
                ''Failed to find healthy replica for volume %s'' [AS (bkp_VolumeName backup)]) (\<lambda>cvr.
       let poolName = mget (Labels cvr) (CStorPoolInstanceNameLabelKey (sapi S));
           backup = backup\<lparr>Labels := backupLabels S cvr backup\<rparr>
       in
       bindS (codedS (readS (getPoolVersion S poolName (getOpenEBSNamespace S))) 400
                ''failed to get %s pool version error: %v'' [AS poolName]) (\<lambda>poolVersion.
       bindS (codedS (readS (\<lambda>_. getBackupInterfaceFromPoolVersion S poolVersion backup)) 400
                ''failed to get backupInterface error: %v'' []) (\<lambda>backupInterface.
       bindS (codedS (getOrCreateLastBackupSnap S backupInterface) 400
                ''Failed get or create lastCompleted backup error: %v'' []) (\<lambda>lastSnapName.
       let backupInterface = setLastSnapshotName lastSnapName (setBackupStatus (alphaBKPPending S) backupInterface) in
       bindS (codedS (createBackupResource S backupInterface) 500 ''%s'' []) (\<lambda>_. returnS (Text '''')))))))))"

definition sendReply :: "'s senv \<Rightarrow> string res \<Rightarrow> ('s, reply) act" where
  "sendReply S marshalled =
     (case marshalled of
        Ok out \<Rightarrow>
          (case respWrite S out of
             Ok _ \<Rightarrow> returnS (Written out)
           | Err e \<Rightarrow> failS (CodedError 400 ''Failed to send response data'' [])
           | Panic m \<Rightarrow> panicS m)
      | Err e \<Rightarrow> failS (CodedError 400 ''Failed to encode response data'' [])
      | Panic m \<Rightarrow> panicS m)"

definition refreshBackup :: "'s senv \<Rightarrow> backupHelper \<Rightarrow> ('s, backupHelper) act" where
  "refreshBackup S backupInterface =
     (if isBackupCompleted S backupInterface then returnS backupInterface
      else
        let cspiName = getCSPIName S backupInterface in
        bindS (readS (\<lambda>s. Ok (checkIfPoolManagerNodeDown S cspiName (getOpenEBSNamespace S) s))) (\<lambda>backupNodeDown.
        bindS (readS (\<lambda>s. Ok (checkIfPoolManagerDown S cspiName (getOpenEBSNamespace S) s))) (\<lambda>backupPodDown.
        if backupNodeDown \<or> backupPodDown
        then bindS (readS (helper_findLastBackupStat S backupInterface)) (\<lambda>laststat.
             helper_updateBackupStatus S backupInterface laststat)
        else returnS backupInterface)))"

text \<open>Without a check for nil, the first method call on the interface of a deleted backup panics.\<close>

definition backup_get :: "'s senv \<Rightarrow> HttpRequest \<Rightarrow> ('s, reply) act" where
  "backup_get S req =
     bindS (readS (\<lambda>_. decodeBody req (decodeJsonBackup S) (decodeYamlBackup S))) (\<lambda>backup.
     if blank (bkp_BackupName backup) then failS (CodedError 400 ''Failed to get backup: missing backup name '' [])
     else if blank (Namespace backup)
     then failS (CodedError 400 ''Failed to get backup '%v': missing namespace'' [AS (bkp_BackupName backup)])
     else if blank (bkp_VolumeName backup)
     then failS (CodedError 400 ''Failed to get backup '%v': missing volume name'' [AS (bkp_BackupName backup)])
     else
       bindS (codedS (readS (getBackupInterface S (bkp_SnapName backup @ ''-'' @ bkp_VolumeName backup) (Namespace backup))) 400
                ''failed to get backup interface error: %v'' []) (\<lambda>found.
         case found of
           None \<Rightarrow> panicS ''invalid memory address or nil pointer dereference''
         | Some backupInterface \<Rightarrow>
             bindS (refreshBackup S backupInterface) (\<lambda>backupInterface. sendReply S (marshalBackup S backupInterface))))"

definition deleteBackup :: "'s senv \<Rightarrow> string \<Rightarrow> string \<Rightarrow> string \<Rightarrow> string \<Rightarrow> ('s, unit) act" where
  "deleteBackup S snapName volname ns schedule =
     (let lastCompletedBackup = schedule @ ''-'' @ volname; cstorBackupName = snapName @ ''-'' @ volname in
      bindS (wrapS (readS (getBackupInterface S cstorBackupName ns)) ''failed to get backup interface'' []) (\<lambda>found.
        case found of
          None \<Rightarrow> returnS ()
        | Some backupInterface \<Rightarrow>
            bindS (wrapS (deleteCompletedBackup S backupInterface lastCompletedBackup ns snapName)
                     ''failed to delete lastCompletedBackup %s'' [AS lastCompletedBackup]) (\<lambda>_.
            bindS (wrapS (snap_DeleteSnapshot S volname snapName (getOpenEBSNamespace S)) ''snapshot deletion failed'' []) (\<lambda>_.
            wrapS (helper_deleteBackup S backupInterface cstorBackupName ns)
              ''failed to delete cstorbackup: %s resource'' [AS cstorBackupName]))))"

definition backup_delete :: "'s senv \<Rightarrow> HttpRequest \<Rightarrow> ('s, reply) act" where
  "backup_delete S req =
     (let path = hr_Path req; prefix = ''/latest/backups/'';
          backup = TrimSpace (if HasPrefix path prefix then drop (length prefix) path else path);
          volname = queryGet req ''volume''; namespace = queryGet req ''namespace''; scheduleName = queryGet req ''schedule''
      in
      if backup = '''' \<or> volname = '''' \<or> namespace = '''' \<or> scheduleName = ''''
      then failS (CodedError 405 ''failed to delete backup: Insufficient info -- required values volume_name, backup_name, namespace, schedule_name'' [])
      else
        bindS (codedS (deleteBackup S backup volname namespace scheduleName) 500
                 ''Error deleting backup=%s for volume=%s with namesace=%s and schedule=%s..  error=%s''
                 [AS backup, AS volname, AS namespace, AS scheduleName]) (\<lambda>_. returnS (Text '''')))"

definition ErrInvalidMethod :: string where
  "ErrInvalidMethod = ''Invalid http method''"

definition backupV1alpha1SpecificRequest :: "'s senv \<Rightarrow> HttpRequest \<Rightarrow> ('s, reply) act" where
  "backupV1alpha1SpecificRequest S req =
     (if hr_Method req = ''POST'' then backup_create S req
      else if hr_Method req = ''GET'' then backup_get S req
      else if hr_Method req = ''DELETE'' then backup_delete S req
      else failS (CodedError 405 ErrInvalidMethod []))"

section \<open>Restores\<close>

definition validateCreateRestoreRequest :: "'s senv \<Rightarrow> CStorRestore \<Rightarrow> verdict" where
  "validateCreateRestoreRequest S restore =
     (if \<not> rst_Local restore \<and> blank (Namespace restore)
      then Err (Errorf ''failed to create restore '%v': missing namespace'' [AS (Name restore)])
      else if blank (rst_RestoreName restore) then Err (Errorf ''failed to create restore: missing restore name'' [])
      else if blank (rst_VolumeName restore)
      then Err (Errorf ''failed to create restore '%v': missing volume name'' [AS (Name restore)])
      else if blank (rst_RestoreSrc restore)
      then Err (Errorf ''failed to create restore '%v': missing restoreSrc'' [AS (Name restore)])
      else if rst_Local restore \<and> blank (rst_StorageClass restore)
      then Err (Errorf ''failed to create restore '%v': missing storageClass'' [AS (Name restore)])
      else if rst_Local restore \<and> blank (QuantityString (cvc S) (rst_Size restore))
      then Err (Errorf ''failed to create restore '%v': missing size'' [AS (Name restore)])
      else Ok ())"

text \<open>The error of \<open>strconv.Atoi\<close>: no decimal integer, or none of 64 bits.\<close>

definition AtoiFails :: "string \<Rightarrow> bool" where
  "AtoiFails s =
     (let neg = (case s of [] \<Rightarrow> False | c # _ \<Rightarrow> c = CHR ''-'');
          signed = (case s of [] \<Rightarrow> False | c # _ \<Rightarrow> c = CHR ''-'' \<or> c = CHR ''+'');
          ds = (if signed then tl s else s)
      in ds = [] \<or> \<not> list_all isDigit ds
         \<or> (if neg then - int (digitsVal 0 ds) < minInt64 else int (digitsVal 0 ds) > maxInt64))"

definition validateStorageClassParameters :: "StorageClass \<Rightarrow> verdict" where
  "validateStorageClassParameters scObj =
     (if map_of (sc_Parameters scObj) ''cstorPoolCluster'' = None
      then Err (Errorf ''storageclass %s doesn't have cstorPoolCluster details'' [AS (Name scObj)])
      else if map_of (sc_Parameters scObj) ''replicaCount'' = None
      then Err (Errorf ''storageclass %s doesn't have replica count'' [AS (Name scObj)])
      else if AtoiFails (mget (sc_Parameters scObj) ''replicaCount'')
      then Err (Wrapf (Errorf ''strconv.Atoi'' [AS (mget (sc_Parameters scObj) ''replicaCount'')])
                  ''failed to convert replica count %s into integer'' [AS (mget (sc_Parameters scObj) ''replicaCount'')])
      else Ok ())"

definition buildCStorVolumeConfig :: "'s senv \<Rightarrow> StorageClass \<Rightarrow> CStorRestore \<Rightarrow> CStorVolumeConfig" where
  "buildCStorVolumeConfig S scObj restoreObj =
     \<lparr>Name = rst_VolumeName restoreObj, Namespace = getOpenEBSNamespace S, UID = '''',
      Labels = [(CStorPoolClusterLabelKey, mget (sc_Parameters scObj) ''cstorPoolCluster''),
                (''openebs.io/source-volume'', rst_RestoreSrc restoreObj)],
      Annotations = [(''openebs.io/volumeID'', rst_VolumeName restoreObj),
                     (''openebs.io/volume-policy'', mget (sc_Parameters scObj) ''cstorVolumePolicy'')],
      Finalizers = [''cvc.openebs.io/finalizer''], OwnerReferences = [], DeletionTimestamp = None,
      cvc_ReplicaCount = Atoi (mget (sc_Parameters scObj) ''replicaCount''),
      cvc_ProvisionCapacity = rst_Size restoreObj, cvc_Capacity = rst_Size restoreObj,
      cvc_VolumeSource = rst_RestoreSrc restoreObj @ ''@'' @ rst_RestoreName restoreObj,
      cvc_VolumeRef = None, cvc_Policy = emptyPolicySpec, cvc_NodeID = '''',
      cvc_Phase = CStorVolumeConfigPhasePending (cvc S), cvc_PoolInfo = [], cvc_StatusCapacity = 0, cvc_Conditions = [],
      cvc_Version = emptyVersionDetails\<lparr>vd_Current := binaryVersion (sapi S), vd_Desired := binaryVersion (sapi S)\<rparr>\<rparr>"

text \<open>A volume claim that is not found yet counts as one that is not bound; between two looks the operator sleeps.\<close>

fun waitLoop :: "'s senv \<Rightarrow> string \<Rightarrow> string \<Rightarrow> nat \<Rightarrow> ('s, unit) act" where
  "waitLoop S cvcName namespace 0 s =
     (Err (Errorf ''CVC %s in namespace %s is not in Bound status'' [AS cvcName, AS namespace]), s)"
| "waitLoop S cvcName namespace (Suc i) s =
     (case cvc_get (sapi S) s namespace cvcName of
        Panic m \<Rightarrow> (Panic m, s)
      | Err e \<Rightarrow> if \<not> IsNotFound e then (Err e, s) else waitLoop S cvcName namespace i (pause S s)
      | Ok cvcObj \<Rightarrow>
          if cvc_Phase cvcObj = CStorVolumeConfigPhaseBound (sapi S) then (Ok (), s)
          else waitLoop S cvcName namespace i (pause S s))"

definition waitForCVCBoundState :: "'s senv \<Rightarrow> string \<Rightarrow> string \<Rightarrow> ('s, unit) act" where
  "waitForCVCBoundState S cvcName namespace = waitLoop S cvcName namespace 5"

definition createVolumeForRestore :: "'s senv \<Rightarrow> CStorRestore \<Rightarrow> ('s, unit) act" where
  "createVolumeForRestore S restoreObj =
     bindS (if rst_Local restoreObj
            then
              bindS (readS (\<lambda>s. wrapR (storageClass_get S s (rst_StorageClass restoreObj)) ''failed to get storageclass %s''
                                  [AS (rst_StorageClass restoreObj)])) (\<lambda>scObj.
              bindS (readS (\<lambda>_. wrapR (validateStorageClassParameters scObj) ''Storageclass parametes validation failed'' [])) (\<lambda>_.
              let cvcObj = buildCStorVolumeConfig S scObj restoreObj in
              bindS (attemptS (\<lambda>s. cvc_create S s (getOpenEBSNamespace S) cvcObj)) (\<lambda>r.
                case r of
                  Panic m \<Rightarrow> panicS m
                | Ok _ \<Rightarrow> returnS ()
                | Err e \<Rightarrow> if IsAlreadyExists e then returnS () else failS (Wrapf e ''failed to create CVC %s object'' [AS (Name cvcObj)]))))
            else returnS ()) (\<lambda>_.
     waitForCVCBoundState S (rst_VolumeName restoreObj) (getOpenEBSNamespace S))"

definition getISCSIPersistentVolumeSource :: "'s senv \<Rightarrow> string \<Rightarrow> string \<Rightarrow> 's \<Rightarrow> reply res" where
  "getISCSIPersistentVolumeSource S volumeName namespace s =
     bindR (cv_get (cvc S) s namespace volumeName) (\<lambda>cvObj. Ok (ISCSIVolumeSource (cv_TargetPortal cvObj) (cv_Iqn cvObj)))"

definition getV1Alpha1RestoreFromV1 :: "CStorRestore \<Rightarrow> CStorRestore" where
  "getV1Alpha1RestoreFromV1 restore =
     \<lparr>Name = Name restore, Namespace = Namespace restore, UID = UID restore, Labels = Labels restore,
      Annotations = Annotations restore, Finalizers = Finalizers restore, OwnerReferences = OwnerReferences restore,
      DeletionTimestamp = DeletionTimestamp restore,
      rst_RestoreName = rst_RestoreName restore, rst_VolumeName = rst_VolumeName restore,
      rst_RestoreSrc = rst_RestoreSrc restore, rst_MaxRetryCount = rst_MaxRetryCount restore,
      rst_RetryCount = rst_RetryCount restore, rst_StorageClass = rst_StorageClass restore, rst_Size = rst_Size restore,
      rst_Local = rst_Local restore, rst_Status = rst_Status restore\<rparr>"

text \<open>The object that is created for a replica: the shared restore object, changed in place.\<close>

definition restoreLabels :: "'s senv \<Rightarrow> CStorRestore \<Rightarrow> CStorVolumeReplica \<Rightarrow> gomap" where
  "restoreLabels S restoreObj cvr =
     [(CStorPoolInstanceNameLabelKey (sapi S), mget (Labels cvr) (CStorPoolInstanceNameLabelKey (sapi S))),
      (CStorPoolInstanceUIDLabelKey (bkpc S), mget (Labels cvr) (CStorPoolInstanceUIDLabelKey (bkpc S))),
      (PersistentVolumeLabelKey (rep (cvc S)), mget (Labels cvr) (PersistentVolumeLabelKey (rep (cvc S)))),
      (''openebs.io/restore'', rst_RestoreName restoreObj)]"

definition buildAndCreateV1Alpha1Restore :: "'s senv \<Rightarrow> CStorRestore \<Rightarrow> CStorVolumeReplica \<Rightarrow> ('s, CStorRestore) act" where
  "buildAndCreateV1Alpha1Restore S restoreObj cvr =
     bindS (\<lambda>s. case NewUUID S s of (u, s') \<Rightarrow> (Ok u, s')) (\<lambda>uuid.
     let restoreObj = restoreObj\<lparr>Name := rst_RestoreName restoreObj @ ''-'' @ uuid\<rparr> in
     bindS (attemptS (readS (\<lambda>s. arst_get (bkpc S) s (Namespace restoreObj) (Name restoreObj)))) (\<lambda>r.
       case r of
         Panic m \<Rightarrow> panicS m
       | Ok _ \<Rightarrow> returnS restoreObj
       | Err _ \<Rightarrow>
           let restoreObj = restoreObj\<lparr>rst_Status := alphaRSTPending S, Labels := restoreLabels S restoreObj cvr\<rparr> in
           bindS (\<lambda>s. arst_create (bkpc S) s (Namespace restoreObj) restoreObj) (\<lambda>_. returnS restoreObj)))"

definition buildAndCreateV1Restore :: "'s senv \<Rightarrow> CStorRestore \<Rightarrow> CStorVolumeReplica \<Rightarrow> ('s, CStorRestore) act" where
  "buildAndCreateV1Restore S restoreObj cvr =
     bindS (\<lambda>s. case NewUUID S s of (u, s') \<Rightarrow> (Ok u, s')) (\<lambda>uuid.
     let restoreObj = restoreObj\<lparr>Name := rst_RestoreName restoreObj @ ''-'' @ uuid\<rparr> in
     bindS (attemptS (readS (\<lambda>s. rst_get (bkpc S) s (Namespace restoreObj) (Name restoreObj)))) (\<lambda>r.
       case r of
         Panic m \<Rightarrow> panicS m
       | Ok _ \<Rightarrow> returnS restoreObj
       | Err _ \<Rightarrow>
           let restoreObj = restoreObj\<lparr>rst_Status := RSTCStorStatusPending (bkpc S), Labels := restoreLabels S restoreObj cvr\<rparr> in
           bindS (\<lambda>s. rst_create (bkpc S) s (Namespace restoreObj) restoreObj) (\<lambda>_. returnS restoreObj)))"

text \<open>
  The versions of the pools that have a replica. \<open>None\<close> is the nil version of a development build, which is also what the
  map gives for a pool it does not have.
\<close>

fun poolVersions :: "'s senv \<Rightarrow> string list \<Rightarrow> CStorPoolInstance list \<Rightarrow> (string \<times> string option) list \<Rightarrow> (string \<times> string option) list res" where
  "poolVersions S used [] m = Ok m"
| "poolVersions S used (cspi # cspis) m =
     (let cspiVersion = vd_Current (cspi_Version cspi) in
      if Name cspi \<notin> set used then poolVersions S used cspis m
      else case NewVersion S (hd (Split CHR ''-'' cspiVersion)) of
             Panic p \<Rightarrow> Panic p
           | Ok v \<Rightarrow> poolVersions S used cspis ((Name cspi, Some v) # m)
           | Err e \<Rightarrow>
               if cspiVersion \<noteq> '''' \<and> \<not> Contains cspiVersion ''dev''
               then Err (CodedError 500 ''failed to parse pool(%s) version %s error: %v'' [AS (Name cspi), AS cspiVersion, AE e])
               else poolVersions S used cspis ((Name cspi, None) # m))"

definition usesV1Alpha1 :: "'s senv \<Rightarrow> (string \<times> string option) list \<Rightarrow> string \<Rightarrow> bool" where
  "usesV1Alpha1 S m cspiName = (case map_of m cspiName of Some (Some v) \<Rightarrow> belowV1 S v | _ \<Rightarrow> False)"

definition createRestoreOf :: "'s senv \<Rightarrow> (string \<times> string option) list \<Rightarrow> CStorVolumeReplica \<Rightarrow> CStorRestore \<times> CStorRestore \<Rightarrow>
    ('s, CStorRestore \<times> CStorRestore) act" where
  "createRestoreOf S m cvr objs =
     (if usesV1Alpha1 S m (mget (Labels cvr) (CStorPoolInstanceNameLabelKey (sapi S)))
      then bindS (buildAndCreateV1Alpha1Restore S (snd objs) cvr) (\<lambda>a. returnS (fst objs, a))
      else bindS (buildAndCreateV1Restore S (fst objs) cvr) (\<lambda>r. returnS (r, snd objs)))"

definition createRestore :: "'s senv \<Rightarrow> CStorRestore \<Rightarrow> ('s, reply) act" where
  "createRestore S restoreObj =
     bindS (codedS (readS (\<lambda>s. cvr_list (sapi S) s '''' (PersistentVolumeLabelKey (rep (cvc S)) @ ''='' @ rst_VolumeName restoreObj)))
              500 ''%s'' []) (\<lambda>cvrList.
     if cvrList = [] then failS (CodedError 500 ''CVRs doesn't exist for volume %s'' [AS (rst_VolumeName restoreObj)])
     else
       let key = CStorPoolInstanceNameLabelKey (sapi S); cspiName = mget (Labels (hd cvrList)) key in
       case LastIndexByte cspiName CHR ''-'' of
         None \<Rightarrow> panicS ''slice bounds out of range [:-1]''
       | Some lastIndex \<Rightarrow>
           let cspcName = take lastIndex cspiName in
           bindS (codedS (readS (\<lambda>s. cspi_list (sapi S) s '''' (CStorPoolClusterLabelKey @ ''='' @ cspcName)))
                    500 ''failed to list CSPIs of CSPC %s error: %v'' [AS cspcName]) (\<lambda>cspiList.
           bindS (readS (\<lambda>_. poolVersions S (map (\<lambda>cvr. mget (Labels cvr) key) cvrList) cspiList [])) (\<lambda>versions.
           bindS (codedS (foldS (createRestoreOf S versions) cvrList (restoreObj, getV1Alpha1RestoreFromV1 restoreObj))
                    500 ''failed to create restore for %s error: %v'' [AS (rst_VolumeName restoreObj)]) (\<lambda>_.
           readS (getISCSIPersistentVolumeSource S (rst_VolumeName restoreObj) (getOpenEBSNamespace S))))))"

definition restore_create :: "'s senv \<Rightarrow> HttpRequest \<Rightarrow> ('s, reply) act" where
  "restore_create S req =
     bindS (readS (\<lambda>_. decodeBody req (decodeJsonRestore S) (decodeYamlRestore S))) (\<lambda>restore.
     bindS (codedS (readS (\<lambda>_. validateCreateRestoreRequest S restore)) 400 ''restore create validation failed error: {%s}'' []) (\<lambda>_.
     bindS (codedS (createVolumeForRestore S restore) 400 ''Failed to create resources for volume: {%v}'' []) (\<lambda>_.
     if rst_Local restore then readS (getISCSIPersistentVolumeSource S (rst_VolumeName restore) (getOpenEBSNamespace S))
     else createRestore S restore)))"

text \<open>
  The status of the restores of one version: the loop stops at the first one in progress, and otherwise ends with the status
  of the last one. The same loop stands in the code for either version of the API.
\<close>

fun restoreStatusLoop :: "'s senv \<Rightarrow> string \<Rightarrow> string \<Rightarrow> string \<Rightarrow> string \<Rightarrow> ('s \<Rightarrow> string \<Rightarrow> CStorRestore \<Rightarrow> verdict \<times> 's) \<Rightarrow>
    CStorRestore list \<Rightarrow> string \<Rightarrow> ('s, string) act" where
  "restoreStatusLoop S inProgress failed invalid done upd [] rstStatus = returnS rstStatus"
| "restoreStatusLoop S inProgress failed invalid done upd (restore # restores) _ =
     bindS (readS (\<lambda>s. Ok (if rst_Status restore \<noteq> done \<and> rst_Status restore \<noteq> failed
                              \<and> isPoolManagerDown S (mget (Labels restore) (CStorPoolInstanceNameLabelKey (sapi S))) (getOpenEBSNamespace S) s
                           then failed else rst_Status restore))) (\<lambda>rstStatus.
     bindS (if rstStatus = inProgress then returnS inProgress
            else if rstStatus = failed \<or> rstStatus = invalid
            then (if rst_Status restore \<noteq> rstStatus
                  then bindS (ignoreS (\<lambda>s. upd s (Namespace restore) (restore\<lparr>rst_Status := rstStatus\<rparr>))) (\<lambda>_. returnS failed)
                  else returnS rstStatus)
            else returnS rstStatus) (\<lambda>rstStatus.
     if rstStatus = inProgress then returnS rstStatus
     else restoreStatusLoop S inProgress failed invalid done upd restores rstStatus))"

definition getV1Alpha1CStorRestoreStatus :: "'s senv \<Rightarrow> CStorRestore list \<Rightarrow> ('s, string) act" where
  "getV1Alpha1CStorRestoreStatus S restoreList =
     restoreStatusLoop S (alphaRSTInProgress S) (alphaRSTFailed S) (alphaRSTInvalid S) (alphaRSTDone S) (arst_update (bkpc S))
       restoreList (alphaRSTEmpty S)"

definition getCStorRestoreStatus :: "'s senv \<Rightarrow> CStorRestore list \<Rightarrow> ('s, string) act" where
  "getCStorRestoreStatus S restoreList =
     restoreStatusLoop S (RSTCStorStatusInProgress (bkpc S)) (RSTCStorStatusFailed (bkpc S)) (RSTCStorStatusInvalid (bkpc S))
       (RSTCStorStatusDone (bkpc S)) (rst_update (bkpc S)) restoreList (RSTCStorStatusEmpty (bkpc S))"

text \<open>A list that is not found is empty.\<close>

definition foundList :: "'a list res \<Rightarrow> 'a list res" where
  "foundList r = (case r of Err e \<Rightarrow> if IsNotFound e then Ok [] else Err e | _ \<Rightarrow> r)"

definition getRestoreStatus :: "'s senv \<Rightarrow> CStorRestore \<Rightarrow> ('s, string) act" where
  "getRestoreStatus S rst =
     (let selector = ''openebs.io/restore='' @ rst_RestoreName rst @ '','' @ PersistentVolumeLabelKey (rep (cvc S)) @ ''='' @ rst_VolumeName rst in
      bindS (codedS (readS (\<lambda>s. foundList (arst_list (bkpc S) s (Namespace rst) selector))) 400 ''Failed to fetch restore error:%v'' []) (\<lambda>v1Alpha1RestoreList.
      bindS (codedS (readS (\<lambda>s. foundList (rst_list (bkpc S) s (Namespace rst) selector))) 400 ''Failed to fetch restore error:%v'' []) (\<lambda>v1RestoreList.
      bindS (if v1Alpha1RestoreList \<noteq> [] then getV1Alpha1CStorRestoreStatus S v1Alpha1RestoreList
             else returnS (RSTCStorStatusEmpty (bkpc S))) (\<lambda>rstStatus.
      if v1Alpha1RestoreList \<noteq> [] \<and> rstStatus = RSTCStorStatusInProgress (bkpc S) then returnS rstStatus
      else if v1RestoreList \<noteq> [] then getCStorRestoreStatus S v1RestoreList
      else returnS rstStatus))))"

definition restore_get :: "'s senv \<Rightarrow> HttpRequest \<Rightarrow> ('s, reply) act" where
  "restore_get S req =
     bindS (readS (\<lambda>_. decodeBody req (decodeJsonRestore S) (decodeYamlRestore S))) (\<lambda>rst.
     if blank (rst_RestoreName rst) then failS (CodedError 400 ''Failed to get restore: missing restore name '' [])
     else if blank (Namespace rst)
     then failS (CodedError 400 ''Failed to get restore '%v': missing namespace'' [AS (rst_RestoreName rst)])
     else if blank (rst_VolumeName rst)
     then failS (CodedError 400 ''Failed to get restore '%v': missing volume name'' [AS (rst_RestoreName rst)])
     else
       bindS (codedS (getRestoreStatus S rst) 400 (''Failed to fetch status '%v'' @ [CHR 0x27]) []) (\<lambda>rstatus.
       sendReply S (marshalStatus S rstatus)))"

definition restoreV1alpha1SpecificRequest :: "'s senv \<Rightarrow> HttpRequest \<Rightarrow> ('s, reply) act" where
  "restoreV1alpha1SpecificRequest S req =
     (if hr_Method req = ''POST'' then restore_create S req
      else if hr_Method req = ''GET'' then restore_get S req
      else failS (CodedError 405 ErrInvalidMethod []))"

section \<open>The multiplexer\<close>

text \<open>The handlers stand for the requests below their paths; a request for another path is not found.\<close>

definition registeredHandler :: "'s senv \<Rightarrow> string \<Rightarrow> (HttpRequest \<Rightarrow> ('s, reply) act) option" where
  "registeredHandler S path =
     (if HasPrefix path ''/latest/backups/'' then Some (backupV1alpha1SpecificRequest S)
      else if HasPrefix path ''/latest/restore/'' then Some (restoreV1alpha1SpecificRequest S)
      else None)"

end
