(* ===== verification/SampleBackup.thy ===== *)
theory SampleBackup
  imports RestoreServer SampleVolume
begin

text \<open>
  Backups, completed backups and restores on the sample API server, and a sample REST server beside it. Resources of version
  \<open>v1alpha1\<close> are not installed; a pause lets the volume controller bind every claim. It is an example and models no code of
  the repository.
\<close>

abbreviation notInstalled :: "store \<Rightarrow> string \<Rightarrow> 'a \<Rightarrow> verdict \<times> store" where
  "notInstalled \<equiv> (\<lambda>s ns x. (Err (NotFound ns), s))"

definition sampleBenv :: "store benv" where
  "sampleBenv =
    \<lparr>brep = sampleRenv,
     bkp_get = (\<lambda>s ns n. lookupObj Name n (st_backups s)),
     bkp_list = (\<lambda>s ns sel. Ok (filter (\<lambda>b. inNamespace ns (Namespace b) \<and> matchesSelector sel (Labels b)) (st_backups s))),
     bkp_create = (\<lambda>s ns b. storeWith (\<lambda>xs s. s\<lparr>st_backups := xs\<rparr>) (insertObj Name b (st_backups s)) () s),
     bkp_update = (\<lambda>s ns b. storeWith (\<lambda>xs s. s\<lparr>st_backups := xs\<rparr>) (replaceObj Name b (st_backups s)) () s),
     bkp_delete = (\<lambda>s ns n. storeWith (\<lambda>xs s. s\<lparr>st_backups := xs\<rparr>) (removeObj Name n (st_backups s)) () s),
     abkp_get = (\<lambda>s ns n. Err (NotFound n)), abkp_create = notInstalled, abkp_update = notInstalled, abkp_delete = notInstalled,
     ccb_get = (\<lambda>s ns n. lookupObj Name n (st_completed s)),
     ccb_create = (\<lambda>s ns b. storeWith (\<lambda>xs s. s\<lparr>st_completed := xs\<rparr>) (insertObj Name b (st_completed s)) () s),
     ccb_update = (\<lambda>s ns b. storeWith (\<lambda>xs s. s\<lparr>st_completed := xs\<rparr>) (replaceObj Name b (st_completed s)) () s),
     ccb_delete = (\<lambda>s ns n. storeWith (\<lambda>xs s. s\<lparr>st_completed := xs\<rparr>) (removeObj Name n (st_completed s)) () s),
     acb_get = (\<lambda>s ns n. Err (NotFound n)), acb_create = notInstalled, acb_update = notInstalled, acb_delete = notInstalled,
     rst_get = (\<lambda>s ns n. lookupObj Name n (st_restores s)),
     rst_list = (\<lambda>s ns sel. Ok (filter (\<lambda>b. inNamespace ns (Namespace b) \<and> matchesSelector sel (Labels b)) (st_restores s))),
     rst_create = (\<lambda>s ns b. storeWith (\<lambda>xs s. s\<lparr>st_restores := xs\<rparr>) (insertObj Name b (st_restores s)) () s),
     rst_update = (\<lambda>s ns b. storeWith (\<lambda>xs s. s\<lparr>st_restores := xs\<rparr>) (replaceObj Name b (st_restores s)) () s),
     arst_get = (\<lambda>s ns n. Err (NotFound n)), arst_list = (\<lambda>s ns sel. Ok []), arst_create = notInstalled, arst_update = notInstalled,
     bkpIsSucceeded = (\<lambda>b. bkp_Status b = ''Done''),
     bkpIsFailed = (\<lambda>b. bkp_Status b = ''Failed''),
     bkpIsPending = (\<lambda>b. bkp_Status b = ''Pending''),
     bkpIsInInit = (\<lambda>b. bkp_Status b = ''Init''),
     rstIsSucceeded = (\<lambda>b. rst_Status b = ''Done''),
     rstIsFailed = (\<lambda>b. rst_Status b = ''Failed''),
     rstIsPending = (\<lambda>b. rst_Status b = ''Pending''),
     rstIsInInit = (\<lambda>b. rst_Status b = ''Init''),
     BKPCStorStatusDone = ''Done'', BKPCStorStatusFailed = ''Failed'', BKPCStorStatusInit = ''Init'',
     BKPCStorStatusPending = ''Pending'', BKPCStorStatusInProgress = ''InProgress'', BKPCStorStatusInvalid = ''Invalid'',
     RSTCStorStatusEmpty = '''', RSTCStorStatusDone = ''Done'', RSTCStorStatusFailed = ''Failed'', RSTCStorStatusInit = ''Init'',
     RSTCStorStatusPending = ''Pending'', RSTCStorStatusInProgress = ''InProgress'', RSTCStorStatusInvalid = ''Invalid'',
     CStorPoolInstanceUIDLabelKey = ''cstorpoolinstance.openebs.io/uid''\<rparr>"

text \<open>The REST server, with istgt beside it; its pools have no running manager.\<close>

definition requestedBackup :: "string \<Rightarrow> CStorBackup" where
  "requestedBackup status =
     sampleBackup\<lparr>Name := ''s1-v1'', bkp_Status := status,
       Labels := [(''cstorpoolinstance.openebs.io/uid'', ''uid-c1-x''), (''cstorpoolinstance.openebs.io/name'', ''c1-x'')]\<rparr>"

definition requestedRestore :: CStorRestore where
  "requestedRestore =
     ObjectMeta.extend (sampleMeta '''' [])
       \<lparr>rst_RestoreName = ''r'', rst_VolumeName = ''v1'', rst_RestoreSrc = ''10.0.0.2:9000'', rst_MaxRetryCount = 0,
        rst_RetryCount = 0, rst_StorageClass = '''', rst_Size = 0, rst_Local = False, rst_Status = ''''\<rparr>"

definition sampleServer :: "store senv" where
  "sampleServer =
    \<lparr>cvc = sampleCenv, bkpc = sampleBenv,
     cvc_create = (\<lambda>s ns c. storeWith (\<lambda>xs s. s\<lparr>st_cvcs := xs\<rparr>) (insertObj Name c (st_cvcs s)) () s),
     pod_list = (\<lambda>s ns sel. Ok []),
     nodeConditions = (\<lambda>s n. Ok [(''Ready'', ''True'')]),
     storageClass_get = (\<lambda>s n. Err (NotFound n)),
     decodeJsonBackup = (\<lambda>b. Ok (requestedBackup '''')), decodeYamlBackup = (\<lambda>b. Ok (requestedBackup '''')),
     decodeJsonRestore = (\<lambda>b. Ok requestedRestore), decodeYamlRestore = (\<lambda>b. Ok requestedRestore),
     marshalBackup = (\<lambda>h. Ok (bkp_Status (wrapped h))), marshalStatus = Ok,
     encodeReply = (\<lambda>p r. Ok ''{}''), respWrite = (\<lambda>b. Ok ()), errorText = (\<lambda>e. ''error''),
     snapshotterSet = True, grpcDial = (\<lambda>ip. Ok ()),
     grpcSnapCreate = (\<lambda>ip v n s. (Ok None, s)), grpcSnapDelete = (\<lambda>ip v n s. (Ok None, s)),
     commandResponse = (\<lambda>x. x), marshalCommandStatus = (\<lambda>x. x),
     istgtSendCommand = (\<lambda>cmd s. (([cmd, if Contains cmd ''s1'' then ''DONE'' else ''ERR''], None), s\<lparr>st_commands := st_commands s @ [cmd]\<rparr>)),
     NewVersion = (\<lambda>v. if v = '''' then Err (ApiError v) else Ok v),
     versionLessThan = (\<lambda>a b. lexordp_eq (map Atoi (Split CHR ''.'' a)) (map Atoi (Split CHR ''.'' b)) \<and> a \<noteq> b),
     NewUUID = (\<lambda>s. (replicate (Suc (sum_list (map (\<lambda>r. length (Name r)) (st_restores s)))) CHR ''x'', s)),
     pause = (\<lambda>s. s\<lparr>st_cvcs := map (\<lambda>c. c\<lparr>cvc_Phase := ''Bound''\<rparr>) (st_cvcs s)\<rparr>),
     serverNamespace = ''openebs'', canonicalHeader = (\<lambda>h. h), responseHeaders = [],
     alphaBKPDone = ''Done'', alphaBKPFailed = ''Failed'', alphaBKPPending = ''Pending'',
     alphaRSTEmpty = '''', alphaRSTDone = ''Done'', alphaRSTFailed = ''Failed'', alphaRSTPending = ''Pending'',
     alphaRSTInProgress = ''InProgress'', alphaRSTInvalid = ''Invalid''\<rparr>"

text \<open>gRPC carries a call of the operator to the server beside istgt.\<close>

definition sampleSenv :: "store senv" where
  "sampleSenv =
     sampleServer\<lparr>
       grpcSnapCreate := (\<lambda>ip v n s. case rpc_CreateSnapshot sampleServer v n s of (r, s') \<Rightarrow> (bindR r (\<lambda>x. Ok (Some x)), s')),
       grpcSnapDelete := (\<lambda>ip v n s. case rpc_DeleteSnapshot sampleServer v n s of (r, s') \<Rightarrow> (bindR r (\<lambda>x. Ok (Some x)), s'))\<rparr>"

definition sampleHttpRequest :: "string \<Rightarrow> HttpRequest" where
  "sampleHttpRequest m = \<lparr>hr_Method = m, hr_Path = ''/latest/backups/'', hr_Query = [], hr_Header = Some [], hr_Body = Ok ''''\<rparr>"

text \<open>A volume with two replicas on pools of cluster \<open>c1\<close>, a backup, and the record of its completed backups.\<close>

definition sampleCompleted :: CStorCompletedBackup where
  "sampleCompleted =
     ObjectMeta.extend (sampleMeta ''b-v1'' [])
       \<lparr>ccb_BackupName = ''b'', ccb_VolumeName = ''v1'', ccb_SecondLastSnapName = '''', ccb_LastSnapName = ''s0''\<rparr>"

definition restoreReplica :: "string \<Rightarrow> CStorVolumeReplica" where
  "restoreReplica p =
     (sampleCVR (''v1-'' @ p) ''Healthy'' [])\<lparr>Labels := [(''openebs.io/persistent-volume'', ''v1''),
        (''cstorpoolinstance.openebs.io/name'', p), (''cstorpoolinstance.openebs.io/uid'', ''uid-'' @ p)]\<rparr>"

definition backupStore :: "string \<Rightarrow> store" where
  "backupStore status =
     replicaStore\<lparr>st_backups := [requestedBackup status], st_completed := [sampleCompleted],
       st_cvcs := [(boundCVC [] [] '''')\<lparr>Name := ''v1'', cvc_Phase := ''Pending''\<rparr>],
       st_cvs := [(sampleCV 2 [])\<lparr>Name := ''v1'', cv_TargetIP := ''10.0.0.1''\<rparr>],
       st_cvrs := [restoreReplica ''c1-x'', restoreReplica ''c1-y'']\<rparr>"

end
