(* ===== verification/BackupSafety.thy ===== *)
theory BackupSafety
  imports SampleBackup ReplicaSafety
begin

text \<open>
  Backups over both processes: the pool manager sends the data and records the snapshot, the REST server creates the backup
  and reads its status.
\<close>

section \<open>The API server\<close>

text \<open>What the controller relies on: an object is read as it was last written, under its name, the kinds of objects are separate, and a refused write changes nothing.\<close>

definition backupLaws :: "'s benv \<Rightarrow> bool" where
  "backupLaws B \<longleftrightarrow>
     (\<forall>s ns b s'. bkp_update B s ns b = (Ok (), s') \<longrightarrow>
        bkp_get B s' ns (Name b) = Ok b \<and> ccb_get B s' = ccb_get B s \<and> acb_get B s' = acb_get B s) \<and>
     (\<forall>s ns c s'. ccb_update B s ns c = (Ok (), s') \<longrightarrow>
        ccb_get B s' ns (Name c) = Ok c \<and> acb_get B s' = acb_get B s \<and> bkp_get B s' = bkp_get B s) \<and>
     (\<forall>s ns c s'. acb_update B s ns c = (Ok (), s') \<longrightarrow>
        acb_get B s' ns (Name c) = Ok c \<and> ccb_get B s' = ccb_get B s \<and> bkp_get B s' = bkp_get B s) \<and>
     (\<forall>s ns n c. ccb_get B s ns n = Ok c \<longrightarrow> Name c = n) \<and> (\<forall>s ns n c. acb_get B s ns n = Ok c \<longrightarrow> Name c = n) \<and>
     (\<forall>s ns n b. bkp_get B s ns n = Ok b \<longrightarrow> Name b = n) \<and>
     (\<forall>p a s r s'. RunCombinedOutput (brep B) p a s = (r, s') \<longrightarrow>
        bkp_get B s' = bkp_get B s \<and> ccb_get B s' = ccb_get B s \<and> acb_get B s' = acb_get B s) \<and>
     (\<forall>s ns b e s'. bkp_update B s ns b = (Err e, s') \<longrightarrow> s' = s) \<and>
     (\<forall>s ns c e s'. ccb_update B s ns c = (Err e, s') \<longrightarrow> s' = s) \<and>
     (\<forall>s ns c e s'. acb_update B s ns c = (Err e, s') \<longrightarrow> s' = s)"

lemma backupLawsD:
  assumes "backupLaws B"
  shows "bkp_update B s ns b = (Ok (), s') \<Longrightarrow>
      bkp_get B s' ns (Name b) = Ok b \<and> ccb_get B s' = ccb_get B s \<and> acb_get B s' = acb_get B s"
    and "ccb_update B s ns c = (Ok (), s') \<Longrightarrow>
      ccb_get B s' ns (Name c) = Ok c \<and> acb_get B s' = acb_get B s \<and> bkp_get B s' = bkp_get B s"
    and "acb_update B s ns d = (Ok (), s') \<Longrightarrow>
      acb_get B s' ns (Name d) = Ok d \<and> ccb_get B s' = ccb_get B s \<and> bkp_get B s' = bkp_get B s"
    and "ccb_get B s ns n = Ok c \<Longrightarrow> Name c = n" and "acb_get B s ns n = Ok d \<Longrightarrow> Name d = n"
    and "bkp_get B s ns n = Ok b \<Longrightarrow> Name b = n"
    and "RunCombinedOutput (brep B) p a s = (r, s') \<Longrightarrow>
      bkp_get B s' = bkp_get B s \<and> ccb_get B s' = ccb_get B s \<and> acb_get B s' = acb_get B s"
    and "bkp_update B s ns b = (Err e, s') \<Longrightarrow> s' = s" and "ccb_update B s ns c = (Err e, s') \<Longrightarrow> s' = s"
    and "acb_update B s ns d = (Err e, s') \<Longrightarrow> s' = s"
  using assms by - (unfold backupLaws_def, metis+)

lemma onWorldD: "onWorld m p = (r, p') \<Longrightarrow> m (world p) = (r, world p')"
  by (cases "m (world p)") (auto simp: onWorld_def)

lemma readW_iff [res_simps]: "readW f p = (r, p') \<longleftrightarrow> f (world p) = r \<and> p' = p"
  by (auto simp: readW_def)

text \<open>Sending the data leaves the stored objects alone.\<close>

lemma retryLoop_world:
  assumes "\<And>p a s r s'. RunCombinedOutput R p a s = (r, s') \<Longrightarrow> f s' = f s"
  shows "f (world (snd (retryLoop R cmd n res p))) = f (world p)"
proof (induction n arbitrary: res p)
  case (Suc n)
  obtain out err w where run: "RunCombinedOutput R ExecuteScript cmd (world p) = ((out, err), w)"
    by (metis prod.collapse)
  from assms [OF run] Suc.IH [of "(out, err)" "p\<lparr>world := w\<rparr>"] show ?case
    by (simp add: bindS_def runZ_def run)
qed simp

lemma CreateVolumeBackup_world:
  assumes "\<And>p a s r s'. RunCombinedOutput R p a s = (r, s') \<Longrightarrow> f s' = f s" and "CreateVolumeBackup R bkp p = (r, p')"
  shows "f (world p') = f (world p)"
proof (cases "buildVolumeBackupCommand (vr_GetPoolName R) (bkp_VolumeName bkp) (bkp_PrevSnapName bkp) (bkp_SnapName bkp) (bkp_BackupDest bkp)")
  case (Ok cmd)
  with assms(2) retryLoop_world [of R f cmd 10 "('''', None)" p, OF assms(1)] show ?thesis
    by (auto simp: CreateVolumeBackup_def bindS_def failOpt_def split: prod.splits res.splits option.splits)
qed (use assms(2) in \<open>simp_all add: CreateVolumeBackup_def bindS_def\<close>)

lemma CreateVolumeBackup_stored:
  assumes "backupLaws B" and "CreateVolumeBackup (brep B) bkp p = (r, p')"
  shows "bkp_get B (world p') = bkp_get B (world p)" "ccb_get B (world p') = ccb_get B (world p)"
    "acb_get B (world p') = acb_get B (world p)"
  using CreateVolumeBackup_world [OF _ assms(2), of "bkp_get B"] CreateVolumeBackup_world [OF _ assms(2), of "ccb_get B"]
    CreateVolumeBackup_world [OF _ assms(2), of "acb_get B"] backupLawsD(7) [OF assms(1)] by metis+

section \<open>The record of completed backups\<close>

text \<open>
  How the record of a schedule changes when its snapshot \<open>snap\<close> is complete. A record of version \<open>v1alpha1\<close> has precedence;
  without any record there is nothing to change.
\<close>

definition snapshotRecorded :: "'s benv \<Rightarrow> string \<Rightarrow> string \<Rightarrow> string \<Rightarrow> 's \<Rightarrow> 's \<Rightarrow> bool" where
  "snapshotRecorded B ns n snap s s' \<longleftrightarrow>
     (case acb_get B s ns n of
        Ok c \<Rightarrow> acb_get B s' ns n = Ok (c\<lparr>acb_SnapName := acb_PrevSnapName c, acb_PrevSnapName := snap\<rparr>)
      | _ \<Rightarrow> (case ccb_get B s ns n of
                Ok c \<Rightarrow> ccb_get B s' ns n = Ok (c\<lparr>ccb_SecondLastSnapName := ccb_LastSnapName c, ccb_LastSnapName := snap\<rparr>)
              | _ \<Rightarrow> True))"

lemma snapshotRecorded_cong:
  "acb_get B s = acb_get B t \<Longrightarrow> ccb_get B s = ccb_get B t \<Longrightarrow> snapshotRecorded B ns n snap s s' = snapshotRecorded B ns n snap t s'"
  by (simp add: snapshotRecorded_def cong: res.case_cong)

lemma updateCStorCompletedBackup_records:
  assumes laws: "backupLaws B" and run: "updateCStorCompletedBackup B bkp s = (Ok (), s')"
  shows "snapshotRecorded B (Namespace bkp) (bkp_BackupName bkp @ ''-'' @ bkp_VolumeName bkp) (bkp_SnapName bkp) s s'"
    "bkp_get B s' = bkp_get B s"
proof -
  let ?ns = "Namespace bkp" let ?n = "bkp_BackupName bkp @ ''-'' @ bkp_VolumeName bkp"
  have "snapshotRecorded B ?ns ?n (bkp_SnapName bkp) s s' \<and> bkp_get B s' = bkp_get B s"
  proof (cases "acb_get B s ?ns ?n")
    case (Ok c)
    with run backupLawsD(3) [OF laws, of s ?ns _ s'] backupLawsD(5) [OF laws Ok] show ?thesis
      by (force simp: updateCStorCompletedBackup_def Let_def bindS_def attemptS_def snapshotRecorded_def)
  next
    case (Err e)
    show ?thesis
    proof (cases "ccb_get B s ?ns ?n")
      case (Ok c)
      with Err run backupLawsD(2) [OF laws, of s ?ns _ s'] backupLawsD(4) [OF laws Ok] show ?thesis
        by (force simp: updateCStorCompletedBackup_def Let_def bindS_def attemptS_def snapshotRecorded_def)
    qed (use Err run in \<open>auto simp: updateCStorCompletedBackup_def Let_def bindS_def attemptS_def snapshotRecorded_def\<close>)
  qed (use run in \<open>auto simp: updateCStorCompletedBackup_def Let_def bindS_def attemptS_def snapshotRecorded_def\<close>)
  then show "snapshotRecorded B ?ns ?n (bkp_SnapName bkp) s s'" "bkp_get B s' = bkp_get B s" by simp_all
qed

text \<open>What a synchronisation of a backup that is initialised gives: the status, and for a finished one what happened.\<close>

lemma syncEvent_done:
  assumes laws: "backupLaws B" and init: "bkpIsInInit B bkp"
    and run: "bkp_syncEventHandler B bkp w = (Ok (BKPCStorStatusDone B, err), w')"
    and ne: "BKPCStorStatusDone B \<noteq> ''''" "BKPCStorStatusDone B \<noteq> BKPCStorStatusFailed B"
  shows "\<exists>p p'. CreateVolumeBackup (brep B) (bkp\<lparr>bkp_Status := BKPCStorStatusInProgress B\<rparr>) p = (Ok (), p')"
    "snapshotRecorded B (Namespace bkp) (bkp_BackupName bkp @ ''-'' @ bkp_VolumeName bkp) (bkp_SnapName bkp) (world w) (world w')"
proof -
  let ?b = "bkp\<lparr>bkp_Status := BKPCStorStatusInProgress B\<rparr>"
  from run init ne obtain w1 w2 where
    upd: "onWorld (\<lambda>s. bkp_update B s (Namespace bkp) ?b) w = (Ok (), w1)"
    and sent: "CreateVolumeBackup (brep B) ?b w1 = (Ok (), w2)"
    and rec: "onWorld (updateCStorCompletedBackup B ?b) w2 = (Ok (), w')"
    by (auto simp: bkp_syncEventHandler_def Let_def bindS_def attemptS_def split: prod.splits res.splits)
  from sent show "\<exists>p p'. CreateVolumeBackup (brep B) ?b p = (Ok (), p')" by blast
  from upd backupLawsD(1) [OF laws] have "ccb_get B (world w1) = ccb_get B (world w)" "acb_get B (world w1) = acb_get B (world w)"
    by (auto dest: onWorldD)
  moreover note CreateVolumeBackup_stored [OF laws sent]
  moreover from rec updateCStorCompletedBackup_records(1) [OF laws, of ?b]
  have "snapshotRecorded B (Namespace bkp) (bkp_BackupName bkp @ ''-'' @ bkp_VolumeName bkp) (bkp_SnapName bkp) (world w2) (world w')"
    by (force dest: onWorldD)
  ultimately show "snapshotRecorded B (Namespace bkp) (bkp_BackupName bkp @ ''-'' @ bkp_VolumeName bkp) (bkp_SnapName bkp) (world w) (world w')"
    using snapshotRecorded_cong [of B "world w2" "world w"] by simp
qed

lemma updateCStorCompletedBackup_backups:
  assumes laws: "backupLaws B" and run: "updateCStorCompletedBackup B bkp s = (r, s')" and "\<And>p. r \<noteq> Panic p"
  shows "bkp_get B s' = bkp_get B s"
proof (cases r)
  case (Ok u)
  with run updateCStorCompletedBackup_records(2) [OF laws, of bkp s s'] show ?thesis by simp
next
  case (Err e)
  with run have "s' = s"
    using backupLawsD(9,10) [OF laws]
    by (auto simp: updateCStorCompletedBackup_def Let_def bindS_def attemptS_def split: res.splits)
  then show ?thesis by simp
qed (use assms(3) in blast)

lemma syncEvent_stored:
  assumes laws: "backupLaws B" and init: "bkpIsInInit B bkp" and run: "bkp_syncEventHandler B bkp w = (Ok (status, err), w')"
  shows "status = '''' \<and> world w' = world w \<or>
    status \<in> {BKPCStorStatusDone B, BKPCStorStatusFailed B} \<and> (err = None \<longrightarrow> status = BKPCStorStatusDone B) \<and>
    bkp_get B (world w') (Namespace bkp) (Name bkp) = Ok (bkp\<lparr>bkp_Status := BKPCStorStatusInProgress B\<rparr>)"
proof -
  let ?b = "bkp\<lparr>bkp_Status := BKPCStorStatusInProgress B\<rparr>"
  obtain r1 w1 where upd: "onWorld (\<lambda>s. bkp_update B s (Namespace bkp) ?b) w = (r1, w1)" by fastforce
  show ?thesis
  proof (cases r1)
    case (Ok u)
    with upd have "bkp_update B (world w) (Namespace bkp) ?b = (Ok (), world w1)" by (auto dest: onWorldD)
    from backupLawsD(1) [OF laws this] have got1: "bkp_get B (world w1) (Namespace bkp) (Name bkp) = Ok ?b" by simp
    obtain r2 w2 where sent: "CreateVolumeBackup (brep B) ?b w1 = (r2, w2)" by fastforce
    from CreateVolumeBackup_stored(1) [OF laws sent] got1 have got2: "bkp_get B (world w2) (Namespace bkp) (Name bkp) = Ok ?b" by simp
    obtain r3 w3 where rec: "onWorld (updateCStorCompletedBackup B ?b) w2 = (r3, w3)" by fastforce
    then have rec': "updateCStorCompletedBackup B ?b (world w2) = (r3, world w3)" by (rule onWorldD)
    show ?thesis
    proof (cases r2)
      case r2: (Ok u2)
      from run init upd Ok sent r2 rec have "\<And>p. r3 \<noteq> Panic p"
        by (auto simp: bkp_syncEventHandler_def Let_def bindS_def attemptS_def)
      with updateCStorCompletedBackup_backups [OF laws rec'] got2
      have "bkp_get B (world w3) (Namespace bkp) (Name bkp) = Ok ?b" by simp
      with run init upd Ok sent r2 rec show ?thesis
        by (cases r3) (auto simp: bkp_syncEventHandler_def Let_def bindS_def attemptS_def)
    qed (use run init upd Ok sent got2 in \<open>auto simp: bkp_syncEventHandler_def Let_def bindS_def attemptS_def\<close>)
  next
    case (Err e)
    with onWorldD [OF upd] backupLawsD(8) [OF laws] have "world w1 = world w" by metis
    with run init upd Err show ?thesis by (auto simp: bkp_syncEventHandler_def Let_def bindS_def attemptS_def)
  qed (use run init upd in \<open>auto simp: bkp_syncEventHandler_def Let_def bindS_def attemptS_def\<close>)
qed


lemma sampleBenv_sel:
  "bkp_get sampleBenv s ns n = lookupObj Name n (st_backups s)" "ccb_get sampleBenv s ns n = lookupObj Name n (st_completed s)"
  "acb_get sampleBenv s ns n = Err (NotFound n)"
  "bkp_update sampleBenv s ns b = storeWith (\<lambda>xs s. s\<lparr>st_backups := xs\<rparr>) (replaceObj Name b (st_backups s)) () s"
  "ccb_update sampleBenv s ns c = storeWith (\<lambda>xs s. s\<lparr>st_completed := xs\<rparr>) (replaceObj Name c (st_completed s)) () s"
  "acb_update sampleBenv s ns d = (Err (NotFound ns), s)" "brep sampleBenv = sampleRenv"
  by (simp_all add: sampleBenv_def)

lemma lookupObj_replaced:
  assumes "replaceObj f x xs = Ok ys"
  shows "lookupObj f (f x) ys = Ok x"
proof -
  from assms have ys: "ys = map (\<lambda>y. if f y = f x then x else y) xs" and "f x \<in> f ` set xs"
    by (auto simp: replaceObj_def split: if_splits)
  from this(2) have "find (\<lambda>y. f y = f x) ys = Some x"
    unfolding ys by (induction xs) auto
  then show ?thesis by (simp add: lookupObj_def)
qed

lemma lookupObj_name: "lookupObj f n xs = Ok x \<Longrightarrow> f x = n"
  by (auto simp: lookupObj_def find_Some_iff split: option.splits)

lemma storeWith_Ok: "storeWith upd r x s = (Ok y, s') \<longleftrightarrow> (\<exists>xs. r = Ok xs \<and> s' = upd xs s \<and> y = x)"
  by (auto simp: storeWith_def split: res.splits)

lemma storeWith_Err: "storeWith upd r x s = (Err e, s') \<Longrightarrow> s' = s"
  by (auto simp: storeWith_def split: res.splits)

lemma sampleRun_store: "sampleRun p a s = (r, s') \<Longrightarrow> st_backups s' = st_backups s \<and> st_completed s' = st_completed s"
  by (auto simp: sampleRun_def Let_def split: if_splits list.splits)

lemma sample_backupLaws: "backupLaws sampleBenv"
  unfolding backupLaws_def sampleBenv_sel
  by (intro conjI allI impI; (drule storeWith_Err sampleRun_store)?;
      auto simp: storeWith_Ok lookupObj_replaced fun_eq_iff sampleBenv_sel sampleRenv_def dest: lookupObj_name sampleRun_store)


section \<open>Every backup finishes\<close>

text \<open>
  The methods of a status compare it with the constant of their name; a stored object can be written, and the client panics
  on no read or write.
\<close>

definition statusMethods :: "'s benv \<Rightarrow> bool" where
  "statusMethods B \<longleftrightarrow>
     (\<forall>b. (bkpIsSucceeded B b \<longleftrightarrow> bkp_Status b = BKPCStorStatusDone B) \<and> (bkpIsFailed B b \<longleftrightarrow> bkp_Status b = BKPCStorStatusFailed B) \<and>
          (bkpIsPending B b \<longleftrightarrow> bkp_Status b = BKPCStorStatusPending B) \<and> (bkpIsInInit B b \<longleftrightarrow> bkp_Status b = BKPCStorStatusInit B))"

definition backupsWritable :: "'s benv \<Rightarrow> bool" where
  "backupsWritable B \<longleftrightarrow>
     (\<forall>s b b0. bkp_get B s (Namespace b) (Name b) = Ok b0 \<longrightarrow> (\<exists>s'. bkp_update B s (Namespace b) b = (Ok (), s'))) \<and>
     (\<forall>s ns n p. acb_get B s ns n \<noteq> Panic p) \<and> (\<forall>s ns n p. ccb_get B s ns n \<noteq> Panic p) \<and>
     (\<forall>s ns c p. fst (acb_update B s ns c) \<noteq> Panic p) \<and> (\<forall>s ns c p. fst (ccb_update B s ns c) \<noteq> Panic p)"

lemma backupsWritableD:
  assumes "backupsWritable B"
  shows "bkp_get B s (Namespace b) (Name b) = Ok b0 \<Longrightarrow> \<exists>s'. bkp_update B s (Namespace b) b = (Ok (), s')"
    and "acb_get B s ns n \<noteq> Panic p" and "ccb_get B s ns n \<noteq> Panic p"
    and "fst (acb_update B s ns c) \<noteq> Panic p" and "fst (ccb_update B s ns d) \<noteq> Panic p"
  using assms by - (unfold backupsWritable_def, metis+)

lemma CreateVolumeBackup_returns:
  assumes "1 < length (Split CHR '':'' (bkp_BackupDest bkp))"
  shows "fst (CreateVolumeBackup R bkp p) \<noteq> Panic m"
proof -
  obtain cmd where cmd: "buildVolumeBackupCommand (vr_GetPoolName R) (bkp_VolumeName bkp) (bkp_PrevSnapName bkp) (bkp_SnapName bkp) (bkp_BackupDest bkp) = Ok cmd"
    using assms by (auto simp: buildVolumeBackupCommand_def Let_def elemAt_def)
  obtain out err p' where "retryLoop R cmd (Suc 9) ('''', None) p = (Ok (out, err), p')"
    using retryLoop_result [of R cmd 9 "('''', None)" p] by blast
  then have "retryLoop R cmd 10 ('''', None) p = (Ok (out, err), p')" by (simp add: numeral_eq_Suc)
  with cmd show ?thesis by (auto simp: CreateVolumeBackup_def bindS_def failOpt_def split: option.splits)
qed

lemma updateCStorCompletedBackup_returns:
  assumes "backupsWritable B"
  shows "fst (updateCStorCompletedBackup B bkp s) \<noteq> Panic m"
  using backupsWritableD(2-5) [OF assms]
  by (auto simp: updateCStorCompletedBackup_def Let_def bindS_def attemptS_def split: res.splits)

lemma syncEvent_finishes:
  assumes w: "backupsWritable B" and init: "bkpIsInInit B bkp" and stored: "bkp_get B (world w) (Namespace bkp) (Name bkp) = Ok b0"
    and port: "1 < length (Split CHR '':'' (bkp_BackupDest bkp))"
  shows "\<exists>status err w'. bkp_syncEventHandler B bkp w = (Ok (status, err), w') \<and> status \<in> {BKPCStorStatusDone B, BKPCStorStatusFailed B}"
proof -
  let ?b = "bkp\<lparr>bkp_Status := BKPCStorStatusInProgress B\<rparr>"
  from backupsWritableD(1) [OF w, of "world w" ?b b0] stored obtain s1 where
    upd: "bkp_update B (world w) (Namespace bkp) ?b = (Ok (), s1)" by auto
  obtain r2 w2 where sent: "CreateVolumeBackup (brep B) ?b (w\<lparr>world := s1\<rparr>) = (r2, w2)" by fastforce
  from CreateVolumeBackup_returns [of ?b "brep B" "w\<lparr>world := s1\<rparr>"] port sent have r2: "\<And>m. r2 \<noteq> Panic m" by simp
  obtain r3 s3 where rec: "updateCStorCompletedBackup B ?b (world w2) = (r3, s3)" by fastforce
  from updateCStorCompletedBackup_returns [OF w, of ?b "world w2"] rec have r3: "\<And>m. r3 \<noteq> Panic m" by simp
  show ?thesis
    by (cases r2; cases r3) (use init upd sent rec r2 r3 in
        \<open>auto simp: bkp_syncEventHandler_def Let_def bindS_def attemptS_def onWorld_def\<close>)
qed

text \<open>One event takes a stored backup to the status the handler gives.\<close>

lemma bkp_syncHandler_writes:
  assumes laws: "backupLaws B" and wr: "backupsWritable B"
    and key: "SplitMetaNamespaceKey (bapi B) key = Ok (Namespace bkp, Name bkp)"
    and stored: "bkp_get B (world w) (Namespace bkp) (Name bkp) = Ok bkp" and live: "\<not> bkpIsSucceeded B bkp" "\<not> bkpIsFailed B bkp"
    and ev: "bkp_eventHandler B op bkp w = (Ok (status, err), w1)" and ne: "status \<noteq> ''''"
    and now: "bkp_get B (world w1) (Namespace bkp) (Name bkp) = Ok (bkp\<lparr>bkp_Status := st1\<rparr>)"
  shows "\<exists>w'. bkp_syncHandler B key op w = (Ok (), w') \<and> bkp_get B (world w') (Namespace bkp) (Name bkp) =
    Ok (bkp\<lparr>bkp_Status := (if err \<noteq> None then BKPCStorStatusFailed B else status)\<rparr>)"
proof -
  let ?b = "bkp\<lparr>bkp_Status := (if err \<noteq> None then BKPCStorStatusFailed B else status)\<rparr>"
  from backupsWritableD(1) [OF wr, of "world w1" ?b] now obtain s2 where
    upd: "bkp_update B (world w1) (Namespace bkp) ?b = (Ok (), s2)" by auto
  have "getCStorBackupResource B key (world w) = Ok (Some bkp)"
    using key stored by (simp add: getCStorBackupResource_def)
  then have "bkp_syncHandler B key op w = (Ok (), w1\<lparr>world := s2\<rparr>)"
    using live ev ne now upd by (simp add: bkp_syncHandler_def bindS_def readW_def onWorld_def)
  moreover from backupLawsD(1) [OF laws upd] have "bkp_get B s2 (Namespace bkp) (Name bkp) = Ok ?b" by simp
  ultimately show ?thesis by force
qed


lemma lookupObj_returns: "lookupObj f n xs \<noteq> Panic p"
  by (simp add: lookupObj_def split: option.splits)

lemma storeWith_returns: "fst (storeWith upd (replaceObj f x xs) y s) \<noteq> Panic p"
  by (simp add: storeWith_def replaceObj_def)

lemma lookupObj_mem: "lookupObj f n xs = Ok x \<Longrightarrow> n \<in> f ` set xs"
  by (auto simp: lookupObj_def find_Some_iff split: option.splits)

lemma storeWith_replaces:
  "lookupObj f (f b) xs = Ok b0 \<Longrightarrow> \<exists>s'. storeWith upd (replaceObj f b xs) () s = (Ok (), s')"
  by (drule lookupObj_mem) (simp add: storeWith_def replaceObj_def)

lemma sample_backupsWritable: "backupsWritable sampleBenv"
  unfolding backupsWritable_def sampleBenv_sel
  by (intro conjI allI impI lookupObj_returns storeWith_returns; (erule storeWith_replaces | simp))


text \<open>
  A request is admitted when its destination is not blank, but the pool manager takes the part after the colon as the port:
  on a destination without one it panics.
\<close>

lemma CreateVolumeBackup_panics:
  "length (Split CHR '':'' (bkp_BackupDest bkp)) \<le> 1 \<Longrightarrow> \<exists>m. CreateVolumeBackup R bkp p = (Panic m, p)"
  by (cases "elemAt (Split CHR '':'' (bkp_BackupDest bkp)) 0")
    (auto simp: CreateVolumeBackup_def buildVolumeBackupCommand_def Let_def elemAt_def bindS_def)

theorem admitted_destination_panics:
  "\<exists>bkp. backupCreateRequestValidations bkp = Ok () \<and> (\<forall>p. \<exists>m. CreateVolumeBackup sampleRenv bkp p = (Panic m, p))"
proof -
  let ?b = "(requestedBackup ''Init'')\<lparr>bkp_BackupDest := ''10.0.0.2''\<rparr>"
  have "backupCreateRequestValidations ?b = Ok ()" by code_simp
  moreover have "length (Split CHR '':'' (bkp_BackupDest ?b)) \<le> 1" by code_simp
  ultimately show ?thesis using CreateVolumeBackup_panics by blast
qed

end
