(* ===== verification/ServerSafety.thy ===== *)
theory ServerSafety
  imports BackupSafety
begin

text \<open>
  The REST server: the contract of the two wrappers of a backup, the answers to requests for backups and restores, snapshots
  over gRPC, and the wait for a volume.
\<close>

section \<open>The wrappers of a backup\<close>

text \<open>
  What the endpoints rely on: the status found for a stalled backup is a final one, and writing a final status completes the
  backup. \<open>usable\<close> is what a wrapper needs of the methods on its resource.
\<close>

locale backup_wrapper =
  fixes usable :: "'s senv \<Rightarrow> bool" and final :: "'s senv \<Rightarrow> string set"
    and completed :: "'s senv \<Rightarrow> CStorBackup \<Rightarrow> bool"
    and last_stat :: "'s senv \<Rightarrow> CStorBackup \<Rightarrow> 's \<Rightarrow> string res"
    and update_stat :: "'s senv \<Rightarrow> CStorBackup \<Rightarrow> string \<Rightarrow> ('s, CStorBackup) act"
  assumes last_final: "last_stat S b s = Ok st \<Longrightarrow> st \<in> final S"
    and update_sets: "update_stat S b st s = (Ok b', s') \<Longrightarrow> b' = b\<lparr>bkp_Status := st\<rparr>"
    and final_completed: "usable S \<Longrightarrow> bkp_Status b \<in> final S \<Longrightarrow> completed S b"
begin

lemma stalled_completes:
  assumes "usable S" and "bindS (readS (last_stat S b)) (update_stat S b) s = (Ok b', s')"
  shows "completed S b' \<and> bkp_Status b' \<in> final S"
proof -
  from assms(2) obtain st where found: "last_stat S b s = Ok st" and upd: "update_stat S b st s = (Ok b', s')"
    by (auto simp: bindS_Ok_iff)
  from last_final [OF found] update_sets [OF upd] have "bkp_Status b' \<in> final S" by simp
  with final_completed [OF assms(1)] show ?thesis by blast
qed

end

definition v1Final :: "'s senv \<Rightarrow> string set" where
  "v1Final S = {BKPCStorStatusDone (bkpc S), BKPCStorStatusFailed (bkpc S)}"

definition v1alpha1Final :: "'s senv \<Rightarrow> string set" where
  "v1alpha1Final S = {alphaBKPDone S, alphaBKPFailed S}"

interpretation v1w: backup_wrapper "\<lambda>S. statusMethods (bkpc S)" v1Final v1_isBackupCompleted v1_findLastBackupStat v1_updateBackupStatus
  by unfold_locales
    (auto simp: v1Final_def v1_findLastBackupStat_def v1_updateBackupStatus_def Let_def bindS_Ok_iff v1_isBackupCompleted_def
       statusMethods_def split: res.splits if_splits)

interpretation v1alpha1w: backup_wrapper "\<lambda>S. True" v1alpha1Final v1alpha1_isBackupCompleted v1alpha1_findLastBackupStat
    v1alpha1_updateBackupStatus
  by unfold_locales
    (auto simp: v1alpha1Final_def v1alpha1_findLastBackupStat_def v1alpha1_updateBackupStatus_def Let_def bindS_Ok_iff
       v1alpha1_isBackupCompleted_def isBackupFailed_def isBackupSucceeded_def split: res.splits if_splits)

text \<open>
  A reader of a backup never waits for a pool manager that is gone: when it or its node is down, the backup that is returned is
  complete, in either version of the API.
\<close>

theorem stalled_backup_completed:
  assumes meth: "statusMethods (bkpc S)" and down: "isPoolManagerDown S (getCSPIName S h) (getOpenEBSNamespace S) s"
    and run: "refreshBackup S h s = (Ok h', s')"
  shows "isBackupCompleted S h'"
proof (cases "isBackupCompleted S h")
  case True
  with run show ?thesis by (simp add: refreshBackup_def)
next
  case False
  with run down have run': "bindS (readS (helper_findLastBackupStat S h)) (helper_updateBackupStatus S h) s = (Ok h', s')"
    by (simp add: refreshBackup_def Let_def isPoolManagerDown_def bindS_def readS_def)
  show ?thesis
  proof (cases h)
    case (V1Alpha1 b)
    with run' obtain b' where "bindS (readS (v1alpha1_findLastBackupStat S b)) (v1alpha1_updateBackupStatus S b) s = (Ok b', s')"
      and "h' = V1Alpha1 b'" by (auto simp: bindS_Ok_iff)
    with v1alpha1w.stalled_completes [OF TrueI, of S b s b' s'] show ?thesis by simp
  next
    case (V1 b)
    with run' obtain b' where "bindS (readS (v1_findLastBackupStat S b)) (v1_updateBackupStatus S b) s = (Ok b', s')"
      and "h' = V1 b'" by (auto simp: bindS_Ok_iff)
    with v1w.stalled_completes [OF meth, of b s b' s'] show ?thesis by simp
  qed
qed

theorem stalled_backup_completed_witness:
  "\<exists>h' s'. refreshBackup sampleSenv (V1 (requestedBackup ''InProgress'')) (backupStore ''InProgress'') = (Ok h', s')
     \<and> isBackupCompleted sampleSenv h'"
proof -
  let ?r = "refreshBackup sampleSenv (V1 (requestedBackup ''InProgress'')) (backupStore ''InProgress'')"
  have b: "bkpc sampleSenv = sampleBenv" by (simp add: sampleSenv_def sampleServer_def)
  have "statusMethods (bkpc sampleSenv)" unfolding b by (simp add: statusMethods_def sampleBenv_def)
  moreover have "isPoolManagerDown sampleSenv (getCSPIName sampleSenv (V1 (requestedBackup ''InProgress''))) (getOpenEBSNamespace sampleSenv)
    (backupStore ''InProgress'')" by code_simp
  moreover have "fst ?r = Ok (V1 (requestedBackup ''Failed''))" by code_simp
  then have run: "?r = (Ok (V1 (requestedBackup ''Failed'')), snd ?r)" by (rule fst_pair)
  ultimately have "isBackupCompleted sampleSenv (V1 (requestedBackup ''Failed''))" by (rule stalled_backup_completed)
  with run show ?thesis by blast
qed

text \<open>
  The last snapshot of a schedule does not depend on the version of the pool: when one version of the API has a record of
  completed backups and the other has none, both wrappers start the incremental backup from the same snapshot.
\<close>

theorem last_snapshot_of_either_version:
  assumes "acb_get (bkpc S) s (Namespace b) (lastBackupName b) = Err (NotFound n) \<and> ccb_get (bkpc S) s (Namespace b) (lastBackupName b) = Ok c
    \<or> acb_get (bkpc S) s (Namespace b) (lastBackupName b) = Ok d \<and> ccb_get (bkpc S) s (Namespace b) (lastBackupName b) = Err (NotFound n)"
  shows "getOrCreateLastBackupSnap S (V1 b) s = getOrCreateLastBackupSnap S (V1Alpha1 b) s"
  using assms
  by (auto simp: v1_getOrCreateLastBackupSnap_def v1alpha1_getOrCreateLastBackupSnap_def Let_def bindS_def attemptS_def)

theorem last_snapshot_of_either_version_witness:
  "getOrCreateLastBackupSnap sampleSenv (V1 (requestedBackup '''')) (backupStore '''') =
   getOrCreateLastBackupSnap sampleSenv (V1Alpha1 (requestedBackup '''')) (backupStore '''')
   \<and> fst (getOrCreateLastBackupSnap sampleSenv (V1 (requestedBackup '''')) (backupStore '''')) = Ok ''s0''"
proof
  let ?b = "requestedBackup ''''" and ?s = "backupStore ''''"
  have "acb_get (bkpc sampleSenv) ?s (Namespace ?b) (lastBackupName ?b) = Err (NotFound (lastBackupName ?b))" by code_simp
  moreover have "ccb_get (bkpc sampleSenv) ?s (Namespace ?b) (lastBackupName ?b) = Ok sampleCompleted" by code_simp
  ultimately show "getOrCreateLastBackupSnap sampleSenv (V1 ?b) ?s = getOrCreateLastBackupSnap sampleSenv (V1Alpha1 ?b) ?s"
    by (intro last_snapshot_of_either_version) blast
  show "fst (getOrCreateLastBackupSnap sampleSenv (V1 ?b) ?s) = Ok ''s0''" by code_simp
qed

section \<open>Snapshots\<close>

text \<open>
  gRPC carries the call of the operator to the server beside istgt and its answer back, and the status is decoded as it was
  encoded. The error of a call is another one than that of the server.
\<close>

definition snapshotTransport :: "'s senv \<Rightarrow> bool" where
  "snapshotTransport S \<longleftrightarrow>
     (\<forall>x. commandResponse S (marshalCommandStatus S x) = x) \<and> (\<forall>ip. grpcDial S ip = Ok ()) \<and>
     (\<forall>ip v n s x s'. rpc_CreateSnapshot S v n s = (Ok x, s') \<longrightarrow> grpcSnapCreate S ip v n s = (Ok (Some x), s')) \<and>
     (\<forall>ip v n s e s'. rpc_CreateSnapshot S v n s = (Err e, s') \<longrightarrow> (\<exists>e'. grpcSnapCreate S ip v n s = (Err e', s')))"


lemma sample_snapshotTransport: "snapshotTransport sampleSenv"
proof -
  have "marshalCommandStatus sampleSenv = marshalCommandStatus sampleServer" "istgtSendCommand sampleSenv = istgtSendCommand sampleServer"
    by (simp_all add: sampleSenv_def)
  then have "rpc_CreateSnapshot sampleSenv v n s = rpc_CreateSnapshot sampleServer v n s" for v n s
    by (simp add: rpc_CreateSnapshot_def istgtSnapshot_def cong: option.case_cong)
  moreover have "grpcSnapCreate sampleSenv ip v n s =
      (case rpc_CreateSnapshot sampleServer v n s of (r, s') \<Rightarrow> (bindR r (\<lambda>x. Ok (Some x)), s'))" for ip v n s
    by (simp add: sampleSenv_def)
  moreover have "commandResponse sampleSenv (marshalCommandStatus sampleSenv x) = x" "grpcDial sampleSenv ip = Ok ()" for x ip
    by (simp_all add: sampleSenv_def sampleServer_def)
  ultimately show ?thesis by (simp add: snapshotTransport_def)
qed


section \<open>Waiting for a volume\<close>

definition boundAt :: "'s senv \<Rightarrow> string \<Rightarrow> string \<Rightarrow> 's \<Rightarrow> bool" where
  "boundAt S n ns s = (case cvc_get (sapi S) s ns n of Ok c \<Rightarrow> cvc_Phase c = CStorVolumeConfigPhaseBound (sapi S) | _ \<Rightarrow> False)"

definition unboundAt :: "'s senv \<Rightarrow> string \<Rightarrow> string \<Rightarrow> 's \<Rightarrow> bool" where
  "unboundAt S n ns s =
     (case cvc_get (sapi S) s ns n of Ok c \<Rightarrow> cvc_Phase c \<noteq> CStorVolumeConfigPhaseBound (sapi S) | Err e \<Rightarrow> IsNotFound e | Panic _ \<Rightarrow> False)"

lemma waitLoop_Ok_iff:
  "waitLoop S n ns k s = (Ok (), s') \<longleftrightarrow>
    (\<exists>i<k. s' = (pause S ^^ i) s \<and> boundAt S n ns ((pause S ^^ i) s) \<and> (\<forall>j<i. unboundAt S n ns ((pause S ^^ j) s)))"
proof (induction k arbitrary: s)
  case (Suc k)
  have step: "waitLoop S n ns (Suc k) s = (Ok (), s') \<longleftrightarrow>
      boundAt S n ns s \<and> s' = s \<or> unboundAt S n ns s \<and> waitLoop S n ns k (pause S s) = (Ok (), s')"
    by (auto simp: boundAt_def unboundAt_def split: res.splits)
  have excl: "boundAt S n ns s \<Longrightarrow> \<not> unboundAt S n ns s" by (auto simp: boundAt_def unboundAt_def split: res.splits)
  show ?case unfolding step Suc.IH
    by (subst Ex_less_Suc2) (auto simp: funpow_swap1 All_less_Suc2 simp del: funpow.simps(2) simp add: funpow_Suc_right)
qed simp

text \<open>
  C27. A restore goes on exactly when one of five looks, with a pause between two of them, finds the volume bound, and until then it
  was missing or not bound; so the wait ends after at most four pauses.
\<close>

theorem volume_awaited:
  "waitForCVCBoundState S n ns s = (Ok (), s') \<longleftrightarrow>
    (\<exists>i<5. s' = (pause S ^^ i) s \<and> boundAt S n ns ((pause S ^^ i) s) \<and> (\<forall>j<i. unboundAt S n ns ((pause S ^^ j) s)))"
  unfolding waitForCVCBoundState_def by (rule waitLoop_Ok_iff)

theorem volume_awaited_witness:
  "waitForCVCBoundState sampleSenv ''v1'' ''openebs'' (backupStore '''') = (Ok (), pause sampleSenv (backupStore ''''))"
proof -
  have "boundAt sampleSenv ''v1'' ''openebs'' ((pause sampleSenv ^^ 1) (backupStore ''''))" by code_simp
  moreover have "unboundAt sampleSenv ''v1'' ''openebs'' ((pause sampleSenv ^^ 0) (backupStore ''''))" by code_simp
  ultimately show ?thesis unfolding volume_awaited by (intro exI [of _ 1]) simp
qed

section \<open>The status of a restore\<close>

text \<open>The status a restore counts with: one that is not finished has failed when its pool manager is down.\<close>

definition effectiveStatus :: "'s senv \<Rightarrow> 's \<Rightarrow> string \<Rightarrow> string \<Rightarrow> CStorRestore \<Rightarrow> string" where
  "effectiveStatus S s failed ok r =
     (if rst_Status r \<noteq> ok \<and> rst_Status r \<noteq> failed
         \<and> isPoolManagerDown S (mget (Labels r) (CStorPoolInstanceNameLabelKey (sapi S))) (getOpenEBSNamespace S) s
      then failed else rst_Status r)"

definition statusOfAll :: "('a \<Rightarrow> string) \<Rightarrow> string \<Rightarrow> 'a list \<Rightarrow> string" where
  "statusOfAll eff inProgress rs = (if inProgress \<in> eff ` set rs then inProgress else eff (last rs))"

lemma restoreStatusLoop_result:
  assumes down: "\<And>s ns r p ns'. isPoolManagerDown S p ns' (snd (upd s ns r)) = isPoolManagerDown S p ns' s"
    and nopanic: "\<And>s ns r m. fst (upd s ns r) \<noteq> Panic m" and ne: "inProgress \<noteq> failed"
  shows "fst (restoreStatusLoop S inProgress failed invalid ok upd rs acc s) =
    Ok (if rs = [] then acc else statusOfAll (effectiveStatus S s failed ok) inProgress rs)"
proof (induction rs arbitrary: acc s)
  case (Cons r rs)
  let ?e = "effectiveStatus S s failed ok"
  have eff: "effectiveStatus S (snd (upd s ns r')) failed ok = ?e" for ns r'
    by (simp add: effectiveStatus_def down fun_eq_iff)
  have e: "?e r = failed \<or> ?e r = rst_Status r" by (simp add: effectiveStatus_def)
  have ig: "ignoreS (\<lambda>s. upd s ns r') s = (Ok (), snd (upd s ns r'))" for ns r' s
    using nopanic [of s ns r'] by (cases "upd s ns r'"; cases "fst (upd s ns r')") (auto simp: ignoreS_def bindS_def attemptS_def)
  define rest where "rest t st = restoreStatusLoop S inProgress failed invalid ok upd rs st t" for t st
  have step: "restoreStatusLoop S inProgress failed invalid ok upd (r # rs) acc s =
      (if ?e r = inProgress then (Ok inProgress, s)
       else if (?e r = failed \<or> ?e r = invalid) \<and> rst_Status r \<noteq> ?e r then rest (snd (upd s (Namespace r) (r\<lparr>rst_Status := ?e r\<rparr>))) failed
       else rest s (?e r))"
    using ne e by (auto simp: bindS_def ig rest_def effectiveStatus_def)
  have IH: "fst (rest t st) = Ok (if rs = [] then st else statusOfAll (effectiveStatus S t failed ok) inProgress rs)" for t st
    unfolding rest_def by (rule Cons.IH)
  show ?case
    unfolding step using e ne
    by (cases "?e r = inProgress") (auto simp: IH eff statusOfAll_def)
qed simp

text \<open>
  The status reported for the restores of a volume is in progress when one of them is, and otherwise that of the last one alone:
  a failed restore is masked by a later one that is done.
\<close>

theorem restore_status_of_last:
  assumes "\<And>s ns r p ns'. isPoolManagerDown S p ns' (snd (rst_update (bkpc S) s ns r)) = isPoolManagerDown S p ns' s"
    and "\<And>s ns r m. fst (rst_update (bkpc S) s ns r) \<noteq> Panic m" and "RSTCStorStatusInProgress (bkpc S) \<noteq> RSTCStorStatusFailed (bkpc S)"
    and "rs \<noteq> []"
  shows "fst (getCStorRestoreStatus S rs s) =
    Ok (statusOfAll (effectiveStatus S s (RSTCStorStatusFailed (bkpc S)) (RSTCStorStatusDone (bkpc S))) (RSTCStorStatusInProgress (bkpc S)) rs)"
  unfolding getCStorRestoreStatus_def using assms(4) by (simp add: restoreStatusLoop_result [OF assms(1-3)])

theorem restore_status_of_last_witness:
  "fst (getCStorRestoreStatus sampleSenv [requestedRestore\<lparr>rst_Status := ''Failed''\<rparr>, requestedRestore\<lparr>rst_Status := ''Done''\<rparr>]
     (backupStore '''')) = Ok ''Done''"
proof -
  let ?rs = "[requestedRestore\<lparr>rst_Status := ''Failed''\<rparr>, requestedRestore\<lparr>rst_Status := ''Done''\<rparr>]"
  have sel: "pod_list sampleSenv s ns x = Ok []" "bkpc sampleSenv = sampleBenv" for s ns x
    by (simp_all add: sampleSenv_def sampleServer_def)
  have "isPoolManagerDown sampleSenv p ns s" for p ns s
    by (simp add: isPoolManagerDown_def checkIfPoolManagerDown_def getPoolManager_def sel)
  moreover have "fst (rst_update (bkpc sampleSenv) s ns r) \<noteq> Panic m" for s ns r m
    by (simp add: sel sampleBenv_def storeWith_returns)
  moreover have "RSTCStorStatusInProgress (bkpc sampleSenv) \<noteq> RSTCStorStatusFailed (bkpc sampleSenv)" by code_simp
  ultimately have "fst (getCStorRestoreStatus sampleSenv ?rs (backupStore '''')) =
    Ok (statusOfAll (effectiveStatus sampleSenv (backupStore '''') (RSTCStorStatusFailed (bkpc sampleSenv)) (RSTCStorStatusDone (bkpc sampleSenv)))
      (RSTCStorStatusInProgress (bkpc sampleSenv)) ?rs)" by (intro restore_status_of_last) simp_all
  also have "\<dots> = Ok ''Done''" by code_simp
  finally show ?thesis .
qed

section \<open>Backups that are gone\<close>

text \<open>
  Asking for a backup that exists in neither version of the API ends in a nil dereference: the lookup reports it as a nil interface
  without an error, and only the deletion endpoint checks for it.
\<close>

theorem deleted_backup_get_panics:
  assumes "decodeBody req (decodeJsonBackup S) (decodeYamlBackup S) = Ok b"
    and "\<not> blank (bkp_BackupName b)" "\<not> blank (Namespace b)" "\<not> blank (bkp_VolumeName b)"
    and "abkp_get (bkpc S) s (Namespace b) (bkp_SnapName b @ ''-'' @ bkp_VolumeName b) = Err (NotFound n)"
    and "bkp_get (bkpc S) s (Namespace b) (bkp_SnapName b @ ''-'' @ bkp_VolumeName b) = Err (NotFound n)"
  shows "wrapHandler S (backup_get S) req s = (None, s)"
  using assms by (simp add: wrapHandler_def backup_get_def bindS_def codedS_def codedR_def getBackupInterface_def)

theorem deleted_backup_get_panics_witness:
  "wrapHandler sampleSenv (backup_get sampleSenv) (sampleHttpRequest ''GET'') emptyStore = (None, emptyStore)"
proof (rule deleted_backup_get_panics [where b = "requestedBackup ''''" and n = "''s1-v1''"])
  show "decodeBody (sampleHttpRequest ''GET'') (decodeJsonBackup sampleSenv) (decodeYamlBackup sampleSenv) = Ok (requestedBackup '''')"
    by code_simp
qed code_simp+

section \<open>A restore for every replica\<close>

text \<open>
  Unique identifiers name no stored object, a created object is read as it was written, and creations keep what is stored.
\<close>

definition restoreLaws :: "'s senv \<Rightarrow> bool" where
  "restoreLaws S \<longleftrightarrow>
     (\<forall>s u s' ns x. NewUUID S s = (u, s') \<longrightarrow>
        (\<forall>r. rst_get (bkpc S) s' ns (x @ ''-'' @ u) \<noteq> Ok r) \<and> (\<forall>r. arst_get (bkpc S) s' ns (x @ ''-'' @ u) \<noteq> Ok r) \<and>
        rst_get (bkpc S) s' = rst_get (bkpc S) s \<and> arst_get (bkpc S) s' = arst_get (bkpc S) s) \<and>
     (\<forall>s ns r s'. rst_create (bkpc S) s ns r = (Ok (), s') \<longrightarrow> rst_get (bkpc S) s' ns (Name r) = Ok r \<and>
        (\<forall>ns n x. rst_get (bkpc S) s ns n = Ok x \<longrightarrow> rst_get (bkpc S) s' ns n = Ok x) \<and> arst_get (bkpc S) s' = arst_get (bkpc S) s) \<and>
     (\<forall>s ns r s'. arst_create (bkpc S) s ns r = (Ok (), s') \<longrightarrow> arst_get (bkpc S) s' ns (Name r) = Ok r \<and>
        (\<forall>ns n x. arst_get (bkpc S) s ns n = Ok x \<longrightarrow> arst_get (bkpc S) s' ns n = Ok x) \<and> rst_get (bkpc S) s' = rst_get (bkpc S) s)"

lemma restoreLawsD:
  assumes "restoreLaws S"
  shows "NewUUID S s = (u, s') \<Longrightarrow> rst_get (bkpc S) s' ns (x @ ''-'' @ u) \<noteq> Ok r"
    and "NewUUID S s = (u, s') \<Longrightarrow> arst_get (bkpc S) s' ns (x @ ''-'' @ u) \<noteq> Ok r"
    and "NewUUID S s = (u, s') \<Longrightarrow> rst_get (bkpc S) s' = rst_get (bkpc S) s \<and> arst_get (bkpc S) s' = arst_get (bkpc S) s"
    and "rst_create (bkpc S) s ns r = (Ok (), s') \<Longrightarrow> rst_get (bkpc S) s' ns (Name r) = Ok r \<and>
        (\<forall>ns n x. rst_get (bkpc S) s ns n = Ok x \<longrightarrow> rst_get (bkpc S) s' ns n = Ok x) \<and> arst_get (bkpc S) s' = arst_get (bkpc S) s"
    and "arst_create (bkpc S) s ns r = (Ok (), s') \<Longrightarrow> arst_get (bkpc S) s' ns (Name r) = Ok r \<and>
        (\<forall>ns n x. arst_get (bkpc S) s ns n = Ok x \<longrightarrow> arst_get (bkpc S) s' ns n = Ok x) \<and> rst_get (bkpc S) s' = rst_get (bkpc S) s"
  using assms by - (unfold restoreLaws_def, metis+)

text \<open>A pending restore for a replica is stored, in either version of the API.\<close>

definition restoreFor :: "'s senv \<Rightarrow> CStorRestore \<Rightarrow> CStorVolumeReplica \<Rightarrow> 's \<Rightarrow> bool" where
  "restoreFor S obj cvr s \<longleftrightarrow>
     (\<exists>n r. (rst_get (bkpc S) s (Namespace obj) n = Ok r \<and> rst_Status r = RSTCStorStatusPending (bkpc S)
             \<or> arst_get (bkpc S) s (Namespace obj) n = Ok r \<and> rst_Status r = alphaRSTPending S)
            \<and> Labels r = restoreLabels S obj cvr)"

definition sameRequest :: "CStorRestore \<Rightarrow> CStorRestore \<Rightarrow> bool" where
  "sameRequest a b \<longleftrightarrow> Namespace a = Namespace b \<and> rst_RestoreName a = rst_RestoreName b"

lemma sameRequest_labels: "sameRequest a b \<Longrightarrow> restoreLabels S a cvr = restoreLabels S b cvr"
  by (simp add: sameRequest_def restoreLabels_def)

lemma buildAndCreateV1Restore_creates:
  assumes laws: "restoreLaws S" and run: "buildAndCreateV1Restore S a cvr s = (Ok a', s')" and same: "sameRequest a obj"
  shows "sameRequest a' obj \<and> restoreFor S obj cvr s' \<and> (\<forall>c. restoreFor S obj c s \<longrightarrow> restoreFor S obj c s')"
proof -
  obtain u s1 where u: "NewUUID S s = (u, s1)" by fastforce
  let ?n = "rst_RestoreName a @ ''-'' @ u"
  let ?a = "a\<lparr>Name := ?n, rst_Status := RSTCStorStatusPending (bkpc S), Labels := restoreLabels S (a\<lparr>Name := ?n\<rparr>) cvr\<rparr>"
  from restoreLawsD(1) [OF laws u] run u have mk: "rst_create (bkpc S) s1 (Namespace a) ?a = (Ok (), s')" and a': "a' = ?a"
    by (auto simp: buildAndCreateV1Restore_def bindS_def attemptS_def Let_def split: res.splits prod.splits)
  note laws' = restoreLawsD(4) [OF laws mk] restoreLawsD(3) [OF laws u]
  from same have ns: "Namespace a = Namespace obj" by (simp add: sameRequest_def)
  from sameRequest_labels [of ?a obj] same a' have "sameRequest a' obj" and lab: "Labels ?a = restoreLabels S obj cvr"
    by (simp_all add: sameRequest_def restoreLabels_def)
  moreover have "restoreFor S obj cvr s'"
    unfolding restoreFor_def using laws' lab ns by (intro exI [of _ ?n] exI [of _ ?a]) simp
  moreover have "\<forall>c. restoreFor S obj c s \<longrightarrow> restoreFor S obj c s'"
    unfolding restoreFor_def using laws' by metis
  ultimately show ?thesis by blast
qed

lemma buildAndCreateV1Alpha1Restore_creates:
  assumes laws: "restoreLaws S" and run: "buildAndCreateV1Alpha1Restore S a cvr s = (Ok a', s')" and same: "sameRequest a obj"
  shows "sameRequest a' obj \<and> restoreFor S obj cvr s' \<and> (\<forall>c. restoreFor S obj c s \<longrightarrow> restoreFor S obj c s')"
proof -
  obtain u s1 where u: "NewUUID S s = (u, s1)" by fastforce
  let ?n = "rst_RestoreName a @ ''-'' @ u"
  let ?a = "a\<lparr>Name := ?n, rst_Status := alphaRSTPending S, Labels := restoreLabels S (a\<lparr>Name := ?n\<rparr>) cvr\<rparr>"
  from restoreLawsD(2) [OF laws u] run u have mk: "arst_create (bkpc S) s1 (Namespace a) ?a = (Ok (), s')" and a': "a' = ?a"
    by (auto simp: buildAndCreateV1Alpha1Restore_def bindS_def attemptS_def Let_def split: res.splits prod.splits)
  note laws' = restoreLawsD(5) [OF laws mk] restoreLawsD(3) [OF laws u]
  from same have ns: "Namespace a = Namespace obj" by (simp add: sameRequest_def)
  from sameRequest_labels [of ?a obj] same a' have "sameRequest a' obj" and lab: "Labels ?a = restoreLabels S obj cvr"
    by (simp_all add: sameRequest_def restoreLabels_def)
  moreover have "restoreFor S obj cvr s'"
    unfolding restoreFor_def using laws' lab ns by (intro exI [of _ ?n] exI [of _ ?a]) simp
  moreover have "\<forall>c. restoreFor S obj c s \<longrightarrow> restoreFor S obj c s'"
    unfolding restoreFor_def using laws' by metis
  ultimately show ?thesis by blast
qed

lemma createRestores_creates:
  assumes laws: "restoreLaws S"
  shows "foldS (createRestoreOf S m) cvrs (a, b) s = (Ok objs', s') \<Longrightarrow> sameRequest a obj \<Longrightarrow> sameRequest b obj \<Longrightarrow>
    (\<forall>cvr \<in> set cvrs. restoreFor S obj cvr s') \<and> (\<forall>c. restoreFor S obj c s \<longrightarrow> restoreFor S obj c s')"
proof (induction cvrs arbitrary: a b s)
  case (Cons cvr cvrs)
  from Cons.prems(1) obtain a1 b1 s1 where one: "createRestoreOf S m cvr (a, b) s = (Ok (a1, b1), s1)"
    and rest: "foldS (createRestoreOf S m) cvrs (a1, b1) s1 = (Ok objs', s')" by (auto simp: bindS_Ok_iff)
  have "sameRequest a1 obj \<and> sameRequest b1 obj \<and> restoreFor S obj cvr s1 \<and> (\<forall>c. restoreFor S obj c s \<longrightarrow> restoreFor S obj c s1)"
  proof (cases "usesV1Alpha1 S m (mget (Labels cvr) (CStorPoolInstanceNameLabelKey (sapi S)))")
    case True
    with one have "buildAndCreateV1Alpha1Restore S b cvr s = (Ok b1, s1)" "a1 = a"
      by (auto simp: createRestoreOf_def bindS_Ok_iff)
    with buildAndCreateV1Alpha1Restore_creates [OF laws _ Cons.prems(3)] Cons.prems(2) show ?thesis by blast
  next
    case False
    with one have "buildAndCreateV1Restore S a cvr s = (Ok a1, s1)" "b1 = b"
      by (auto simp: createRestoreOf_def bindS_Ok_iff)
    with buildAndCreateV1Restore_creates [OF laws _ Cons.prems(2)] Cons.prems(3) show ?thesis by blast
  qed
  with Cons.IH [OF rest] show ?case by auto
qed simp

lemma codedS_Ok_iff [res_simps]: "codedS m c f a s = (Ok x, s') \<longleftrightarrow> m s = (Ok x, s')"
  by (auto simp: codedS_def codedR_def split: prod.splits res.splits)

text \<open>
  C17. A remote restore that is accepted has created, for every replica of the volume, a pending restore labelled with the pool of
  that replica, in the version of the API its pool manager reads.
\<close>

theorem restore_for_every_replica:
  assumes laws: "restoreLaws S"
    and cvrs: "cvr_list (sapi S) s '''' (PersistentVolumeLabelKey (rep (cvc S)) @ ''='' @ rst_VolumeName obj) = Ok cvrs"
    and run: "createRestore S obj s = (Ok reply, s')" and cvr: "cvr \<in> set cvrs"
  shows "restoreFor S obj cvr s'"
proof -
  from run cvrs obtain versions objs t where "foldS (createRestoreOf S versions) cvrs (obj, getV1Alpha1RestoreFromV1 obj) s = (Ok objs, t)"
    and "s' = t"
    by (auto simp: createRestore_def bindS_Ok_iff codedS_Ok_iff Let_def split: if_splits option.splits)
  moreover have "sameRequest obj obj" "sameRequest (getV1Alpha1RestoreFromV1 obj) obj"
    by (simp_all add: sameRequest_def getV1Alpha1RestoreFromV1_def)
  ultimately show ?thesis using createRestores_creates [OF laws] cvr by blast
qed

lemma sampleSenv_sel:
  "bkpc sampleSenv = sampleBenv"
  "NewUUID sampleSenv s = (replicate (Suc (sum_list (map (\<lambda>r. length (Name r)) (st_restores s)))) CHR ''x'', s)"
  by (simp_all add: sampleSenv_def sampleServer_def)

lemma sampleBenv_rst:
  "rst_get sampleBenv s ns n = lookupObj Name n (st_restores s)" "arst_get sampleBenv s ns n = Err (NotFound n)"
  "rst_create sampleBenv s ns r = storeWith (\<lambda>xs s. s\<lparr>st_restores := xs\<rparr>) (insertObj Name r (st_restores s)) () s"
  "arst_create sampleBenv s ns r = (Err (NotFound ns), s)"
  by (simp_all add: sampleBenv_def)

lemma lookupObj_inserted:
  assumes "insertObj f x xs = Ok ys"
  shows "lookupObj f (f x) ys = Ok x" and "lookupObj f n xs = Ok y \<Longrightarrow> lookupObj f n ys = Ok y"
proof -
  from assms have ys: "ys = xs @ [x]" and new: "f x \<notin> f ` set xs" by (auto simp: insertObj_def split: if_splits)
  from new have "find (\<lambda>y. f y = f x) (xs @ [x]) = Some x" by (induction xs) auto
  with ys show "lookupObj f (f x) ys = Ok x" by (simp add: lookupObj_def)
  have "find P xs = Some z \<Longrightarrow> find P (xs @ [x]) = Some z" for P z by (induction xs) auto
  with ys show "lookupObj f n xs = Ok y \<Longrightarrow> lookupObj f n ys = Ok y" by (auto simp: lookupObj_def split: option.splits)
qed

lemma fresh_name: "lookupObj f (x @ CHR ''-'' # replicate (Suc (sum_list (map (\<lambda>r. length (f r)) xs))) c) xs \<noteq> Ok r"
proof
  let ?u = "replicate (Suc (sum_list (map (\<lambda>r. length (f r)) xs))) c"
  assume "lookupObj f (x @ CHR ''-'' # ?u) xs = Ok r"
  from lookupObj_mem [OF this] obtain y where y: "y \<in> set xs" "f y = x @ CHR ''-'' # ?u" by (auto simp del: replicate_Suc)
  from y(1) have "length (f y) \<in> set (map (\<lambda>r. length (f r)) xs)" by simp
  then have "length (f y) \<le> sum_list (map (\<lambda>r. length (f r)) xs)" by (rule member_le_sum_list) simp
  with arg_cong [OF y(2), of length] show False by simp
qed

lemma sample_restoreLaws: "restoreLaws sampleSenv"
  unfolding restoreLaws_def sampleSenv_sel sampleBenv_rst
  by (intro conjI allI impI)
    (auto simp: storeWith_Ok sampleBenv_rst fresh_name fun_eq_iff simp del: replicate_Suc dest: lookupObj_inserted)

theorem restore_for_every_replica_witness:
  "restoreFor sampleSenv requestedRestore (restoreReplica ''c1-y'')
     (snd (createRestore sampleSenv requestedRestore (backupStore '''')))"
proof (rule restore_for_every_replica [OF sample_restoreLaws])
  let ?r = "createRestore sampleSenv requestedRestore (backupStore '''')"
  show "cvr_list (sapi sampleSenv) (backupStore '''') '''' (PersistentVolumeLabelKey (rep (cvc sampleSenv)) @ ''='' @ rst_VolumeName requestedRestore)
      = Ok [restoreReplica ''c1-x'', restoreReplica ''c1-y'']" by code_simp
  have "fst ?r = Ok (ISCSIVolumeSource '''' '''')" by code_simp
  then show "?r = (Ok (ISCSIVolumeSource '''' ''''), snd ?r)" by (rule fst_pair)
qed simp

end
