(* ===== verification/WorkQueue.thy ===== *)
theory WorkQueue
  imports "HOL-Library.Word" CspcSync VolumeConfig CspiController BackupController VolumeManager
begin

text \<open>
  The runners of the controllers: what the handlers of the informers put on the work queue of a
  controller, and what its workers do with an item they take off it (\<open>runner.go\<close> and
  \<open>controller.go\<close> under \<open>src/pkg/controllers\<close>). The queue itself is
  \<open>k8s.io/client-go/util/workqueue\<close>, which the repository only calls: it is the parameter
  \<open>wqueue\<close>, and what its documentation promises is the predicate \<open>queueLaws\<close>.

  The workers run concurrently. \<open>processNextWorkItem\<close> and \<open>runWorker\<close> are one worker on its own;
  \<open>workerStep\<close> is the relation of all of them, in which a worker that has taken an item keeps it
  while the others and the informer go on.
\<close>

section \<open>The queue\<close>

text \<open>
  An item is any Go value; the runners tell strings and the two types \<open>QueueLoad\<close> from the rest.
\<close>

datatype 'op workItem = KeyItem string | LoadItem string 'op | OtherItem string

text \<open>
  \<open>Get\<close> gives nothing where the call blocks, no item when the queue is shut down, and else the item.
  \<open>MetaNamespaceKeyFunc\<close> takes the namespace and the name of the object.
\<close>

record ('q, 'op) wqueue =
  wq_Get :: "'q \<Rightarrow> ('op workItem option \<times> 'q) option"
  wq_Done :: "'op workItem \<Rightarrow> 'q \<Rightarrow> 'q"
  wq_Forget :: "'op workItem \<Rightarrow> 'q \<Rightarrow> 'q"
  wq_Add :: "'op workItem \<Rightarrow> 'q \<Rightarrow> 'q"
  wq_AddRateLimited :: "'op workItem \<Rightarrow> 'q \<Rightarrow> 'q"
  wq_ShutDown :: "'q \<Rightarrow> 'q"
  MetaNamespaceKeyFunc :: "string \<Rightarrow> string \<Rightarrow> string res"

section \<open>Putting items on the queue\<close>

text \<open>
  What an informer hands to its handlers: an object of the watched type, the tombstone of an object
  whose deletion was missed (with the last known object, when it has the watched type), or something else.
\<close>

datatype 'o informed = Informed 'o | Tombstone "'o option" | Unknown

text \<open>An unchecked type assertion \<open>obj.(*T)\<close>.\<close>

definition asserted :: "'o informed \<Rightarrow> 'o res" where
  "asserted obj = (case obj of Informed x \<Rightarrow> Ok x | _ \<Rightarrow> Panic ''interface conversion'')"

definition reconcileDisabled :: "'s env \<Rightarrow> CStorPoolCluster \<Rightarrow> bool" where
  "reconcileDisabled E cspc = (mget (Annotations cspc) (OpenEBSDisableReconcileLabelKey E) = ''true'')"

definition enqueue :: "('q, 'op) wqueue \<Rightarrow> CStorPoolCluster \<Rightarrow> 'q \<Rightarrow> 'q" where
  "enqueue Q cspc q =
     (case MetaNamespaceKeyFunc Q (Namespace cspc) (Name cspc) of Ok key \<Rightarrow> wq_Add Q (KeyItem key) q | _ \<Rightarrow> q)"

definition addCSPC :: "'s env \<Rightarrow> ('q, 'op) wqueue \<Rightarrow> CStorPoolCluster informed \<Rightarrow> 'q \<Rightarrow> 'q" where
  "addCSPC E Q obj q =
     (case obj of
        Informed cspc \<Rightarrow> if reconcileDisabled E cspc then q else enqueue Q cspc q
      | _ \<Rightarrow> q)"

definition updateCSPC :: "'s env \<Rightarrow> ('q, 'op) wqueue \<Rightarrow> CStorPoolCluster informed \<Rightarrow> CStorPoolCluster informed \<Rightarrow> 'q \<Rightarrow> 'q" where
  "updateCSPC E Q oldCSPC newCSPC q =
     (case newCSPC of
        Informed cspc \<Rightarrow> if reconcileDisabled E cspc then q else enqueue Q cspc q
      | _ \<Rightarrow> q)"

definition deleteCSPC :: "'s env \<Rightarrow> ('q, 'op) wqueue \<Rightarrow> CStorPoolCluster informed \<Rightarrow> 'q \<Rightarrow> 'q" where
  "deleteCSPC E Q obj q =
     (case (case obj of Informed cspc \<Rightarrow> Some cspc | Tombstone x \<Rightarrow> x | Unknown \<Rightarrow> None) of
        None \<Rightarrow> q
      | Some cspc \<Rightarrow> if reconcileDisabled E cspc then q else enqueue Q cspc q)"

definition enqueueCVC :: "('q, 'op) wqueue \<Rightarrow> CStorVolumeConfig \<Rightarrow> 'q \<Rightarrow> 'q" where
  "enqueueCVC Q cvc q =
     (case MetaNamespaceKeyFunc Q (Namespace cvc) (Name cvc) of Ok key \<Rightarrow> wq_Add Q (KeyItem key) q | _ \<Rightarrow> q)"

definition addCVC :: "('q, 'op) wqueue \<Rightarrow> CStorVolumeConfig informed \<Rightarrow> 'q \<Rightarrow> 'q" where
  "addCVC Q obj q = (case obj of Informed cvc \<Rightarrow> enqueueCVC Q cvc q | _ \<Rightarrow> q)"

definition updateCVC :: "('q, 'op) wqueue \<Rightarrow> CStorVolumeConfig informed \<Rightarrow> CStorVolumeConfig informed \<Rightarrow> 'q \<Rightarrow> 'q" where
  "updateCVC Q oldObj newObj q = (case newObj of Informed cvc \<Rightarrow> enqueueCVC Q cvc q | _ \<Rightarrow> q)"

definition deleteCVC :: "('q, 'op) wqueue \<Rightarrow> CStorVolumeConfig informed \<Rightarrow> 'q \<Rightarrow> 'q" where
  "deleteCVC Q obj q =
     (case (case obj of Informed cvc \<Rightarrow> Some cvc | Tombstone x \<Rightarrow> x | Unknown \<Rightarrow> None) of
        None \<Rightarrow> q | Some cvc \<Rightarrow> enqueueCVC Q cvc q)"

text \<open>The pool manager queues a load without an operation for a pool instance.\<close>

definition enqueueCStorPoolInstance :: "('q, QueueOperation) wqueue \<Rightarrow> CStorPoolInstance \<Rightarrow> 'q \<Rightarrow> 'q" where
  "enqueueCStorPoolInstance Q cspi q =
     (case MetaNamespaceKeyFunc Q (Namespace cspi) (Name cspi) of
        Ok key \<Rightarrow> wq_Add Q (LoadItem key (QOpOther '''')) q | _ \<Rightarrow> q)"

definition cspiEventFunc :: "'s penv \<Rightarrow> ('q, QueueOperation) wqueue \<Rightarrow> CStorPoolInstance informed \<Rightarrow> ('q, unit) act" where
  "cspiEventFunc P Q obj q =
     (case asserted obj of
        Ok cspi \<Rightarrow> (Ok (), if \<not> IsRightCStorPoolInstanceMgmt P cspi then q else enqueueCStorPoolInstance Q cspi q)
      | Err e \<Rightarrow> (Err e, q)
      | Panic m \<Rightarrow> (Panic m, q))"

definition cspiDeleteFunc :: "'s penv \<Rightarrow> ('q, QueueOperation) wqueue \<Rightarrow> CStorPoolInstance informed \<Rightarrow> ('q, unit) act" where
  "cspiDeleteFunc P Q obj q =
     (case obj of
        Informed cspi \<Rightarrow> (Ok (), if \<not> IsRightCStorPoolInstanceMgmt P cspi then q else enqueueCStorPoolInstance Q cspi q)
      | _ \<Rightarrow> (Ok (), q))"

text \<open>The other controllers queue a load with its operation; adding is rate limited.\<close>

definition enqueueLoad :: "('q, 'op) wqueue \<Rightarrow> string \<Rightarrow> string \<Rightarrow> 'op \<Rightarrow> 'q \<Rightarrow> 'q" where
  "enqueueLoad Q namespace name operation q =
     (case MetaNamespaceKeyFunc Q namespace name of
        Ok key \<Rightarrow> wq_AddRateLimited Q (LoadItem key operation) q | _ \<Rightarrow> q)"

definition enqueueCStorReplica :: "('q, QueueOperation) wqueue \<Rightarrow> CStorVolumeReplica \<Rightarrow> QueueOperation \<Rightarrow> 'q \<Rightarrow> 'q" where
  "enqueueCStorReplica Q obj operation q = enqueueLoad Q (Namespace obj) (Name obj) operation q"

definition enqueueCStorBackup :: "('q, QueueOperation) wqueue \<Rightarrow> CStorBackup \<Rightarrow> QueueOperation \<Rightarrow> 'q \<Rightarrow> 'q" where
  "enqueueCStorBackup Q obj operation q = enqueueLoad Q (Namespace obj) (Name obj) operation q"

definition enqueueCStorRestore :: "('q, QueueOperation) wqueue \<Rightarrow> CStorRestore \<Rightarrow> QueueOperation \<Rightarrow> 'q \<Rightarrow> 'q" where
  "enqueueCStorRestore Q obj operation q = enqueueLoad Q (Namespace obj) (Name obj) operation q"

definition enqueueCStorVolume :: "('q, CVQueueOperation) wqueue \<Rightarrow> CStorVolume \<Rightarrow> CVQueueOperation \<Rightarrow> 'q \<Rightarrow> 'q" where
  "enqueueCStorVolume Q obj operation q = enqueueLoad Q (Namespace obj) (Name obj) operation q"

text \<open>
  The delete handlers of the replica, backup, restore and volume controllers queue nothing. They assert
  the type of the object first.
\<close>

definition cvrDeleteFunc :: "CStorVolumeReplica informed \<Rightarrow> unit res" where
  "cvrDeleteFunc obj = bindR (asserted obj) (\<lambda>_. Ok ())"

definition bkpDeleteFunc :: "CStorBackup informed \<Rightarrow> unit res" where
  "bkpDeleteFunc obj = bindR (asserted obj) (\<lambda>_. Ok ())"

definition rstDeleteFunc :: "CStorRestore informed \<Rightarrow> unit res" where
  "rstDeleteFunc obj = bindR (asserted obj) (\<lambda>_. Ok ())"

definition cvDeleteFunc :: "CStorVolume informed \<Rightarrow> unit res" where
  "cvDeleteFunc obj = bindR (asserted obj) (\<lambda>_. Ok ())"

section \<open>Taking an item off the queue\<close>

text \<open>
  The function literal in \<open>processNextWorkItem\<close>, without its deferred \<open>Done\<close>: the handler runs on an
  item of the expected type, and its outcome settles the item. The operators put a key whose handler
  failed back on the queue; the controllers with loads do not. Reporting the error
  (\<open>runtime.HandleError\<close>) is logging.
\<close>

definition settleKey :: "('q, 'op) wqueue \<Rightarrow> 'op workItem \<Rightarrow> unit res \<Rightarrow> 'q \<Rightarrow> 'q" where
  "settleKey Q obj r q =
     (case obj of
        KeyItem key \<Rightarrow> (case r of Ok _ \<Rightarrow> wq_Forget Q obj q | Err _ \<Rightarrow> wq_AddRateLimited Q (KeyItem key) q | Panic _ \<Rightarrow> q)
      | _ \<Rightarrow> wq_Forget Q obj q)"

definition settleLoad :: "('q, 'op) wqueue \<Rightarrow> 'op workItem \<Rightarrow> unit res \<Rightarrow> 'q \<Rightarrow> 'q" where
  "settleLoad Q obj r q =
     (case obj of
        LoadItem key operation \<Rightarrow> (case r of Ok _ \<Rightarrow> wq_Forget Q obj q | Err _ \<Rightarrow> q | Panic _ \<Rightarrow> q)
      | _ \<Rightarrow> wq_Forget Q obj q)"

definition handleKey :: "(string \<Rightarrow> ('w, unit) act) \<Rightarrow> 'op workItem \<Rightarrow> ('w, unit) act" where
  "handleKey handler obj = (case obj of KeyItem key \<Rightarrow> handler key | _ \<Rightarrow> returnS ())"

definition handleLoad :: "(string \<Rightarrow> 'op \<Rightarrow> ('w, unit) act) \<Rightarrow> 'op workItem \<Rightarrow> ('w, unit) act" where
  "handleLoad handler obj = (case obj of LoadItem key operation \<Rightarrow> handler key operation | _ \<Rightarrow> returnS ())"

text \<open>
  One turn of a worker on its own: whether it goes on, or nothing when \<open>Get\<close> blocks. \<open>Done\<close> is
  deferred, so it also runs when the handler panics; the panic then ends the process.
\<close>

definition processNextWorkItem ::
    "('q, 'op) wqueue \<Rightarrow> ('op workItem \<Rightarrow> ('w, unit) act) \<Rightarrow> ('op workItem \<Rightarrow> unit res \<Rightarrow> 'q \<Rightarrow> 'q) \<Rightarrow>
     'q \<times> 'w \<Rightarrow> (bool res \<times> 'q \<times> 'w) option" where
  "processNextWorkItem Q handle settle s =
     (case wq_Get Q (fst s) of
        None \<Rightarrow> None
      | Some (None, q) \<Rightarrow> Some (Ok False, q, snd s)
      | Some (Some obj, q) \<Rightarrow>
          (case handle obj (snd s) of (r, w) \<Rightarrow>
             Some (case r of Panic m \<Rightarrow> Panic m | _ \<Rightarrow> Ok True, wq_Done Q obj (settle obj r q), w)))"

partial_function (option) runWorker :: "('t \<Rightarrow> (bool res \<times> 't) option) \<Rightarrow> 't \<Rightarrow> (unit res \<times> 't) option" where
  "runWorker next s =
     (case next s of
        None \<Rightarrow> None
      | Some (r, s') \<Rightarrow>
          (case r of
             Ok b \<Rightarrow> if b then runWorker next s' else Some (Ok (), s')
           | Err e \<Rightarrow> Some (Err e, s')
           | Panic m \<Rightarrow> Some (Panic m, s')))"

text \<open>The controllers.\<close>

definition cspc_processNextWorkItem :: "'s env \<Rightarrow> ('q, 'op) wqueue \<Rightarrow> 'q \<times> 's \<Rightarrow> (bool res \<times> 'q \<times> 's) option" where
  "cspc_processNextWorkItem E Q = processNextWorkItem Q (handleKey (syncCSPC E)) (settleKey Q)"

definition cvc_processNextWorkItem :: "'s cenv \<Rightarrow> ('q, 'op) wqueue \<Rightarrow> 'q \<times> 's \<Rightarrow> (bool res \<times> 'q \<times> 's) option" where
  "cvc_processNextWorkItem C Q = processNextWorkItem Q (handleKey (cvc_syncHandler C)) (settleKey Q)"

definition cspi_processNextWorkItem ::
    "'s penv \<Rightarrow> 's executor \<Rightarrow> ('q, QueueOperation) wqueue \<Rightarrow> 'q \<times> 's pm \<Rightarrow> (bool res \<times> 'q \<times> 's pm) option" where
  "cspi_processNextWorkItem P X Q = processNextWorkItem Q (handleLoad (\<lambda>key _. reconcile P X key)) (settleLoad Q)"

definition cvr_processNextWorkItem ::
    "'s renv \<Rightarrow> ('q, QueueOperation) wqueue \<Rightarrow> 'q \<times> 's pm \<Rightarrow> (bool res \<times> 'q \<times> 's pm) option" where
  "cvr_processNextWorkItem R Q = processNextWorkItem Q (handleLoad (syncHandler R)) (settleLoad Q)"

definition bkp_processNextWorkItem ::
    "'s benv \<Rightarrow> ('q, QueueOperation) wqueue \<Rightarrow> 'q \<times> 's pm \<Rightarrow> (bool res \<times> 'q \<times> 's pm) option" where
  "bkp_processNextWorkItem B Q = processNextWorkItem Q (handleLoad (bkp_syncHandler B)) (settleLoad Q)"

definition rst_processNextWorkItem ::
    "'s benv \<Rightarrow> ('q, QueueOperation) wqueue \<Rightarrow> 'q \<times> 's pm \<Rightarrow> (bool res \<times> 'q \<times> 's pm) option" where
  "rst_processNextWorkItem B Q = processNextWorkItem Q (handleLoad (rst_syncHandler B)) (settleLoad Q)"

definition cv_processNextWorkItem ::
    "'s venv \<Rightarrow> ('q, CVQueueOperation) wqueue \<Rightarrow> 'q \<times> 's \<Rightarrow> (bool res \<times> 'q \<times> 's) option" where
  "cv_processNextWorkItem V Q = processNextWorkItem Q (handleLoad (cv_syncHandler V)) (settleLoad Q)"

section \<open>All workers of a controller\<close>

text \<open>
  \<open>Run\<close> starts the workers once the cache of the informer is filled, and else shuts the queue down and
  returns an error. A worker is between two turns, busy with the item it took, or gone:
  \<open>wait.Until\<close> starts \<open>runWorker\<close> again only until the stop channel is closed, and the queue is shut
  down after that.
\<close>

datatype 'op worker = Idle | Busy "'op workItem" | Exited

record ('q, 'op) crew =
  crew_queue :: 'q
  crew_workers :: "'op worker list"

definition startWorkers :: "('q, 'op) wqueue \<Rightarrow> nat \<Rightarrow> bool \<Rightarrow> 'q \<Rightarrow> ('q, 'op) crew" where
  "startWorkers Q threadiness synced q =
     (if \<not> synced then \<lparr>crew_queue = wq_ShutDown Q q, crew_workers = []\<rparr>
      else \<lparr>crew_queue = q, crew_workers = replicate threadiness Idle\<rparr>)"

text \<open>
  The steps: a worker takes an item; it finds the queue shut down and leaves; the handler returns and
  the item is settled and done; the informer adds an item, at once or rate limited; \<open>Run\<close> ends and
  shuts the queue down. What a handler returns is left open, since the other workers and the rest of
  the cluster act while it runs; after a panic there is no further step.
\<close>

inductive workerStep ::
    "('q, 'op) wqueue \<Rightarrow> ('op workItem \<Rightarrow> unit res \<Rightarrow> 'q \<Rightarrow> 'q) \<Rightarrow> ('q, 'op) crew \<Rightarrow> ('q, 'op) crew \<Rightarrow> bool"
  for Q settle where
  takes: "i < length (crew_workers c) \<Longrightarrow> crew_workers c ! i = Idle \<Longrightarrow> wq_Get Q (crew_queue c) = Some (Some obj, q) \<Longrightarrow>
    workerStep Q settle c (c\<lparr>crew_queue := q, crew_workers := (crew_workers c)[i := Busy obj]\<rparr>)"
| leaves: "i < length (crew_workers c) \<Longrightarrow> crew_workers c ! i = Idle \<Longrightarrow> wq_Get Q (crew_queue c) = Some (None, q) \<Longrightarrow>
    workerStep Q settle c (c\<lparr>crew_queue := q, crew_workers := (crew_workers c)[i := Exited]\<rparr>)"
| finishes: "i < length (crew_workers c) \<Longrightarrow> crew_workers c ! i = Busy obj \<Longrightarrow> (\<forall>m. r \<noteq> Panic m) \<Longrightarrow>
    workerStep Q settle c
      (c\<lparr>crew_queue := wq_Done Q obj (settle obj r (crew_queue c)), crew_workers := (crew_workers c)[i := Idle]\<rparr>)"
| adds: "workerStep Q settle c (c\<lparr>crew_queue := wq_Add Q obj (crew_queue c)\<rparr>)"
| addsLimited: "workerStep Q settle c (c\<lparr>crew_queue := wq_AddRateLimited Q obj (crew_queue c)\<rparr>)"
| shutsDown: "workerStep Q settle c (c\<lparr>crew_queue := wq_ShutDown Q (crew_queue c)\<rparr>)"

inductive_cases workerStepE: "workerStep Q settle c c'"

section \<open>Before the workers start\<close>

text \<open>
  The interval of the informers, in nanoseconds as \<open>time.Duration\<close> holds them: the seconds of
  \<open>RESYNC_INTERVAL\<close>, or the default when they are not a 64-bit integer or zero. The product of the
  conversion wraps.
\<close>

definition isInt64 :: "string \<Rightarrow> bool" where
  "isInt64 s =
     (let neg = (case s of [] \<Rightarrow> False | c # _ \<Rightarrow> c = CHR ''-'');
          signed = (case s of [] \<Rightarrow> False | c # _ \<Rightarrow> c = CHR ''-'' \<or> c = CHR ''+'');
          ds = (if signed then tl s else s)
      in ds \<noteq> [] \<and> list_all isDigit ds \<and>
         (let v = int (digitsVal 0 ds) in if neg then minInt64 \<le> - v else v \<le> maxInt64))"

definition Second :: "64 word" where "Second = 1000000000"

definition getSyncInterval :: "'s env \<Rightarrow> 64 word \<Rightarrow> 64 word" where
  "getSyncInterval E interval =
     (let env = Getenv E ''RESYNC_INTERVAL'' in
      if \<not> isInt64 env \<or> Atoi env = 0 then interval else word_of_int (Atoi env) * Second)"

definition cspcSyncInterval :: "'s env \<Rightarrow> 64 word" where
  "cspcSyncInterval E = getSyncInterval E (30 * Second)"

text \<open>
  \<open>CheckForCStorPool\<close> asks zpool for the name of the pool and is meant to wait until there is one. One
  turn gives what it goes on with, or nothing when it asks again.
\<close>

definition poolFound :: "string \<Rightarrow> string list option" where
  "poolFound ret = (let poolname = Split (CHR 0x0A) ret in if poolname = [] then None else Some poolname)"

partial_function (option) CheckForCStorPool :: "'s penv \<Rightarrow> 's \<Rightarrow> (string list \<times> 's) option" where
  "CheckForCStorPool P w =
     (case pget_Execute (bash P) noChecks (pget_WithPool ''name'' (pget_WithProperty ''name'' (pget_WithField ''value''
             (pget_WithScriptedMode True NewPoolGetProperty)))) w of ((ret, err), w') \<Rightarrow>
        (case poolFound ret of None \<Rightarrow> CheckForCStorPool P w' | Some poolname \<Rightarrow> Some (poolname, w')))"

end
