(* ===== verification/WorkerSafety.thy ===== *)
theory WorkerSafety
  imports WorkQueue SampleReplica
begin

text \<open>
  What the runners guarantee on top of the work queue: no two workers of a controller are busy with the
  same key, a key whose handler failed is queued again while a load is not, and a worker returns once
  the queue is shut down. The lemmas are proved once for both ways of settling an item, in the locale
  \<open>settling\<close>, and a small queue shows that the laws of the queue can hold.
\<close>

section \<open>The laws of the queue\<close>

text \<open>
  What the documentation of the queue promises. \<open>pr\<close> are the items being processed, \<open>pd\<close> the items that
  were added and not yet taken, delayed ones included, and \<open>sh\<close> tells whether the queue is shut down.
  An item is handed to one worker at a time, an item may be added while it is processed, and a queue that is shut
  down ignores new items and tells the workers to leave once the items are taken.
\<close>

definition queueLaws ::
    "('q, 'op) wqueue \<Rightarrow> ('q \<Rightarrow> 'op workItem set) \<Rightarrow> ('q \<Rightarrow> 'op workItem set) \<Rightarrow> ('q \<Rightarrow> bool) \<Rightarrow> bool" where
  "queueLaws Q pr pd sh \<longleftrightarrow>
     (\<forall>q i q'. wq_Get Q q = Some (Some i, q') \<longrightarrow>
        i \<in> pd q \<and> i \<notin> pr q \<and> pr q' = insert i (pr q) \<and> pd q' = pd q - {i} \<and> sh q' = sh q) \<and>
     (\<forall>q q'. wq_Get Q q = Some (None, q') \<longrightarrow> sh q \<and> q' = q) \<and>
     (\<forall>q. wq_Get Q q = None \<longrightarrow> \<not> sh q) \<and>
     (\<forall>i q. pr (wq_Done Q i q) = pr q - {i} \<and> pd (wq_Done Q i q) = pd q \<and> sh (wq_Done Q i q) = sh q) \<and>
     (\<forall>i q. pr (wq_Forget Q i q) = pr q \<and> pd (wq_Forget Q i q) = pd q \<and> sh (wq_Forget Q i q) = sh q) \<and>
     (\<forall>i q. pr (wq_Add Q i q) = pr q \<and> sh (wq_Add Q i q) = sh q \<and>
        pd (wq_Add Q i q) = (if sh q then pd q else insert i (pd q))) \<and>
     (\<forall>i q. pr (wq_AddRateLimited Q i q) = pr q \<and> sh (wq_AddRateLimited Q i q) = sh q \<and>
        pd (wq_AddRateLimited Q i q) = (if sh q then pd q else insert i (pd q))) \<and>
     (\<forall>q. pr (wq_ShutDown Q q) = pr q \<and> sh (wq_ShutDown Q q) \<and> pd (wq_ShutDown Q q) \<subseteq> pd q)"

lemma queueLaws_Get:
  assumes "queueLaws Q pr pd sh" "wq_Get Q q = Some (Some i, q')"
  shows "i \<in> pd q" "i \<notin> pr q" "pr q' = insert i (pr q)" "pd q' = pd q - {i}" "sh q' = sh q"
  using assms by - (unfold queueLaws_def, metis+)

lemma queueLaws_Get_none:
  assumes "queueLaws Q pr pd sh"
  shows "wq_Get Q q = Some (None, q') \<Longrightarrow> sh q \<and> q' = q" "wq_Get Q q = None \<Longrightarrow> \<not> sh q"
  using assms by - (unfold queueLaws_def, metis+)

lemma queueLaws_simps:
  assumes "queueLaws Q pr pd sh"
  shows "pr (wq_Done Q i q) = pr q - {i}" "pd (wq_Done Q i q) = pd q" "sh (wq_Done Q i q) = sh q"
    "pr (wq_Forget Q i q) = pr q" "pd (wq_Forget Q i q) = pd q" "sh (wq_Forget Q i q) = sh q"
    "pr (wq_Add Q i q) = pr q" "pr (wq_AddRateLimited Q i q) = pr q" "sh (wq_AddRateLimited Q i q) = sh q"
    "pd (wq_AddRateLimited Q i q) = (if sh q then pd q else insert i (pd q))"
    "pr (wq_ShutDown Q q) = pr q"
  using assms by - (unfold queueLaws_def, metis+)

section \<open>Workers of one queue\<close>

fun busyItems :: "'op worker list \<Rightarrow> 'op workItem list" where
  "busyItems [] = []"
| "busyItems (Busy obj # ws) = obj # busyItems ws"
| "busyItems (_ # ws) = busyItems ws"

lemma busyItems_append [simp]: "busyItems (xs @ ys) = busyItems xs @ busyItems ys"
  by (induction xs rule: busyItems.induct) simp_all

lemma busyItems_replicate_Idle [simp]: "busyItems (replicate n Idle) = []"
  by (induction n) simp_all

lemma busyItems_mem: "Busy obj \<in> set ws \<Longrightarrow> obj \<in> set (busyItems ws)"
  by (induction ws rule: busyItems.induct) auto

definition crewInv :: "('q \<Rightarrow> 'op workItem set) \<Rightarrow> ('q, 'op) crew \<Rightarrow> bool" where
  "crewInv pr c \<longleftrightarrow> distinct (busyItems (crew_workers c)) \<and> set (busyItems (crew_workers c)) = pr (crew_queue c)"

lemma worker_at:
  assumes "i < length ws"
  obtains xs ys where "ws = xs @ (ws ! i) # ys" "\<And>w. ws[i := w] = xs @ w # ys"
proof
  show "ws = take i ws @ ws ! i # drop (Suc i) ws" using assms by (rule id_take_nth_drop)
  show "\<And>w. ws[i := w] = take i ws @ w # drop (Suc i) ws" using assms by (rule upd_conv_take_nth_drop)
qed

lemma distinct_busy_workers:
  assumes "distinct (busyItems ws)" "i < length ws" "j < length ws" "i \<noteq> j" "ws ! i = Busy a"
  shows "ws ! j \<noteq> Busy a"
proof -
  obtain xs ys where ws: "ws = xs @ Busy a # ys" and upd: "\<And>w. ws[i := w] = xs @ w # ys"
    using worker_at [OF assms(2)] assms(5) by metis
  from assms(1) have "a \<notin> set (busyItems (xs @ ys))" unfolding ws by simp
  then have "a \<notin> set (busyItems (ws[i := Idle]))" unfolding upd by simp
  then have "Busy a \<notin> set (ws[i := Idle])" using busyItems_mem by blast
  moreover have "ws[i := Idle] ! j = ws ! j" using assms(4) by simp
  ultimately show ?thesis using assms(3) by (metis length_list_update nth_mem)
qed

text \<open>
  What the two ways of settling an item have in common: they hand no item to a worker, and on a queue
  that is shut down they add nothing.
\<close>

locale settling =
  fixes settle :: "('q, 'op) wqueue \<Rightarrow> 'op workItem \<Rightarrow> unit res \<Rightarrow> 'q \<Rightarrow> 'q"
  assumes settle_pr: "queueLaws Q pr pd sh \<Longrightarrow> pr (settle Q obj r q) = pr q"
    and settle_sh: "queueLaws Q pr pd sh \<Longrightarrow> sh (settle Q obj r q) = sh q"
    and settle_pd: "queueLaws Q pr pd sh \<Longrightarrow> sh q \<Longrightarrow> pd (settle Q obj r q) = pd q"
begin

lemma step_inv:
  assumes laws: "queueLaws Q pr pd sh" and inv: "crewInv pr c" and step: "workerStep Q (settle Q) c c'"
  shows "crewInv pr c'"
  using step
proof cases
  case (takes i obj q)
  from worker_at [OF takes(2)] takes(3) obtain xs ys
    where "crew_workers c = xs @ Idle # ys" "\<And>w. (crew_workers c)[i := w] = xs @ w # ys" by metis
  with inv takes(1) queueLaws_Get [OF laws takes(4)] show ?thesis by (auto simp: crewInv_def)
next
  case (leaves i q)
  from worker_at [OF leaves(2)] leaves(3) obtain xs ys
    where "crew_workers c = xs @ Idle # ys" "\<And>w. (crew_workers c)[i := w] = xs @ w # ys" by metis
  with inv leaves(1) queueLaws_Get_none(1) [OF laws leaves(4)] show ?thesis by (auto simp: crewInv_def)
next
  case (finishes i obj r)
  from worker_at [OF finishes(2)] finishes(3) obtain xs ys
    where "crew_workers c = xs @ Busy obj # ys" "\<And>w. (crew_workers c)[i := w] = xs @ w # ys" by metis
  with inv finishes(1) show ?thesis
    by (auto simp: crewInv_def queueLaws_simps [OF laws] settle_pr [OF laws])
qed (use inv in \<open>simp_all add: crewInv_def queueLaws_simps [OF laws]\<close>)

lemma reachable_inv:
  assumes laws: "queueLaws Q pr pd sh" and none: "pr q = {}"
    and run: "(workerStep Q (settle Q))\<^sup>*\<^sup>* (startWorkers Q n synced q) c"
  shows "crewInv pr c"
  using run
proof (induction rule: rtranclp_induct)
  case base
  show ?case by (simp add: crewInv_def startWorkers_def none queueLaws_simps [OF laws])
next
  case (step c c')
  from step_inv [OF laws step.IH step.hyps(2)] show ?case .
qed

text \<open>A worker on its own takes the items that are left and then leaves.\<close>

lemma worker_returns:
  assumes laws: "queueLaws Q pr pd sh" and "sh q" "finite (pd q)"
  shows "\<exists>r q' w'. runWorker (processNextWorkItem Q handle (settle Q)) (q, w) = Some (r, q', w') \<and>
    (\<forall>e. r \<noteq> Err e) \<and> (r = Ok () \<longrightarrow> wq_Get Q q' = Some (None, q'))"
  using assms(2,3)
proof (induction "card (pd q)" arbitrary: q w rule: less_induct)
  case less
  let ?next = "processNextWorkItem Q handle (settle Q)"
  consider (leave) "wq_Get Q q = Some (None, q)" | (item) obj q1 where "wq_Get Q q = Some (Some obj, q1)"
  proof (cases "wq_Get Q q")
    case None
    with queueLaws_Get_none(2) [OF laws] less.prems show ?thesis by blast
  next
    case (Some p)
    then show ?thesis using queueLaws_Get_none(1) [OF laws] that by (cases p; cases "fst p") auto
  qed
  then show ?case
  proof cases
    case leave
    then show ?thesis by (simp add: runWorker.simps [of ?next] processNextWorkItem_def)
  next
    case item
    obtain r w1 where h: "handle obj w = (r, w1)" by fastforce
    let ?q = "wq_Done Q obj (settle Q obj r q1)"
    note got = queueLaws_Get [OF laws item]
    have pd: "pd ?q = pd q - {obj}" and shut: "sh ?q"
      using got less.prems by (simp_all add: queueLaws_simps [OF laws] settle_pd [OF laws] settle_sh [OF laws])
    have "card (pd ?q) < card (pd q)" unfolding pd by (rule card_Diff1_less [OF less.prems(2) got(1)])
    note ih = less.hyps [OF this shut, of w1]
    show ?thesis
    proof (cases r)
      case (Panic m)
      with item h show ?thesis by (simp add: runWorker.simps [of ?next] processNextWorkItem_def)
    qed (use ih item h pd less.prems in \<open>simp_all add: runWorker.simps [of ?next "(q, w)"] processNextWorkItem_def\<close>)
  qed
qed

end

interpretation keys: settling settleKey
  by unfold_locales (auto simp: settleKey_def queueLaws_simps split: workItem.splits res.splits)

interpretation loads: settling settleLoad
  by unfold_locales (auto simp: settleLoad_def queueLaws_simps split: workItem.splits res.splits)

section \<open>A small queue\<close>

text \<open>The items waiting, the items being processed, and whether the queue is shut down.\<close>

type_synonym 'op smallQueue = "'op workItem list \<times> 'op workItem list \<times> bool"

definition smallAdd :: "'op workItem \<Rightarrow> 'op smallQueue \<Rightarrow> 'op smallQueue" where
  "smallAdd i = (\<lambda>(todo, doing, shut). (if shut \<or> i \<in> set todo then todo else todo @ [i], doing, shut))"

definition smallQ :: "('op smallQueue, 'op) wqueue" where
  "smallQ =
     \<lparr>wq_Get = (\<lambda>(todo, doing, shut).
        (case filter (\<lambda>i. i \<notin> set doing) todo of
           [] \<Rightarrow> if shut then Some (None, todo, doing, shut) else None
         | i # _ \<Rightarrow> Some (Some i, removeAll i todo, i # doing, shut))),
      wq_Done = (\<lambda>i (todo, doing, shut). (todo, removeAll i doing, shut)),
      wq_Forget = (\<lambda>i q. q),
      wq_Add = smallAdd, wq_AddRateLimited = smallAdd,
      wq_ShutDown = (\<lambda>(todo, doing, shut). (todo, doing, True)),
      MetaNamespaceKeyFunc = (\<lambda>ns name. Ok (if ns = '''' then name else ns @ ''/'' @ name))\<rparr>"

abbreviation smallDoing :: "'op smallQueue \<Rightarrow> 'op workItem set" where "smallDoing q \<equiv> set (fst (snd q))"
abbreviation smallTodo :: "'op smallQueue \<Rightarrow> 'op workItem set" where "smallTodo q \<equiv> set (fst q)"
abbreviation smallShut :: "'op smallQueue \<Rightarrow> bool" where "smallShut q \<equiv> snd (snd q)"

lemma smallQ_Get:
  assumes "wq_Get smallQ q = Some (Some i, q')"
  shows "i \<in> smallTodo q" "i \<notin> smallDoing q" "smallDoing q' = insert i (smallDoing q)"
    "smallTodo q' = smallTodo q - {i}" "smallShut q' = smallShut q"
proof -
  obtain todo doing shut where q: "q = (todo, doing, shut)" by (cases q)
  from assms obtain rest where f: "filter (\<lambda>i. i \<notin> set doing) todo = i # rest"
    and q': "q' = (removeAll i todo, i # doing, shut)"
    by (auto simp: smallQ_def q split: list.splits if_splits)
  from f have "i \<in> set (filter (\<lambda>i. i \<notin> set doing) todo)" by simp
  then show "i \<in> smallTodo q" "i \<notin> smallDoing q" by (simp_all add: q)
  show "smallDoing q' = insert i (smallDoing q)" "smallTodo q' = smallTodo q - {i}" "smallShut q' = smallShut q"
    by (simp_all add: q q')
qed

lemma smallQ_Get_none:
  "wq_Get smallQ q = Some (None, q') \<Longrightarrow> smallShut q \<and> q' = q"
  "wq_Get smallQ q = None \<Longrightarrow> \<not> smallShut q"
  by (auto simp: smallQ_def split: list.splits if_splits prod.splits)

lemma smallQ_others:
  "smallDoing (wq_Done smallQ i q) = smallDoing q - {i} \<and> smallTodo (wq_Done smallQ i q) = smallTodo q \<and>
   smallShut (wq_Done smallQ i q) = smallShut q"
  "smallDoing (wq_Forget smallQ i q) = smallDoing q \<and> smallTodo (wq_Forget smallQ i q) = smallTodo q \<and>
   smallShut (wq_Forget smallQ i q) = smallShut q"
  "smallDoing (wq_ShutDown smallQ q) = smallDoing q \<and> smallShut (wq_ShutDown smallQ q) \<and>
   smallTodo (wq_ShutDown smallQ q) \<subseteq> smallTodo q"
  by (cases q; simp add: smallQ_def)+

lemma smallQ_adds:
  "smallDoing (wq_Add smallQ i q) = smallDoing q \<and> smallShut (wq_Add smallQ i q) = smallShut q \<and>
   smallTodo (wq_Add smallQ i q) = (if smallShut q then smallTodo q else insert i (smallTodo q))"
  "wq_AddRateLimited smallQ = wq_Add smallQ"
  by (cases q; auto simp: smallQ_def smallAdd_def) (simp add: smallQ_def)

lemma smallQ_laws: "queueLaws smallQ smallDoing smallTodo smallShut"
  unfolding queueLaws_def smallQ_adds(2)
  by (intro conjI allI impI smallQ_others smallQ_adds(1); erule smallQ_Get smallQ_Get_none smallQ_Get_none(1) [THEN conjunct1] smallQ_Get_none(1) [THEN conjunct2])

section \<open>The theorems\<close>

text \<open>
  C18. However the workers of an operator and its informer interleave, no two workers are busy with the same
  key, so a cluster or a volume configuration is reconciled by one worker at a time.
\<close>

theorem one_worker_per_key:
  assumes "queueLaws Q pr pd sh" and "pr q = {}"
    and "(workerStep Q (settleKey Q))\<^sup>*\<^sup>* (startWorkers Q threadiness synced q) c"
    and "i < length (crew_workers c)" "j < length (crew_workers c)" "i \<noteq> j" "crew_workers c ! i = Busy (KeyItem key)"
  shows "crew_workers c ! j \<noteq> Busy (KeyItem key)"
  using keys.reachable_inv [OF assms(1-3)] assms(4-7) by (auto simp: crewInv_def dest: distinct_busy_workers)

abbreviation twoKeys :: "unit smallQueue" where
  "twoKeys \<equiv> ([KeyItem ''openebs/a'', KeyItem ''openebs/b''], [], False)"

abbreviation busyCrew :: "(unit smallQueue, unit) crew" where
  "busyCrew \<equiv> \<lparr>crew_queue = ([], [KeyItem ''openebs/b'', KeyItem ''openebs/a''], False),
     crew_workers = [Busy (KeyItem ''openebs/a''), Busy (KeyItem ''openebs/b'')]\<rparr>"

lemma two_busy_workers:
  "(workerStep smallQ (settleKey smallQ))\<^sup>*\<^sup>* (startWorkers smallQ 2 True twoKeys) busyCrew" (is "?R\<^sup>*\<^sup>* ?a _")
proof -
  let ?b = "\<lparr>crew_queue = ([KeyItem ''openebs/b''], [KeyItem ''openebs/a''], False),
    crew_workers = [Busy (KeyItem ''openebs/a''), Idle :: unit worker]\<rparr>"
  have "?R ?a ?b" using workerStep.takes [of 0 ?a smallQ "KeyItem ''openebs/a''" _ "settleKey smallQ"]
    by (simp add: startWorkers_def smallQ_def numeral_2_eq_2)
  moreover have "?R ?b busyCrew" using workerStep.takes [of 1 ?b smallQ "KeyItem ''openebs/b''" _ "settleKey smallQ"]
    by (simp add: smallQ_def)
  ultimately show ?thesis by simp
qed

theorem one_worker_per_key_witness: "crew_workers busyCrew ! 1 \<noteq> Busy (KeyItem ''openebs/a'')"
  by (rule one_worker_per_key [OF smallQ_laws _ two_busy_workers, where i = 0]) simp_all

text \<open>
  C22. A worker of the operator settles the key it took in every case: it is not processed any more, and it is
  queued again exactly when the reconcile round failed.
\<close>

theorem failed_key_queued_again:
  assumes "queueLaws Q pr pd sh" and "\<not> sh q" and "wq_Get Q q = Some (Some (KeyItem key), q1)"
    and "syncCSPC E key w = (r, w')" and "\<forall>m. r \<noteq> Panic m"
  shows "\<exists>q2. cspc_processNextWorkItem E Q (q, w) = Some (Ok True, q2, w') \<and> pr q2 = pr q \<and>
    pd q2 = (if r = Ok () then pd q - {KeyItem key} else pd q)"
proof -
  note laws = queueLaws_simps [OF assms(1)] queueLaws_Get [OF assms(1,3)]
  show ?thesis
    using assms(2-5) laws
    by (cases r) (auto simp: cspc_processNextWorkItem_def processNextWorkItem_def handleKey_def settleKey_def)
qed

definition unreadable :: "store env" where
  "unreadable = sampleEnv\<lparr>cspc_cached := (\<lambda>s ns name. Err (ApiError ''timeout''))\<rparr>"

theorem failed_key_queued_again_witness:
  "\<exists>q2. cspc_processNextWorkItem unreadable smallQ (twoKeys, sampleStore) = Some (Ok True, q2, sampleStore) \<and>
     smallDoing q2 = {} \<and> smallTodo q2 = {KeyItem ''openebs/a'', KeyItem ''openebs/b''}"
proof -
  have get: "wq_Get smallQ twoKeys = Some (Some (KeyItem ''openebs/a''), [KeyItem ''openebs/b''], [KeyItem ''openebs/a''], False)"
    by (simp add: smallQ_def)
  have run: "syncCSPC unreadable ''openebs/a'' sampleStore = (Err (ApiError ''timeout''), sampleStore)" by code_simp
  from failed_key_queued_again [OF smallQ_laws _ get run] show ?thesis by simp
qed



text \<open>
  C21. Once the queue is shut down, a worker of the operator returns: it takes the items that are left, failed
  ones are not added again, and then it leaves, unless a handler panics on the way.
\<close>

theorem worker_leaves_after_shutdown:
  assumes "queueLaws Q pr pd sh" and "sh q" and "finite (pd q)"
  shows "\<exists>r q' w'. runWorker (cspc_processNextWorkItem E Q) (q, w) = Some (r, q', w') \<and> (\<forall>e. r \<noteq> Err e) \<and>
    (r = Ok () \<longrightarrow> wq_Get Q q' = Some (None, q'))"
  unfolding cspc_processNextWorkItem_def by (rule keys.worker_returns [OF assms])

theorem worker_leaves_after_shutdown_witness:
  "\<exists>r q' w'. runWorker (cspc_processNextWorkItem unreadable smallQ)
     (([KeyItem ''openebs/a''], [], True) :: unit smallQueue, sampleStore) = Some (r, q', w') \<and> (\<forall>e. r \<noteq> Err e) \<and>
     (r = Ok () \<longrightarrow> wq_Get smallQ q' = Some (None, q'))"
  by (rule worker_leaves_after_shutdown [OF smallQ_laws]) simp_all

text \<open>
  A tombstone, which the informer sends when it missed the deletion of an object, makes the delete
  handlers of replicas, backups, restores and volumes panic, while the operators look into it.
\<close>

theorem missed_deletion_panics:
  "cvrDeleteFunc (Tombstone x) = Panic ''interface conversion''"
  "bkpDeleteFunc (Tombstone b) = Panic ''interface conversion''"
  "rstDeleteFunc (Tombstone r) = Panic ''interface conversion''"
  "cvDeleteFunc (Tombstone v) = Panic ''interface conversion''"
  "deleteCVC Q (Tombstone (Some cvc)) q = enqueueCVC Q cvc q"
  by (simp_all add: cvrDeleteFunc_def bkpDeleteFunc_def rstDeleteFunc_def cvDeleteFunc_def asserted_def deleteCVC_def)

text \<open>
  The wait for the pool never waits: splitting the answer of zpool gives at least one part, so the
  first answer is taken for the name of a pool, an error or an empty answer too.
\<close>

theorem pool_wait_returns_at_once:
  "CheckForCStorPool P w =
     (case pget_Execute (bash P) noChecks (pget_WithPool ''name'' (pget_WithProperty ''name'' (pget_WithField ''value''
             (pget_WithScriptedMode True NewPoolGetProperty)))) w of ((ret, err), w') \<Rightarrow> Some (Split (CHR 0x0A) ret, w'))"
  by (simp add: CheckForCStorPool.simps [of P w] poolFound_def split: prod.splits)

text \<open>
  The resync interval is the number of seconds that was configured, as long as the nanoseconds fit into
  64 bits: from 1 to 9223372036 seconds nothing wraps.
\<close>

theorem sync_interval_exact:
  assumes "LookupEnv E ''RESYNC_INTERVAL'' = Some s" and "isInt64 s" and "0 < Atoi s" "Atoi s \<le> 9223372036"
  shows "sint (cspcSyncInterval E) = Atoi s * 1000000000"
proof -
  have eq: "cspcSyncInterval E = word_of_int (Atoi s * 1000000000)"
    using assms by (simp add: cspcSyncInterval_def getSyncInterval_def Getenv_def Second_def)
  have fits: "sint (word_of_int k :: 64 word) = k" if "0 < k" "k \<le> 9223372036000000000" for k :: int
    using that by transfer (simp add: signed_take_bit_int_eq_self)
  show ?thesis unfolding eq by (rule fits) (use assms(3,4) in simp_all)
qed

theorem sync_interval_exact_witness:
  "sint (cspcSyncInterval (sampleEnv\<lparr>LookupEnv := (\<lambda>k. Some ''60'')\<rparr>)) = Atoi ''60'' * 1000000000"
proof (rule sync_interval_exact)
  show "isInt64 ''60''" "0 < Atoi ''60''" "Atoi ''60'' \<le> 9223372036" by code_simp+
qed simp

end
