(* ===== verification/WebhookSetup.thy ===== *)
theory WebhookSetup
  imports VolumeWebhook Versions
begin

text \<open>
  The start of the admission server: the certificates it makes for itself, the secret, the service and the
  registration it creates, the upgrade of those of an older release, and the HTTP handler in front of
  the validation (\<open>src/pkg/webhook/configuration.go\<close>, \<open>triple.go\<close>, \<open>webhook.go\<close>).

  Keys are opaque strings. What the code calls in \<open>crypto\<close>, \<open>k8s.io/client-go/util/cert\<close> and the API
  server are fields of \<open>wenv\<close>.
\<close>

section \<open>Data\<close>

record CertConfig =
  cc_CommonName :: string
  cc_Organization :: "string list"
  cc_DNSNames :: "string list"
  cc_IPs :: "string list"
  cc_Usages :: "string list"

record Certificate =
  crt_CommonName :: string
  crt_Organization :: "string list"
  crt_DNSNames :: "string list"
  crt_IPAddresses :: "string list"
  crt_SerialNumber :: int
  crt_NotBefore :: int
  crt_NotAfter :: int
  crt_KeyUsage :: "string list"
  crt_ExtKeyUsage :: "string list"
  crt_Raw :: string

record KeyPair =
  kp_Key :: string
  kp_Cert :: Certificate

record Secret = ObjectMeta +
  sec_Type :: string
  sec_Data :: gomap

record RuleWithOperations =
  rule_Operations :: "Operation list"
  rule_APIGroups :: "string list"
  rule_APIVersions :: "string list"
  rule_Resources :: "string list"

datatype FailurePolicyType = Ignore | Fail

record ValidatingWebhook =
  vw_Name :: string
  vw_Rules :: "RuleWithOperations list"
  vw_ServiceNamespace :: string
  vw_ServiceName :: string
  vw_ServicePath :: string
  vw_CABundle :: string
  vw_SideEffects :: string
  vw_AdmissionReviewVersions :: "string list"
  vw_TimeoutSeconds :: "32 word"
  vw_FailurePolicy :: FailurePolicyType

record WebhookConfiguration = ObjectMeta +
  vwc_Webhooks :: "ValidatingWebhook list"

record 's wenv =
  wapi :: "'s env"
  secret_get :: "'s \<Rightarrow> string \<Rightarrow> string \<Rightarrow> Secret res"
  secret_list :: "'s \<Rightarrow> string \<Rightarrow> string \<Rightarrow> Secret list res"
  secret_create :: "'s \<Rightarrow> string \<Rightarrow> Secret \<Rightarrow> Secret res \<times> 's"
  secret_update :: "'s \<Rightarrow> string \<Rightarrow> Secret \<Rightarrow> Secret res \<times> 's"
  service_get :: "'s \<Rightarrow> string \<Rightarrow> string \<Rightarrow> Service res"
  service_list :: "'s \<Rightarrow> string \<Rightarrow> string \<Rightarrow> Service list res"
  service_create :: "'s \<Rightarrow> string \<Rightarrow> Service \<Rightarrow> Service res \<times> 's"
  service_update :: "'s \<Rightarrow> string \<Rightarrow> Service \<Rightarrow> Service res \<times> 's"
  vwc_get :: "'s \<Rightarrow> string \<Rightarrow> WebhookConfiguration res"
  vwc_list :: "'s \<Rightarrow> string \<Rightarrow> WebhookConfiguration list res"
  vwc_create :: "'s \<Rightarrow> WebhookConfiguration \<Rightarrow> WebhookConfiguration res \<times> 's"
  vwc_update :: "'s \<Rightarrow> WebhookConfiguration \<Rightarrow> WebhookConfiguration res \<times> 's"
  vwc_delete :: "'s \<Rightarrow> string \<Rightarrow> verdict \<times> 's"
  rsa_GenerateKey :: "'s \<Rightarrow> string res \<times> 's"
  rand_Int :: "'s \<Rightarrow> int res \<times> 's"
  NewSelfSignedCACert :: "CertConfig \<Rightarrow> string \<Rightarrow> Certificate res"
  CreateCertificate :: "Certificate \<Rightarrow> Certificate \<Rightarrow> string \<Rightarrow> string \<Rightarrow> Certificate res"
  pem_EncodeToMemory :: "string \<Rightarrow> string \<Rightarrow> string"
  MarshalPKCS1PrivateKey :: "string \<Rightarrow> string"
  ParseIP :: "string \<Rightarrow> string option"
  AppendCertsFromPEM :: "string \<Rightarrow> bool"
  X509KeyPair :: "string \<Rightarrow> string \<Rightarrow> string res"
  NewControllerRef :: "Deployment \<Rightarrow> string \<Rightarrow> string \<Rightarrow> string \<Rightarrow> OwnerReference"

section \<open>Certificates\<close>

definition newPrivateKey :: "'s wenv \<Rightarrow> ('s, string) act" where
  "newPrivateKey W = rsa_GenerateKey W"

text \<open>\<open>fmt.Errorf("...: %v", err)\<close> on the error of an action.\<close>

definition quoteS :: "('s, 'a) act \<Rightarrow> string \<Rightarrow> goarg list \<Rightarrow> ('s, 'a) act" where
  "quoteS m f a s = (case m s of (r, s') \<Rightarrow> (quoteR r f a, s'))"

definition NewCA :: "'s wenv \<Rightarrow> string \<Rightarrow> ('s, KeyPair) act" where
  "NewCA W name =
     bindS (quoteS (newPrivateKey W) ''unable to create a private key for a new CA: %v'' []) (\<lambda>key.
     let config = \<lparr>cc_CommonName = name, cc_Organization = [], cc_DNSNames = [], cc_IPs = [], cc_Usages = []\<rparr> in
     bindS (readS (\<lambda>s. quoteR (NewSelfSignedCACert W config key) ''unable to create a self-signed certificate for a new CA: %v'' [])) (\<lambda>cert.
     returnS \<lparr>kp_Key = key, kp_Cert = cert\<rparr>))"

definition duration365d :: int where "duration365d = 365 * 24 * 3600"

text \<open>The public key that goes into the certificate is the one of the private key \<open>key\<close>.\<close>

definition NewSignedCert :: "'s wenv \<Rightarrow> CertConfig \<Rightarrow> string \<Rightarrow> Certificate \<Rightarrow> string \<Rightarrow> ('s, Certificate) act" where
  "NewSignedCert W cfg key caCert caKey =
     bindS (rand_Int W) (\<lambda>serial.
     if cc_CommonName cfg = '''' then failS (Errorf ''must specify a CommonName'' [])
     else if cc_Usages cfg = [] then failS (Errorf ''must specify at least one ExtKeyUsage'' [])
     else
       readS (\<lambda>s. CreateCertificate W
         \<lparr>crt_CommonName = cc_CommonName cfg, crt_Organization = cc_Organization cfg, crt_DNSNames = cc_DNSNames cfg,
          crt_IPAddresses = cc_IPs cfg, crt_SerialNumber = serial, crt_NotBefore = crt_NotBefore caCert,
          crt_NotAfter = now (wapi W) s + duration365d,
          crt_KeyUsage = [''KeyEncipherment'', ''DigitalSignature''], crt_ExtKeyUsage = cc_Usages cfg, crt_Raw = ''''\<rparr>
         caCert key caKey))"

definition serverDNSNames :: "string \<Rightarrow> string \<Rightarrow> string \<Rightarrow> string list" where
  "serverDNSNames svcName svcNamespace dnsDomain =
     (let namespacedName = svcName @ ''.'' @ svcNamespace in
      [svcName, namespacedName, namespacedName @ ''.svc'', namespacedName @ ''.svc.'' @ dnsDomain])"

definition NewServerKeyPair ::
    "'s wenv \<Rightarrow> KeyPair \<Rightarrow> string \<Rightarrow> string \<Rightarrow> string \<Rightarrow> string \<Rightarrow> string list \<Rightarrow> string list \<Rightarrow> ('s, KeyPair) act" where
  "NewServerKeyPair W ca commonName svcName svcNamespace dnsDomain ips hostnames =
     bindS (quoteS (newPrivateKey W) ''unable to create a server private key: %v'' []) (\<lambda>key.
     let config = \<lparr>cc_CommonName = commonName, cc_Organization = [],
                    cc_DNSNames = hostnames @ serverDNSNames svcName svcNamespace dnsDomain,
                    cc_IPs = List.map_filter (ParseIP W) ips, cc_Usages = [''ServerAuth'']\<rparr> in
     bindS (quoteS (NewSignedCert W config key (kp_Cert ca) (kp_Key ca)) ''unable to sign the server certificate: %v'' []) (\<lambda>cert.
     returnS \<lparr>kp_Key = key, kp_Cert = cert\<rparr>))"

definition NewClientKeyPair :: "'s wenv \<Rightarrow> KeyPair \<Rightarrow> string \<Rightarrow> string list \<Rightarrow> ('s, KeyPair) act" where
  "NewClientKeyPair W ca commonName organizations =
     bindS (quoteS (newPrivateKey W) ''unable to create a client private key: %v'' []) (\<lambda>key.
     let config = \<lparr>cc_CommonName = commonName, cc_Organization = organizations, cc_DNSNames = [], cc_IPs = [],
                    cc_Usages = [''ClientAuth'']\<rparr> in
     bindS (quoteS (NewSignedCert W config key (kp_Cert ca) (kp_Key ca)) ''unable to sign the client certificate: %v'' []) (\<lambda>cert.
     returnS \<lparr>kp_Key = key, kp_Cert = cert\<rparr>))"

definition EncodeCertPEM :: "'s wenv \<Rightarrow> Certificate \<Rightarrow> string" where
  "EncodeCertPEM W cert = pem_EncodeToMemory W ''CERTIFICATE'' (crt_Raw cert)"

definition EncodePrivateKeyPEM :: "'s wenv \<Rightarrow> string \<Rightarrow> string" where
  "EncodePrivateKeyPEM W key = pem_EncodeToMemory W ''RSA PRIVATE KEY'' (MarshalPKCS1PrivateKey W key)"

section \<open>The resources of the server\<close>

definition validatorServiceName :: string where "validatorServiceName = ''openebs-cstor-admission-server''"
definition validatorSecret :: string where "validatorSecret = ''openebs-cstor-admission-secret''"
definition webhookHandlerName :: string where "webhookHandlerName = ''admission-webhook.cstor.openebs.io''"
definition validationPath :: string where "validationPath = ''/validate''"
definition webhookLabel :: string where "webhookLabel = ''openebs.io/component-name=cstor-admission-webhook''"
definition appCrt :: string where "appCrt = ''app.crt''"
definition appKey :: string where "appKey = ''app.pem''"
definition rootCrt :: string where "rootCrt = ''ca.crt''"

definition webhookLabels :: "'s wenv \<Rightarrow> gomap" where
  "webhookLabels W =
     [(''app'', ''cstor-admission-webhook''), (''openebs.io/component-name'', ''cstor-admission-webhook''),
      (OpenEBSVersionLabelKey, binaryVersion (wapi W))]"

definition createWebhookService :: "'s wenv \<Rightarrow> OwnerReference \<Rightarrow> string \<Rightarrow> string \<Rightarrow> ('s, unit) act" where
  "createWebhookService W ownerReference serviceName namespace =
     bindS (attemptS (readS (\<lambda>s. service_get W s namespace serviceName))) (\<lambda>r.
       case r of
         Ok _ \<Rightarrow> returnS ()
       | Panic m \<Rightarrow> panicS m
       | Err e \<Rightarrow>
           if \<not> IsNotFound e then failS (Wrapf e ''failed to get webhook service {%v}'' [AS serviceName])
           else
             bindS (\<lambda>s. service_create W s namespace
               (ObjectMeta.extend (emptyMeta\<lparr>Namespace := namespace, Name := serviceName, Labels := webhookLabels W,
                  OwnerReferences := [ownerReference]\<rparr>)
                \<lparr>svc_ClusterIP = '''', svc_Selector = [(''app'', ''cstor-admission-webhook'')],
                 svc_Ports = [\<lparr>sp_Name = '''', sp_Port = 443, sp_Protocol = ''TCP'', sp_TargetPort = 8443\<rparr>]\<rparr>)) (\<lambda>_.
             returnS ()))"

definition cvcRuleWithOperations :: RuleWithOperations where
  "cvcRuleWithOperations =
     \<lparr>rule_Operations = [Update], rule_APIGroups = [''cstor.openebs.io''], rule_APIVersions = [''v1''],
      rule_Resources = [''cstorvolumeconfigs'']\<rparr>"

definition nsRuleWithOperations :: RuleWithOperations where
  "nsRuleWithOperations =
     \<lparr>rule_Operations = [Delete], rule_APIGroups = [''*''], rule_APIVersions = [''*''], rule_Resources = [''namespaces'']\<rparr>"

definition webhookRules :: "RuleWithOperations list" where
  "webhookRules =
     [\<lparr>rule_Operations = [Create, Delete], rule_APIGroups = [''*''], rule_APIVersions = [''*''],
       rule_Resources = [''persistentvolumeclaims'']\<rparr>,
      \<lparr>rule_Operations = [Create, Update, Delete], rule_APIGroups = [''cstor.openebs.io''], rule_APIVersions = [''v1''],
       rule_Resources = [''cstorpoolclusters'']\<rparr>,
      cvcRuleWithOperations, nsRuleWithOperations]"

definition lowerChar :: "char \<Rightarrow> char" where
  "lowerChar c = (if (65 :: nat) \<le> of_char c \<and> of_char c \<le> (90 :: nat) then char_of ((of_char c :: nat) + 32) else c)"

definition ToLower :: "string \<Rightarrow> string" where "ToLower s = map lowerChar s"

definition failurePolicy :: "'s wenv \<Rightarrow> FailurePolicyType" where
  "failurePolicy W =
     (let policy = (case LookupEnv (wapi W) ''ADMISSION_WEBHOOK_FAILURE_POLICY'' of None \<Rightarrow> '''' | Some p \<Rightarrow> p) in
      if ToLower policy \<in> {''no'', ''false'', ''ignore''} then Ignore else Fail)"

definition GetValidatorWebhook :: "'s wenv \<Rightarrow> string \<Rightarrow> 's \<Rightarrow> WebhookConfiguration res" where
  "GetValidatorWebhook W validator s = vwc_get W s validator"

definition webhookHandler :: "'s wenv \<Rightarrow> string \<Rightarrow> string \<Rightarrow> string \<Rightarrow> ValidatingWebhook" where
  "webhookHandler W namespace serviceName signingCert =
     \<lparr>vw_Name = webhookHandlerName, vw_Rules = webhookRules, vw_ServiceNamespace = namespace, vw_ServiceName = serviceName,
      vw_ServicePath = validationPath, vw_CABundle = signingCert, vw_SideEffects = ''None'',
      vw_AdmissionReviewVersions = [''v1''], vw_TimeoutSeconds = 5, vw_FailurePolicy = failurePolicy W\<rparr>"

definition createAdmissionValidatingConfig ::
    "'s wenv \<Rightarrow> OwnerReference \<Rightarrow> string \<Rightarrow> string \<Rightarrow> string \<Rightarrow> string \<Rightarrow> ('s, unit) act" where
  "createAdmissionValidatingConfig W ownerReference validator namespace serviceName signingCert =
     bindS (attemptS (readS (GetValidatorWebhook W validator))) (\<lambda>r.
       case r of
         Ok _ \<Rightarrow> returnS ()
       | Panic m \<Rightarrow> panicS m
       | Err e \<Rightarrow>
           if \<not> IsNotFound e then failS (Wrapf e ''failed to get validating WebhookConfiguration for {%v}'' [AS validator])
           else
             bindS (\<lambda>s. vwc_create W s
               (ObjectMeta.extend (emptyMeta\<lparr>Name := validator, Labels := webhookLabels W, OwnerReferences := [ownerReference]\<rparr>)
                \<lparr>vwc_Webhooks = [webhookHandler W namespace serviceName signingCert]\<rparr>)) (\<lambda>_.
             returnS ()))"

definition certsSecret :: "'s wenv \<Rightarrow> OwnerReference \<Rightarrow> string \<Rightarrow> string \<Rightarrow> KeyPair \<Rightarrow> KeyPair \<Rightarrow> Secret" where
  "certsSecret W ownerReference secretName namespace caKeyPair apiServerKeyPair =
     ObjectMeta.extend (emptyMeta\<lparr>Name := secretName, Namespace := namespace, Labels := webhookLabels W,
       OwnerReferences := [ownerReference]\<rparr>)
     \<lparr>sec_Type = ''Opaque'',
      sec_Data = [(appCrt, EncodeCertPEM W (kp_Cert apiServerKeyPair)), (appKey, EncodePrivateKeyPEM W (kp_Key apiServerKeyPair)),
                  (rootCrt, EncodeCertPEM W (kp_Cert caKeyPair))]\<rparr>"

definition createCertsSecret :: "'s wenv \<Rightarrow> OwnerReference \<Rightarrow> string \<Rightarrow> string \<Rightarrow> string \<Rightarrow> ('s, Secret) act" where
  "createCertsSecret W ownerReference secretName serviceName namespace =
     bindS (quoteS (NewCA W (serviceName @ ''-ca'')) ''failed to create root-ca: %v'' []) (\<lambda>caKeyPair.
     bindS (quoteS (NewServerKeyPair W caKeyPair (Join [serviceName, namespace, ''svc''] ''.'') serviceName namespace
              ''cluster.local'' [] []) ''failed to create server key pair: %v'' []) (\<lambda>apiServerKeyPair.
     (\<lambda>s. secret_create W s namespace (certsSecret W ownerReference secretName namespace caKeyPair apiServerKeyPair))))"

definition GetSecret :: "'s wenv \<Rightarrow> string \<Rightarrow> string \<Rightarrow> 's \<Rightarrow> Secret res" where
  "GetSecret W namespace secretName s = secret_get W s namespace secretName"

section \<open>Upgrade and start\<close>

definition addNSWithDeleteRule :: "WebhookConfiguration \<Rightarrow> WebhookConfiguration res" where
  "addNSWithDeleteRule config =
     bindR (IsCurrentLessThanNewVersion (mget (Labels config) OpenEBSVersionLabelKey) ''2.5.0'') (\<lambda>older.
       if \<not> older then Ok config
       else (case vwc_Webhooks config of
               [] \<Rightarrow> Panic ''index out of range''
             | h # hs \<Rightarrow> Ok (config\<lparr>vwc_Webhooks := h\<lparr>vw_Rules := vw_Rules h @ [nsRuleWithOperations]\<rparr> # hs\<rparr>)))"

definition transformSecret :: "(Secret \<Rightarrow> Secret res) list" where "transformSecret = []"
definition transformSvc :: "(Service \<Rightarrow> Service res) list" where "transformSvc = []"
definition transformConfig :: "(WebhookConfiguration \<Rightarrow> WebhookConfiguration res) list" where
  "transformConfig = [addNSWithDeleteRule]"

text \<open>
  The transformations in their order, then the label of the version; writing into the labels of an object
  without labels, a nil map, panics.
\<close>

definition upgradeObj ::
    "'s wenv \<Rightarrow> ('a ObjectMeta_scheme \<Rightarrow> 'a ObjectMeta_scheme res) list \<Rightarrow> 'a ObjectMeta_scheme \<Rightarrow> 'a ObjectMeta_scheme res" where
  "upgradeObj W transforms obj =
     bindR (foldR (\<lambda>t x. t x) transforms obj) (\<lambda>x.
       if Labels x = [] then Panic ''assignment to entry in nil map''
       else Ok (x\<lparr>Labels := mput OpenEBSVersionLabelKey (binaryVersion (wapi W)) (Labels x)\<rparr>))"

definition outdated :: "'s wenv \<Rightarrow> 'a ObjectMeta_scheme \<Rightarrow> bool" where
  "outdated W obj = (mget (Labels obj) OpenEBSVersionLabelKey \<noteq> binaryVersion (wapi W))"

definition upgradeSecret :: "'s wenv \<Rightarrow> string \<Rightarrow> Secret \<Rightarrow> ('s, unit) act" where
  "upgradeSecret W namespace scrt =
     (if \<not> outdated W scrt then returnS ()
      else
        bindS (readS (\<lambda>s. upgradeObj W transformSecret scrt)) (\<lambda>newScrt.
        bindS (quoteS (\<lambda>s. secret_update W s namespace newScrt) ''failed to update old secret %s: %s'' [AS (Name scrt)]) (\<lambda>_.
        returnS ())))"

definition upgradeService :: "'s wenv \<Rightarrow> string \<Rightarrow> Service \<Rightarrow> ('s, unit) act" where
  "upgradeService W namespace svc =
     (if \<not> outdated W svc then returnS ()
      else
        bindS (readS (\<lambda>s. upgradeObj W transformSvc svc)) (\<lambda>newSvc.
        bindS (quoteS (\<lambda>s. service_update W s namespace newSvc) ''failed to update old service %s: %s'' [AS (Name svc)]) (\<lambda>_.
        returnS ())))"

definition upgradeConfig :: "'s wenv \<Rightarrow> WebhookConfiguration \<Rightarrow> ('s, unit) act" where
  "upgradeConfig W config =
     (if \<not> outdated W config then returnS ()
      else
        bindS (readS (\<lambda>s. IsCurrentLessThanNewVersion (mget (Labels config) OpenEBSVersionLabelKey) ''2.8.0'')) (\<lambda>older.
        if older
        then quoteS (\<lambda>s. vwc_delete W s (Name config)) ''failed to delete older webhook config %s: %s'' [AS (Name config)]
        else
          bindS (readS (\<lambda>s. upgradeObj W transformConfig config)) (\<lambda>newConfig.
          bindS (quoteS (\<lambda>s. vwc_update W s newConfig) ''failed to update older webhook config %s: %s'' [AS (Name config)]) (\<lambda>_.
          returnS ()))))"

definition preUpgrade :: "'s wenv \<Rightarrow> string \<Rightarrow> ('s, unit) act" where
  "preUpgrade W openebsNamespace =
     bindS (readS (\<lambda>s. quoteR (secret_list W s openebsNamespace webhookLabel) ''failed to list old secret: %s'' [])) (\<lambda>secretlist.
     bindS (foldS (\<lambda>scrt _. upgradeSecret W openebsNamespace scrt) secretlist ()) (\<lambda>_.
     bindS (readS (\<lambda>s. quoteR (service_list W s openebsNamespace webhookLabel) ''failed to list old service: %s'' [])) (\<lambda>svcList.
     bindS (foldS (\<lambda>svc _. upgradeService W openebsNamespace svc) svcList ()) (\<lambda>_.
     bindS (readS (\<lambda>s. quoteR (vwc_list W s webhookLabel) ''failed to list older webhook config: %s'' [])) (\<lambda>webhookConfigList.
     foldS (\<lambda>config _. upgradeConfig W config) webhookConfigList ())))))"

text \<open>The secret that is there, or a new one.\<close>

definition ensureSecret :: "'s wenv \<Rightarrow> OwnerReference \<Rightarrow> string \<Rightarrow> ('s, Secret) act" where
  "ensureSecret W ownerReference openebsNamespace =
     bindS (attemptS (readS (GetSecret W openebsNamespace validatorSecret))) (\<lambda>r.
       case r of
         Ok certSecret \<Rightarrow> returnS certSecret
       | Panic m \<Rightarrow> panicS m
       | Err e \<Rightarrow>
           if IsNotFound e
           then quoteS (createCertsSecret W ownerReference validatorSecret validatorServiceName openebsNamespace)
                  ''failed to create secret(%s) resource %v'' [AS validatorSecret]
           else failS (Errorf ''unable to read secret object %s: %v'' [AS validatorSecret, AE e]))"

definition InitValidationServer :: "'s wenv \<Rightarrow> OwnerReference \<Rightarrow> ('s, unit) act" where
  "InitValidationServer W ownerReference =
     bindS (readS (\<lambda>s. getOpenebsNamespace (wapi W))) (\<lambda>openebsNamespace.
     bindS (preUpgrade W openebsNamespace) (\<lambda>_.
     bindS (ensureSecret W ownerReference openebsNamespace) (\<lambda>certSecret.
     if \<not> mhas (sec_Data certSecret) rootCrt
     then failS (Errorf ''%s value not found in %s secret'' [AS rootCrt, AS validatorSecret])
     else
       bindS (quoteS (createWebhookService W ownerReference validatorServiceName openebsNamespace)
                ''failed to create Service{%s}: %v'' [AS validatorServiceName]) (\<lambda>_.
       quoteS (createAdmissionValidatingConfig W ownerReference validatorWebhook openebsNamespace validatorServiceName
                 (mget (sec_Data certSecret) rootCrt))
         ''failed to create validator{%s}: %v'' [AS validatorWebhook]))))"

definition GetAdmissionName :: "'s wenv \<Rightarrow> string res" where
  "GetAdmissionName W =
     (case LookupEnv (wapi W) ''ADMISSION_WEBHOOK_NAME'' of
        None \<Rightarrow> Err (Errorf ''%s must be set'' [AS ''ADMISSION_WEBHOOK_NAME''])
      | Some admissionName \<Rightarrow>
          if admissionName = '''' then Err (Errorf ''%s must not be empty'' [AS ''ADMISSION_WEBHOOK_NAME'']) else Ok admissionName)"

definition GetAdmissionReference :: "'s wenv \<Rightarrow> 's \<Rightarrow> OwnerReference res" where
  "GetAdmissionReference W s =
     bindR (getOpenebsNamespace (wapi W)) (\<lambda>openebsNamespace.
     bindR (quoteR (deploy_list (wapi W) s openebsNamespace webhookLabel) ''failed to list admission deployment: %s'' []) (\<lambda>admdeployList.
     (case find (\<lambda>admdeploy. Name admdeploy \<noteq> '''') admdeployList of
        Some admdeploy \<Rightarrow> Ok (NewControllerRef W admdeploy ''apps'' ''v1'' ''Deployment'')
      | None \<Rightarrow> Err (Errorf ''failed to create deployment ownerReference'' []))))"

section \<open>The server\<close>

text \<open>\<open>New\<close>: what the server is started with, its certificate, or why it is not.\<close>

definition newWebhook :: "'s wenv \<Rightarrow> 's \<Rightarrow> string res" where
  "newWebhook W s =
     bindR (getOpenebsNamespace (wapi W)) (\<lambda>admNamespace.
     bindR (case GetSecret W admNamespace validatorSecret s of
              Err e \<Rightarrow> Err (Errorf ''failed to read secret(%s) object %v'' [AS validatorSecret, AE e]) | r \<Rightarrow> r) (\<lambda>certSecret.
     let missing = (\<lambda>k. Err (Errorf ''%s value not found in %s secret'' [AS k, AS validatorSecret])); data = sec_Data certSecret in
     if \<not> mhas data appCrt then missing appCrt
     else if \<not> mhas data appKey then missing appKey
     else if \<not> mhas data rootCrt then missing rootCrt
     else if \<not> AppendCertsFromPEM W (mget data rootCrt) then Err (Errorf ''failed to parse root certificate'' [])
     else X509KeyPair W (mget data appCrt) (mget data appKey)))"

text \<open>
  The HTTP handler: the body (empty when it cannot be read), the content type and the path of the request.
  \<open>decode\<close> is the deserializer: an error, or the request of the review with its UID, when it has one.
  The reply is an HTTP error, or a review with the response and the UID of the request.
\<close>

datatype reply = HttpError int | Review "AdmissionResponse option" string

definition Serve ::
    "'s env \<Rightarrow> (string \<Rightarrow> (string \<times> AdmissionRequest) option res) \<Rightarrow> string \<Rightarrow> string \<Rightarrow> string \<Rightarrow> ('s, reply) act" where
  "Serve E decode body contentType path =
     (if body = '''' then returnS (HttpError 400)
      else if contentType \<noteq> ''application/json'' then returnS (HttpError 415)
      else
        case decode body of
          Panic m \<Rightarrow> panicS m
        | Err e \<Rightarrow> returnS (Review (Some \<lparr>Allowed = False, Result = Some ('''', 0, Some e)\<rparr>) '''')
        | Ok request \<Rightarrow>
            if path \<noteq> ''/validate'' then returnS (Review None '''')
            else (case request of
                    None \<Rightarrow> panicS ''nil pointer dereference''
                  | Some (uid, req) \<Rightarrow> bindS (validate E req) (\<lambda>response. returnS (Review (Some response) uid))))"

end
