(* ===== verification/SampleWebhook.thy ===== *)
theory SampleWebhook
  imports WebhookSetup SampleServer
begin

text \<open>
  A small API server for the start of the admission server: secrets, services and registrations beside
  the objects of \<open>SampleServer\<close>, and certificates that carry what they were asked to carry.
\<close>

text \<open>The environment of a server, on a state with further objects.\<close>

definition liftEnv :: "'s env \<Rightarrow> ('s \<times> 't) env" where
  "liftEnv E =
     \<lparr>node_list = (\<lambda>s. node_list E (fst s)),
      bd_get = (\<lambda>s. bd_get E (fst s)),
      bdc_get = (\<lambda>s. bdc_get E (fst s)),
      bdc_list = (\<lambda>s. bdc_list E (fst s)),
      bdc_create = (\<lambda>s x0 x1. case bdc_create E (fst s) x0 x1 of (r, t) \<Rightarrow> (r, t, snd s)),
      bdc_update = (\<lambda>s x0 x1. case bdc_update E (fst s) x0 x1 of (r, t) \<Rightarrow> (r, t, snd s)),
      bdc_delete = (\<lambda>s x0 x1. case bdc_delete E (fst s) x0 x1 of (r, t) \<Rightarrow> (r, t, snd s)),
      cspc_get = (\<lambda>s. cspc_get E (fst s)),
      cspc_update = (\<lambda>s x0 x1. case cspc_update E (fst s) x0 x1 of (r, t) \<Rightarrow> (r, t, snd s)),
      cspi_list = (\<lambda>s. cspi_list E (fst s)),
      cspi_create = (\<lambda>s x0 x1. case cspi_create E (fst s) x0 x1 of (r, t) \<Rightarrow> (r, t, snd s)),
      cspi_update = (\<lambda>s x0 x1. case cspi_update E (fst s) x0 x1 of (r, t) \<Rightarrow> (r, t, snd s)),
      cspi_delete = (\<lambda>s x0 x1. case cspi_delete E (fst s) x0 x1 of (r, t) \<Rightarrow> (r, t, snd s)),
      cspi_delete_collection = (\<lambda>s x0 x1. case cspi_delete_collection E (fst s) x0 x1 of (r, t) \<Rightarrow> (r, t, snd s)),
      cvr_list = (\<lambda>s. cvr_list E (fst s)),
      cvc_get = (\<lambda>s. cvc_get E (fst s)),
      cvc_list = (\<lambda>s. cvc_list E (fst s)),
      cv_count = (\<lambda>s. cv_count E (fst s)),
      pvc_get = (\<lambda>s. pvc_get E (fst s)),
      webhook_config_delete = (\<lambda>s x0. case webhook_config_delete E (fst s) x0 of (r, t) \<Rightarrow> (r, t, snd s)),
      deploy_get = (\<lambda>s. deploy_get E (fst s)),
      deploy_list = (\<lambda>s. deploy_list E (fst s)),
      deploy_create = (\<lambda>s x0 x1. case deploy_create E (fst s) x0 x1 of (r, t) \<Rightarrow> (r, t, snd s)),
      deploy_patch = (\<lambda>s x0 x1 x2. case deploy_patch E (fst s) x0 x1 x2 of (r, t) \<Rightarrow> (r, t, snd s)),
      marshalDeployment = marshalDeployment E,
      CreateTwoWayMergePatch = CreateTwoWayMergePatch E,
      StrategicMergePatch = StrategicMergePatch E,
      SplitMetaNamespaceKey = SplitMetaNamespaceKey E,
      cspc_cached = (\<lambda>s. cspc_cached E (fst s)),
      HasFinalizer = HasFinalizer E,
      WithFinalizer = WithFinalizer E,
      RemoveFinalizer = RemoveFinalizer E,
      LookupEnv = LookupEnv E,
      GetServiceAccountName = GetServiceAccountName E,
      ImagePullSecrets = ImagePullSecrets E,
      OpenebsBaseDirPath = OpenebsBaseDirPath E,
      ParseQuantity = ParseQuantity E,
      ListDiff = ListDiff E,
      GetDesiredReplicaPoolNames = GetDesiredReplicaPoolNames E,
      CSPCFinalizer = CSPCFinalizer E,
      CStorPoolInstanceNameLabelKey = CStorPoolInstanceNameLabelKey E,
      OpenEBSNamespace = OpenEBSNamespace E,
      OpenEBSNamespaceEnv = OpenEBSNamespaceEnv E,
      CStorVolumeConfigPhaseBound = CStorVolumeConfigPhaseBound E,
      mapOrder = mapOrder E,
      rangeCheck = rangeCheck E,
      rangeExpand = rangeExpand E,
      labelSetString = labelSetString E,
      setOrder = setOrder E,
      HasNodeName = HasNodeName E,
      ContainsString = ContainsString E,
      RemoveString = RemoveString E,
      OpenEBSDisableDependantsReconcileKey = OpenEBSDisableDependantsReconcileKey E,
      OpenEBSDisableReconcileLabelKey = OpenEBSDisableReconcileLabelKey E,
      CasTypeCStor = CasTypeCStor E,
      newVersionDetails = newVersionDetails E,
      ReconcileInProgress = ReconcileInProgress E,
      setInProgressStatus = setInProgressStatus E,
      setSuccessStatus = setSuccessStatus E,
      setErrorStatus = setErrorStatus E,
      randSuffix = (\<lambda>s. randSuffix E (fst s)),
      now = (\<lambda>s. now E (fst s)),
      binaryVersion = binaryVersion E\<rparr>"

record setupObjs =
  so_secrets :: "Secret list"
  so_services :: "Service list"
  so_configs :: "WebhookConfiguration list"
  so_keys :: nat

type_synonym setupState = "store \<times> setupObjs"

definition putObjs :: "('a list \<Rightarrow> setupObjs \<Rightarrow> setupObjs) \<Rightarrow> 'b \<Rightarrow> 'a list res \<Rightarrow> setupState \<Rightarrow> 'b res \<times> setupState" where
  "putObjs upd x r s =
     (case r of Ok xs \<Rightarrow> (Ok x, fst s, upd xs (snd s)) | Err e \<Rightarrow> (Err e, s) | Panic m \<Rightarrow> (Panic m, s))"

definition putSecrets :: "Secret list \<Rightarrow> setupObjs \<Rightarrow> setupObjs" where "putSecrets xs t = t\<lparr>so_secrets := xs\<rparr>"
definition putServices :: "Service list \<Rightarrow> setupObjs \<Rightarrow> setupObjs" where "putServices xs t = t\<lparr>so_services := xs\<rparr>"
definition putConfigs :: "WebhookConfiguration list \<Rightarrow> setupObjs \<Rightarrow> setupObjs" where "putConfigs xs t = t\<lparr>so_configs := xs\<rparr>"

definition sampleCert :: "CertConfig \<Rightarrow> string \<Rightarrow> Certificate" where
  "sampleCert cfg key =
     \<lparr>crt_CommonName = cc_CommonName cfg, crt_Organization = cc_Organization cfg, crt_DNSNames = cc_DNSNames cfg,
      crt_IPAddresses = cc_IPs cfg, crt_SerialNumber = 0, crt_NotBefore = 0, crt_NotAfter = duration365d,
      crt_KeyUsage = [''CertSign''], crt_ExtKeyUsage = [], crt_Raw = cc_CommonName cfg @ ''/'' @ key\<rparr>"

definition nextKey :: "setupState \<Rightarrow> string res \<times> setupState" where
  "nextKey s = (Ok (''key'' @ replicate (so_keys (snd s)) (CHR ''x'')), fst s, (snd s)\<lparr>so_keys := Suc (so_keys (snd s))\<rparr>)"

definition sampleWenv :: "setupState wenv" where
  "sampleWenv =
     \<lparr>wapi = (liftEnv sampleEnv)\<lparr>LookupEnv := (\<lambda>k. if k = ''OPENEBS_NAMESPACE'' then Some ''openebs'' else None)\<rparr>,
      secret_get = (\<lambda>s ns n. lookupObj Name n (so_secrets (snd s))),
      secret_list = (\<lambda>s ns sel. Ok (filter (\<lambda>x. matchesSelector sel (Labels x)) (so_secrets (snd s)))),
      secret_create = (\<lambda>s ns x. putObjs putSecrets x (insertObj Name x (so_secrets (snd s))) s),
      secret_update = (\<lambda>s ns x. putObjs putSecrets x (replaceObj Name x (so_secrets (snd s))) s),
      service_get = (\<lambda>s ns n. lookupObj Name n (so_services (snd s))),
      service_list = (\<lambda>s ns sel. Ok (filter (\<lambda>x. matchesSelector sel (Labels x)) (so_services (snd s)))),
      service_create = (\<lambda>s ns x. putObjs putServices x (insertObj Name x (so_services (snd s))) s),
      service_update = (\<lambda>s ns x. putObjs putServices x (replaceObj Name x (so_services (snd s))) s),
      vwc_get = (\<lambda>s n. lookupObj Name n (so_configs (snd s))),
      vwc_list = (\<lambda>s sel. Ok (filter (\<lambda>x. matchesSelector sel (Labels x)) (so_configs (snd s)))),
      vwc_create = (\<lambda>s x. putObjs putConfigs x (insertObj Name x (so_configs (snd s))) s),
      vwc_update = (\<lambda>s x. putObjs putConfigs x (replaceObj Name x (so_configs (snd s))) s),
      vwc_delete = (\<lambda>s n. putObjs putConfigs () (removeObj Name n (so_configs (snd s))) s),
      rsa_GenerateKey = nextKey, rand_Int = (\<lambda>s. (Ok 1, s)),
      NewSelfSignedCACert = (\<lambda>cfg key. Ok (sampleCert cfg key)),
      CreateCertificate = (\<lambda>tmpl parent key caKey. Ok (tmpl\<lparr>crt_Raw := crt_CommonName tmpl @ ''/'' @ key\<rparr>)),
      pem_EncodeToMemory = (\<lambda>ty bytes. ty @ '':'' @ bytes), MarshalPKCS1PrivateKey = (\<lambda>key. key), ParseIP = Some,
      AppendCertsFromPEM = (\<lambda>p. True), X509KeyPair = (\<lambda>c k. Ok c),
      NewControllerRef = (\<lambda>d g v k. \<lparr>or_Kind = k, or_Name = Name d, or_UID = UID d\<rparr>)\<rparr>"

definition sampleOwner :: OwnerReference where
  "sampleOwner = \<lparr>or_Kind = ''Deployment'', or_Name = ''openebs-cstor-admission-server'', or_UID = ''uid-adm''\<rparr>"

definition bareCluster :: setupState where
  "bareCluster = (sampleStore, \<lparr>so_secrets = [], so_services = [], so_configs = [], so_keys = 0\<rparr>)"

text \<open>A cluster with the registration of an older release.\<close>

definition oldRegistration :: "string \<Rightarrow> WebhookConfiguration" where
  "oldRegistration version =
     ObjectMeta.extend (emptyMeta\<lparr>Name := validatorWebhook,
        Labels := [(''openebs.io/component-name'', ''cstor-admission-webhook''), (OpenEBSVersionLabelKey, version)]\<rparr>)
     \<lparr>vwc_Webhooks = [webhookHandler sampleWenv ''openebs'' validatorServiceName ''old-root'']\<rparr>"

definition oldCluster :: "string \<Rightarrow> setupState" where
  "oldCluster version = (sampleStore, (snd bareCluster)\<lparr>so_configs := [oldRegistration version]\<rparr>)"

end
