(* ===== verification/WebhookSafety.thy ===== *)
theory WebhookSafety
  imports SampleWebhook
begin

text \<open>
  What the start of the admission server guarantees: which requests reach the validation, that the API
  server trusts the certificate the server shows and dials a name it covers, what an upgrade leaves of the
  registration, and that the HTTP handler never admits what was not validated.
\<close>

section \<open>Which requests are sent\<close>

text \<open>The resource of the rules that a kind of object belongs to.\<close>

definition resourceOf :: "string \<Rightarrow> string" where
  "resourceOf kind =
     (if kind = ''Namespace'' then ''namespaces''
      else if kind = ''PersistentVolumeClaim'' then ''persistentvolumeclaims''
      else if kind = ''CStorPoolCluster'' then ''cstorpoolclusters''
      else if kind = ''CStorVolumeConfig'' then ''cstorvolumeconfigs'' else '''')"

definition registered :: "RuleWithOperations list \<Rightarrow> AdmissionRequest \<Rightarrow> bool" where
  "registered rules req =
     list_ex (\<lambda>rule. req_Operation req \<in> set (rule_Operations rule) \<and> resourceOf (req_Kind req) \<in> set (rule_Resources rule)) rules"

lemma quoteS_Ok_iff: "(quoteS m f a s = (Ok x, s')) \<longleftrightarrow> m s = (Ok x, s')"
  by (auto simp: quoteS_def split: prod.splits)

lemma registered_rules:
  "registered webhookRules req \<longleftrightarrow>
     req_Kind req = ''PersistentVolumeClaim'' \<and> req_Operation req \<in> {Create, Delete} \<or>
     req_Kind req = ''CStorPoolCluster'' \<and> req_Operation req \<in> {Create, Update, Delete} \<or>
     req_Kind req = ''CStorVolumeConfig'' \<and> req_Operation req = Update \<or>
     req_Kind req = ''Namespace'' \<and> req_Operation req = Delete"
  by (simp add: registered_def webhookRules_def cvcRuleWithOperations_def nsRuleWithOperations_def resourceOf_def)

lemma InitValidationServer_namespace:
  assumes "InitValidationServer W owner s = (Ok (), s')"
  obtains ns where "LookupEnv (wapi W) (OpenEBSNamespaceEnv (wapi W)) = Some ns"
  using assms
  by (auto simp: InitValidationServer_def bindS_def getOpenebsNamespace_def split: option.splits)



section \<open>What the API server trusts\<close>

text \<open>
  The laws of the API server the start relies on: a created object can be read and keeps what it was created with,
  and creating an object of one kind leaves the others alone.
\<close>

definition trustLaws :: "'s wenv \<Rightarrow> bool" where
  "trustLaws W \<longleftrightarrow>
     (\<forall>s ns x x' s'. secret_create W s ns x = (Ok x', s') \<longrightarrow> x' = x \<and> secret_get W s' ns (Name x) = Ok x \<and> vwc_get W s' = vwc_get W s) \<and>
     (\<forall>s ns x. secret_get W (snd (service_create W s ns x)) = secret_get W s \<and> vwc_get W (snd (service_create W s ns x)) = vwc_get W s) \<and>
     (\<forall>s c c' s'. vwc_create W s c = (Ok c', s') \<longrightarrow>
        vwc_get W s' (Name c) = Ok c' \<and> vwc_Webhooks c' = vwc_Webhooks c \<and> secret_get W s' = secret_get W s) \<and>
     (\<forall>s. vwc_get W (snd (rsa_GenerateKey W s)) = vwc_get W s \<and> vwc_get W (snd (rand_Int W s)) = vwc_get W s)"

lemma trustLawsD:
  assumes "trustLaws W"
  shows "secret_create W s ns x = (Ok x', s') \<Longrightarrow> x' = x \<and> secret_get W s' ns (Name x) = Ok x \<and> vwc_get W s' = vwc_get W s"
    "service_create W s ns y = (r, s') \<Longrightarrow> secret_get W s' = secret_get W s \<and> vwc_get W s' = vwc_get W s"
    "vwc_create W s c = (Ok c', s') \<Longrightarrow> vwc_get W s' (Name c) = Ok c' \<and> vwc_Webhooks c' = vwc_Webhooks c \<and> secret_get W s' = secret_get W s"
    "rsa_GenerateKey W s = (k, s') \<Longrightarrow> vwc_get W s' = vwc_get W s"
    "rand_Int W s = (i, s') \<Longrightarrow> vwc_get W s' = vwc_get W s"
  using assms by - (unfold trustLaws_def, (metis snd_conv)+)

lemma readS_Ok_iff: "(readS f s = (Ok x, s')) \<longleftrightarrow> f s = Ok x \<and> s' = s"
  by (auto simp: readS_def)

lemma NewSignedCert_frame:
  assumes "trustLaws W" "NewSignedCert W cfg key c k s = (Ok cert, s')"
  shows "vwc_get W s' = vwc_get W s"
  using assms(2) trustLawsD(5) [OF assms(1)]
  by (auto simp: NewSignedCert_def bindS_Ok_iff readS_Ok_iff failS_def split: if_splits)

lemma createCertsSecret_stored:
  assumes "trustLaws W" "createCertsSecret W owner name svc ns s = (Ok sec, s')"
  shows "secret_get W s' ns name = Ok sec \<and> vwc_get W s' = vwc_get W s"
proof -
  from assms(2) obtain ca kp s1 s2 where ca: "NewCA W (svc @ ''-ca'') s = (Ok ca, s1)"
    and kp: "NewServerKeyPair W ca (Join [svc, ns, ''svc''] ''.'') svc ns ''cluster.local'' [] [] s1 = (Ok kp, s2)"
    and create: "secret_create W s2 ns (certsSecret W owner name ns ca kp) = (Ok sec, s')"
    by (auto simp: createCertsSecret_def bindS_Ok_iff quoteS_Ok_iff)
  have "vwc_get W s1 = vwc_get W s"
    using ca trustLawsD(4) [OF assms(1)] by (auto simp: NewCA_def newPrivateKey_def bindS_Ok_iff quoteS_Ok_iff readS_Ok_iff Let_def)
  moreover have "vwc_get W s2 = vwc_get W s1"
    using kp trustLawsD(4) [OF assms(1)] NewSignedCert_frame [OF assms(1)]
    by (fastforce simp: NewServerKeyPair_def newPrivateKey_def bindS_Ok_iff quoteS_Ok_iff Let_def)
  moreover have "Name (certsSecret W owner name ns ca kp) = name" by (simp add: certsSecret_def ObjectMeta.defs)
  ultimately show ?thesis using trustLawsD(1) [OF assms(1) create] by auto
qed

lemma ensureSecret_stored:
  assumes "trustLaws W" "ensureSecret W owner ns s = (Ok sec, s')"
  shows "secret_get W s' ns validatorSecret = Ok sec \<and> vwc_get W s' = vwc_get W s"
  using assms(2) createCertsSecret_stored [OF assms(1)]
  by (auto simp: ensureSecret_def bindS_Ok_iff attemptS_Ok_iff readS_def GetSecret_def quoteS_Ok_iff failS_def returnS_def panicS_def
      split: res.splits if_splits)

lemma createWebhookService_frame:
  assumes "trustLaws W" "createWebhookService W owner name ns s = (Ok u, s')"
  shows "secret_get W s' = secret_get W s \<and> vwc_get W s' = vwc_get W s"
  using assms(2) trustLawsD(2) [OF assms(1)]
  by (auto simp: createWebhookService_def bindS_Ok_iff attemptS_Ok_iff readS_def failS_def returnS_def panicS_def
      split: res.splits if_splits)

lemma createAdmissionValidatingConfig_stored:
  assumes "trustLaws W" "createAdmissionValidatingConfig W owner validator ns svc ca s = (Ok u, s')"
  shows "secret_get W s' = secret_get W s \<and>
    (case vwc_get W s validator of
       Ok c \<Rightarrow> vwc_get W s' validator = Ok c
     | Err e \<Rightarrow> \<exists>c. vwc_get W s' validator = Ok c \<and> vwc_Webhooks c = [webhookHandler W ns svc ca]
     | Panic m \<Rightarrow> False)"
proof (cases "vwc_get W s validator")
  case (Err e)
  let ?c = "ObjectMeta.extend (emptyMeta\<lparr>Name := validator, Labels := webhookLabels W, OwnerReferences := [owner]\<rparr>)
    \<lparr>vwc_Webhooks = [webhookHandler W ns svc ca]\<rparr>"
  from assms(2) Err obtain c' where "vwc_create W s ?c = (Ok c', s')"
    by (auto simp: createAdmissionValidatingConfig_def GetValidatorWebhook_def bindS_Ok_iff attemptS_Ok_iff readS_def
        failS_def returnS_def split: if_splits)
  from trustLawsD(3) [OF assms(1) this] Err show ?thesis by (auto simp: ObjectMeta.defs)
qed (use assms(2) in \<open>auto simp: createAdmissionValidatingConfig_def GetValidatorWebhook_def bindS_Ok_iff attemptS_Ok_iff readS_def
        returnS_def panicS_def\<close>)

text \<open>
  C20. After a successful start the secret and the registration are there. When the upgrade left no registration,
  the new one names the service and the namespace of the server, registers the rules, and trusts the root
  certificate that is in the secret; a registration that was left is kept as it is, even when
  the secret had to be made anew and its root certificate is another one.
\<close>

theorem start_registers_webhook:
  assumes "trustLaws W" and "getOpenebsNamespace (wapi W) = Ok ns"
    and "preUpgrade W ns s0 = (Ok (), t)" and "InitValidationServer W owner s0 = (Ok (), s1)"
  shows "\<exists>sec c. secret_get W s1 ns validatorSecret = Ok sec \<and> mhas (sec_Data sec) rootCrt \<and>
    vwc_get W s1 validatorWebhook = Ok c \<and>
    (case vwc_get W t validatorWebhook of
       Ok old \<Rightarrow> c = old
     | _ \<Rightarrow> vwc_Webhooks c = [webhookHandler W ns validatorServiceName (mget (sec_Data sec) rootCrt)])"
proof -
  from assms(2-4) obtain sec u v where sec: "ensureSecret W owner ns t = (Ok sec, u)" and root: "mhas (sec_Data sec) rootCrt"
    and svc: "createWebhookService W owner validatorServiceName ns u = (Ok (), v)"
    and cfg: "createAdmissionValidatingConfig W owner validatorWebhook ns validatorServiceName (mget (sec_Data sec) rootCrt) v = (Ok (), s1)"
    by (auto simp: InitValidationServer_def bindS_Ok_iff readS_Ok_iff quoteS_Ok_iff failS_def split: if_splits)
  from ensureSecret_stored [OF assms(1) sec] createWebhookService_frame [OF assms(1) svc]
    createAdmissionValidatingConfig_stored [OF assms(1) cfg]
  show ?thesis using root by (auto split: res.splits)
qed

lemma lookup_insertObj: "insertObj f x xs = Ok ys \<Longrightarrow> lookupObj f (f x) ys = Ok x"
proof -
  have "f x \<notin> f ` set xs \<Longrightarrow> find (\<lambda>y. f y = f x) (xs @ [x]) = Some x" by (induction xs) auto
  then show "insertObj f x xs = Ok ys \<Longrightarrow> lookupObj f (f x) ys = Ok x"
    by (auto simp: insertObj_def lookupObj_def split: if_splits)
qed

lemma putObjs_Ok_iff: "(putObjs upd x r s = (Ok x', s')) \<longleftrightarrow> (\<exists>xs. r = Ok xs \<and> x' = x \<and> s' = (fst s, upd xs (snd s)))"
  by (auto simp: putObjs_def split: res.splits)

lemma sample_trustLaws: "trustLaws sampleWenv"
  unfolding trustLaws_def
  by (auto simp: sampleWenv_def putObjs_Ok_iff lookup_insertObj fun_eq_iff putSecrets_def putConfigs_def putServices_def
      nextKey_def putObjs_def split: res.splits)

theorem start_registers_webhook_witness:
  "let s1 = snd (InitValidationServer sampleWenv sampleOwner bareCluster) in
   \<exists>sec c. secret_get sampleWenv s1 ''openebs'' validatorSecret = Ok sec \<and> mhas (sec_Data sec) rootCrt \<and>
     vwc_get sampleWenv s1 validatorWebhook = Ok c \<and>
     vwc_Webhooks c = [webhookHandler sampleWenv ''openebs'' validatorServiceName (mget (sec_Data sec) rootCrt)]"
proof -
  have ns: "getOpenebsNamespace (wapi sampleWenv) = Ok ''openebs''" by code_simp
  have up: "preUpgrade sampleWenv ''openebs'' bareCluster = (Ok (), bareCluster)" by code_simp
  have none: "vwc_get sampleWenv bareCluster validatorWebhook = Err (NotFound validatorWebhook)" by code_simp
  have "InitValidationServer sampleWenv sampleOwner bareCluster =
      (Ok (), snd (InitValidationServer sampleWenv sampleOwner bareCluster))"
    by (subst prod.collapse [symmetric], subst prod.inject) code_simp
  from start_registers_webhook [OF sample_trustLaws ns up this] none show ?thesis by (simp add: Let_def)
qed

text \<open>
  The server certificate covers the name under which the API server calls the webhook, the service of
  the registration in its namespace, and it is for servers only.
\<close>

theorem server_certificate_covers_service:
  assumes "\<And>tmpl parent k ck c. CreateCertificate W tmpl parent k ck = Ok c \<Longrightarrow>
      crt_DNSNames c = crt_DNSNames tmpl \<and> crt_ExtKeyUsage c = crt_ExtKeyUsage tmpl"
    and "NewServerKeyPair W ca commonName svcName svcNamespace dnsDomain ips hostnames s = (Ok kp, s')"
  shows "Join [svcName, svcNamespace, ''svc''] ''.'' \<in> set (crt_DNSNames (kp_Cert kp)) \<and>
    crt_ExtKeyUsage (kp_Cert kp) = [''ServerAuth'']"
  using assms(2)
  by (auto simp: NewServerKeyPair_def NewSignedCert_def serverDNSNames_def bindS_Ok_iff quoteS_Ok_iff readS_Ok_iff failS_def Let_def
      dest!: assms(1) split: if_splits)

abbreviation sampleCA :: KeyPair where
  "sampleCA \<equiv> \<lparr>kp_Key = ''k'', kp_Cert = sampleCert
     \<lparr>cc_CommonName = ''ca'', cc_Organization = [], cc_DNSNames = [], cc_IPs = [], cc_Usages = []\<rparr> ''k''\<rparr>"

theorem server_certificate_covers_service_witness:
  "\<exists>kp t. NewServerKeyPair sampleWenv sampleCA ''adm.openebs.svc'' ''adm'' ''openebs'' ''cluster.local'' [] [] bareCluster = (Ok kp, t) \<and>
     ''adm.openebs.svc'' \<in> set (crt_DNSNames (kp_Cert kp))"
proof -
  let ?r = "NewServerKeyPair sampleWenv sampleCA ''adm.openebs.svc'' ''adm'' ''openebs'' ''cluster.local'' [] [] bareCluster"
  have "isOk (bindR (fst ?r) (\<lambda>_. Ok ()))" by code_simp
  then obtain kp where "fst ?r = Ok kp" by (cases "fst ?r") auto
  then have run: "?r = (Ok kp, snd ?r)" by (metis prod.collapse)
  have law: "crt_DNSNames c = crt_DNSNames tmpl \<and> crt_ExtKeyUsage c = crt_ExtKeyUsage tmpl"
    if "CreateCertificate sampleWenv tmpl parent k ck = Ok c" for tmpl parent k ck c
    using that by (auto simp: sampleWenv_def)
  have "''adm.openebs.svc'' \<in> set (crt_DNSNames (kp_Cert kp))"
    using server_certificate_covers_service [OF law run] by simp
  with run show ?thesis by blast
qed

section \<open>Upgrades\<close>

lemma versionLoop_stronger:
  "list_all2 (\<lambda>a b. Atoi a \<le> Atoi b) ms ns \<Longrightarrow> versionLoop False os ns = Ok False \<Longrightarrow> versionLoop False os ms \<noteq> Ok True"
  by (induction ms ns arbitrary: os rule: list_all2_induct; case_tac os) (auto simp: Let_def split: if_splits)

text \<open>
  The upgrade step that adds the rule for namespaces is never taken: a registration older than 2.5.0
  is older than 2.8.0, and those are deleted instead of upgraded.
\<close>

theorem upgrade_keeps_rules:
  assumes "IsCurrentLessThanNewVersion (mget (Labels config) OpenEBSVersionLabelKey) ''2.8.0'' = Ok False"
    and "upgradeObj W transformConfig config = Ok newConfig"
  shows "vwc_Webhooks newConfig = vwc_Webhooks config"
proof -
  let ?v = "mget (Labels config) OpenEBSVersionLabelKey"
  have parts: "versionParts ''2.5.0'' = [''2'', ''5'', ''0'']" "versionParts ''2.8.0'' = [''2'', ''8'', ''0'']" by code_simp+
  have "Atoi ''2'' = 2" "Atoi ''5'' = 5" "Atoi ''8'' = 8" "Atoi ''0'' = 0" by code_simp+
  then have le: "list_all2 (\<lambda>a b. Atoi a \<le> Atoi b) [''2'', ''5'', ''0''] [''2'', ''8'', ''0'']" by simp
  have "IsCurrentLessThanNewVersion ?v ''2.5.0'' \<noteq> Ok True"
    unfolding IsCurrentLessThanNewVersion_def parts
    by (rule versionLoop_stronger [OF le]) (use assms(1) in \<open>simp add: IsCurrentLessThanNewVersion_def parts\<close>)
  then show ?thesis using assms(2)
    by (auto simp: upgradeObj_def transformConfig_def addNSWithDeleteRule_def bindR_Ok_iff split: if_splits)
qed

theorem upgrade_keeps_rules_witness:
  "\<exists>c. upgradeObj sampleWenv transformConfig (oldRegistration ''2.9.0'') = Ok c \<and>
     vwc_Webhooks c = vwc_Webhooks (oldRegistration ''2.9.0'')"
proof -
  have "isOk (bindR (upgradeObj sampleWenv transformConfig (oldRegistration ''2.9.0'')) (\<lambda>_. Ok ()))" by code_simp
  then obtain c where c: "upgradeObj sampleWenv transformConfig (oldRegistration ''2.9.0'') = Ok c" by (auto simp: bindR_Ok_iff)
  have "IsCurrentLessThanNewVersion (mget (Labels (oldRegistration ''2.9.0'')) OpenEBSVersionLabelKey) ''2.8.0'' = Ok False"
    by code_simp
  from upgrade_keeps_rules [OF this c] c show ?thesis by simp
qed

section \<open>Requests\<close>

text \<open>
  The registration declares that the webhook has no side effects, so the API server also calls it for dry
  runs. Yet a request to delete the namespace of the operators deletes the registration.
\<close>

theorem namespace_delete_has_side_effect:
  assumes "getOpenebsNamespace E = Ok (req_Name req)" and "req_Kind req = ''Namespace''" and "req_Operation req = Delete"
    and "req_Name req \<noteq> ''''"
  shows "vw_SideEffects (webhookHandler W ns svc ca) = ''None''"
    "snd (validate E req s) = snd (webhook_config_delete E s validatorWebhook)"
  using assms
  by (auto simp: webhookHandler_def validate_def validateNamespace_def validateNamespaceDeleteRequest_def bindS_def attemptS_def
      returnS_def split: prod.splits res.splits)

text \<open>
  C23. The handler admits only what was validated: a response that allows is the answer of the validation to
  the decoded request, under the UID of that request.
\<close>

theorem serve_admits_only_validated:
  assumes "Serve E decode body contentType path s = (Ok (Review (Some response) uid), s')" and "Allowed response"
  shows "\<exists>req. body \<noteq> '''' \<and> contentType = ''application/json'' \<and> path = ''/validate'' \<and>
    decode body = Ok (Some (uid, req)) \<and> validate E req s = (Ok response, s')"
  using assms
  by (auto simp: Serve_def bindS_Ok_iff returnS_def panicS_def split: if_splits res.splits option.splits)

theorem serve_admits_only_validated_witness:
  "let req = \<lparr>req_Kind = ''Pod'', req_Operation = Create, req_Name = '''', req_Namespace = '''',
      req_CSPC = Err (ApiError ''''), req_CVC = Err (ApiError '''')\<rparr> in
   validate sampleEnv req sampleStore = (Ok allowed, sampleStore)"
proof -
  let ?req = "\<lparr>req_Kind = ''Pod'', req_Operation = Create, req_Name = '''', req_Namespace = '''',
      req_CSPC = Err (ApiError ''''), req_CVC = Err (ApiError '''')\<rparr>"
  have "Serve sampleEnv (\<lambda>b. Ok (Some (''u1'', ?req))) ''{}'' ''application/json'' ''/validate'' sampleStore =
      (Ok (Review (Some allowed) ''u1''), sampleStore)"
    by (simp add: Serve_def bindS_def validate_def returnS_def)
  from serve_admits_only_validated [OF this] show ?thesis by (simp add: Let_def)
qed

text \<open>A review without a request makes the handler panic.\<close>

theorem review_without_request_panics:
  "Serve E (\<lambda>b. Ok None) ''{}'' ''application/json'' ''/validate'' s = (Panic ''nil pointer dereference'', s)"
  by (simp add: Serve_def panicS_def)

end
