(* ===== verification/BinaryVersion.thy ===== *)
theory BinaryVersion
  imports Versions
begin

text \<open>
  The version of the running binary and names that carry a version as their suffix
  (\<open>src/pkg/version/version.go\<close>). The variables the linker fills in, the version file and the
  answer of git are the fields of \<open>build\<close>. The other theories take the version of the binary as a parameter.
\<close>

record build =
  bld_Version :: string
  bld_GitCommit :: string
  versionFileText :: "string res"
  gitRevParse :: "string res"

definition GetVersion :: "build \<Rightarrow> string" where
  "GetVersion B =
     (if bld_Version B \<noteq> '''' then bld_Version B
      else (case versionFileText B of Ok vBytes \<Rightarrow> TrimSpace vBytes | _ \<Rightarrow> ''''))"

definition Current :: "build \<Rightarrow> string" where "Current B = GetVersion B"

definition GetGitCommit :: "build \<Rightarrow> string" where
  "GetGitCommit B =
     (if bld_GitCommit B \<noteq> '''' then bld_GitCommit B
      else (case gitRevParse B of Ok output \<Rightarrow> TrimSpace output | _ \<Rightarrow> ''''))"

definition GetVersionDetails :: "build \<Rightarrow> string res" where
  "GetVersionDetails B =
     (if length (GetGitCommit B) < 7 then Panic ''slice bounds out of range''
      else Ok (Join [GetVersion B, take 7 (GetGitCommit B)] ''-''))"

definition versionDelimiter :: char where "versionDelimiter = CHR ''-''"
definition versionChars :: string where "versionChars = ''.0123456789''"

definition SplitAfter :: "char \<Rightarrow> string \<Rightarrow> string list" where
  "SplitAfter c s = (let parts = Split c s in map (\<lambda>p. p @ [c]) (butlast parts) @ [last parts])"

definition containsOnly :: "string \<Rightarrow> string \<Rightarrow> bool" where
  "containsOnly s cs = list_all (\<lambda>c. c \<in> set cs) s"

definition IsVersioned :: "string \<Rightarrow> bool" where
  "IsVersioned given =
     (let a = SplitAfter versionDelimiter given in
      if length a = 0 then False
      else let ver = last a in length (Split (CHR ''.'') ver) = 3 \<and> containsOnly ver versionChars)"

definition IsNotVersioned :: "string \<Rightarrow> bool" where "IsNotVersioned given = (\<not> IsVersioned given)"

definition WithSuffix :: "build \<Rightarrow> string \<Rightarrow> string" where
  "WithSuffix B given = given @ [versionDelimiter] @ Current B"

definition WithSuffixIf :: "build \<Rightarrow> string \<Rightarrow> (string \<Rightarrow> bool) \<Rightarrow> string" where
  "WithSuffixIf B given p = (if p given then WithSuffix B given else given)"

fun WithSuffixesIf :: "build \<Rightarrow> string list \<Rightarrow> (string \<Rightarrow> bool) \<Rightarrow> string list" where
  "WithSuffixesIf B [] p = []"
| "WithSuffixesIf B (s # given) p = (if p s then WithSuffix B s else s) # WithSuffixesIf B given p"

section \<open>Lemmas\<close>

lemma last_Split_append: "c \<notin> set t \<Longrightarrow> last (Split c (s @ c # t)) = t"
  by (simp add: Split_append)

definition isVersion :: "string \<Rightarrow> bool" where
  "isVersion v = (length (Split (CHR ''.'') v) = 3 \<and> containsOnly v versionChars)"

lemma isVersion_no_dash:
  assumes "isVersion v"
  shows "versionDelimiter \<notin> set v"
proof -
  have "versionDelimiter \<notin> set versionChars" by code_simp
  then show ?thesis using assms unfolding isVersion_def containsOnly_def list_all_iff by blast
qed

text \<open>
  A name is recognised as versioned after the version was appended, so appending to the names that are
  not versioned is idempotent, as long as the binary has a release version; a suffix such as the one of a
  candidate release is not recognised.
\<close>

theorem suffix_recognised:
  assumes "isVersion (Current B)"
  shows "IsVersioned (WithSuffix B given)"
    and "WithSuffixIf B (WithSuffixIf B given IsNotVersioned) IsNotVersioned = WithSuffixIf B given IsNotVersioned"
    and "WithSuffixesIf B (WithSuffixesIf B names IsNotVersioned) IsNotVersioned = WithSuffixesIf B names IsNotVersioned"
proof -
  have v: "IsVersioned (WithSuffix B g)" for g
    using assms last_Split_append [OF isVersion_no_dash [OF assms], of g]
    by (simp add: IsVersioned_def WithSuffix_def SplitAfter_def isVersion_def Let_def)
  show "IsVersioned (WithSuffix B given)" by (rule v)
  show "WithSuffixIf B (WithSuffixIf B given IsNotVersioned) IsNotVersioned = WithSuffixIf B given IsNotVersioned"
    by (simp add: WithSuffixIf_def IsNotVersioned_def v)
  show "WithSuffixesIf B (WithSuffixesIf B names IsNotVersioned) IsNotVersioned = WithSuffixesIf B names IsNotVersioned"
    by (induction names) (simp_all add: IsNotVersioned_def v)
qed

theorem suffix_recognised_witness:
  "IsVersioned (WithSuffix \<lparr>bld_Version = ''3.6.0'', bld_GitCommit = '''', versionFileText = Ok '''', gitRevParse = Ok ''''\<rparr> ''cspc'')"
  by (rule suffix_recognised) code_simp

text \<open>Without a commit, neither from the linker nor from git, the version details panic.\<close>

theorem version_details_without_commit:
  "GetVersionDetails \<lparr>bld_Version = v, bld_GitCommit = '''', versionFileText = f, gitRevParse = Err e\<rparr> =
     Panic ''slice bounds out of range''"
  by (simp add: GetVersionDetails_def GetGitCommit_def)

end
