(* ===== verification/FaultInjection.thy ===== *)
theory FaultInjection
  imports ReplicaController
begin

text \<open>
  Fault injection, \<open>pkg/debug\<close>: the configuration with its fluent setters (\<open>types.go\<close>), the queries of a
  debug build and of a release build (\<open>debug.go\<close>, \<open>release.go\<close>), the HTTP server that reads and replaces the
  configuration and its client (\<open>inject_client.go\<close>), and how the queries reach the replica library and the
  replica controller. The abstraction of a configuration is the set of faults it asks for: every setter
  adds or removes one element of it, every query of a debug build is membership.
\<close>

section \<open>The configuration\<close>

definition Inject :: string where
  "Inject = ''true''"

definition Eject :: string where
  "Eject = ''false''"

record CRUDErrors =
  InjectDeleteCollectionError :: string
  InjectDeleteError :: string
  InjectListError :: string
  InjectGetError :: string
  InjectCreateError :: string
  InjectUpdateError :: string
  InjectPatchError :: string

record ErrorPercentageThreshold =
  Threshold :: int

text \<open>The five structures of the source (CSPI, CSPC, deployment, ZFS, CVR) have the same two fields.\<close>

record ResourceErrorInjection =
  CRUDErrorInjection :: CRUDErrors
  ErrorPercentage :: ErrorPercentageThreshold

record ErrorInjection =
  CSPIError :: ResourceErrorInjection
  CSPCError :: ResourceErrorInjection
  DeploymentError :: ResourceErrorInjection
  ZFSError :: ResourceErrorInjection
  CVRError :: ResourceErrorInjection

definition noErrors :: ResourceErrorInjection where
  "noErrors =
     \<lparr>CRUDErrorInjection =
        \<lparr>InjectDeleteCollectionError = '''', InjectDeleteError = '''', InjectListError = '''', InjectGetError = '''',
         InjectCreateError = '''', InjectUpdateError = '''', InjectPatchError = ''''\<rparr>,
      ErrorPercentage = \<lparr>Threshold = 0\<rparr>\<rparr>"

definition NewErrorInjection :: ErrorInjection where
  "NewErrorInjection =
     \<lparr>CSPIError = noErrors, CSPCError = noErrors, DeploymentError = noErrors, ZFSError = noErrors, CVRError = noErrors\<rparr>"

text \<open>The random generator, seeded with the current time, is the parameter \<open>Intn\<close>.\<close>

definition GetRandomErrorPercentage :: "(int \<Rightarrow> int) \<Rightarrow> int" where
  "GetRandomErrorPercentage Intn = Intn 101"

definition WithCSPCDeleteCollectionError :: "string \<Rightarrow> ErrorInjection \<Rightarrow> ErrorInjection" where
  "WithCSPCDeleteCollectionError ejectOrInject ei =
     ei\<lparr>CSPCError := (CSPCError ei)\<lparr>CRUDErrorInjection :=
       (CRUDErrorInjection (CSPCError ei))\<lparr>InjectDeleteCollectionError := ejectOrInject\<rparr>\<rparr>\<rparr>"

definition WithCSPCDeleteError :: "string \<Rightarrow> ErrorInjection \<Rightarrow> ErrorInjection" where
  "WithCSPCDeleteError ejectOrInject ei =
     ei\<lparr>CSPCError := (CSPCError ei)\<lparr>CRUDErrorInjection :=
       (CRUDErrorInjection (CSPCError ei))\<lparr>InjectDeleteError := ejectOrInject\<rparr>\<rparr>\<rparr>"

definition WithCSPCListError :: "string \<Rightarrow> ErrorInjection \<Rightarrow> ErrorInjection" where
  "WithCSPCListError ejectOrInject ei =
     ei\<lparr>CSPCError := (CSPCError ei)\<lparr>CRUDErrorInjection :=
       (CRUDErrorInjection (CSPCError ei))\<lparr>InjectListError := ejectOrInject\<rparr>\<rparr>\<rparr>"

definition WithCSPCGetError :: "string \<Rightarrow> ErrorInjection \<Rightarrow> ErrorInjection" where
  "WithCSPCGetError ejectOrInject ei =
     ei\<lparr>CSPCError := (CSPCError ei)\<lparr>CRUDErrorInjection :=
       (CRUDErrorInjection (CSPCError ei))\<lparr>InjectGetError := ejectOrInject\<rparr>\<rparr>\<rparr>"

definition WithCSPCCreateError :: "string \<Rightarrow> ErrorInjection \<Rightarrow> ErrorInjection" where
  "WithCSPCCreateError ejectOrInject ei =
     ei\<lparr>CSPCError := (CSPCError ei)\<lparr>CRUDErrorInjection :=
       (CRUDErrorInjection (CSPCError ei))\<lparr>InjectCreateError := ejectOrInject\<rparr>\<rparr>\<rparr>"

definition WithCSPCUpdateError :: "string \<Rightarrow> ErrorInjection \<Rightarrow> ErrorInjection" where
  "WithCSPCUpdateError ejectOrInject ei =
     ei\<lparr>CSPCError := (CSPCError ei)\<lparr>CRUDErrorInjection :=
       (CRUDErrorInjection (CSPCError ei))\<lparr>InjectUpdateError := ejectOrInject\<rparr>\<rparr>\<rparr>"

definition WithCSPCPatchError :: "string \<Rightarrow> ErrorInjection \<Rightarrow> ErrorInjection" where
  "WithCSPCPatchError ejectOrInject ei =
     ei\<lparr>CSPCError := (CSPCError ei)\<lparr>CRUDErrorInjection :=
       (CRUDErrorInjection (CSPCError ei))\<lparr>InjectPatchError := ejectOrInject\<rparr>\<rparr>\<rparr>"

definition WithCSPIDeleteCollectionError :: "string \<Rightarrow> ErrorInjection \<Rightarrow> ErrorInjection" where
  "WithCSPIDeleteCollectionError ejectOrInject ei =
     ei\<lparr>CSPIError := (CSPIError ei)\<lparr>CRUDErrorInjection :=
       (CRUDErrorInjection (CSPIError ei))\<lparr>InjectDeleteCollectionError := ejectOrInject\<rparr>\<rparr>\<rparr>"

definition WithCSPIDeleteError :: "string \<Rightarrow> ErrorInjection \<Rightarrow> ErrorInjection" where
  "WithCSPIDeleteError ejectOrInject ei =
     ei\<lparr>CSPIError := (CSPIError ei)\<lparr>CRUDErrorInjection :=
       (CRUDErrorInjection (CSPIError ei))\<lparr>InjectDeleteError := ejectOrInject\<rparr>\<rparr>\<rparr>"

definition WithCSPIListError :: "string \<Rightarrow> ErrorInjection \<Rightarrow> ErrorInjection" where
  "WithCSPIListError ejectOrInject ei =
     ei\<lparr>CSPIError := (CSPIError ei)\<lparr>CRUDErrorInjection :=
       (CRUDErrorInjection (CSPIError ei))\<lparr>InjectListError := ejectOrInject\<rparr>\<rparr>\<rparr>"

definition WithCSPIGetError :: "string \<Rightarrow> ErrorInjection \<Rightarrow> ErrorInjection" where
  "WithCSPIGetError ejectOrInject ei =
     ei\<lparr>CSPIError := (CSPIError ei)\<lparr>CRUDErrorInjection :=
       (CRUDErrorInjection (CSPIError ei))\<lparr>InjectGetError := ejectOrInject\<rparr>\<rparr>\<rparr>"

definition WithCSPICreateError :: "string \<Rightarrow> ErrorInjection \<Rightarrow> ErrorInjection" where
  "WithCSPICreateError ejectOrInject ei =
     ei\<lparr>CSPIError := (CSPIError ei)\<lparr>CRUDErrorInjection :=
       (CRUDErrorInjection (CSPIError ei))\<lparr>InjectCreateError := ejectOrInject\<rparr>\<rparr>\<rparr>"

definition WithCSPIUpdateError :: "string \<Rightarrow> ErrorInjection \<Rightarrow> ErrorInjection" where
  "WithCSPIUpdateError ejectOrInject ei =
     ei\<lparr>CSPIError := (CSPIError ei)\<lparr>CRUDErrorInjection :=
       (CRUDErrorInjection (CSPIError ei))\<lparr>InjectUpdateError := ejectOrInject\<rparr>\<rparr>\<rparr>"

definition WithCSPIPatchError :: "string \<Rightarrow> ErrorInjection \<Rightarrow> ErrorInjection" where
  "WithCSPIPatchError ejectOrInject ei =
     ei\<lparr>CSPIError := (CSPIError ei)\<lparr>CRUDErrorInjection :=
       (CRUDErrorInjection (CSPIError ei))\<lparr>InjectPatchError := ejectOrInject\<rparr>\<rparr>\<rparr>"

definition WithDeploymentDeleteCollectionError :: "string \<Rightarrow> ErrorInjection \<Rightarrow> ErrorInjection" where
  "WithDeploymentDeleteCollectionError ejectOrInject ei =
     ei\<lparr>DeploymentError := (DeploymentError ei)\<lparr>CRUDErrorInjection :=
       (CRUDErrorInjection (DeploymentError ei))\<lparr>InjectDeleteCollectionError := ejectOrInject\<rparr>\<rparr>\<rparr>"

definition WithDeploymentDeleteError :: "string \<Rightarrow> ErrorInjection \<Rightarrow> ErrorInjection" where
  "WithDeploymentDeleteError ejectOrInject ei =
     ei\<lparr>DeploymentError := (DeploymentError ei)\<lparr>CRUDErrorInjection :=
       (CRUDErrorInjection (DeploymentError ei))\<lparr>InjectDeleteError := ejectOrInject\<rparr>\<rparr>\<rparr>"

definition WithDeploymentListError :: "string \<Rightarrow> ErrorInjection \<Rightarrow> ErrorInjection" where
  "WithDeploymentListError ejectOrInject ei =
     ei\<lparr>DeploymentError := (DeploymentError ei)\<lparr>CRUDErrorInjection :=
       (CRUDErrorInjection (DeploymentError ei))\<lparr>InjectListError := ejectOrInject\<rparr>\<rparr>\<rparr>"

definition WithDeploymentGetError :: "string \<Rightarrow> ErrorInjection \<Rightarrow> ErrorInjection" where
  "WithDeploymentGetError ejectOrInject ei =
     ei\<lparr>DeploymentError := (DeploymentError ei)\<lparr>CRUDErrorInjection :=
       (CRUDErrorInjection (DeploymentError ei))\<lparr>InjectGetError := ejectOrInject\<rparr>\<rparr>\<rparr>"

definition WithDeploymentCreateError :: "string \<Rightarrow> ErrorInjection \<Rightarrow> ErrorInjection" where
  "WithDeploymentCreateError ejectOrInject ei =
     ei\<lparr>DeploymentError := (DeploymentError ei)\<lparr>CRUDErrorInjection :=
       (CRUDErrorInjection (DeploymentError ei))\<lparr>InjectCreateError := ejectOrInject\<rparr>\<rparr>\<rparr>"

definition WithDeploymentUpdateError :: "string \<Rightarrow> ErrorInjection \<Rightarrow> ErrorInjection" where
  "WithDeploymentUpdateError ejectOrInject ei =
     ei\<lparr>DeploymentError := (DeploymentError ei)\<lparr>CRUDErrorInjection :=
       (CRUDErrorInjection (DeploymentError ei))\<lparr>InjectUpdateError := ejectOrInject\<rparr>\<rparr>\<rparr>"

definition WithDeploymentPatchError :: "string \<Rightarrow> ErrorInjection \<Rightarrow> ErrorInjection" where
  "WithDeploymentPatchError ejectOrInject ei =
     ei\<lparr>DeploymentError := (DeploymentError ei)\<lparr>CRUDErrorInjection :=
       (CRUDErrorInjection (DeploymentError ei))\<lparr>InjectPatchError := ejectOrInject\<rparr>\<rparr>\<rparr>"

definition WithZFSGetError :: "string \<Rightarrow> ErrorInjection \<Rightarrow> ErrorInjection" where
  "WithZFSGetError ejectOrInject ei =
     ei\<lparr>ZFSError := (ZFSError ei)\<lparr>CRUDErrorInjection :=
       (CRUDErrorInjection (ZFSError ei))\<lparr>InjectGetError := ejectOrInject\<rparr>\<rparr>\<rparr>"

definition WithZFSCreateError :: "string \<Rightarrow> ErrorInjection \<Rightarrow> ErrorInjection" where
  "WithZFSCreateError ejectOrInject ei =
     ei\<lparr>ZFSError := (ZFSError ei)\<lparr>CRUDErrorInjection :=
       (CRUDErrorInjection (ZFSError ei))\<lparr>InjectCreateError := ejectOrInject\<rparr>\<rparr>\<rparr>"

definition WithZFSDeleteError :: "string \<Rightarrow> ErrorInjection \<Rightarrow> ErrorInjection" where
  "WithZFSDeleteError ejectOrInject ei =
     ei\<lparr>ZFSError := (ZFSError ei)\<lparr>CRUDErrorInjection :=
       (CRUDErrorInjection (ZFSError ei))\<lparr>InjectDeleteError := ejectOrInject\<rparr>\<rparr>\<rparr>"

definition WithCVRCreateError :: "string \<Rightarrow> ErrorInjection \<Rightarrow> ErrorInjection" where
  "WithCVRCreateError ejectOrInject ei =
     ei\<lparr>CVRError := (CVRError ei)\<lparr>CRUDErrorInjection :=
       (CRUDErrorInjection (CVRError ei))\<lparr>InjectCreateError := ejectOrInject\<rparr>\<rparr>\<rparr>"

definition WithCVRGetError :: "string \<Rightarrow> ErrorInjection \<Rightarrow> ErrorInjection" where
  "WithCVRGetError ejectOrInject ei =
     ei\<lparr>CVRError := (CVRError ei)\<lparr>CRUDErrorInjection :=
       (CRUDErrorInjection (CVRError ei))\<lparr>InjectGetError := ejectOrInject\<rparr>\<rparr>\<rparr>"

definition WithCVRDeleteError :: "string \<Rightarrow> ErrorInjection \<Rightarrow> ErrorInjection" where
  "WithCVRDeleteError ejectOrInject ei =
     ei\<lparr>CVRError := (CVRError ei)\<lparr>CRUDErrorInjection :=
       (CRUDErrorInjection (CVRError ei))\<lparr>InjectDeleteError := ejectOrInject\<rparr>\<rparr>\<rparr>"

definition WithCVRUpdateError :: "string \<Rightarrow> ErrorInjection \<Rightarrow> ErrorInjection" where
  "WithCVRUpdateError ejectOrInject ei =
     ei\<lparr>CVRError := (CVRError ei)\<lparr>CRUDErrorInjection :=
       (CRUDErrorInjection (CVRError ei))\<lparr>InjectUpdateError := ejectOrInject\<rparr>\<rparr>\<rparr>"

definition WithCSPIThreshold :: "(int \<Rightarrow> int) \<Rightarrow> int \<Rightarrow> ErrorInjection \<Rightarrow> ErrorInjection" where
  "WithCSPIThreshold Intn threshold ei =
     (let ei = ei\<lparr>CSPIError := (CSPIError ei)\<lparr>ErrorPercentage := \<lparr>Threshold = threshold\<rparr>\<rparr>\<rparr> in
      if GetRandomErrorPercentage Intn > threshold
      then WithCSPIUpdateError Inject (WithCSPIPatchError Inject (WithCSPIListError Inject
         (WithCSPIGetError Inject (WithCSPIDeleteError Inject (WithCSPICreateError Inject
         (WithCSPIDeleteCollectionError Inject ei))))))
      else ei)"

definition WithCSPCThreshold :: "(int \<Rightarrow> int) \<Rightarrow> int \<Rightarrow> ErrorInjection \<Rightarrow> ErrorInjection" where
  "WithCSPCThreshold Intn threshold ei =
     (let ei = ei\<lparr>CSPCError := (CSPCError ei)\<lparr>ErrorPercentage := \<lparr>Threshold = threshold\<rparr>\<rparr>\<rparr> in
      if GetRandomErrorPercentage Intn > threshold
      then WithCSPCUpdateError Inject (WithCSPCPatchError Inject (WithCSPCListError Inject
         (WithCSPCGetError Inject (WithCSPCDeleteError Inject (WithCSPCCreateError Inject
         (WithCSPCDeleteCollectionError Inject ei))))))
      else ei)"

definition WithDeploymentThreshold :: "(int \<Rightarrow> int) \<Rightarrow> int \<Rightarrow> ErrorInjection \<Rightarrow> ErrorInjection" where
  "WithDeploymentThreshold Intn threshold ei =
     (let ei = ei\<lparr>DeploymentError := (DeploymentError ei)\<lparr>ErrorPercentage := \<lparr>Threshold = threshold\<rparr>\<rparr>\<rparr> in
      if GetRandomErrorPercentage Intn > threshold
      then WithDeploymentUpdateError Inject (WithDeploymentPatchError Inject
         (WithDeploymentListError Inject (WithDeploymentGetError Inject
         (WithDeploymentDeleteError Inject (WithDeploymentCreateError Inject
         (WithDeploymentDeleteCollectionError Inject ei))))))
      else ei)"

definition WithZFSThreshold :: "(int \<Rightarrow> int) \<Rightarrow> int \<Rightarrow> ErrorInjection \<Rightarrow> ErrorInjection" where
  "WithZFSThreshold Intn threshold ei =
     (let ei = ei\<lparr>ZFSError := (ZFSError ei)\<lparr>ErrorPercentage := \<lparr>Threshold = threshold\<rparr>\<rparr>\<rparr> in
      if GetRandomErrorPercentage Intn > threshold
      then WithZFSGetError Inject (WithZFSDeleteError Inject (WithZFSCreateError Inject ei))
      else ei)"

definition WithCVRThreshold :: "(int \<Rightarrow> int) \<Rightarrow> int \<Rightarrow> ErrorInjection \<Rightarrow> ErrorInjection" where
  "WithCVRThreshold Intn threshold ei =
     (let ei = ei\<lparr>CVRError := (CVRError ei)\<lparr>ErrorPercentage := \<lparr>Threshold = threshold\<rparr>\<rparr>\<rparr> in
      if GetRandomErrorPercentage Intn > threshold
      then WithCVRUpdateError Inject (WithCVRGetError Inject (WithCVRDeleteError Inject
         (WithCVRCreateError Inject ei)))
      else ei)"

section \<open>The queries of a debug build\<close>

definition debug_IsCSPCDeleteCollectionErrorInjected :: "ErrorInjection \<Rightarrow> bool" where
  "debug_IsCSPCDeleteCollectionErrorInjected ei = (if InjectDeleteCollectionError (CRUDErrorInjection (CSPCError ei)) = Inject then True else False)"

definition debug_IsCSPCDeleteErrorInjected :: "ErrorInjection \<Rightarrow> bool" where
  "debug_IsCSPCDeleteErrorInjected ei = (if InjectDeleteError (CRUDErrorInjection (CSPCError ei)) = Inject then True else False)"

definition debug_IsCSPCListErrorInjected :: "ErrorInjection \<Rightarrow> bool" where
  "debug_IsCSPCListErrorInjected ei = (if InjectListError (CRUDErrorInjection (CSPCError ei)) = Inject then True else False)"

definition debug_IsCSPCGetErrorInjected :: "ErrorInjection \<Rightarrow> bool" where
  "debug_IsCSPCGetErrorInjected ei = (if InjectGetError (CRUDErrorInjection (CSPCError ei)) = Inject then True else False)"

definition debug_IsCSPCCreateErrorInjected :: "ErrorInjection \<Rightarrow> bool" where
  "debug_IsCSPCCreateErrorInjected ei = (if InjectCreateError (CRUDErrorInjection (CSPCError ei)) = Inject then True else False)"

definition debug_IsCSPCUpdateErrorInjected :: "ErrorInjection \<Rightarrow> bool" where
  "debug_IsCSPCUpdateErrorInjected ei = (if InjectUpdateError (CRUDErrorInjection (CSPCError ei)) = Inject then True else False)"

definition debug_IsCSPCPatchErrorInjected :: "ErrorInjection \<Rightarrow> bool" where
  "debug_IsCSPCPatchErrorInjected ei = (if InjectPatchError (CRUDErrorInjection (CSPCError ei)) = Inject then True else False)"

definition debug_IsCSPIDeleteCollectionErrorInjected :: "ErrorInjection \<Rightarrow> bool" where
  "debug_IsCSPIDeleteCollectionErrorInjected ei = (if InjectDeleteCollectionError (CRUDErrorInjection (CSPIError ei)) = Inject then True else False)"

definition debug_IsCSPIDeleteErrorInjected :: "ErrorInjection \<Rightarrow> bool" where
  "debug_IsCSPIDeleteErrorInjected ei = (if InjectDeleteError (CRUDErrorInjection (CSPIError ei)) = Inject then True else False)"

definition debug_IsCSPIListErrorInjected :: "ErrorInjection \<Rightarrow> bool" where
  "debug_IsCSPIListErrorInjected ei = (if InjectListError (CRUDErrorInjection (CSPIError ei)) = Inject then True else False)"

definition debug_IsCSPIGetErrorInjected :: "ErrorInjection \<Rightarrow> bool" where
  "debug_IsCSPIGetErrorInjected ei = (if InjectGetError (CRUDErrorInjection (CSPIError ei)) = Inject then True else False)"

definition debug_IsCSPICreateErrorInjected :: "ErrorInjection \<Rightarrow> bool" where
  "debug_IsCSPICreateErrorInjected ei = (if InjectCreateError (CRUDErrorInjection (CSPIError ei)) = Inject then True else False)"

definition debug_IsCSPIUpdateErrorInjected :: "ErrorInjection \<Rightarrow> bool" where
  "debug_IsCSPIUpdateErrorInjected ei = (if InjectUpdateError (CRUDErrorInjection (CSPIError ei)) = Inject then True else False)"

definition debug_IsCSPIPatchErrorInjected :: "ErrorInjection \<Rightarrow> bool" where
  "debug_IsCSPIPatchErrorInjected ei = (if InjectPatchError (CRUDErrorInjection (CSPIError ei)) = Inject then True else False)"

definition debug_IsDeploymentDeleteCollectionErrorInjected :: "ErrorInjection \<Rightarrow> bool" where
  "debug_IsDeploymentDeleteCollectionErrorInjected ei = (if InjectDeleteCollectionError (CRUDErrorInjection (DeploymentError ei)) = Inject then True else False)"

definition debug_IsDeploymentDeleteErrorInjected :: "ErrorInjection \<Rightarrow> bool" where
  "debug_IsDeploymentDeleteErrorInjected ei = (if InjectDeleteError (CRUDErrorInjection (DeploymentError ei)) = Inject then True else False)"

definition debug_IsDeploymentListErrorInjected :: "ErrorInjection \<Rightarrow> bool" where
  "debug_IsDeploymentListErrorInjected ei = (if InjectListError (CRUDErrorInjection (DeploymentError ei)) = Inject then True else False)"

definition debug_IsDeploymentGetErrorInjected :: "ErrorInjection \<Rightarrow> bool" where
  "debug_IsDeploymentGetErrorInjected ei = (if InjectGetError (CRUDErrorInjection (DeploymentError ei)) = Inject then True else False)"

definition debug_IsDeploymentCreateErrorInjected :: "ErrorInjection \<Rightarrow> bool" where
  "debug_IsDeploymentCreateErrorInjected ei = (if InjectCreateError (CRUDErrorInjection (DeploymentError ei)) = Inject then True else False)"

definition debug_IsDeploymentUpdateErrorInjected :: "ErrorInjection \<Rightarrow> bool" where
  "debug_IsDeploymentUpdateErrorInjected ei = (if InjectUpdateError (CRUDErrorInjection (DeploymentError ei)) = Inject then True else False)"

definition debug_IsDeploymentPatchErrorInjected :: "ErrorInjection \<Rightarrow> bool" where
  "debug_IsDeploymentPatchErrorInjected ei = (if InjectPatchError (CRUDErrorInjection (DeploymentError ei)) = Inject then True else False)"

definition debug_IsZFSGetErrorInjected :: "ErrorInjection \<Rightarrow> bool" where
  "debug_IsZFSGetErrorInjected ei = (if InjectGetError (CRUDErrorInjection (ZFSError ei)) = Inject then True else False)"

definition debug_IsZFSCreateErrorInjected :: "ErrorInjection \<Rightarrow> bool" where
  "debug_IsZFSCreateErrorInjected ei = (if InjectCreateError (CRUDErrorInjection (ZFSError ei)) = Inject then True else False)"

definition debug_IsZFSDeleteErrorInjected :: "ErrorInjection \<Rightarrow> bool" where
  "debug_IsZFSDeleteErrorInjected ei = (if InjectDeleteError (CRUDErrorInjection (ZFSError ei)) = Inject then True else False)"

definition debug_IsCVRCreateErrorInjected :: "ErrorInjection \<Rightarrow> bool" where
  "debug_IsCVRCreateErrorInjected ei = False"

definition debug_IsCVRGetErrorInjected :: "ErrorInjection \<Rightarrow> bool" where
  "debug_IsCVRGetErrorInjected ei = False"

definition debug_IsCVRDeleteErrorInjected :: "ErrorInjection \<Rightarrow> bool" where
  "debug_IsCVRDeleteErrorInjected ei = False"

definition debug_IsCVRUpdateErrorInjected :: "ErrorInjection \<Rightarrow> bool" where
  "debug_IsCVRUpdateErrorInjected ei = False"

section \<open>The queries of a release build\<close>

definition release_IsCSPCDeleteCollectionErrorInjected :: "ErrorInjection \<Rightarrow> bool" where
  "release_IsCSPCDeleteCollectionErrorInjected ei = False"

definition release_IsCSPCDeleteErrorInjected :: "ErrorInjection \<Rightarrow> bool" where
  "release_IsCSPCDeleteErrorInjected ei = False"

definition release_IsCSPCListErrorInjected :: "ErrorInjection \<Rightarrow> bool" where
  "release_IsCSPCListErrorInjected ei = False"

definition release_IsCSPCGetErrorInjected :: "ErrorInjection \<Rightarrow> bool" where
  "release_IsCSPCGetErrorInjected ei = False"

definition release_IsCSPCCreateErrorInjected :: "ErrorInjection \<Rightarrow> bool" where
  "release_IsCSPCCreateErrorInjected ei = False"

definition release_IsCSPCUpdateErrorInjected :: "ErrorInjection \<Rightarrow> bool" where
  "release_IsCSPCUpdateErrorInjected ei = False"

definition release_IsCSPCPatchErrorInjected :: "ErrorInjection \<Rightarrow> bool" where
  "release_IsCSPCPatchErrorInjected ei = False"

definition release_IsCSPIDeleteCollectionErrorInjected :: "ErrorInjection \<Rightarrow> bool" where
  "release_IsCSPIDeleteCollectionErrorInjected ei = False"

definition release_IsCSPIDeleteErrorInjected :: "ErrorInjection \<Rightarrow> bool" where
  "release_IsCSPIDeleteErrorInjected ei = False"

definition release_IsCSPIListErrorInjected :: "ErrorInjection \<Rightarrow> bool" where
  "release_IsCSPIListErrorInjected ei = False"

definition release_IsCSPIGetErrorInjected :: "ErrorInjection \<Rightarrow> bool" where
  "release_IsCSPIGetErrorInjected ei = False"

definition release_IsCSPICreateErrorInjected :: "ErrorInjection \<Rightarrow> bool" where
  "release_IsCSPICreateErrorInjected ei = False"

definition release_IsCSPIUpdateErrorInjected :: "ErrorInjection \<Rightarrow> bool" where
  "release_IsCSPIUpdateErrorInjected ei = False"

definition release_IsCSPIPatchErrorInjected :: "ErrorInjection \<Rightarrow> bool" where
  "release_IsCSPIPatchErrorInjected ei = False"

definition release_IsDeploymentDeleteCollectionErrorInjected :: "ErrorInjection \<Rightarrow> bool" where
  "release_IsDeploymentDeleteCollectionErrorInjected ei = False"

definition release_IsDeploymentDeleteErrorInjected :: "ErrorInjection \<Rightarrow> bool" where
  "release_IsDeploymentDeleteErrorInjected ei = False"

definition release_IsDeploymentListErrorInjected :: "ErrorInjection \<Rightarrow> bool" where
  "release_IsDeploymentListErrorInjected ei = False"

definition release_IsDeploymentGetErrorInjected :: "ErrorInjection \<Rightarrow> bool" where
  "release_IsDeploymentGetErrorInjected ei = False"

definition release_IsDeploymentCreateErrorInjected :: "ErrorInjection \<Rightarrow> bool" where
  "release_IsDeploymentCreateErrorInjected ei = False"

definition release_IsDeploymentUpdateErrorInjected :: "ErrorInjection \<Rightarrow> bool" where
  "release_IsDeploymentUpdateErrorInjected ei = False"

definition release_IsDeploymentPatchErrorInjected :: "ErrorInjection \<Rightarrow> bool" where
  "release_IsDeploymentPatchErrorInjected ei = False"

definition release_IsZFSGetErrorInjected :: "ErrorInjection \<Rightarrow> bool" where
  "release_IsZFSGetErrorInjected ei = False"

definition release_IsZFSCreateErrorInjected :: "ErrorInjection \<Rightarrow> bool" where
  "release_IsZFSCreateErrorInjected ei = False"

definition release_IsZFSDeleteErrorInjected :: "ErrorInjection \<Rightarrow> bool" where
  "release_IsZFSDeleteErrorInjected ei = False"

definition release_IsCVRCreateErrorInjected :: "ErrorInjection \<Rightarrow> bool" where
  "release_IsCVRCreateErrorInjected ei = False"

definition release_IsCVRGetErrorInjected :: "ErrorInjection \<Rightarrow> bool" where
  "release_IsCVRGetErrorInjected ei = False"

definition release_IsCVRDeleteErrorInjected :: "ErrorInjection \<Rightarrow> bool" where
  "release_IsCVRDeleteErrorInjected ei = False"

definition release_IsCVRUpdateErrorInjected :: "ErrorInjection \<Rightarrow> bool" where
  "release_IsCVRUpdateErrorInjected ei = False"

section \<open>The build\<close>

text \<open>Which file is compiled is decided by the build tag \<open>debug\<close>.\<close>

datatype buildKind = DebugBuild | ReleaseBuild

fun ofBuild :: "buildKind \<Rightarrow> (ErrorInjection \<Rightarrow> bool) \<Rightarrow> (ErrorInjection \<Rightarrow> bool) \<Rightarrow> ErrorInjection \<Rightarrow> bool" where
  "ofBuild DebugBuild dbg rel ei = dbg ei"
| "ofBuild ReleaseBuild dbg rel ei = rel ei"

text \<open>
  The four places of the program that ask: \<open>CreateVolumeReplica\<close>, \<open>DeleteVolume\<close> and \<open>GetVolumes\<close> of the
  replica library and the failure path of the replica controller's \<open>syncHandler\<close>.
\<close>

definition withFaults :: "buildKind \<Rightarrow> ErrorInjection \<Rightarrow> 's renv \<Rightarrow> 's renv" where
  "withFaults b EI R =
     R\<lparr>zfsCreateErrorInjected := ofBuild b debug_IsZFSCreateErrorInjected release_IsZFSCreateErrorInjected EI,
       zfsDeleteErrorInjected := ofBuild b debug_IsZFSDeleteErrorInjected release_IsZFSDeleteErrorInjected EI,
       cvrUpdateErrorInjected := ofBuild b debug_IsCVRUpdateErrorInjected release_IsCVRUpdateErrorInjected EI,
       pool := (pool R)\<lparr>zfsGetErrorInjected := ofBuild b debug_IsZFSGetErrorInjected release_IsZFSGetErrorInjected EI\<rparr>\<rparr>"

section \<open>The server\<close>

text \<open>
  The response writer of \<open>net/http\<close>: the first status written is sent, writing a body without one sends 200
  first, and a handler that writes nothing sends 200.
\<close>

record ResponseWriter =
  rw_status :: "int option"
  rw_body :: string

definition WriteHeader :: "int \<Rightarrow> ResponseWriter \<Rightarrow> ResponseWriter" where
  "WriteHeader code w = (if rw_status w = None then w\<lparr>rw_status := Some code\<rparr> else w)"

definition rw_Write :: "string \<Rightarrow> ResponseWriter \<Rightarrow> ResponseWriter" where
  "rw_Write bytes w = (let w = WriteHeader 200 w in w\<lparr>rw_body := rw_body w @ bytes\<rparr>)"

record InjectRequest =
  rq_Method :: string
  rq_Path :: string
  rq_Body :: "goerr + string"

record InjectResponse =
  rs_Status :: int
  rs_Body :: string

text \<open>
  JSON: encoding a configuration, and decoding a text onto the configuration that is there (fields the text
  does not have are kept), with the error; and the text of an error.
\<close>

record jsonEnv =
  MarshalEI :: "ErrorInjection \<Rightarrow> goerr + string"
  UnmarshalEI :: "string \<Rightarrow> ErrorInjection \<Rightarrow> ErrorInjection \<times> goerr option"
  ErrorText :: "goerr \<Rightarrow> string"

type_synonym injectHandler = "jsonEnv \<Rightarrow> InjectRequest \<Rightarrow> ErrorInjection \<Rightarrow> ResponseWriter \<Rightarrow> ErrorInjection \<times> ResponseWriter"

definition index_handler :: injectHandler where
  "index_handler J r EI w = (EI, rw_Write ''Error Injection API Server Is Running!'' (WriteHeader 200 w))"

definition inject_handler :: injectHandler where
  "inject_handler J r EI w =
     (if rq_Method r = ''GET'' then
        (case MarshalEI J EI of
           Inl err \<Rightarrow> (EI, rw_Write (''Failed to marshal error injection config: '' @ ErrorText J err) (WriteHeader 500 w))
         | Inr bytes \<Rightarrow> (EI, rw_Write bytes (WriteHeader 200 w)))
      else if rq_Method r = ''POST'' then
        (case rq_Body r of
           Inl err \<Rightarrow>
             (EI, rw_Write (''Incorrect data or format in body: '' @ ErrorText J err)
                    (WriteHeader 500 (rw_Write ''Incorrect data or format in body'' w)))
         | Inr reqBody \<Rightarrow> (fst (UnmarshalEI J reqBody EI), w))
      else (EI, rw_Write ''Method Not Allowed'' (WriteHeader 405 (rw_Write ''Method Not Allowed'' w))))"

definition RegisterRoutes :: "(string \<times> injectHandler) list" where
  "RegisterRoutes = [(''/'', index_handler), (''/inject'', inject_handler)]"

text \<open>
  The multiplexer of \<open>net/http\<close> on a clean path: a pattern that ends in a slash matches every path it is a
  prefix of, any other pattern only itself; the longest pattern wins.
\<close>

definition patternMatches :: "string \<Rightarrow> string \<Rightarrow> bool" where
  "patternMatches pat path = (path = pat \<or> (pat \<noteq> [] \<and> last pat = CHR ''/'' \<and> take (length pat) path = pat))"

fun muxHandler :: "(string \<times> 'h) list \<Rightarrow> string \<Rightarrow> (string \<times> 'h) option" where
  "muxHandler [] path = None"
| "muxHandler ((pat, h) # routes) path =
     (case muxHandler routes path of
        None \<Rightarrow> if patternMatches pat path then Some (pat, h) else None
      | Some (pat', h') \<Rightarrow>
          if patternMatches pat path \<and> length pat' < length pat then Some (pat, h) else Some (pat', h'))"

definition StartServer :: "jsonEnv \<Rightarrow> InjectRequest \<Rightarrow> ErrorInjection \<Rightarrow> ErrorInjection \<times> InjectResponse" where
  "StartServer J r EI =
     (case muxHandler RegisterRoutes (rq_Path r) of
        None \<Rightarrow> (EI, \<lparr>rs_Status = 404, rs_Body = ''404 page not found'' @ [CHR 0x0A]\<rparr>)
      | Some (_, h) \<Rightarrow>
          (let (EI, w) = h J r EI \<lparr>rw_status = None, rw_body = ''''\<rparr>
           in (EI, \<lparr>rs_Status = (case rw_status w of None \<Rightarrow> 200 | Some code \<Rightarrow> code), rs_Body = rw_body w\<rparr>)))"

section \<open>The client\<close>

text \<open>
  \<open>http.NewRequest\<close> parses the address; \<open>Do\<close> sends the request, \<open>'s\<close> being the state behind the connection.
  The body of a response is read after it arrived, which can fail.
\<close>

record 's httpEnv =
  NewRequest :: "string \<Rightarrow> string \<Rightarrow> string option \<Rightarrow> goerr + InjectRequest"
  Do :: "InjectRequest \<Rightarrow> 's \<Rightarrow> (goerr + (int \<times> (goerr + string))) \<times> 's"

record URL =
  Scheme :: string
  Host :: string
  Path :: string

record Client =
  BaseURL :: URL

definition NewClient :: "string \<Rightarrow> Client" where
  "NewClient host = \<lparr>BaseURL = \<lparr>Scheme = ''http'', Host = host, Path = ''''\<rparr>\<rparr>"

text \<open>\<open>ResolveReference\<close> of an absolute path without host, and \<open>String\<close>, for a host without characters to escape.\<close>

definition resolvePath :: "URL \<Rightarrow> string \<Rightarrow> URL" where
  "resolvePath base rel = base\<lparr>Path := rel\<rparr>"

definition URLString :: "URL \<Rightarrow> string" where
  "URLString u = Scheme u @ ''://'' @ Host u @ Path u"

definition GetInject :: "jsonEnv \<Rightarrow> 's httpEnv \<Rightarrow> Client \<Rightarrow> 's \<Rightarrow> (ErrorInjection option \<times> goerr option) \<times> 's" where
  "GetInject J H c s =
     (let u = resolvePath (BaseURL c) ''/inject'' in
      case NewRequest H ''GET'' (URLString u) None of
        Inl err \<Rightarrow> ((None, Some err), s)
      | Inr req \<Rightarrow>
          (case Do H req s of
             (Inl err, s) \<Rightarrow> ((None, Some err), s)
           | (Inr (_, Inl err), s) \<Rightarrow> ((None, Some err), s)
           | (Inr (_, Inr body), s) \<Rightarrow>
               (let (users, err) = UnmarshalEI J body NewErrorInjection in ((Some users, err), s))))"

definition PostInject :: "jsonEnv \<Rightarrow> 's httpEnv \<Rightarrow> Client \<Rightarrow> ErrorInjection \<Rightarrow> 's \<Rightarrow> goerr option \<times> 's" where
  "PostInject J H c EI s =
     (let u = resolvePath (BaseURL c) ''/inject'' in
      case MarshalEI J EI of
        Inl err \<Rightarrow> (Some err, s)
      | Inr b \<Rightarrow>
          (case NewRequest H ''POST'' (URLString u) (Some b) of
             Inl err \<Rightarrow> (Some err, s)
           | Inr req \<Rightarrow>
               (case Do H req s of
                  (Inl err, s) \<Rightarrow> (Some err, s)
                | (Inr _, s) \<Rightarrow> (None, s))))"

section \<open>What a configuration asks for\<close>

datatype faultResource = OnCSPC | OnCSPI | OnDeployment | OnZFS | OnCVR

datatype faultVerb = DeleteCollectionV | DeleteV | ListV | GetV | CreateV | UpdateV | PatchV

fun resourceErrors :: "faultResource \<Rightarrow> ErrorInjection \<Rightarrow> CRUDErrors" where
  "resourceErrors OnCSPC ei = CRUDErrorInjection (CSPCError ei)"
| "resourceErrors OnCSPI ei = CRUDErrorInjection (CSPIError ei)"
| "resourceErrors OnDeployment ei = CRUDErrorInjection (DeploymentError ei)"
| "resourceErrors OnZFS ei = CRUDErrorInjection (ZFSError ei)"
| "resourceErrors OnCVR ei = CRUDErrorInjection (CVRError ei)"

fun verbFlag :: "faultVerb \<Rightarrow> CRUDErrors \<Rightarrow> string" where
  "verbFlag DeleteCollectionV c = InjectDeleteCollectionError c"
| "verbFlag DeleteV c = InjectDeleteError c"
| "verbFlag ListV c = InjectListError c"
| "verbFlag GetV c = InjectGetError c"
| "verbFlag CreateV c = InjectCreateError c"
| "verbFlag UpdateV c = InjectUpdateError c"
| "verbFlag PatchV c = InjectPatchError c"

definition faultsOf :: "ErrorInjection \<Rightarrow> (faultResource \<times> faultVerb) set" where
  "faultsOf ei = {(r, v). verbFlag v (resourceErrors r ei) = Inject}"

definition setFault :: "faultResource \<times> faultVerb \<Rightarrow> string \<Rightarrow> (faultResource \<times> faultVerb) set \<Rightarrow> (faultResource \<times> faultVerb) set" where
  "setFault f value F = (if value = Inject then insert f F else F - {f})"

text \<open>A setter refines the update of one element; a query of a debug build is membership.\<close>

locale faultSetter =
  fixes setter :: "string \<Rightarrow> ErrorInjection \<Rightarrow> ErrorInjection"
    and fault :: "faultResource \<times> faultVerb"
  assumes faultsOf_set: "faultsOf (setter value ei) = setFault fault value (faultsOf ei)"
begin

lemma set_same: "faultsOf (setter value (setter value' ei)) = faultsOf (setter value ei)"
  by (auto simp: faultsOf_set setFault_def)

lemma inject_fault [simp]: "faultsOf (setter Inject ei) = insert fault (faultsOf ei)"
  by (simp add: faultsOf_set setFault_def)

end

locale faultFlag = faultSetter +
  fixes query :: "ErrorInjection \<Rightarrow> bool"
  assumes query_iff: "query ei \<longleftrightarrow> fault \<in> faultsOf ei"
begin

lemma query_set: "query (setter value ei) \<longleftrightarrow> value = Inject"
  by (simp add: query_iff faultsOf_set setFault_def)

end

lemma faultsOf_eqI:
  assumes "\<And>r v. (verbFlag v (resourceErrors r ei') = Inject) =
                  (if (r, v) = f then value = Inject else verbFlag v (resourceErrors r ei) = Inject)"
  shows "faultsOf ei' = setFault f value (faultsOf ei)"
  using assms by (auto simp: faultsOf_def setFault_def split: if_splits)

interpretation flagCSPCDeleteCollection: faultFlag WithCSPCDeleteCollectionError "(OnCSPC, DeleteCollectionV)" debug_IsCSPCDeleteCollectionErrorInjected
  by unfold_locales (rule faultsOf_eqI, (case_tac r; case_tac v; simp add: WithCSPCDeleteCollectionError_def), simp add: debug_IsCSPCDeleteCollectionErrorInjected_def faultsOf_def)

interpretation flagCSPCDelete: faultFlag WithCSPCDeleteError "(OnCSPC, DeleteV)" debug_IsCSPCDeleteErrorInjected
  by unfold_locales (rule faultsOf_eqI, (case_tac r; case_tac v; simp add: WithCSPCDeleteError_def), simp add: debug_IsCSPCDeleteErrorInjected_def faultsOf_def)

interpretation flagCSPCList: faultFlag WithCSPCListError "(OnCSPC, ListV)" debug_IsCSPCListErrorInjected
  by unfold_locales (rule faultsOf_eqI, (case_tac r; case_tac v; simp add: WithCSPCListError_def), simp add: debug_IsCSPCListErrorInjected_def faultsOf_def)

interpretation flagCSPCGet: faultFlag WithCSPCGetError "(OnCSPC, GetV)" debug_IsCSPCGetErrorInjected
  by unfold_locales (rule faultsOf_eqI, (case_tac r; case_tac v; simp add: WithCSPCGetError_def), simp add: debug_IsCSPCGetErrorInjected_def faultsOf_def)

interpretation flagCSPCCreate: faultFlag WithCSPCCreateError "(OnCSPC, CreateV)" debug_IsCSPCCreateErrorInjected
  by unfold_locales (rule faultsOf_eqI, (case_tac r; case_tac v; simp add: WithCSPCCreateError_def), simp add: debug_IsCSPCCreateErrorInjected_def faultsOf_def)

interpretation flagCSPCUpdate: faultFlag WithCSPCUpdateError "(OnCSPC, UpdateV)" debug_IsCSPCUpdateErrorInjected
  by unfold_locales (rule faultsOf_eqI, (case_tac r; case_tac v; simp add: WithCSPCUpdateError_def), simp add: debug_IsCSPCUpdateErrorInjected_def faultsOf_def)

interpretation flagCSPCPatch: faultFlag WithCSPCPatchError "(OnCSPC, PatchV)" debug_IsCSPCPatchErrorInjected
  by unfold_locales (rule faultsOf_eqI, (case_tac r; case_tac v; simp add: WithCSPCPatchError_def), simp add: debug_IsCSPCPatchErrorInjected_def faultsOf_def)

interpretation flagCSPIDeleteCollection: faultFlag WithCSPIDeleteCollectionError "(OnCSPI, DeleteCollectionV)" debug_IsCSPIDeleteCollectionErrorInjected
  by unfold_locales (rule faultsOf_eqI, (case_tac r; case_tac v; simp add: WithCSPIDeleteCollectionError_def), simp add: debug_IsCSPIDeleteCollectionErrorInjected_def faultsOf_def)

interpretation flagCSPIDelete: faultFlag WithCSPIDeleteError "(OnCSPI, DeleteV)" debug_IsCSPIDeleteErrorInjected
  by unfold_locales (rule faultsOf_eqI, (case_tac r; case_tac v; simp add: WithCSPIDeleteError_def), simp add: debug_IsCSPIDeleteErrorInjected_def faultsOf_def)

interpretation flagCSPIList: faultFlag WithCSPIListError "(OnCSPI, ListV)" debug_IsCSPIListErrorInjected
  by unfold_locales (rule faultsOf_eqI, (case_tac r; case_tac v; simp add: WithCSPIListError_def), simp add: debug_IsCSPIListErrorInjected_def faultsOf_def)

interpretation flagCSPIGet: faultFlag WithCSPIGetError "(OnCSPI, GetV)" debug_IsCSPIGetErrorInjected
  by unfold_locales (rule faultsOf_eqI, (case_tac r; case_tac v; simp add: WithCSPIGetError_def), simp add: debug_IsCSPIGetErrorInjected_def faultsOf_def)

interpretation flagCSPICreate: faultFlag WithCSPICreateError "(OnCSPI, CreateV)" debug_IsCSPICreateErrorInjected
  by unfold_locales (rule faultsOf_eqI, (case_tac r; case_tac v; simp add: WithCSPICreateError_def), simp add: debug_IsCSPICreateErrorInjected_def faultsOf_def)

interpretation flagCSPIUpdate: faultFlag WithCSPIUpdateError "(OnCSPI, UpdateV)" debug_IsCSPIUpdateErrorInjected
  by unfold_locales (rule faultsOf_eqI, (case_tac r; case_tac v; simp add: WithCSPIUpdateError_def), simp add: debug_IsCSPIUpdateErrorInjected_def faultsOf_def)

interpretation flagCSPIPatch: faultFlag WithCSPIPatchError "(OnCSPI, PatchV)" debug_IsCSPIPatchErrorInjected
  by unfold_locales (rule faultsOf_eqI, (case_tac r; case_tac v; simp add: WithCSPIPatchError_def), simp add: debug_IsCSPIPatchErrorInjected_def faultsOf_def)

interpretation flagDeploymentDeleteCollection: faultFlag WithDeploymentDeleteCollectionError "(OnDeployment, DeleteCollectionV)" debug_IsDeploymentDeleteCollectionErrorInjected
  by unfold_locales (rule faultsOf_eqI, (case_tac r; case_tac v; simp add: WithDeploymentDeleteCollectionError_def), simp add: debug_IsDeploymentDeleteCollectionErrorInjected_def faultsOf_def)

interpretation flagDeploymentDelete: faultFlag WithDeploymentDeleteError "(OnDeployment, DeleteV)" debug_IsDeploymentDeleteErrorInjected
  by unfold_locales (rule faultsOf_eqI, (case_tac r; case_tac v; simp add: WithDeploymentDeleteError_def), simp add: debug_IsDeploymentDeleteErrorInjected_def faultsOf_def)

interpretation flagDeploymentList: faultFlag WithDeploymentListError "(OnDeployment, ListV)" debug_IsDeploymentListErrorInjected
  by unfold_locales (rule faultsOf_eqI, (case_tac r; case_tac v; simp add: WithDeploymentListError_def), simp add: debug_IsDeploymentListErrorInjected_def faultsOf_def)

interpretation flagDeploymentGet: faultFlag WithDeploymentGetError "(OnDeployment, GetV)" debug_IsDeploymentGetErrorInjected
  by unfold_locales (rule faultsOf_eqI, (case_tac r; case_tac v; simp add: WithDeploymentGetError_def), simp add: debug_IsDeploymentGetErrorInjected_def faultsOf_def)

interpretation flagDeploymentCreate: faultFlag WithDeploymentCreateError "(OnDeployment, CreateV)" debug_IsDeploymentCreateErrorInjected
  by unfold_locales (rule faultsOf_eqI, (case_tac r; case_tac v; simp add: WithDeploymentCreateError_def), simp add: debug_IsDeploymentCreateErrorInjected_def faultsOf_def)

interpretation flagDeploymentUpdate: faultFlag WithDeploymentUpdateError "(OnDeployment, UpdateV)" debug_IsDeploymentUpdateErrorInjected
  by unfold_locales (rule faultsOf_eqI, (case_tac r; case_tac v; simp add: WithDeploymentUpdateError_def), simp add: debug_IsDeploymentUpdateErrorInjected_def faultsOf_def)

interpretation flagDeploymentPatch: faultFlag WithDeploymentPatchError "(OnDeployment, PatchV)" debug_IsDeploymentPatchErrorInjected
  by unfold_locales (rule faultsOf_eqI, (case_tac r; case_tac v; simp add: WithDeploymentPatchError_def), simp add: debug_IsDeploymentPatchErrorInjected_def faultsOf_def)

interpretation flagZFSGet: faultFlag WithZFSGetError "(OnZFS, GetV)" debug_IsZFSGetErrorInjected
  by unfold_locales (rule faultsOf_eqI, (case_tac r; case_tac v; simp add: WithZFSGetError_def), simp add: debug_IsZFSGetErrorInjected_def faultsOf_def)

interpretation flagZFSCreate: faultFlag WithZFSCreateError "(OnZFS, CreateV)" debug_IsZFSCreateErrorInjected
  by unfold_locales (rule faultsOf_eqI, (case_tac r; case_tac v; simp add: WithZFSCreateError_def), simp add: debug_IsZFSCreateErrorInjected_def faultsOf_def)

interpretation flagZFSDelete: faultFlag WithZFSDeleteError "(OnZFS, DeleteV)" debug_IsZFSDeleteErrorInjected
  by unfold_locales (rule faultsOf_eqI, (case_tac r; case_tac v; simp add: WithZFSDeleteError_def), simp add: debug_IsZFSDeleteErrorInjected_def faultsOf_def)

interpretation flagCVRCreate: faultSetter WithCVRCreateError "(OnCVR, CreateV)"
  by unfold_locales (rule faultsOf_eqI, (case_tac r; case_tac v; simp add: WithCVRCreateError_def))

interpretation flagCVRGet: faultSetter WithCVRGetError "(OnCVR, GetV)"
  by unfold_locales (rule faultsOf_eqI, (case_tac r; case_tac v; simp add: WithCVRGetError_def))

interpretation flagCVRDelete: faultSetter WithCVRDeleteError "(OnCVR, DeleteV)"
  by unfold_locales (rule faultsOf_eqI, (case_tac r; case_tac v; simp add: WithCVRDeleteError_def))

interpretation flagCVRUpdate: faultSetter WithCVRUpdateError "(OnCVR, UpdateV)"
  by unfold_locales (rule faultsOf_eqI, (case_tac r; case_tac v; simp add: WithCVRUpdateError_def))

section \<open>Thresholds\<close>

lemma faultsOf_threshold [simp]:
  "faultsOf (ei\<lparr>CSPIError := (CSPIError ei)\<lparr>ErrorPercentage := t\<rparr>\<rparr>) = faultsOf ei"
  "faultsOf (ei\<lparr>CSPCError := (CSPCError ei)\<lparr>ErrorPercentage := t\<rparr>\<rparr>) = faultsOf ei"
  "faultsOf (ei\<lparr>DeploymentError := (DeploymentError ei)\<lparr>ErrorPercentage := t\<rparr>\<rparr>) = faultsOf ei"
  "faultsOf (ei\<lparr>ZFSError := (ZFSError ei)\<lparr>ErrorPercentage := t\<rparr>\<rparr>) = faultsOf ei"
  "faultsOf (ei\<lparr>CVRError := (CVRError ei)\<lparr>ErrorPercentage := t\<rparr>\<rparr>) = faultsOf ei"
  unfolding faultsOf_def by (safe; case_tac a; simp)+

lemma allVerbs: "({r} \<times> UNIV) = {(r, DeleteCollectionV), (r, DeleteV), (r, ListV), (r, GetV), (r, CreateV), (r, UpdateV), (r, PatchV)}"
  by (auto intro: faultVerb.exhaust)

lemma faultsOf_thresholds:
  "faultsOf (WithCSPIThreshold Intn t ei) = faultsOf ei \<union> (if GetRandomErrorPercentage Intn > t then {OnCSPI} \<times> UNIV else {})"
  "faultsOf (WithCSPCThreshold Intn t ei) = faultsOf ei \<union> (if GetRandomErrorPercentage Intn > t then {OnCSPC} \<times> UNIV else {})"
  "faultsOf (WithDeploymentThreshold Intn t ei) = faultsOf ei \<union> (if GetRandomErrorPercentage Intn > t then {OnDeployment} \<times> UNIV else {})"
  "faultsOf (WithZFSThreshold Intn t ei) =
     faultsOf ei \<union> (if GetRandomErrorPercentage Intn > t then {OnZFS} \<times> {CreateV, DeleteV, GetV} else {})"
  "faultsOf (WithCVRThreshold Intn t ei) =
     faultsOf ei \<union> (if GetRandomErrorPercentage Intn > t then {OnCVR} \<times> {CreateV, DeleteV, GetV, UpdateV} else {})"
  unfolding WithCSPIThreshold_def WithCSPCThreshold_def WithDeploymentThreshold_def WithZFSThreshold_def WithCVRThreshold_def Let_def
  by (simp_all only: allVerbs if_distrib [of faultsOf] if_distrib [of "(\<union>) (faultsOf ei)"] faultsOf_threshold
        flagCSPIDeleteCollection.inject_fault flagCSPICreate.inject_fault flagCSPIDelete.inject_fault flagCSPIGet.inject_fault
        flagCSPIList.inject_fault flagCSPIPatch.inject_fault flagCSPIUpdate.inject_fault
        flagCSPCDeleteCollection.inject_fault flagCSPCCreate.inject_fault flagCSPCDelete.inject_fault flagCSPCGet.inject_fault
        flagCSPCList.inject_fault flagCSPCPatch.inject_fault flagCSPCUpdate.inject_fault
        flagDeploymentDeleteCollection.inject_fault flagDeploymentCreate.inject_fault flagDeploymentDelete.inject_fault
        flagDeploymentGet.inject_fault flagDeploymentList.inject_fault flagDeploymentPatch.inject_fault
        flagDeploymentUpdate.inject_fault flagZFSCreate.inject_fault flagZFSDelete.inject_fault flagZFSGet.inject_fault
        flagCVRCreate.inject_fault flagCVRDelete.inject_fault flagCVRGet.inject_fault flagCVRUpdate.inject_fault) auto

lemma faultsOf_new: "faultsOf NewErrorInjection = {}"
proof -
  have "verbFlag v (resourceErrors r NewErrorInjection) = []" for r v
    by (cases r; cases v; simp add: NewErrorInjection_def noErrors_def)
  then show ?thesis by (simp add: faultsOf_def Inject_def)
qed

text \<open>
  A threshold of \<open>t\<close> per cent asks for the faults of pool commands for exactly \<open>100 - t\<close> of the 101 values the
  random generator can give: those above the threshold. At 100 nothing is injected.
\<close>

theorem threshold_share:
  assumes "0 \<le> t" "t \<le> 100"
  shows "card {x \<in> {0..100}. debug_IsZFSCreateErrorInjected (WithZFSThreshold (\<lambda>n. x) t NewErrorInjection)} = nat (100 - t)"
proof -
  have eq: "debug_IsZFSCreateErrorInjected (WithZFSThreshold (\<lambda>n. x) t NewErrorInjection) \<longleftrightarrow> x > t" for x
    by (simp add: flagZFSCreate.query_iff faultsOf_thresholds faultsOf_new GetRandomErrorPercentage_def)
  have "{x \<in> {0..100}. debug_IsZFSCreateErrorInjected (WithZFSThreshold (\<lambda>n. x) t NewErrorInjection)} = {t + 1..100}"
    unfolding eq using assms by auto
  then show ?thesis by simp
qed

theorem threshold_share_witness:
  "card {x \<in> {0..100}. debug_IsZFSCreateErrorInjected (WithZFSThreshold (\<lambda>n. x) 90 NewErrorInjection)} = 10"
  using threshold_share [of 90] by simp

section \<open>Effect of an injected fault\<close>


section \<open>Through the server\<close>

text \<open>What the server answers, by method.\<close>

lemma route_inject: "muxHandler RegisterRoutes ''/inject'' = Some (''/inject'', inject_handler)"
  by (simp add: RegisterRoutes_def patternMatches_def)

lemma server_get:
  "rq_Path r = ''/inject'' \<Longrightarrow> rq_Method r = ''GET'' \<Longrightarrow> MarshalEI J EI = Inr b \<Longrightarrow>
   StartServer J r EI = (EI, \<lparr>rs_Status = 200, rs_Body = b\<rparr>)"
  by (simp add: StartServer_def route_inject inject_handler_def rw_Write_def WriteHeader_def)

lemma server_post:
  "rq_Path r = ''/inject'' \<Longrightarrow> rq_Method r = ''POST'' \<Longrightarrow> rq_Body r = Inr b \<Longrightarrow>
   StartServer J r EI = (fst (UnmarshalEI J b EI), \<lparr>rs_Status = 200, rs_Body = ''''\<rparr>)"
  by (simp add: StartServer_def route_inject inject_handler_def)

text \<open>
  The server answers every request with status 200, an invalid method and an unreadable body included, except
  a configuration that cannot be encoded; and only a body that was read changes the configuration.
\<close>

theorem injection_server_status:
  assumes "take 1 (rq_Path r) = ''/''"
  shows "rs_Status (snd (StartServer J r EI)) =
           (if rq_Path r = ''/inject'' \<and> rq_Method r = ''GET'' \<and> (\<exists>err. MarshalEI J EI = Inl err) then 500 else 200)
       \<and> (fst (StartServer J r EI) \<noteq> EI \<longrightarrow>
            rq_Path r = ''/inject'' \<and> rq_Method r = ''POST'' \<and> (\<exists>b. rq_Body r = Inr b \<and> fst (StartServer J r EI) = fst (UnmarshalEI J b EI)))"
proof (cases "rq_Path r = ''/inject''")
  case True
  then show ?thesis
    by (simp add: StartServer_def route_inject inject_handler_def rw_Write_def WriteHeader_def split: sum.split)
next
  case False
  then have "muxHandler RegisterRoutes (rq_Path r) = Some (''/'', index_handler)"
    using assms by (simp add: RegisterRoutes_def patternMatches_def)
  then show ?thesis using False by (simp add: StartServer_def index_handler_def rw_Write_def WriteHeader_def)
qed

theorem injection_server_status_witness:
  "rs_Status (snd (StartServer \<lparr>MarshalEI = (\<lambda>_. Inr ''{}''), UnmarshalEI = (\<lambda>_ ei. (ei, None)), ErrorText = (\<lambda>_. '''')\<rparr>
     \<lparr>rq_Method = ''PUT'', rq_Path = ''/inject'', rq_Body = Inr ''''\<rparr> NewErrorInjection)) = 200"
  using injection_server_status [of "\<lparr>rq_Method = ''PUT'', rq_Path = ''/inject'', rq_Body = Inr ''''\<rparr>"
      "\<lparr>MarshalEI = (\<lambda>_. Inr ''{}''), UnmarshalEI = (\<lambda>_ ei. (ei, None)), ErrorText = (\<lambda>_. '''')\<rparr>" NewErrorInjection]
  by simp

text \<open>A client connected to the server of a debug build.\<close>

definition connected :: "jsonEnv \<Rightarrow> ErrorInjection httpEnv \<Rightarrow> string \<Rightarrow> bool" where
  "connected J H host \<longleftrightarrow>
     (\<forall>m b. NewRequest H m (''http://'' @ host @ ''/inject'') b =
        Inr \<lparr>rq_Method = m, rq_Path = ''/inject'', rq_Body = Inr (case b of None \<Rightarrow> '''' | Some x \<Rightarrow> x)\<rparr>) \<and>
     (\<forall>req EI. Do H req EI =
        (case StartServer J req EI of (EI', resp) \<Rightarrow> (Inr (rs_Status resp, Inr (rs_Body resp)), EI')))"

text \<open>
  A configuration posted by the client is the one the server has afterwards, whatever it had before, and the
  one a client reads back.
\<close>

theorem posted_configuration_read_back:
  assumes conn: "connected J H host"
    and enc: "MarshalEI J ei = Inr b" and dec: "\<And>old. UnmarshalEI J b old = (ei, None)"
  shows "PostInject J H (NewClient host) ei old = (None, ei)
       \<and> GetInject J H (NewClient host) (snd (PostInject J H (NewClient host) ei old)) = ((Some ei, None), ei)"
  using conn enc dec
  by (simp add: connected_def PostInject_def GetInject_def NewClient_def resolvePath_def URLString_def server_post server_get)

text \<open>A JSON for configurations without thresholds: the flags of the ZFS faults, separated by commas.\<close>

definition flagJson :: jsonEnv where
  "flagJson =
     \<lparr>MarshalEI = (\<lambda>ei. let z = CRUDErrorInjection (ZFSError ei) in
        Inr (InjectCreateError z @ '','' @ InjectDeleteError z @ '','' @ InjectGetError z)),
      UnmarshalEI = (\<lambda>text old. case Split (CHR '','') text of
          [c, d, g] \<Rightarrow> (WithZFSGetError g (WithZFSDeleteError d (WithZFSCreateError c NewErrorInjection)), None)
        | _ \<Rightarrow> (old, Some (Errorf ''unexpected end of JSON input'' []))),
      ErrorText = (\<lambda>_. ''error'')\<rparr>"

definition loopback :: "jsonEnv \<Rightarrow> ErrorInjection httpEnv" where
  "loopback J =
     \<lparr>NewRequest = (\<lambda>m u b. Inr \<lparr>rq_Method = m, rq_Path = ''/inject'', rq_Body = Inr (case b of None \<Rightarrow> '''' | Some x \<Rightarrow> x)\<rparr>),
      Do = (\<lambda>req EI. case StartServer J req EI of (EI', resp) \<Rightarrow> (Inr (rs_Status resp, Inr (rs_Body resp)), EI'))\<rparr>"

lemma loopback_connected: "connected J (loopback J) host"
  by (simp add: connected_def loopback_def)

theorem posted_configuration_read_back_witness:
  "PostInject flagJson (loopback flagJson) (NewClient ''10.0.0.1:8080'') (WithZFSCreateError Inject NewErrorInjection) NewErrorInjection =
     (None, WithZFSCreateError Inject NewErrorInjection)"
proof -
  have e: "MarshalEI flagJson (WithZFSCreateError Inject NewErrorInjection) = Inr ''true,,''"
    by (simp add: flagJson_def WithZFSCreateError_def NewErrorInjection_def noErrors_def Inject_def)
  have d: "UnmarshalEI flagJson ''true,,'' old = (WithZFSCreateError Inject NewErrorInjection, None)" for old
    by (simp add: flagJson_def WithZFSCreateError_def WithZFSGetError_def WithZFSDeleteError_def NewErrorInjection_def noErrors_def
          Inject_def)
  show ?thesis
    using posted_configuration_read_back [OF loopback_connected e d, of "''10.0.0.1:8080''" NewErrorInjection] by simp
qed

end
