(* ===== verification/ProgramStart.thy ===== *)
theory ProgramStart
  imports WebhookSetup WorkQueue VolumeTargetConf
begin

text \<open>
  How the programs come up and go down: the configuration and the life of the operator's REST server
  (\<open>pkg/server/config.go\<close>, \<open>server/cstorvolumeconfig/server.go\<close> and the constructor and \<open>Shutdown\<close> of \<open>https.go\<close>), the start functions
  of the CVC operator, the CSPC operator, the pool manager and the volume manager, the \<open>main\<close> of the webhook, the waits for zrepl and for
  resource definitions, and the accept loop of the target server. Flags, clients, sockets, informers and leader election are parameters.
\<close>

section \<open>Parameters and state\<close>

text \<open>
  A call that ends the process, \<open>klog.Fatal\<close> or \<open>os.Exit\<close>, is a panic with the prefix below; other panics are those of the Go runtime.
\<close>

record startEnv =
  flagSet :: verdict
  InClusterConfig :: "string res"
  BuildConfigFromFlags :: "string \<Rightarrow> string res"
  kubeClientFor :: "string \<Rightarrow> verdict"
  openebsClientFor :: "string \<Rightarrow> verdict"
  ResolveTCPAddr :: "string \<Rightarrow> (string \<times> int) res"
  netListen :: "string \<Rightarrow> string \<Rightarrow> string res"
  removeSocket :: verdict
  operatorNamespace :: string
  buildController :: verdict
  runController :: "string \<Rightarrow> verdict"
  electLeader :: "string \<Rightarrow> string \<Rightarrow> verdict"

text \<open>The open listeners, the flag and the channel of the server's shutdown, and what was started.\<close>

record proc =
  pr_listening :: "string list"
  pr_shutdown :: bool
  pr_closed :: bool
  pr_started :: "string list"

definition fatalMsg :: "string \<Rightarrow> string" where
  "fatalMsg m = ''fatal: '' @ m"

definition fatalS :: "string \<Rightarrow> ('s, 'a) act" where
  "fatalS m = panicS (fatalMsg m)"

definition fatalOn :: "('s, 'a) act \<Rightarrow> string \<Rightarrow> ('s, 'a) act" where
  "fatalOn m msg = bindS (attemptS m) (\<lambda>r. case r of Ok x \<Rightarrow> returnS x | Err e \<Rightarrow> fatalS msg | Panic p \<Rightarrow> panicS p)"

text \<open>A deferred call runs when the function returns and when it panics, but not when the process is ended.\<close>

definition deferS :: "('s, unit) act \<Rightarrow> ('s, 'a) act \<Rightarrow> ('s, 'a) act" where
  "deferS d m s =
     (case m s of (r, s') \<Rightarrow>
        (case r of
           Panic p \<Rightarrow> if HasPrefix p ''fatal: '' then (Panic p, s') else (Panic p, snd (d s'))
         | _ \<Rightarrow> (case d s' of (Panic p, s'') \<Rightarrow> (Panic p, s'') | (_, s'') \<Rightarrow> (r, s''))))"

definition started :: "string \<Rightarrow> (proc, unit) act" where
  "started what p = (Ok (), p\<lparr>pr_started := pr_started p @ [what]\<rparr>)"

section \<open>The configuration of the REST server\<close>

record ServerConfig =
  sc_Region :: string
  sc_LogLevel :: string
  sc_BindAddr :: string
  sc_Port :: "int option"
  sc_Addresses :: "string option"
  sc_NormalizedAddrs :: "string option"
  sc_LeaveOnTerm :: bool

definition DefaultServerConfig :: ServerConfig where
  "DefaultServerConfig =
     \<lparr>sc_Region = ''global'', sc_LogLevel = ''INFO'', sc_BindAddr = ''127.0.0.1'', sc_Port = None, sc_Addresses = Some '''',
      sc_NormalizedAddrs = None, sc_LeaveOnTerm = True\<rparr>"

definition normalizeBind :: "string \<Rightarrow> string \<Rightarrow> string" where
  "normalizeBind addr bind = (if addr = '''' then bind else addr)"

text \<open>\<open>net.JoinHostPort\<close>: a host with a colon is an IPv6 address and is bracketed.\<close>

definition JoinHostPort :: "string \<Rightarrow> string \<Rightarrow> string" where
  "JoinHostPort host port = (if CHR '':'' \<in> set host then ''['' @ host @ '']:'' @ port else host @ '':'' @ port)"

definition NormalizeAddrs :: "ServerConfig \<Rightarrow> ServerConfig res" where
  "NormalizeAddrs c =
     (case sc_Port c of
        None \<Rightarrow> Err (Errorf ''Can not normaize address empty port provided'' [])
      | Some port \<Rightarrow>
          (case sc_Addresses c of
             None \<Rightarrow> Panic ''nil pointer dereference''
           | Some http \<Rightarrow>
               let http = normalizeBind http (sc_BindAddr c)
               in Ok (c\<lparr>sc_Addresses := Some http, sc_NormalizedAddrs := Some (JoinHostPort http (FormatInt port))\<rparr>)))"

definition Listener :: "startEnv \<Rightarrow> ServerConfig \<Rightarrow> string \<Rightarrow> string \<Rightarrow> int \<Rightarrow> string res" where
  "Listener E c proto addr port =
     (let addr = (if addr = '''' then sc_BindAddr c else addr) in
      if 0 > port \<or> port > 65535 then Err (Errorf ''listen %s: address %s: invalid port'' [AS proto, AI port])
      else netListen E proto (JoinHostPort addr (FormatInt port)))"

section \<open>The life of the REST server\<close>

definition NewCVCServer :: "(proc, unit) act" where
  "NewCVCServer p = (Ok (), p\<lparr>pr_shutdown := False, pr_closed := False\<rparr>)"

definition cs_Shutdown :: "(proc, unit) act" where
  "cs_Shutdown p =
     (if pr_shutdown p then (Ok (), p)
      else
        let p = p\<lparr>pr_shutdown := True\<rparr> in
        if pr_closed p then (Panic ''close of closed channel'', p) else (Ok (), p\<lparr>pr_closed := True\<rparr>))"

text \<open>A server is known by its listener; the handlers are \<open>registeredHandler\<close>.\<close>

definition NewHTTPServer :: "startEnv \<Rightarrow> ServerConfig option \<Rightarrow> (proc, string) act" where
  "NewHTTPServer E config =
     (case config of
        None \<Rightarrow> failS (Errorf ''failed to instantiate http server: provided empty config'' [])
      | Some c \<Rightarrow>
          (case sc_NormalizedAddrs c of
             None \<Rightarrow> panicS ''nil pointer dereference''
           | Some http \<Rightarrow>
               bindS (readS (\<lambda>_. wrapR (ResolveTCPAddr E http) ''failed to instantiate http server: %v'' [])) (\<lambda>(ip, port).
               bindS (readS (\<lambda>_. wrapR (Listener E c ''tcp'' ip port) ''failed to instantiate http server: %v'' [])) (\<lambda>lis p.
               (Ok lis, p\<lparr>pr_listening := lis # pr_listening p\<rparr>)))))"

definition http_Shutdown :: "string option \<Rightarrow> (proc, unit) act" where
  "http_Shutdown srv =
     bindS (case srv of None \<Rightarrow> returnS () | Some lis \<Rightarrow> (\<lambda>p. (Ok (), p\<lparr>pr_listening := remove1 lis (pr_listening p)\<rparr>))) (\<lambda>_.
     if srv = None then panicS ''nil pointer dereference'' else cs_Shutdown)"

section \<open>The operators\<close>

definition flagClusterConfig :: "startEnv \<Rightarrow> string \<Rightarrow> string res" where
  "flagClusterConfig E kubeconfig = (if kubeconfig \<noteq> '''' then BuildConfigFromFlags E kubeconfig else InClusterConfig E)"

definition inClusterFirstConfig :: "startEnv \<Rightarrow> string \<Rightarrow> string res" where
  "inClusterFirstConfig E kubeconfig =
     (case InClusterConfig E of
        Err e \<Rightarrow>
          if kubeconfig = '''' then Err (Errorf ''kubeconfig is empty: %v'' [AE e])
          else quoteR (BuildConfigFromFlags E kubeconfig) ''Error building kubeconfig: %s'' []
      | r \<Rightarrow> r)"

definition setupCVCServer :: "startEnv \<Rightarrow> string \<Rightarrow> (proc, string) act" where
  "setupCVCServer E bindAddr =
     bindS (if bindAddr \<noteq> '''' then returnS (DefaultServerConfig\<lparr>sc_BindAddr := bindAddr\<rparr>)
            else fatalS ''bindAddr does not have an IP configure, check the `bind` container arg'') (\<lambda>config.
     bindS (readS (\<lambda>_. wrapR (NormalizeAddrs (config\<lparr>sc_Port := Some 5757\<rparr>)) ''failed to setup CVC Server'' [])) (\<lambda>config.
     bindS NewCVCServer (\<lambda>_.
     bindS (attemptS (NewHTTPServer E (Some config))) (\<lambda>r.
       case r of
         Panic m \<Rightarrow> panicS m
       | Err e \<Rightarrow> bindS cs_Shutdown (\<lambda>_. failS e)
       | Ok http \<Rightarrow> returnS http))))"

text \<open>Flags, configuration and the two clients, as the operators and the pool manager begin.\<close>

definition startClients :: "startEnv \<Rightarrow> string \<Rightarrow> (proc, unit) act" where
  "startClients E kubeconfig =
     bindS (readS (\<lambda>_. wrapR (flagSet E) ''failed to set logtostderr flag'' [])) (\<lambda>_.
     bindS (readS (\<lambda>_. wrapR (flagClusterConfig E kubeconfig) ''error building kubeconfig'' [])) (\<lambda>cfg.
     bindS (readS (\<lambda>_. wrapR (kubeClientFor E cfg) ''error building kubernetes clientset'' [])) (\<lambda>_.
     readS (\<lambda>_. wrapR (openebsClientFor E cfg) ''error building openebs clientset'' []))))"

text \<open>The controller runs until the signal, directly or as the elected leader.\<close>

definition runElected :: "startEnv \<Rightarrow> string \<Rightarrow> bool \<Rightarrow> string \<Rightarrow> string \<Rightarrow> (proc, unit) act" where
  "runElected E lockName leaderElection namespace what =
     (if \<not> leaderElection then started what
      else bindS (fatalOn (readS (\<lambda>_. electLeader E lockName namespace)) ''failed to initialize leader election'') (\<lambda>_. started what))"

text \<open>What \<open>Start\<close> does once its server is up, and the whole of it.\<close>

definition cvc_serve :: "startEnv \<Rightarrow> bool \<Rightarrow> string \<Rightarrow> (proc, unit) act" where
  "cvc_serve E leaderElection namespace =
     (if operatorNamespace E = '''' then failS (Errorf ''failed to get openebs namespace got empty'' [])
      else
        bindS (readS (\<lambda>_. wrapR (buildController E) ''error building controller instance'' [])) (\<lambda>_.
        runElected E ''cvc-controller-leader'' leaderElection namespace ''cvc controller''))"

definition cvc_Start :: "startEnv \<Rightarrow> string \<Rightarrow> string \<Rightarrow> bool \<Rightarrow> string \<Rightarrow> (proc, unit) act" where
  "cvc_Start E kubeconfig bindAddr leaderElection namespace =
     bindS (startClients E kubeconfig) (\<lambda>_.
     bindS (wrapS (setupCVCServer E bindAddr) ''failed to setupCVCServer'' []) (\<lambda>httpServer.
     deferS (http_Shutdown (Some httpServer)) (cvc_serve E leaderElection namespace)))"

definition cspc_Start :: "startEnv \<Rightarrow> string \<Rightarrow> bool \<Rightarrow> string \<Rightarrow> (proc, unit) act" where
  "cspc_Start E kubeconfig leaderElection namespace =
     bindS (startClients E kubeconfig) (\<lambda>_.
     bindS (readS (\<lambda>_. wrapR (buildController E) ''error building controller instance'' [])) (\<lambda>_.
     runElected E ''cspc-controller-leader'' leaderElection namespace ''cspc controller''))"

section \<open>Waiting\<close>

text \<open>A turn that succeeds ends the wait; one that fails sleeps and is repeated, without a bound.\<close>

partial_function (option) awaitTurn :: "('s \<Rightarrow> bool \<times> 's) \<Rightarrow> 's \<Rightarrow> 's option" where
  "awaitTurn turn s = (case turn s of (ok, s') \<Rightarrow> if ok then Some s' else awaitTurn turn s')"

definition CheckForZreplInitial :: "'s penv \<Rightarrow> (int \<Rightarrow> 's \<Rightarrow> 's) \<Rightarrow> 's \<Rightarrow> 's option" where
  "CheckForZreplInitial P Sleep =
     awaitTurn (\<lambda>w. case pstatus_Execute (bash P) noChecks NewPoolStatus w of ((_, err), w') \<Rightarrow>
       if err = None then (True, w') else (False, Sleep 3 w'))"

text \<open>The list calls of the two kinds whose resource definition is awaited are parameters.\<close>

definition CheckForCRD :: "('s \<Rightarrow> verdict) \<Rightarrow> (int \<Rightarrow> 's \<Rightarrow> 's) \<Rightarrow> 's \<Rightarrow> 's option" where
  "CheckForCRD list Sleep = awaitTurn (\<lambda>s. case list s of Ok _ \<Rightarrow> (True, s) | _ \<Rightarrow> (False, Sleep 10 s))"

section \<open>The pool manager\<close>

text \<open>
  The controllers run in goroutines and end the process when they return an error; the controller of pool instances is started before the pool is
  awaited, the other three afterwards. Nothing is returned while a wait goes on.
\<close>

definition runsOrDies :: "startEnv \<Rightarrow> string \<Rightarrow> (proc, unit) act" where
  "runsOrDies E what = bindS (started what) (\<lambda>_. fatalOn (readS (\<lambda>_. runController E what)) (''Error running '' @ what))"

definition pm_Start ::
    "startEnv \<Rightarrow> 's penv \<Rightarrow> (int \<Rightarrow> 's \<Rightarrow> 's) \<Rightarrow> string \<Rightarrow> proc \<times> 's \<Rightarrow> (verdict \<times> proc \<times> 's) option" where
  "pm_Start E P Sleep kubeconfig s =
     (case startClients E kubeconfig (fst s) of
        (Ok _, p) \<Rightarrow>
          (case CheckForZreplInitial P Sleep (snd s) of
             None \<Rightarrow> None
           | Some w \<Rightarrow>
               (case runsOrDies E ''CStorPoolInstance controller'' p of
                  (Ok _, p) \<Rightarrow>
                    (case CheckForCStorPool P w of
                       None \<Rightarrow> None
                     | Some (_, w) \<Rightarrow>
                         (case bindS (runsOrDies E ''CStorVolumeReplica controller'') (\<lambda>_.
                                 bindS (runsOrDies E ''backup controller'') (\<lambda>_.
                                 runsOrDies E ''cStor restore controller'')) p of
                            (r, p) \<Rightarrow> Some (r, p, w)))
                | (r, p) \<Rightarrow> Some (r, p, w)))
      | (r, p) \<Rightarrow> Some (r, p, snd s))"

section \<open>The volume manager\<close>

text \<open>\<open>util.CheckForIscsi\<close> waits for istgt and is a parameter.\<close>

definition StartControllers ::
    "startEnv \<Rightarrow> ('s \<Rightarrow> 's option) \<Rightarrow> ('s \<Rightarrow> verdict) \<Rightarrow> (int \<Rightarrow> 's \<Rightarrow> 's) \<Rightarrow> string \<Rightarrow> proc \<times> 's \<Rightarrow> (verdict \<times> proc \<times> 's) option" where
  "StartControllers E CheckForIscsi listCV Sleep kubeconfig s =
     (case bindS (fatalOn (readS (\<lambda>_. inClusterFirstConfig E kubeconfig)) ''cluster config'') (\<lambda>cfg.
           bindS (fatalOn (readS (\<lambda>_. kubeClientFor E cfg)) ''Error building kubernetes clientset'') (\<lambda>_.
           fatalOn (readS (\<lambda>_. openebsClientFor E cfg)) ''Error building openebs clientset'')) (fst s) of
        (Ok _, p) \<Rightarrow>
          (case Option.bind (CheckForIscsi (snd s)) (CheckForCRD listCV Sleep) of
             None \<Rightarrow> None
           | Some w \<Rightarrow> (case runsOrDies E ''CStorVolume controller'' p of (r, p) \<Rightarrow> Some (r, p, w)))
      | (r, p) \<Rightarrow> Some (r, p, snd s))"

text \<open>
  The errors of sockets: the numbers of the system, and the wrapper \<open>net.OpError\<close> around the system call's error. The comparison of
  \<open>IsSafeToRetry\<close> is between interface values, so a wrapped number is not the number.
\<close>

datatype netError = Errno string | SyscallError string netError | OpError string netError

definition IsSafeToRetry :: "netError option \<Rightarrow> bool" where
  "IsSafeToRetry err = (err = Some (Errno ''EINTR'') \<or> err = Some (Errno ''EAGAIN'') \<or> err = Some (Errno ''EWOULDBLOCK''))"

text \<open>The accept loop on the results of \<open>Accept\<close>: the connections handed to \<open>ServeRequest\<close>, and the error that ended the process.\<close>

fun acceptLoop :: "(netError + readResult list) list \<Rightarrow> readResult list list \<times> netError option" where
  "acceptLoop [] = ([], None)"
| "acceptLoop (Inl err # rest) = (if IsSafeToRetry (Some err) then acceptLoop rest else ([], Some err))"
| "acceptLoop (Inr sockFd # rest) = (case acceptLoop rest of (served, err) \<Rightarrow> (sockFd # served, err))"

definition volumeMgmtUnixSock :: string where
  "volumeMgmtUnixSock = ''/var/run/volume_mgmt_sock''"

text \<open>The namespace is looked at every three seconds until it is set.\<close>

definition StartTargetServer ::
    "startEnv \<Rightarrow> ('s \<Rightarrow> string) \<Rightarrow> (int \<Rightarrow> 's \<Rightarrow> 's) \<Rightarrow> string \<Rightarrow> (netError + readResult list) list \<Rightarrow> 's \<Rightarrow> ((readResult list list \<times> netError option) res \<times> 's) option" where
  "StartTargetServer E TargetNamespace Sleep kubeConfig conns s =
     (case awaitTurn (\<lambda>s. if TargetNamespace s \<noteq> '''' then (True, s) else (False, Sleep 3 s)) s of
        None \<Rightarrow> None
      | Some s \<Rightarrow>
          Some (bindS (fatalOn (readS (\<lambda>_. removeSocket E)) ''failed to clear path'') (\<lambda>_.
                bindS (fatalOn (readS (\<lambda>_. netListen E ''unix'' volumeMgmtUnixSock)) ''listen error'') (\<lambda>_.
                bindS (fatalOn (readS (\<lambda>_. flagClusterConfig E kubeConfig)) ''exit 1'') (\<lambda>config.
                bindS (fatalOn (readS (\<lambda>_. openebsClientFor E config)) ''exit 1'') (\<lambda>_.
                returnS (acceptLoop conns))))) s))"

section \<open>The webhook\<close>

definition webhook_main :: "startEnv \<Rightarrow> 's wenv \<Rightarrow> string \<Rightarrow> ('s, string) act" where
  "webhook_main E W kubeconfig =
     bindS (fatalOn (readS (\<lambda>_. flagSet E)) ''Failed to set logtostderr flag'') (\<lambda>_.
     bindS (fatalOn (readS (\<lambda>_. inClusterFirstConfig E kubeconfig)) ''Error building kubeconfig'') (\<lambda>cfg.
     bindS (fatalOn (readS (\<lambda>_. kubeClientFor E cfg)) ''Error building kubernetes clientset'') (\<lambda>_.
     bindS (fatalOn (readS (\<lambda>_. openebsClientFor E cfg)) ''Error building openebs clientset'') (\<lambda>_.
     bindS (fatalOn (readS (GetAdmissionReference W)) ''failed to get a reference of the admission deployment object'') (\<lambda>ownerReference.
     bindS (fatalOn (InitValidationServer W ownerReference) ''failed to initialize validation server'') (\<lambda>_.
     fatalOn (readS (newWebhook W)) ''failed to create validation webhook''))))))"

section \<open>Lemmas\<close>

text \<open>What the libraries return is a value or an error, never a panic.\<close>

definition noPanic :: "'a res \<Rightarrow> bool" where
  "noPanic r = (case r of Panic _ \<Rightarrow> False | _ \<Rightarrow> True)"

definition quietEnv :: "startEnv \<Rightarrow> bool" where
  "quietEnv E \<longleftrightarrow>
     noPanic (flagSet E) \<and> noPanic (InClusterConfig E) \<and> (\<forall>k. noPanic (BuildConfigFromFlags E k)) \<and> (\<forall>c. noPanic (kubeClientFor E c)) \<and>
     (\<forall>c. noPanic (openebsClientFor E c)) \<and> (\<forall>a. noPanic (ResolveTCPAddr E a)) \<and> (\<forall>n a. noPanic (netListen E n a)) \<and>
     noPanic (buildController E) \<and> (\<forall>l n. noPanic (electLeader E l n))"

lemma noPanic_simps [simp]: "noPanic (Ok x)" "noPanic (Err e)" "\<not> noPanic (Panic m)"
  by (simp_all add: noPanic_def)

lemma noPanic_wrapR [simp]: "noPanic (wrapR r f a) = noPanic r"
  by (cases r) simp_all

text \<open>A part of the start that reads only: it returns a value or an error, and the process is as before.\<close>

definition quietly :: "('s, 'a) act \<Rightarrow> bool" where
  "quietly m \<longleftrightarrow> (\<forall>s. noPanic (fst (m s)) \<and> snd (m s) = s)"

lemma quietly_readS: "(\<And>s. noPanic (f s)) \<Longrightarrow> quietly (readS f)"
  by (simp add: quietly_def)

lemma quietly_bindS: "quietly m \<Longrightarrow> (\<And>x. quietly (k x)) \<Longrightarrow> quietly (bindS m k)"
  by (auto simp: quietly_def bindS_def split: prod.splits res.splits) (metis fst_conv noPanic_simps snd_conv)+

lemma startClients_quiet: "quietEnv E \<Longrightarrow> quietly (startClients E kubeconfig)"
  unfolding startClients_def
  by (intro quietly_bindS quietly_readS) (simp_all add: quietEnv_def flagClusterConfig_def)

text \<open>The configuration the operator sets up is complete: the server is given an address, and it is the one of the flag.\<close>

lemma operator_config:
  "NormalizeAddrs (DefaultServerConfig\<lparr>sc_BindAddr := bindAddr, sc_Port := Some 5757\<rparr>) =
     Ok (DefaultServerConfig\<lparr>sc_BindAddr := bindAddr, sc_Port := Some 5757, sc_Addresses := Some bindAddr,
           sc_NormalizedAddrs := Some (JoinHostPort bindAddr (FormatInt 5757))\<rparr>)"
  by (simp add: NormalizeAddrs_def DefaultServerConfig_def normalizeBind_def)

text \<open>Setting up the server opens one listener, or opens none and closes the channel, or ends the process for want of an address.\<close>

lemma setupCVCServer_cases:
  assumes "quietEnv E" and "setupCVCServer E bindAddr p = (r, p')"
  shows "(\<exists>lis. r = Ok lis \<and> p' = p\<lparr>pr_shutdown := False, pr_closed := False, pr_listening := lis # pr_listening p\<rparr>) \<or>
         (\<exists>e. r = Err e \<and> p' = p\<lparr>pr_shutdown := True, pr_closed := True\<rparr>) \<or>
         (bindAddr = '''' \<and> (\<exists>m. r = Panic (fatalMsg m)))"
proof (cases "bindAddr = ''''")
  case True
  then show ?thesis using assms(2) by (auto simp: setupCVCServer_def fatalS_def bindS_def)
next
  case False
  have "noPanic (ResolveTCPAddr E a)" "noPanic (netListen E n a)" for a n using assms(1) by (simp_all add: quietEnv_def)
  then have ip: "ResolveTCPAddr E a \<noteq> Panic m" "netListen E n a \<noteq> Panic m" for a n m by (metis noPanic_simps(3))+
  show ?thesis
    using False assms(2)
    by (auto simp: setupCVCServer_def operator_config NewHTTPServer_def NewCVCServer_def Listener_def cs_Shutdown_def bindS_def attemptS_def
        Let_def ip split: res.splits if_splits prod.splits)
qed

lemma http_Shutdown_open:
  "\<not> pr_shutdown p \<Longrightarrow> \<not> pr_closed p \<Longrightarrow>
   http_Shutdown (Some lis) p =
     (Ok (), p\<lparr>pr_listening := remove1 lis (pr_listening p), pr_shutdown := True, pr_closed := True\<rparr>)"
  by (simp add: http_Shutdown_def cs_Shutdown_def bindS_def Let_def)

text \<open>The part after the server is up touches neither listeners nor the shutdown.\<close>

lemma runElected_cases:
  assumes "quietEnv E" and "runElected E lock leader ns what p = (r, p')"
  shows "(r = Ok () \<and> p' = p\<lparr>pr_started := pr_started p @ [what]\<rparr>) \<or> ((\<exists>m. r = Panic (fatalMsg m)) \<and> p' = p)"
proof -
  have "noPanic (electLeader E lock ns)" using assms(1) by (simp add: quietEnv_def)
  then show ?thesis
    using assms(2)
    by (cases "electLeader E lock ns") (auto simp: runElected_def started_def fatalOn_def fatalS_def bindS_def attemptS_def split: if_splits)
qed

lemma cvc_serve_cases:
  assumes "quietEnv E" and "cvc_serve E leader ns p = (r, p')"
  shows "(\<exists>e. r = Err e) \<and> p' = p \<or> r = Ok () \<and> p' = p\<lparr>pr_started := pr_started p @ [''cvc controller'']\<rparr> \<or>
         leader \<and> (\<exists>m. r = Panic (fatalMsg m)) \<and> p' = p"
proof (cases "operatorNamespace E = '''' \<or> (\<exists>e. buildController E = Err e)")
  case True
  then show ?thesis using assms(2) by (auto simp: cvc_serve_def bindS_def split: if_splits)
next
  case False
  moreover have "noPanic (buildController E)" using assms(1) by (simp add: quietEnv_def)
  ultimately have "buildController E = Ok ()" by (cases "buildController E") auto
  with False assms(2) have "runElected E ''cvc-controller-leader'' leader ns ''cvc controller'' p = (r, p')"
    by (simp add: cvc_serve_def bindS_def)
  from runElected_cases [OF assms(1) this] this show ?thesis
    by (cases leader) (auto simp: runElected_def started_def)
qed

lemma HasPrefix_fatal [simp]: "HasPrefix (fatalMsg m) ''fatal: ''"
  unfolding fatalMsg_def HasPrefix_append by blast

section \<open>Properties\<close>

text \<open>
  C39. However the CVC operator's \<open>Start\<close> comes to return, no runtime panic occurs, every listener it opened is closed, and the
  channel of the server's shutdown is closed when the server was set up; only the calls that end the process (no bind address, a failed leader
  election) leave it open.
\<close>

theorem operator_server_released:
  assumes "quietEnv E" and "cvc_Start E kubeconfig bindAddr leader ns p = (r, p')"
  shows "(\<exists>m. r = Panic (fatalMsg m) \<and> (bindAddr = '''' \<or> leader)) \<or>
         (noPanic r \<and> pr_listening p' = pr_listening p \<and> (p' = p \<or> pr_shutdown p' \<and> pr_closed p') \<and>
          (r = Ok () \<longrightarrow> pr_started p' = pr_started p @ [''cvc controller'']))"
proof -
  have q: "noPanic (fst (startClients E kubeconfig p))" "snd (startClients E kubeconfig p) = p"
    using startClients_quiet [OF assms(1)] by (simp_all add: quietly_def)
  show ?thesis
  proof (cases "fst (startClients E kubeconfig p)")
    case (Ok u)
    with q have c: "startClients E kubeconfig p = (Ok u, p)" by (simp add: prod_eq_iff)
    obtain r1 p1 where su: "setupCVCServer E bindAddr p = (r1, p1)" by fastforce
    show ?thesis
    proof (cases r1)
      case (Ok lis)
      with setupCVCServer_cases [OF assms(1) su]
      have p1: "p1 = p\<lparr>pr_shutdown := False, pr_closed := False, pr_listening := lis # pr_listening p\<rparr>" by auto
      obtain r2 p2 where run: "cvc_serve E leader ns p1 = (r2, p2)" by fastforce
      have "(r, p') = deferS (http_Shutdown (Some lis)) (cvc_serve E leader ns) p1"
        using assms(2) c su Ok by (simp add: cvc_Start_def bindS_def wrapS_def)
      then show ?thesis
        using run cvc_serve_cases [OF assms(1) run] http_Shutdown_open [of p2 lis] by (auto simp: deferS_def p1)
    next
      case (Err e)
      then show ?thesis
        using assms(2) c su setupCVCServer_cases [OF assms(1) su] by (auto simp: cvc_Start_def bindS_def wrapS_def)
    next
      case (Panic m)
      then show ?thesis
        using assms(2) c su setupCVCServer_cases [OF assms(1) su] by (auto simp: cvc_Start_def bindS_def wrapS_def)
    qed
  qed (use assms(2) q in \<open>auto simp: cvc_Start_def bindS_def split: prod.splits\<close>)
qed

definition sampleStart :: startEnv where
  "sampleStart =
     \<lparr>flagSet = Ok (), InClusterConfig = Ok ''cluster'', BuildConfigFromFlags = (\<lambda>k. Ok k), kubeClientFor = (\<lambda>c. Ok ()),
      openebsClientFor = (\<lambda>c. Ok ()), ResolveTCPAddr = (\<lambda>a. Ok (''10.0.0.7'', 5757)), netListen = (\<lambda>n a. Ok (n @ '' socket'')),
      removeSocket = Ok (), operatorNamespace = '''', buildController = Ok (), runController = (\<lambda>c. Ok ()),
      electLeader = (\<lambda>l n. Ok ())\<rparr>"

text \<open>Without a namespace the operator fails after its server is up; the listener is closed again.\<close>

theorem operator_server_released_witness:
  "let p = \<lparr>pr_listening = [], pr_shutdown = False, pr_closed = False, pr_started = []\<rparr>;
       run = cvc_Start sampleStart '''' ''10.0.0.7'' False '''' p in
   pr_listening (snd run) = [] \<and> pr_closed (snd run) \<and> (\<exists>e. fst run = Err e) \<and>
   pr_listening (snd (setupCVCServer sampleStart ''10.0.0.7'' p)) = [''tcp socket'']"
proof -
  let ?p = "\<lparr>pr_listening = [], pr_shutdown = False, pr_closed = False, pr_started = []\<rparr>"
  let ?run = "cvc_Start sampleStart '''' ''10.0.0.7'' False '''' ?p"
  have "quietEnv sampleStart" by (simp add: quietEnv_def sampleStart_def)
  moreover have "?run = (fst ?run, snd ?run)" by simp
  ultimately have "(\<exists>m. fst ?run = Panic (fatalMsg m) \<and> (''10.0.0.7'' = '''' \<or> False)) \<or>
      (noPanic (fst ?run) \<and> pr_listening (snd ?run) = pr_listening ?p \<and> (snd ?run = ?p \<or> pr_shutdown (snd ?run) \<and> pr_closed (snd ?run)) \<and>
       (fst ?run = Ok () \<longrightarrow> pr_started (snd ?run) = pr_started ?p @ [''cvc controller'']))"
    by (rule operator_server_released)
  then have "pr_listening (snd ?run) = []" by simp
  moreover have "pr_closed (snd ?run) \<and> fst ?run = Err (Errorf ''failed to get openebs namespace got empty'' [])"
    by (simp add: cvc_Start_def startClients_def setupCVCServer_def NewHTTPServer_def NewCVCServer_def Listener_def cvc_serve_def
        operator_config http_Shutdown_def cs_Shutdown_def deferS_def bindS_def attemptS_def wrapS_def flagClusterConfig_def sampleStart_def Let_def)
  moreover have "pr_listening (snd (setupCVCServer sampleStart ''10.0.0.7'' ?p)) = [''tcp socket'']"
    by (simp add: setupCVCServer_def NewHTTPServer_def NewCVCServer_def Listener_def operator_config bindS_def attemptS_def sampleStart_def
        Let_def)
  ultimately show ?thesis by (simp only: Let_def simp_thms) blast
qed

text \<open>The turn after \<open>n\<close> failed ones is the first to succeed, and leaves \<open>t\<close>.\<close>

definition firstSuccess :: "('s \<Rightarrow> bool \<times> 's) \<Rightarrow> nat \<Rightarrow> 's \<Rightarrow> 's \<Rightarrow> bool" where
  "firstSuccess turn n s t \<longleftrightarrow>
     (\<forall>i<n. \<not> fst (turn (((snd \<circ> turn) ^^ i) s))) \<and> turn (((snd \<circ> turn) ^^ n) s) = (True, t)"

lemma firstSuccess_0: "firstSuccess turn 0 s t \<longleftrightarrow> turn s = (True, t)"
  by (simp add: firstSuccess_def)

lemma firstSuccess_Suc: "firstSuccess turn (Suc n) s t \<longleftrightarrow> \<not> fst (turn s) \<and> firstSuccess turn n (snd (turn s)) t"
  by (auto simp: firstSuccess_def All_less_Suc2 funpow_simps_right simp del: funpow.simps)

lemma awaitTurn_sound: "awaitTurn turn s = Some t \<Longrightarrow> \<exists>n. firstSuccess turn n s t"
proof (rule awaitTurn.raw_induct [where P = "\<lambda>turn s t. \<exists>n. firstSuccess turn n s t"], goal_cases)
  case (1 await turn s t)
  show ?case
  proof (cases "fst (turn s)")
    case True
    with 1(3) have "firstSuccess turn 0 s t" by (cases "turn s") (simp add: firstSuccess_0)
    then show ?thesis ..
  next
    case False
    with 1(3) have "await turn (snd (turn s)) = Some t" by (simp add: split_beta)
    with 1(2) obtain n where "firstSuccess turn n (snd (turn s)) t" by blast
    with False have "firstSuccess turn (Suc n) s t" by (simp add: firstSuccess_Suc)
    then show ?thesis ..
  qed
qed

lemma awaitTurn_complete: "firstSuccess turn n s t \<Longrightarrow> awaitTurn turn s = Some t"
  by (induction n arbitrary: s) (simp_all add: firstSuccess_0 firstSuccess_Suc awaitTurn.simps [of turn] split_beta)

lemma awaitTurn_iff: "awaitTurn turn s = Some t \<longleftrightarrow> (\<exists>n. firstSuccess turn n s t)"
  by (rule iffI, erule awaitTurn_sound, erule exE, erule awaitTurn_complete)

text \<open>
  The wait of the pool manager for zrepl returns exactly when some status command of the pool succeeds, the commands before it having
  failed, each followed by a pause of three seconds; otherwise it goes on for ever.
\<close>

theorem zrepl_awaited:
  "CheckForZreplInitial P Sleep w = Some w' \<longleftrightarrow>
     (\<exists>n. firstSuccess (\<lambda>w. case pstatus_Execute (bash P) noChecks NewPoolStatus w of ((_, err), w') \<Rightarrow>
            (err = None, if err = None then w' else Sleep 3 w')) n w w')"
proof -
  have "(\<lambda>w. case pstatus_Execute (bash P) noChecks NewPoolStatus w of ((_, err), w') \<Rightarrow> if err = None then (True, w') else (False, Sleep 3 w')) =
      (\<lambda>w. case pstatus_Execute (bash P) noChecks NewPoolStatus w of ((_, err), w') \<Rightarrow> (err = None, if err = None then w' else Sleep 3 w'))"
    by (auto simp: fun_eq_iff split: prod.split)
  then show ?thesis by (simp only: CheckForZreplInitial_def awaitTurn_iff)
qed

section \<open>Order and errors\<close>

lemma fatalOn_Ok_iff: "fatalOn m msg s = (Ok x, s') \<longleftrightarrow> m s = (Ok x, s')"
  by (auto simp: fatalOn_def fatalS_def bindS_def attemptS_def split: prod.splits res.splits)

lemma runsOrDies_Ok: "runsOrDies E what p = (Ok x, p') \<Longrightarrow> p' = p\<lparr>pr_started := pr_started p @ [what]\<rparr>"
  by (auto simp: runsOrDies_def started_def bindS_Ok_iff fatalOn_Ok_iff readS_def)

text \<open>When the pool manager is up, its four controllers were started in this order, the last three after the pool was asked for.\<close>

lemma pool_manager_started:
  assumes "pm_Start E P Sleep kubeconfig (p, w) = Some (Ok (), p', w')"
  shows "\<exists>w1 names. CheckForZreplInitial P Sleep w = Some w1 \<and> CheckForCStorPool P w1 = Some (names, w') \<and>
     (\<exists>p1. startClients E kubeconfig p = (Ok (), p1) \<and>
        pr_started p' = pr_started p1 @ [''CStorPoolInstance controller'', ''CStorVolumeReplica controller'', ''backup controller'',
          ''cStor restore controller''])"
proof -
  obtain p1 w1 p2 names where "startClients E kubeconfig p = (Ok (), p1)" "CheckForZreplInitial P Sleep w = Some w1"
    "CheckForCStorPool P w1 = Some (names, w')" and run: "runsOrDies E ''CStorPoolInstance controller'' p1 = (Ok (), p2)"
    "bindS (runsOrDies E ''CStorVolumeReplica controller'') (\<lambda>_. bindS (runsOrDies E ''backup controller'') (\<lambda>_.
       runsOrDies E ''cStor restore controller'')) p2 = (Ok (), p')"
    using assms unfolding pm_Start_def by (simp split: prod.splits res.splits option.splits)
  moreover have "pr_started p' = pr_started p1 @ [''CStorPoolInstance controller'', ''CStorVolumeReplica controller'', ''backup controller'',
      ''cStor restore controller'']"
  proof -
    obtain x3 p3 x4 p4 where "runsOrDies E ''CStorVolumeReplica controller'' p2 = (Ok x3, p3)"
      "runsOrDies E ''backup controller'' p3 = (Ok x4, p4)" "runsOrDies E ''cStor restore controller'' p4 = (Ok (), p')"
      using run(2) unfolding bindS_Ok_iff by (elim exE conjE)
    from this [THEN runsOrDies_Ok] run(1) [THEN runsOrDies_Ok] show ?thesis by simp
  qed
  ultimately show ?thesis by blast
qed

text \<open>
  The errors of \<open>Accept\<close> are wrapped (\<open>net.OpError\<close>), so the first of them ends the process, whatever the number inside; the
  connections before it were served.
\<close>

lemma acceptLoop_served: "acceptLoop (map Inr conns @ rest) = (conns @ fst (acceptLoop rest), snd (acceptLoop rest))"
  by (induction conns) (simp_all add: split_beta)

lemma first_accept_error_fatal: "acceptLoop (map Inr conns @ Inl (OpError op err) # rest) = (conns, Some (OpError op err))"
  by (simp add: acceptLoop_served IsSafeToRetry_def)

text \<open>The webhook is up only when its secret, service and registration are in place.\<close>

lemma webhook_main_Ok:
  assumes "webhook_main E W kubeconfig s = (Ok crt, s')"
  shows "\<exists>owner u. GetAdmissionReference W s = Ok owner \<and> InitValidationServer W owner s = (Ok u, s') \<and> newWebhook W s' = Ok crt"
  using assms
  unfolding webhook_main_def bindS_Ok_iff fatalOn_Ok_iff readS_def prod.inject by (clarify, intro exI conjI) assumption+

end
