(* ===== verification/Spec2Isabelle.thy ===== *)
theory Spec2Isabelle
  imports CspcSync VolumeWebhook ReplicaSafety VolumeProtocol ServerSafety
    WorkerSafety WebhookSafety BinaryVersion FaultInjection ProgramStart
begin

text \<open>
  A verification of the cStor operators of OpenEBS (\<open>src/pkg\<close>).

  \<^bold>\<open>The program.\<close> Five programs share a Kubernetes API server and the block devices of the storage nodes.
  The admission webhook (\<open>webhook/\<close>) decides which changes of pool clusters (CSPC), volume configurations (CVC),
  claims and namespaces are let through. The CSPC operator (\<open>controllers/cspc-controller\<close>, \<open>cspc/algorithm\<close>)
  turns each admitted cluster into pool instances (CSPI), one per node, with the block device claims and the
  deployment of a pool manager. The pool manager of a node runs four controllers: the CSPI controller
  (\<open>controllers/cspi-controller\<close>, \<open>pool/operations\<close>) makes the zpool of its instance what the instance says, and
  the replica controller (\<open>controllers/replica-controller\<close>, \<open>volumereplica\<close>) does the same for the zfs volumes of
  volume replicas (CVR), both through the command builders of \<open>zcmd/\<close>; two more send backups and receive restores.
  The CVC operator (\<open>controllers/cstorvolumeconfig\<close>) turns a volume configuration into a service, a volume (CV), the
  deployment of its target and replicas on the pools of a cluster, scales and resizes it, and keeps the pod disruption budgets;
  its REST server (\<open>server/cstorvolumeconfig\<close>) takes requests for backups and restores and has istgt make snapshots
  (\<open>snapshot\<close>, \<open>volume-rpc/client\<close>). The volume manager in the target pod (\<open>controllers/volume-mgmt\<close>, \<open>volume-rpc/targetserver\<close>)
  configures istgt, registers the replicas that connect to it, and reports the state of the volume.

  \<^bold>\<open>Theories.\<close>
  \<^item> \<open>Prelude\<close>: outcomes of Go calls (value, error, panic), maps, strings, actions on a state, and the calculi
    \<open>keeps\<close> (an action preserves a predicate whatever its outcome) and \<open>gives\<close> (what its results satisfy).
  \<^item> \<open>ApiTypes\<close>: the objects of the API server as records, and the record \<open>env\<close> of parameters: the client calls, the
    functions of \<open>github.com/openebs/api\<close> and the constants the code takes from there.
  \<^item> \<open>SampleServer\<close>, \<open>SampleNode\<close>, \<open>SampleReplica\<close>, \<open>SampleVolume\<close>, \<open>SampleTarget\<close>, \<open>SampleBackup\<close>, \<open>SampleWebhook\<close>: concrete instances of the parameters, for the witnesses only.
  \<^item> \<open>CspcWebhook\<close>, \<open>CspcPoolOps\<close>: \<open>webhook/cspc.go\<close>, \<open>cspc_operations.go\<close>, \<open>admission_response.go\<close>. A create or delete
    request is allowed exactly for admissible clusters; an allowed update keeps the cluster admissible, removes no
    pool with replicas and changes raid groups only by one replacement each; the only writes are replacement claims.
  \<^item> \<open>VolumeWebhook\<close>: \<open>webhook/cvc.go\<close>, \<open>pvc.go\<close>, \<open>namespace.go\<close>, \<open>webhook.go\<close>, with exact characterisations of the admitted
    requests.
  \<^item> \<open>Versions\<close>: \<open>version/util.go\<close> and \<open>webhook/util.go\<close>: the order on versions, and the rendering of 64-bit capacities.
  \<^item> \<open>PoolAlgorithm\<close>, \<open>PoolDeploy\<close>: \<open>cspc/algorithm\<close>: node selection is sound and complete, instances are built only from
    claimed devices, deployments are well formed.
  \<^item> \<open>Conditions\<close>: the condition lists of clusters and instances, both instances of the locale \<open>condition_map\<close>.
  \<^item> \<open>CspcOperator\<close>, \<open>CspcSync\<close>: \<open>controllers/cspc-controller\<close>: replacement brings an instance to the spec the webhook
    admitted (a refinement across the two programs), scale up keeps instances separate, scale down and cleanup spare
    live pools, foreign versions are left alone.
  \<^item> \<open>ZcmdBase\<close>, \<open>ZpoolCmd\<close>, \<open>ZfsCmd\<close>: the thirty builders of \<open>zcmd/\<close> with the command line each one writes.
  \<^item> \<open>PoolTopology\<close>, \<open>PoolManager\<close>, \<open>CspiController\<close>: \<open>zcmd/zpool/dump/utils.go\<close>, \<open>pool/operations\<close> and
    \<open>controllers/cspi-controller\<close>, a reconcile round as the sequence of commands it runs.
  \<^item> \<open>PoolSafety\<close>: a live pool is never destroyed, exported or cleared; claims of replaced devices are released only
    after resilvering; the protection finalizer goes only with the pool; the read-only threshold; pool properties.
  \<^item> \<open>VolumeReplica\<close>, \<open>ReplicaController\<close>: \<open>volumereplica/volumereplica.go\<close>, \<open>util/hash\<close>, \<open>controllers/common\<close>,
    \<open>controllers/replica-controller\<close>.
  \<^item> \<open>ReplicaSafety\<close>: only a destroy request destroys a volume; a replica is released only with its volume; its
    snapshot lists match zfs and its peers; backups end.
  \<^item> \<open>VolumeTarget\<close>, \<open>VolumeOperations\<close>, \<open>VolumeConfig\<close>: \<open>controllers/cstorvolumeconfig\<close>: the target deployment and
    policies, services, volumes, replicas and budgets, and a synchronisation round.
  \<^item> \<open>VolumeSafety\<close>, \<open>VolumeScaling\<close>: a budget is deleted only with its last user; replicas are placed on distinct usable
    pools; what the webhook admits is what the controller can scale; a scale down waits for the target.
  \<^item> \<open>VolumeTargetConf\<close>, \<open>VolumeManager\<close>: \<open>controllers/volume-mgmt\<close> and \<open>volume-rpc/targetserver\<close>. \<open>VolumeContract\<close>: the
    locale \<open>managedVolumes\<close>, for a property of volumes that survives what the manager writes: every operation of the manager keeps it of
    the stored volumes. \<open>VolumeLife\<close>: no stored
    volume knows more replicas than are desired; requests of istgt are read as sent; a volume the operator creates is
    accepted by the manager.
  \<^item> \<open>VolumeProtocol\<close>: the operator and the volume manager on one server, as a step relation. The locale \<open>sharedVolumes\<close> extends
    \<open>managedVolumes\<close> by what the operator writes; by rule induction the replicas of every volume stay tracked, so a scale down deletes no replica
    the target has not confirmed; and three rounds of the two carry a scale down through.
  \<^item> \<open>BackupController\<close>: \<open>controllers/backup-controller\<close> and \<open>controllers/restore-controller\<close>. \<open>BackupServer\<close>, \<open>RestoreServer\<close>:
    \<open>server/cstorvolumeconfig\<close>, \<open>snapshot\<close> and \<open>volume-rpc/client/api.go\<close>.
  \<^item> \<open>BackupSafety\<close>: a backup finishes, and is done only with its data sent and its snapshot recorded. \<open>ServerSafety\<close>: the two
    wrappers of a backup as instances of the locale \<open>backup_wrapper\<close>; answers for stalled backups; restores for every
    replica; snapshots; the bounded wait for a volume.
  \<^item> \<open>WorkQueue\<close>: the runners and event handlers of all seven controllers (\<open>runner.go\<close>, \<open>controller.go\<close>,
    \<open>controller_base.go\<close>), one worker as a loop and all workers of a controller as a step relation. \<open>WorkerSafety\<close>: one worker per key;
    failed keys are queued again and failed loads are not; workers leave after a shutdown. Both ways of settling an item are
    instances of the locale \<open>settling\<close>.
  \<^item> \<open>WebhookSetup\<close>: \<open>webhook/configuration.go\<close>, \<open>triple.go\<close> and the HTTP handler of \<open>webhook.go\<close>. \<open>WebhookSafety\<close>: every request a
    check could reject is registered; the API server trusts the certificate of the server; only validated requests are admitted.
  \<^item> \<open>BinaryVersion\<close>: \<open>version/version.go\<close>, names with a version as their suffix.
  \<^item> \<open>FaultInjection\<close>: \<open>debug/\<close>: the configuration of injected faults refines a set of faults, each setter an instance of the locale
    \<open>faultSetter\<close> and each query of a debug build one of \<open>faultFlag\<close>; what an injected fault does to the replica library, and that a release
    build does not look; the server's answers and the round trip through the client.
  \<^item> \<open>ProgramStart\<close>: \<open>server/config.go\<close>, the life of the REST server, the start functions of the five programs, the waits and the accept
    loop of the target server: what the CVC operator opens it closes, and waits return exactly when a turn succeeds.

  \<^bold>\<open>Parameters.\<close> Code outside \<open>src/\<close> is a parameter: \<open>env\<close> (API server, client-go, \<open>openebs/api\<close>), \<open>penv\<close> (adds the command
  executor of the node, JSON decoders and pool constants), \<open>renv\<close> (adds the command runner, the hash function and the
  replica client), \<open>cenv\<close> (adds the clients of the CVC operator and its random order), \<open>venv\<close> (istgt's socket and configuration
  file), \<open>benv\<close> (clients for backups and restores), \<open>senv\<close> (adds decoders, gRPC, the version parser, unique identifiers
  and pauses), \<open>wqueue\<close> (the rate limited queue of client-go), \<open>wenv\<close> (secrets, services, registrations, cryptography),
  \<open>build\<close> (what the linker and git provide), \<open>jsonEnv\<close> and \<open>httpEnv\<close> (JSON and HTTP of the fault injection) and \<open>startEnv\<close> (flags, clients, sockets,
  leader election). A theorem that relies on one of them says so in a hypothesis, and its witness instantiates it.

  \<^bold>\<open>State.\<close> The API server and the node are one abstract state; calls that read take it, calls that write return
  its successor. The pool manager adds its process state (\<open>pm\<close>: the import flag, the volumes found at import, the
  cache of properties). A handler that mutates the object it was given returns the object.

  \<^bold>\<open>Bounds and fuel.\<close> Every loop of the model is a total function, but for \<open>runWorker\<close>, \<open>CheckForCStorPool\<close> and
  \<open>awaitTurn\<close>, which may run forever and give nothing then; when they return is a theorem about each. Retries have the bounds of the source: three
  attempts for status writes, ten for transfers, five looks for a bound volume, \<open>cnt + 2\<close> queries of \<open>PoolNameHandler\<close>; scale up recurs on the number of
  missing instances; \<open>byteCountLoop\<close> ends because its divisor grows.

  \<^bold>\<open>Idealisations.\<close> The order of map iteration is a parameter where a result may depend on it. A nil and an empty map
  or slice are one value unless the code tells them apart. The clock is a function of the state. Strings are byte
  lists and case functions act on ASCII. Logs, events, metrics, sleeps and the mutex around the controllers are left out.
  The text of an error is kept as format and arguments and never rendered; formats with a pool name in their place are
  taken literally.

  Where two programs interleave (\<open>volumeStep\<close>) a step is a whole round; the server refuses an overtaken write by its resource version, and
  that refusal is one of the failures of the client.

  \<^bold>\<open>Not modelled.\<close> Informers, client-go's queue and leader election (parameters); the constructors of the controllers, which hand clients and
  informers to the libraries and register the handlers modelled here; the constants that name events; Prometheus counters; logging; and the
  fakes under \<open>controllers/testutil\<close>: glue around libraries, without logic of their own.
\<close>

end
